(* ===== verification/Prelude.thy ===== *)
theory Prelude
  imports Main "HOL-Library.Multiset" "HOL-Library.Word" "HOL-Library.List_Lexorder" "HOL-Library.Char_ord"
begin

text \<open>
  What every component of the model shares: Go's \<^verbatim>\<open>error\<close> values, the combinators for
  the \<^verbatim>\<open>if err := ...; err != nil { return err }\<close> idiom and for the loops that stop at the
  first error, nil-able slices, and the operations of the Go \<^verbatim>\<open>strings\<close> and
  \<^verbatim>\<open>regexp\<close> packages the program uses, on byte strings.
\<close>

named_theorems check_simps "characterisations: when a check returns nil"

section \<open>Errors\<close>

text \<open>
  A Go error is a sentinel (\<^verbatim>\<open>errors.New\<close>), a formatted error (\<^verbatim>\<open>fmt.Errorf\<close>, kept as
  its format string and its arguments) or an error struct (its type name and fields, a wrapped
  cause as \<open>GWrap\<close>).
  An argument printed with \<^verbatim>\<open>%w\<close> is wrapped (\<open>GWrap\<close>, seen by \<^verbatim>\<open>errors.Is\<close>), one
  printed with \<^verbatim>\<open>%v\<close> is only text (\<open>GVal\<close>).
\<close>

datatype go_error =
    Sentinel string
  | Errorf string "go_arg list"
  | ErrStruct string "(string \<times> go_arg) list"
and go_arg =
    GStr string
  | GNat nat
  | GStrs "string list"
  | GVal go_error
  | GWrap go_error

text \<open>The \<^verbatim>\<open>error\<close> interface: \<open>None\<close> is nil. A pair \<^verbatim>\<open>(T, error)\<close> is a sum.\<close>

type_synonym go_err = "go_error option"
type_synonym 'a result = "go_error + 'a"

definition err_if :: "bool \<Rightarrow> go_error \<Rightarrow> go_err" where
  "err_if c e = (if c then Some e else None)"

fun first_err :: "go_err list \<Rightarrow> go_err" where
  "first_err [] = None"
| "first_err (e # es) = (case e of None \<Rightarrow> first_err es | Some x \<Rightarrow> Some x)"

definition wrap_err :: "(go_error \<Rightarrow> go_error) \<Rightarrow> go_err \<Rightarrow> go_err" where
  "wrap_err f e = map_option f e"

fun bindE :: "'a result \<Rightarrow> ('a \<Rightarrow> 'b result) \<Rightarrow> 'b result" where
  "bindE (Inl e) f = Inl e"
| "bindE (Inr x) f = f x"

definition check_then :: "go_err \<Rightarrow> 'a result \<Rightarrow> 'a result" where
  "check_then e r = (case e of Some x \<Rightarrow> Inl x | None \<Rightarrow> r)"

lemma err_if_None [simp, check_simps]: "err_if c e = None \<longleftrightarrow> \<not> c"
  by (simp add: err_if_def)

lemma err_if_Some [simp]: "err_if c e = Some x \<longleftrightarrow> c \<and> x = e"
  by (auto simp: err_if_def)

lemma first_err_None [check_simps]: "first_err es = None \<longleftrightarrow> (\<forall>e \<in> set es. e = None)"
  by (induction es) (auto split: option.splits)

lemma first_err_Cons_None [simp]:
  "first_err (e # es) = None \<longleftrightarrow> e = None \<and> first_err es = None"
  by (auto split: option.splits)

lemma first_err_Nil [simp]: "first_err [] = None"
  by simp

declare first_err.simps(2) [simp del]

lemma wrap_err_None [simp, check_simps]: "wrap_err f e = None \<longleftrightarrow> e = None"
  by (simp add: wrap_err_def)

lemma bindE_Inr [simp]: "bindE r f = Inr y \<longleftrightarrow> (\<exists>x. r = Inr x \<and> f x = Inr y)"
  by (cases r) auto

lemma check_then_Inr [simp]: "check_then e r = Inr y \<longleftrightarrow> e = None \<and> r = Inr y"
  by (auto simp: check_then_def split: option.splits)

lemma check_then_None [simp]: "check_then None r = r"
  by (simp add: check_then_def)

lemma check_then_Some [simp]: "check_then (Some e) r = Inl e"
  by (simp add: check_then_def)

section \<open>Loops that stop at the first error\<close>

text \<open>
  \<open>each_from i f xs\<close> is \<^verbatim>\<open>for i, x := range xs { if err := f(i, x); err != nil { return err } }\<close>
  started at index \<open>i\<close>. \<open>unique_from\<close> is the same loop with a \<^verbatim>\<open>seen\<close> map of keys: after the
  element's own check it reports a key met before.
\<close>

fun each_from :: "nat \<Rightarrow> (nat \<Rightarrow> 'a \<Rightarrow> go_err) \<Rightarrow> 'a list \<Rightarrow> go_err" where
  "each_from i f [] = None"
| "each_from i f (x # xs) = (case f i x of Some e \<Rightarrow> Some e | None \<Rightarrow> each_from (Suc i) f xs)"

fun unique_from :: "(nat \<Rightarrow> 'a \<Rightarrow> go_err) \<Rightarrow> ('a \<Rightarrow> string) \<Rightarrow> (nat \<Rightarrow> string \<Rightarrow> go_error) \<Rightarrow>
    nat \<Rightarrow> string list \<Rightarrow> 'a list \<Rightarrow> go_err" where
  "unique_from v key dup i seen [] = None"
| "unique_from v key dup i seen (x # xs) =
     (case v i x of
        Some e \<Rightarrow> Some e
      | None \<Rightarrow> (if key x \<in> set seen then Some (dup i (key x))
                 else unique_from v key dup (Suc i) (key x # seen) xs))"

abbreviation each :: "(nat \<Rightarrow> 'a \<Rightarrow> go_err) \<Rightarrow> 'a list \<Rightarrow> go_err" where
  "each \<equiv> each_from 0"

abbreviation each_unique :: "(nat \<Rightarrow> 'a \<Rightarrow> go_err) \<Rightarrow> ('a \<Rightarrow> string) \<Rightarrow> (nat \<Rightarrow> string \<Rightarrow> go_error) \<Rightarrow>
    'a list \<Rightarrow> go_err" where
  "each_unique v key dup \<equiv> unique_from v key dup 0 []"

lemma each_from_None [check_simps]:
  "each_from i f xs = None \<longleftrightarrow> (\<forall>j < length xs. f (i + j) (xs ! j) = None)"
proof (induction xs arbitrary: i)
  case Nil
  then show ?case by simp
next
  case (Cons x xs)
  show ?case
    by (cases "f i x") (auto simp: Cons.IH less_Suc_eq_0_disj)
qed

lemma each_from_iff:
  assumes "\<And>j x. f j x = None \<longleftrightarrow> P x"
  shows "each_from i f xs = None \<longleftrightarrow> (\<forall>x \<in> set xs. P x)"
  by (auto simp: each_from_None assms all_set_conv_all_nth)

lemma unique_from_iff:
  assumes "\<And>j x. v j x = None \<longleftrightarrow> P x"
  shows "unique_from v key dup i seen xs = None \<longleftrightarrow>
    (\<forall>x \<in> set xs. P x) \<and> distinct (map key xs) \<and> set (map key xs) \<inter> set seen = {}"
proof (induction xs arbitrary: i seen)
  case Nil
  then show ?case by simp
next
  case (Cons x xs)
  then show ?case
    using assms [of i x] by (cases "v i x") auto
qed

text \<open>The loops whose body is one check of the element, whatever its index.\<close>

lemma each_const_None [simp, check_simps]:
  "each_from i (\<lambda>_ x. g x) xs = None \<longleftrightarrow> (\<forall>x \<in> set xs. g x = None)"
  by (rule each_from_iff) simp

lemma each_wrap_None [simp, check_simps]:
  "each_from i (\<lambda>j x. wrap_err (h j) (g x)) xs = None \<longleftrightarrow> (\<forall>x \<in> set xs. g x = None)"
  by (rule each_from_iff) simp

lemma each_err_if_None [simp, check_simps]:
  "each_from i (\<lambda>j x. err_if (c x) (h j x)) xs = None \<longleftrightarrow> (\<forall>x \<in> set xs. \<not> c x)"
  by (rule each_from_iff) simp

lemma unique_wrap_None [simp, check_simps]:
  "unique_from (\<lambda>j x. wrap_err (h j) (g x)) key dup i seen xs = None \<longleftrightarrow>
    (\<forall>x \<in> set xs. g x = None) \<and> distinct (map key xs) \<and> set (map key xs) \<inter> set seen = {}"
  by (rule unique_from_iff) simp

lemma unique_const_None [simp, check_simps]:
  "unique_from (\<lambda>_ x. g x) key dup i seen xs = None \<longleftrightarrow>
    (\<forall>x \<in> set xs. g x = None) \<and> distinct (map key xs) \<and> set (map key xs) \<inter> set seen = {}"
  by (rule unique_from_iff) simp

text \<open>A sort by distinct keys does not see the order of its input.\<close>

lemma sort_key_permuted:
  assumes "mset xs = mset ys" "distinct (map f ys)"
  shows "sort_key f xs = sort_key f ys"
proof (rule sort_key_inj_key_eq)
  show "mset xs = mset (sort_key f ys)" using assms(1) by simp
  have "set xs = set ys" using assms(1) by (rule mset_eq_setD)
  then show "inj_on f (set xs)" using assms(2) by (simp add: distinct_map)
qed simp

lemma find_SomeD: "List.find P xs = Some x \<Longrightarrow> x \<in> set xs \<and> P x"
  by (auto simp: find_Some_iff)

lemma find_key_mem: "List.find (\<lambda>y. key y = k) xs = Some x \<Longrightarrow> k \<in> key ` set xs"
  by (auto dest!: find_SomeD)

lemma find_key_None: "List.find (\<lambda>y. key y = k) xs = None \<longleftrightarrow> k \<notin> key ` set xs"
  by (auto simp: find_None_iff)

section \<open>Slices that may be nil\<close>

text \<open>
  A Go slice whose nil value the code tells from the empty slice (\<^verbatim>\<open>x == nil\<close>, JSON
  \<^verbatim>\<open>null\<close> against \<^verbatim>\<open>[]\<close>): \<open>None\<close> is nil.
\<close>

type_synonym 'a slice = "'a list option"

definition elems :: "'a slice \<Rightarrow> 'a list" where
  "elems s = (case s of None \<Rightarrow> [] | Some xs \<Rightarrow> xs)"

lemma elems_simps [simp]: "elems None = []" "elems (Some xs) = xs"
  by (simp_all add: elems_def)

section \<open>Byte strings\<close>

text \<open>
  A Go string is a sequence of bytes and \<open>string\<close> is a list of 8-bit characters, so the two
  agree; \<^verbatim>\<open>len\<close> is \<open>length\<close>. \<^verbatim>\<open>sort.Strings\<close> is \<open>sort\<close> under the bytewise lexicographic order
  (\<^theory_text>\<open>List_Lexorder\<close> over \<^theory_text>\<open>Char_ord\<close>).
\<close>

definition has_prefix :: "string \<Rightarrow> string \<Rightarrow> bool" where
  "has_prefix p s \<longleftrightarrow> take (length p) s = p"

definition has_suffix :: "string \<Rightarrow> string \<Rightarrow> bool" where
  "has_suffix p s \<longleftrightarrow> has_prefix (rev p) (rev s)"

fun str_contains :: "string \<Rightarrow> string \<Rightarrow> bool" where
  "str_contains [] sub = (sub = [])"
| "str_contains (c # s) sub = (has_prefix sub (c # s) \<or> str_contains s sub)"

lemma has_prefix_iff: "has_prefix p s \<longleftrightarrow> (\<exists>r. s = p @ r)"
  unfolding has_prefix_def by (metis append_eq_conv_conj append_take_drop_id)

lemma has_prefix_append [simp]: "has_prefix p (p @ r)"
  by (simp add: has_prefix_def)

lemma str_contains_iff: "str_contains s sub \<longleftrightarrow> (\<exists>a b. s = a @ sub @ b)"
proof (induction s)
  case Nil
  then show ?case by auto
next
  case (Cons c s)
  show ?case
  proof
    assume "str_contains (c # s) sub"
    then show "\<exists>a b. c # s = a @ sub @ b"
      using Cons.IH by (auto simp: has_prefix_iff) (metis append_Cons append_Nil)+
  next
    assume "\<exists>a b. c # s = a @ sub @ b"
    then obtain a b where ab: "c # s = a @ sub @ b" by blast
    show "str_contains (c # s) sub"
    proof (cases a)
      case Nil
      then have "has_prefix sub (c # s)" using ab by (simp add: has_prefix_iff)
      then show ?thesis by simp
    next
      case (Cons d a')
      then show ?thesis using ab Cons.IH by auto
    qed
  qed
qed

subsection \<open>strings.TrimSpace\<close>

text \<open>
  The UTF-8 encodings of the code points \<^verbatim>\<open>unicode.IsSpace\<close> accepts. A leading (trailing) space
  rune is exactly a prefix (suffix) of the string that is one of these encodings.
\<close>

definition space_runes :: "string list" where
  "space_runes =
     [[CHR 0x09], [CHR 0x0A], [CHR 0x0B], [CHR 0x0C], [CHR 0x0D], [CHR 0x20],
      [CHR 0xC2, CHR 0x85], [CHR 0xC2, CHR 0xA0], [CHR 0xE1, CHR 0x9A, CHR 0x80]]
     @ map (\<lambda>c. [CHR 0xE2, CHR 0x80, c])
         [CHR 0x80, CHR 0x81, CHR 0x82, CHR 0x83, CHR 0x84, CHR 0x85, CHR 0x86, CHR 0x87,
          CHR 0x88, CHR 0x89, CHR 0x8A, CHR 0xA8, CHR 0xA9, CHR 0xAF]
     @ [[CHR 0xE2, CHR 0x81, CHR 0x9F], [CHR 0xE3, CHR 0x80, CHR 0x80]]"

function strip_any :: "string list \<Rightarrow> string \<Rightarrow> string" where
  "strip_any rs s =
     (case List.find (\<lambda>r. r \<noteq> [] \<and> has_prefix r s) rs of
        None \<Rightarrow> s
      | Some r \<Rightarrow> strip_any rs (drop (length r) s))"
  by pat_completeness auto
termination
proof (relation "measure (\<lambda>(rs, s). length s)")
  fix rs s r
  assume "List.find (\<lambda>r. r \<noteq> [] \<and> has_prefix r s) rs = Some r"
  then have "r \<noteq> []" "has_prefix r s" by (auto simp: find_Some_iff)
  then show "((rs, drop (length r) s), rs, s) \<in> measure (\<lambda>(rs, s). length s)"
    by (cases s) (auto simp: has_prefix_iff)
qed simp

declare strip_any.simps [simp del]

definition trim_space :: "string \<Rightarrow> string" where
  "trim_space s = rev (strip_any (map rev space_runes) (rev (strip_any space_runes s)))"

abbreviation blank :: "string \<Rightarrow> bool" where
  "blank s \<equiv> trim_space s = []"

text \<open>The first and last bytes that can belong to a space rune.\<close>

definition space_edge :: "char \<Rightarrow> bool" where
  "space_edge c \<longleftrightarrow> c \<in> set (map hd space_runes) \<or> c \<in> set (map last space_runes)"

lemma strip_any_id:
  assumes "\<forall>r \<in> set rs. r \<noteq> [] \<longrightarrow> hd r \<noteq> c"
  shows "strip_any rs (c # s) = c # s"
proof -
  have "List.find (\<lambda>r. r \<noteq> [] \<and> has_prefix r (c # s)) rs = None"
    using assms by (auto simp: find_None_iff has_prefix_iff neq_Nil_conv)
  then show ?thesis by (simp add: strip_any.simps)
qed

lemma space_runes_nonempty: "r \<in> set space_runes \<Longrightarrow> r \<noteq> []"
  by (auto simp: space_runes_def)

lemma strip_any_Nil [simp]: "strip_any rs [] = []"
proof -
  have "List.find (\<lambda>r. r \<noteq> [] \<and> has_prefix r []) rs = None"
    by (auto simp: find_None_iff has_prefix_def)
  then show ?thesis by (simp add: strip_any.simps)
qed

text \<open>A string that starts and ends with bytes of no space rune is its own trimming.\<close>

lemma trim_space_id:
  assumes "s \<noteq> []" "\<not> space_edge (hd s)" "\<not> space_edge (last s)"
  shows "trim_space s = s"
proof -
  have hds: "\<forall>r \<in> set space_runes. r \<noteq> [] \<longrightarrow> hd r \<noteq> hd s"
    using assms(2) unfolding space_edge_def set_map by (metis image_eqI)
  have lasts: "\<forall>r \<in> set (map rev space_runes). r \<noteq> [] \<longrightarrow> hd r \<noteq> hd (rev s)"
  proof (intro ballI impI notI)
    fix r assume r: "r \<in> set (map rev space_runes)" "r \<noteq> []" "hd r = hd (rev s)"
    then obtain q where q: "q \<in> set space_runes" "r = rev q" by auto
    with r assms(1) have "last q = last s" by (simp add: hd_rev)
    with q have "last s \<in> last ` set space_runes" by (metis image_eqI)
    then show False using assms(3) by (simp add: space_edge_def)
  qed
  have "strip_any space_runes s = s"
    using assms(1) strip_any_id [OF hds, of "tl s"] by simp
  moreover have "strip_any (map rev space_runes) (rev s) = rev s"
    using assms(1) strip_any_id [OF lasts, of "tl (rev s)"] by simp
  ultimately show ?thesis by (simp add: trim_space_def)
qed

lemma not_blankI: "s \<noteq> [] \<Longrightarrow> \<not> space_edge (hd s) \<Longrightarrow> \<not> space_edge (last s) \<Longrightarrow> \<not> blank s"
  by (simp add: trim_space_id)

lemma blank_Nil [simp]: "blank []"
  by (simp add: trim_space_def)

subsection \<open>Decimal and indexed field names\<close>

fun show_nat :: "nat \<Rightarrow> string" where
  "show_nat n = (if n < 10 then [char_of (48 + n)]
                 else show_nat (n div 10) @ [char_of (48 + n mod 10)])"

declare show_nat.simps [simp del]

text \<open>\<^verbatim>\<open>fmt.Sprintf("field[%d]", i)\<close>\<close>

definition idx :: "string \<Rightarrow> nat \<Rightarrow> string" where
  "idx field i = field @ ''['' @ show_nat i @ '']''"

subsection \<open>The regular expressions of the code, as matchers\<close>

text \<open>
  Every pattern is anchored at both ends and made of ASCII literals, ASCII classes and bounded or
  plus repetition, so matching on bytes agrees with matching on decoded runes.
\<close>

definition lower_hex :: string where "lower_hex = ''0123456789abcdef''"
definition any_hex :: string where "any_hex = ''0123456789abcdefABCDEF''"
definition digits10 :: string where "digits10 = ''0123456789''"
definition lower_az :: string where "lower_az = ''abcdefghijklmnopqrstuvwxyz''"
definition upper_az :: string where "upper_az = ''ABCDEFGHIJKLMNOPQRSTUVWXYZ''"

text \<open>\<^verbatim>\<open>^p[cls]{lo,hi}$\<close>\<close>

definition re_run :: "string \<Rightarrow> string \<Rightarrow> nat \<Rightarrow> nat \<Rightarrow> string \<Rightarrow> bool" where
  "re_run p cls lo hi s \<longleftrightarrow> has_prefix p s \<and>
     (let r = drop (length p) s in
       lo \<le> length r \<and> length r \<le> hi \<and> list_all (\<lambda>c. c \<in> set cls) r)"

text \<open>\<^verbatim>\<open>^[first][cls]{lo,hi}$\<close>\<close>

definition re_head_run :: "string \<Rightarrow> string \<Rightarrow> nat \<Rightarrow> nat \<Rightarrow> string \<Rightarrow> bool" where
  "re_head_run first cls lo hi s \<longleftrightarrow>
     (case s of [] \<Rightarrow> False | c # r \<Rightarrow> c \<in> set first \<and> re_run [] cls lo hi r)"

abbreviation re_id24 :: "string \<Rightarrow> string \<Rightarrow> bool" where
  "re_id24 p \<equiv> re_run p lower_hex 24 24"

text \<open>\<^verbatim>\<open>^[0-9]+\.[0-9]+\.[0-9]+$\<close>\<close>

fun dotted_digits :: "nat \<Rightarrow> string \<Rightarrow> bool" where
  "dotted_digits n s =
     (let d = takeWhile (\<lambda>c. c \<in> set digits10) s; r = dropWhile (\<lambda>c. c \<in> set digits10) s in
      d \<noteq> [] \<and>
      (case n of 0 \<Rightarrow> r = []
       | Suc m \<Rightarrow> (case r of c # r' \<Rightarrow> c = CHR ''.'' \<and> dotted_digits m r' | [] \<Rightarrow> False)))"

declare dotted_digits.simps [simp del]

definition re_semver :: "string \<Rightarrow> bool" where
  "re_semver s = dotted_digits 2 s"

lemma re_run_empty_prefix: "re_run [] cls lo hi s \<longleftrightarrow>
    lo \<le> length s \<and> length s \<le> hi \<and> (\<forall>c \<in> set s. c \<in> set cls)"
  by (simp add: re_run_def has_prefix_def list_all_iff Let_def)

lemma re_run_iff: "re_run p cls lo hi s \<longleftrightarrow>
    (\<exists>r. s = p @ r \<and> lo \<le> length r \<and> length r \<le> hi \<and> (\<forall>c \<in> set r. c \<in> set cls))"
  by (auto simp: re_run_def has_prefix_iff list_all_iff Let_def)

lemma re_run_nonempty: "re_run p cls lo hi s \<Longrightarrow> 0 < length p + lo \<Longrightarrow> s \<noteq> []"
  by (auto simp: re_run_iff)

end
