(* ===== verification/GoTime.thy ===== *)
theory GoTime
  imports Prelude
begin

text \<open>
  The part of Go's \<^verbatim>\<open>time\<close> package the program uses: \<^verbatim>\<open>time.Parse(time.RFC3339, s)\<close>,
  \<^verbatim>\<open>t.UTC().Format(time.RFC3339)\<close> and the comparisons \<^verbatim>\<open>Before\<close> and \<^verbatim>\<open>After\<close>.
  A time is an instant: seconds since the Unix epoch and nanoseconds within the second.
  The parser follows the general parser of the standard library, which accepts every string its
  fast path accepts, with the same value.
\<close>

section \<open>Instants\<close>

record instant =
  unix_secs :: int
  nanos :: int

definition time_before :: "instant \<Rightarrow> instant \<Rightarrow> bool" where
  "time_before a b \<longleftrightarrow> unix_secs a < unix_secs b \<or> (unix_secs a = unix_secs b \<and> nanos a < nanos b)"

abbreviation time_after :: "instant \<Rightarrow> instant \<Rightarrow> bool" where
  "time_after a b \<equiv> time_before b a"

lemma time_before_irrefl [simp]: "\<not> time_before a a"
  by (simp add: time_before_def)

lemma time_before_trans: "time_before a b \<Longrightarrow> time_before b c \<Longrightarrow> time_before a c"
  by (auto simp: time_before_def)

lemma not_before_trans: "\<not> time_before b a \<Longrightarrow> \<not> time_before c b \<Longrightarrow> \<not> time_before c a"
  by (auto simp: time_before_def)

section \<open>Civil dates\<close>

definition leap :: "int \<Rightarrow> bool" where
  "leap y \<longleftrightarrow> y mod 4 = 0 \<and> (y mod 100 \<noteq> 0 \<or> y mod 400 = 0)"

definition month_lengths :: "int \<Rightarrow> int list" where
  "month_lengths y = [31, if leap y then 29 else 28, 31, 30, 31, 30, 31, 31, 30, 31, 30, 31]"

definition days_in :: "int \<Rightarrow> int \<Rightarrow> int" where
  "days_in m y = (if 1 \<le> m \<and> m \<le> 12 then month_lengths y ! nat (m - 1) else 0)"

text \<open>Days before 1 January of year \<open>y\<close> of a 400-year era, and since 1 January of year 0.\<close>

definition days_before_year :: "int \<Rightarrow> int" where
  "days_before_year y = 365 * y + (y + 3) div 4 - (y + 99) div 100 + (y + 399) div 400"

definition epoch_days :: int where
  "epoch_days = 719528"

definition days_of_civil :: "int \<Rightarrow> int \<Rightarrow> int \<Rightarrow> int" where
  "days_of_civil y m d =
     (y div 400) * 146097 + days_before_year (y mod 400)
     + sum_list (take (nat (m - 1)) (month_lengths y)) + (d - 1)"

function find_year :: "int \<Rightarrow> int \<Rightarrow> int" where
  "find_year n y = (if y \<le> 0 \<or> days_before_year y \<le> n then y else find_year n (y - 1))"
  by pat_completeness auto
termination
  by (relation "measure (\<lambda>(n, y). nat y)") auto

declare find_year.simps [simp del]

fun find_month :: "int \<Rightarrow> int list \<Rightarrow> int \<Rightarrow> int \<times> int" where
  "find_month d [] m = (m, d)"
| "find_month d (l # ls) m = (if d < l then (m, d) else find_month (d - l) ls (m + 1))"

definition civil_of_days :: "int \<Rightarrow> int \<times> int \<times> int" where
  "civil_of_days n =
     (let era = n div 146097; doe = n mod 146097;
          yoe = find_year doe (doe div 365);
          y = era * 400 + yoe;
          (m, d) = find_month (doe - days_before_year yoe) (month_lengths y) 1
      in (y, m, d + 1))"

section \<open>Parsing\<close>

definition is_digit :: "char \<Rightarrow> bool" where
  "is_digit c \<longleftrightarrow> c \<in> set digits10"

definition digit_val :: "char \<Rightarrow> int" where
  "digit_val c = of_char c - 48"

definition digits_val :: "string \<Rightarrow> int" where
  "digits_val s = foldl (\<lambda>n c. 10 * n + digit_val c) 0 s"

text \<open>\<^verbatim>\<open>getnum(s, fixed)\<close>: one or two digits, two when \<^verbatim>\<open>fixed\<close>.\<close>

fun getnum :: "bool \<Rightarrow> string \<Rightarrow> (int \<times> string) option" where
  "getnum fixed [] = None"
| "getnum fixed [a] = (if is_digit a \<and> \<not> fixed then Some (digit_val a, []) else None)"
| "getnum fixed (a # b # r) =
     (if \<not> is_digit a then None
      else if is_digit b then Some (10 * digit_val a + digit_val b, r)
      else if fixed then None
      else Some (digit_val a, b # r))"

fun skip_char :: "char \<Rightarrow> string \<Rightarrow> string option" where
  "skip_char c [] = None"
| "skip_char c (x # r) = (if x = c then Some r else None)"

definition parse_year :: "string \<Rightarrow> (int \<times> string) option" where
  "parse_year s = (if 4 \<le> length s \<and> list_all is_digit (take 4 s)
                   then Some (digits_val (take 4 s), drop 4 s) else None)"

text \<open>The optional fraction: a period or comma and digits, of which the first nine count.\<close>

definition parse_fraction :: "string \<Rightarrow> int \<times> string" where
  "parse_fraction s =
     (case s of
        c # d # r \<Rightarrow>
          if (c = CHR ''.'' \<or> c = CHR '','') \<and> is_digit d
          then (let ds = takeWhile is_digit (d # r); k = take 9 ds in
                (digits_val k * 10 ^ (9 - length k), dropWhile is_digit (d # r)))
          else (0, s)
      | _ \<Rightarrow> (0, s))"

text \<open>The zone: \<^verbatim>\<open>Z\<close> or a signed \<^verbatim>\<open>hh:mm\<close>, as seconds east of UTC.\<close>

definition parse_zone :: "string \<Rightarrow> (int \<times> string) option" where
  "parse_zone s =
     (case s of
        [] \<Rightarrow> None
      | c # r \<Rightarrow>
          if c = CHR ''Z'' then Some (0, r)
          else if length s < 6 \<or> s ! 3 \<noteq> CHR '':'' then None
          else (case (getnum True (take 2 (drop 1 s)), getnum True (take 2 (drop 4 s))) of
                  (Some (hr, _), Some (mm, _)) \<Rightarrow>
                    if hr > 24 \<or> mm > 60 then None
                    else if c = CHR ''+'' then Some ((hr * 60 + mm) * 60, drop 6 s)
                    else if c = CHR ''-'' then Some (- ((hr * 60 + mm) * 60), drop 6 s)
                    else None
                | _ \<Rightarrow> None))"

definition ranged :: "int \<Rightarrow> int \<Rightarrow> (int \<times> string) option \<Rightarrow> (int \<times> string) option" where
  "ranged lo hi r = (case r of Some (n, s) \<Rightarrow> if lo \<le> n \<and> n \<le> hi then Some (n, s) else None
                     | None \<Rightarrow> None)"

definition parse_date :: "string \<Rightarrow> ((int \<times> int \<times> int) \<times> string) option" where
  "parse_date s =
     Option.bind (parse_year s) (\<lambda>(y, s).
     Option.bind (skip_char (CHR ''-'') s) (\<lambda>s.
     Option.bind (ranged 1 12 (getnum True s)) (\<lambda>(mo, s).
     Option.bind (skip_char (CHR ''-'') s) (\<lambda>s.
     Option.bind (getnum True s) (\<lambda>(d, s). Some ((y, mo, d), s))))))"

definition parse_clock :: "string \<Rightarrow> ((int \<times> int \<times> int) \<times> string) option" where
  "parse_clock s =
     Option.bind (ranged 0 23 (getnum False s)) (\<lambda>(h, s).
     Option.bind (skip_char (CHR '':'') s) (\<lambda>s.
     Option.bind (ranged 0 59 (getnum True s)) (\<lambda>(mi, s).
     Option.bind (skip_char (CHR '':'') s) (\<lambda>s.
     Option.bind (ranged 0 59 (getnum True s)) (\<lambda>(sec, s). Some ((h, mi, sec), s))))))"

definition parse_rfc3339 :: "string \<Rightarrow> instant option" where
  "parse_rfc3339 s =
     Option.bind (parse_date s) (\<lambda>((y, mo, d), s).
     Option.bind (skip_char (CHR ''T'') s) (\<lambda>s.
     Option.bind (parse_clock s) (\<lambda>((h, mi, sec), s).
     (let (ns, s) = parse_fraction s in
     Option.bind (parse_zone s) (\<lambda>(off, s).
       if s = [] \<and> 1 \<le> d \<and> d \<le> days_in mo y
       then Some \<lparr> unix_secs = (days_of_civil y mo d - epoch_days) * 86400
                     + h * 3600 + mi * 60 + sec - off,
                   nanos = ns \<rparr>
       else None)))))"

section \<open>Formatting\<close>

definition digit_char :: "int \<Rightarrow> char" where
  "digit_char n = digits10 ! nat n"

definition pad2 :: "int \<Rightarrow> string" where
  "pad2 n = [digit_char (n div 10), digit_char (n mod 10)]"

fun show_int_digits :: "nat \<Rightarrow> int \<Rightarrow> string" where
  "show_int_digits 0 n = []"
| "show_int_digits (Suc k) n =
     (if n < 10 then [digit_char n] else show_int_digits k (n div 10) @ [digit_char (n mod 10)])"

text \<open>\<^verbatim>\<open>appendInt(b, year, 4)\<close>: at least four digits, after a minus sign when negative.\<close>

definition show_year :: "int \<Rightarrow> string" where
  "show_year y =
     (let u = \<bar>y\<bar>;
          ds = (if u < 10000
                then [digit_char (u div 1000), digit_char (u div 100 mod 10),
                      digit_char (u div 10 mod 10), digit_char (u mod 10)]
                else show_int_digits (nat u) u)
      in (if y < 0 then ''-'' @ ds else ds))"

definition format_rfc3339 :: "instant \<Rightarrow> string" where
  "format_rfc3339 t =
     (let day = unix_secs t div 86400; s = unix_secs t mod 86400;
          (y, m, d) = civil_of_days (day + epoch_days)
      in show_year y @ ''-'' @ pad2 m @ ''-'' @ pad2 d @ ''T''
         @ pad2 (s div 3600) @ '':'' @ pad2 (s mod 3600 div 60) @ '':'' @ pad2 (s mod 60) @ ''Z'')"

definition year_of :: "instant \<Rightarrow> int" where
  "year_of t = fst (civil_of_days (unix_secs t div 86400 + epoch_days))"

section \<open>Civil dates and day numbers are inverse\<close>

lemma div_bounds:
  assumes "0 < (k::int)"
  shows "k * (n div k) \<le> n" "n < k * (n div k) + k"
proof -
  have "k * (n div k) + n mod k = n" by simp
  then show "k * (n div k) \<le> n" "n < k * (n div k) + k"
    using pos_mod_bound [OF assms, of n] pos_mod_sign [OF assms, of n] by linarith+
qed

lemma days_before_year_bounds:
  fixes y :: int
  assumes "d = 365 * y + a - b + c" "y + 3 < 4 * a + 4" "100 * b \<le> y + 99" "y + 399 < 400 * c + 400" "0 \<le> y"
  shows "365 * y \<le> d"
  using assms by linarith

lemma days_before_year_ge: "0 \<le> y \<Longrightarrow> 365 * y \<le> days_before_year y"
  by (rule days_before_year_bounds
      [OF days_before_year_def div_bounds(2) div_bounds(1) div_bounds(2)]) (rule zero_less_numeral | assumption)+

lemma days_before_year_0 [simp]: "days_before_year 0 = 0"
  by (simp add: days_before_year_def)

lemma days_before_year_400 [simp]: "days_before_year 400 = 146097"
  by (simp add: days_before_year_def)

lemma ceil_step:
  assumes "0 < (k::int)"
  shows "(y + k) div k = (y + k - 1) div k + (if y mod k = 0 then 1 else 0)"
proof -
  define q r where "q = y div k" and "r = y mod k"
  have y: "y = k * q + r" and r: "0 \<le> r" "r < k"
    using assms by (simp_all add: q_def r_def)
  have 1: "(y + k) div k = q + 1"
    using r assms by (intro int_div_pos_eq [where r = r]) (simp_all add: y algebra_simps)
  show ?thesis
  proof (cases "r = 0")
    case True
    then have "(y + k - 1) div k = q"
      using assms by (intro int_div_pos_eq [where r = "k - 1"]) (simp_all add: y)
    then show ?thesis using 1 True by (simp add: r_def)
  next
    case False
    then have "(y + k - 1) div k = q + 1"
      using assms r by (intro int_div_pos_eq [where r = "r - 1"]) (simp_all add: y algebra_simps)
    then show ?thesis using 1 False by (simp add: r_def)
  qed
qed

lemma mod_factor:
  assumes "(y::int) mod k = 0" "a * b = k"
  shows "y mod a = 0"
proof -
  have "a * b dvd y" using assms by (simp add: mod_eq_0_iff_dvd)
  then show ?thesis by (simp add: dvd_imp_mod_0 dvd_mult_left)
qed

lemma days_before_year_step:
  fixes x z l :: int
  assumes "x = 365 * (y + 1) + p - q + r" "z = 365 * y + p' - q' + r'"
    "p = p' + i" "q = q' + j" "r = r' + k" "l = 365 + i - j + k"
  shows "x = z + l"
  using assms by simp

lemma leap_days:
  assumes "c \<Longrightarrow> b" "b \<Longrightarrow> a"
  shows "(if a \<and> (\<not> b \<or> c) then 366 else 365 :: int) =
    365 + (if a then 1 else 0) - (if b then 1 else 0) + (if c then 1 else 0)"
  using assms by (cases a; cases b; cases c; simp)

lemma days_before_year_Suc: "days_before_year (y + 1) = days_before_year y + (if leap y then 366 else 365)"
proof -
  have m4: "y mod 100 = 0 \<Longrightarrow> y mod 4 = 0" by (erule mod_factor [where b = 25]) simp
  have m100: "y mod 400 = 0 \<Longrightarrow> y mod 100 = 0" by (erule mod_factor [where b = 4]) simp
  have e: "y + 1 + 3 = y + 4" "y + 1 + 99 = y + 100" "y + 1 + 399 = y + 400" by simp_all
  have f: "y + 4 - 1 = y + 3" "y + 100 - 1 = y + 99" "y + 400 - 1 = y + 399" by simp_all
  have 1: "days_before_year (y + 1) = 365 * (y + 1) + (y + 4) div 4 - (y + 100) div 100 + (y + 400) div 400"
    by (simp only: days_before_year_def e)
  have 2: "days_before_year y = 365 * y + (y + 4 - 1) div 4 - (y + 100 - 1) div 100 + (y + 400 - 1) div 400"
    by (simp only: days_before_year_def f)
  have 3: "(y + 4) div 4 = (y + 4 - 1) div 4 + (if y mod 4 = 0 then 1 else 0)"
    "(y + 100) div 100 = (y + 100 - 1) div 100 + (if y mod 100 = 0 then 1 else 0)"
    "(y + 400) div 400 = (y + 400 - 1) div 400 + (if y mod 400 = 0 then 1 else 0)"
    by (rule ceil_step, rule zero_less_numeral)+
  have "(if leap y then 366 else 365 :: int) =
      365 + (if y mod 4 = 0 then 1 else 0) - (if y mod 100 = 0 then 1 else 0) + (if y mod 400 = 0 then 1 else 0)"
    unfolding leap_def by (rule leap_days [OF m100 m4])
  then show ?thesis by (rule days_before_year_step [OF 1 2 3])
qed

lemma find_year_bounds:
  "0 \<le> n \<Longrightarrow> n < days_before_year (y + 1) \<Longrightarrow> 0 \<le> y \<Longrightarrow>
   0 \<le> find_year n y \<and> find_year n y \<le> y \<and>
   days_before_year (find_year n y) \<le> n \<and> n < days_before_year (find_year n y + 1)"
proof (induction n y rule: find_year.induct)
  case (1 n y)
  show ?case
  proof (cases "y \<le> 0 \<or> days_before_year y \<le> n")
    case True
    with "1.prems" have "find_year n y = y" "days_before_year y \<le> n"
      by (auto simp: find_year.simps [of n y] dest: order_antisym)
    with "1.prems" show ?thesis by simp
  next
    case False
    with "1.IH" "1.prems" show ?thesis by (auto simp: find_year.simps [of n y])
  qed
qed

lemma find_year_era:
  assumes "0 \<le> n" "n < 146097"
  shows "0 \<le> find_year n (n div 365)" "find_year n (n div 365) \<le> 399"
    "days_before_year (find_year n (n div 365)) \<le> n"
    "n < days_before_year (find_year n (n div 365) + 1)"
proof -
  define y where "y = n div 365"
  have n: "365 * y \<le> n" "n < 365 * y + 365"
    unfolding y_def by (rule div_bounds, simp)+
  have y0: "0 \<le> y" using n assms by linarith
  have "n < 365 * (y + 1)" using n by simp
  also have "\<dots> \<le> days_before_year (y + 1)"
    using y0 by (intro days_before_year_ge) simp
  finally have *: "n < days_before_year (y + 1)" .
  note b = find_year_bounds [OF assms(1) * y0]
  show "0 \<le> find_year n (n div 365)" "days_before_year (find_year n (n div 365)) \<le> n"
    "n < days_before_year (find_year n (n div 365) + 1)" using b by (auto simp: y_def)
  have "y \<le> 400" using n assms by linarith
  with b have "find_year n y \<le> 400" by simp
  moreover have "find_year n y \<noteq> 400"
    using b assms by auto
  ultimately show "find_year n (n div 365) \<le> 399" by (simp add: y_def)
qed

lemma leap_era [simp]: "leap (e * 400 + y) = leap y"
proof -
  have "e * 400 + y = y + (100 * e) * 4" "e * 400 + y = y + (4 * e) * 100" "e * 400 + y = y + e * 400"
    by simp_all
  then have "(e * 400 + y) mod 4 = y mod 4" "(e * 400 + y) mod 100 = y mod 100"
    "(e * 400 + y) mod 400 = y mod 400" by (metis mod_mult_self1)+
  then show ?thesis by (simp add: leap_def)
qed

lemma length_month_lengths [simp]: "length (month_lengths y) = 12"
  by (simp add: month_lengths_def)

lemma sum_month_lengths: "sum_list (month_lengths y) = (if leap y then 366 else 365)"
  by (simp add: month_lengths_def)

lemma find_month_bounds:
  "0 \<le> d \<Longrightarrow> d < sum_list ls \<Longrightarrow> find_month d ls m = (m', d') \<Longrightarrow>
   m \<le> m' \<and> m' < m + int (length ls) \<and> 0 \<le> d' \<and> d' < ls ! nat (m' - m) \<and>
   d = sum_list (take (nat (m' - m)) ls) + d'"
proof (induction d ls m rule: find_month.induct)
  case (1 d m)
  then show ?case by simp
next
  case (2 d l ls m)
  show ?case
  proof (cases "d < l")
    case True
    with 2 show ?thesis by auto
  next
    case False
    with 2 have "find_month (d - l) ls (m + 1) = (m', d')" by simp
    with 2 False have h: "m + 1 \<le> m' \<and> m' < m + 1 + int (length ls) \<and> 0 \<le> d' \<and>
        d' < ls ! nat (m' - (m + 1)) \<and> d - l = sum_list (take (nat (m' - (m + 1))) ls) + d'"
      by simp
    then have "nat (m' - m) = Suc (nat (m' - (m + 1)))" by auto
    with h show ?thesis by auto
  qed
qed

lemma civil_of_days_correct:
  assumes "civil_of_days n = (y, m, d)"
  shows "days_of_civil y m d = n" "1 \<le> m" "m \<le> 12" "1 \<le> d" "d \<le> days_in m y"
proof -
  let ?era = "n div 146097" and ?doe = "n mod 146097"
  let ?yoe = "find_year ?doe (?doe div 365)"
  let ?r = "?doe - days_before_year ?yoe"
  note era = find_year_era [of ?doe, simplified]
  have y: "y = ?era * 400 + ?yoe" and fm: "find_month ?r (month_lengths y) 1 = (m, d - 1)"
    using assms by (auto simp: civil_of_days_def Let_def split: prod.splits)
  have "?r < sum_list (month_lengths y)"
    using era(4) by (simp add: sum_month_lengths y days_before_year_Suc)
  then have h: "1 \<le> m \<and> m < 1 + int (length (month_lengths y)) \<and> 0 \<le> d - 1 \<and>
      d - 1 < month_lengths y ! nat (m - 1) \<and>
      ?r = sum_list (take (nat (m - 1)) (month_lengths y)) + (d - 1)"
    using era(3) find_month_bounds [OF _ _ fm] by simp
  then show "1 \<le> m" "m \<le> 12" "1 \<le> d" "d \<le> days_in m y" by (auto simp: days_in_def)
  have "y div 400 = ?era" "y mod 400 = ?yoe"
    using era(1,2) by (simp_all add: y div_pos_pos_trivial mod_pos_pos_trivial)
  then have "days_of_civil y m d = ?era * 146097 + days_before_year ?yoe +
      sum_list (take (nat (m - 1)) (month_lengths y)) + (d - 1)"
    by (simp only: days_of_civil_def)
  then show "days_of_civil y m d = n"
    using h div_mult_mod_eq [of n 146097] by linarith
qed
section \<open>The parser reads back what the formatter writes\<close>

lemma digit_char_digit:
  assumes "0 \<le> n" "n \<le> 9"
  shows "is_digit (digit_char n)" "digit_val (digit_char n) = n"
proof -
  have "n \<in> {0, 1, 2, 3, 4, 5, 6, 7, 8, 9}"
    using assms by (simp; presburger)
  then show "is_digit (digit_char n)" "digit_val (digit_char n) = n"
    by (auto simp: is_digit_def digit_char_def digits10_def digit_val_def)
qed

lemma getnum_pad2 [simp]:
  assumes "0 \<le> n" "n \<le> 99"
  shows "getnum fixed (pad2 n @ r) = Some (n, r)"
proof -
  have "0 \<le> n div 10" "n div 10 \<le> 9" "0 \<le> n mod 10" "n mod 10 \<le> 9"
    using assms div_bounds [of 10 n] pos_mod_bound [of 10 n] by auto
  then show ?thesis
    by (simp add: pad2_def digit_char_digit)
qed

lemma parse_year_digits:
  assumes "0 \<le> a" "a \<le> 9" "0 \<le> b" "b \<le> 9" "0 \<le> c" "c \<le> 9" "0 \<le> d" "d \<le> 9"
  shows "parse_year ([digit_char a, digit_char b, digit_char c, digit_char d] @ r)
    = Some (10 * (10 * (10 * a + b) + c) + d, r)"
  using assms by (simp add: parse_year_def digit_char_digit digits_val_def)

lemma parse_year_show:
  assumes "0 \<le> y" "y \<le> 9999"
  shows "parse_year (show_year y @ r) = Some (y, r)"
proof -
  have b: "0 \<le> y div 1000" "y div 1000 \<le> 9"
    "0 \<le> y div 100 mod 10" "y div 100 mod 10 \<le> 9"
    "0 \<le> y div 10 mod 10" "y div 10 mod 10 \<le> 9" "0 \<le> y mod 10" "y mod 10 \<le> 9"
    using assms div_bounds [of 1000 y] pos_mod_bound [of 10 "y div 100"]
      pos_mod_bound [of 10 "y div 10"] pos_mod_bound [of 10 y] by auto
  have q: "y div 100 = 10 * (y div 1000) + y div 100 mod 10" "y div 10 = 10 * (y div 100) + y div 10 mod 10"
     "y = 10 * (y div 10) + y mod 10"
    using mult_div_mod_eq [of 10 "y div 100"] mult_div_mod_eq [of 10 "y div 10"] mult_div_mod_eq [of 10 y]
    by (simp_all add: div_mult2_eq [symmetric] zdiv_zmult2_eq [symmetric])
  have v: "10 * (10 * (10 * (y div 1000) + y div 100 mod 10) + y div 10 mod 10) + y mod 10 = y"
    by (simp only: q [symmetric])
  have "show_year y = [digit_char (y div 1000), digit_char (y div 100 mod 10),
      digit_char (y div 10 mod 10), digit_char (y mod 10)]"
    using assms by (simp only: show_year_def Let_def) simp
  then show ?thesis
    using parse_year_digits [OF b, of r] by (simp only: v)
qed

text \<open>
  A time between the years 0 and 9999 survives formatting and parsing up to its fraction of a
  second, which the layout drops.
\<close>

definition whole_second :: "instant \<Rightarrow> instant" where
  "whole_second t = t\<lparr>nanos := 0\<rparr>"

lemma whole_second_eq: "whole_second t = \<lparr>unix_secs = unix_secs t, nanos = 0\<rparr>"
  by (cases t) (simp add: whole_second_def)

lemma parse_date_format:
  assumes "0 \<le> y" "y \<le> 9999" "1 \<le> m" "m \<le> 12" "1 \<le> d" "d \<le> 31"
  shows "parse_date (show_year y @ ''-'' @ pad2 m @ ''-'' @ pad2 d @ r) = Some ((y, m, d), r)"
  using assms by (simp add: parse_date_def parse_year_show ranged_def)

lemma parse_clock_format:
  assumes "0 \<le> h" "h \<le> 23" "0 \<le> mi" "mi \<le> 59" "0 \<le> sec" "sec \<le> 59"
  shows "parse_clock (pad2 h @ '':'' @ pad2 mi @ '':'' @ pad2 sec @ r) = Some ((h, mi, sec), r)"
  using assms by (simp add: parse_clock_def ranged_def)

lemma parse_layout:
  assumes "civil_of_days n = (y, m, d)" "0 \<le> y" "y \<le> 9999"
    and "0 \<le> h" "h \<le> 23" "0 \<le> mi" "mi \<le> 59" "0 \<le> sec" "sec \<le> 59"
  shows "parse_rfc3339 (show_year y @ ''-'' @ pad2 m @ ''-'' @ pad2 d @ ''T''
      @ pad2 h @ '':'' @ pad2 mi @ '':'' @ pad2 sec @ ''Z'')
    = Some \<lparr>unix_secs = (n - epoch_days) * 86400 + (h * 3600 + mi * 60 + sec), nanos = 0\<rparr>"
proof -
  note c = civil_of_days_correct [OF assms(1)]
  have d31: "d \<le> 31"
    using c(4,5) by (auto simp: days_in_def month_lengths_def nth_Cons' split: if_splits)
  have date: "parse_date (show_year y @ ''-'' @ pad2 m @ ''-'' @ pad2 d @ r) = Some ((y, m, d), r)" for r
    using assms(2,3) c(2,3,4) d31 by (rule parse_date_format)
  have clock: "parse_clock (pad2 h @ '':'' @ pad2 mi @ '':'' @ pad2 sec @ r) = Some ((h, mi, sec), r)" for r
    using assms(4-9) by (rule parse_clock_format)
  show ?thesis
    unfolding parse_rfc3339_def date
    by (simp add: clock [simplified] c(1,4,5) parse_fraction_def parse_zone_def)
qed

lemma clock_of_seconds:
  assumes "0 \<le> s" "s < 86400"
  shows "0 \<le> s div 3600" "s div 3600 \<le> 23" "0 \<le> s mod 3600 div 60" "s mod 3600 div 60 \<le> 59"
    "0 \<le> s mod 60" "s mod 60 \<le> 59"
    "s div 3600 * 3600 + s mod 3600 div 60 * 60 + s mod 60 = (s::int)"
proof -
  define a b where "a = s div 3600" and "b = s mod 3600"
  have a: "3600 * a \<le> s" "s < 3600 * a + 3600"
    unfolding a_def by (rule div_bounds, simp)+
  have b: "0 \<le> b" "b < 3600" by (simp_all add: b_def)
  have bd: "60 * (b div 60) \<le> b" "b < 60 * (b div 60) + 60"
    by (rule div_bounds, simp)+
  have eqs: "b = 60 * (b div 60) + b mod 60" by simp
  have "s = 3600 * a + b" "b mod 60 = s mod 60"
    by (simp_all add: a_def b_def mod_mod_cancel)
  note eqs = this eqs
  show "0 \<le> s div 3600" "s div 3600 \<le> 23"
    using a assms unfolding a_def [symmetric] by linarith+
  show "0 \<le> s mod 3600 div 60" "s mod 3600 div 60 \<le> 59"
    using b bd unfolding b_def [symmetric] by linarith+
  show "0 \<le> s mod 60" "s mod 60 \<le> 59" by simp_all
  show "s div 3600 * 3600 + s mod 3600 div 60 * 60 + s mod 60 = s"
    using eqs unfolding a_def [symmetric] b_def [symmetric] by linarith
qed

lemma parse_format:
  assumes "0 \<le> year_of t" "year_of t \<le> 9999"
  shows "parse_rfc3339 (format_rfc3339 t) = Some (whole_second t)"
proof -
  obtain y m d where c: "civil_of_days (unix_secs t div 86400 + epoch_days) = (y, m, d)"
    by (metis prod_cases3)
  let ?d = "unix_secs t div 86400" and ?s = "unix_secs t mod 86400"
  have "0 \<le> ?s" "?s < 86400" by simp_all
  note clk = clock_of_seconds [OF this]
  have e: "(?d + epoch_days - epoch_days) * 86400
      + (?s div 3600 * 3600 + ?s mod 3600 div 60 * 60 + ?s mod 60) = unix_secs t"
    by (simp only: clk(7) add_diff_cancel_right' div_mult_mod_eq)
  have "parse_rfc3339 (format_rfc3339 t) = Some \<lparr>unix_secs = (?d + epoch_days - epoch_days) * 86400
      + (?s div 3600 * 3600 + ?s mod 3600 div 60 * 60 + ?s mod 60), nanos = 0\<rparr>"
    using parse_layout [OF c _ _ clk(1-6)] assms
    by (simp only: c format_rfc3339_def year_of_def Let_def prod.case fst_conv)
  then show ?thesis
    by (simp only: e whole_second_eq)
qed

end
