(* ===== verification/GoJson.thy ===== *)
theory GoJson
  imports Prelude
begin

text \<open>
  The part of Go's \<^verbatim>\<open>encoding/json\<close> the program uses: \<^verbatim>\<open>json.Valid\<close> (the byte-at-a-time scanner
  with its stack of open brackets and its limit of 10000 levels) and \<^verbatim>\<open>json.Marshal\<close> of the
  program's documents (escaping of HTML bytes, of control bytes and of invalid UTF-8, omitted
  empty fields, compaction of \<^verbatim>\<open>json.RawMessage\<close>).
\<close>

section \<open>json.Valid\<close>

datatype json_ctx = ObjectKey | ObjectValue | ArrayValue

datatype json_mode =
    BeginValue | BeginValueOrEmpty | BeginString | BeginStringOrEmpty
  | InString | InStringEsc | InStringEscU nat
  | NumNeg | NumZero | NumDigits | NumDot | NumDotDigits | NumE | NumESign | NumEDigits
  | Literal string | EndValue | EndTop | ScanError

type_synonym json_scan = "json_mode \<times> json_ctx list"

definition json_space :: "char \<Rightarrow> bool" where
  "json_space c \<longleftrightarrow> c \<in> {CHR 0x20, CHR 0x09, CHR 0x0D, CHR 0x0A}"

definition max_nesting :: nat where
  "max_nesting = 10000"

definition scan_push :: "json_ctx \<Rightarrow> json_mode \<Rightarrow> json_ctx list \<Rightarrow> json_scan" where
  "scan_push p m ps = (if Suc (length ps) \<le> max_nesting then (m, p # ps) else (ScanError, ps))"

definition scan_pop :: "json_ctx list \<Rightarrow> json_scan" where
  "scan_pop ps = (if ps = [] then EndTop else EndValue, ps)"

fun scan_end_value :: "json_ctx list \<Rightarrow> char \<Rightarrow> json_scan" where
  "scan_end_value [] c = (if json_space c then EndTop else ScanError, [])"
| "scan_end_value (p # ps) c =
     (if json_space c then (EndValue, p # ps)
      else case p of
        ObjectKey \<Rightarrow> if c = CHR '':'' then (BeginValue, ObjectValue # ps) else (ScanError, p # ps)
      | ObjectValue \<Rightarrow>
          if c = CHR '','' then (BeginString, ObjectKey # ps)
          else if c = CHR ''}'' then scan_pop ps else (ScanError, p # ps)
      | ArrayValue \<Rightarrow>
          if c = CHR '','' then (BeginValue, ArrayValue # ps)
          else if c = CHR '']'' then scan_pop ps else (ScanError, p # ps))"

definition scan_begin_value :: "json_ctx list \<Rightarrow> char \<Rightarrow> json_scan" where
  "scan_begin_value ps c =
     (if json_space c then (BeginValue, ps)
      else if c = CHR ''{'' then scan_push ObjectKey BeginStringOrEmpty ps
      else if c = CHR ''['' then scan_push ArrayValue BeginValueOrEmpty ps
      else if c = CHR 0x22 then (InString, ps)
      else if c = CHR ''-'' then (NumNeg, ps)
      else if c = CHR ''0'' then (NumZero, ps)
      else if c = CHR ''t'' then (Literal ''rue'', ps)
      else if c = CHR ''f'' then (Literal ''alse'', ps)
      else if c = CHR ''n'' then (Literal ''ull'', ps)
      else if c \<in> set digits10 then (NumDigits, ps)
      else (ScanError, ps))"

definition scan_begin_string :: "json_ctx list \<Rightarrow> char \<Rightarrow> json_scan" where
  "scan_begin_string ps c =
     (if json_space c then (BeginString, ps)
      else if c = CHR 0x22 then (InString, ps) else (ScanError, ps))"

definition json_exp :: "char \<Rightarrow> bool" where
  "json_exp c \<longleftrightarrow> c = CHR ''e'' \<or> c = CHR ''E''"

fun json_step :: "json_scan \<Rightarrow> char \<Rightarrow> json_scan" where
  "json_step (BeginValue, ps) c = scan_begin_value ps c"
| "json_step (BeginValueOrEmpty, ps) c =
     (if json_space c then (BeginValueOrEmpty, ps)
      else if c = CHR '']'' then scan_end_value ps c else scan_begin_value ps c)"
| "json_step (BeginString, ps) c = scan_begin_string ps c"
| "json_step (BeginStringOrEmpty, ps) c =
     (if json_space c then (BeginStringOrEmpty, ps)
      else if c = CHR ''}'' then scan_end_value (ObjectValue # tl ps) c
      else scan_begin_string ps c)"
| "json_step (InString, ps) c =
     (if c = CHR 0x22 then (EndValue, ps)
      else if c = CHR 0x5C then (InStringEsc, ps)
      else if (of_char c :: nat) < 32 then (ScanError, ps) else (InString, ps))"
| "json_step (InStringEsc, ps) c =
     (if c \<in> {CHR ''b'', CHR ''f'', CHR ''n'', CHR ''r'', CHR ''t'', CHR 0x5C, CHR ''/'', CHR 0x22}
      then (InString, ps)
      else if c = CHR ''u'' then (InStringEscU 4, ps) else (ScanError, ps))"
| "json_step (InStringEscU n, ps) c =
     (if c \<in> set any_hex then (if n \<le> 1 then InString else InStringEscU (n - 1), ps)
      else (ScanError, ps))"
| "json_step (NumNeg, ps) c =
     (if c = CHR ''0'' then (NumZero, ps)
      else if c \<in> set digits10 then (NumDigits, ps) else (ScanError, ps))"
| "json_step (NumZero, ps) c =
     (if c = CHR ''.'' then (NumDot, ps)
      else if json_exp c then (NumE, ps) else scan_end_value ps c)"
| "json_step (NumDigits, ps) c =
     (if c \<in> set digits10 then (NumDigits, ps)
      else if c = CHR ''.'' then (NumDot, ps)
      else if json_exp c then (NumE, ps) else scan_end_value ps c)"
| "json_step (NumDot, ps) c =
     (if c \<in> set digits10 then (NumDotDigits, ps) else (ScanError, ps))"
| "json_step (NumDotDigits, ps) c =
     (if c \<in> set digits10 then (NumDotDigits, ps)
      else if json_exp c then (NumE, ps) else scan_end_value ps c)"
| "json_step (NumE, ps) c =
     (if c = CHR ''+'' \<or> c = CHR ''-'' then (NumESign, ps)
      else if c \<in> set digits10 then (NumEDigits, ps) else (ScanError, ps))"
| "json_step (NumESign, ps) c =
     (if c \<in> set digits10 then (NumEDigits, ps) else (ScanError, ps))"
| "json_step (NumEDigits, ps) c =
     (if c \<in> set digits10 then (NumEDigits, ps) else scan_end_value ps c)"
| "json_step (Literal w, ps) c =
     (case w of [] \<Rightarrow> (ScanError, ps)
      | x # w' \<Rightarrow> if c \<noteq> x then (ScanError, ps)
                  else if w' = [] then (EndValue, ps) else (Literal w', ps))"
| "json_step (EndValue, ps) c = scan_end_value ps c"
| "json_step (EndTop, ps) c = (if json_space c then EndTop else ScanError, ps)"
| "json_step (ScanError, ps) c = (ScanError, ps)"

definition json_run :: "json_scan \<Rightarrow> string \<Rightarrow> json_scan" where
  "json_run st s = foldl json_step st s"

text \<open>At the end of the input the scanner is fed one space when it has not seen the end yet.\<close>

definition json_valid :: "string \<Rightarrow> bool" where
  "json_valid s =
     (let (m, ps) = json_run (BeginValue, []) s in
      if m = ScanError then False
      else if m = EndTop then True
      else fst (json_step (m, ps) (CHR 0x20)) = EndTop)"

section \<open>json.Marshal\<close>

text \<open>
  A document on its way out: the fields of a struct in their order (the omitted ones left out),
  the keys of a map sorted, a raw message kept as its bytes (\<open>None\<close> for nil).
\<close>

type_synonym raw_message = "char slice"

datatype json =
    JNull | JBool bool | JInt int | JStr string | JArr "json list" | JObj "(string \<times> json) list"
  | JRaw raw_message

definition hex_digit :: "nat \<Rightarrow> char" where
  "hex_digit n = lower_hex ! n"

text \<open>The length of a valid UTF-8 sequence of more than one byte at the head, 0 if there is none.\<close>

definition cont_byte :: "nat \<Rightarrow> nat \<Rightarrow> char \<Rightarrow> bool" where
  "cont_byte lo hi c \<longleftrightarrow> lo \<le> of_char c \<and> of_char c \<le> hi"

definition utf8_size :: "string \<Rightarrow> nat" where
  "utf8_size s =
     (case s of
        a # b # r \<Rightarrow>
          (let n = (of_char a :: nat);
               lo = (if n = 0xE0 then 0xA0 else if n = 0xF0 then 0x90 else 0x80);
               hi = (if n = 0xED then 0x9F else if n = 0xF4 then 0x8F else 0xBF);
               k = (if 0xC2 \<le> n \<and> n \<le> 0xDF then 2 else if 0xE0 \<le> n \<and> n \<le> 0xEF then 3
                    else if 0xF0 \<le> n \<and> n \<le> 0xF4 then 4 else 0)
           in if 2 \<le> k \<and> cont_byte lo hi b \<and> k \<le> length s \<and>
                 list_all (cont_byte 0x80 0xBF) (take (k - 2) r)
              then k else 0)
      | _ \<Rightarrow> 0)"

definition esc_u00 :: "char \<Rightarrow> string" where
  "esc_u00 c = CHR 0x5C # ''u00'' @ [hex_digit (of_char c div 16), hex_digit (of_char c mod 16)]"

definition esc_ascii :: "char \<Rightarrow> string" where
  "esc_ascii c =
     (if c = CHR 0x5C \<or> c = CHR 0x22 then [CHR 0x5C, c]
      else if c = CHR 0x08 then [CHR 0x5C, CHR ''b'']
      else if c = CHR 0x0C then [CHR 0x5C, CHR ''f'']
      else if c = CHR 0x0A then [CHR 0x5C, CHR ''n'']
      else if c = CHR 0x0D then [CHR 0x5C, CHR ''r'']
      else if c = CHR 0x09 then [CHR 0x5C, CHR ''t'']
      else if (of_char c :: nat) < 32 \<or> c = CHR ''<'' \<or> c = CHR ''>'' \<or> c = CHR ''&'' then esc_u00 c
      else [c])"

definition line_sep :: string where "line_sep = [CHR 0xE2, CHR 0x80, CHR 0xA8]"
definition para_sep :: string where "para_sep = [CHR 0xE2, CHR 0x80, CHR 0xA9]"

function json_escape :: "string \<Rightarrow> string" where
  "json_escape [] = []"
| "json_escape (c # s) =
     (if (of_char c :: nat) < 128 then esc_ascii c @ json_escape s
      else let n = utf8_size (c # s); r = take n (c # s) in
        if n = 0 then CHR 0x5C # ''ufffd'' @ json_escape s
        else (if r = line_sep then CHR 0x5C # ''u2028'' else if r = para_sep then CHR 0x5C # ''u2029'' else r)
             @ json_escape (drop (n - 1) s))"
  by pat_completeness auto
termination by (relation "measure length") auto

definition json_quote :: "string \<Rightarrow> string" where
  "json_quote s = CHR 0x22 # json_escape s @ [CHR 0x22]"

definition show_int :: "int \<Rightarrow> string" where
  "show_int i = (if i < 0 then CHR ''-'' # show_nat (nat (- i)) else show_nat (nat i))"

text \<open>Compaction of a valid raw message: spaces outside strings go, HTML bytes are escaped.\<close>

definition in_json_string :: "json_mode \<Rightarrow> bool" where
  "in_json_string m \<longleftrightarrow> (case m of InString \<Rightarrow> True | InStringEsc \<Rightarrow> True | InStringEscU _ \<Rightarrow> True | _ \<Rightarrow> False)"

function json_compact :: "json_scan \<Rightarrow> string \<Rightarrow> string" where
  "json_compact st [] = []"
| "json_compact st (c # s) =
     (if take 3 (c # s) = line_sep then CHR 0x5C # ''u2028'' @ json_compact st (drop 2 s)
      else if take 3 (c # s) = para_sep then CHR 0x5C # ''u2029'' @ json_compact st (drop 2 s)
      else (if c = CHR ''<'' \<or> c = CHR ''>'' \<or> c = CHR ''&'' then esc_u00 c
            else if json_space c \<and> \<not> in_json_string (fst st) then [] else [c])
           @ json_compact (json_step st c) s)"
  by pat_completeness auto
termination by (relation "measure (length \<circ> snd)") auto

definition marshal_raw :: "raw_message \<Rightarrow> string result" where
  "marshal_raw r =
     (case r of None \<Rightarrow> Inr ''null''
      | Some s \<Rightarrow> if json_valid s then Inr (json_compact (BeginValue, []) s)
                  else Inl (Sentinel ''json: error calling MarshalJSON for type json.RawMessage''))"

fun join :: "string \<Rightarrow> string list \<Rightarrow> string" where
  "join sep [] = []"
| "join sep [x] = x"
| "join sep (x # y # xs) = x @ sep @ join sep (y # xs)"

fun marshal :: "json \<Rightarrow> string result"
and marshal_list :: "json list \<Rightarrow> string list result"
and marshal_fields :: "(string \<times> json) list \<Rightarrow> string list result" where
  "marshal JNull = Inr ''null''"
| "marshal (JBool b) = Inr (if b then ''true'' else ''false'')"
| "marshal (JInt i) = Inr (show_int i)"
| "marshal (JStr s) = Inr (json_quote s)"
| "marshal (JArr js) = bindE (marshal_list js) (\<lambda>ss. Inr (''['' @ join '','' ss @ '']''))"
| "marshal (JObj fs) = bindE (marshal_fields fs) (\<lambda>ss. Inr (''{'' @ join '','' ss @ ''}''))"
| "marshal (JRaw r) = marshal_raw r"
| "marshal_list [] = Inr []"
| "marshal_list (j # js) = bindE (marshal j) (\<lambda>s. bindE (marshal_list js) (\<lambda>ss. Inr (s # ss)))"
| "marshal_fields [] = Inr []"
| "marshal_fields ((k, j) # fs) =
     bindE (marshal j) (\<lambda>s. bindE (marshal_fields fs) (\<lambda>ss. Inr ((json_quote k @ '':'' @ s) # ss)))"

text \<open>Slices of strings, maps of strings, and the \<^verbatim>\<open>omitempty\<close> option.\<close>

definition json_strs :: "string slice \<Rightarrow> json" where
  "json_strs s = (case s of None \<Rightarrow> JNull | Some xs \<Rightarrow> JArr (map JStr xs))"

definition json_map :: "(string \<times> string) list option \<Rightarrow> json" where
  "json_map m = (case m of None \<Rightarrow> JNull
     | Some kvs \<Rightarrow> JObj (map (\<lambda>k. (k, JStr (the (map_of kvs k)))) (sort (remdups (map fst kvs)))))"

definition omit_empty :: "string \<Rightarrow> string \<Rightarrow> (string \<times> json) list" where
  "omit_empty k v = (if v = [] then [] else [(k, JStr v)])"

definition omit_false :: "string \<Rightarrow> bool \<Rightarrow> (string \<times> json) list" where
  "omit_false k b = (if b then [(k, JBool True)] else [])"

text \<open>Marshalling fails only on an invalid raw message.\<close>

fun raws_valid :: "json \<Rightarrow> bool" where
  "raws_valid (JRaw r) = (case r of None \<Rightarrow> True | Some s \<Rightarrow> json_valid s)"
| "raws_valid (JArr js) = (\<forall>j \<in> set js. raws_valid j)"
| "raws_valid (JObj fs) = (\<forall>f \<in> set fs. raws_valid (snd f))"
| "raws_valid _ = True"

lemma marshal_total:
  shows "raws_valid j \<Longrightarrow> \<exists>s. marshal j = Inr s"
    and "(\<forall>j \<in> set js. raws_valid j) \<Longrightarrow> \<exists>ss. marshal_list js = Inr ss"
    and "(\<forall>f \<in> set fs. raws_valid (snd f)) \<Longrightarrow> \<exists>ss. marshal_fields fs = Inr ss"
  by (induction j and js and fs rule: marshal_marshal_list_marshal_fields.induct)
     (auto simp: marshal_raw_def split: option.splits)

lemma raws_valid_strs [simp]: "raws_valid (json_strs s)"
  by (simp add: json_strs_def split: option.splits)

lemma raws_valid_map [simp]: "raws_valid (json_map m)"
  by (auto simp: json_map_def split: option.splits)

lemma raws_valid_omit [simp]:
  "f \<in> set (omit_empty k v) \<Longrightarrow> raws_valid (snd f)"
  "f \<in> set (omit_false k b) \<Longrightarrow> raws_valid (snd f)"
  by (auto simp: omit_empty_def omit_false_def split: if_splits)

end
