(* ===== verification/DomainBase.thy ===== *)
theory DomainBase
  imports Prelude GoTime GoJson
begin

text \<open>
  The field checks every document's \<^verbatim>\<open>Validate\<close> is built from
  (\<^verbatim>\<open>internal/recovery/domain/validate_helpers.go\<close>): the identifier patterns, required fields,
  time stamps, digests, enumerations, relative paths and duplicate-free identifier lists.
\<close>

section \<open>Identifier patterns\<close>

definition reCaseID :: "string \<Rightarrow> bool" where "reCaseID = re_id24 ''case-''"
definition reTargetID :: "string \<Rightarrow> bool" where
  "reTargetID = re_run ''target-'' (lower_az @ digits10 @ ''-'') 8 64"
definition reEvidenceID :: "string \<Rightarrow> bool" where "reEvidenceID = re_id24 ''evidence-''"
definition reFindingID :: "string \<Rightarrow> bool" where "reFindingID = re_id24 ''finding-''"
definition rePlanID :: "string \<Rightarrow> bool" where "rePlanID = re_id24 ''plan-''"
definition reOperationID :: "string \<Rightarrow> bool" where
  "reOperationID = re_head_run lower_az (lower_az @ digits10 @ ''_.-'') 2 63"
definition reExecutionID :: "string \<Rightarrow> bool" where "reExecutionID = re_id24 ''exec-''"
definition reVerificationID :: "string \<Rightarrow> bool" where "reVerificationID = re_id24 ''verify-''"
definition reArtifactID :: "string \<Rightarrow> bool" where "reArtifactID = re_id24 ''artifact-''"
definition reCoordinatorEventID :: "string \<Rightarrow> bool" where "reCoordinatorEventID = re_id24 ''cevt-''"
definition reAcquisitionID :: "string \<Rightarrow> bool" where "reAcquisitionID = re_id24 ''acq-''"
definition reAcquisitionRequestID :: "string \<Rightarrow> bool" where
  "reAcquisitionRequestID = re_id24 ''acqreq-''"
definition reTopologyID :: "string \<Rightarrow> bool" where "reTopologyID = re_id24 ''topology-''"
definition reReadRequestID :: "string \<Rightarrow> bool" where "reReadRequestID = re_id24 ''readreq-''"
definition reConsultationID :: "string \<Rightarrow> bool" where "reConsultationID = re_id24 ''consult-''"
definition reConsultationRequestID :: "string \<Rightarrow> bool" where
  "reConsultationRequestID = re_id24 ''creq-''"
definition reHypothesisID :: "string \<Rightarrow> bool" where "reHypothesisID = re_id24 ''hyp-''"
definition reProducerID :: "string \<Rightarrow> bool" where
  "reProducerID = re_head_run lower_az (lower_az @ digits10 @ ''_.-'') 1 127"
definition reCommitID :: "string \<Rightarrow> bool" where "reCommitID = re_id24 ''commit-''"
definition reSnapshotID :: "string \<Rightarrow> bool" where "reSnapshotID = re_id24 ''snapshot-''"
definition reReasonCode :: "string \<Rightarrow> bool" where
  "reReasonCode = re_head_run lower_az (lower_az @ digits10 @ ''_'') 1 127"
definition reCommandID :: "string \<Rightarrow> bool" where
  "reCommandID = re_head_run (lower_az @ upper_az @ digits10) (lower_az @ upper_az @ digits10 @ ''._-'') 0 127"
definition reSHA256 :: "string \<Rightarrow> bool" where "reSHA256 = re_run [] any_hex 64 64"
definition reSemver :: "string \<Rightarrow> bool" where "reSemver = re_semver"

lemmas re_defs = reCaseID_def reTargetID_def reEvidenceID_def reFindingID_def rePlanID_def
  reOperationID_def reExecutionID_def reVerificationID_def reArtifactID_def reCoordinatorEventID_def
  reAcquisitionID_def reAcquisitionRequestID_def reTopologyID_def reReadRequestID_def
  reConsultationID_def reConsultationRequestID_def reHypothesisID_def reProducerID_def
  reCommitID_def reSnapshotID_def reReasonCode_def reCommandID_def reSHA256_def reSemver_def

section \<open>Field checks\<close>

definition SchemaVersion :: string where "SchemaVersion = ''1.0.0''"

definition requireNonEmpty :: "string \<Rightarrow> string \<Rightarrow> go_err" where
  "requireNonEmpty field v = err_if (blank v) (Errorf ''%s is required'' [GStr field])"

definition requireMatch :: "string \<Rightarrow> string \<Rightarrow> (string \<Rightarrow> bool) \<Rightarrow> go_err" where
  "requireMatch field v re = first_err
     [requireNonEmpty field v,
      err_if (\<not> re v) (Errorf ''%s %q does not match required pattern'' [GStr field, GStr v])]"

text \<open>The error of \<^verbatim>\<open>time.Parse(time.RFC3339, v)\<close>.\<close>

definition time_parse_error :: "string \<Rightarrow> go_error" where
  "time_parse_error v = ErrStruct ''time.ParseError'' [(''Layout'', GStr ''RFC3339''), (''Value'', GStr v)]"

definition requireRFC3339 :: "string \<Rightarrow> string \<Rightarrow> go_err" where
  "requireRFC3339 field v = first_err
     [requireNonEmpty field v,
      err_if (parse_rfc3339 v = None)
        (Errorf ''%s must be RFC3339: %w''
          [GStr field, GWrap (time_parse_error v)])]"

definition requireSHA256 :: "string \<Rightarrow> string \<Rightarrow> go_err" where
  "requireSHA256 field v = first_err
     [requireNonEmpty field v,
      err_if (\<not> reSHA256 v) (Errorf ''%s must be 64 hexadecimal characters'' [GStr field])]"

definition requireSchema :: "string \<Rightarrow> string \<Rightarrow> string \<Rightarrow> go_err" where
  "requireSchema name version wantName = first_err
     [err_if (name \<noteq> wantName) (Errorf ''schema_name must be %q'' [GStr wantName]),
      err_if (version \<noteq> SchemaVersion) (Errorf ''schema_version must be %q'' [GStr SchemaVersion])]"

definition requireEnum :: "string \<Rightarrow> string \<Rightarrow> string list \<Rightarrow> go_err" where
  "requireEnum field v allowed = first_err
     [requireNonEmpty field v,
      err_if (v \<notin> set allowed) (Errorf ''%s has unknown value %q'' [GStr field, GStr v])]"

text \<open>\<^verbatim>\<open>if x == nil { return fmt.Errorf("... is required") }\<close>\<close>

definition required :: "string \<Rightarrow> 'a slice \<Rightarrow> go_err" where
  "required field s = err_if (s = None) (Errorf (field @ '' is required'') [])"

definition validateRelativePath :: "string \<Rightarrow> string \<Rightarrow> go_err" where
  "validateRelativePath field path = first_err
     [requireNonEmpty field path,
      err_if (has_prefix ''/'' path \<or> has_prefix [CHR 0x5C] path)
        (Errorf ''%s must not be absolute'' [GStr field]),
      err_if (2 \<le> length path \<and> path ! 1 = CHR '':'')
        (Errorf ''%s must not be absolute'' [GStr field]),
      err_if (str_contains path ''../'' \<or> str_contains path (''..'' @ [CHR 0x5C]))
        (Errorf ''%s must not contain path traversal'' [GStr field]),
      err_if (path = ''..'' \<or> has_prefix ''../'' path \<or> has_prefix (''..'' @ [CHR 0x5C]) path)
        (Errorf ''%s must not contain path traversal'' [GStr field])]"

definition requireUniqueIDList :: "string \<Rightarrow> string slice \<Rightarrow> (string \<Rightarrow> bool) \<Rightarrow> go_err" where
  "requireUniqueIDList field vs re =
     (case vs of None \<Rightarrow> Some (Errorf ''%s is required'' [GStr field])
      | Some ids \<Rightarrow>
          each_unique (\<lambda>i d. requireMatch (idx field i) d re) (\<lambda>d. d)
            (\<lambda>i d. Errorf ''%s contains duplicate %q'' [GStr field, GStr d]) ids)"

section \<open>When the checks return nil\<close>

definition rfc3339_ok :: "string \<Rightarrow> bool" where
  "rfc3339_ok v \<longleftrightarrow> \<not> blank v \<and> parse_rfc3339 v \<noteq> None"

lemma requireNonEmpty_None [simp, check_simps]: "requireNonEmpty f v = None \<longleftrightarrow> \<not> blank v"
  by (simp add: requireNonEmpty_def)

lemma requireMatch_None: "requireMatch f v re = None \<longleftrightarrow> \<not> blank v \<and> re v"
  by (simp add: requireMatch_def)

lemma requireRFC3339_None [simp, check_simps]: "requireRFC3339 f v = None \<longleftrightarrow> rfc3339_ok v"
  by (simp add: requireRFC3339_def rfc3339_ok_def)

lemma requireSchema_None [simp, check_simps]:
  "requireSchema n v w = None \<longleftrightarrow> n = w \<and> v = SchemaVersion"
  by (simp add: requireSchema_def)

lemma requireEnum_None [check_simps]: "requireEnum f v vs = None \<longleftrightarrow> \<not> blank v \<and> v \<in> set vs"
  by (simp add: requireEnum_def)

lemma required_None [simp, check_simps]: "required f s = None \<longleftrightarrow> s \<noteq> None"
  by (simp add: required_def)

text \<open>Identifiers are never blank, so a pattern check is the pattern alone.\<close>

definition id_chars :: string where
  "id_chars = lower_az @ upper_az @ digits10 @ ''-_.''"

lemma id_chars_edge: "c \<in> set id_chars \<Longrightarrow> \<not> space_edge c"
proof -
  have "list_all (\<lambda>c. \<not> space_edge c) id_chars"
    by (simp add: id_chars_def lower_az_def upper_az_def digits10_def space_edge_def space_runes_def)
  then show "c \<in> set id_chars \<Longrightarrow> \<not> space_edge c" by (simp add: list_all_iff)
qed

lemma id_not_blank:
  assumes "s \<noteq> []" "set s \<subseteq> set id_chars"
  shows "\<not> blank s"
proof -
  have "hd s \<in> set s" "last s \<in> set s" using assms(1) by simp_all
  then show ?thesis using assms id_chars_edge by (intro not_blankI) blast+
qed

lemma id_classes:
  "set lower_hex \<subseteq> set id_chars" "set any_hex \<subseteq> set id_chars" "set lower_az \<subseteq> set id_chars"
  "set upper_az \<subseteq> set id_chars" "set digits10 \<subseteq> set id_chars"
  by (simp_all add: id_chars_def lower_hex_def any_hex_def lower_az_def upper_az_def digits10_def)

lemma re_run_not_blank:
  assumes "re_run p cls lo hi s" "0 < length p + lo" "set p \<subseteq> set id_chars" "set cls \<subseteq> set id_chars"
  shows "\<not> blank s"
proof (rule id_not_blank)
  show "s \<noteq> []" using assms(1,2) by (rule re_run_nonempty)
  show "set s \<subseteq> set id_chars" using assms by (auto simp: re_run_iff subset_iff)
qed

lemma re_head_run_not_blank:
  assumes "re_head_run fc cls lo hi s" "set fc \<subseteq> set id_chars" "set cls \<subseteq> set id_chars"
  shows "\<not> blank s"
  using assms by (intro id_not_blank)
     (auto simp: re_head_run_def re_run_iff subset_iff split: list.splits)

lemma id_literals:
  "set ''case-'' \<subseteq> set id_chars" "set ''target-'' \<subseteq> set id_chars" "set ''evidence-'' \<subseteq> set id_chars"
  "set ''finding-'' \<subseteq> set id_chars" "set ''plan-'' \<subseteq> set id_chars" "set ''exec-'' \<subseteq> set id_chars"
  "set ''verify-'' \<subseteq> set id_chars" "set ''artifact-'' \<subseteq> set id_chars" "set ''cevt-'' \<subseteq> set id_chars"
  "set ''acq-'' \<subseteq> set id_chars" "set ''acqreq-'' \<subseteq> set id_chars" "set ''topology-'' \<subseteq> set id_chars"
  "set ''readreq-'' \<subseteq> set id_chars" "set ''consult-'' \<subseteq> set id_chars" "set ''creq-'' \<subseteq> set id_chars"
  "set ''hyp-'' \<subseteq> set id_chars" "set ''commit-'' \<subseteq> set id_chars" "set ''snapshot-'' \<subseteq> set id_chars"
  "set ''-'' \<subseteq> set id_chars" "set ''_'' \<subseteq> set id_chars" "set ''_.-'' \<subseteq> set id_chars"
  "set ''._-'' \<subseteq> set id_chars" "set [] \<subseteq> set id_chars"
  by (simp_all add: id_chars_def lower_az_def upper_az_def digits10_def)

lemma re_not_blank:
  "reCaseID v \<Longrightarrow> \<not> blank v" "reTargetID v \<Longrightarrow> \<not> blank v" "reEvidenceID v \<Longrightarrow> \<not> blank v"
  "reFindingID v \<Longrightarrow> \<not> blank v" "rePlanID v \<Longrightarrow> \<not> blank v" "reOperationID v \<Longrightarrow> \<not> blank v"
  "reExecutionID v \<Longrightarrow> \<not> blank v" "reVerificationID v \<Longrightarrow> \<not> blank v" "reArtifactID v \<Longrightarrow> \<not> blank v"
  "reCoordinatorEventID v \<Longrightarrow> \<not> blank v" "reAcquisitionID v \<Longrightarrow> \<not> blank v"
  "reAcquisitionRequestID v \<Longrightarrow> \<not> blank v" "reTopologyID v \<Longrightarrow> \<not> blank v"
  "reReadRequestID v \<Longrightarrow> \<not> blank v" "reConsultationID v \<Longrightarrow> \<not> blank v"
  "reConsultationRequestID v \<Longrightarrow> \<not> blank v" "reHypothesisID v \<Longrightarrow> \<not> blank v"
  "reProducerID v \<Longrightarrow> \<not> blank v" "reCommitID v \<Longrightarrow> \<not> blank v" "reSnapshotID v \<Longrightarrow> \<not> blank v"
  "reReasonCode v \<Longrightarrow> \<not> blank v" "reCommandID v \<Longrightarrow> \<not> blank v" "reSHA256 v \<Longrightarrow> \<not> blank v"
  unfolding re_defs
  by (erule re_run_not_blank re_head_run_not_blank;
      simp only: set_append Un_subset_iff id_classes id_literals list.size add_0 add_pos_pos;
      simp)+

lemma match_id_iff [simp, check_simps]:
  "requireMatch f v reCaseID = None \<longleftrightarrow> reCaseID v"
  "requireMatch f v reTargetID = None \<longleftrightarrow> reTargetID v"
  "requireMatch f v reEvidenceID = None \<longleftrightarrow> reEvidenceID v"
  "requireMatch f v reFindingID = None \<longleftrightarrow> reFindingID v"
  "requireMatch f v rePlanID = None \<longleftrightarrow> rePlanID v"
  "requireMatch f v reOperationID = None \<longleftrightarrow> reOperationID v"
  "requireMatch f v reExecutionID = None \<longleftrightarrow> reExecutionID v"
  "requireMatch f v reVerificationID = None \<longleftrightarrow> reVerificationID v"
  "requireMatch f v reArtifactID = None \<longleftrightarrow> reArtifactID v"
  "requireMatch f v reCoordinatorEventID = None \<longleftrightarrow> reCoordinatorEventID v"
  "requireMatch f v reAcquisitionID = None \<longleftrightarrow> reAcquisitionID v"
  "requireMatch f v reAcquisitionRequestID = None \<longleftrightarrow> reAcquisitionRequestID v"
  "requireMatch f v reTopologyID = None \<longleftrightarrow> reTopologyID v"
  "requireMatch f v reReadRequestID = None \<longleftrightarrow> reReadRequestID v"
  "requireMatch f v reConsultationID = None \<longleftrightarrow> reConsultationID v"
  "requireMatch f v reConsultationRequestID = None \<longleftrightarrow> reConsultationRequestID v"
  "requireMatch f v reHypothesisID = None \<longleftrightarrow> reHypothesisID v"
  "requireMatch f v reProducerID = None \<longleftrightarrow> reProducerID v"
  "requireMatch f v reCommitID = None \<longleftrightarrow> reCommitID v"
  "requireMatch f v reSnapshotID = None \<longleftrightarrow> reSnapshotID v"
  "requireMatch f v reReasonCode = None \<longleftrightarrow> reReasonCode v"
  "requireMatch f v reCommandID = None \<longleftrightarrow> reCommandID v"
  by (auto simp: requireMatch_None dest: re_not_blank)

lemma requireSHA256_None [simp, check_simps]: "requireSHA256 f v = None \<longleftrightarrow> reSHA256 v"
  by (auto simp: requireSHA256_def dest: re_not_blank)

lemma each_match_None [simp, check_simps]:
  "each_from i (\<lambda>j v. requireMatch (idx f j) v re) vs = None \<longleftrightarrow> (\<forall>v \<in> set vs. requireMatch [] v re = None)"
  by (rule each_from_iff) (simp add: requireMatch_None)

lemma requireUniqueIDList_None [check_simps]:
  "requireUniqueIDList f vs re = None \<longleftrightarrow>
    (\<exists>ids. vs = Some ids \<and> (\<forall>v \<in> set ids. requireMatch [] v re = None) \<and> distinct ids)"
proof (cases vs)
  case (Some ids)
  have "each_unique (\<lambda>i d. requireMatch (idx f i) d re) (\<lambda>d. d)
      (\<lambda>i d. Errorf ''%s contains duplicate %q'' [GStr f, GStr d]) ids = None \<longleftrightarrow>
    (\<forall>v \<in> set ids. requireMatch [] v re = None) \<and> distinct (map (\<lambda>d. d) ids) \<and>
    set (map (\<lambda>d. d) ids) \<inter> set [] = {}"
    by (rule unique_from_iff) (simp add: requireMatch_None)
  then show ?thesis using Some by (simp add: requireUniqueIDList_def)
qed (simp add: requireUniqueIDList_def)

text \<open>An enumeration of plain names: membership is all its check asks.\<close>

definition plain_enum :: "string list \<Rightarrow> bool" where
  "plain_enum vs \<longleftrightarrow> list_all (\<lambda>v. v \<noteq> [] \<and> list_all (\<lambda>c. c \<in> set id_chars) v) vs"

lemma plain_not_blank: "plain_enum vs \<Longrightarrow> v \<in> set vs \<Longrightarrow> \<not> blank v"
  by (intro id_not_blank) (auto simp: plain_enum_def list_all_iff)

lemma requireEnum_plain: "plain_enum vs \<Longrightarrow> requireEnum f v vs = None \<longleftrightarrow> v \<in> set vs"
  using plain_not_blank by (auto simp: requireEnum_None)

end
