(* ===== verification/DomainDocs.thy ===== *)
theory DomainDocs
  imports DomainBase
begin

text \<open>
  The case documents of \<^verbatim>\<open>internal/recovery/domain\<close>: the case manifest, artifact references,
  targets, evidence bundles, findings, repair plans, operation descriptors, execution events and
  verification reports. Each is a record with the fields of the Go struct in their order (a map as
  an association list with distinct keys, nil told from empty) and a \<^verbatim>\<open>Validate\<close> that returns the
  first failing check.
\<close>

section \<open>Case manifest\<close>

text \<open>The values of the string type \<^verbatim>\<open>CaseState\<close>.\<close>

definition CaseStateNew :: string where "CaseStateNew = ''NEW''"
definition CaseStateDiscovering :: string where "CaseStateDiscovering = ''DISCOVERING''"
definition CaseStateSnapshotted :: string where "CaseStateSnapshotted = ''SNAPSHOTTED''"
definition CaseStateDiagnosing :: string where "CaseStateDiagnosing = ''DIAGNOSING''"
definition CaseStateDiagnosed :: string where "CaseStateDiagnosed = ''DIAGNOSED''"
definition CaseStatePlanned :: string where "CaseStatePlanned = ''PLANNED''"
definition CaseStateAwaitingApproval :: string where "CaseStateAwaitingApproval = ''AWAITING_APPROVAL''"
definition CaseStateExecuting :: string where "CaseStateExecuting = ''EXECUTING''"
definition CaseStateVerifying :: string where "CaseStateVerifying = ''VERIFYING''"
definition CaseStateResolved :: string where "CaseStateResolved = ''RESOLVED''"
definition CaseStatePartiallyResolved :: string where
  "CaseStatePartiallyResolved = ''PARTIALLY_RESOLVED''"
definition CaseStateBlocked :: string where "CaseStateBlocked = ''BLOCKED''"
definition CaseStateEscalated :: string where "CaseStateEscalated = ''ESCALATED''"
definition CaseStateCancelled :: string where "CaseStateCancelled = ''CANCELLED''"
definition CaseStateFailed :: string where "CaseStateFailed = ''FAILED''"
definition CaseStateRollbackRequired :: string where "CaseStateRollbackRequired = ''ROLLBACK_REQUIRED''"
definition CaseStateRolledBack :: string where "CaseStateRolledBack = ''ROLLED_BACK''"
definition CaseStateDataPreservationRequired :: string where
  "CaseStateDataPreservationRequired = ''DATA_PRESERVATION_REQUIRED''"

definition caseStates :: "string list" where
  "caseStates =
     [CaseStateNew, CaseStateDiscovering, CaseStateSnapshotted, CaseStateDiagnosing,
      CaseStateDiagnosed, CaseStatePlanned, CaseStateAwaitingApproval, CaseStateExecuting,
      CaseStateVerifying, CaseStateResolved, CaseStatePartiallyResolved, CaseStateBlocked,
      CaseStateEscalated, CaseStateCancelled, CaseStateFailed, CaseStateRollbackRequired,
      CaseStateRolledBack, CaseStateDataPreservationRequired]"

lemmas case_state_defs = CaseStateNew_def CaseStateDiscovering_def CaseStateSnapshotted_def
  CaseStateDiagnosing_def CaseStateDiagnosed_def CaseStatePlanned_def CaseStateAwaitingApproval_def
  CaseStateExecuting_def CaseStateVerifying_def CaseStateResolved_def CaseStatePartiallyResolved_def
  CaseStateBlocked_def CaseStateEscalated_def CaseStateCancelled_def CaseStateFailed_def
  CaseStateRollbackRequired_def CaseStateRolledBack_def CaseStateDataPreservationRequired_def

definition privacyClasses :: "string list" where
  "privacyClasses = [''minimal'', ''standard'', ''elevated'', ''restricted'']"

definition runtimes :: "string list" where
  "runtimes = [''winpe'', ''windows'', ''lab_host'', ''unknown'']"

record CaseManifest =
  cm_SchemaName :: string
  cm_SchemaVersion :: string
  cm_CaseID :: string
  cm_CreatedAt :: string
  cm_UpdatedAt :: string
  cm_Runtime :: string
  cm_CurrentState :: string
  cm_TargetIDs :: "string slice"
  cm_PrivacyClass :: string
  cm_TechnicianStorageReference :: string

definition SchemaCaseManifest :: string where "SchemaCaseManifest = ''case-manifest''"

definition CaseManifest_Validate :: "CaseManifest \<Rightarrow> go_err" where
  "CaseManifest_Validate c = first_err
     [requireSchema (cm_SchemaName c) (cm_SchemaVersion c) SchemaCaseManifest,
      requireMatch ''case_id'' (cm_CaseID c) reCaseID,
      requireRFC3339 ''created_at'' (cm_CreatedAt c),
      requireRFC3339 ''updated_at'' (cm_UpdatedAt c),
      requireEnum ''runtime'' (cm_Runtime c) runtimes,
      requireEnum ''current_state'' (cm_CurrentState c) caseStates,
      required ''target_ids'' (cm_TargetIDs c),
      each (\<lambda>i d. requireMatch (idx ''target_ids'' i) d reTargetID) (elems (cm_TargetIDs c)),
      requireEnum ''privacy_class'' (cm_PrivacyClass c) privacyClasses,
      (if cm_TechnicianStorageReference c \<noteq> []
       then validateRelativePath ''technician_storage_reference'' (cm_TechnicianStorageReference c)
       else None)]"

section \<open>Artifacts\<close>

record ArtifactRef =
  art_ArtifactID :: string
  art_Kind :: string
  art_RelativePath :: string
  art_SHA256 :: string
  art_SizeBytes :: int
  art_CreatedAt :: string
  art_MediaClassification :: string

definition mediaClassifications :: "string list" where
  "mediaClassifications = [''case_local'', ''technician'', ''ephemeral'', ''export'']"

definition artifactKinds :: "string list" where
  "artifactKinds =
     [''log'', ''json'', ''binary'', ''screenshot'', ''report'', ''stdout'', ''stderr'', ''other'']"

definition ArtifactRef_Validate :: "ArtifactRef \<Rightarrow> go_err" where
  "ArtifactRef_Validate a = first_err
     [requireMatch ''artifact_id'' (art_ArtifactID a) reArtifactID,
      requireEnum ''kind'' (art_Kind a) artifactKinds,
      validateRelativePath ''relative_path'' (art_RelativePath a),
      requireSHA256 ''sha256'' (art_SHA256 a),
      err_if (art_SizeBytes a < 0) (Errorf ''size_bytes must be >= 0'' []),
      requireRFC3339 ''created_at'' (art_CreatedAt a),
      requireEnum ''media_classification'' (art_MediaClassification a) mediaClassifications]"

section \<open>Targets\<close>

record Target =
  tg_SchemaName :: string
  tg_SchemaVersion :: string
  tg_TargetID :: string
  tg_TargetType :: string
  tg_DiscoveredAt :: string
  tg_DisplayName :: string
  tg_StableIdentity :: "(string \<times> string) slice"
  tg_RuntimeLocators :: "(string \<times> string) slice"
  tg_Capabilities :: "string slice"
  tg_Limitations :: "string slice"

definition SchemaTarget :: string where "SchemaTarget = ''target''"

definition targetTypes :: "string list" where
  "targetTypes = [''disk'', ''partition'', ''volume'', ''windows_installation'', ''firmware'', ''boot_store'']"

definition Target_Validate :: "Target \<Rightarrow> go_err" where
  "Target_Validate t = first_err
     [requireSchema (tg_SchemaName t) (tg_SchemaVersion t) SchemaTarget,
      requireMatch ''target_id'' (tg_TargetID t) reTargetID,
      requireEnum ''target_type'' (tg_TargetType t) targetTypes,
      requireRFC3339 ''discovered_at'' (tg_DiscoveredAt t),
      requireNonEmpty ''display_name'' (tg_DisplayName t),
      err_if (elems (tg_StableIdentity t) = []) (Errorf ''stable_identity must contain at least one field'' []),
      each (\<lambda>_ kv. err_if (blank (fst kv) \<or> blank (snd kv))
                     (Errorf ''stable_identity entries must be non-empty'' []))
        (elems (tg_StableIdentity t)),
      required ''runtime_locators'' (tg_RuntimeLocators t),
      required ''capabilities'' (tg_Capabilities t),
      required ''limitations'' (tg_Limitations t)]"

section \<open>Evidence bundles\<close>

record EvidenceBundle =
  ev_SchemaName :: string
  ev_SchemaVersion :: string
  ev_EvidenceID :: string
  ev_CaseID :: string
  ev_TargetID :: string
  ev_Collector :: string
  ev_CollectorVersion :: string
  ev_CapturedAt :: string
  ev_SourceStatus :: string
  ev_FactsSchema :: string
  ev_Facts :: raw_message
  ev_Artifacts :: "ArtifactRef slice"
  ev_Limitations :: "string slice"

definition SchemaEvidenceBundle :: string where "SchemaEvidenceBundle = ''evidence-bundle''"

definition sourceStatuses :: "string list" where
  "sourceStatuses = [''ok'', ''partial'', ''unavailable'', ''error'']"

definition EvidenceBundle_Validate :: "EvidenceBundle \<Rightarrow> go_err" where
  "EvidenceBundle_Validate e = first_err
     [requireSchema (ev_SchemaName e) (ev_SchemaVersion e) SchemaEvidenceBundle,
      requireMatch ''evidence_id'' (ev_EvidenceID e) reEvidenceID,
      requireMatch ''case_id'' (ev_CaseID e) reCaseID,
      requireMatch ''target_id'' (ev_TargetID e) reTargetID,
      requireNonEmpty ''collector'' (ev_Collector e),
      requireNonEmpty ''collector_version'' (ev_CollectorVersion e),
      requireRFC3339 ''captured_at'' (ev_CapturedAt e),
      requireEnum ''source_status'' (ev_SourceStatus e) sourceStatuses,
      err_if (elems (ev_Facts e) = []) (Errorf ''facts is required'' []),
      err_if (\<not> json_valid (elems (ev_Facts e))) (Errorf ''facts must be valid JSON'' []),
      required ''artifacts'' (ev_Artifacts e),
      each (\<lambda>i a. wrap_err (\<lambda>x. Errorf ''artifacts[%d]: %w'' [GNat i, GWrap x]) (ArtifactRef_Validate a))
        (elems (ev_Artifacts e)),
      required ''limitations'' (ev_Limitations e)]"

section \<open>Findings\<close>

record Finding =
  fnd_SchemaName :: string
  fnd_SchemaVersion :: string
  fnd_FindingID :: string
  fnd_CaseID :: string
  fnd_Severity :: string
  fnd_Confidence :: string
  fnd_Title :: string
  fnd_Rationale :: string
  fnd_EvidenceRefs :: "string slice"
  fnd_AffectedTargetIDs :: "string slice"
  fnd_RecommendedWorkflows :: "string slice"
  fnd_Limitations :: "string slice"
  fnd_InsufficientEvidence :: bool

definition SchemaFinding :: string where "SchemaFinding = ''finding''"

definition severities :: "string list" where
  "severities = [''info'', ''low'', ''medium'', ''high'', ''critical'']"

definition confidences :: "string list" where
  "confidences = [''low'', ''medium'', ''high'']"

definition Finding_Validate :: "Finding \<Rightarrow> go_err" where
  "Finding_Validate f = first_err
     [requireSchema (fnd_SchemaName f) (fnd_SchemaVersion f) SchemaFinding,
      requireMatch ''finding_id'' (fnd_FindingID f) reFindingID,
      requireMatch ''case_id'' (fnd_CaseID f) reCaseID,
      requireEnum ''severity'' (fnd_Severity f) severities,
      requireEnum ''confidence'' (fnd_Confidence f) confidences,
      requireNonEmpty ''title'' (fnd_Title f),
      requireNonEmpty ''rationale'' (fnd_Rationale f),
      required ''evidence_refs'' (fnd_EvidenceRefs f),
      err_if (elems (fnd_EvidenceRefs f) = [] \<and> \<not> fnd_InsufficientEvidence f)
        (Errorf ''finding without evidence_refs must set insufficient_evidence=true'' []),
      each (\<lambda>i d. requireMatch (idx ''evidence_refs'' i) d reEvidenceID) (elems (fnd_EvidenceRefs f)),
      required ''affected_target_ids'' (fnd_AffectedTargetIDs f),
      each (\<lambda>i d. requireMatch (idx ''affected_target_ids'' i) d reTargetID)
        (elems (fnd_AffectedTargetIDs f)),
      required ''recommended_workflows'' (fnd_RecommendedWorkflows f),
      required ''limitations'' (fnd_Limitations f)]"

section \<open>Repair plans\<close>

record PlanStep =
  stp_StepID :: string
  stp_OperationID :: string
  stp_OperationVersion :: string
  stp_TargetID :: string
  stp_DependsOn :: "string slice"
  stp_ApprovalRequired :: bool
  stp_BackupRequired :: bool

definition PlanStep_Validate :: "PlanStep \<Rightarrow> go_err" where
  "PlanStep_Validate s = first_err
     [requireNonEmpty ''step_id'' (stp_StepID s),
      requireMatch ''operation_id'' (stp_OperationID s) reOperationID,
      err_if (\<not> reSemver (stp_OperationVersion s))
        (Errorf ''operation_version must be semver MAJOR.MINOR.PATCH'' []),
      requireMatch ''target_id'' (stp_TargetID s) reTargetID,
      required ''depends_on'' (stp_DependsOn s)]"

record RepairPlan =
  pln_SchemaName :: string
  pln_SchemaVersion :: string
  pln_PlanID :: string
  pln_CaseID :: string
  pln_FindingRefs :: "string slice"
  pln_Steps :: "PlanStep slice"
  pln_RiskSummary :: string
  pln_BackupRequirements :: "string slice"
  pln_ApprovalRequirements :: "string slice"
  pln_Status :: string

definition SchemaRepairPlan :: string where "SchemaRepairPlan = ''repair-plan''"

definition planStatuses :: "string list" where
  "planStatuses =
     [''draft'', ''ready'', ''awaiting_approval'', ''approved'', ''rejected'', ''superseded'', ''cancelled'']"

text \<open>The map \<^verbatim>\<open>stepIndex\<close> from step ids to positions, as built by the first loop.\<close>

definition stepIndex :: "PlanStep list \<Rightarrow> (string \<times> nat) list" where
  "stepIndex steps = zip (map stp_StepID steps) [0..<length steps]"

text \<open>The inner loop of the second pass: one dependency of step \<open>i\<close> after the other.\<close>

fun check_deps :: "(string \<times> nat) list \<Rightarrow> nat \<Rightarrow> string \<Rightarrow> string list \<Rightarrow> string list \<Rightarrow> go_err" where
  "check_deps ix i self seen [] = None"
| "check_deps ix i self seen (d # ds) =
     (if d = self then Some (Errorf ''steps[%d] depends_on must not reference itself'' [GNat i])
      else if d \<in> set seen
      then Some (Errorf ''steps[%d] depends_on contains duplicate %q'' [GNat i, GStr d])
      else (case map_of ix d of
              None \<Rightarrow> Some (Errorf ''steps[%d] depends_on unknown step_id %q'' [GNat i, GStr d])
            | Some k \<Rightarrow>
                if i \<le> k
                then Some (Errorf ''steps[%d] depends_on %q must precede the current step'' [GNat i, GStr d])
                else check_deps ix i self (d # seen) ds))"

definition RepairPlan_Validate :: "RepairPlan \<Rightarrow> go_err" where
  "RepairPlan_Validate p =
     (let steps = elems (pln_Steps p) in first_err
     [requireSchema (pln_SchemaName p) (pln_SchemaVersion p) SchemaRepairPlan,
      requireMatch ''plan_id'' (pln_PlanID p) rePlanID,
      requireMatch ''case_id'' (pln_CaseID p) reCaseID,
      required ''finding_refs'' (pln_FindingRefs p),
      each (\<lambda>i d. requireMatch (idx ''finding_refs'' i) d reFindingID) (elems (pln_FindingRefs p)),
      required ''steps'' (pln_Steps p),
      each_unique (\<lambda>i s. wrap_err (\<lambda>x. Errorf ''steps[%d]: %w'' [GNat i, GWrap x]) (PlanStep_Validate s))
        stp_StepID (\<lambda>i d. Errorf ''duplicate step_id %q'' [GStr d]) steps,
      each (\<lambda>i s. check_deps (stepIndex steps) i (stp_StepID s) [] (elems (stp_DependsOn s))) steps,
      requireNonEmpty ''risk_summary'' (pln_RiskSummary p),
      required ''backup_requirements'' (pln_BackupRequirements p),
      required ''approval_requirements'' (pln_ApprovalRequirements p),
      requireEnum ''status'' (pln_Status p) planStatuses])"

section \<open>Operation descriptors\<close>

definition RiskReadOnly :: string where "RiskReadOnly = ''read_only''"
definition RiskReversible :: string where "RiskReversible = ''reversible''"
definition RiskControlledMutation :: string where "RiskControlledMutation = ''controlled_mutation''"
definition RiskDestructive :: string where "RiskDestructive = ''destructive''"
definition RiskIrreversible :: string where "RiskIrreversible = ''irreversible''"
definition RollbackExact :: string where "RollbackExact = ''exact''"
definition RollbackBestEffort :: string where "RollbackBestEffort = ''best_effort''"
definition RollbackCompensating :: string where "RollbackCompensating = ''compensating''"
definition RollbackUnavailable :: string where "RollbackUnavailable = ''unavailable''"

lemmas risk_defs = RiskReadOnly_def RiskReversible_def RiskControlledMutation_def RiskDestructive_def
  RiskIrreversible_def RollbackExact_def RollbackBestEffort_def RollbackCompensating_def
  RollbackUnavailable_def

definition riskClasses :: "string list" where
  "riskClasses = [RiskReadOnly, RiskReversible, RiskControlledMutation, RiskDestructive, RiskIrreversible]"

definition rollbackQualities :: "string list" where
  "rollbackQualities = [RollbackExact, RollbackBestEffort, RollbackCompensating, RollbackUnavailable]"

definition mutationClasses :: "string list" where
  "mutationClasses = [''none'', ''metadata'', ''config'', ''data'', ''firmware'']"

record OperationDescriptor =
  op_SchemaName :: string
  op_SchemaVersion :: string
  op_OperationID :: string
  op_Version :: string
  op_Title :: string
  op_Description :: string
  op_Module :: string
  op_RiskClass :: string
  op_MutationClass :: string
  op_RequiredEvidence :: "string slice"
  op_RequiredCapabilities :: "string slice"
  op_SupportedRuntimes :: "string slice"
  op_RequiresBackup :: bool
  op_RollbackQuality :: string
  op_RequiresExplicitApproval :: bool
  op_ParametersSchemaRef :: string
  op_ResultSchemaRef :: string

definition SchemaOperationDescriptor :: string where
  "SchemaOperationDescriptor = ''operation-descriptor''"

definition validateSafetyInvariants :: "OperationDescriptor \<Rightarrow> go_err" where
  "validateSafetyInvariants od = first_err
     [(if op_RiskClass od = RiskReadOnly
       then first_err
         [err_if (op_MutationClass od \<noteq> ''none'')
            (Errorf ''read_only operations require mutation_class=none'' []),
          err_if (op_RequiresBackup od) (Errorf ''read_only operations require requires_backup=false'' [])]
       else err_if (op_MutationClass od = ''none'')
            (Errorf ''non-read_only operations require mutation_class != none'' [])),
      err_if (op_RiskClass od \<in> {RiskControlledMutation, RiskDestructive, RiskIrreversible}
              \<and> \<not> op_RequiresExplicitApproval od)
        (Errorf ''%s operations require requires_explicit_approval=true'' [GStr (op_RiskClass od)]),
      (if op_RiskClass od = RiskIrreversible
       then err_if (op_RollbackQuality od \<noteq> RollbackUnavailable)
              (Errorf ''irreversible operations require rollback_quality=unavailable'' [])
       else if op_RiskClass od = RiskReversible
       then err_if (op_RollbackQuality od = RollbackUnavailable)
              (Errorf ''reversible operations require rollback_quality != unavailable'' [])
       else None)]"

definition OperationDescriptor_Validate :: "OperationDescriptor \<Rightarrow> go_err" where
  "OperationDescriptor_Validate od = first_err
     [requireSchema (op_SchemaName od) (op_SchemaVersion od) SchemaOperationDescriptor,
      requireMatch ''operation_id'' (op_OperationID od) reOperationID,
      err_if (\<not> reSemver (op_Version od)) (Errorf ''version must be semver MAJOR.MINOR.PATCH'' []),
      requireNonEmpty ''title'' (op_Title od),
      requireNonEmpty ''description'' (op_Description od),
      requireNonEmpty ''module'' (op_Module od),
      requireEnum ''risk_class'' (op_RiskClass od) riskClasses,
      requireEnum ''mutation_class'' (op_MutationClass od) mutationClasses,
      required ''required_evidence'' (op_RequiredEvidence od),
      required ''required_capabilities'' (op_RequiredCapabilities od),
      err_if (elems (op_SupportedRuntimes od) = []) (Errorf ''supported_runtimes must be non-empty'' []),
      each (\<lambda>i rt. requireEnum (idx ''supported_runtimes'' i) rt runtimes) (elems (op_SupportedRuntimes od)),
      requireEnum ''rollback_quality'' (op_RollbackQuality od) rollbackQualities,
      requireNonEmpty ''parameters_schema_ref'' (op_ParametersSchemaRef od),
      requireNonEmpty ''result_schema_ref'' (op_ResultSchemaRef od),
      validateSafetyInvariants od]"

section \<open>Execution events\<close>

record ExecutionEvent =
  ex_SchemaName :: string
  ex_SchemaVersion :: string
  ex_ExecutionID :: string
  ex_CaseID :: string
  ex_OperationID :: string
  ex_OperationVersion :: string
  ex_TargetID :: string
  ex_StartedAt :: string
  ex_CompletedAt :: "string option"
  ex_Status :: string
  ex_ExitCode :: "int option"
  ex_StdoutArtifact :: string
  ex_StderrArtifact :: string
  ex_ChangedResources :: "string slice"
  ex_Error :: string

definition SchemaExecutionEvent :: string where "SchemaExecutionEvent = ''execution-event''"

definition executionStatuses :: "string list" where
  "executionStatuses = [''started'', ''succeeded'', ''failed'', ''cancelled'', ''timed_out'']"

definition terminalExecutionStatuses :: "string list" where
  "terminalExecutionStatuses = [''succeeded'', ''failed'', ''cancelled'', ''timed_out'']"

definition ExecutionEvent_validateLifecycle :: "ExecutionEvent \<Rightarrow> go_err" where
  "ExecutionEvent_validateLifecycle e = first_err
     [(if ex_Status e = ''started''
       then first_err
         [err_if (ex_CompletedAt e \<noteq> None)
            (Errorf ''status=started requires completed_at to be null/absent'' []),
          err_if (ex_ExitCode e \<noteq> None) (Errorf ''status=started requires exit_code to be null'' [])]
       else first_err
         [err_if (ex_Status e \<notin> set terminalExecutionStatuses)
            (Errorf ''status %q is not a known terminal status'' [GStr (ex_Status e)]),
          (case ex_CompletedAt e of
             None \<Rightarrow> Some (Errorf ''terminal status %q requires completed_at'' [GStr (ex_Status e)])
           | Some c \<Rightarrow> first_err
               [err_if (blank c) (Errorf ''terminal status %q requires completed_at'' [GStr (ex_Status e)]),
                requireRFC3339 ''completed_at'' c])]),
      (if ex_Status e = ''succeeded''
       then err_if (\<not> blank (ex_Error e)) (Errorf ''status=succeeded requires error to be empty/absent'' [])
       else if ex_Status e = ''failed'' \<or> ex_Status e = ''timed_out''
       then err_if (blank (ex_Error e)) (Errorf ''status=%s requires a non-empty error'' [GStr (ex_Status e)])
       else None)]"

definition ExecutionEvent_Validate :: "ExecutionEvent \<Rightarrow> go_err" where
  "ExecutionEvent_Validate e = first_err
     [requireSchema (ex_SchemaName e) (ex_SchemaVersion e) SchemaExecutionEvent,
      requireMatch ''execution_id'' (ex_ExecutionID e) reExecutionID,
      requireMatch ''case_id'' (ex_CaseID e) reCaseID,
      requireMatch ''operation_id'' (ex_OperationID e) reOperationID,
      err_if (\<not> reSemver (ex_OperationVersion e))
        (Errorf ''operation_version must be semver MAJOR.MINOR.PATCH'' []),
      requireMatch ''target_id'' (ex_TargetID e) reTargetID,
      requireRFC3339 ''started_at'' (ex_StartedAt e),
      requireEnum ''status'' (ex_Status e) executionStatuses,
      (if ex_StdoutArtifact e \<noteq> [] then requireMatch ''stdout_artifact'' (ex_StdoutArtifact e) reArtifactID
       else None),
      (if ex_StderrArtifact e \<noteq> [] then requireMatch ''stderr_artifact'' (ex_StderrArtifact e) reArtifactID
       else None),
      required ''changed_resources'' (ex_ChangedResources e),
      ExecutionEvent_validateLifecycle e]"

section \<open>Verification reports\<close>

record ConditionCheck =
  cc_Name :: string
  cc_Status :: string
  cc_Detail :: string

definition conditionStatuses :: "string list" where
  "conditionStatuses = [''met'', ''not_met'', ''unavailable'']"

definition ConditionCheck_Validate :: "string \<Rightarrow> ConditionCheck \<Rightarrow> go_err" where
  "ConditionCheck_Validate field c = first_err
     [requireNonEmpty (field @ ''.name'') (cc_Name c),
      requireEnum (field @ ''.status'') (cc_Status c) conditionStatuses]"

record VerificationReport =
  vr_SchemaName :: string
  vr_SchemaVersion :: string
  vr_VerificationID :: string
  vr_CaseID :: string
  vr_ExecutionID :: string
  vr_Verifier :: string
  vr_VerifiedAt :: string
  vr_ExpectedConditions :: "ConditionCheck slice"
  vr_ObservedConditions :: "ConditionCheck slice"
  vr_Status :: string
  vr_Regressions :: "string slice"
  vr_RemainingRisks :: "string slice"
  vr_EvidenceRefs :: "string slice"

definition SchemaVerificationReport :: string where "SchemaVerificationReport = ''verification-report''"

definition verificationStatuses :: "string list" where
  "verificationStatuses = [''resolved'', ''partially_resolved'', ''not_resolved'', ''regressed'', ''inconclusive'']"

definition VerificationReport_Validate :: "VerificationReport \<Rightarrow> go_err" where
  "VerificationReport_Validate v = first_err
     [requireSchema (vr_SchemaName v) (vr_SchemaVersion v) SchemaVerificationReport,
      requireMatch ''verification_id'' (vr_VerificationID v) reVerificationID,
      requireMatch ''case_id'' (vr_CaseID v) reCaseID,
      requireMatch ''execution_id'' (vr_ExecutionID v) reExecutionID,
      requireNonEmpty ''verifier'' (vr_Verifier v),
      requireRFC3339 ''verified_at'' (vr_VerifiedAt v),
      required ''expected_conditions'' (vr_ExpectedConditions v),
      each (\<lambda>i c. ConditionCheck_Validate (idx ''expected_conditions'' i) c) (elems (vr_ExpectedConditions v)),
      required ''observed_conditions'' (vr_ObservedConditions v),
      each (\<lambda>i c. ConditionCheck_Validate (idx ''observed_conditions'' i) c) (elems (vr_ObservedConditions v)),
      requireEnum ''status'' (vr_Status v) verificationStatuses,
      required ''regressions'' (vr_Regressions v),
      required ''remaining_risks'' (vr_RemainingRisks v),
      required ''evidence_refs'' (vr_EvidenceRefs v),
      each (\<lambda>i d. requireMatch (idx ''evidence_refs'' i) d reEvidenceID) (elems (vr_EvidenceRefs v))]"

section \<open>Canonical JSON of the mergeable documents\<close>

definition Target_json :: "Target \<Rightarrow> json" where
  "Target_json t = JObj
     [(''schema_name'', JStr (tg_SchemaName t)), (''schema_version'', JStr (tg_SchemaVersion t)),
      (''target_id'', JStr (tg_TargetID t)), (''target_type'', JStr (tg_TargetType t)),
      (''discovered_at'', JStr (tg_DiscoveredAt t)), (''display_name'', JStr (tg_DisplayName t)),
      (''stable_identity'', json_map (tg_StableIdentity t)),
      (''runtime_locators'', json_map (tg_RuntimeLocators t)),
      (''capabilities'', json_strs (tg_Capabilities t)), (''limitations'', json_strs (tg_Limitations t))]"

definition ArtifactRef_json :: "ArtifactRef \<Rightarrow> json" where
  "ArtifactRef_json a = JObj
     [(''artifact_id'', JStr (art_ArtifactID a)), (''kind'', JStr (art_Kind a)),
      (''relative_path'', JStr (art_RelativePath a)), (''sha256'', JStr (art_SHA256 a)),
      (''size_bytes'', JInt (art_SizeBytes a)), (''created_at'', JStr (art_CreatedAt a)),
      (''media_classification'', JStr (art_MediaClassification a))]"

definition json_docs :: "('a \<Rightarrow> json) \<Rightarrow> 'a slice \<Rightarrow> json" where
  "json_docs f s = (case s of None \<Rightarrow> JNull | Some xs \<Rightarrow> JArr (map f xs))"

definition EvidenceBundle_json :: "EvidenceBundle \<Rightarrow> json" where
  "EvidenceBundle_json e = JObj
     ([(''schema_name'', JStr (ev_SchemaName e)), (''schema_version'', JStr (ev_SchemaVersion e)),
       (''evidence_id'', JStr (ev_EvidenceID e)), (''case_id'', JStr (ev_CaseID e)),
       (''target_id'', JStr (ev_TargetID e)), (''collector'', JStr (ev_Collector e)),
       (''collector_version'', JStr (ev_CollectorVersion e)), (''captured_at'', JStr (ev_CapturedAt e)),
       (''source_status'', JStr (ev_SourceStatus e))]
      @ omit_empty ''facts_schema'' (ev_FactsSchema e)
      @ [(''facts'', JRaw (ev_Facts e)), (''artifacts'', json_docs ArtifactRef_json (ev_Artifacts e)),
         (''limitations'', json_strs (ev_Limitations e))])"

definition Finding_json :: "Finding \<Rightarrow> json" where
  "Finding_json f = JObj
     ([(''schema_name'', JStr (fnd_SchemaName f)), (''schema_version'', JStr (fnd_SchemaVersion f)),
       (''finding_id'', JStr (fnd_FindingID f)), (''case_id'', JStr (fnd_CaseID f)),
       (''severity'', JStr (fnd_Severity f)), (''confidence'', JStr (fnd_Confidence f)),
       (''title'', JStr (fnd_Title f)), (''rationale'', JStr (fnd_Rationale f)),
       (''evidence_refs'', json_strs (fnd_EvidenceRefs f)),
       (''affected_target_ids'', json_strs (fnd_AffectedTargetIDs f)),
       (''recommended_workflows'', json_strs (fnd_RecommendedWorkflows f)),
       (''limitations'', json_strs (fnd_Limitations f))]
      @ omit_false ''insufficient_evidence'' (fnd_InsufficientEvidence f))"

definition PlanStep_json :: "PlanStep \<Rightarrow> json" where
  "PlanStep_json s = JObj
     [(''step_id'', JStr (stp_StepID s)), (''operation_id'', JStr (stp_OperationID s)),
      (''operation_version'', JStr (stp_OperationVersion s)), (''target_id'', JStr (stp_TargetID s)),
      (''depends_on'', json_strs (stp_DependsOn s)), (''approval_required'', JBool (stp_ApprovalRequired s)),
      (''backup_required'', JBool (stp_BackupRequired s))]"

definition RepairPlan_json :: "RepairPlan \<Rightarrow> json" where
  "RepairPlan_json p = JObj
     [(''schema_name'', JStr (pln_SchemaName p)), (''schema_version'', JStr (pln_SchemaVersion p)),
      (''plan_id'', JStr (pln_PlanID p)), (''case_id'', JStr (pln_CaseID p)),
      (''finding_refs'', json_strs (pln_FindingRefs p)),
      (''steps'', json_docs PlanStep_json (pln_Steps p)),
      (''risk_summary'', JStr (pln_RiskSummary p)),
      (''backup_requirements'', json_strs (pln_BackupRequirements p)),
      (''approval_requirements'', json_strs (pln_ApprovalRequirements p)),
      (''status'', JStr (pln_Status p))]"

section \<open>What a valid document is\<close>

lemma raws_valid_docs [simp]:
  "raws_valid (json_docs f s) \<longleftrightarrow> (\<forall>x \<in> set (elems s). raws_valid (f x))"
  by (auto simp: json_docs_def split: option.splits)

lemma raws_valid_json [simp]:
  "raws_valid (Target_json t)" "raws_valid (ArtifactRef_json a)" "raws_valid (Finding_json f)"
  "raws_valid (PlanStep_json s)" "raws_valid (RepairPlan_json p)"
  by (auto simp: Target_json_def ArtifactRef_json_def Finding_json_def PlanStep_json_def RepairPlan_json_def)

lemma raws_valid_evidence [simp]:
  "raws_valid (EvidenceBundle_json e) \<longleftrightarrow> ev_Facts e = None \<or> json_valid (elems (ev_Facts e))"
  by (auto simp: EvidenceBundle_json_def split: option.splits)

subsection \<open>Repair plans: dependencies precede their step\<close>

definition plan_steps :: "RepairPlan \<Rightarrow> PlanStep list" where
  "plan_steps p = elems (pln_Steps p)"

definition step_deps :: "PlanStep \<Rightarrow> string list" where
  "step_deps s = elems (stp_DependsOn s)"

definition topologically_ordered :: "PlanStep list \<Rightarrow> bool" where
  "topologically_ordered steps \<longleftrightarrow>
     distinct (map stp_StepID steps) \<and>
     (\<forall>i < length steps. distinct (step_deps (steps ! i)) \<and>
        (\<forall>d \<in> set (step_deps (steps ! i)). \<exists>k < i. stp_StepID (steps ! k) = d))"

definition depends :: "PlanStep list \<Rightarrow> (string \<times> string) set" where
  "depends steps = {(d, stp_StepID s) | d s. s \<in> set steps \<and> d \<in> set (step_deps s)}"

lemma check_deps_None:
  "check_deps ix i self seen ds = None \<longleftrightarrow>
     self \<notin> set ds \<and> distinct ds \<and> set ds \<inter> set seen = {} \<and>
     (\<forall>d \<in> set ds. \<exists>k < i. map_of ix d = Some k)"
  by (induction ds arbitrary: seen) (auto split: option.splits)

lemma map_of_stepIndex:
  assumes "distinct (map stp_StepID steps)"
  shows "map_of (stepIndex steps) d = Some k \<longleftrightarrow> k < length steps \<and> stp_StepID (steps ! k) = d"
proof -
  have "distinct (map fst (stepIndex steps))" using assms by (simp add: stepIndex_def)
  then have "map_of (stepIndex steps) d = Some k \<longleftrightarrow> (d, k) \<in> set (stepIndex steps)"
    by (metis map_of_SomeD map_of_is_SomeI)
  also have "\<dots> \<longleftrightarrow> k < length steps \<and> stp_StepID (steps ! k) = d"
    unfolding stepIndex_def in_set_zip by (auto intro: exI [of _ k])
  finally show ?thesis .
qed

lemma deps_checked_iff:
  assumes "distinct (map stp_StepID steps)"
  shows "each (\<lambda>i s. check_deps (stepIndex steps) i (stp_StepID s) [] (elems (stp_DependsOn s))) steps = None
    \<longleftrightarrow> topologically_ordered steps"
proof -
  have self: "stp_StepID (steps ! i) \<noteq> stp_StepID (steps ! k)" if "k < i" "i < length steps" for i k
    using assms that by (auto simp: distinct_conv_nth)
  have dep: "(\<exists>k < i. map_of (stepIndex steps) d = Some k) \<longleftrightarrow> (\<exists>k < i. stp_StepID (steps ! k) = d)"
    if "i < length steps" for i d
    using that by (auto simp: map_of_stepIndex [OF assms])
  show ?thesis
    using assms self
    by (auto simp: each_from_None check_deps_None topologically_ordered_def step_deps_def dep) metis
qed

lemma RepairPlan_Validate_iff:
  "RepairPlan_Validate p = None \<longleftrightarrow>
     pln_SchemaName p = SchemaRepairPlan \<and> pln_SchemaVersion p = SchemaVersion \<and>
     rePlanID (pln_PlanID p) \<and> reCaseID (pln_CaseID p) \<and>
     pln_FindingRefs p \<noteq> None \<and> (\<forall>d \<in> set (elems (pln_FindingRefs p)). reFindingID d) \<and>
     pln_Steps p \<noteq> None \<and> (\<forall>s \<in> set (plan_steps p). PlanStep_Validate s = None) \<and>
     topologically_ordered (plan_steps p) \<and>
     \<not> blank (pln_RiskSummary p) \<and> pln_BackupRequirements p \<noteq> None \<and>
     pln_ApprovalRequirements p \<noteq> None \<and> \<not> blank (pln_Status p) \<and> pln_Status p \<in> set planStatuses"
proof -
  let ?deps = "\<lambda>steps. each (\<lambda>i s. check_deps (stepIndex steps) i (stp_StepID s) []
    (elems (stp_DependsOn s))) steps = None"
  have top: "distinct (map stp_StepID steps) \<and> ?deps steps \<longleftrightarrow> topologically_ordered steps" for steps
    by (cases "distinct (map stp_StepID steps)")
       (simp add: deps_checked_iff, simp add: topologically_ordered_def)
  show ?thesis
    unfolding RepairPlan_Validate_def Let_def plan_steps_def top [symmetric]
    by (simp add: requireEnum_None)
qed

lemma topologically_ordered_acyclic:
  assumes "topologically_ordered steps"
  shows "acyclic (depends steps)"
proof (rule acyclicI_order)
  let ?pos = "\<lambda>d. - int (the (map_of (stepIndex steps) d))"
  have dist: "distinct (map stp_StepID steps)" using assms by (simp add: topologically_ordered_def)
  fix d e assume "(d, e) \<in> depends steps"
  then obtain i where i: "i < length steps" "e = stp_StepID (steps ! i)" "d \<in> set (step_deps (steps ! i))"
    by (auto simp: depends_def in_set_conv_nth)
  then obtain k where k: "k < i" "stp_StepID (steps ! k) = d"
    using assms by (auto simp: topologically_ordered_def)
  have "map_of (stepIndex steps) d = Some k" "map_of (stepIndex steps) e = Some i"
    using i k by (simp_all add: map_of_stepIndex [OF dist])
  then show "?pos e < ?pos d" using k by simp
qed

end
