(* ===== verification/DomainWorkflow.thy ===== *)
theory DomainWorkflow
  imports DomainDocs
begin

text \<open>
  The coordinator's workflow documents (\<^verbatim>\<open>internal/recovery/domain\<close>): the workflow state, the
  immutable coordinator events and the semantic rules both the coordinator and the case store check
  on them. The lifecycle they implement is specified as a step relation on an abstract phase, and
  the table of the code is shown to be exactly that relation.
\<close>

section \<open>Workflow states\<close>

definition WorkflowCreated :: string where "WorkflowCreated = ''created''"
definition WorkflowEvidenceCollected :: string where "WorkflowEvidenceCollected = ''evidence_collected''"
definition WorkflowAnalyzed :: string where "WorkflowAnalyzed = ''analyzed''"
definition WorkflowPlanProposed :: string where "WorkflowPlanProposed = ''plan_proposed''"
definition WorkflowAwaitingApproval :: string where "WorkflowAwaitingApproval = ''awaiting_approval''"
definition WorkflowApproved :: string where "WorkflowApproved = ''approved''"
definition WorkflowBackingUp :: string where "WorkflowBackingUp = ''backing_up''"
definition WorkflowReadyToExecute :: string where "WorkflowReadyToExecute = ''ready_to_execute''"
definition WorkflowExecuting :: string where "WorkflowExecuting = ''executing''"
definition WorkflowVerifying :: string where "WorkflowVerifying = ''verifying''"
definition WorkflowCompleted :: string where "WorkflowCompleted = ''completed''"
definition WorkflowFailed :: string where "WorkflowFailed = ''failed''"
definition WorkflowRollbackRequired :: string where "WorkflowRollbackRequired = ''rollback_required''"
definition WorkflowRollingBack :: string where "WorkflowRollingBack = ''rolling_back''"
definition WorkflowRolledBack :: string where "WorkflowRolledBack = ''rolled_back''"
definition WorkflowCancelled :: string where "WorkflowCancelled = ''cancelled''"

lemmas workflow_defs = WorkflowCreated_def WorkflowEvidenceCollected_def WorkflowAnalyzed_def
  WorkflowPlanProposed_def WorkflowAwaitingApproval_def WorkflowApproved_def WorkflowBackingUp_def
  WorkflowReadyToExecute_def WorkflowExecuting_def WorkflowVerifying_def WorkflowCompleted_def
  WorkflowFailed_def WorkflowRollbackRequired_def WorkflowRollingBack_def WorkflowRolledBack_def
  WorkflowCancelled_def

definition workflowStates :: "string list" where
  "workflowStates =
     [WorkflowCreated, WorkflowEvidenceCollected, WorkflowAnalyzed, WorkflowPlanProposed,
      WorkflowAwaitingApproval, WorkflowApproved, WorkflowBackingUp, WorkflowReadyToExecute,
      WorkflowExecuting, WorkflowVerifying, WorkflowCompleted, WorkflowFailed,
      WorkflowRollbackRequired, WorkflowRollingBack, WorkflowRolledBack, WorkflowCancelled]"

record WorkflowFailure =
  wfl_ReasonCode :: string
  wfl_DetailCode :: string

definition WorkflowFailure_Validate :: "WorkflowFailure \<Rightarrow> go_err" where
  "WorkflowFailure_Validate f = first_err
     [requireMatch ''reason_code'' (wfl_ReasonCode f) reReasonCode,
      (if wfl_DetailCode f \<noteq> [] then requireMatch ''detail_code'' (wfl_DetailCode f) reReasonCode
       else None)]"

record CaseWorkflowState =
  wf_SchemaName :: string
  wf_SchemaVersion :: string
  wf_CaseID :: string
  wf_State :: string
  wf_Revision :: "64 word"
  wf_UpdatedAt :: string
  wf_LastTransitionID :: string
  wf_ActivePlanID :: string
  wf_ActiveExecutionID :: string
  wf_Failure :: "WorkflowFailure option"

definition SchemaCaseWorkflowState :: string where "SchemaCaseWorkflowState = ''case-workflow-state''"

definition CaseWorkflowState_Validate :: "CaseWorkflowState \<Rightarrow> go_err" where
  "CaseWorkflowState_Validate w = first_err
     [requireSchema (wf_SchemaName w) (wf_SchemaVersion w) SchemaCaseWorkflowState,
      requireMatch ''case_id'' (wf_CaseID w) reCaseID,
      requireEnum ''state'' (wf_State w) workflowStates,
      err_if (wf_Revision w < 1) (Errorf ''revision must be >= 1'' []),
      requireRFC3339 ''updated_at'' (wf_UpdatedAt w),
      requireMatch ''last_transition_id'' (wf_LastTransitionID w) reCoordinatorEventID,
      (if wf_ActivePlanID w \<noteq> [] then requireMatch ''active_plan_id'' (wf_ActivePlanID w) rePlanID
       else None),
      (if wf_ActiveExecutionID w \<noteq> []
       then requireMatch ''active_execution_id'' (wf_ActiveExecutionID w) reExecutionID else None),
      (case wf_Failure w of None \<Rightarrow> None
       | Some f \<Rightarrow> wrap_err (\<lambda>x. Errorf ''failure: %w'' [GWrap x]) (WorkflowFailure_Validate f))]"

section \<open>Coordinator events\<close>

definition ActorSystem :: string where "ActorSystem = ''system''"
definition ActorTechnician :: string where "ActorTechnician = ''technician''"
definition ActorDeterministicAnalyzer :: string where "ActorDeterministicAnalyzer = ''deterministic_analyzer''"
definition ActorLLMAdvisor :: string where "ActorLLMAdvisor = ''llm_advisor''"
definition ActorPolicy :: string where "ActorPolicy = ''policy''"
definition ActorExecutor :: string where "ActorExecutor = ''executor''"
definition ActorVerifier :: string where "ActorVerifier = ''verifier''"

lemmas actor_defs = ActorSystem_def ActorTechnician_def ActorDeterministicAnalyzer_def
  ActorLLMAdvisor_def ActorPolicy_def ActorExecutor_def ActorVerifier_def

definition actorTypes :: "string list" where
  "actorTypes = [ActorSystem, ActorTechnician, ActorDeterministicAnalyzer, ActorLLMAdvisor,
                 ActorPolicy, ActorExecutor, ActorVerifier]"

definition EventCaseCreated :: string where "EventCaseCreated = ''case_created''"
definition EventAnalysisCommitted :: string where "EventAnalysisCommitted = ''analysis_committed''"
definition EventPlanCommitted :: string where "EventPlanCommitted = ''plan_committed''"
definition EventCaseFailed :: string where "EventCaseFailed = ''case_failed''"
definition EventCaseCancelled :: string where "EventCaseCancelled = ''case_cancelled''"
definition EventLegacyCaseAdopted :: string where "EventLegacyCaseAdopted = ''legacy_case_adopted''"

lemmas event_defs = EventCaseCreated_def EventAnalysisCommitted_def EventPlanCommitted_def
  EventCaseFailed_def EventCaseCancelled_def EventLegacyCaseAdopted_def

definition coordinatorEventTypes :: "string list" where
  "coordinatorEventTypes = [EventCaseCreated, EventAnalysisCommitted, EventPlanCommitted,
                            EventCaseFailed, EventCaseCancelled, EventLegacyCaseAdopted]"

definition DocumentIDCaseWorkflowState :: string where
  "DocumentIDCaseWorkflowState = ''case-workflow-state''"

record CoordinatorEvent =
  we_SchemaName :: string
  we_SchemaVersion :: string
  we_EventID :: string
  we_CaseID :: string
  we_EventType :: string
  we_ActorType :: string
  we_OccurredAt :: string
  we_PreviousState :: string
  we_NextState :: string
  we_ExpectedCommitID :: string
  we_WorkflowRevision :: "64 word"
  we_ReferencedDocumentIDs :: "string slice"
  we_ReasonCode :: string
  we_CommandID :: string

definition SchemaCoordinatorEvent :: string where "SchemaCoordinatorEvent = ''coordinator-event''"

definition CoordinatorEvent_Validate :: "CoordinatorEvent \<Rightarrow> go_err" where
  "CoordinatorEvent_Validate e = first_err
     [requireSchema (we_SchemaName e) (we_SchemaVersion e) SchemaCoordinatorEvent,
      requireMatch ''event_id'' (we_EventID e) reCoordinatorEventID,
      requireMatch ''case_id'' (we_CaseID e) reCaseID,
      requireEnum ''event_type'' (we_EventType e) coordinatorEventTypes,
      requireEnum ''actor_type'' (we_ActorType e) actorTypes,
      requireRFC3339 ''occurred_at'' (we_OccurredAt e),
      (if we_PreviousState e \<noteq> [] then requireEnum ''previous_state'' (we_PreviousState e) workflowStates
       else None),
      (if we_NextState e \<noteq> [] then requireEnum ''next_state'' (we_NextState e) workflowStates
       else None),
      (if we_ExpectedCommitID e \<noteq> [] then requireMatch ''expected_commit_id'' (we_ExpectedCommitID e) reCommitID
       else None),
      err_if (we_WorkflowRevision e = 0)
        (Errorf ''workflow_revision is required and must be >= 1 for state-changing event %q''
           [GStr (we_EventType e)]),
      required ''referenced_document_ids'' (we_ReferencedDocumentIDs e),
      requireMatch ''reason_code'' (we_ReasonCode e) reReasonCode,
      (if we_CommandID e \<noteq> [] then requireMatch ''command_id'' (we_CommandID e) reCommandID
       else None)]"

section \<open>Case state of a workflow state\<close>

definition CaseStateForWorkflow :: "string \<Rightarrow> string result" where
  "CaseStateForWorkflow st =
     (if st = WorkflowCreated then Inr CaseStateNew
      else if st = WorkflowEvidenceCollected then Inr CaseStateSnapshotted
      else if st = WorkflowAnalyzed then Inr CaseStateDiagnosed
      else if st = WorkflowPlanProposed then Inr CaseStatePlanned
      else if st = WorkflowAwaitingApproval then Inr CaseStateAwaitingApproval
      else if st = WorkflowApproved then Inr CaseStatePlanned
      else if st = WorkflowBackingUp \<or> st = WorkflowReadyToExecute then Inr CaseStatePlanned
      else if st = WorkflowExecuting then Inr CaseStateExecuting
      else if st = WorkflowVerifying then Inr CaseStateVerifying
      else if st = WorkflowCompleted then Inr CaseStateResolved
      else if st = WorkflowFailed then Inr CaseStateFailed
      else if st = WorkflowRollbackRequired then Inr CaseStateRollbackRequired
      else if st = WorkflowRollingBack then Inr CaseStateRollbackRequired
      else if st = WorkflowRolledBack then Inr CaseStateRolledBack
      else if st = WorkflowCancelled then Inr CaseStateCancelled
      else Inl (Errorf ''unknown workflow state %q'' [GStr st]))"

definition CompatibleWorkflowAndCaseState :: "string \<Rightarrow> string \<Rightarrow> bool" where
  "CompatibleWorkflowAndCaseState workflow caseState =
     (case CaseStateForWorkflow workflow of Inl _ \<Rightarrow> False | Inr want \<Rightarrow> want = caseState)"

section \<open>Event semantics\<close>

definition isPR17AllowedActor :: "string \<Rightarrow> bool" where
  "isPR17AllowedActor actor = (actor \<in> {ActorSystem, ActorTechnician, ActorDeterministicAnalyzer})"

definition IsStateChangingCoordinatorEventType :: "string \<Rightarrow> bool" where
  "IsStateChangingCoordinatorEventType et =
     (et \<in> {EventCaseCreated, EventLegacyCaseAdopted, EventAnalysisCommitted,
             EventPlanCommitted, EventCaseFailed, EventCaseCancelled})"

definition allowedActorForPR17Event :: "string \<Rightarrow> string \<Rightarrow> bool" where
  "allowedActorForPR17Event et actor =
     (if et = EventCaseCreated \<or> et = EventLegacyCaseAdopted
      then actor = ActorSystem \<or> actor = ActorTechnician
      else if et = EventAnalysisCommitted
      then actor = ActorSystem \<or> actor = ActorDeterministicAnalyzer
      else if et = EventPlanCommitted
      then actor = ActorSystem \<or> actor = ActorTechnician \<or> actor = ActorDeterministicAnalyzer
      else if et = EventCaseFailed \<or> et = EventCaseCancelled then isPR17AllowedActor actor
      else False)"

definition validPR17TransitionForEvent :: "string \<Rightarrow> string \<Rightarrow> string \<Rightarrow> bool" where
  "validPR17TransitionForEvent et prev nxt =
     (if et = EventCaseCreated then prev = WorkflowCreated \<and> nxt = WorkflowEvidenceCollected
      else if et = EventLegacyCaseAdopted then prev = [] \<and> nxt = WorkflowEvidenceCollected
      else if et = EventAnalysisCommitted
      then (prev = WorkflowEvidenceCollected \<and> nxt = WorkflowAnalyzed) \<or>
           (prev = WorkflowAnalyzed \<and> nxt = WorkflowAnalyzed)
      else if et = EventPlanCommitted then prev = WorkflowAnalyzed \<and> nxt = WorkflowPlanProposed
      else if et = EventCaseFailed
      then (prev = WorkflowEvidenceCollected \<or> prev = WorkflowAnalyzed \<or> prev = WorkflowPlanProposed) \<and>
           nxt = WorkflowFailed
      else if et = EventCaseCancelled
      then (prev = WorkflowEvidenceCollected \<or> prev = WorkflowAnalyzed \<or> prev = WorkflowPlanProposed) \<and>
           nxt = WorkflowCancelled
      else False)"

definition ValidatePR17CoordinatorEventSemantics :: "CoordinatorEvent \<Rightarrow> go_err" where
  "ValidatePR17CoordinatorEventSemantics e = first_err
     [CoordinatorEvent_Validate e,
      err_if (\<not> IsStateChangingCoordinatorEventType (we_EventType e))
        (Errorf ''event_type %q is not implemented in PR #17'' [GStr (we_EventType e)]),
      err_if (\<not> isPR17AllowedActor (we_ActorType e))
        (Errorf ''actor_type %q is not permitted in PR #17'' [GStr (we_ActorType e)]),
      err_if (\<not> allowedActorForPR17Event (we_EventType e) (we_ActorType e))
        (Errorf ''actor_type %q may not emit event_type %q'' [GStr (we_ActorType e), GStr (we_EventType e)]),
      err_if (\<not> validPR17TransitionForEvent (we_EventType e) (we_PreviousState e) (we_NextState e))
        (Errorf ''event_type %q has invalid transition %q -> %q''
           [GStr (we_EventType e), GStr (we_PreviousState e), GStr (we_NextState e)]),
      (if we_EventType e = EventCaseCreated then first_err
         [err_if (we_WorkflowRevision e \<noteq> 1) (Errorf ''case_created must use workflow_revision 1'' []),
          err_if (we_ExpectedCommitID e \<noteq> []) (Errorf ''case_created must not set expected_commit_id'' [])]
       else if we_EventType e = EventLegacyCaseAdopted then first_err
         [err_if (we_WorkflowRevision e \<noteq> 1)
            (Errorf ''legacy_case_adopted must use workflow_revision 1'' []),
          err_if (we_ExpectedCommitID e = []) (Errorf ''legacy_case_adopted must set expected_commit_id'' [])]
       else first_err
         [err_if (we_WorkflowRevision e \<le> 1)
            (Errorf ''event_type %q requires workflow_revision > 1'' [GStr (we_EventType e)]),
          err_if (we_ExpectedCommitID e = [])
            (Errorf ''event_type %q requires expected_commit_id'' [GStr (we_EventType e)])])]"

section \<open>Workflow state semantics\<close>

definition no_execution_no_failure :: "CaseWorkflowState \<Rightarrow> go_err" where
  "no_execution_no_failure w = first_err
     [err_if (wf_ActiveExecutionID w \<noteq> [])
        (Errorf ''state %q must not set active_execution_id'' [GStr (wf_State w)]),
      err_if (wf_Failure w \<noteq> None) (Errorf ''state %q must not set failure'' [GStr (wf_State w)])]"

definition ValidatePR17WorkflowStateDocumentSemantics :: "CaseWorkflowState \<Rightarrow> go_err" where
  "ValidatePR17WorkflowStateDocumentSemantics w =
     (if wf_State w = WorkflowEvidenceCollected \<or> wf_State w = WorkflowAnalyzed then first_err
        [err_if (wf_ActivePlanID w \<noteq> []) (Errorf ''state %q must not set active_plan_id'' [GStr (wf_State w)]),
         no_execution_no_failure w]
      else if wf_State w = WorkflowPlanProposed then first_err
        [err_if (wf_ActivePlanID w = []) (Errorf ''state %q requires active_plan_id'' [GStr (wf_State w)]),
         no_execution_no_failure w]
      else if wf_State w = WorkflowFailed then first_err
        [err_if (wf_Failure w = None) (Errorf ''state %q requires failure'' [GStr (wf_State w)]),
         err_if (wf_ActiveExecutionID w \<noteq> [])
           (Errorf ''state %q must not set active_execution_id'' [GStr (wf_State w)])]
      else if wf_State w = WorkflowCancelled then first_err
        [err_if (wf_Failure w \<noteq> None) (Errorf ''state %q must not set failure'' [GStr (wf_State w)]),
         err_if (wf_ActiveExecutionID w \<noteq> [])
           (Errorf ''state %q must not set active_execution_id'' [GStr (wf_State w)])]
      else None)"

definition not_persisted :: "CaseWorkflowState \<Rightarrow> go_error" where
  "not_persisted w = Errorf ''persisted workflow state %q is not implemented in PR #17'' [GStr (wf_State w)]"

definition ValidatePR17WorkflowStateSemantics ::
    "CaseWorkflowState \<Rightarrow> CaseManifest \<Rightarrow> CoordinatorEvent \<Rightarrow> go_err" where
  "ValidatePR17WorkflowStateSemantics w cm e = first_err
     [ValidatePR17WorkflowStateDocumentSemantics w,
      err_if (wf_State w = WorkflowCreated) (not_persisted w),
      (if wf_State w = WorkflowEvidenceCollected \<or> wf_State w = WorkflowAnalyzed then None
       else if wf_State w = WorkflowPlanProposed then first_err
         [err_if (we_EventType e \<noteq> EventPlanCommitted)
            (Errorf ''state %q requires last event %q'' [GStr (wf_State w), GStr EventPlanCommitted]),
          err_if (wf_ActivePlanID w \<notin> set (elems (we_ReferencedDocumentIDs e)))
            (Errorf ''state %q requires last event refs to contain active_plan_id'' [GStr (wf_State w)])]
       else if wf_State w = WorkflowFailed \<or> wf_State w = WorkflowCancelled then None
       else Some (not_persisted w)),
      err_if (wf_UpdatedAt w \<noteq> cm_UpdatedAt cm)
        (Errorf ''workflow updated_at %q must equal case updated_at %q''
           [GStr (wf_UpdatedAt w), GStr (cm_UpdatedAt cm)]),
      err_if (we_OccurredAt e \<noteq> wf_UpdatedAt w)
        (Errorf ''last transition occurred_at %q must equal workflow updated_at %q''
           [GStr (we_OccurredAt e), GStr (wf_UpdatedAt w)]),
      err_if (we_NextState e \<noteq> wf_State w)
        (Errorf ''last transition next_state %q must equal workflow state %q''
           [GStr (we_NextState e), GStr (wf_State w)])]"

section \<open>Specification: the lifecycle of a case\<close>

text \<open>
  The six phases a case of this version goes through and the actions that move it. A case starts
  from a created phase or, adopted, from none; it is then analysed any number of times, may get a
  plan, and may fail or be cancelled from any phase in between.
\<close>

datatype phase = Created | EvidenceCollected | Analyzed | PlanProposed | Failed | Cancelled

datatype action = CreateCase | AdoptLegacy | CommitAnalysis | CommitPlan | FailCase | CancelCase

inductive lifecycle :: "phase option \<Rightarrow> action \<Rightarrow> phase \<Rightarrow> bool" where
  create: "lifecycle (Some Created) CreateCase EvidenceCollected"
| adopt: "lifecycle None AdoptLegacy EvidenceCollected"
| analyze: "p \<in> {EvidenceCollected, Analyzed} \<Longrightarrow> lifecycle (Some p) CommitAnalysis Analyzed"
| plan: "lifecycle (Some Analyzed) CommitPlan PlanProposed"
| fail: "p \<in> {EvidenceCollected, Analyzed, PlanProposed} \<Longrightarrow> lifecycle (Some p) FailCase Failed"
| cancel: "p \<in> {EvidenceCollected, Analyzed, PlanProposed} \<Longrightarrow> lifecycle (Some p) CancelCase Cancelled"

inductive_cases lifecycleE: "lifecycle p a q"
inductive_simps lifecycle_create: "lifecycle p CreateCase q"
inductive_simps lifecycle_adopt: "lifecycle p AdoptLegacy q"
inductive_simps lifecycle_analyze: "lifecycle p CommitAnalysis q"
inductive_simps lifecycle_plan: "lifecycle p CommitPlan q"
inductive_simps lifecycle_fail: "lifecycle p FailCase q"
inductive_simps lifecycle_cancel: "lifecycle p CancelCase q"

lemmas lifecycle_iffs = lifecycle_create lifecycle_adopt lifecycle_analyze lifecycle_plan
  lifecycle_fail lifecycle_cancel

fun phase_name :: "phase \<Rightarrow> string" where
  "phase_name Created = WorkflowCreated"
| "phase_name EvidenceCollected = WorkflowEvidenceCollected"
| "phase_name Analyzed = WorkflowAnalyzed"
| "phase_name PlanProposed = WorkflowPlanProposed"
| "phase_name Failed = WorkflowFailed"
| "phase_name Cancelled = WorkflowCancelled"

fun source_name :: "phase option \<Rightarrow> string" where
  "source_name None = []"
| "source_name (Some p) = phase_name p"

fun action_event :: "action \<Rightarrow> string" where
  "action_event CreateCase = EventCaseCreated"
| "action_event AdoptLegacy = EventLegacyCaseAdopted"
| "action_event CommitAnalysis = EventAnalysisCommitted"
| "action_event CommitPlan = EventPlanCommitted"
| "action_event FailCase = EventCaseFailed"
| "action_event CancelCase = EventCaseCancelled"

text \<open>Phases are ordered by how far the case has come; no action takes one back.\<close>

fun phase_rank :: "phase \<Rightarrow> nat" where
  "phase_rank Created = 0"
| "phase_rank EvidenceCollected = 1"
| "phase_rank Analyzed = 2"
| "phase_rank PlanProposed = 3"
| "phase_rank Failed = 4"
| "phase_rank Cancelled = 5"

lemma phase_rank_inj: "phase_rank p = phase_rank q \<Longrightarrow> p = q"
  by (cases p; cases q) simp_all

instantiation phase :: linorder
begin

definition less_eq_phase :: "phase \<Rightarrow> phase \<Rightarrow> bool" where
  "less_eq_phase p q \<longleftrightarrow> phase_rank p \<le> phase_rank q"

definition less_phase :: "phase \<Rightarrow> phase \<Rightarrow> bool" where
  "less_phase p q \<longleftrightarrow> phase_rank p < phase_rank q"

instance
  by standard (auto simp: less_eq_phase_def less_phase_def dest: phase_rank_inj)

end

lemma lifecycle_monotone: "lifecycle (Some p) a q \<Longrightarrow> p \<le> q"
  by (auto elim!: lifecycleE simp: less_eq_phase_def)

definition terminal_phase :: "phase \<Rightarrow> bool" where
  "terminal_phase p \<longleftrightarrow> p = Failed \<or> p = Cancelled"

lemma lifecycle_terminal: "terminal_phase p \<Longrightarrow> \<not> lifecycle (Some p) a q"
  by (auto elim!: lifecycleE simp: terminal_phase_def)

lemma lifecycle_target: "lifecycle p a q \<Longrightarrow> q \<noteq> Created"
  by (auto elim: lifecycle.cases)

lemma workflow_neqs [simp]:
  "WorkflowCreated \<noteq> WorkflowEvidenceCollected" "WorkflowCreated \<noteq> WorkflowAnalyzed" "WorkflowCreated \<noteq> WorkflowPlanProposed"
  "WorkflowCreated \<noteq> WorkflowFailed" "WorkflowCreated \<noteq> WorkflowCancelled" "WorkflowEvidenceCollected \<noteq> WorkflowCreated"
  "WorkflowEvidenceCollected \<noteq> WorkflowAnalyzed" "WorkflowEvidenceCollected \<noteq> WorkflowPlanProposed" "WorkflowEvidenceCollected \<noteq> WorkflowFailed"
  "WorkflowEvidenceCollected \<noteq> WorkflowCancelled" "WorkflowAnalyzed \<noteq> WorkflowCreated" "WorkflowAnalyzed \<noteq> WorkflowEvidenceCollected"
  "WorkflowAnalyzed \<noteq> WorkflowPlanProposed" "WorkflowAnalyzed \<noteq> WorkflowFailed" "WorkflowAnalyzed \<noteq> WorkflowCancelled"
  "WorkflowPlanProposed \<noteq> WorkflowCreated" "WorkflowPlanProposed \<noteq> WorkflowEvidenceCollected" "WorkflowPlanProposed \<noteq> WorkflowAnalyzed"
  "WorkflowPlanProposed \<noteq> WorkflowFailed" "WorkflowPlanProposed \<noteq> WorkflowCancelled" "WorkflowFailed \<noteq> WorkflowCreated"
  "WorkflowFailed \<noteq> WorkflowEvidenceCollected" "WorkflowFailed \<noteq> WorkflowAnalyzed" "WorkflowFailed \<noteq> WorkflowPlanProposed"
  "WorkflowFailed \<noteq> WorkflowCancelled" "WorkflowCancelled \<noteq> WorkflowCreated" "WorkflowCancelled \<noteq> WorkflowEvidenceCollected"
  "WorkflowCancelled \<noteq> WorkflowAnalyzed" "WorkflowCancelled \<noteq> WorkflowPlanProposed" "WorkflowCancelled \<noteq> WorkflowFailed"
  "WorkflowCreated \<noteq> []" "[] \<noteq> WorkflowCreated" "WorkflowEvidenceCollected \<noteq> []" "[] \<noteq> WorkflowEvidenceCollected" "WorkflowAnalyzed \<noteq> []" "[] \<noteq> WorkflowAnalyzed"
  "WorkflowPlanProposed \<noteq> []" "[] \<noteq> WorkflowPlanProposed" "WorkflowFailed \<noteq> []" "[] \<noteq> WorkflowFailed" "WorkflowCancelled \<noteq> []" "[] \<noteq> WorkflowCancelled"
  by (simp_all add: workflow_defs)

lemma phase_name_inj [simp]: "phase_name p = phase_name q \<longleftrightarrow> p = q"
  by (cases p; cases q) (simp_all add: workflow_defs)

lemma phase_name_nonempty [simp]: "phase_name p \<noteq> []" "[] \<noteq> phase_name p"
  by (cases p; simp add: workflow_defs)+

lemma source_name_inj [simp]: "source_name p = source_name q \<longleftrightarrow> p = q"
  by (cases p; cases q) simp_all

lemma workflow_name_iffs [simp]:
  "WorkflowCreated = phase_name q \<longleftrightarrow> q = Created" "phase_name q = WorkflowCreated \<longleftrightarrow> q = Created"
  "WorkflowCreated = source_name p \<longleftrightarrow> p = Some Created" "source_name p = WorkflowCreated \<longleftrightarrow> p = Some Created"
  "WorkflowEvidenceCollected = phase_name q \<longleftrightarrow> q = EvidenceCollected" "phase_name q = WorkflowEvidenceCollected \<longleftrightarrow> q = EvidenceCollected"
  "WorkflowEvidenceCollected = source_name p \<longleftrightarrow> p = Some EvidenceCollected" "source_name p = WorkflowEvidenceCollected \<longleftrightarrow> p = Some EvidenceCollected"
  "WorkflowAnalyzed = phase_name q \<longleftrightarrow> q = Analyzed" "phase_name q = WorkflowAnalyzed \<longleftrightarrow> q = Analyzed"
  "WorkflowAnalyzed = source_name p \<longleftrightarrow> p = Some Analyzed" "source_name p = WorkflowAnalyzed \<longleftrightarrow> p = Some Analyzed"
  "WorkflowPlanProposed = phase_name q \<longleftrightarrow> q = PlanProposed" "phase_name q = WorkflowPlanProposed \<longleftrightarrow> q = PlanProposed"
  "WorkflowPlanProposed = source_name p \<longleftrightarrow> p = Some PlanProposed" "source_name p = WorkflowPlanProposed \<longleftrightarrow> p = Some PlanProposed"
  "WorkflowFailed = phase_name q \<longleftrightarrow> q = Failed" "phase_name q = WorkflowFailed \<longleftrightarrow> q = Failed"
  "WorkflowFailed = source_name p \<longleftrightarrow> p = Some Failed" "source_name p = WorkflowFailed \<longleftrightarrow> p = Some Failed"
  "WorkflowCancelled = phase_name q \<longleftrightarrow> q = Cancelled" "phase_name q = WorkflowCancelled \<longleftrightarrow> q = Cancelled"
  "WorkflowCancelled = source_name p \<longleftrightarrow> p = Some Cancelled" "source_name p = WorkflowCancelled \<longleftrightarrow> p = Some Cancelled"
  using phase_name_inj [of _ q] source_name_inj [of _ p]
  by (metis phase_name.simps source_name.simps(2))+

lemma action_event_inj [simp]: "action_event a = action_event b \<longleftrightarrow> a = b"
  by (cases a; cases b) (simp_all add: event_defs)

lemma event_neqs [simp]:
  "EventCaseCreated \<noteq> EventLegacyCaseAdopted" "EventCaseCreated \<noteq> EventAnalysisCommitted" "EventCaseCreated \<noteq> EventPlanCommitted"
  "EventCaseCreated \<noteq> EventCaseFailed" "EventCaseCreated \<noteq> EventCaseCancelled" "EventLegacyCaseAdopted \<noteq> EventCaseCreated"
  "EventLegacyCaseAdopted \<noteq> EventAnalysisCommitted" "EventLegacyCaseAdopted \<noteq> EventPlanCommitted" "EventLegacyCaseAdopted \<noteq> EventCaseFailed"
  "EventLegacyCaseAdopted \<noteq> EventCaseCancelled" "EventAnalysisCommitted \<noteq> EventCaseCreated" "EventAnalysisCommitted \<noteq> EventLegacyCaseAdopted"
  "EventAnalysisCommitted \<noteq> EventPlanCommitted" "EventAnalysisCommitted \<noteq> EventCaseFailed" "EventAnalysisCommitted \<noteq> EventCaseCancelled"
  "EventPlanCommitted \<noteq> EventCaseCreated" "EventPlanCommitted \<noteq> EventLegacyCaseAdopted" "EventPlanCommitted \<noteq> EventAnalysisCommitted"
  "EventPlanCommitted \<noteq> EventCaseFailed" "EventPlanCommitted \<noteq> EventCaseCancelled" "EventCaseFailed \<noteq> EventCaseCreated"
  "EventCaseFailed \<noteq> EventLegacyCaseAdopted" "EventCaseFailed \<noteq> EventAnalysisCommitted" "EventCaseFailed \<noteq> EventPlanCommitted"
  "EventCaseFailed \<noteq> EventCaseCancelled" "EventCaseCancelled \<noteq> EventCaseCreated" "EventCaseCancelled \<noteq> EventLegacyCaseAdopted"
  "EventCaseCancelled \<noteq> EventAnalysisCommitted" "EventCaseCancelled \<noteq> EventPlanCommitted" "EventCaseCancelled \<noteq> EventCaseFailed"
  by (simp_all add: event_defs)

text \<open>The table of the code is the lifecycle relation.\<close>

lemma valid_transition_action:
  "validPR17TransitionForEvent (action_event a) prev nxt \<longleftrightarrow>
     (\<exists>p q. lifecycle p a q \<and> prev = source_name p \<and> nxt = phase_name q)"
  by (cases a) (auto simp: validPR17TransitionForEvent_def lifecycle_iffs)

lemma state_changing_iff: "IsStateChangingCoordinatorEventType et \<longleftrightarrow> (\<exists>a. et = action_event a)"
proof
  assume "IsStateChangingCoordinatorEventType et"
  then show "\<exists>a. et = action_event a"
    unfolding IsStateChangingCoordinatorEventType_def
    by (metis action_event.simps insertE singletonD)
next
  assume "\<exists>a. et = action_event a"
  then obtain a where "et = action_event a" by blast
  then show "IsStateChangingCoordinatorEventType et"
    by (cases a) (simp_all add: IsStateChangingCoordinatorEventType_def)
qed

lemma valid_transition_changes:
  "validPR17TransitionForEvent et prev nxt \<Longrightarrow> IsStateChangingCoordinatorEventType et"
  by (auto simp: validPR17TransitionForEvent_def IsStateChangingCoordinatorEventType_def split: if_splits)

lemma valid_transition_lifecycle:
  "validPR17TransitionForEvent et prev nxt \<longleftrightarrow>
     (\<exists>a p q. lifecycle p a q \<and> et = action_event a \<and> prev = source_name p \<and> nxt = phase_name q)"
  using valid_transition_changes state_changing_iff valid_transition_action by metis

section \<open>When the semantic checks return nil\<close>

lemma plain_workflow_enums [simp]:
  "plain_enum workflowStates" "plain_enum actorTypes" "plain_enum coordinatorEventTypes"
  by code_simp+

lemma workflow_enum_None [simp]:
  "requireEnum f v workflowStates = None \<longleftrightarrow> v \<in> set workflowStates"
  "requireEnum f v actorTypes = None \<longleftrightarrow> v \<in> set actorTypes"
  "requireEnum f v coordinatorEventTypes = None \<longleftrightarrow> v \<in> set coordinatorEventTypes"
  by (simp_all add: requireEnum_plain)

lemma phase_name_state [simp]: "phase_name p \<in> set workflowStates"
  by (cases p) (simp_all add: workflowStates_def)

lemma action_event_type [simp]: "action_event a \<in> set coordinatorEventTypes"
  by (cases a) (simp_all add: coordinatorEventTypes_def)

definition fresh_action :: "action \<Rightarrow> bool" where
  "fresh_action a \<longleftrightarrow> a = CreateCase \<or> a = AdoptLegacy"

lemma event_semantics_None:
  "ValidatePR17CoordinatorEventSemantics e = None \<longleftrightarrow>
     CoordinatorEvent_Validate e = None \<and>
     (\<exists>a p q. lifecycle p a q \<and> we_EventType e = action_event a \<and>
        we_PreviousState e = source_name p \<and> we_NextState e = phase_name q \<and>
        allowedActorForPR17Event (action_event a) (we_ActorType e) \<and>
        isPR17AllowedActor (we_ActorType e) \<and>
        (fresh_action a \<longrightarrow> we_WorkflowRevision e = 1) \<and>
        (\<not> fresh_action a \<longrightarrow> we_WorkflowRevision e > 1) \<and>
        (we_ExpectedCommitID e = [] \<longleftrightarrow> a = CreateCase))"
proof (cases "\<exists>a. we_EventType e = action_event a")
  case False
  then show ?thesis
    by (auto simp: ValidatePR17CoordinatorEventSemantics_def state_changing_iff)
next
  case True
  then obtain a where a: "we_EventType e = action_event a" by blast
  have sc: "IsStateChangingCoordinatorEventType (action_event a)" using state_changing_iff by blast
  have rev: "(if action_event a = EventCaseCreated then first_err
         [err_if (we_WorkflowRevision e \<noteq> 1) x1, err_if (we_ExpectedCommitID e \<noteq> []) x2]
       else if action_event a = EventLegacyCaseAdopted then first_err
         [err_if (we_WorkflowRevision e \<noteq> 1) x3, err_if (we_ExpectedCommitID e = []) x4]
       else first_err
         [err_if (we_WorkflowRevision e \<le> 1) x5, err_if (we_ExpectedCommitID e = []) x6]) = None \<longleftrightarrow>
      (fresh_action a \<longrightarrow> we_WorkflowRevision e = 1) \<and>
      (\<not> fresh_action a \<longrightarrow> we_WorkflowRevision e > 1) \<and>
      (we_ExpectedCommitID e = [] \<longleftrightarrow> a = CreateCase)" for x1 x2 x3 x4 x5 x6
    by (cases a) (auto simp: fresh_action_def not_le)
  have "ValidatePR17CoordinatorEventSemantics e = None \<longleftrightarrow>
      CoordinatorEvent_Validate e = None \<and> isPR17AllowedActor (we_ActorType e) \<and>
      allowedActorForPR17Event (action_event a) (we_ActorType e) \<and>
      (\<exists>p q. lifecycle p a q \<and> we_PreviousState e = source_name p \<and> we_NextState e = phase_name q) \<and>
      (fresh_action a \<longrightarrow> we_WorkflowRevision e = 1) \<and>
      (\<not> fresh_action a \<longrightarrow> we_WorkflowRevision e > 1) \<and>
      (we_ExpectedCommitID e = [] \<longleftrightarrow> a = CreateCase)"
    unfolding ValidatePR17CoordinatorEventSemantics_def a first_err_Cons_None first_err_Nil rev
    by (simp only: sc valid_transition_action err_if_None simp_thms)
  then show ?thesis using a by auto
qed

lemma CaseStateForWorkflow_total:
  "(\<exists>c. CaseStateForWorkflow st = Inr c \<and> c \<in> set caseStates) \<longleftrightarrow> st \<in> set workflowStates"
  by (auto simp: CaseStateForWorkflow_def workflowStates_def caseStates_def)

lemma Compatible_iff: "CompatibleWorkflowAndCaseState w c \<longleftrightarrow> CaseStateForWorkflow w = Inr c"
  by (auto simp: CompatibleWorkflowAndCaseState_def split: sum.splits)

end
