(* ===== verification/DomainAdvisory.thy ===== *)
theory DomainAdvisory
  imports DomainWorkflow
begin

text \<open>
  The provenance and advisory documents of \<^verbatim>\<open>internal/recovery/domain\<close>: evidence acquisition
  records, agent consultations with their hypotheses and sources, and the Windows boot topology
  with its candidates, relations, selection, ambiguities and mutation eligibility.
\<close>

section \<open>Evidence acquisition records\<close>

definition ProducerTargetResolver :: string where "ProducerTargetResolver = ''target_resolver''"
definition ProducerReadOperation :: string where "ProducerReadOperation = ''read_operation''"
definition ProducerTechnicianSelection :: string where
  "ProducerTechnicianSelection = ''technician_selection''"

definition producerTypes :: "string list" where
  "producerTypes = [ProducerTargetResolver, ProducerReadOperation, ProducerTechnicianSelection]"

definition acquisitionActors :: "string list" where
  "acquisitionActors = [ActorSystem, ActorTechnician]"

record EvidenceAcquisitionRecord =
  acq_SchemaName :: string
  acq_SchemaVersion :: string
  acq_AcquisitionID :: string
  acq_CaseID :: string
  acq_RequestID :: string
  acq_SourceCommitID :: string
  acq_ProducerType :: string
  acq_ProducerID :: string
  acq_ProducerVersion :: string
  acq_ActorType :: string
  acq_AcquiredAt :: string
  acq_TargetIDs :: "string slice"
  acq_InputEvidenceIDs :: "string slice"
  acq_AddedTargetIDs :: "string slice"
  acq_AddedEvidenceIDs :: "string slice"
  acq_ParametersSHA256 :: string
  acq_ResultSHA256 :: string
  acq_Limitations :: "string slice"

definition SchemaEvidenceAcquisitionRecord :: string where
  "SchemaEvidenceAcquisitionRecord = ''evidence-acquisition-record''"

definition EvidenceAcquisitionRecord_Validate :: "EvidenceAcquisitionRecord \<Rightarrow> go_err" where
  "EvidenceAcquisitionRecord_Validate r = first_err
     [requireSchema (acq_SchemaName r) (acq_SchemaVersion r) SchemaEvidenceAcquisitionRecord,
      requireMatch ''acquisition_id'' (acq_AcquisitionID r) reAcquisitionID,
      requireMatch ''case_id'' (acq_CaseID r) reCaseID,
      requireMatch ''request_id'' (acq_RequestID r) reAcquisitionRequestID,
      requireMatch ''source_commit_id'' (acq_SourceCommitID r) reCommitID,
      requireEnum ''producer_type'' (acq_ProducerType r) producerTypes,
      requireMatch ''producer_id'' (acq_ProducerID r) reProducerID,
      requireMatch ''producer_version'' (acq_ProducerVersion r) reSemver,
      requireEnum ''actor_type'' (acq_ActorType r) acquisitionActors,
      requireRFC3339 ''acquired_at'' (acq_AcquiredAt r),
      requireUniqueIDList ''target_ids'' (acq_TargetIDs r) reTargetID,
      requireUniqueIDList ''input_evidence_ids'' (acq_InputEvidenceIDs r) reEvidenceID,
      requireUniqueIDList ''added_target_ids'' (acq_AddedTargetIDs r) reTargetID,
      requireUniqueIDList ''added_evidence_ids'' (acq_AddedEvidenceIDs r) reEvidenceID,
      err_if (elems (acq_AddedTargetIDs r) = [] \<and> elems (acq_AddedEvidenceIDs r) = [])
        (Errorf ''added_target_ids and added_evidence_ids must not both be empty'' []),
      requireSHA256 ''parameters_sha256'' (acq_ParametersSHA256 r),
      requireSHA256 ''result_sha256'' (acq_ResultSHA256 r),
      required ''limitations'' (acq_Limitations r),
      each (\<lambda>i lim. first_err
              [err_if (lim = []) (Errorf ''limitations[%d] must not be empty'' [GNat i]),
               err_if (512 < length lim) (Errorf ''limitations[%d] exceeds 512 characters'' [GNat i])])
        (elems (acq_Limitations r))]"

section \<open>Agent consultations\<close>

record AdvisoryHypothesis =
  hyp_HypothesisID :: string
  hyp_Code :: string
  hyp_Title :: string
  hyp_Rationale :: string
  hyp_Confidence :: string
  hyp_SupportingFindingRefs :: "string slice"
  hyp_SupportingEvidenceRefs :: "string slice"
  hyp_ContradictingEvidenceRefs :: "string slice"
  hyp_Limitations :: "string slice"
  hyp_Advisory :: bool

record RetrievedSource =
  src_URL :: string
  src_Domain :: string
  src_Title :: string

record ProviderMetadata =
  pm_ProviderName :: string
  pm_ModelName :: string

record AgentConsultation =
  con_SchemaName :: string
  con_SchemaVersion :: string
  con_ConsultationID :: string
  con_CaseID :: string
  con_RequestID :: string
  con_RuntimeID :: string
  con_RuntimeVersion :: string
  con_SourceCommitID :: string
  con_InputDigest :: string
  con_GeneratedAt :: string
  con_Status :: string
  con_RoundCount :: int
  con_TopologyID :: string
  con_FindingRefs :: "string slice"
  con_EvidenceRefs :: "string slice"
  con_TargetRefs :: "string slice"
  con_Hypotheses :: "AdvisoryHypothesis slice"
  con_NextDiagnosticSteps :: "string slice"
  con_RetrievedSources :: "RetrievedSource slice"
  con_Limitations :: "string slice"
  con_ProviderMetadata :: ProviderMetadata
  con_InsufficientEvidence :: bool

definition SchemaAgentConsultation :: string where "SchemaAgentConsultation = ''agent-consultation''"

definition consultationStatuses :: "string list" where
  "consultationStatuses = [''completed'', ''needs_more_evidence'', ''blocked'', ''failed'']"

definition hypothesisConfidences :: "string list" where
  "hypothesisConfidences = [''low'', ''medium'', ''high'']"

text \<open>\<^verbatim>\<open>strings.ToLower\<close> on the ASCII letters of a literal prefix test.\<close>

definition to_lower_char :: "char \<Rightarrow> char" where
  "to_lower_char c = (let n = (of_char c :: nat) in if 65 \<le> n \<and> n \<le> 90 then char_of (n + 32) else c)"

text \<open>
  The code points outside ASCII whose lower case is an ASCII letter are U+0130 and U+212A, with
  lower cases \<^verbatim>\<open>i\<close> and \<^verbatim>\<open>k\<close>; the prefix contains neither, so the test may be done on bytes.
\<close>

definition hasHTTPSPrefix :: "string \<Rightarrow> bool" where
  "hasHTTPSPrefix u = has_prefix ''https://'' (map to_lower_char u)"

definition AdvisoryHypothesis_Validate :: "string \<Rightarrow> AdvisoryHypothesis \<Rightarrow> go_err" where
  "AdvisoryHypothesis_Validate pre h = first_err
     [requireMatch (pre @ ''.hypothesis_id'') (hyp_HypothesisID h) reHypothesisID,
      requireMatch (pre @ ''.code'') (hyp_Code h) reReasonCode,
      requireNonEmpty (pre @ ''.title'') (hyp_Title h),
      requireNonEmpty (pre @ ''.rationale'') (hyp_Rationale h),
      requireEnum (pre @ ''.confidence'') (hyp_Confidence h) hypothesisConfidences,
      err_if (\<not> hyp_Advisory h) (Errorf ''%s.advisory must be true'' [GStr pre]),
      err_if (hyp_SupportingFindingRefs h = None)
        (Errorf ''%s.supporting_finding_refs is required'' [GStr pre]),
      err_if (hyp_SupportingEvidenceRefs h = None)
        (Errorf ''%s.supporting_evidence_refs is required'' [GStr pre]),
      err_if (hyp_ContradictingEvidenceRefs h = None)
        (Errorf ''%s.contradicting_evidence_refs is required'' [GStr pre]),
      err_if (hyp_Limitations h = None) (Errorf ''%s.limitations is required'' [GStr pre]),
      each (\<lambda>i d. requireMatch (idx (pre @ ''.supporting_finding_refs'') i) d reFindingID)
        (elems (hyp_SupportingFindingRefs h)),
      each (\<lambda>i d. requireMatch (idx (pre @ ''.supporting_evidence_refs'') i) d reEvidenceID)
        (elems (hyp_SupportingEvidenceRefs h)),
      each (\<lambda>i d. requireMatch (idx (pre @ ''.contradicting_evidence_refs'') i) d reEvidenceID)
        (elems (hyp_ContradictingEvidenceRefs h))]"

definition RetrievedSource_Validate :: "string \<Rightarrow> RetrievedSource \<Rightarrow> go_err" where
  "RetrievedSource_Validate pre s = first_err
     [requireNonEmpty (pre @ ''.url'') (src_URL s),
      err_if (length (src_URL s) < 12 \<or> \<not> hasHTTPSPrefix (src_URL s))
        (Errorf ''%s.url must be https'' [GStr pre]),
      requireNonEmpty (pre @ ''.domain'') (src_Domain s)]"

definition AgentConsultation_Validate :: "AgentConsultation \<Rightarrow> go_err" where
  "AgentConsultation_Validate c = first_err
     [requireSchema (con_SchemaName c) (con_SchemaVersion c) SchemaAgentConsultation,
      requireMatch ''consultation_id'' (con_ConsultationID c) reConsultationID,
      requireMatch ''case_id'' (con_CaseID c) reCaseID,
      requireMatch ''request_id'' (con_RequestID c) reConsultationRequestID,
      requireNonEmpty ''runtime_id'' (con_RuntimeID c),
      requireMatch ''runtime_version'' (con_RuntimeVersion c) reSemver,
      requireMatch ''source_commit_id'' (con_SourceCommitID c) reCommitID,
      requireSHA256 ''input_digest'' (con_InputDigest c),
      requireRFC3339 ''generated_at'' (con_GeneratedAt c),
      requireEnum ''status'' (con_Status c) consultationStatuses,
      err_if (con_RoundCount c < 1 \<or> con_RoundCount c > 3)
        (Errorf ''round_count must be between 1 and 3'' []),
      (if con_TopologyID c \<noteq> [] then requireMatch ''topology_id'' (con_TopologyID c) reTopologyID
       else None),
      err_if (con_FindingRefs c = None \<or> con_EvidenceRefs c = None \<or> con_TargetRefs c = None)
        (Errorf ''finding_refs, evidence_refs, and target_refs are required'' []),
      err_if (con_Hypotheses c = None \<or> con_NextDiagnosticSteps c = None \<or>
              con_RetrievedSources c = None \<or> con_Limitations c = None)
        (Errorf ''hypotheses, next_diagnostic_steps, retrieved_sources, and limitations are required'' []),
      err_if (elems (con_Limitations c) = [] \<or> 16 < length (elems (con_Limitations c)))
        (Errorf ''limitations must contain between 1 and 16 entries'' []),
      err_if (elems (con_FindingRefs c) = [] \<and> elems (con_EvidenceRefs c) = [] \<and>
              \<not> con_InsufficientEvidence c)
        (Errorf ''consultation without finding_refs and evidence_refs must set insufficient_evidence=true'' []),
      each (\<lambda>i d. requireMatch (idx ''finding_refs'' i) d reFindingID) (elems (con_FindingRefs c)),
      each (\<lambda>i d. requireMatch (idx ''evidence_refs'' i) d reEvidenceID) (elems (con_EvidenceRefs c)),
      each (\<lambda>i d. requireMatch (idx ''target_refs'' i) d reTargetID) (elems (con_TargetRefs c)),
      err_if (8 < length (elems (con_Hypotheses c))) (Errorf ''hypotheses exceeds 8 entries'' []),
      each_unique (\<lambda>i h. AdvisoryHypothesis_Validate (idx ''hypotheses'' i) h) hyp_HypothesisID
        (\<lambda>i d. Errorf ''duplicate hypothesis_id %q'' [GStr d]) (elems (con_Hypotheses c)),
      err_if (8 < length (elems (con_NextDiagnosticSteps c)))
        (Errorf ''next_diagnostic_steps exceeds 8 entries'' []),
      each_unique (\<lambda>i d. requireMatch (idx ''next_diagnostic_steps'' i) d reOperationID) (\<lambda>d. d)
        (\<lambda>i d. Errorf ''duplicate next_diagnostic_steps entry %q'' [GStr d])
        (elems (con_NextDiagnosticSteps c)),
      err_if (16 < length (elems (con_RetrievedSources c)))
        (Errorf ''retrieved_sources exceeds 16 entries'' []),
      each (\<lambda>i s. RetrievedSource_Validate (idx ''retrieved_sources'' i) s) (elems (con_RetrievedSources c)),
      requireNonEmpty ''provider_metadata.provider_name'' (pm_ProviderName (con_ProviderMetadata c))]"

section \<open>Windows boot topology\<close>

definition FirmwareUEFI :: string where "FirmwareUEFI = ''uefi''"
definition FirmwareBIOS :: string where "FirmwareBIOS = ''bios''"
definition FirmwareUnknown :: string where "FirmwareUnknown = ''unknown''"
definition FirmwareConflicting :: string where "FirmwareConflicting = ''conflicting''"
definition firmwareModes :: "string list" where
  "firmwareModes = [FirmwareUEFI, FirmwareBIOS, FirmwareUnknown, FirmwareConflicting]"

definition ConfidenceProven :: string where "ConfidenceProven = ''proven''"
definition ConfidenceStrongInference :: string where "ConfidenceStrongInference = ''strong_inference''"
definition ConfidenceRuntimeOnly :: string where "ConfidenceRuntimeOnly = ''runtime_only''"
definition ConfidenceAmbiguous :: string where "ConfidenceAmbiguous = ''ambiguous''"
definition ConfidenceUnknown :: string where "ConfidenceUnknown = ''unknown''"
definition topologyConfidences :: "string list" where
  "topologyConfidences = [ConfidenceProven, ConfidenceStrongInference, ConfidenceRuntimeOnly,
                          ConfidenceAmbiguous, ConfidenceUnknown]"

definition RoleWindowsInstallation :: string where "RoleWindowsInstallation = ''windows_installation''"
definition RoleWindowsPartition :: string where "RoleWindowsPartition = ''windows_partition''"
definition RoleSystemDisk :: string where "RoleSystemDisk = ''system_disk''"
definition RoleEFISystemPartition :: string where "RoleEFISystemPartition = ''efi_system_partition''"
definition RoleBCDStore :: string where "RoleBCDStore = ''bcd_store''"
definition RoleFirmware :: string where "RoleFirmware = ''firmware''"
definition RoleBitLockerVolume :: string where "RoleBitLockerVolume = ''bitlocker_volume''"
definition topologyRoles :: "string list" where
  "topologyRoles = [RoleWindowsInstallation, RoleWindowsPartition, RoleSystemDisk,
                    RoleEFISystemPartition, RoleBCDStore, RoleFirmware, RoleBitLockerVolume]"

definition RelationContains :: string where "RelationContains = ''contains''"
definition RelationHostsWindows :: string where "RelationHostsWindows = ''hosts_windows''"
definition RelationHostsESP :: string where "RelationHostsESP = ''hosts_esp''"
definition RelationContainsBCDStore :: string where "RelationContainsBCDStore = ''contains_bcd_store''"
definition RelationBootStoreForWindows :: string where
  "RelationBootStoreForWindows = ''boot_store_for_windows''"
definition topologyRelationTypes :: "string list" where
  "topologyRelationTypes =
     [RelationContains, RelationHostsWindows, RelationHostsESP, RelationContainsBCDStore, RelationBootStoreForWindows,
      ''protected_by_bitlocker'', ''health_record_for_disk'', ''runtime_path_match'',
      ''legacy_report_relation'', ''technician_selected'']"

definition SelectionAutomatic :: string where "SelectionAutomatic = ''automatic''"
definition SelectionTechnician :: string where "SelectionTechnician = ''technician''"
definition SelectionNone :: string where "SelectionNone = ''none''"
definition selectionSources :: "string list" where
  "selectionSources = [SelectionAutomatic, SelectionTechnician, SelectionNone]"

definition MutationEligibilityDiagnosticEvidenceOnly :: string where
  "MutationEligibilityDiagnosticEvidenceOnly = ''diagnostic_evidence_only''"

definition mutationBlockers :: "string list" where
  "mutationBlockers =
     [''firmware_unknown'', ''firmware_conflicting'', ''firmware_not_uefi'', ''disk_layout_unknown'',
      ''disk_not_gpt'', ''windows_missing'', ''windows_ambiguous'', ''windows_partition_unresolved'',
      ''system_disk_unresolved'', ''esp_missing'', ''esp_ambiguous'', ''bcd_missing'', ''bcd_ambiguous'',
      ''bitlocker_inaccessible'', ''bitlocker_status_unknown'', ''storage_health_unsafe'',
      ''storage_health_unknown'', ''evidence_incomplete'', ''relation_runtime_only'',
      ''unsupported_layout'', ''technician_selection_required'']"

record TopologyCandidate =
  tc_CandidateID :: string
  tc_Role :: string
  tc_TargetID :: string
  tc_Confidence :: string
  tc_EvidenceRefs :: "string slice"
  tc_RationaleCodes :: "string slice"
  tc_Limitations :: "string slice"

record TopologyRelation =
  tr_RelationID :: string
  tr_RelationType :: string
  tr_FromTargetID :: string
  tr_ToTargetID :: string
  tr_Confidence :: string
  tr_EvidenceRefs :: "string slice"
  tr_RationaleCodes :: "string slice"
  tr_Limitations :: "string slice"

record TopologySelection =
  ts_Source :: string
  ts_WindowsTargetID :: string
  ts_WindowsPartitionTargetID :: string
  ts_SystemDiskTargetID :: string
  ts_ESPTargetID :: string
  ts_BCDTargetID :: string

record TopologyAmbiguity =
  ta_Code :: string
  ta_Message :: string
  ta_TargetIDs :: "string slice"
  ta_EvidenceRefs :: "string slice"

record MutationEligibility =
  me_Eligible :: bool
  me_Basis :: string
  me_Blockers :: "string slice"

record WindowsBootTopology =
  wt_SchemaName :: string
  wt_SchemaVersion :: string
  wt_TopologyID :: string
  wt_CaseID :: string
  wt_ResolverID :: string
  wt_ResolverVersion :: string
  wt_SourceCommitID :: string
  wt_GeneratedAt :: string
  wt_FirmwareMode :: string
  wt_Candidates :: "TopologyCandidate slice"
  wt_Relations :: "TopologyRelation slice"
  wt_Selection :: TopologySelection
  wt_Ambiguities :: "TopologyAmbiguity slice"
  wt_Limitations :: "string slice"
  wt_MutationEligibility :: MutationEligibility

definition SchemaWindowsBootTopology :: string where
  "SchemaWindowsBootTopology = ''windows-boot-topology''"

definition TopologyCandidate_Validate :: "TopologyCandidate \<Rightarrow> go_err" where
  "TopologyCandidate_Validate c = first_err
     [requireMatch ''candidate_id'' (tc_CandidateID c) reProducerID,
      requireEnum ''role'' (tc_Role c) topologyRoles,
      requireMatch ''target_id'' (tc_TargetID c) reTargetID,
      requireEnum ''confidence'' (tc_Confidence c) topologyConfidences,
      requireUniqueIDList ''evidence_refs'' (tc_EvidenceRefs c) reEvidenceID,
      requireUniqueIDList ''rationale_codes'' (tc_RationaleCodes c) reReasonCode,
      required ''limitations'' (tc_Limitations c)]"

definition TopologyRelation_Validate :: "TopologyRelation \<Rightarrow> go_err" where
  "TopologyRelation_Validate r = first_err
     [requireMatch ''relation_id'' (tr_RelationID r) reProducerID,
      requireEnum ''relation_type'' (tr_RelationType r) topologyRelationTypes,
      requireMatch ''from_target_id'' (tr_FromTargetID r) reTargetID,
      requireMatch ''to_target_id'' (tr_ToTargetID r) reTargetID,
      requireEnum ''confidence'' (tr_Confidence r) topologyConfidences,
      requireUniqueIDList ''evidence_refs'' (tr_EvidenceRefs r) reEvidenceID,
      requireUniqueIDList ''rationale_codes'' (tr_RationaleCodes r) reReasonCode,
      required ''limitations'' (tr_Limitations r)]"

definition selected_ids :: "TopologySelection \<Rightarrow> string list" where
  "selected_ids s = [ts_WindowsTargetID s, ts_WindowsPartitionTargetID s, ts_SystemDiskTargetID s,
                     ts_ESPTargetID s, ts_BCDTargetID s]"

definition TopologySelection_Validate :: "TopologySelection \<Rightarrow> go_err" where
  "TopologySelection_Validate s = first_err
     [requireEnum ''source'' (ts_Source s) selectionSources,
      each (\<lambda>_ d. if d = [] then None else requireMatch ''selection_target_id'' d reTargetID)
        (selected_ids s),
      err_if (ts_Source s = SelectionNone \<and> (\<exists>d \<in> set (selected_ids s). d \<noteq> []))
        (Errorf ''selection source none must not set selected target ids'' [])]"

definition TopologyAmbiguity_Validate :: "TopologyAmbiguity \<Rightarrow> go_err" where
  "TopologyAmbiguity_Validate a = first_err
     [requireMatch ''code'' (ta_Code a) reReasonCode,
      requireNonEmpty ''message'' (ta_Message a),
      requireUniqueIDList ''target_ids'' (ta_TargetIDs a) reTargetID,
      requireUniqueIDList ''evidence_refs'' (ta_EvidenceRefs a) reEvidenceID]"

definition MutationEligibility_Validate :: "MutationEligibility \<Rightarrow> go_err" where
  "MutationEligibility_Validate m = first_err
     [err_if (me_Basis m \<noteq> MutationEligibilityDiagnosticEvidenceOnly)
        (Errorf ''basis must be %q'' [GStr MutationEligibilityDiagnosticEvidenceOnly]),
      required ''blockers'' (me_Blockers m),
      each_unique (\<lambda>_ b. requireEnum ''blocker'' b mutationBlockers) (\<lambda>b. b)
        (\<lambda>_ b. Errorf ''duplicate blocker %q'' [GStr b]) (elems (me_Blockers m)),
      err_if (me_Eligible m \<and> elems (me_Blockers m) \<noteq> [])
        (Errorf ''eligible=true must not set blockers'' [])]"

definition WindowsBootTopology_Validate :: "WindowsBootTopology \<Rightarrow> go_err" where
  "WindowsBootTopology_Validate t = first_err
     [requireSchema (wt_SchemaName t) (wt_SchemaVersion t) SchemaWindowsBootTopology,
      requireMatch ''topology_id'' (wt_TopologyID t) reTopologyID,
      requireMatch ''case_id'' (wt_CaseID t) reCaseID,
      requireMatch ''resolver_id'' (wt_ResolverID t) reProducerID,
      requireMatch ''resolver_version'' (wt_ResolverVersion t) reSemver,
      requireMatch ''source_commit_id'' (wt_SourceCommitID t) reCommitID,
      requireRFC3339 ''generated_at'' (wt_GeneratedAt t),
      requireEnum ''firmware_mode'' (wt_FirmwareMode t) firmwareModes,
      required ''candidates'' (wt_Candidates t),
      each_unique (\<lambda>i c. wrap_err (\<lambda>x. Errorf ''candidates[%d]: %w'' [GNat i, GWrap x]) (TopologyCandidate_Validate c))
        tc_CandidateID (\<lambda>_ d. Errorf ''duplicate candidate_id %q'' [GStr d]) (elems (wt_Candidates t)),
      required ''relations'' (wt_Relations t),
      each_unique (\<lambda>i r. wrap_err (\<lambda>x. Errorf ''relations[%d]: %w'' [GNat i, GWrap x]) (TopologyRelation_Validate r))
        tr_RelationID (\<lambda>_ d. Errorf ''duplicate relation_id %q'' [GStr d]) (elems (wt_Relations t)),
      wrap_err (\<lambda>x. Errorf ''selection: %w'' [GWrap x]) (TopologySelection_Validate (wt_Selection t)),
      required ''ambiguities'' (wt_Ambiguities t),
      each (\<lambda>i a. wrap_err (\<lambda>x. Errorf ''ambiguities[%d]: %w'' [GNat i, GWrap x]) (TopologyAmbiguity_Validate a))
        (elems (wt_Ambiguities t)),
      required ''limitations'' (wt_Limitations t),
      each (\<lambda>i lim. err_if (lim = []) (Errorf ''limitations[%d] must not be empty'' [GNat i]))
        (elems (wt_Limitations t)),
      wrap_err (\<lambda>x. Errorf ''mutation_eligibility: %w'' [GWrap x])
        (MutationEligibility_Validate (wt_MutationEligibility t))]"

section \<open>What a valid document guarantees\<close>

lemma hypothesis_advisory: "AdvisoryHypothesis_Validate pre h = None \<Longrightarrow> hyp_Advisory h"
  by (simp add: AdvisoryHypothesis_Validate_def)

lemma unique_hypotheses:
  "each_unique (\<lambda>i h. AdvisoryHypothesis_Validate (idx f i) h) hyp_HypothesisID dup hs = None \<Longrightarrow>
   (\<forall>h \<in> set hs. hyp_Advisory h) \<and> distinct (map hyp_HypothesisID hs)"
proof -
  have iff: "AdvisoryHypothesis_Validate p h = None \<longleftrightarrow> AdvisoryHypothesis_Validate [] h = None" for p h
    by (simp add: AdvisoryHypothesis_Validate_def requireEnum_None)
  assume "each_unique (\<lambda>i h. AdvisoryHypothesis_Validate (idx f i) h) hyp_HypothesisID dup hs = None"
  moreover have "each_unique (\<lambda>i h. AdvisoryHypothesis_Validate (idx f i) h) hyp_HypothesisID dup hs = None
    \<longleftrightarrow> (\<forall>h \<in> set hs. AdvisoryHypothesis_Validate [] h = None) \<and> distinct (map hyp_HypothesisID hs)
        \<and> set (map hyp_HypothesisID hs) \<inter> set [] = {}"
    by (rule unique_from_iff) (rule iff)
  ultimately show ?thesis by (blast dest: hypothesis_advisory)
qed

lemma MutationEligibility_Validate_iff:
  "MutationEligibility_Validate m = None \<longleftrightarrow>
     me_Basis m = MutationEligibilityDiagnosticEvidenceOnly \<and>
     (\<exists>bs. me_Blockers m = Some bs \<and> distinct bs \<and> (\<forall>b \<in> set bs. b \<in> set mutationBlockers) \<and>
           (me_Eligible m \<longrightarrow> bs = []))"
proof -
  have "\<not> blank b" if "b \<in> set mutationBlockers" for b
    using that by (intro id_not_blank)
      (auto simp: mutationBlockers_def id_chars_def lower_az_def upper_az_def digits10_def)
  then show ?thesis
    by (cases "me_Blockers m") (auto simp: MutationEligibility_Validate_def requireEnum_None)
qed

section \<open>JSON of the parts of a consultation\<close>

definition AdvisoryHypothesis_json :: "AdvisoryHypothesis \<Rightarrow> json" where
  "AdvisoryHypothesis_json h = JObj
     [(''hypothesis_id'', JStr (hyp_HypothesisID h)), (''code'', JStr (hyp_Code h)),
      (''title'', JStr (hyp_Title h)), (''rationale'', JStr (hyp_Rationale h)),
      (''confidence'', JStr (hyp_Confidence h)),
      (''supporting_finding_refs'', json_strs (hyp_SupportingFindingRefs h)),
      (''supporting_evidence_refs'', json_strs (hyp_SupportingEvidenceRefs h)),
      (''contradicting_evidence_refs'', json_strs (hyp_ContradictingEvidenceRefs h)),
      (''limitations'', json_strs (hyp_Limitations h)), (''advisory'', JBool (hyp_Advisory h))]"

definition RetrievedSource_json :: "RetrievedSource \<Rightarrow> json" where
  "RetrievedSource_json s = JObj
     ([(''url'', JStr (src_URL s)), (''domain'', JStr (src_Domain s))] @ omit_empty ''title'' (src_Title s))"

definition ProviderMetadata_json :: "ProviderMetadata \<Rightarrow> json" where
  "ProviderMetadata_json m = JObj
     ([(''provider_name'', JStr (pm_ProviderName m))] @ omit_empty ''model_name'' (pm_ModelName m))"

end
