(* ===== verification/CrossRefs.thy ===== *)
theory CrossRefs
  imports DomainAdvisory
begin

text \<open>
  Referential integrity between documents (\<^verbatim>\<open>internal/recovery/domain/crossrefs.go\<close> and
  \<^verbatim>\<open>ValidateConsultationRefs\<close>): every identifier a document names has to be in the set of known
  identifiers of its kind. A Go \<^verbatim>\<open>map[string]struct{}\<close> is a set.
\<close>

record CrossRefs =
  cr_CaseIDs :: "string set"
  cr_TargetIDs :: "string set"
  cr_EvidenceIDs :: "string set"
  cr_FindingIDs :: "string set"
  cr_PlanIDs :: "string set"
  cr_ExecutionIDs :: "string set"
  cr_VerificationIDs :: "string set"
  cr_ArtifactIDs :: "string set"
  cr_CoordinatorEventIDs :: "string set"
  cr_DocumentIDs :: "string set"

definition setOf :: "string list \<Rightarrow> string set" where
  "setOf ids = set ids"

definition requireRef :: "string \<Rightarrow> string \<Rightarrow> string set \<Rightarrow> go_err" where
  "requireRef kind i known = err_if (i \<notin> known) (Errorf ''%s %q is not present in known set'' [GStr kind, GStr i])"

definition requireRefs :: "string \<Rightarrow> string slice \<Rightarrow> string set \<Rightarrow> go_err" where
  "requireRefs kind ids known = each (\<lambda>_ i. requireRef kind i known) (elems ids)"

definition ValidateAcquisitionRefs :: "CrossRefs \<Rightarrow> EvidenceAcquisitionRecord \<Rightarrow> go_err" where
  "ValidateAcquisitionRefs refs r = first_err
     [EvidenceAcquisitionRecord_Validate r,
      requireRef ''case_id'' (acq_CaseID r) (cr_CaseIDs refs),
      requireRefs ''target_id'' (acq_TargetIDs r) (cr_TargetIDs refs),
      requireRefs ''input_evidence_id'' (acq_InputEvidenceIDs r) (cr_EvidenceIDs refs),
      requireRefs ''added_target_id'' (acq_AddedTargetIDs r) (cr_TargetIDs refs),
      requireRefs ''added_evidence_id'' (acq_AddedEvidenceIDs r) (cr_EvidenceIDs refs)]"

definition ValidateFindingRefs :: "CrossRefs \<Rightarrow> Finding \<Rightarrow> go_err" where
  "ValidateFindingRefs refs f = first_err
     [Finding_Validate f,
      requireRef ''case_id'' (fnd_CaseID f) (cr_CaseIDs refs),
      requireRefs ''evidence_ref'' (fnd_EvidenceRefs f) (cr_EvidenceIDs refs),
      requireRefs ''affected_target_id'' (fnd_AffectedTargetIDs f) (cr_TargetIDs refs)]"

definition ValidatePlanRefs :: "CrossRefs \<Rightarrow> RepairPlan \<Rightarrow> go_err" where
  "ValidatePlanRefs refs p = first_err
     [RepairPlan_Validate p,
      requireRef ''case_id'' (pln_CaseID p) (cr_CaseIDs refs),
      requireRefs ''finding_ref'' (pln_FindingRefs p) (cr_FindingIDs refs),
      each (\<lambda>_ s. requireRef ''step.target_id'' (stp_TargetID s) (cr_TargetIDs refs)) (elems (pln_Steps p))]"

definition ValidateEvidenceRefs :: "CrossRefs \<Rightarrow> EvidenceBundle \<Rightarrow> go_err" where
  "ValidateEvidenceRefs refs e = first_err
     [EvidenceBundle_Validate e,
      requireRef ''case_id'' (ev_CaseID e) (cr_CaseIDs refs),
      requireRef ''target_id'' (ev_TargetID e) (cr_TargetIDs refs)]"

definition ValidateExecutionRefs :: "CrossRefs \<Rightarrow> ExecutionEvent \<Rightarrow> go_err" where
  "ValidateExecutionRefs refs e = first_err
     [ExecutionEvent_Validate e,
      requireRef ''case_id'' (ex_CaseID e) (cr_CaseIDs refs),
      requireRef ''target_id'' (ex_TargetID e) (cr_TargetIDs refs),
      (if ex_StdoutArtifact e \<noteq> []
       then requireRef ''stdout_artifact'' (ex_StdoutArtifact e) (cr_ArtifactIDs refs) else None),
      (if ex_StderrArtifact e \<noteq> []
       then requireRef ''stderr_artifact'' (ex_StderrArtifact e) (cr_ArtifactIDs refs) else None)]"

definition ValidateVerificationRefs :: "CrossRefs \<Rightarrow> VerificationReport \<Rightarrow> go_err" where
  "ValidateVerificationRefs refs v = first_err
     [VerificationReport_Validate v,
      requireRef ''case_id'' (vr_CaseID v) (cr_CaseIDs refs),
      requireRef ''execution_id'' (vr_ExecutionID v) (cr_ExecutionIDs refs),
      requireRefs ''evidence_ref'' (vr_EvidenceRefs v) (cr_EvidenceIDs refs)]"

definition ValidateWorkflowRefs :: "CrossRefs \<Rightarrow> CaseWorkflowState \<Rightarrow> go_err" where
  "ValidateWorkflowRefs refs w = first_err
     [CaseWorkflowState_Validate w,
      requireRef ''case_id'' (wf_CaseID w) (cr_CaseIDs refs),
      (if wf_ActivePlanID w \<noteq> [] then requireRef ''active_plan_id'' (wf_ActivePlanID w) (cr_PlanIDs refs)
       else None),
      (if wf_ActiveExecutionID w \<noteq> []
       then requireRef ''active_execution_id'' (wf_ActiveExecutionID w) (cr_ExecutionIDs refs) else None),
      requireRef ''last_transition_id'' (wf_LastTransitionID w) (cr_CoordinatorEventIDs refs)]"

text \<open>The loop over \<^verbatim>\<open>referenced_document_ids\<close>, with its map of the ids seen so far.\<close>

fun check_referenced_ids :: "string set \<Rightarrow> nat \<Rightarrow> string list \<Rightarrow> string list \<Rightarrow> go_err" where
  "check_referenced_ids known i seen [] = None"
| "check_referenced_ids known i seen (d # ds) =
     (if d = [] then Some (Errorf ''referenced_document_ids[%d] must not be empty'' [GNat i])
      else if d \<in> set seen then Some (Errorf ''referenced_document_ids contains duplicate %q'' [GStr d])
      else (case requireRef (idx ''referenced_document_ids'' i) d known of
              Some e \<Rightarrow> Some e
            | None \<Rightarrow> check_referenced_ids known (Suc i) (d # seen) ds))"

definition ValidateCoordinatorEventRefs :: "CrossRefs \<Rightarrow> CoordinatorEvent \<Rightarrow> go_err" where
  "ValidateCoordinatorEventRefs refs e = first_err
     [CoordinatorEvent_Validate e,
      requireRef ''case_id'' (we_CaseID e) (cr_CaseIDs refs),
      check_referenced_ids (cr_DocumentIDs refs) 0 [] (elems (we_ReferencedDocumentIDs e))]"

definition known_in :: "(string \<Rightarrow> go_error) \<Rightarrow> string slice \<Rightarrow> string set \<Rightarrow> go_err" where
  "known_in msg ids known = each (\<lambda>_ i. err_if (i \<notin> known) (msg i)) (elems ids)"

definition ValidateConsultationRefs :: "CrossRefs \<Rightarrow> AgentConsultation \<Rightarrow> go_err" where
  "ValidateConsultationRefs refs c = first_err
     [AgentConsultation_Validate c,
      err_if (con_CaseID c \<notin> cr_CaseIDs refs) (Errorf ''case_id %q is not in the snapshot'' [GStr (con_CaseID c)]),
      known_in (\<lambda>i. Errorf ''finding_refs contains unknown finding_id %q'' [GStr i])
        (con_FindingRefs c) (cr_FindingIDs refs),
      known_in (\<lambda>i. Errorf ''evidence_refs contains unknown evidence_id %q'' [GStr i])
        (con_EvidenceRefs c) (cr_EvidenceIDs refs),
      known_in (\<lambda>i. Errorf ''target_refs contains unknown target_id %q'' [GStr i])
        (con_TargetRefs c) (cr_TargetIDs refs),
      each (\<lambda>_ h. first_err
        [known_in (\<lambda>i. Errorf ''hypothesis %q supporting_finding_refs contains unknown finding_id %q''
             [GStr (hyp_HypothesisID h), GStr i]) (hyp_SupportingFindingRefs h) (cr_FindingIDs refs),
         known_in (\<lambda>i. Errorf ''hypothesis %q supporting_evidence_refs contains unknown evidence_id %q''
             [GStr (hyp_HypothesisID h), GStr i]) (hyp_SupportingEvidenceRefs h) (cr_EvidenceIDs refs),
         known_in (\<lambda>i. Errorf ''hypothesis %q contradicting_evidence_refs contains unknown evidence_id %q''
             [GStr (hyp_HypothesisID h), GStr i]) (hyp_ContradictingEvidenceRefs h) (cr_EvidenceIDs refs)])
        (elems (con_Hypotheses c))]"

definition NewCrossRefs :: "string list \<Rightarrow> string list \<Rightarrow> string list \<Rightarrow> string list \<Rightarrow> string list \<Rightarrow>
    string list \<Rightarrow> CrossRefs" where
  "NewCrossRefs caseIDs targetIDs evidenceIDs findingIDs executionIDs artifactIDs =
     \<lparr>cr_CaseIDs = setOf caseIDs, cr_TargetIDs = setOf targetIDs, cr_EvidenceIDs = setOf evidenceIDs,
      cr_FindingIDs = setOf findingIDs, cr_PlanIDs = {}, cr_ExecutionIDs = setOf executionIDs,
      cr_VerificationIDs = {}, cr_ArtifactIDs = setOf artifactIDs, cr_CoordinatorEventIDs = {},
      cr_DocumentIDs = {}\<rparr>"

section \<open>When the reference checks return nil\<close>

lemma requireRef_None [simp, check_simps]: "requireRef k i known = None \<longleftrightarrow> i \<in> known"
  by (simp add: requireRef_def)

lemma requireRefs_None [simp, check_simps]: "requireRefs k ids known = None \<longleftrightarrow> set (elems ids) \<subseteq> known"
  by (auto simp: requireRefs_def)

lemma known_in_None [simp, check_simps]: "known_in m ids known = None \<longleftrightarrow> set (elems ids) \<subseteq> known"
  by (auto simp: known_in_def)

lemma check_referenced_ids_None [check_simps]:
  "check_referenced_ids known i seen ds = None \<longleftrightarrow>
     [] \<notin> set ds \<and> distinct ds \<and> set ds \<inter> set seen = {} \<and> set ds \<subseteq> known"
  by (induction ds arbitrary: i seen) (auto simp: requireRef_def err_if_def)

lemma ValidateCoordinatorEventRefs_None:
  "ValidateCoordinatorEventRefs refs e = None \<longleftrightarrow>
     CoordinatorEvent_Validate e = None \<and> we_CaseID e \<in> cr_CaseIDs refs \<and>
     (let ids = elems (we_ReferencedDocumentIDs e) in
      [] \<notin> set ids \<and> distinct ids \<and> set ids \<subseteq> cr_DocumentIDs refs)"
  by (simp add: ValidateCoordinatorEventRefs_def check_referenced_ids_None Let_def)

end
