(* ===== verification/CaseSnapshot.thy ===== *)
theory CaseSnapshot
  imports CrossRefs
begin

text \<open>
  The in-memory case snapshot of \<^verbatim>\<open>internal/recovery/casestore\<close> and the checks
  \<^verbatim>\<open>Snapshot.Validate\<close> makes before a commit (\<^verbatim>\<open>snapshot.go\<close>), the identifier and path checks of
  \<^verbatim>\<open>paths.go\<close>, the optimistic concurrency precondition of \<^verbatim>\<open>parent_expectation.go\<close> and the
  provenance check of \<^verbatim>\<open>acquisition_provenance.go\<close>. Where the code ranges over a map the model
  ranges over a list with the map's keys: only which of several errors is reported first may differ.
  The lists of documents are lists: a nil slice and an empty one, which \<^verbatim>\<open>Normalize\<close> identifies,
  are the same list. \<open>win\<close> tells the Windows build, where \<^verbatim>\<open>filepath.ToSlash\<close> turns backslashes,
  from the others, where it does not.
\<close>

section \<open>Errors and paths\<close>

definition ErrIntegrity :: go_error where "ErrIntegrity = Sentinel ''casestore: integrity error''"
definition ErrInvalidArgument :: go_error where "ErrInvalidArgument = Sentinel ''casestore: invalid argument''"
definition ErrPathUnsafe :: go_error where "ErrPathUnsafe = Sentinel ''casestore: unsafe path''"
definition ErrRevisionConflict :: go_error where "ErrRevisionConflict = Sentinel ''casestore: revision conflict''"
definition ErrCaseExists :: go_error where "ErrCaseExists = Sentinel ''casestore: case already exists''"

text \<open>\<^verbatim>\<open>fmt.Errorf("%w: ...", ErrInvalidArgument, ...)\<close>\<close>

definition invalid :: "string \<Rightarrow> go_arg list \<Rightarrow> go_error" where
  "invalid fmt args = Errorf (''%w: '' @ fmt) (GWrap ErrInvalidArgument # args)"

definition validateCaseID :: "string \<Rightarrow> go_err" where
  "validateCaseID d = err_if (\<not> reCaseID d) (invalid ''invalid case_id %q'' [GStr d])"

definition validateCommitID :: "string \<Rightarrow> go_err" where
  "validateCommitID d = err_if (\<not> reCommitID d) (invalid ''invalid commit_id %q'' [GStr d])"

definition to_slash :: "bool \<Rightarrow> string \<Rightarrow> string" where
  "to_slash win p = (if win then map (\<lambda>c. if c = CHR 0x5C then CHR ''/'' else c) p else p)"

text \<open>\<^verbatim>\<open>strings.Split(s, "/")\<close>\<close>

fun split_slash :: "string \<Rightarrow> string list" where
  "split_slash [] = [[]]"
| "split_slash (c # s) =
     (if c = CHR ''/'' then [] # split_slash s
      else (case split_slash s of p # ps \<Rightarrow> (c # p) # ps | [] \<Rightarrow> [[c]]))"

definition rejectTraversal :: "bool \<Rightarrow> string \<Rightarrow> go_err" where
  "rejectTraversal win path =
     (let clean = to_slash win path in first_err
     [err_if (path = []) (Errorf ''%w: empty path'' [GWrap ErrPathUnsafe]),
      err_if (has_prefix ''/'' path \<or> has_prefix [CHR 0x5C] path)
        (Errorf ''%w: absolute path %q'' [GWrap ErrPathUnsafe, GStr path]),
      err_if (2 \<le> length path \<and> path ! 1 = CHR '':'')
        (Errorf ''%w: absolute path %q'' [GWrap ErrPathUnsafe, GStr path]),
      each (\<lambda>_ part. err_if (part = ''..'')
              (Errorf ''%w: path traversal in %q'' [GWrap ErrPathUnsafe, GStr path]))
        (split_slash clean),
      err_if (str_contains clean ''../'' \<or> str_contains path (''..'' @ [CHR 0x5C]))
        (Errorf ''%w: path traversal in %q'' [GWrap ErrPathUnsafe, GStr path])])"

section \<open>The snapshot\<close>

record Snapshot =
  snap_Case :: CaseManifest
  snap_Targets :: "Target list"
  snap_EvidenceBundles :: "EvidenceBundle list"
  snap_Findings :: "Finding list"
  snap_RepairPlans :: "RepairPlan list"
  snap_ExecutionEvents :: "ExecutionEvent list"
  snap_VerificationReports :: "VerificationReport list"
  snap_WorkflowState :: "CaseWorkflowState option"
  snap_CoordinatorEvents :: "CoordinatorEvent list"
  snap_EvidenceAcquisitions :: "EvidenceAcquisitionRecord list"
  snap_AgentConsultations :: "AgentConsultation list"

section \<open>Sets of references\<close>

definition uniqueSortedStrings :: "string list \<Rightarrow> string list" where
  "uniqueSortedStrings vs = sort (remdups (filter (\<lambda>v. v \<noteq> []) vs))"

definition containsRef :: "string slice \<Rightarrow> string \<Rightarrow> bool" where
  "containsRef vs want \<longleftrightarrow> want \<in> set (elems vs)"

definition findFindingByID :: "Finding list \<Rightarrow> string \<Rightarrow> Finding option" where
  "findFindingByID fs want = List.find (\<lambda>f. fnd_FindingID f = want) fs"

definition findPlanByID :: "RepairPlan list \<Rightarrow> string \<Rightarrow> RepairPlan option" where
  "findPlanByID ps want = List.find (\<lambda>p. pln_PlanID p = want) ps"

definition findTargetByID :: "Target list \<Rightarrow> string \<Rightarrow> Target option" where
  "findTargetByID ts want = List.find (\<lambda>t. tg_TargetID t = want) ts"

definition findEvidenceByID :: "EvidenceBundle list \<Rightarrow> string \<Rightarrow> EvidenceBundle option" where
  "findEvidenceByID es want = List.find (\<lambda>e. ev_EvidenceID e = want) es"

definition requireExactRefSet :: "string list \<Rightarrow> string list \<Rightarrow> go_err" where
  "requireExactRefSet got want =
     (let gotSet = uniqueSortedStrings got; wantSet = uniqueSortedStrings want in
      err_if (gotSet \<noteq> wantSet)
        (Errorf ''exact ref set mismatch: got %v want %v'' [GStrs gotSet, GStrs wantSet]))"

definition added_target_ids :: "Snapshot \<Rightarrow> string list" where
  "added_target_ids s = concat (map (elems \<circ> acq_AddedTargetIDs) (snap_EvidenceAcquisitions s))"

definition added_evidence_ids :: "Snapshot \<Rightarrow> string list" where
  "added_evidence_ids s = concat (map (elems \<circ> acq_AddedEvidenceIDs) (snap_EvidenceAcquisitions s))"

definition initialTargetIDs :: "Snapshot \<Rightarrow> string list" where
  "initialTargetIDs s =
     filter (\<lambda>i. i \<notin> set (added_target_ids s)) (map tg_TargetID (snap_Targets s))"

definition initialEvidenceIDs :: "Snapshot \<Rightarrow> string list" where
  "initialEvidenceIDs s =
     filter (\<lambda>i. i \<notin> set (added_evidence_ids s)) (map ev_EvidenceID (snap_EvidenceBundles s))"

definition createOrAdoptReferenceSet :: "Snapshot \<Rightarrow> string list" where
  "createOrAdoptReferenceSet s = uniqueSortedStrings
     ([cm_CaseID (snap_Case s), DocumentIDCaseWorkflowState] @ initialTargetIDs s @ initialEvidenceIDs s)"

definition finding_closure :: "Finding \<Rightarrow> string list" where
  "finding_closure f = [fnd_FindingID f] @ elems (fnd_EvidenceRefs f) @ elems (fnd_AffectedTargetIDs f)"

definition analysisReferenceClosure :: "Snapshot \<Rightarrow> CoordinatorEvent \<Rightarrow> string list result" where
  "analysisReferenceClosure s e =
     (let fs = List.map_filter (findFindingByID (snap_Findings s)) (elems (we_ReferencedDocumentIDs e)) in
      if fs = [] then Inl (Errorf ''analysis_committed requires at least one finding ref'' [])
      else Inr (uniqueSortedStrings
        ([cm_CaseID (snap_Case s), DocumentIDCaseWorkflowState] @ concat (map finding_closure fs))))"

definition planReferenceClosure :: "Snapshot \<Rightarrow> CoordinatorEvent \<Rightarrow> string list result" where
  "planReferenceClosure s e =
     (case List.map_filter (findPlanByID (snap_RepairPlans s)) (elems (we_ReferencedDocumentIDs e)) of
        [plan] \<Rightarrow>
          (if (\<exists>w \<in> set_option (snap_WorkflowState s).
                 wf_State w = WorkflowPlanProposed \<and> wf_ActivePlanID w \<noteq> pln_PlanID plan)
           then Inl (Errorf ''plan_committed active_plan_id must match referenced plan'' [])
           else Inr (uniqueSortedStrings
             ([cm_CaseID (snap_Case s), DocumentIDCaseWorkflowState, pln_PlanID plan]
              @ elems (pln_FindingRefs plan) @ map stp_TargetID (elems (pln_Steps plan)))))
      | _ \<Rightarrow> Inl (Errorf ''plan_committed requires exactly one plan ref'' []))"

definition exact_refs :: "(go_error \<Rightarrow> go_error) \<Rightarrow> string list \<Rightarrow> string list result \<Rightarrow> go_err" where
  "exact_refs wrap got want = (case want of Inl e \<Rightarrow> Some e
     | Inr w \<Rightarrow> wrap_err wrap (requireExactRefSet got w))"

definition terminal_refs :: "Snapshot \<Rightarrow> string list" where
  "terminal_refs s = [cm_CaseID (snap_Case s), DocumentIDCaseWorkflowState] @
     (case snap_WorkflowState s of None \<Rightarrow> []
      | Some w \<Rightarrow> if wf_ActivePlanID w \<noteq> [] then [wf_ActivePlanID w] else [])"

definition validateCoordinatorEventReferenceSemantics :: "Snapshot \<Rightarrow> CoordinatorEvent \<Rightarrow> go_err" where
  "validateCoordinatorEventReferenceSemantics s e =
     (let refs = we_ReferencedDocumentIDs e; et = we_EventType e in first_err
     [err_if (containsRef refs (we_EventID e))
        (Errorf ''referenced_document_ids must not self-reference event_id'' []),
      each (\<lambda>_ i. err_if (has_prefix ''cevt-'' i)
              (Errorf ''referenced_document_ids must not contain coordinator event ids'' [])) (elems refs),
      err_if (\<not> containsRef refs (cm_CaseID (snap_Case s)))
        (Errorf ''referenced_document_ids must contain case id'' []),
      err_if (\<not> containsRef refs DocumentIDCaseWorkflowState)
        (Errorf ''referenced_document_ids must contain case-workflow-state'' []),
      (if et = EventCaseCreated \<or> et = EventLegacyCaseAdopted
       then exact_refs (\<lambda>x. Errorf ''%s refs: %w'' [GStr et, GWrap x]) (elems refs) (Inr (createOrAdoptReferenceSet s))
       else if et = EventAnalysisCommitted
       then exact_refs (\<lambda>x. Errorf ''analysis refs: %w'' [GWrap x]) (elems refs) (analysisReferenceClosure s e)
       else if et = EventPlanCommitted
       then exact_refs (\<lambda>x. Errorf ''plan refs: %w'' [GWrap x]) (elems refs) (planReferenceClosure s e)
       else if et = EventCaseFailed \<or> et = EventCaseCancelled
       then exact_refs (\<lambda>x. Errorf ''terminal refs: %w'' [GWrap x]) (elems refs) (Inr (terminal_refs s))
       else None)])"

section \<open>Provenance of findings, plans, targets and evidence\<close>

definition audited :: "string \<Rightarrow> CoordinatorEvent list \<Rightarrow> string list" where
  "audited et events =
     concat (map (elems \<circ> we_ReferencedDocumentIDs) (filter (\<lambda>e. we_EventType e = et) events))"

definition state_error :: "string \<Rightarrow> CaseWorkflowState \<Rightarrow> go_error" where
  "state_error msg w = Errorf (''state %q '' @ msg) [GStr (wf_State w)]"

definition validateLifecycleProvenance :: "Snapshot \<Rightarrow> go_err" where
  "validateLifecycleProvenance s = first_err
     [err_if (snap_ExecutionEvents s \<noteq> []) (Errorf ''execution events are not implemented in PR #17'' []),
      err_if (snap_VerificationReports s \<noteq> [])
        (Errorf ''verification reports are not implemented in PR #17'' []),
      (case snap_WorkflowState s of None \<Rightarrow> None
       | Some w \<Rightarrow>
         (let auditedFindings = filter (\<lambda>i. findFindingByID (snap_Findings s) i \<noteq> None)
                (audited EventAnalysisCommitted (snap_CoordinatorEvents s));
              auditedPlans = filter (\<lambda>i. findPlanByID (snap_RepairPlans s) i \<noteq> None)
                (audited EventPlanCommitted (snap_CoordinatorEvents s))
          in first_err
           [each (\<lambda>_ f. err_if (fnd_FindingID f \<notin> set auditedFindings)
              (Errorf ''finding %q lacks analysis_committed provenance'' [GStr (fnd_FindingID f)]))
              (snap_Findings s),
            each (\<lambda>_ p. err_if (pln_PlanID p \<notin> set auditedPlans)
              (Errorf ''plan %q lacks plan_committed provenance'' [GStr (pln_PlanID p)]))
              (snap_RepairPlans s),
            (if wf_State w = WorkflowEvidenceCollected
             then err_if (snap_Findings s \<noteq> [] \<or> snap_RepairPlans s \<noteq> [])
               (state_error ''must not contain findings or repair plans'' w)
             else if wf_State w = WorkflowAnalyzed then first_err
               [err_if (snap_Findings s = []) (state_error ''requires at least one finding'' w),
                err_if (snap_RepairPlans s \<noteq> []) (state_error ''must not contain repair plans'' w)]
             else if wf_State w = WorkflowPlanProposed then first_err
               [err_if (snap_Findings s = []) (state_error ''requires audited findings'' w),
                err_if (snap_RepairPlans s = []) (state_error ''requires audited repair plans'' w),
                err_if (wf_ActivePlanID w = []) (state_error ''requires active_plan_id'' w),
                err_if (findPlanByID (snap_RepairPlans s) (wf_ActivePlanID w) = None)
                  (Errorf ''active_plan_id %q missing from repair plans'' [GStr (wf_ActivePlanID w)])]
             else None)]))]"

text \<open>
  One pass over the claims of one kind of all acquisitions: an unknown id, then an id another
  acquisition has claimed. The accumulator is the map from ids to acquisition ids.
\<close>

fun claim_ids :: "(string \<Rightarrow> bool) \<Rightarrow> (string \<Rightarrow> go_error) \<Rightarrow> (string \<Rightarrow> string \<Rightarrow> go_error) \<Rightarrow> string \<Rightarrow>
    (string \<times> string) list \<Rightarrow> string list \<Rightarrow> (string \<times> string) list result" where
  "claim_ids known missing twice aid m [] = Inr m"
| "claim_ids known missing twice aid m (i # ids) =
     (if \<not> known i then Inl (missing i)
      else (case map_of m i of
              Some prev \<Rightarrow> Inl (twice i prev)
            | None \<Rightarrow> claim_ids known missing twice aid ((i, aid) # m) ids))"

fun acquisition_claims :: "Snapshot \<Rightarrow> (string \<times> string) list \<Rightarrow> (string \<times> string) list \<Rightarrow>
    EvidenceAcquisitionRecord list \<Rightarrow> ((string \<times> string) list \<times> (string \<times> string) list) result" where
  "acquisition_claims s mt me [] = Inr (mt, me)"
| "acquisition_claims s mt me (q # qs) =
     (let aid = acq_AcquisitionID q;
          tknown = (\<lambda>i. findTargetByID (snap_Targets s) i \<noteq> None);
          eknown = (\<lambda>i. findEvidenceByID (snap_EvidenceBundles s) i \<noteq> None);
          unknown = (\<lambda>fmt i. Errorf fmt [GStr aid, GStr i])
      in check_then (first_err
           [each (\<lambda>_ i. err_if (\<not> tknown i) (unknown ''acquisition %q target_ids contains unknown %q'' i))
              (elems (acq_TargetIDs q)),
            each (\<lambda>_ i. err_if (\<not> eknown i) (unknown ''acquisition %q input_evidence_ids contains unknown %q'' i))
              (elems (acq_InputEvidenceIDs q))])
         (bindE (claim_ids tknown (unknown ''acquisition %q added_target_ids contains missing %q'')
                   (\<lambda>i prev. Errorf ''target %q claimed by acquisitions %q and %q'' [GStr i, GStr prev, GStr aid])
                   aid mt (elems (acq_AddedTargetIDs q)))
            (\<lambda>mt'. bindE (claim_ids eknown (unknown ''acquisition %q added_evidence_ids contains missing %q'')
                   (\<lambda>i prev. Errorf ''evidence %q claimed by acquisitions %q and %q'' [GStr i, GStr prev, GStr aid])
                   aid me (elems (acq_AddedEvidenceIDs q)))
            (\<lambda>me'. acquisition_claims s mt' me' qs))))"

definition validateEvidenceAcquisitionOrigin :: "Snapshot \<Rightarrow> go_err" where
  "validateEvidenceAcquisitionOrigin s =
     (case acquisition_claims s [] [] (snap_EvidenceAcquisitions s) of
        Inl e \<Rightarrow> Some e
      | Inr (mt, me) \<Rightarrow> first_err
          [each (\<lambda>_ i. err_if (i \<in> set (initialTargetIDs s))
             (Errorf ''target %q cannot be both initial and acquired'' [GStr i])) (map fst mt),
           each (\<lambda>_ i. err_if (i \<in> set (initialEvidenceIDs s))
             (Errorf ''evidence %q cannot be both initial and acquired'' [GStr i])) (map fst me),
           each (\<lambda>_ t. err_if ((tg_TargetID t \<in> set (initialTargetIDs s)) = (tg_TargetID t \<in> set (map fst mt)))
             (Errorf ''target %q lacks exactly one origin'' [GStr (tg_TargetID t)])) (snap_Targets s),
           each (\<lambda>_ e. err_if ((ev_EvidenceID e \<in> set (initialEvidenceIDs s)) = (ev_EvidenceID e \<in> set (map fst me)))
             (Errorf ''evidence %q lacks exactly one origin'' [GStr (ev_EvidenceID e)])) (snap_EvidenceBundles s)])"

section \<open>Integrity of the event log\<close>

text \<open>
  The first loop of \<^verbatim>\<open>validateWorkflowTransitionIntegrity\<close>: it collects the state-changing events by
  revision (\<^verbatim>\<open>byRev\<close>, newest first here; \<^verbatim>\<open>changing\<close> has the same elements) and checks each.
\<close>

fun collect_changing :: "(64 word \<times> CoordinatorEvent) list \<Rightarrow> CoordinatorEvent list \<Rightarrow>
    (64 word \<times> CoordinatorEvent) list result" where
  "collect_changing byRev [] = Inr byRev"
| "collect_changing byRev (e # es) =
     (if \<not> IsStateChangingCoordinatorEventType (we_EventType e)
      then (if we_WorkflowRevision e \<noteq> 0
            then Inl (invalid ''non-state-changing event %q must not set workflow_revision'' [GStr (we_EventID e)])
            else collect_changing byRev es)
      else if we_WorkflowRevision e = 0
      then Inl (invalid ''state-changing event %q requires workflow_revision >= 1'' [GStr (we_EventID e)])
      else if we_WorkflowRevision e \<in> set (map fst byRev)
      then Inl (invalid ''duplicate workflow_revision %d'' [GNat (unat (we_WorkflowRevision e))])
      else (case ValidatePR17CoordinatorEventSemantics e of
              Some x \<Rightarrow> Inl x
            | None \<Rightarrow> collect_changing ((we_WorkflowRevision e, e) # byRev) es))"

definition no_event :: CoordinatorEvent where
  "no_event = \<lparr>we_SchemaName = [], we_SchemaVersion = [], we_EventID = [], we_CaseID = [],
     we_EventType = [], we_ActorType = [], we_OccurredAt = [], we_PreviousState = [],
     we_NextState = [], we_ExpectedCommitID = [], we_WorkflowRevision = 0,
     we_ReferencedDocumentIDs = None, we_ReasonCode = [], we_CommandID = []\<rparr>"

text \<open>\<^verbatim>\<open>byRev[rev]\<close>: the zero value when the key is absent.\<close>

definition at_rev :: "(64 word \<times> CoordinatorEvent) list \<Rightarrow> nat \<Rightarrow> CoordinatorEvent" where
  "at_rev byRev r = (case map_of byRev (of_nat r) of Some e \<Rightarrow> e | None \<Rightarrow> no_event)"

definition occurred_in_order :: "nat \<Rightarrow> CoordinatorEvent \<Rightarrow> CoordinatorEvent \<Rightarrow> go_err" where
  "occurred_in_order r prev cur =
     (case parse_rfc3339 (we_OccurredAt prev) of
        None \<Rightarrow> Some (invalid ''workflow revision %d occurred_at: %v'' [GNat (r - 1), GVal (time_parse_error (we_OccurredAt prev))])
      | Some prevAt \<Rightarrow>
          (case parse_rfc3339 (we_OccurredAt cur) of
             None \<Rightarrow> Some (invalid ''workflow revision %d occurred_at: %v'' [GNat r, GVal (time_parse_error (we_OccurredAt cur))])
           | Some curAt \<Rightarrow> err_if (time_before curAt prevAt)
               (invalid ''workflow revision %d occurred_at %q precedes revision %d occurred_at %q''
                 [GNat r, GStr (we_OccurredAt cur), GNat (r - 1), GStr (we_OccurredAt prev)])))"

definition check_last_transition :: "Snapshot \<Rightarrow> CaseWorkflowState \<Rightarrow> CoordinatorEvent \<Rightarrow> go_err" where
  "check_last_transition s w lastEv = first_err
     [err_if (we_CaseID lastEv \<noteq> cm_CaseID (snap_Case s))
        (invalid ''last transition event case_id mismatch'' []),
      err_if (we_NextState lastEv \<noteq> wf_State w)
        (invalid ''last transition next_state %q != workflow state %q'' [GStr (we_NextState lastEv), GStr (wf_State w)]),
      err_if (\<not> IsStateChangingCoordinatorEventType (we_EventType lastEv))
        (invalid ''last_transition_id event type %q is not state-changing'' [GStr (we_EventType lastEv)])]"

definition check_history :: "Snapshot \<Rightarrow> CaseWorkflowState \<Rightarrow> (64 word \<times> CoordinatorEvent) list \<Rightarrow> go_err" where
  "check_history s w byRev =
     (let n = unat (wf_Revision w); at_r = at_rev byRev; maxEv = at_r n in first_err
     [err_if (of_nat (length byRev) \<noteq> wf_Revision w)
        (invalid ''workflow revision %d != state-changing event count %d'' [GNat n, GNat (length byRev)]),
      err_if (wf_Revision w = 0) (invalid ''workflow present with revision 0'' []),
      each (\<lambda>_ r. err_if (of_nat r \<notin> set (map fst byRev))
              (invalid ''missing workflow_revision %d in contiguous sequence 1..%d'' [GNat r, GNat n]))
        [1..<Suc n],
      each (\<lambda>_ r. occurred_in_order r (at_r (r - 1)) (at_r r)) [2..<Suc n],
      (case map_of (rev (map (\<lambda>e. (we_EventID e, e)) (snap_CoordinatorEvents s))) (wf_LastTransitionID w) of
         None \<Rightarrow> Some (invalid ''last_transition_id %q missing'' [GStr (wf_LastTransitionID w)])
       | Some lastEv \<Rightarrow> first_err
          [check_last_transition s w lastEv,
           err_if (we_EventType (at_r 1) \<noteq> EventCaseCreated \<and> we_EventType (at_r 1) \<noteq> EventLegacyCaseAdopted)
             (invalid ''workflow revision 1 must be case_created or legacy_case_adopted'' []),
           each (\<lambda>_ r. err_if (we_PreviousState (at_r r) \<noteq> we_NextState (at_r (r - 1)))
             (invalid ''workflow revision %d previous_state %q does not continue revision %d next_state %q''
                [GNat r, GStr (we_PreviousState (at_r r)), GNat (r - 1), GStr (we_NextState (at_r (r - 1)))]))
             [2..<Suc n],
           err_if (we_EventID lastEv \<noteq> we_EventID maxEv \<or> we_WorkflowRevision lastEv \<noteq> wf_Revision w)
             (invalid ''last_transition_id %q is not the max workflow_revision event %q (revision %d)''
                [GStr (wf_LastTransitionID w), GStr (we_EventID maxEv), GNat n]),
           err_if (we_NextState maxEv \<noteq> wf_State w)
             (invalid ''max workflow_revision next_state %q != workflow state %q''
                [GStr (we_NextState maxEv), GStr (wf_State w)]),
           wrap_err (\<lambda>x. invalid ''%v'' [GVal x]) (ValidatePR17WorkflowStateSemantics w (snap_Case s) maxEv),
           wrap_err (\<lambda>x. invalid ''%v'' [GVal x]) (validateLifecycleProvenance s)])])"

definition validateWorkflowTransitionIntegrity :: "Snapshot \<Rightarrow> CaseWorkflowState \<Rightarrow> go_err" where
  "validateWorkflowTransitionIntegrity s w =
     (case collect_changing [] (snap_CoordinatorEvents s) of
        Inl e \<Rightarrow> Some e
      | Inr byRev \<Rightarrow> check_history s w byRev)"

section \<open>Snapshot.Validate\<close>

text \<open>
  \<^verbatim>\<open>strings.EqualFold\<close> for digests. Letters outside ASCII are compared as they are: a digest with
  one is refused right after, by the pattern check of its artifact.
\<close>

definition equal_fold :: "string \<Rightarrow> string \<Rightarrow> bool" where
  "equal_fold a b \<longleftrightarrow> map to_lower_char a = map to_lower_char b"

definition artifactRefsEqual :: "ArtifactRef \<Rightarrow> ArtifactRef \<Rightarrow> bool" where
  "artifactRefsEqual a b \<longleftrightarrow>
     art_ArtifactID a = art_ArtifactID b \<and> art_Kind a = art_Kind b \<and>
     art_RelativePath a = art_RelativePath b \<and> equal_fold (art_SHA256 a) (art_SHA256 b) \<and>
     art_SizeBytes a = art_SizeBytes b \<and> art_CreatedAt a = art_CreatedAt b \<and>
     art_MediaClassification a = art_MediaClassification b"

fun check_artifacts :: "bool \<Rightarrow> nat \<Rightarrow> nat \<Rightarrow> ArtifactRef list \<Rightarrow> ArtifactRef list \<Rightarrow> ArtifactRef list result" where
  "check_artifacts win i j known [] = Inr known"
| "check_artifacts win i j known (a # as) =
     (case rejectTraversal win (art_RelativePath a) of
        Some e \<Rightarrow> Inl (Errorf ''evidence_bundles[%d].artifacts[%d]: %w'' [GNat i, GNat j, GWrap e])
      | None \<Rightarrow>
          (case List.find (\<lambda>b. art_ArtifactID b = art_ArtifactID a) known of
             None \<Rightarrow> check_artifacts win i (Suc j) (a # known) as
           | Some prev \<Rightarrow>
               if \<not> artifactRefsEqual prev a
               then Inl (invalid ''divergent metadata for artifact_id %q'' [GStr (art_ArtifactID a)])
               else check_artifacts win i (Suc j) known as))"

fun check_evidence :: "bool \<Rightarrow> string \<Rightarrow> nat \<Rightarrow> string list \<Rightarrow> ArtifactRef list \<Rightarrow> EvidenceBundle list \<Rightarrow>
    ArtifactRef list result" where
  "check_evidence win cid i seen known [] = Inr known"
| "check_evidence win cid i seen known (e # es) =
     (if ev_CaseID e \<noteq> cid then Inl (invalid ''evidence_bundles[%d].case_id mismatch'' [GNat i])
      else if ev_EvidenceID e \<in> set seen
      then Inl (invalid ''duplicate evidence_id %q'' [GStr (ev_EvidenceID e)])
      else bindE (check_artifacts win i 0 known (elems (ev_Artifacts e)))
             (\<lambda>known'. check_evidence win cid (Suc i) (ev_EvidenceID e # seen) known' es))"

text \<open>A loop that only refuses an identifier met before.\<close>

definition no_duplicates :: "string \<Rightarrow> string list \<Rightarrow> go_err" where
  "no_duplicates fmt ids = each_unique (\<lambda>_ _. None) (\<lambda>d. d) (\<lambda>_ d. invalid fmt [GStr d]) ids"

text \<open>The loops over acquisitions and consultations: two identifiers and the case id.\<close>

fun check_pairs :: "string \<Rightarrow> string \<Rightarrow> string \<Rightarrow> string \<Rightarrow> nat \<Rightarrow> string list \<Rightarrow> string list \<Rightarrow>
    (string \<times> string \<times> string) list \<Rightarrow> go_err" where
  "check_pairs f1 f2 f3 cid i seen1 seen2 [] = None"
| "check_pairs f1 f2 f3 cid i seen1 seen2 ((a, r, c) # xs) =
     (if a \<in> set seen1 then Some (invalid f1 [GStr a])
      else if r \<in> set seen2 then Some (invalid f2 [GStr r])
      else if c \<noteq> cid then Some (invalid f3 [GNat i])
      else check_pairs f1 f2 f3 cid (Suc i) (a # seen1) (r # seen2) xs)"

definition event_ids :: "Snapshot \<Rightarrow> string list" where
  "event_ids s = map we_EventID (snap_CoordinatorEvents s)"

definition document_ids :: "Snapshot \<Rightarrow> string list" where
  "document_ids s =
     [cm_CaseID (snap_Case s)] @ map tg_TargetID (snap_Targets s)
     @ map ev_EvidenceID (snap_EvidenceBundles s) @ map fnd_FindingID (snap_Findings s)
     @ map pln_PlanID (snap_RepairPlans s) @ map ex_ExecutionID (snap_ExecutionEvents s)
     @ map vr_VerificationID (snap_VerificationReports s) @ event_ids s
     @ map acq_AcquisitionID (snap_EvidenceAcquisitions s)
     @ map con_ConsultationID (snap_AgentConsultations s)
     @ (if snap_WorkflowState s = None then [] else [DocumentIDCaseWorkflowState])"

definition snapshot_refs :: "Snapshot \<Rightarrow> ArtifactRef list \<Rightarrow> CrossRefs" where
  "snapshot_refs s artifacts =
     \<lparr>cr_CaseIDs = setOf [cm_CaseID (snap_Case s)],
      cr_TargetIDs = setOf (map tg_TargetID (snap_Targets s)),
      cr_EvidenceIDs = setOf (map ev_EvidenceID (snap_EvidenceBundles s)),
      cr_FindingIDs = setOf (map fnd_FindingID (snap_Findings s)),
      cr_PlanIDs = setOf (map pln_PlanID (snap_RepairPlans s)),
      cr_ExecutionIDs = setOf (map ex_ExecutionID (snap_ExecutionEvents s)),
      cr_VerificationIDs = setOf (map vr_VerificationID (snap_VerificationReports s)),
      cr_ArtifactIDs = setOf (map art_ArtifactID artifacts),
      cr_CoordinatorEventIDs = setOf (event_ids s),
      cr_DocumentIDs = setOf (document_ids s)\<rparr>"

text \<open>\<^verbatim>\<open>return fmt.Errorf("kind[%d]: %w", i, err)\<close>, and the case id check that follows it.\<close>

definition doc_error :: "string \<Rightarrow> nat \<Rightarrow> go_error \<Rightarrow> go_error" where
  "doc_error kind i x = Errorf (kind @ ''[%d]: %w'') [GNat i, GWrap x]"

definition case_mismatch :: "string \<Rightarrow> nat \<Rightarrow> go_error" where
  "case_mismatch kind i = invalid (kind @ ''[%d].case_id mismatch'') [GNat i]"

definition check_docs :: "string \<Rightarrow> string \<Rightarrow> ('a \<Rightarrow> go_err) \<Rightarrow> ('a \<Rightarrow> string) \<Rightarrow> 'a list \<Rightarrow> go_err" where
  "check_docs kind cid v key xs = each (\<lambda>i x. first_err
     [wrap_err (doc_error kind i) (v x), err_if (key x \<noteq> cid) (case_mismatch kind i)]) xs"

definition check_references :: "Snapshot \<Rightarrow> CrossRefs \<Rightarrow> go_err" where
  "check_references s refs =
     (let cid = cm_CaseID (snap_Case s) in first_err
     [each (\<lambda>i e. wrap_err (doc_error ''evidence_bundles'' i) (ValidateEvidenceRefs refs e))
        (snap_EvidenceBundles s),
      check_docs ''findings'' cid (ValidateFindingRefs refs) fnd_CaseID (snap_Findings s),
      check_docs ''repair_plans'' cid (ValidatePlanRefs refs) pln_CaseID (snap_RepairPlans s),
      check_docs ''execution_events'' cid (ValidateExecutionRefs refs) ex_CaseID (snap_ExecutionEvents s),
      check_docs ''verification_reports'' cid (ValidateVerificationRefs refs) vr_CaseID (snap_VerificationReports s),
      each (\<lambda>i e. first_err
        [wrap_err (doc_error ''coordinator_events'' i) (ValidateCoordinatorEventRefs refs e),
         err_if (we_CaseID e \<noteq> cid) (case_mismatch ''coordinator_events'' i),
         wrap_err (doc_error ''coordinator_events'' i) (validateCoordinatorEventReferenceSemantics s e)])
        (snap_CoordinatorEvents s),
      each (\<lambda>i q. wrap_err (doc_error ''evidence_acquisitions'' i) (ValidateAcquisitionRefs refs q))
        (snap_EvidenceAcquisitions s),
      each (\<lambda>i c. wrap_err (doc_error ''agent_consultations'' i) (ValidateConsultationRefs refs c))
        (snap_AgentConsultations s)])"

definition check_workflow :: "Snapshot \<Rightarrow> CrossRefs \<Rightarrow> go_err" where
  "check_workflow s refs =
     (case snap_WorkflowState s of
        None \<Rightarrow> err_if (snap_EvidenceAcquisitions s \<noteq> [] \<or> snap_AgentConsultations s \<noteq> [])
          (invalid ''evidence acquisitions and consultations require workflow_state'' [])
      | Some w \<Rightarrow> first_err
          [wrap_err (\<lambda>x. Errorf ''workflow_state: %w'' [GWrap x]) (ValidateWorkflowRefs refs w),
           err_if (wf_CaseID w \<noteq> cm_CaseID (snap_Case s)) (invalid ''workflow_state.case_id mismatch'' []),
           err_if (\<not> CompatibleWorkflowAndCaseState (wf_State w) (cm_CurrentState (snap_Case s)))
             (invalid ''workflow state %q incompatible with case current_state %q''
                [GStr (wf_State w), GStr (cm_CurrentState (snap_Case s))]),
           validateWorkflowTransitionIntegrity s w,
           wrap_err (\<lambda>x. invalid ''%v'' [GVal x]) (validateEvidenceAcquisitionOrigin s)])"

definition check_case_times :: "CaseManifest \<Rightarrow> go_err" where
  "check_case_times c =
     (case parse_rfc3339 (cm_CreatedAt c) of
        None \<Rightarrow> Some (Errorf ''case.created_at: %w'' [GWrap (time_parse_error (cm_CreatedAt c))])
      | Some created \<Rightarrow>
          (case parse_rfc3339 (cm_UpdatedAt c) of
             None \<Rightarrow> Some (Errorf ''case.updated_at: %w'' [GWrap (time_parse_error (cm_UpdatedAt c))])
           | Some updated \<Rightarrow> err_if (time_before updated created)
               (invalid ''updated_at must not be before created_at'' [])))"

definition check_target_set :: "Snapshot \<Rightarrow> go_err" where
  "check_target_set s =
     (let ids = map tg_TargetID (snap_Targets s); caseIDs = elems (cm_TargetIDs (snap_Case s)) in first_err
     [each_unique (\<lambda>i t. wrap_err (doc_error ''targets'' i) (Target_Validate t)) tg_TargetID
        (\<lambda>_ d. invalid ''duplicate target_id %q'' [GStr d]) (snap_Targets s),
      err_if (card (set caseIDs) \<noteq> card (set ids)) (invalid ''case.target_ids does not match targets set'' []),
      each (\<lambda>_ i. err_if (i \<notin> set caseIDs) (invalid ''target %q missing from case.target_ids'' [GStr i])) ids,
      each (\<lambda>_ i. err_if (i \<notin> set ids) (invalid ''case.target_ids entry %q has no target document'' [GStr i]))
        (remdups caseIDs)])"

definition Snapshot_Validate :: "bool \<Rightarrow> Snapshot \<Rightarrow> go_err" where
  "Snapshot_Validate win s =
     (let c = snap_Case s; cid = cm_CaseID c in first_err
     [wrap_err (\<lambda>x. Errorf ''case: %w'' [GWrap x]) (CaseManifest_Validate c),
      err_if (snap_Targets s = []) (invalid ''targets must not be empty'' []),
      err_if (snap_EvidenceBundles s = []) (invalid ''evidence_bundles must not be empty'' []),
      check_case_times c,
      err_if (snap_WorkflowState s = None \<and>
              (snap_Findings s \<noteq> [] \<or> snap_RepairPlans s \<noteq> [] \<or> snap_ExecutionEvents s \<noteq> [] \<or>
               snap_VerificationReports s \<noteq> [] \<or> snap_CoordinatorEvents s \<noteq> [] \<or>
               snap_EvidenceAcquisitions s \<noteq> [] \<or> snap_AgentConsultations s \<noteq> []))
        (invalid ''lifecycle documents require workflow_state'' []),
      check_target_set s,
      (case check_evidence win cid 0 [] [] (snap_EvidenceBundles s) of
         Inl e \<Rightarrow> Some e
       | Inr artifacts \<Rightarrow> first_err
          [no_duplicates ''duplicate finding_id %q'' (map fnd_FindingID (snap_Findings s)),
           no_duplicates ''duplicate plan_id %q'' (map pln_PlanID (snap_RepairPlans s)),
           no_duplicates ''duplicate execution_id %q'' (map ex_ExecutionID (snap_ExecutionEvents s)),
           no_duplicates ''duplicate verification_id %q'' (map vr_VerificationID (snap_VerificationReports s)),
           no_duplicates ''duplicate coordinator event_id %q'' (event_ids s),
           check_pairs ''duplicate acquisition_id %q'' ''duplicate acquisition request_id %q''
             ''evidence_acquisitions[%d].case_id mismatch'' cid 0 [] []
             (map (\<lambda>q. (acq_AcquisitionID q, acq_RequestID q, acq_CaseID q)) (snap_EvidenceAcquisitions s)),
           check_pairs ''duplicate consultation_id %q'' ''duplicate consultation request_id %q''
             ''agent_consultations[%d].case_id mismatch'' cid 0 [] []
             (map (\<lambda>q. (con_ConsultationID q, con_RequestID q, con_CaseID q)) (snap_AgentConsultations s)),
           check_references s (snapshot_refs s artifacts),
           check_workflow s (snapshot_refs s artifacts)])])"

section \<open>Expected parent and acquisition provenance\<close>

definition ParentExpectationUnspecified :: int where "ParentExpectationUnspecified = 0"
definition ParentExpectationAbsent :: int where "ParentExpectationAbsent = 1"
definition ParentExpectationCommit :: int where "ParentExpectationCommit = 2"

record ParentExpectation =
  pe_Mode :: int
  pe_CommitID :: string

definition ExpectAbsentParent :: ParentExpectation where
  "ExpectAbsentParent = \<lparr>pe_Mode = ParentExpectationAbsent, pe_CommitID = []\<rparr>"

definition ExpectParentCommit :: "string \<Rightarrow> ParentExpectation" where
  "ExpectParentCommit cid = \<lparr>pe_Mode = ParentExpectationCommit, pe_CommitID = cid\<rparr>"

record commitRecord =
  rec_SchemaName :: string
  rec_SchemaVersion :: string
  rec_CaseID :: string
  rec_Sequence :: "64 word"
  rec_CommitID :: string
  rec_ParentCommitID :: "string option"
  rec_SnapshotID :: string
  rec_SnapshotManifestSHA256 :: string
  rec_CommittedAt :: string
  rec_Reason :: string

definition unknown_mode :: "ParentExpectation \<Rightarrow> go_error" where
  "unknown_mode p = invalid ''unknown parent expectation mode %d'' [GStr (show_int (pe_Mode p))]"

definition ParentExpectation_validate :: "ParentExpectation \<Rightarrow> go_err" where
  "ParentExpectation_validate p =
     (if pe_Mode p = ParentExpectationUnspecified then None
      else if pe_Mode p = ParentExpectationAbsent
      then err_if (pe_CommitID p \<noteq> []) (invalid ''absent parent expectation must not set CommitID'' [])
      else if pe_Mode p = ParentExpectationCommit
      then wrap_err (\<lambda>x. invalid ''parent expectation commit id: %v'' [GVal x]) (validateCommitID (pe_CommitID p))
      else Some (unknown_mode p))"

definition head_commit :: "commitRecord list \<Rightarrow> string" where
  "head_commit chain = (if chain = [] then [] else rec_CommitID (last chain))"

definition ParentExpectation_check :: "commitRecord list \<Rightarrow> ParentExpectation \<Rightarrow> go_err" where
  "ParentExpectation_check chain p = first_err
     [ParentExpectation_validate p,
      (if pe_Mode p = ParentExpectationUnspecified then None
       else if pe_Mode p = ParentExpectationAbsent
       then err_if (chain \<noteq> []) (Errorf ''%w: case already has head commit %s'' [GWrap ErrCaseExists, GStr (head_commit chain)])
       else if pe_Mode p = ParentExpectationCommit
       then err_if (head_commit chain \<noteq> pe_CommitID p)
         (Errorf ''%w: expected parent commit %s, actual %s''
            [GWrap ErrRevisionConflict, GStr (pe_CommitID p), GStr (head_commit chain)])
       else Some (unknown_mode p))]"

definition integrity :: "string \<Rightarrow> go_arg list \<Rightarrow> go_error" where
  "integrity fmt args = Errorf (''%w: '' @ fmt) (GWrap ErrIntegrity # args)"

text \<open>
  The last record of the chain with a commit id and its index, as the maps built over the chain
  hold them. \<open>load\<close> is \<^verbatim>\<open>Store.loadSnapshotAtCommit\<close>, which reads the snapshot from disk.
\<close>

definition find_commit :: "commitRecord list \<Rightarrow> string \<Rightarrow> (nat \<times> commitRecord) option" where
  "find_commit chain cid =
     List.find (\<lambda>(i, c). rec_CommitID c = cid) (rev (zip [0..<length chain] chain))"

definition check_acquisition :: "Snapshot \<Rightarrow> Snapshot \<Rightarrow> EvidenceAcquisitionRecord \<Rightarrow> go_err" where
  "check_acquisition snap source acq =
     (let srcEv = map ev_EvidenceID (snap_EvidenceBundles source);
          srcTg = map tg_TargetID (snap_Targets source);
          err = (\<lambda>fmt i. integrity fmt [GStr (acq_AcquisitionID acq), GStr i, GStr (acq_SourceCommitID acq)])
      in first_err
     [each (\<lambda>_ i. err_if (i \<notin> set srcEv) (err ''acquisition %q input evidence %q absent from source commit %s'' i))
        (elems (acq_InputEvidenceIDs acq)),
      each (\<lambda>_ i. first_err
        [err_if (i \<in> set srcEv) (err ''acquisition %q added evidence %q already present in source commit %s'' i),
         err_if (findEvidenceByID (snap_EvidenceBundles snap) i = None)
           (integrity ''acquisition %q added evidence %q missing from resulting snapshot''
              [GStr (acq_AcquisitionID acq), GStr i])])
        (elems (acq_AddedEvidenceIDs acq)),
      each (\<lambda>_ i. first_err
        [err_if (i \<in> set srcTg) (err ''acquisition %q added target %q already present in source commit %s'' i),
         err_if (findTargetByID (snap_Targets snap) i = None)
           (integrity ''acquisition %q added target %q missing from resulting snapshot''
              [GStr (acq_AcquisitionID acq), GStr i])])
        (elems (acq_AddedTargetIDs acq))])"

definition validateAcquisitionCommitProvenance ::
    "(string \<Rightarrow> commitRecord \<Rightarrow> Snapshot result) \<Rightarrow> string \<Rightarrow> commitRecord list \<Rightarrow> nat \<Rightarrow> Snapshot \<Rightarrow> go_err" where
  "validateAcquisitionCommitProvenance load caseID chain currentIdx snap =
     each (\<lambda>_ acq.
       (case find_commit chain (acq_SourceCommitID acq) of
          None \<Rightarrow> Some (integrity ''acquisition %q source_commit_id %q is not in commit chain''
                     [GStr (acq_AcquisitionID acq), GStr (acq_SourceCommitID acq)])
        | Some (srcIdx, src) \<Rightarrow>
            if currentIdx \<le> srcIdx
            then Some (integrity ''acquisition %q source_commit_id %q is not an ancestor of the validated commit''
                     [GStr (acq_AcquisitionID acq), GStr (acq_SourceCommitID acq)])
            else (case load caseID src of
                    Inl x \<Rightarrow> Some (integrity ''load source commit %s for acquisition %q: %v''
                       [GStr (acq_SourceCommitID acq), GStr (acq_AcquisitionID acq), GVal x])
                  | Inr source \<Rightarrow> check_acquisition snap source acq)))
       (snap_EvidenceAcquisitions snap)"

lemma no_duplicates_None [simp, check_simps]: "no_duplicates fmt ids = None \<longleftrightarrow> distinct ids"
  by (simp add: no_duplicates_def)

end
