(* ===== verification/CoordErrors.thy ===== *)
theory CoordErrors
  imports CaseSnapshot
begin

text \<open>
  The errors of \<^verbatim>\<open>internal/recovery/casestore/errors.go\<close> and
  \<^verbatim>\<open>internal/recovery/coordinator/errors.go\<close>, and \<^verbatim>\<open>errors.Is\<close> with the \<^verbatim>\<open>Is\<close> and \<^verbatim>\<open>Unwrap\<close> methods
  of their error structs.
\<close>

definition ErrCaseLocked :: go_error where "ErrCaseLocked = Sentinel ''casestore: case is locked''"
definition ErrCaseNotFound :: go_error where "ErrCaseNotFound = Sentinel ''casestore: case not found''"

definition coord_ErrInvalidArgument :: go_error where
  "coord_ErrInvalidArgument = Sentinel ''coordinator: invalid argument''"
definition ErrIllegalTransition :: go_error where
  "ErrIllegalTransition = Sentinel ''coordinator: illegal transition''"
definition ErrCaseRevisionConflict :: go_error where
  "ErrCaseRevisionConflict = Sentinel ''coordinator: case revision conflict''"
definition ErrCaseCorrupt :: go_error where "ErrCaseCorrupt = Sentinel ''coordinator: case store corrupt''"
definition ErrMissingDocument :: go_error where
  "ErrMissingDocument = Sentinel ''coordinator: missing required document''"
definition ErrActorNotAllowed :: go_error where
  "ErrActorNotAllowed = Sentinel ''coordinator: actor not allowed''"
definition ErrCaseAlreadyExists :: go_error where
  "ErrCaseAlreadyExists = Sentinel ''coordinator: case already exists''"
definition ErrCaseBusy :: go_error where "ErrCaseBusy = Sentinel ''coordinator: case busy''"
definition ErrLegacyAdoptionRejected :: go_error where
  "ErrLegacyAdoptionRejected = Sentinel ''coordinator: legacy adoption rejected''"
definition ErrAcquisitionConflict :: go_error where
  "ErrAcquisitionConflict = Sentinel ''coordinator: acquisition request conflict''"

definition AcquisitionConflictError :: "string \<Rightarrow> string \<Rightarrow> go_error" where
  "AcquisitionConflictError caseID requestID = ErrStruct ''coordinator.AcquisitionConflictError''
     [(''CaseID'', GStr caseID), (''RequestID'', GStr requestID)]"

definition RevisionConflictError :: "string \<Rightarrow> string \<Rightarrow> string \<Rightarrow> go_error" where
  "RevisionConflictError caseID expected actual = ErrStruct ''coordinator.RevisionConflictError''
     [(''CaseID'', GStr caseID), (''ExpectedCommitID'', GStr expected), (''ActualCommitID'', GStr actual)]"

definition CaseAlreadyExistsError :: "string \<Rightarrow> string \<Rightarrow> go_error" where
  "CaseAlreadyExistsError caseID existing = ErrStruct ''coordinator.CaseAlreadyExistsError''
     [(''CaseID'', GStr caseID), (''ExistingCommit'', GStr existing)]"

definition TransitionError :: "string \<Rightarrow> string \<Rightarrow> string \<Rightarrow> string \<Rightarrow> go_arg \<Rightarrow> go_error" where
  "TransitionError caseID from to reason message = ErrStruct ''coordinator.TransitionError''
     [(''CaseID'', GStr caseID), (''From'', GStr from), (''To'', GStr to), (''Reason'', GStr reason),
      (''Message'', message)]"

text \<open>The \<^verbatim>\<open>Is\<close> methods, by the name of the struct.\<close>

definition struct_is :: "go_error \<Rightarrow> string \<Rightarrow> (string \<times> go_arg) list \<Rightarrow> bool" where
  "struct_is target name fs =
     (if name = ''coordinator.AcquisitionConflictError'' then target = ErrAcquisitionConflict
      else if name = ''coordinator.RevisionConflictError'' then target = ErrCaseRevisionConflict
      else if name = ''coordinator.CaseAlreadyExistsError'' then target = ErrCaseAlreadyExists
      else if name = ''coordinator.TransitionError'' then
        (if map_of fs ''Reason'' \<in> {Some (GStr ''missing_findings''), Some (GStr ''missing_plan'')}
         then target = ErrMissingDocument \<or> target = ErrIllegalTransition
         else if map_of fs ''Reason'' = Some (GStr ''actor_not_allowed'')
         then target = ErrActorNotAllowed \<or> target = ErrIllegalTransition
         else target = ErrIllegalTransition)
      else if name = ''casestore.IntegrityError'' then target = ErrIntegrity
      else False)"

text \<open>\<^verbatim>\<open>errors.Is\<close>: the error itself, its \<^verbatim>\<open>Is\<close> method, then every error it wraps.\<close>

fun errors_is :: "go_error \<Rightarrow> go_error \<Rightarrow> bool"
and arg_is :: "go_error \<Rightarrow> go_arg \<Rightarrow> bool"
and field_is :: "go_error \<Rightarrow> string \<times> go_arg \<Rightarrow> bool" where
  "errors_is t (Sentinel s) = (t = Sentinel s)"
| "errors_is t (Errorf fmt args) = list_ex (arg_is t) args"
| "errors_is t (ErrStruct name fs) = (struct_is t name fs \<or> list_ex (field_is t) fs)"
| "arg_is t (GWrap e) = errors_is t e"
| "arg_is t (GStr _) = False"
| "arg_is t (GNat _) = False"
| "arg_is t (GStrs _) = False"
| "arg_is t (GVal _) = False"
| "field_is t (_, a) = arg_is t a"

text \<open>
  \<^verbatim>\<open>errors.As\<close> for \<^verbatim>\<open>*casestore.IntegrityError\<close> adds nothing: that struct's \<^verbatim>\<open>Is\<close> already answers
  \<^verbatim>\<open>ErrIntegrity\<close>.
\<close>

definition isIntegrityFailure :: "go_error \<Rightarrow> bool" where
  "isIntegrityFailure e = errors_is ErrIntegrity e"

text \<open>\<^verbatim>\<open>fmt.Errorf("%w: ...", ErrInvalidArgument, ...)\<close> and \<^verbatim>\<open>fmt.Errorf("%w: %v", ErrInvalidArgument, err)\<close>\<close>

definition bad_argument :: "string \<Rightarrow> go_arg list \<Rightarrow> go_error" where
  "bad_argument fmt args = Errorf (''%w: '' @ fmt) (GWrap coord_ErrInvalidArgument # args)"

definition bad_value :: "go_error \<Rightarrow> go_error" where
  "bad_value e = bad_argument ''%v'' [GVal e]"

lemma bad_argument_is [simp]: "errors_is t (bad_argument fmt args) \<longleftrightarrow>
    t = coord_ErrInvalidArgument \<or> list_ex (arg_is t) args"
  by (auto simp: bad_argument_def coord_ErrInvalidArgument_def)

lemma conflict_is [simp]:
  "errors_is t (RevisionConflictError c x y) \<longleftrightarrow> t = ErrCaseRevisionConflict"
  "errors_is t (AcquisitionConflictError c r) \<longleftrightarrow> t = ErrAcquisitionConflict"
  "errors_is t (CaseAlreadyExistsError c k) \<longleftrightarrow> t = ErrCaseAlreadyExists"
  by (simp_all add: RevisionConflictError_def AcquisitionConflictError_def CaseAlreadyExistsError_def
      struct_is_def)

end
