(* ===== verification/CoordState.thy ===== *)
theory CoordState
  imports CoordErrors
begin

text \<open>
  The pure steps the coordinator's commands are made of (\<^verbatim>\<open>internal/recovery/coordinator\<close>): the
  transition table (\<^verbatim>\<open>transitions.go\<close>), the workflow update and the monotonic clock
  (\<^verbatim>\<open>state.go\<close>), the audit references (\<^verbatim>\<open>refs.go\<close>, \<^verbatim>\<open>audit.go\<close>) and the append-only merges of
  findings, plans, targets and evidence (\<^verbatim>\<open>findings.go\<close>, \<^verbatim>\<open>plans.go\<close>, \<^verbatim>\<open>acquire.go\<close>). Snapshots are
  values here, so \<^verbatim>\<open>copySnapshot\<close>, a deep copy, has no counterpart.
\<close>

section \<open>The transition table\<close>

definition transition_event :: "string \<Rightarrow> string \<Rightarrow> string option" where
  "transition_event from to =
     (if from = WorkflowCreated \<and> to = WorkflowEvidenceCollected then Some EventCaseCreated
      else if from = [] \<and> to = WorkflowEvidenceCollected then Some EventLegacyCaseAdopted
      else if (from = WorkflowEvidenceCollected \<and> to = WorkflowAnalyzed) \<or>
              (from = WorkflowAnalyzed \<and> to = WorkflowAnalyzed) then Some EventAnalysisCommitted
      else if from = WorkflowAnalyzed \<and> to = WorkflowPlanProposed then Some EventPlanCommitted
      else if (from = WorkflowEvidenceCollected \<or> from = WorkflowAnalyzed \<or> from = WorkflowPlanProposed) \<and>
              to = WorkflowFailed then Some EventCaseFailed
      else if (from = WorkflowEvidenceCollected \<or> from = WorkflowAnalyzed \<or> from = WorkflowPlanProposed) \<and>
              to = WorkflowCancelled then Some EventCaseCancelled
      else None)"

definition probe_event :: "string \<Rightarrow> string \<Rightarrow> string \<Rightarrow> string \<Rightarrow> CoordinatorEvent" where
  "probe_event et from to actor =
     \<lparr>we_SchemaName = SchemaCoordinatorEvent, we_SchemaVersion = SchemaVersion,
      we_EventID = ''cevt-111111111111111111111111'', we_CaseID = ''case-aaaaaaaaaaaaaaaaaaaaaaaa'',
      we_EventType = et, we_ActorType = actor, we_OccurredAt = ''2026-07-29T12:00:00Z'',
      we_PreviousState = (if et = EventLegacyCaseAdopted then [] else from), we_NextState = to,
      we_ExpectedCommitID = (if et = EventCaseCreated then [] else ''commit-111111111111111111111111''),
      we_WorkflowRevision = (if et = EventCaseCreated \<or> et = EventLegacyCaseAdopted then 1 else 2),
      we_ReferencedDocumentIDs = Some [''case-aaaaaaaaaaaaaaaaaaaaaaaa''],
      we_ReasonCode = ''test_reason'', we_CommandID = []\<rparr>"

definition validateTransition :: "string \<Rightarrow> string \<Rightarrow> string \<Rightarrow> nat \<Rightarrow> nat \<Rightarrow> go_err" where
  "validateTransition from to actor findings plans =
     (case transition_event from to of
        None \<Rightarrow> Some (TransitionError [] from to ''not_allowed''
          (GVal (Errorf ''transition %s -> %s is not implemented in PR #17'' [GStr from, GStr to])))
      | Some et \<Rightarrow>
          (case ValidatePR17CoordinatorEventSemantics (probe_event et from to actor) of
             Some e \<Rightarrow> Some (TransitionError [] from to ''actor_not_allowed'' (GVal e))
           | None \<Rightarrow> first_err
               [err_if (et = EventAnalysisCommitted \<and> findings = 0)
                  (TransitionError [] from to ''missing_findings''
                     (GStr ''transition requires at least one Finding'')),
                err_if (et = EventPlanCommitted \<and> plans = 0)
                  (TransitionError [] from to ''missing_plan''
                     (GStr ''transition requires at least one RepairPlan''))]))"

text \<open>\<^verbatim>\<open>te.CaseID = req.CaseID\<close> on the way out of a command.\<close>

definition set_case_id :: "string \<Rightarrow> go_error \<Rightarrow> go_error" where
  "set_case_id cid e =
     (case e of
        ErrStruct name fs \<Rightarrow>
          if name = ''coordinator.TransitionError''
          then ErrStruct name (map (\<lambda>(k, v). if k = ''CaseID'' then (k, GStr cid) else (k, v)) fs)
          else e
      | _ \<Rightarrow> e)"

section \<open>Workflow state and time\<close>

definition currentState :: "Snapshot \<Rightarrow> string" where
  "currentState s = (case snap_WorkflowState s of None \<Rightarrow> [] | Some w \<Rightarrow> wf_State w)"

definition nextRevision :: "Snapshot \<Rightarrow> 64 word" where
  "nextRevision s = (case snap_WorkflowState s of None \<Rightarrow> 1 | Some w \<Rightarrow> wf_Revision w + 1)"

definition defaultActor :: "string \<Rightarrow> string \<Rightarrow> string" where
  "defaultActor actor fallback = (if actor = [] then fallback else actor)"

definition defaultReason :: "string \<Rightarrow> string \<Rightarrow> string" where
  "defaultReason code fallback = (if code = [] then fallback else code)"

fun latest :: "instant \<Rightarrow> instant list \<Rightarrow> instant" where
  "latest m [] = m"
| "latest m (t # ts) = latest (if time_after t m then t else m) ts"

definition time_stamps :: "Snapshot \<Rightarrow> string list" where
  "time_stamps s = [cm_CreatedAt (snap_Case s), cm_UpdatedAt (snap_Case s)] @
     (case snap_WorkflowState s of None \<Rightarrow> [] | Some w \<Rightarrow> [wf_UpdatedAt w])"

text \<open>\<open>now\<close> is what the clock returns.\<close>

definition monotonicNow :: "instant \<Rightarrow> Snapshot \<Rightarrow> string" where
  "monotonicNow now s =
     format_rfc3339 (latest now (List.map_filter parse_rfc3339 (time_stamps s)))"

definition setWorkflow :: "instant \<Rightarrow> string \<Rightarrow> string \<Rightarrow> 64 word \<Rightarrow> WorkflowFailure option \<Rightarrow> string \<Rightarrow>
    Snapshot \<Rightarrow> Snapshot result" where
  "setWorkflow clock state eventID revision failure activePlanID s =
     bindE (CaseStateForWorkflow state) (\<lambda>caseState.
       (let now = monotonicNow clock s in
        Inr (s\<lparr>snap_Case := (snap_Case s)\<lparr>cm_UpdatedAt := now, cm_CurrentState := caseState\<rparr>,
               snap_WorkflowState := Some
                 \<lparr>wf_SchemaName = SchemaCaseWorkflowState, wf_SchemaVersion = SchemaVersion,
                  wf_CaseID = cm_CaseID (snap_Case s), wf_State = state, wf_Revision = revision,
                  wf_UpdatedAt = now, wf_LastTransitionID = eventID, wf_ActivePlanID = activePlanID,
                  wf_ActiveExecutionID = [], wf_Failure = failure\<rparr>\<rparr>)))"

section \<open>Audit events and their references\<close>

definition appendEvent :: "CoordinatorEvent \<Rightarrow> Snapshot \<Rightarrow> Snapshot" where
  "appendEvent e s = s\<lparr>snap_CoordinatorEvents := snap_CoordinatorEvents s @ [e]\<rparr>"

fun unique_refs_from :: "string list \<Rightarrow> string list \<Rightarrow> string list" where
  "unique_refs_from seen [] = []"
| "unique_refs_from seen (d # ds) =
     (if d = [] \<or> d \<in> set seen then unique_refs_from seen ds else d # unique_refs_from (d # seen) ds)"

definition uniqueRefs :: "string list \<Rightarrow> string list" where
  "uniqueRefs ids = unique_refs_from [] ids"

definition createOrAdoptRefs :: "Snapshot \<Rightarrow> string list" where
  "createOrAdoptRefs s = uniqueRefs
     ([cm_CaseID (snap_Case s)] @ map tg_TargetID (snap_Targets s)
      @ map ev_EvidenceID (snap_EvidenceBundles s) @ [DocumentIDCaseWorkflowState])"

definition analysisRefs :: "string \<Rightarrow> Finding list \<Rightarrow> string list" where
  "analysisRefs caseID findings = uniqueRefs
     ([caseID] @ concat (map (\<lambda>f. [fnd_FindingID f] @ elems (fnd_EvidenceRefs f) @ elems (fnd_AffectedTargetIDs f)) findings)
      @ [DocumentIDCaseWorkflowState])"

definition planRefs :: "string \<Rightarrow> RepairPlan \<Rightarrow> string list" where
  "planRefs caseID plan = uniqueRefs
     ([caseID, pln_PlanID plan] @ elems (pln_FindingRefs plan)
      @ map stp_TargetID (elems (pln_Steps plan)) @ [DocumentIDCaseWorkflowState])"

definition terminalRefs :: "Snapshot \<Rightarrow> string list" where
  "terminalRefs s = uniqueRefs ([cm_CaseID (snap_Case s), DocumentIDCaseWorkflowState] @
     (case snap_WorkflowState s of None \<Rightarrow> []
      | Some w \<Rightarrow> if wf_ActivePlanID w \<noteq> [] then [wf_ActivePlanID w] else []))"

definition audit_event :: "string \<Rightarrow> instant \<Rightarrow> string \<Rightarrow> string \<Rightarrow> string \<Rightarrow> string \<Rightarrow> string \<Rightarrow> string \<Rightarrow>
    string slice \<Rightarrow> string \<Rightarrow> string \<Rightarrow> 64 word \<Rightarrow> CoordinatorEvent" where
  "audit_event eventID now caseID et actor prev nxt expected refs reason command revision =
     \<lparr>we_SchemaName = SchemaCoordinatorEvent, we_SchemaVersion = SchemaVersion,
      we_EventID = eventID, we_CaseID = caseID, we_EventType = et, we_ActorType = actor,
      we_OccurredAt = format_rfc3339 now, we_PreviousState = prev, we_NextState = nxt,
      we_ExpectedCommitID = expected, we_WorkflowRevision = revision,
      we_ReferencedDocumentIDs = (case refs of None \<Rightarrow> Some [] | Some _ \<Rightarrow> refs),
      we_ReasonCode = reason, we_CommandID = command\<rparr>"

fun stamp_first :: "string \<Rightarrow> string list \<Rightarrow> string \<Rightarrow> CoordinatorEvent list \<Rightarrow> CoordinatorEvent list" where
  "stamp_first eventID refs at [] = []"
| "stamp_first eventID refs at (e # es) =
     (if we_EventID e = eventID
      then e\<lparr>we_ReferencedDocumentIDs := Some refs, we_OccurredAt := at\<rparr> # es
      else e # stamp_first eventID refs at es)"

definition stampAuditEvent :: "string \<Rightarrow> string list \<Rightarrow> string \<Rightarrow> Snapshot \<Rightarrow> Snapshot" where
  "stampAuditEvent eventID refs at s =
     s\<lparr>snap_CoordinatorEvents := stamp_first eventID refs at (snap_CoordinatorEvents s)\<rparr>"

section \<open>Append-only merges\<close>

definition marshal_equal :: "('a \<Rightarrow> json) \<Rightarrow> 'a \<Rightarrow> 'a \<Rightarrow> bool result" where
  "marshal_equal doc a b = bindE (marshal (doc a)) (\<lambda>x. bindE (marshal (doc b)) (\<lambda>y. Inr (x = y)))"

definition findingsCanonicallyEqual :: "Finding \<Rightarrow> Finding \<Rightarrow> bool result" where
  "findingsCanonicallyEqual = marshal_equal Finding_json"

definition plansCanonicallyEqual :: "RepairPlan \<Rightarrow> RepairPlan \<Rightarrow> bool result" where
  "plansCanonicallyEqual = marshal_equal RepairPlan_json"

text \<open>
  The loop shared by the merges of lists: \<open>out\<close> is the slice built so far, and the map (from ids to
  documents, or to indices of \<open>out\<close>) holds the last document of \<open>out\<close> with each id.
\<close>

fun merge_loop :: "('a \<Rightarrow> string) \<Rightarrow> ('a \<Rightarrow> 'a \<Rightarrow> bool result) \<Rightarrow> (string \<Rightarrow> go_error) \<Rightarrow> 'a list \<Rightarrow> 'a list \<Rightarrow>
    'a list result" where
  "merge_loop key eq conflict out [] = Inr out"
| "merge_loop key eq conflict out (x # xs) =
     (case List.find (\<lambda>y. key y = key x) (rev out) of
        None \<Rightarrow> merge_loop key eq conflict (out @ [x]) xs
      | Some prev \<Rightarrow> bindE (eq prev x) (\<lambda>b.
          if b then merge_loop key eq conflict out xs else Inl (conflict (key x))))"

definition mergeFindingsAppendOnly :: "Finding list \<Rightarrow> Finding list \<Rightarrow> Finding list result" where
  "mergeFindingsAppendOnly existing incoming = merge_loop fnd_FindingID findingsCanonicallyEqual
     (\<lambda>d. bad_argument ''finding_id %q already exists with divergent content'' [GStr d]) existing incoming"

definition mergeTargetsAppendOnly :: "Target list \<Rightarrow> Target list \<Rightarrow> Target list result" where
  "mergeTargetsAppendOnly existing incoming = merge_loop tg_TargetID (marshal_equal Target_json)
     (\<lambda>d. bad_argument ''target %s content conflict'' [GStr d]) existing incoming"

definition mergeEvidenceAppendOnly :: "EvidenceBundle list \<Rightarrow> EvidenceBundle list \<Rightarrow> EvidenceBundle list result" where
  "mergeEvidenceAppendOnly existing incoming = merge_loop ev_EvidenceID (marshal_equal EvidenceBundle_json)
     (\<lambda>d. bad_argument ''evidence %s content conflict'' [GStr d]) existing incoming"

definition mergePlansImmutable :: "RepairPlan list \<Rightarrow> RepairPlan \<Rightarrow> RepairPlan list result" where
  "mergePlansImmutable existing incoming =
     (case List.find (\<lambda>p. pln_PlanID p = pln_PlanID incoming) existing of
        None \<Rightarrow> Inr (existing @ [incoming])
      | Some prev \<Rightarrow> bindE (plansCanonicallyEqual prev incoming) (\<lambda>b.
          if b then Inr existing
          else Inl (bad_argument ''plan_id %q already exists with divergent content''
                      [GStr (pln_PlanID incoming)])))"

section \<open>What an append-only merge promises\<close>

text \<open>
  The contract the commands rely on: a successful merge keeps the documents it was given, in their
  order, at the front of the result, adds only incoming documents, and leaves no id out and none
  twice.
\<close>

locale append_only_merge =
  fixes key :: "'a \<Rightarrow> string"
    and incoming :: "'b \<Rightarrow> 'a list"
    and merge :: "'a list \<Rightarrow> 'b \<Rightarrow> 'a list result"
  assumes extends: "merge xs b = Inr zs \<Longrightarrow> \<exists>new. zs = xs @ new \<and> set new \<subseteq> set (incoming b)"
    and covers: "merge xs b = Inr zs \<Longrightarrow> set (map key (incoming b)) \<subseteq> set (map key zs)"
    and keeps_distinct: "merge xs b = Inr zs \<Longrightarrow> distinct (map key xs) \<Longrightarrow> distinct (map key zs)"
begin

lemma keeps_documents: "merge xs b = Inr zs \<Longrightarrow> take (length xs) zs = xs"
  using extends by fastforce

lemma keeps_all: "merge xs b = Inr zs \<Longrightarrow> set xs \<subseteq> set zs"
  using extends by fastforce

lemma invents_nothing: "merge xs b = Inr zs \<Longrightarrow> set zs \<subseteq> set xs \<union> set (incoming b)"
  using extends by fastforce

lemma ids_exact: "merge xs b = Inr zs \<Longrightarrow> set (map key zs) = set (map key xs) \<union> set (map key (incoming b))"
proof -
  assume m: "merge xs b = Inr zs"
  show ?thesis
    using keeps_all [OF m] invents_nothing [OF m] covers [OF m] by auto
qed

lemma same_document:
  assumes "merge xs b = Inr zs" "List.find (\<lambda>y. key y = k) xs = Some x"
  shows "List.find (\<lambda>y. key y = k) zs = Some x"
proof -
  obtain new where zs: "zs = xs @ new" using extends [OF assms(1)] by blast
  from assms(2) obtain i where "i < length xs" "key (xs ! i) = k" "x = xs ! i"
    "\<forall>j < i. key (xs ! j) \<noteq> k" by (auto simp: find_Some_iff)
  then show ?thesis by (auto simp: zs find_Some_iff nth_append intro!: exI [of _ i])
qed

end

lemma merge_loop_Inr:
  "merge_loop key eq conflict out xs = Inr zs \<Longrightarrow>
     (\<exists>new. zs = out @ new \<and> set new \<subseteq> set xs) \<and> set (map key xs) \<subseteq> set (map key zs) \<and>
     (distinct (map key out) \<longrightarrow> distinct (map key zs))"
proof (induction xs arbitrary: out)
  case Nil
  then show ?case by simp
next
  case (Cons x xs)
  show ?case
  proof (cases "List.find (\<lambda>y. key y = key x) (rev out)")
    case None
    then have fresh: "key x \<notin> set (map key out)" by (auto simp: find_None_iff)
    have m: "merge_loop key eq conflict (out @ [x]) xs = Inr zs" using Cons.prems None by simp
    obtain new where "zs = (out @ [x]) @ new" "set new \<subseteq> set xs" using Cons.IH [OF m] by blast
    then have "zs = out @ (x # new)" "set (x # new) \<subseteq> set (x # xs)" by auto
    moreover have "distinct (map key out) \<longrightarrow> distinct (map key zs)"
      using Cons.IH [OF m] fresh by simp
    moreover have "set (map key (x # xs)) \<subseteq> set (map key zs)"
      using Cons.IH [OF m] \<open>zs = out @ (x # new)\<close> by auto
    ultimately show ?thesis by blast
  next
    case (Some prev)
    then have known: "key x \<in> set (map key out)" using find_key_mem by fastforce
    have m: "merge_loop key eq conflict out xs = Inr zs" using Cons.prems Some by (auto split: if_splits)
    then obtain new where new: "zs = out @ new" "set new \<subseteq> set xs" using Cons.IH by blast
    have "set (map key (x # xs)) \<subseteq> set (map key zs)" using Cons.IH [OF m] known new(1) by auto
    then show ?thesis using Cons.IH [OF m] new by auto
  qed
qed

lemma merge_loop_laws:
  "merge_loop key eq conflict out xs = Inr zs \<Longrightarrow> \<exists>new. zs = out @ new \<and> set new \<subseteq> set xs"
  "merge_loop key eq conflict out xs = Inr zs \<Longrightarrow> set (map key xs) \<subseteq> set (map key zs)"
  "merge_loop key eq conflict out xs = Inr zs \<Longrightarrow> distinct (map key out) \<Longrightarrow> distinct (map key zs)"
  by (blast dest: merge_loop_Inr)+

interpretation findings: append_only_merge fnd_FindingID "\<lambda>fs. fs" mergeFindingsAppendOnly
  by unfold_locales (unfold mergeFindingsAppendOnly_def, (rule merge_loop_laws; assumption)+)

interpretation targets: append_only_merge tg_TargetID "\<lambda>ts. ts" mergeTargetsAppendOnly
  by unfold_locales (unfold mergeTargetsAppendOnly_def, (rule merge_loop_laws; assumption)+)

interpretation evidence: append_only_merge ev_EvidenceID "\<lambda>es. es" mergeEvidenceAppendOnly
  by unfold_locales (unfold mergeEvidenceAppendOnly_def, (rule merge_loop_laws; assumption)+)

lemma mergePlansImmutable_Inr:
  "mergePlansImmutable xs p = Inr zs \<longleftrightarrow>
     (pln_PlanID p \<notin> set (map pln_PlanID xs) \<and> zs = xs @ [p]) \<or>
     (\<exists>q. List.find (\<lambda>x. pln_PlanID x = pln_PlanID p) xs = Some q \<and> plansCanonicallyEqual q p = Inr True \<and> zs = xs)"
proof (cases "List.find (\<lambda>x. pln_PlanID x = pln_PlanID p) xs")
  case None
  then have "pln_PlanID p \<notin> set (map pln_PlanID xs)" by (simp add: find_key_None)
  then show ?thesis using None by (auto simp: mergePlansImmutable_def)
next
  case (Some q)
  then have "pln_PlanID p \<in> set (map pln_PlanID xs)" using find_key_mem by fastforce
  then show ?thesis using Some
    by (cases "plansCanonicallyEqual q p") (auto simp: mergePlansImmutable_def split: if_splits)
qed

interpretation plans: append_only_merge pln_PlanID "\<lambda>p. [p]" mergePlansImmutable
proof
  fix xs b zs assume m: "mergePlansImmutable xs b = Inr zs"
  then show "\<exists>new. zs = xs @ new \<and> set new \<subseteq> set [b]" by (auto simp: mergePlansImmutable_Inr)
  show "set (map pln_PlanID [b]) \<subseteq> set (map pln_PlanID zs)"
    using m find_key_mem by (fastforce simp: mergePlansImmutable_Inr)
  show "distinct (map pln_PlanID zs)" if "distinct (map pln_PlanID xs)"
    using m that by (auto simp: mergePlansImmutable_Inr)
qed

section \<open>The transition table accepts the lifecycle\<close>

lemma probe_constants:
  "reCoordinatorEventID ''cevt-111111111111111111111111''" "reCaseID ''case-aaaaaaaaaaaaaaaaaaaaaaaa''"
  "reCommitID ''commit-111111111111111111111111''" "reReasonCode ''test_reason''"
  "rfc3339_ok ''2026-07-29T12:00:00Z''"
  by code_simp+

lemma allowed_actor_type: "isPR17AllowedActor actor \<Longrightarrow> actor \<in> set actorTypes"
  by (auto simp: isPR17AllowedActor_def actorTypes_def)

lemma probe_semantics:
  assumes "lifecycle p a q"
  shows "ValidatePR17CoordinatorEventSemantics (probe_event (action_event a) (source_name p) (phase_name q) actor) = None
    \<longleftrightarrow> isPR17AllowedActor actor \<and> allowedActorForPR17Event (action_event a) actor"
proof -
  let ?e = "probe_event (action_event a) (source_name p) (phase_name q) actor"
  have prev: "we_PreviousState ?e = source_name p"
    using assms by (cases a) (auto simp: probe_event_def lifecycle_iffs)
  have "source_name p \<noteq> [] \<Longrightarrow> source_name p \<in> set workflowStates" by (cases p) simp_all
  then have "isPR17AllowedActor actor \<Longrightarrow> CoordinatorEvent_Validate ?e = None"
    using probe_constants allowed_actor_type
    by (auto simp: CoordinatorEvent_Validate_def probe_event_def SchemaCoordinatorEvent_def)
  moreover have "(we_ExpectedCommitID ?e = []) = (a = CreateCase)"
    "fresh_action a \<longrightarrow> we_WorkflowRevision ?e = 1" "\<not> fresh_action a \<longrightarrow> we_WorkflowRevision ?e > 1"
    by (cases a; simp add: probe_event_def fresh_action_def)+
  moreover have "we_EventType ?e = action_event a" "we_NextState ?e = phase_name q" "we_ActorType ?e = actor"
    by (simp_all add: probe_event_def)
  ultimately show ?thesis
    using assms prev unfolding event_semantics_None by (metis action_event_inj)
qed

lemma transition_event_action:
  "transition_event from to = Some et \<longleftrightarrow>
     (\<exists>p a q. lifecycle p a q \<and> from = source_name p \<and> to = phase_name q \<and> et = action_event a)"
proof
  assume "transition_event from to = Some et"
  then have "validPR17TransitionForEvent et from to"
    by (auto simp: transition_event_def validPR17TransitionForEvent_def split: if_splits)
  then show "\<exists>p a q. lifecycle p a q \<and> from = source_name p \<and> to = phase_name q \<and> et = action_event a"
    unfolding valid_transition_lifecycle by blast
next
  assume "\<exists>p a q. lifecycle p a q \<and> from = source_name p \<and> to = phase_name q \<and> et = action_event a"
  then obtain p a q where *: "lifecycle p a q" "from = source_name p" "to = phase_name q" "et = action_event a"
    by blast
  from *(1) show "transition_event from to = Some et"
    by cases (auto simp: * transition_event_def)
qed

definition transition_allowed :: "phase option \<Rightarrow> action \<Rightarrow> phase \<Rightarrow> string \<Rightarrow> nat \<Rightarrow> nat \<Rightarrow> bool" where
  "transition_allowed p a q actor findings plans \<longleftrightarrow>
     lifecycle p a q \<and> isPR17AllowedActor actor \<and> allowedActorForPR17Event (action_event a) actor \<and>
     (a = CommitAnalysis \<longrightarrow> 0 < findings) \<and> (a = CommitPlan \<longrightarrow> 0 < plans)"

lemma validateTransition_None:
  "validateTransition src dst actor findings plans = None \<longleftrightarrow>
     (\<exists>p a q. transition_allowed p a q actor findings plans \<and> src = source_name p \<and> dst = phase_name q)"
proof (cases "transition_event src dst")
  case None
  then show ?thesis
    using transition_event_action [of src dst]
    by (auto simp: validateTransition_def transition_allowed_def)
next
  case (Some et)
  then obtain p a q where *: "lifecycle p a q" "src = source_name p" "dst = phase_name q" "et = action_event a"
    by (auto simp: transition_event_action)
  have unique: "a' = a" if "lifecycle p a' q" for a'
    using that *(1) by (auto elim!: lifecycleE)
  have names: "et = EventAnalysisCommitted \<longleftrightarrow> a = CommitAnalysis" "et = EventPlanCommitted \<longleftrightarrow> a = CommitPlan"
    by (cases a; simp add: *(4))+
  have "validateTransition src dst actor findings plans = None \<longleftrightarrow>
      ValidatePR17CoordinatorEventSemantics (probe_event et src dst actor) = None \<and>
      (et = EventAnalysisCommitted \<longrightarrow> 0 < findings) \<and> (et = EventPlanCommitted \<longrightarrow> 0 < plans)"
    by (cases "ValidatePR17CoordinatorEventSemantics (probe_event et src dst actor)")
       (auto simp: validateTransition_def Some)
  also have "\<dots> \<longleftrightarrow> transition_allowed p a q actor findings plans"
    unfolding names using probe_semantics [OF *(1), of actor] *
    by (auto simp: transition_allowed_def)
  finally have iff: "validateTransition src dst actor findings plans = None \<longleftrightarrow>
    transition_allowed p a q actor findings plans" .
  have "a' = a" if "transition_allowed p a' q actor findings plans" for a'
    using that unique by (simp add: transition_allowed_def)
  then show ?thesis
    by (subst iff) (unfold *(2,3) source_name_inj phase_name_inj, blast)
qed

section \<open>The monotonic clock\<close>

lemma latest_ge: "t \<in> set (m # ts) \<Longrightarrow> \<not> time_before (latest m ts) t"
proof (induction ts arbitrary: m t)
  case Nil
  then show ?case by simp
next
  case (Cons u ts)
  define m' where "m' = (if time_after u m then u else m)"
  have ge: "\<not> time_before m' m" "\<not> time_before m' u" by (auto simp: m'_def time_before_def)
  have lm: "\<not> time_before (latest m' ts) m'" using Cons.IH [of m' m'] by simp
  have "t \<in> set (m' # ts) \<or> \<not> time_before m' t" using Cons.prems ge by auto
  then have "\<not> time_before (latest m' ts) t"
    using Cons.IH [of t m'] not_before_trans [OF _ lm] by blast
  then show ?case by (simp add: m'_def)
qed

lemma latest_mem: "latest m ts \<in> set (m # ts)"
proof (induction ts arbitrary: m)
  case (Cons u ts)
  show ?case using Cons.IH [of "if time_after u m then u else m"] by (auto split: if_splits)
qed simp

lemma whole_second_ge: "\<not> time_before t u \<Longrightarrow> nanos u = 0 \<Longrightarrow> 0 \<le> nanos t \<Longrightarrow> \<not> time_before (whole_second t) u"
  by (auto simp: time_before_def whole_second_def)

section \<open>References\<close>

lemma unique_refs_set: "set (unique_refs_from seen ds) = set ds - {[]} - set seen"
  by (induction ds arbitrary: seen) auto

lemma unique_refs_distinct: "distinct (unique_refs_from seen ds)"
  by (induction ds arbitrary: seen) (auto simp: unique_refs_set)

lemma uniqueRefs_set [simp]: "set (uniqueRefs ds) = set ds - {[]}"
  by (simp add: uniqueRefs_def unique_refs_set)

lemma uniqueRefs_distinct [simp]: "distinct (uniqueRefs ds)"
  by (simp add: uniqueRefs_def unique_refs_distinct)

lemma uniqueSortedStrings_set [simp]: "set (uniqueSortedStrings vs) = set vs - {[]}"
  by (auto simp: uniqueSortedStrings_def)

lemma uniqueSortedStrings_eq:
  "uniqueSortedStrings a = uniqueSortedStrings b \<longleftrightarrow> set a - {[]} = set b - {[]}"
proof
  assume "uniqueSortedStrings a = uniqueSortedStrings b"
  then show "set a - {[]} = set b - {[]}" by (metis uniqueSortedStrings_set)
next
  assume eq: "set a - {[]} = set b - {[]}"
  have sd: "sorted (uniqueSortedStrings v)" "distinct (uniqueSortedStrings v)" for v
    by (simp_all add: uniqueSortedStrings_def)
  show "uniqueSortedStrings a = uniqueSortedStrings b"
    by (rule sorted_distinct_set_unique) (simp_all add: sd eq)
qed

lemma requireExactRefSet_None: "requireExactRefSet got want = None \<longleftrightarrow> set got - {[]} = set want - {[]}"
  by (simp add: requireExactRefSet_def Let_def uniqueSortedStrings_eq)

end
