(* ===== verification/EventLog.thy ===== *)
theory EventLog
  imports CaseSnapshot "HOL-Library.Multiset"
begin

text \<open>
  What the event log of a valid snapshot is. A run is a sequence of coordinator events that the
  lifecycle of a case allows, numbered from 1 and in the order of their times. The transition checks
  of the case store accept an event log exactly when its events, in the order of their revisions,
  are a run that ends in the workflow state.
\<close>

section \<open>Runs of the lifecycle\<close>

definition event_step :: "CoordinatorEvent \<Rightarrow> phase option \<Rightarrow> action \<Rightarrow> phase \<Rightarrow> bool" where
  "event_step e p a q \<longleftrightarrow> lifecycle p a q \<and> we_EventType e = action_event a \<and>
     we_PreviousState e = source_name p \<and> we_NextState e = phase_name q"

definition not_before :: "CoordinatorEvent \<Rightarrow> CoordinatorEvent \<Rightarrow> bool" where
  "not_before e prev \<longleftrightarrow> (\<exists>t u. parse_rfc3339 (we_OccurredAt e) = Some t \<and>
     parse_rfc3339 (we_OccurredAt prev) = Some u \<and> \<not> time_before t u)"

inductive event_run :: "CoordinatorEvent list \<Rightarrow> phase \<Rightarrow> bool" where
  start: "event_step e p a q \<Longrightarrow> fresh_action a \<Longrightarrow> we_WorkflowRevision e = 1 \<Longrightarrow> event_run [e] q"
| step: "event_run es p \<Longrightarrow> event_step e (Some p) a q \<Longrightarrow> \<not> fresh_action a \<Longrightarrow>
    we_WorkflowRevision e = of_nat (Suc (length es)) \<Longrightarrow> not_before e (last es) \<Longrightarrow> event_run (es @ [e]) q"

inductive_cases event_run_snocE: "event_run (es @ [e]) q"

lemma event_run_nonempty: "event_run es p \<Longrightarrow> es \<noteq> []"
  by (induction rule: event_run.induct) auto

lemma event_run_phase: "event_run es p \<Longrightarrow> p \<noteq> Created \<and> we_NextState (last es) = phase_name p"
  by (induction rule: event_run.induct) (auto simp: event_step_def dest: lifecycle_target)

lemma event_run_butlast:
  "event_run (es @ [e]) q \<Longrightarrow> es \<noteq> [] \<Longrightarrow> \<exists>p a. event_run es p \<and> event_step e (Some p) a q \<and> \<not> fresh_action a"
  by (erule event_run_snocE) auto

lemma event_run_prefix:
  "event_run (es @ fs) q \<Longrightarrow> es \<noteq> [] \<Longrightarrow> \<exists>p. event_run es p"
proof (induction fs arbitrary: q rule: rev_induct)
  case Nil
  then show ?case by auto
next
  case (snoc f fs)
  from snoc.prems have "event_run ((es @ fs) @ [f]) q" by simp
  then obtain p where "event_run (es @ fs) p"
    using event_run_butlast snoc.prems(2) by blast
  then show ?case using snoc.IH snoc.prems(2) by blast
qed

text \<open>After an event that fails or cancels the case there is no other.\<close>

lemma event_run_terminal_last:
  assumes "event_run (es @ e # fs) q" "we_NextState e \<in> {WorkflowFailed, WorkflowCancelled}"
  shows "fs = []"
proof (cases fs)
  case (Cons f gs)
  have "event_run ((es @ [e, f]) @ gs) q" using assms(1) Cons by simp
  then obtain r where "event_run ((es @ [e]) @ [f]) r"
    using event_run_prefix [of "es @ [e, f]"] by auto
  then obtain p a where "event_run (es @ [e]) p" and st: "event_step f (Some p) a r"
    using event_run_butlast by blast
  then have "we_NextState e = phase_name p" using event_run_phase by fastforce
  with assms(2) have "p \<in> {Failed, Cancelled}" by auto
  then have "terminal_phase p" by (auto simp: terminal_phase_def)
  then have False using st lifecycle_terminal by (auto simp: event_step_def)
  then show ?thesis ..
qed simp

text \<open>Exactly the first event creates or adopts the case.\<close>

lemma event_run_fresh:
  "event_run es p \<Longrightarrow> i < length es \<Longrightarrow>
     we_EventType (es ! i) \<in> {EventCaseCreated, EventLegacyCaseAdopted} \<longleftrightarrow> i = 0"
proof (induction arbitrary: i rule: event_run.induct)
  case (start e p a q)
  then show ?case by (cases a) (auto simp: event_step_def fresh_action_def)
next
  case (step es p e a q)
  have "0 < length es" using event_run_nonempty [OF step.hyps(1)] by simp
  moreover have "we_EventType e \<notin> {EventCaseCreated, EventLegacyCaseAdopted}"
    using step.hyps by (cases a) (auto simp: event_step_def fresh_action_def)
  ultimately show ?case
    using step.prems step.IH [of i] by (cases "i = length es") (auto simp: nth_append)
qed

lemma event_run_revisions: "event_run es p \<Longrightarrow> map we_WorkflowRevision es = map of_nat [1..<Suc (length es)]"
  by (induction rule: event_run.induct) simp_all

section \<open>The events collected by revision\<close>

lemma collect_changing_Inr:
  "collect_changing acc es = Inr byRev \<Longrightarrow>
     byRev = rev (map (\<lambda>e. (we_WorkflowRevision e, e))
               (filter (\<lambda>e. IsStateChangingCoordinatorEventType (we_EventType e)) es)) @ acc \<and>
     (distinct (map fst acc) \<longrightarrow> distinct (map fst byRev)) \<and>
     (\<forall>e \<in> set es. IsStateChangingCoordinatorEventType (we_EventType e) \<longrightarrow>
        we_WorkflowRevision e \<noteq> 0 \<and> ValidatePR17CoordinatorEventSemantics e = None)"
proof (induction es arbitrary: acc)
  case Nil
  then show ?case by simp
next
  case (Cons e es)
  show ?case
  proof (cases "IsStateChangingCoordinatorEventType (we_EventType e)")
    case False
    then show ?thesis using Cons by (auto split: if_splits)
  next
    case True
    then have new: "we_WorkflowRevision e \<noteq> 0" "we_WorkflowRevision e \<notin> set (map fst acc)"
        "ValidatePR17CoordinatorEventSemantics e = None"
      and rest: "collect_changing ((we_WorkflowRevision e, e) # acc) es = Inr byRev"
      using Cons.prems by (auto split: if_splits option.splits)
    note ih = Cons.IH [OF rest]
    have "distinct (map fst acc) \<longrightarrow> distinct (map fst byRev)"
      using conjunct1 [OF conjunct2 [OF ih]] new(2) by simp
    moreover have "byRev = rev (map (\<lambda>e. (we_WorkflowRevision e, e))
        (filter (\<lambda>e. IsStateChangingCoordinatorEventType (we_EventType e)) (e # es))) @ acc"
      using ih True by simp
    moreover have "\<forall>x \<in> set (e # es). IsStateChangingCoordinatorEventType (we_EventType x) \<longrightarrow>
        we_WorkflowRevision x \<noteq> 0 \<and> ValidatePR17CoordinatorEventSemantics x = None"
      using conjunct2 [OF conjunct2 [OF ih]] new by simp
    ultimately show ?thesis by blast
  qed
qed

lemma distinct_words_length:
  assumes "distinct (ks :: 64 word list)" "0 \<notin> set ks"
  shows "length ks < 2 ^ 64"
proof -
  have "card (insert 0 (set ks)) \<le> CARD(64 word)" by (intro card_mono) auto
  then show ?thesis using assms by (simp add: distinct_card card_word)
qed

lemma of_nat_word_inj:
  "a < 2 ^ 64 \<Longrightarrow> b < 2 ^ 64 \<Longrightarrow> (of_nat a :: 64 word) = of_nat b \<longleftrightarrow> a = b"
  by (auto dest!: arg_cong [of _ _ unat] simp: unat_of_nat)

text \<open>When the keys are the revisions \<open>1..n\<close>, reading them in order lists every event once.\<close>

lemma at_rev_enumerates:
  assumes dist: "distinct (map fst byRev)" and len: "length byRev = n" "n < 2 ^ 64"
    and keys: "\<forall>r \<in> {1..n}. of_nat r \<in> set (map fst byRev)"
  shows "mset (map (at_rev byRev) [1..<Suc n]) = mset (map snd byRev)"
    and "\<And>r. 1 \<le> r \<Longrightarrow> r \<le> n \<Longrightarrow> (of_nat r, at_rev byRev r) \<in> set byRev"
proof -
  let ?ks = "map of_nat [1..<Suc n] :: 64 word list"
  have inj: "inj_on (of_nat :: nat \<Rightarrow> 64 word) (set [1..<Suc n])"
    using len(2) by (auto simp: inj_on_def of_nat_word_inj)
  then have dks: "distinct ?ks" by (simp add: distinct_map)
  have sub: "set ?ks \<subseteq> set (map fst byRev)" using keys by auto
  have "card (set ?ks) = card (set (map fst byRev))"
    using dist dks len(1) by (simp only: distinct_card length_map length_upt diff_Suc_1)
  then have "set ?ks = set (map fst byRev)" using sub by (intro card_subset_eq) auto
  then have ks: "mset ?ks = mset (map fst byRev)" by (simp only: set_eq_iff_mset_eq_distinct [OF dks dist])
  have val: "map (\<lambda>k. case map_of byRev k of Some e \<Rightarrow> e | None \<Rightarrow> no_event) (map fst byRev) = map snd byRev"
    using dist by (auto intro!: map_cong simp: map_of_is_SomeI)
  have "map (at_rev byRev) [1..<Suc n] = map (\<lambda>k. case map_of byRev k of Some e \<Rightarrow> e | None \<Rightarrow> no_event) ?ks"
    by (simp add: at_rev_def del: upt_Suc)
  then have "mset (map (at_rev byRev) [1..<Suc n]) =
      image_mset (\<lambda>k. case map_of byRev k of Some e \<Rightarrow> e | None \<Rightarrow> no_event) (mset (map fst byRev))"
    by (simp only: mset_map [symmetric] ks [symmetric])
  also have "\<dots> = mset (map snd byRev)" by (simp only: mset_map [symmetric] val)
  finally show "mset (map (at_rev byRev) [1..<Suc n]) = mset (map snd byRev)" .
  fix r assume "1 \<le> r" "r \<le> n"
  then have "of_nat r \<in> set (map fst byRev)" using keys by auto
  then obtain e where e: "map_of byRev (of_nat r) = Some e"
    by (metis map_of_eq_None_iff option.exhaust set_map)
  then show "(of_nat r, at_rev byRev r) \<in> set byRev"
    by (auto simp: at_rev_def dest: map_of_SomeD)
qed

section \<open>The transition checks accept runs\<close>

definition changing :: "CoordinatorEvent \<Rightarrow> bool" where
  "changing e \<longleftrightarrow> IsStateChangingCoordinatorEventType (we_EventType e)"

definition well_formed_event :: "CoordinatorEvent \<Rightarrow> bool" where
  "well_formed_event e \<longleftrightarrow> CoordinatorEvent_Validate e = None"

lemma event_semantics_step:
  assumes "ValidatePR17CoordinatorEventSemantics e = None"
  obtains p a q where "event_step e p a q"
    and "fresh_action a \<longleftrightarrow> we_WorkflowRevision e = 1"
  using assms unfolding event_semantics_None event_step_def by (metis order_less_irrefl)

lemma occurred_in_order_None: "occurred_in_order r prev cur = None \<longleftrightarrow> not_before cur prev"
  by (auto simp: occurred_in_order_def not_before_def split: option.splits)

lemma run_of_checks:
  assumes sem: "\<And>r. 1 \<le> r \<Longrightarrow> r \<le> n \<Longrightarrow> ValidatePR17CoordinatorEventSemantics (f r) = None"
    and rev: "\<And>r. 1 \<le> r \<Longrightarrow> r \<le> n \<Longrightarrow> we_WorkflowRevision (f r) = of_nat r"
    and n: "n < 2 ^ 64"
    and times: "\<And>r. 2 \<le> r \<Longrightarrow> r \<le> n \<Longrightarrow> not_before (f r) (f (r - 1))"
    and cont: "\<And>r. 2 \<le> r \<Longrightarrow> r \<le> n \<Longrightarrow> we_PreviousState (f r) = we_NextState (f (r - 1))"
    and k: "1 \<le> k" "k \<le> n"
  shows "\<exists>p. event_run (map f [1..<Suc k]) p"
  using k
proof (induction k rule: nat_induct_at_least)
  case base
  obtain p a q where st: "event_step (f 1) p a q" "fresh_action a \<longleftrightarrow> we_WorkflowRevision (f 1) = 1"
    using base event_semantics_step [OF sem [of 1]] by auto
  moreover have "we_WorkflowRevision (f 1) = 1" using base rev [of 1] by simp
  ultimately have "event_run [f 1] q" by (intro event_run.start [OF st(1)]) auto
  then show ?case by auto
next
  case (Suc k)
  then obtain p where run: "event_run (map f [1..<Suc k]) p" by auto
  have last: "last (map f [1..<Suc k]) = f k" using Suc.hyps by (simp add: last_map)
  obtain p' a q where st: "event_step (f (Suc k)) p' a q"
      and fresh: "fresh_action a \<longleftrightarrow> we_WorkflowRevision (f (Suc k)) = 1"
    using Suc event_semantics_step [OF sem [of "Suc k"]] by auto
  have w: "we_WorkflowRevision (f (Suc k)) = of_nat (Suc k)" using Suc.prems by (intro rev) auto
  have "of_nat (Suc k) \<noteq> (of_nat 1 :: 64 word)"
    using Suc n by (subst of_nat_word_inj) auto
  then have nf: "\<not> fresh_action a" using fresh w by simp
  have "source_name p' = phase_name p"
    using st cont [of "Suc k"] Suc event_run_phase [OF run] last by (auto simp: event_step_def)
  then have "p' = Some p" by (cases p') auto
  then have "event_run (map f [1..<Suc k] @ [f (Suc k)]) q"
    using run st nf w times [of "Suc k"] Suc last
    by (intro event_run.step [OF run]) auto
  then show ?case using Suc.hyps by auto
qed

lemma integrity_run:
  assumes ok: "validateWorkflowTransitionIntegrity s w = None"
    and wf: "\<forall>e \<in> set (snap_CoordinatorEvents s). changing e"
  obtains ordered p where "event_run ordered p" "mset ordered = mset (snap_CoordinatorEvents s)"
    "wf_State w = phase_name p" "unat (wf_Revision w) = length ordered"
    "wf_LastTransitionID w = we_EventID (last ordered)" "we_OccurredAt (last ordered) = wf_UpdatedAt w"
proof -
  let ?es = "snap_CoordinatorEvents s"
  obtain byRev where col: "collect_changing [] ?es = Inr byRev" and hist: "check_history s w byRev = None"
    using ok by (auto simp: validateWorkflowTransitionIntegrity_def split: sum.splits)
  define n where "n = unat (wf_Revision w)"
  let ?f = "at_rev byRev"
  let ?ordered = "map ?f [1..<Suc n]"
  have flt: "filter (\<lambda>e. IsStateChangingCoordinatorEventType (we_EventType e)) ?es = ?es"
    using wf by (simp add: changing_def)
  note c = collect_changing_Inr [OF col]
  have byRev: "byRev = rev (map (\<lambda>e. (we_WorkflowRevision e, e)) ?es)"
    using conjunct1 [OF c] flt by simp
  have dist: "distinct (map fst byRev)" using conjunct1 [OF conjunct2 [OF c]] by simp
  have each: "we_WorkflowRevision e \<noteq> 0 \<and> ValidatePR17CoordinatorEventSemantics e = None" if "e \<in> set ?es" for e
    using conjunct2 [OF conjunct2 [OF c]] wf that by (simp add: changing_def)
  have "0 \<notin> set (map fst byRev)" using each by (auto simp: byRev)
  with distinct_words_length [OF dist] have lt: "length byRev < 2 ^ 64" by simp
  from hist have len: "of_nat (length byRev) = wf_Revision w" and n0: "wf_Revision w \<noteq> 0"
    and keys: "\<forall>r \<in> set [1..<Suc n]. of_nat r \<in> set (map fst byRev)"
    and ord: "\<forall>r \<in> set [2..<Suc n]. not_before (?f r) (?f (r - 1))"
    by (simp_all add: check_history_def Let_def n_def occurred_in_order_None del: upt_Suc set_map)
  from hist obtain l where l: "map_of (rev (map (\<lambda>e. (we_EventID e, e)) ?es)) (wf_LastTransitionID w) = Some l"
    and cont: "\<forall>r \<in> set [2..<Suc n]. we_PreviousState (?f r) = we_NextState (?f (r - 1))"
    and lid: "we_EventID l = we_EventID (?f n)" and fin: "we_NextState (?f n) = wf_State w"
    and sem: "ValidatePR17WorkflowStateSemantics w (snap_Case s) (?f n) = None"
    by (auto simp: check_history_def Let_def n_def simp del: upt_Suc split: option.splits)
  have nlen: "n = length byRev"
    using lt unfolding n_def len [symmetric] by (simp add: unat_of_nat take_bit_eq_mod)
  have n1: "1 \<le> n" using n0 by (simp add: n_def unat_gt_0 Suc_leI)
  have lt': "n < 2 ^ 64" using lt nlen by simp
  have keys': "\<forall>r \<in> {1..n}. of_nat r \<in> set (map fst byRev)"
    using keys by (simp only: atLeastLessThanSuc_atLeastAtMost set_upt)
  note en = at_rev_enumerates [OF dist nlen [symmetric] lt' keys']
  have mem: "?f r \<in> set ?es \<and> we_WorkflowRevision (?f r) = of_nat r" if "1 \<le> r" "r \<le> n" for r
    using en(2) [OF that] by (auto simp: byRev)
  have in_range: "r \<in> set [2..<Suc n]" if "2 \<le> r" "r \<le> n" for r
    using that by (simp del: upt_Suc)
  have "\<exists>p. event_run ?ordered p"
    by (rule run_of_checks [where n = n])
       (use mem each ord cont in_range lt' n1 in blast)+
  then obtain p where run: "event_run ?ordered p" by blast
  have last: "last ?ordered = ?f n" using n1 by (simp add: last_map)
  have "wf_LastTransitionID w = we_EventID l"
    using map_of_SomeD [OF l] by auto
  moreover have "we_OccurredAt (?f n) = wf_UpdatedAt w"
    using sem by (simp add: ValidatePR17WorkflowStateSemantics_def)
  moreover have "wf_State w = phase_name p"
    using event_run_phase [OF run] last fin by simp
  moreover have "mset ?ordered = mset ?es"
    using en(1) by (simp add: byRev rev_map [symmetric] comp_def del: upt_Suc)
  ultimately show thesis
    using that [OF run] last lid by (simp add: n_def [symmetric] del: upt_Suc)
qed

end
