(* ===== verification/Coordinator.thy ===== *)
theory Coordinator
  imports CoordState EventLog
begin

text \<open>
  The coordinator's commands (\<^verbatim>\<open>internal/recovery/coordinator\<close>): loading and committing a case,
  creating and adopting one, committing an analysis or a plan, failing and cancelling it, and
  committing an advisory consultation. A command is a function of the world \<open>'w\<close> of its
  dependencies (the case store, the clock, the source of identifiers, the importer of legacy
  reports), which \<open>deps\<close> supplies; it returns its result and the world it leaves.
\<close>

section \<open>Effects\<close>

type_synonym ('w, 'a) act = "'w \<Rightarrow> 'a result \<times> 'w"

definition ret :: "'a \<Rightarrow> ('w, 'a) act" where
  "ret x w = (Inr x, w)"

definition fail_with :: "go_error \<Rightarrow> ('w, 'a) act" where
  "fail_with e w = (Inl e, w)"

definition andThen :: "('w, 'a) act \<Rightarrow> ('a \<Rightarrow> ('w, 'b) act) \<Rightarrow> ('w, 'b) act" where
  "andThen m f w = (case m w of (Inl e, w') \<Rightarrow> (Inl e, w') | (Inr x, w') \<Rightarrow> f x w')"

definition check_act :: "go_err \<Rightarrow> ('w, unit) act" where
  "check_act e = (case e of None \<Rightarrow> ret () | Some x \<Rightarrow> fail_with x)"

definition lift_result :: "'a result \<Rightarrow> ('w, 'a) act" where
  "lift_result r = (case r of Inl e \<Rightarrow> fail_with e | Inr x \<Rightarrow> ret x)"

definition read_act :: "('w \<Rightarrow> 'a \<times> 'w) \<Rightarrow> ('w, 'a) act" where
  "read_act f w = (case f w of (x, w') \<Rightarrow> (Inr x, w'))"

text \<open>An error of \<open>m\<close> replaced on its way out (\<^verbatim>\<open>if err != nil { return f(err) }\<close>).\<close>

definition on_error :: "('w, 'a) act \<Rightarrow> (go_error \<Rightarrow> ('w, 'a) act) \<Rightarrow> ('w, 'a) act" where
  "on_error m h w = (case m w of (Inl e, w') \<Rightarrow> h e w' | (Inr x, w') \<Rightarrow> (Inr x, w'))"

lemma ret_simp [simp]: "ret x w = (Inr x, w)" by (simp add: ret_def)
lemma fail_with_simp [simp]: "fail_with e w = (Inl e, w)" by (simp add: fail_with_def)

lemma andThen_Inr: "andThen m f w = (Inr y, w') \<longleftrightarrow> (\<exists>x v. m w = (Inr x, v) \<and> f x v = (Inr y, w'))"
  by (auto simp: andThen_def split: prod.splits sum.splits)

lemma check_act_Inr [simp]: "check_act e w = (Inr u, w') \<longleftrightarrow> e = None \<and> w' = w"
  by (auto simp: check_act_def split: option.splits)

lemma lift_result_Inr [simp]: "lift_result r w = (Inr x, w') \<longleftrightarrow> r = Inr x \<and> w' = w"
  by (auto simp: lift_result_def split: sum.splits)

lemma read_act_Inr [simp]: "read_act f w = (Inr x, w') \<longleftrightarrow> f w = (x, w')"
  by (auto simp: read_act_def split: prod.splits)

lemma on_error_Inr:
  assumes "on_error m h w = (Inr x, w')"
  obtains "m w = (Inr x, w')" | e v where "m w = (Inl e, v)" "h e v = (Inr x, w')"
  using assms by (auto simp: on_error_def split: prod.splits sum.splits)

section \<open>Dependencies\<close>

record CommitInfo =
  ci_CaseID :: string
  ci_SnapshotID :: string
  ci_CommitID :: string
  ci_Sequence :: "64 word"
  ci_ParentCommitID :: string
  ci_CommittedAt :: string
  ci_Idempotent :: bool
  ci_DurabilityWarnings :: "string slice"

definition CommitReasonLegacyImport :: string where "CommitReasonLegacyImport = ''legacy_import''"
definition CommitReasonCaseSnapshot :: string where "CommitReasonCaseSnapshot = ''case_snapshot''"
definition IntegrityCorrupt :: string where "IntegrityCorrupt = ''corrupt''"

text \<open>The artifact provider is what opens the bytes of an artifact.\<close>

type_synonym ArtifactProvider = "(ArtifactRef \<Rightarrow> string result) option"

record CommitRequest =
  cq_Snapshot :: Snapshot
  cq_ArtifactProvider :: ArtifactProvider
  cq_Reason :: string
  cq_ParentExpectation :: ParentExpectation

record ImportResult =
  ir_Case :: CaseManifest
  ir_Targets :: "Target list"
  ir_EvidenceBundles :: "EvidenceBundle list"

definition SnapshotFromImporterResult :: "ImportResult \<Rightarrow> Snapshot" where
  "SnapshotFromImporterResult r =
     \<lparr>snap_Case = ir_Case r, snap_Targets = ir_Targets r, snap_EvidenceBundles = ir_EvidenceBundles r,
      snap_Findings = [], snap_RepairPlans = [], snap_ExecutionEvents = [],
      snap_VerificationReports = [], snap_WorkflowState = None, snap_CoordinatorEvents = [],
      snap_EvidenceAcquisitions = [], snap_AgentConsultations = []\<rparr>"

text \<open>
  The interfaces \<^verbatim>\<open>Store\<close>, \<^verbatim>\<open>LegacyImporter\<close>, \<^verbatim>\<open>Clock\<close> and \<^verbatim>\<open>IDSource\<close>. \<open>d_Verify\<close> returns the status
  of the integrity report, \<open>d_CtxErr\<close> is \<^verbatim>\<open>ctx.Err()\<close>, \<open>d_win\<close> the build.
\<close>

record 'w deps =
  d_Commit :: "CommitRequest \<Rightarrow> ('w, CommitInfo) act"
  d_LoadLatest :: "string \<Rightarrow> ('w, Snapshot \<times> CommitInfo) act"
  d_Verify :: "string \<Rightarrow> ('w, string) act"
  d_ImportJSON :: "string \<Rightarrow> ArtifactRef option \<Rightarrow> ImportResult result"
  d_Now :: "'w \<Rightarrow> instant \<times> 'w"
  d_NewID :: "string \<Rightarrow> ('w, string) act"
  d_CtxErr :: "'w \<Rightarrow> go_err"
  d_win :: bool

record CaseView =
  cv_Snapshot :: Snapshot
  cv_CommitInfo :: CommitInfo
  cv_State :: string

definition viewFrom :: "Snapshot \<Rightarrow> CommitInfo \<Rightarrow> CaseView" where
  "viewFrom s info = \<lparr>cv_Snapshot = s, cv_CommitInfo = info, cv_State = currentState s\<rparr>"

section \<open>Loading and committing\<close>

definition corrupt :: "go_error \<Rightarrow> go_error" where
  "corrupt e = Errorf ''%w: %v'' [GWrap ErrCaseCorrupt, GVal e]"

definition integrity_or :: "go_error \<Rightarrow> go_error" where
  "integrity_or e = (if isIntegrityFailure e then corrupt e else e)"

text \<open>\<^verbatim>\<open>LoadLatest\<close> asked for the head only: the commit id, or empty when it cannot be loaded.\<close>

definition actual_head :: "'w deps \<Rightarrow> string \<Rightarrow> ('w, string) act" where
  "actual_head d caseID w =
     (case d_LoadLatest d caseID w of
        (Inl _, w') \<Rightarrow> (Inr [], w')
      | (Inr (_, info), w') \<Rightarrow> (Inr (ci_CommitID info), w'))"

definition mapStoreWriteError :: "'w deps \<Rightarrow> string \<Rightarrow> string \<Rightarrow> go_error \<Rightarrow> ('w, 'a) act" where
  "mapStoreWriteError d caseID expected e =
     (if errors_is ErrCaseExists e
      then andThen (actual_head d caseID) (\<lambda>actual. fail_with (CaseAlreadyExistsError caseID actual))
      else if errors_is ErrRevisionConflict e
      then andThen (actual_head d caseID) (\<lambda>actual. fail_with (RevisionConflictError caseID expected actual))
      else if errors_is ErrCaseLocked e
      then (let busy = fail_with (Errorf ''%w: %v'' [GWrap ErrCaseBusy, GVal e]) in
            if expected = [] then busy
            else (\<lambda>w. case d_LoadLatest d caseID w of
                    (Inr (_, info), w') \<Rightarrow>
                      if ci_CommitID info \<noteq> expected
                      then fail_with (RevisionConflictError caseID expected (ci_CommitID info)) w'
                      else busy w'
                  | (Inl _, w') \<Rightarrow> busy w'))
      else if isIntegrityFailure e then fail_with (corrupt e)
      else fail_with e)"

definition loadLatestVerified :: "'w deps \<Rightarrow> string \<Rightarrow> ('w, Snapshot \<times> CommitInfo) act" where
  "loadLatestVerified d caseID =
     andThen (check_act (err_if (caseID = []) (bad_argument ''case_id is required'' []))) (\<lambda>_.
     andThen (on_error (d_Verify d caseID) (\<lambda>e. fail_with (integrity_or e))) (\<lambda>status.
     andThen (check_act (err_if (status = IntegrityCorrupt)
       (Errorf ''%w: verify status corrupt for case %s'' [GWrap ErrCaseCorrupt, GStr caseID]))) (\<lambda>_.
     on_error (d_LoadLatest d caseID) (\<lambda>e. fail_with (integrity_or e)))))"

definition loadExpected :: "'w deps \<Rightarrow> string \<Rightarrow> string \<Rightarrow> ('w, Snapshot \<times> CommitInfo) act" where
  "loadExpected d caseID expected =
     andThen (check_act (err_if (expected = []) (bad_argument ''expected_commit_id is required'' []))) (\<lambda>_.
     andThen (loadLatestVerified d caseID) (\<lambda>(snap, info).
     andThen (check_act (err_if (ci_CommitID info \<noteq> expected)
       (RevisionConflictError caseID expected (ci_CommitID info)))) (\<lambda>_. ret (snap, info))))"

definition LoadCase :: "'w deps \<Rightarrow> string \<Rightarrow> ('w, CaseView) act" where
  "LoadCase d caseID =
     andThen (check_act (err_if (caseID = []) (bad_argument ''case_id is required'' []))) (\<lambda>_.
     andThen (on_error (d_Verify d caseID) (\<lambda>e. fail_with (integrity_or e))) (\<lambda>status.
     andThen (check_act (err_if (status = IntegrityCorrupt)
       (Errorf ''%w: verify status corrupt for case %s'' [GWrap ErrCaseCorrupt, GStr caseID]))) (\<lambda>_.
     andThen (on_error (d_LoadLatest d caseID) (\<lambda>e. fail_with (integrity_or e)))
       (\<lambda>(snap, info). ret (viewFrom snap info)))))"

definition commit_request :: "Snapshot \<Rightarrow> string \<Rightarrow> CommitRequest" where
  "commit_request snap parent =
     \<lparr>cq_Snapshot = snap, cq_ArtifactProvider = None, cq_Reason = CommitReasonCaseSnapshot,
      cq_ParentExpectation = ExpectParentCommit parent\<rparr>"

definition commitSnapshot :: "'w deps \<Rightarrow> Snapshot \<Rightarrow> string \<Rightarrow> ('w, CaseView) act" where
  "commitSnapshot d snap parent =
     andThen (on_error (d_Commit d (commit_request snap parent))
                (mapStoreWriteError d (cm_CaseID (snap_Case snap)) parent))
       (\<lambda>info. ret (viewFrom snap info))"

section \<open>One transition\<close>

text \<open>
  \<^verbatim>\<open>newAuditEvent\<close>: the identifier is allocated first, then the clock is read.
\<close>

definition newAuditEvent :: "'w deps \<Rightarrow> string \<Rightarrow> string \<Rightarrow> string \<Rightarrow> string \<Rightarrow> string \<Rightarrow> string \<Rightarrow> string slice \<Rightarrow>
    string \<Rightarrow> string \<Rightarrow> 64 word \<Rightarrow> ('w, CoordinatorEvent) act" where
  "newAuditEvent d caseID et actor prev nxt expected refs reason command revision =
     andThen (d_NewID d ''cevt'') (\<lambda>eventID.
     andThen (read_act (d_Now d)) (\<lambda>now.
       ret (audit_event eventID now caseID et actor prev nxt expected refs reason command revision)))"

text \<open>\<^verbatim>\<open>setWorkflow\<close> with the clock it reads, its error wrapped by the commands.\<close>

definition set_workflow_act :: "'w deps \<Rightarrow> string \<Rightarrow> string \<Rightarrow> 64 word \<Rightarrow> WorkflowFailure option \<Rightarrow> string \<Rightarrow>
    Snapshot \<Rightarrow> ('w, Snapshot) act" where
  "set_workflow_act d state eventID revision failure plan snap =
     (case CaseStateForWorkflow state of
        Inl e \<Rightarrow> fail_with (bad_value e)
      | Inr _ \<Rightarrow> andThen (read_act (d_Now d)) (\<lambda>now.
          on_error (lift_result (setWorkflow now state eventID revision failure plan snap))
            (\<lambda>e. fail_with (bad_value e))))"

definition validated :: "'w deps \<Rightarrow> Snapshot \<Rightarrow> ('w, unit) act" where
  "validated d snap = check_act (wrap_err bad_value (Snapshot_Validate (d_win d) snap))"

text \<open>
  The tail every command on a loaded case ends with: the audit event is appended, the workflow set,
  the event stamped with its references and the new time, the snapshot validated and committed.
\<close>

definition run_transition :: "'w deps \<Rightarrow> string \<Rightarrow> string \<Rightarrow> string \<Rightarrow> string \<Rightarrow> string \<Rightarrow> CommitInfo \<Rightarrow> string \<Rightarrow> string \<Rightarrow>
    64 word \<Rightarrow> WorkflowFailure option \<Rightarrow> string \<Rightarrow> (Snapshot \<Rightarrow> string list) \<Rightarrow> Snapshot \<Rightarrow> ('w, CaseView) act" where
  "run_transition d caseID et actor from to info reason command revision failure plan refs snap =
     andThen (newAuditEvent d caseID et actor from to (ci_CommitID info) None reason command revision) (\<lambda>event.
     andThen (set_workflow_act d to (we_EventID event) revision failure plan (appendEvent event snap)) (\<lambda>snap2.
     (let snap3 = stampAuditEvent (we_EventID event) (refs snap2) (cm_UpdatedAt (snap_Case snap2)) snap2 in
     andThen (validated d snap3) (\<lambda>_. commitSnapshot d snap3 (ci_CommitID info)))))"

definition activePlan :: "Snapshot \<Rightarrow> string" where
  "activePlan s = (case snap_WorkflowState s of None \<Rightarrow> [] | Some w \<Rightarrow> wf_ActivePlanID w)"

definition transition_check :: "string \<Rightarrow> string \<Rightarrow> string \<Rightarrow> string \<Rightarrow> nat \<Rightarrow> nat \<Rightarrow> ('w, unit) act" where
  "transition_check caseID from to actor findings plans =
     check_act (wrap_err (set_case_id caseID) (validateTransition from to actor findings plans))"

section \<open>Commands\<close>

record CommitAnalysisRequest =
  ar_CaseID :: string
  ar_ExpectedCommitID :: string
  ar_Findings :: "Finding list"
  ar_Actor :: string
  ar_ReasonCode :: string
  ar_CommandID :: string

definition fill_case :: "string \<Rightarrow> Finding \<Rightarrow> Finding" where
  "fill_case caseID f = (if fnd_CaseID f = [] then f\<lparr>fnd_CaseID := caseID\<rparr> else f)"

definition CommitAnalysis_cmd :: "'w deps \<Rightarrow> CommitAnalysisRequest \<Rightarrow> ('w, CaseView) act" where
  "CommitAnalysis_cmd d req =
     (let actor = defaultActor (ar_Actor req) ActorDeterministicAnalyzer;
          reason = defaultReason (ar_ReasonCode req) ''analysis_committed'' in
     andThen (loadExpected d (ar_CaseID req) (ar_ExpectedCommitID req)) (\<lambda>(snap, info).
     (let from = currentState snap; to = WorkflowAnalyzed in
     andThen (transition_check (ar_CaseID req) from to actor (length (ar_Findings req))
                (length (snap_RepairPlans snap))) (\<lambda>_.
     (let filled = map (fill_case (ar_CaseID req)) (ar_Findings req) in
     andThen (lift_result (mergeFindingsAppendOnly (snap_Findings snap) filled)) (\<lambda>merged.
     run_transition d (ar_CaseID req) EventAnalysisCommitted actor from to info reason (ar_CommandID req)
       (nextRevision snap) None (activePlan snap) (\<lambda>_. analysisRefs (ar_CaseID req) filled)
       (snap\<lparr>snap_Findings := merged\<rparr>)))))))"

record CommitPlanRequest =
  pr_CaseID :: string
  pr_ExpectedCommitID :: string
  pr_Plan :: RepairPlan
  pr_Actor :: string
  pr_ReasonCode :: string
  pr_CommandID :: string

definition validatePlanForPR17 :: "RepairPlan \<Rightarrow> string \<Rightarrow> go_err" where
  "validatePlanForPR17 plan caseID = first_err
     [err_if (pln_CaseID plan \<noteq> [] \<and> pln_CaseID plan \<noteq> caseID) (bad_argument ''plan.case_id mismatch'' []),
      err_if (pln_Status plan \<noteq> ''draft'')
        (bad_argument ''PR #17 CommitPlan allows only status=draft (got %q)'' [GStr (pln_Status plan)]),
      err_if (elems (pln_FindingRefs plan) = []) (bad_argument ''plan requires at least one finding_ref'' []),
      err_if (elems (pln_Steps plan) = []) (bad_argument ''plan requires at least one step'' [])]"

definition CommitPlan_cmd :: "'w deps \<Rightarrow> CommitPlanRequest \<Rightarrow> ('w, CaseView) act" where
  "CommitPlan_cmd d req =
     (let actor = defaultActor (pr_Actor req) ActorSystem;
          reason = defaultReason (pr_ReasonCode req) ''plan_committed'' in
     andThen (loadExpected d (pr_CaseID req) (pr_ExpectedCommitID req)) (\<lambda>(snap, info).
     (let from = currentState snap; to = WorkflowPlanProposed; p = pr_Plan req;
          plan = (if pln_CaseID p = [] then p\<lparr>pln_CaseID := pr_CaseID req\<rparr> else p) in
     andThen (check_act (validatePlanForPR17 plan (pr_CaseID req))) (\<lambda>_.
     andThen (lift_result (mergePlansImmutable (snap_RepairPlans snap) plan)) (\<lambda>merged.
     andThen (transition_check (pr_CaseID req) from to actor (length (snap_Findings snap)) (length merged)) (\<lambda>_.
     run_transition d (pr_CaseID req) EventPlanCommitted actor from to info reason (pr_CommandID req)
       (nextRevision snap) None (pln_PlanID plan) (\<lambda>_. planRefs (pr_CaseID req) plan)
       (snap\<lparr>snap_RepairPlans := merged\<rparr>)))))))"

record FailCaseRequest =
  fr_CaseID :: string
  fr_ExpectedCommitID :: string
  fr_Actor :: string
  fr_ReasonCode :: string
  fr_DetailCode :: string
  fr_CommandID :: string

definition FailCase_cmd :: "'w deps \<Rightarrow> FailCaseRequest \<Rightarrow> ('w, CaseView) act" where
  "FailCase_cmd d req =
     (let actor = defaultActor (fr_Actor req) ActorTechnician;
          reason = defaultReason (fr_ReasonCode req) ''case_failed'' in
     andThen (loadExpected d (fr_CaseID req) (fr_ExpectedCommitID req)) (\<lambda>(snap, info).
     (let from = currentState snap; to = WorkflowFailed in
     andThen (transition_check (fr_CaseID req) from to actor (length (snap_Findings snap))
                (length (snap_RepairPlans snap))) (\<lambda>_.
     run_transition d (fr_CaseID req) EventCaseFailed actor from to info reason (fr_CommandID req)
       (nextRevision snap) (Some \<lparr>wfl_ReasonCode = reason, wfl_DetailCode = fr_DetailCode req\<rparr>)
       (activePlan snap) terminalRefs snap))))"

record CancelCaseRequest =
  xr_CaseID :: string
  xr_ExpectedCommitID :: string
  xr_Actor :: string
  xr_ReasonCode :: string
  xr_CommandID :: string

definition CancelCase_cmd :: "'w deps \<Rightarrow> CancelCaseRequest \<Rightarrow> ('w, CaseView) act" where
  "CancelCase_cmd d req =
     (let actor = defaultActor (xr_Actor req) ActorTechnician;
          reason = defaultReason (xr_ReasonCode req) ''case_cancelled'' in
     andThen (loadExpected d (xr_CaseID req) (xr_ExpectedCommitID req)) (\<lambda>(snap, info).
     (let from = currentState snap; to = WorkflowCancelled in
     andThen (transition_check (xr_CaseID req) from to actor (length (snap_Findings snap))
                (length (snap_RepairPlans snap))) (\<lambda>_.
     run_transition d (xr_CaseID req) EventCaseCancelled actor from to info reason (xr_CommandID req)
       (nextRevision snap) None (activePlan snap) terminalRefs snap))))"

record AdoptLegacyCaseRequest =
  lr_CaseID :: string
  lr_ExpectedCommitID :: string
  lr_Actor :: string
  lr_ReasonCode :: string
  lr_CommandID :: string

definition rejected :: "string \<Rightarrow> go_error" where
  "rejected msg = Errorf (''%w: '' @ msg) [GWrap ErrLegacyAdoptionRejected]"

definition adoption_checks :: "Snapshot \<Rightarrow> go_err" where
  "adoption_checks s = first_err
     [err_if (snap_WorkflowState s \<noteq> None) (rejected ''workflow state already present''),
      err_if (snap_CoordinatorEvents s \<noteq> []) (rejected ''legacy snapshot contains coordinator events''),
      err_if (snap_Findings s \<noteq> [] \<or> snap_RepairPlans s \<noteq> [] \<or> snap_ExecutionEvents s \<noteq> [] \<or>
              snap_VerificationReports s \<noteq> [])
        (rejected ''legacy snapshot contains later lifecycle documents''),
      err_if (snap_Targets s = [] \<or> snap_EvidenceBundles s = [])
        (rejected ''legacy snapshot missing targets or evidence''),
      err_if (cm_CurrentState (snap_Case s) \<noteq> CaseStateSnapshotted)
        (rejected ''legacy snapshot current_state must be SNAPSHOTTED'')]"

definition AdoptLegacyCase_cmd :: "'w deps \<Rightarrow> AdoptLegacyCaseRequest \<Rightarrow> ('w, CaseView) act" where
  "AdoptLegacyCase_cmd d req =
     (let actor = defaultActor (lr_Actor req) ActorSystem;
          reason = defaultReason (lr_ReasonCode req) ''legacy_case_adopted'' in
     andThen (loadExpected d (lr_CaseID req) (lr_ExpectedCommitID req)) (\<lambda>(snap, info).
     andThen (check_act (adoption_checks snap)) (\<lambda>_.
     run_transition d (lr_CaseID req) EventLegacyCaseAdopted actor [] WorkflowEvidenceCollected info reason
       (lr_CommandID req) 1 None [] createOrAdoptRefs snap)))"

record CreateCaseRequest =
  kr_DiagnosticReport :: string
  kr_SourceArtifact :: "ArtifactRef option"
  kr_ArtifactProvider :: ArtifactProvider
  kr_CommandID :: string
  kr_Actor :: string
  kr_ReasonCode :: string

definition CreateCase_cmd :: "'w deps \<Rightarrow> CreateCaseRequest \<Rightarrow> ('w, CaseView) act" where
  "CreateCase_cmd d req =
     andThen (check_act (err_if (kr_DiagnosticReport req = []) (bad_argument ''diagnostic report is required'' []))) (\<lambda>_.
     (let actor = defaultActor (kr_Actor req) ActorSystem;
          reason = defaultReason (kr_ReasonCode req) ''legacy_import_committed'' in
     andThen (on_error (lift_result (d_ImportJSON d (kr_DiagnosticReport req) (kr_SourceArtifact req)))
                (\<lambda>e. fail_with (bad_argument ''import: %v'' [GVal e]))) (\<lambda>result.
     (let snap = SnapshotFromImporterResult result; caseID = cm_CaseID (snap_Case snap) in
     andThen (check_act (validateTransition WorkflowCreated WorkflowEvidenceCollected actor 0 0)) (\<lambda>_.
     andThen (newAuditEvent d caseID EventCaseCreated actor WorkflowCreated WorkflowEvidenceCollected [] None
                reason (kr_CommandID req) 1) (\<lambda>event.
     andThen (set_workflow_act d WorkflowEvidenceCollected (we_EventID event) 1 None [] (appendEvent event snap)) (\<lambda>snap2.
     (let snap3 = stampAuditEvent (we_EventID event) (createOrAdoptRefs snap2) (cm_UpdatedAt (snap_Case snap2)) snap2 in
     andThen (validated d snap3) (\<lambda>_.
     andThen (on_error (d_Commit d
         \<lparr>cq_Snapshot = snap3, cq_ArtifactProvider = kr_ArtifactProvider req, cq_Reason = CommitReasonLegacyImport,
          cq_ParentExpectation = ExpectAbsentParent\<rparr>) (mapStoreWriteError d caseID []))
       (\<lambda>info. ret (viewFrom snap3 info)))))))))))"

end
