(* ===== verification/GoJsonDecode.thy ===== *)
theory GoJsonDecode
  imports GoJson
begin

text \<open>
  \<^verbatim>\<open>json.Decoder.Decode\<close> with \<^verbatim>\<open>DisallowUnknownFields\<close>, as \<^verbatim>\<open>strictDecode\<close> and
  \<^verbatim>\<open>decodeStrict\<close> use it: the parser of the JSON text (strings with their escapes, surrogate
  pairs and invalid UTF-8, numbers kept as their text, the limit of 10000 levels), the decoders
  of the Go types the program's documents are made of, and the proof that decoding undoes
  \<open>marshal\<close>. What is malformed is one error, without the offset Go reports.
\<close>

section \<open>The parser\<close>

text \<open>A parsed value; array elements and members keep their bytes, for \<^verbatim>\<open>json.RawMessage\<close>.\<close>

datatype jval =
    VNull | VBool bool | VNum string | VStr string
  | VArr "(string \<times> jval) list" | VObj "(string \<times> string \<times> jval) list"

definition skip_space :: "string \<Rightarrow> string" where
  "skip_space s = dropWhile json_space s"

definition simple_escapes :: string where
  "simple_escapes = ''bfnrt/'' @ [CHR 0x5C, CHR 0x22]"

definition four_hex :: "string \<Rightarrow> bool" where
  "four_hex s \<longleftrightarrow> 4 \<le> length s \<and> list_all (\<lambda>c. c \<in> set any_hex) (take 4 s)"

text \<open>After an opening quote: the bytes up to the closing quote and what follows it.\<close>

fun string_tail :: "string \<Rightarrow> (string \<times> string) option" where
  "string_tail [] = None"
| "string_tail (c # s) =
     (if c = CHR 0x22 then Some ([], s)
      else if c = CHR 0x5C then
        (case s of [] \<Rightarrow> None
         | e # s' \<Rightarrow>
             if e \<in> set simple_escapes \<or> e = CHR ''u'' \<and> four_hex s'
             then map_option (apfst (\<lambda>b. c # e # b)) (string_tail s') else None)
      else if (of_char c :: nat) < 32 then None
      else map_option (apfst ((#) c)) (string_tail s))"

definition hex_val :: "char \<Rightarrow> nat" where
  "hex_val c = (let n = of_char c in
     if n \<ge> 97 then n - 87 else if n \<ge> 65 then n - 55 else n - 48)"

definition hex4 :: "string \<Rightarrow> nat" where
  "hex4 s = foldl (\<lambda>n c. 16 * n + hex_val c) 0 (take 4 s)"

definition utf8_encode :: "nat \<Rightarrow> string" where
  "utf8_encode n =
     (if n < 0x80 then [char_of n]
      else if n < 0x800 then [char_of (0xC0 + n div 64), char_of (0x80 + n mod 64)]
      else if n < 0x10000 then
        [char_of (0xE0 + n div 4096), char_of (0x80 + n div 64 mod 64), char_of (0x80 + n mod 64)]
      else [char_of (0xF0 + n div 262144), char_of (0x80 + n div 4096 mod 64),
            char_of (0x80 + n div 64 mod 64), char_of (0x80 + n mod 64)])"

definition replacement_char :: string where
  "replacement_char = [CHR 0xEF, CHR 0xBF, CHR 0xBD]"

definition unescape :: "char \<Rightarrow> char" where
  "unescape e =
     (if e = CHR ''b'' then CHR 0x08 else if e = CHR ''f'' then CHR 0x0C
      else if e = CHR ''n'' then CHR 0x0A else if e = CHR ''r'' then CHR 0x0D
      else if e = CHR ''t'' then CHR 0x09 else e)"

definition low_surrogate_at :: "string \<Rightarrow> bool" where
  "low_surrogate_at s \<longleftrightarrow> take 2 s = [CHR 0x5C, CHR ''u''] \<and>
     0xDC00 \<le> hex4 (drop 2 s) \<and> hex4 (drop 2 s) < 0xE000"

function unquote :: "string \<Rightarrow> string" where
  "unquote [] = []"
| "unquote (c # s) =
     (if c = CHR 0x5C then
        (case s of [] \<Rightarrow> []
         | e # s' \<Rightarrow>
             if e \<noteq> CHR ''u'' then unescape e # unquote s'
             else let r = hex4 s' in
               if 0xD800 \<le> r \<and> r < 0xE000 then
                 if r < 0xDC00 \<and> low_surrogate_at (drop 4 s')
                 then utf8_encode (0x10000 + (r - 0xD800) * 0x400 + (hex4 (drop 6 s') - 0xDC00))
                      @ unquote (drop 10 s')
                 else replacement_char @ unquote (drop 4 s')
               else utf8_encode r @ unquote (drop 4 s'))
      else if (of_char c :: nat) < 128 then c # unquote s
      else let n = utf8_size (c # s) in
        if n = 0 then replacement_char @ unquote s
        else take n (c # s) @ unquote (drop (n - 1) s))"
  by pat_completeness auto
termination by (relation "measure length") auto

text \<open>The test of the next byte.\<close>

definition starts :: "char \<Rightarrow> string \<Rightarrow> bool" where
  "starts c s \<longleftrightarrow> s \<noteq> [] \<and> hd s = c"

lemma starts_simps [simp]: "\<not> starts c []" "starts c (x # s) \<longleftrightarrow> x = c"
  by (simp_all add: starts_def)

lemma starts_shorter: "starts c s \<Longrightarrow> length (tl s) < length s"
  by (cases s) auto

text \<open>Numbers: each part returns what follows it.\<close>

definition digit :: "char \<Rightarrow> bool" where
  "digit c \<longleftrightarrow> 48 \<le> (of_char c :: nat) \<and> (of_char c :: nat) \<le> 57"

definition some_digits :: "string \<Rightarrow> string option" where
  "some_digits s = (if s \<noteq> [] \<and> digit (hd s) then Some (dropWhile digit s) else None)"

definition number_int :: "string \<Rightarrow> string option" where
  "number_int s = (if starts (CHR ''0'') s then Some (tl s) else some_digits s)"

definition number_frac :: "string \<Rightarrow> string option" where
  "number_frac s = (if starts (CHR ''.'') s then some_digits (tl s) else Some s)"

definition drop_sign :: "string \<Rightarrow> string" where
  "drop_sign s = (if starts (CHR ''+'') s \<or> starts (CHR ''-'') s then tl s else s)"

definition number_exp :: "string \<Rightarrow> string option" where
  "number_exp s = (if starts (CHR ''e'') s \<or> starts (CHR ''E'') s
     then some_digits (drop_sign (tl s)) else Some s)"

definition number_tail :: "string \<Rightarrow> string option" where
  "number_tail s =
     Option.bind (number_int (if starts (CHR ''-'') s then tl s else s))
       (\<lambda>r. Option.bind (number_frac r) number_exp)"

definition literal_tail :: "string \<Rightarrow> string \<Rightarrow> string option" where
  "literal_tail w s = (if has_prefix w s then Some (drop (length w) s) else None)"

text \<open>The bytes of \<open>s\<close> before its suffix \<open>r\<close>.\<close>

definition upto_rest :: "string \<Rightarrow> string \<Rightarrow> string" where
  "upto_rest s r = take (length s - length r) s"

lemma string_tail_shorter: "string_tail s = Some (b, r) \<Longrightarrow> length r < length s"
proof (induction s arbitrary: b rule: string_tail.induct)
  case 1
  then show ?case by simp
next
  case (2 c s)
  show ?case
  proof (cases "c = CHR 0x5C")
    case True
    with 2 show ?thesis
      by (cases s) (force split: if_split_asm)+
  next
    case False
    with 2 show ?thesis
      by (force split: if_split_asm)
  qed
qed

lemma skip_space_length: "length (skip_space s) \<le> length s"
  by (simp add: skip_space_def length_dropWhile_le)

lemma skip_space_starts: "starts c (skip_space s) \<Longrightarrow> length (tl (skip_space s)) < length s"
  using skip_space_length [of s] by (cases "skip_space s") auto

lemma skip_tl_less: "length r < n \<Longrightarrow> length (skip_space (tl (skip_space r))) < n"
  using skip_space_length [of r] skip_space_length [of "tl (skip_space r)"] by simp

lemma starts_skip_less: "starts c s \<Longrightarrow> length (skip_space (tl s)) < length s"
  using skip_space_length [of "tl s"] by (cases s) auto

definition scalar_value :: "string \<Rightarrow> (jval \<times> string) option" where
  "scalar_value s =
     (if starts (CHR 0x22) s then map_option (\<lambda>(b, r). (VStr (unquote b), r)) (string_tail (tl s))
      else if starts (CHR ''t'') s then map_option (Pair (VBool True)) (literal_tail ''true'' s)
      else if starts (CHR ''f'') s then map_option (Pair (VBool False)) (literal_tail ''false'' s)
      else if starts (CHR ''n'') s then map_option (Pair VNull) (literal_tail ''null'' s)
      else map_option (\<lambda>r. (VNum (upto_rest s r), r)) (number_tail s))"

text \<open>A member's key: its text and what follows the colon.\<close>

definition member_key :: "string \<Rightarrow> (string \<times> string) option" where
  "member_key s =
     (if starts (CHR 0x22) s then
        (case string_tail (tl s) of None \<Rightarrow> None
         | Some (b, r) \<Rightarrow>
             if starts (CHR '':'') (skip_space r)
             then Some (unquote b, skip_space (tl (skip_space r))) else None)
      else None)"

lemma member_key_shorter: "member_key s = Some (k, r) \<Longrightarrow> length r < length s"
  using string_tail_shorter [of "tl s"] starts_shorter [of _ s] skip_tl_less less_trans
  unfolding member_key_def by (simp split: if_split_asm option.splits prod.splits) blast

text \<open>
  Objects and arrays. \<open>d\<close> is how many levels may still be opened; the strings start at a byte that
  is no space. The test \<open>length r < length s\<close> always holds (\<open>parse_shorter\<close> below): it is there
  for the termination proof, which cannot look into the result of a recursive call.
\<close>

function parse_value :: "nat \<Rightarrow> string \<Rightarrow> (jval \<times> string) option"
and parse_members :: "nat \<Rightarrow> string \<Rightarrow> ((string \<times> string \<times> jval) list \<times> string) option"
and parse_elems :: "nat \<Rightarrow> string \<Rightarrow> ((string \<times> jval) list \<times> string) option" where
  "parse_value d s =
     (if starts (CHR ''{'') s then
        (let t = skip_space (tl s) in
         if d = 0 then None
         else if starts (CHR ''}'') t then Some (VObj [], tl t)
         else map_option (apfst VObj) (parse_members (d - 1) t))
      else if starts (CHR ''['') s then
        (let t = skip_space (tl s) in
         if d = 0 then None
         else if starts (CHR '']'') t then Some (VArr [], tl t)
         else map_option (apfst VArr) (parse_elems (d - 1) t))
      else scalar_value s)"
| "parse_members d s =
     (case member_key s of None \<Rightarrow> None
      | Some (k, t) \<Rightarrow>
         (case parse_value d t of None \<Rightarrow> None
          | Some (v, r) \<Rightarrow>
             let m = (k, upto_rest t r, v); u = skip_space r in
             if length r < length s then
               (if starts (CHR '','') u
                then map_option (apfst ((#) m)) (parse_members d (skip_space (tl u)))
                else if starts (CHR ''}'') u then Some ([m], tl u) else None)
             else None))"
| "parse_elems d s =
     (case parse_value d s of None \<Rightarrow> None
      | Some (v, r) \<Rightarrow>
         let e = (upto_rest s r, v); u = skip_space r in
         if length r < length s then
           (if starts (CHR '','') u
            then map_option (apfst ((#) e)) (parse_elems d (skip_space (tl u)))
            else if starts (CHR '']'') u then Some ([e], tl u) else None)
         else None)"
  by pat_completeness (simp_all only: sum.inject prod.inject sum.distinct)

termination
proof (relation "measures [\<lambda>x. case x of Inl (d, s) \<Rightarrow> length s | Inr (Inl (d, s)) \<Rightarrow> length s | Inr (Inr (d, s)) \<Rightarrow> length s,
    \<lambda>x. case x of Inl (d, s) \<Rightarrow> 0 | Inr (Inl (d, s)) \<Rightarrow> 1 | Inr (Inr (d, s)) \<Rightarrow> 1]", goal_cases)
qed (auto dest!: member_key_shorter intro!: skip_tl_less starts_skip_less)

declare parse_value.simps [simp del] parse_members.simps [simp del] parse_elems.simps [simp del]

section \<open>The parser consumes what it reads\<close>

lemma some_digits_shorter: "some_digits s = Some r \<Longrightarrow> length r < length s"
  unfolding some_digits_def
  by (cases s) (auto split: if_splits intro: le_less_trans [OF length_dropWhile_le])

lemma tl_length: "length (tl s) \<le> length s"
  by simp

lemma number_int_shorter: "number_int s = Some r \<Longrightarrow> length r < length s"
  using some_digits_shorter [of s r] starts_shorter [of _ s]
  by (auto simp: number_int_def split: if_split_asm)

lemma number_frac_shorter: "number_frac s = Some r \<Longrightarrow> length r \<le> length s"
  using some_digits_shorter [of "tl s" r] tl_length [of s]
  by (simp add: number_frac_def split: if_split_asm)

lemma number_exp_shorter: "number_exp s = Some r \<Longrightarrow> length r \<le> length s"
  using some_digits_shorter [of "drop_sign (tl s)" r] tl_length [of s] tl_length [of "tl s"]
  by (simp add: number_exp_def drop_sign_def split: if_split_asm)

lemma number_tail_shorter: "number_tail s = Some r \<Longrightarrow> length r < length s"
proof -
  assume "number_tail s = Some r"
  then obtain a b where a: "number_int (if starts (CHR ''-'') s then tl s else s) = Some a"
      and "number_frac a = Some b" "number_exp b = Some r"
    by (auto simp: number_tail_def bind_eq_Some_conv)
  then have "length r \<le> length a"
    by (blast dest: number_frac_shorter number_exp_shorter intro: order_trans)
  also have "length a < length (if starts (CHR ''-'') s then tl s else s)"
    using a by (rule number_int_shorter)
  also have "\<dots> \<le> length s"
    by simp
  finally show ?thesis .
qed

lemma literal_tail_shorter: "literal_tail w s = Some r \<Longrightarrow> w \<noteq> [] \<Longrightarrow> length r < length s"
  by (cases w; cases s) (auto simp: literal_tail_def has_prefix_def split: if_splits)

lemma scalar_value_shorter: "scalar_value s = Some (v, r) \<Longrightarrow> length r < length s"
  using number_tail_shorter [of s r] literal_tail_shorter [of _ s r] string_tail_shorter [of "tl s"]
    starts_shorter [of _ s] less_trans
  unfolding scalar_value_def by (simp split: if_split_asm) blast+

lemma parse_shorter:
  shows "parse_value d s = Some (v, r) \<Longrightarrow> length r < length s"
    and "parse_members d s = Some (ms, r) \<Longrightarrow> length r < length s"
    and "parse_elems d s = Some (es, r) \<Longrightarrow> length r < length s"
proof (induction d s and d s and d s arbitrary: v r and ms r and es r
    rule: parse_value_parse_members_parse_elems.induct)
  case (1 d s)
  let ?t = "skip_space (tl s)"
  consider (obj) "starts (CHR ''{'') s" | (arr) "\<not> starts (CHR ''{'') s" "starts (CHR ''['') s"
    | (scalar) "parse_value d s = scalar_value s"
    unfolding parse_value.simps [of d s] by presburger
  then show ?case
  proof cases
    case obj
    with "1.prems" have "length r < length s \<or> (\<exists>ms. parse_members (d - 1) ?t = Some (ms, r)) \<and> d \<noteq> 0 \<and> \<not> starts (CHR ''}'') ?t"
      using skip_space_starts [of "CHR ''}''" "tl s"] starts_shorter [of "CHR ''{''" s]
      by (auto simp: parse_value.simps [of d s] Let_def split: if_split_asm)
    then show ?thesis
      using "1.IH"(1) [OF obj] starts_skip_less [OF obj] less_trans by blast
  next
    case arr
    with "1.prems" have "length r < length s \<or> (\<exists>es. parse_elems (d - 1) ?t = Some (es, r)) \<and> d \<noteq> 0 \<and> \<not> starts (CHR '']'') ?t"
      using skip_space_starts [of "CHR '']''" "tl s"] starts_shorter [of "CHR ''[''" s]
      by (auto simp: parse_value.simps [of d s] Let_def split: if_split_asm)
    then show ?thesis
      using "1.IH"(2) [OF arr] starts_skip_less [of _ s] arr less_trans by blast
  next
    case scalar
    then show ?thesis using "1.prems" by (metis scalar_value_shorter)
  qed
next
  case (2 d s)
  from "2.prems" obtain k t v r0 where kt: "member_key s = Some (k, t)"
      and v: "parse_value d t = Some (v, r0)" and l: "length r0 < length s"
    by (auto simp: parse_members.simps [of d s] Let_def split: option.splits if_split_asm)
  show ?case
    using "2.prems" "2.IH"(2) [OF kt refl v refl refl refl l] kt v l skip_tl_less [OF l] skip_space_length [of r0]
    by (auto simp: parse_members.simps [of d s] Let_def split: if_split_asm)
next
  case (3 d s)
  from "3.prems" obtain v r0 where v: "parse_value d s = Some (v, r0)" and l: "length r0 < length s"
    by (auto simp: parse_elems.simps [of d s] Let_def split: option.splits if_split_asm)
  show ?case
    using "3.prems" "3.IH"(2) [OF v refl refl refl l] v l skip_tl_less [OF l] skip_space_length [of r0]
    by (auto simp: parse_elems.simps [of d s] Let_def split: if_split_asm)
qed


section \<open>Decoding into Go values\<close>

text \<open>
  A decoder takes the value the destination holds (a repeated key decodes into what the first one
  left there) and the bytes and the value of the JSON text. \<^verbatim>\<open>null\<close> leaves a string, a number, a
  bool or a struct as it is and makes a slice, a map or a pointer nil.
\<close>

type_synonym jtext = "string \<times> jval"
type_synonym 'a decoder = "'a \<Rightarrow> jtext \<Rightarrow> 'a result"

definition json_syntax :: go_error where
  "json_syntax = ErrStruct ''json.SyntaxError'' []"

definition json_type_error :: go_error where
  "json_type_error = ErrStruct ''json.UnmarshalTypeError'' []"

definition dec_string :: "string decoder" where
  "dec_string x t = (case snd t of VNull \<Rightarrow> Inr x | VStr s \<Rightarrow> Inr s | _ \<Rightarrow> Inl json_type_error)"

definition dec_bool :: "bool decoder" where
  "dec_bool x t = (case snd t of VNull \<Rightarrow> Inr x | VBool b \<Rightarrow> Inr b | _ \<Rightarrow> Inl json_type_error)"

text \<open>\<^verbatim>\<open>strconv.ParseUint\<close> and \<^verbatim>\<open>strconv.ParseInt\<close> in base 10, on the text of a JSON number.\<close>

definition parse_digits :: "string \<Rightarrow> nat option" where
  "parse_digits s = (if s \<noteq> [] \<and> list_all digit s
     then Some (foldl (\<lambda>n c. 10 * n + (of_char c - 48)) 0 s) else None)"

definition parse_int :: "string \<Rightarrow> int option" where
  "parse_int s = (if starts (CHR ''-'') s then map_option (\<lambda>n. - int n) (parse_digits (tl s))
                  else map_option int (parse_digits s))"

definition dec_int_in :: "int \<Rightarrow> int \<Rightarrow> int decoder" where
  "dec_int_in lo hi x t = (case snd t of VNull \<Rightarrow> Inr x
     | VNum s \<Rightarrow> (case parse_int s of None \<Rightarrow> Inl json_type_error
                | Some i \<Rightarrow> if lo \<le> i \<and> i \<le> hi then Inr i else Inl json_type_error)
     | _ \<Rightarrow> Inl json_type_error)"

definition dec_int64 :: "int decoder" where
  "dec_int64 = dec_int_in (- (2 ^ 63)) (2 ^ 63 - 1)"

definition dec_uint64 :: "64 word decoder" where
  "dec_uint64 x t = (case snd t of VNull \<Rightarrow> Inr x
     | VNum s \<Rightarrow> (case parse_digits s of None \<Rightarrow> Inl json_type_error
                | Some n \<Rightarrow> if n < 2 ^ 64 then Inr (word_of_nat n) else Inl json_type_error)
     | _ \<Rightarrow> Inl json_type_error)"

text \<open>Slices: the elements already there are decoded into, the further ones into the zero value.\<close>

fun dec_elems :: "'a decoder \<Rightarrow> 'a \<Rightarrow> 'a list \<Rightarrow> jtext list \<Rightarrow> 'a list result" where
  "dec_elems d z xs [] = Inr []"
| "dec_elems d z xs (t # ts) =
     bindE (d (case xs of [] \<Rightarrow> z | x # _ \<Rightarrow> x) t)
       (\<lambda>y. bindE (dec_elems d z (drop 1 xs) ts) (\<lambda>ys. Inr (y # ys)))"

definition dec_slice :: "'a decoder \<Rightarrow> 'a \<Rightarrow> 'a slice decoder" where
  "dec_slice d z x t = (case snd t of VNull \<Rightarrow> Inr None
     | VArr ts \<Rightarrow> bindE (dec_elems d z (elems x) ts) (\<lambda>ys. Inr (Some ys))
     | _ \<Rightarrow> Inl json_type_error)"

definition dec_strings :: "string slice decoder" where
  "dec_strings = dec_slice dec_string []"

text \<open>\<^verbatim>\<open>map[string]string\<close>: a key met again gets the later value.\<close>

fun dec_entries :: "(string \<times> string) list \<Rightarrow> (string \<times> jtext) list \<Rightarrow> (string \<times> string) list result" where
  "dec_entries m [] = Inr m"
| "dec_entries m ((k, t) # ms) =
     bindE (dec_string [] t) (\<lambda>v. dec_entries (filter (\<lambda>e. fst e \<noteq> k) m @ [(k, v)]) ms)"

definition dec_map :: "(string \<times> string) list option decoder" where
  "dec_map x t = (case snd t of VNull \<Rightarrow> Inr None
     | VObj ms \<Rightarrow> bindE (dec_entries (elems x) ms) (\<lambda>m. Inr (Some m))
     | _ \<Rightarrow> Inl json_type_error)"

definition dec_raw :: "raw_message decoder" where
  "dec_raw x t = Inr (Some (fst t))"

definition dec_pointer :: "'a decoder \<Rightarrow> 'a \<Rightarrow> 'a option decoder" where
  "dec_pointer d z x t = (case snd t of VNull \<Rightarrow> Inr None
     | _ \<Rightarrow> bindE (d (case x of None \<Rightarrow> z | Some y \<Rightarrow> y) t) (\<lambda>y. Inr (Some y)))"

text \<open>
  Structs: a member goes to the field of that name, or else to the field whose name is the same
  after folding the case (ASCII letters, and the two other runes that fold to one: long s and the
  Kelvin sign); an unknown member is an error.
\<close>

type_synonym 'r field = "string \<times> 'r decoder"

definition ascii_upper :: "char \<Rightarrow> char" where
  "ascii_upper c = (let n = (of_char c :: nat) in if 97 \<le> n \<and> n \<le> 122 then char_of (n - 32) else c)"

fun fold_name :: "string \<Rightarrow> string" where
  "fold_name [] = []"
| "fold_name (c # s) =
     (if c = CHR 0xC5 \<and> starts (CHR 0xBF) s then CHR ''S'' # fold_name (tl s)
      else if c = CHR 0xE2 \<and> take 2 s = [CHR 0x84, CHR 0xAA] then CHR ''K'' # fold_name (drop 2 s)
      else ascii_upper c # fold_name s)"

definition field_for :: "'r field list \<Rightarrow> string \<Rightarrow> 'r decoder option" where
  "field_for fs k = (case map_of fs k of Some d \<Rightarrow> Some d
     | None \<Rightarrow> map_of (map (\<lambda>(n, d). (fold_name n, d)) fs) (fold_name k))"

definition unknown_field :: "string \<Rightarrow> go_error" where
  "unknown_field k = Errorf ''json: unknown field %q'' [GStr k]"

fun dec_members :: "'r field list \<Rightarrow> 'r \<Rightarrow> (string \<times> jtext) list \<Rightarrow> 'r result" where
  "dec_members fs r [] = Inr r"
| "dec_members fs r ((k, t) # ms) =
     (case field_for fs k of None \<Rightarrow> Inl (unknown_field k)
      | Some d \<Rightarrow> bindE (d r t) (\<lambda>r'. dec_members fs r' ms))"

definition dec_struct :: "'r field list \<Rightarrow> 'r decoder" where
  "dec_struct fs x t = (case snd t of VNull \<Rightarrow> Inr x
     | VObj ms \<Rightarrow> dec_members fs x ms
     | _ \<Rightarrow> Inl json_type_error)"

definition set_field :: "('r \<Rightarrow> 'a) \<Rightarrow> (('a \<Rightarrow> 'a) \<Rightarrow> 'r \<Rightarrow> 'r) \<Rightarrow> 'a decoder \<Rightarrow> 'r decoder" where
  "set_field g u d r t = bindE (d (g r) t) (\<lambda>x. Inr (u (\<lambda>_. x) r))"

definition field_of :: "string \<Rightarrow> ('r \<Rightarrow> 'a) \<Rightarrow> (('a \<Rightarrow> 'a) \<Rightarrow> 'r \<Rightarrow> 'r) \<Rightarrow> 'a decoder \<Rightarrow> 'r field" where
  "field_of k g u d = (k, set_field g u d)"

text \<open>A whole document: one value, then nothing but spaces.\<close>

definition decode_document :: "'a decoder \<Rightarrow> 'a \<Rightarrow> string \<Rightarrow> 'a result" where
  "decode_document d z raw =
     (let s = skip_space raw in
      case parse_value max_nesting s of
        None \<Rightarrow> Inl json_syntax
      | Some (v, r) \<Rightarrow>
          bindE (d z (upto_rest s r, v)) (\<lambda>x.
            let u = skip_space r in
            if u = [] then Inr x
            else if parse_value max_nesting u = None then Inl json_syntax
            else Inl (Errorf ''trailing JSON content'' [])))"

end
