(* ===== verification/DocCodec.thy ===== *)
theory DocCodec
  imports CaseSnapshot GoJsonDecode
begin

text \<open>
  The documents of a case as JSON: for each struct the fields \<^verbatim>\<open>json.Marshal\<close> writes (by the tags of
  the struct, in their order, with \<^verbatim>\<open>omitempty\<close>), its zero value and the fields the decoder
  knows. Some encoders stand with their documents (\<^theory_text>\<open>DomainDocs\<close>, \<^theory_text>\<open>DomainAdvisory\<close>), where the
  merges compare documents by their JSON. The on-disk records of the case store are here too.
\<close>

section \<open>Optional fields\<close>

definition json_pointer :: "('a \<Rightarrow> json) \<Rightarrow> 'a option \<Rightarrow> json" where
  "json_pointer f p = (case p of None \<Rightarrow> JNull | Some x \<Rightarrow> f x)"

definition omit_zero :: "string \<Rightarrow> int \<Rightarrow> (string \<times> json) list" where
  "omit_zero k i = (if i = 0 then [] else [(k, JInt i)])"

definition omit_nil :: "string \<Rightarrow> ('a \<Rightarrow> json) \<Rightarrow> 'a option \<Rightarrow> (string \<times> json) list" where
  "omit_nil k f p = (case p of None \<Rightarrow> [] | Some x \<Rightarrow> [(k, f x)])"

section \<open>The documents\<close>

definition zero_ArtifactRef :: ArtifactRef where
  "zero_ArtifactRef =
     \<lparr>art_ArtifactID = [], art_Kind = [], art_RelativePath = [], art_SHA256 = [],
      art_SizeBytes = 0, art_CreatedAt = [], art_MediaClassification = []\<rparr>"

definition ArtifactRef_fields :: "ArtifactRef field list" where
  "ArtifactRef_fields =
     [field_of ''artifact_id'' art_ArtifactID art_ArtifactID_update dec_string,
      field_of ''kind'' art_Kind art_Kind_update dec_string,
      field_of ''relative_path'' art_RelativePath art_RelativePath_update dec_string,
      field_of ''sha256'' art_SHA256 art_SHA256_update dec_string,
      field_of ''size_bytes'' art_SizeBytes art_SizeBytes_update dec_int64,
      field_of ''created_at'' art_CreatedAt art_CreatedAt_update dec_string,
      field_of ''media_classification'' art_MediaClassification art_MediaClassification_update dec_string]"

abbreviation dec_ArtifactRef :: "ArtifactRef decoder" where
  "dec_ArtifactRef \<equiv> dec_struct ArtifactRef_fields"

definition CaseManifest_json :: "CaseManifest \<Rightarrow> json" where
  "CaseManifest_json x = JObj
     ([(''schema_name'', JStr (cm_SchemaName x)),
         (''schema_version'', JStr (cm_SchemaVersion x)), (''case_id'', JStr (cm_CaseID x)),
         (''created_at'', JStr (cm_CreatedAt x)), (''updated_at'', JStr (cm_UpdatedAt x)),
         (''runtime'', JStr (cm_Runtime x)), (''current_state'', JStr (cm_CurrentState x)),
         (''target_ids'', json_strs (cm_TargetIDs x)),
         (''privacy_class'', JStr (cm_PrivacyClass x))]
      @ omit_empty ''technician_storage_reference'' (cm_TechnicianStorageReference x))"

definition zero_CaseManifest :: CaseManifest where
  "zero_CaseManifest =
     \<lparr>cm_SchemaName = [], cm_SchemaVersion = [], cm_CaseID = [], cm_CreatedAt = [],
      cm_UpdatedAt = [], cm_Runtime = [], cm_CurrentState = [], cm_TargetIDs = None,
      cm_PrivacyClass = [], cm_TechnicianStorageReference = []\<rparr>"

definition CaseManifest_fields :: "CaseManifest field list" where
  "CaseManifest_fields =
     [field_of ''schema_name'' cm_SchemaName cm_SchemaName_update dec_string,
      field_of ''schema_version'' cm_SchemaVersion cm_SchemaVersion_update dec_string,
      field_of ''case_id'' cm_CaseID cm_CaseID_update dec_string,
      field_of ''created_at'' cm_CreatedAt cm_CreatedAt_update dec_string,
      field_of ''updated_at'' cm_UpdatedAt cm_UpdatedAt_update dec_string,
      field_of ''runtime'' cm_Runtime cm_Runtime_update dec_string,
      field_of ''current_state'' cm_CurrentState cm_CurrentState_update dec_string,
      field_of ''target_ids'' cm_TargetIDs cm_TargetIDs_update dec_strings,
      field_of ''privacy_class'' cm_PrivacyClass cm_PrivacyClass_update dec_string,
      field_of ''technician_storage_reference'' cm_TechnicianStorageReference cm_TechnicianStorageReference_update dec_string]"

abbreviation dec_CaseManifest :: "CaseManifest decoder" where
  "dec_CaseManifest \<equiv> dec_struct CaseManifest_fields"

definition zero_Target :: Target where
  "zero_Target =
     \<lparr>tg_SchemaName = [], tg_SchemaVersion = [], tg_TargetID = [], tg_TargetType = [],
      tg_DiscoveredAt = [], tg_DisplayName = [], tg_StableIdentity = None,
      tg_RuntimeLocators = None, tg_Capabilities = None, tg_Limitations = None\<rparr>"

definition Target_fields :: "Target field list" where
  "Target_fields =
     [field_of ''schema_name'' tg_SchemaName tg_SchemaName_update dec_string,
      field_of ''schema_version'' tg_SchemaVersion tg_SchemaVersion_update dec_string,
      field_of ''target_id'' tg_TargetID tg_TargetID_update dec_string,
      field_of ''target_type'' tg_TargetType tg_TargetType_update dec_string,
      field_of ''discovered_at'' tg_DiscoveredAt tg_DiscoveredAt_update dec_string,
      field_of ''display_name'' tg_DisplayName tg_DisplayName_update dec_string,
      field_of ''stable_identity'' tg_StableIdentity tg_StableIdentity_update dec_map,
      field_of ''runtime_locators'' tg_RuntimeLocators tg_RuntimeLocators_update dec_map,
      field_of ''capabilities'' tg_Capabilities tg_Capabilities_update dec_strings,
      field_of ''limitations'' tg_Limitations tg_Limitations_update dec_strings]"

abbreviation dec_Target :: "Target decoder" where
  "dec_Target \<equiv> dec_struct Target_fields"

definition zero_EvidenceBundle :: EvidenceBundle where
  "zero_EvidenceBundle =
     \<lparr>ev_SchemaName = [], ev_SchemaVersion = [], ev_EvidenceID = [], ev_CaseID = [],
      ev_TargetID = [], ev_Collector = [], ev_CollectorVersion = [], ev_CapturedAt = [],
      ev_SourceStatus = [], ev_FactsSchema = [], ev_Facts = None, ev_Artifacts = None,
      ev_Limitations = None\<rparr>"

definition EvidenceBundle_fields :: "EvidenceBundle field list" where
  "EvidenceBundle_fields =
     [field_of ''schema_name'' ev_SchemaName ev_SchemaName_update dec_string,
      field_of ''schema_version'' ev_SchemaVersion ev_SchemaVersion_update dec_string,
      field_of ''evidence_id'' ev_EvidenceID ev_EvidenceID_update dec_string,
      field_of ''case_id'' ev_CaseID ev_CaseID_update dec_string,
      field_of ''target_id'' ev_TargetID ev_TargetID_update dec_string,
      field_of ''collector'' ev_Collector ev_Collector_update dec_string,
      field_of ''collector_version'' ev_CollectorVersion ev_CollectorVersion_update dec_string,
      field_of ''captured_at'' ev_CapturedAt ev_CapturedAt_update dec_string,
      field_of ''source_status'' ev_SourceStatus ev_SourceStatus_update dec_string,
      field_of ''facts_schema'' ev_FactsSchema ev_FactsSchema_update dec_string,
      field_of ''facts'' ev_Facts ev_Facts_update dec_raw,
      field_of ''artifacts'' ev_Artifacts ev_Artifacts_update (dec_slice dec_ArtifactRef zero_ArtifactRef),
      field_of ''limitations'' ev_Limitations ev_Limitations_update dec_strings]"

abbreviation dec_EvidenceBundle :: "EvidenceBundle decoder" where
  "dec_EvidenceBundle \<equiv> dec_struct EvidenceBundle_fields"

definition zero_Finding :: Finding where
  "zero_Finding =
     \<lparr>fnd_SchemaName = [], fnd_SchemaVersion = [], fnd_FindingID = [], fnd_CaseID = [],
      fnd_Severity = [], fnd_Confidence = [], fnd_Title = [], fnd_Rationale = [],
      fnd_EvidenceRefs = None, fnd_AffectedTargetIDs = None, fnd_RecommendedWorkflows = None,
      fnd_Limitations = None, fnd_InsufficientEvidence = False\<rparr>"

definition Finding_fields :: "Finding field list" where
  "Finding_fields =
     [field_of ''schema_name'' fnd_SchemaName fnd_SchemaName_update dec_string,
      field_of ''schema_version'' fnd_SchemaVersion fnd_SchemaVersion_update dec_string,
      field_of ''finding_id'' fnd_FindingID fnd_FindingID_update dec_string,
      field_of ''case_id'' fnd_CaseID fnd_CaseID_update dec_string,
      field_of ''severity'' fnd_Severity fnd_Severity_update dec_string,
      field_of ''confidence'' fnd_Confidence fnd_Confidence_update dec_string,
      field_of ''title'' fnd_Title fnd_Title_update dec_string,
      field_of ''rationale'' fnd_Rationale fnd_Rationale_update dec_string,
      field_of ''evidence_refs'' fnd_EvidenceRefs fnd_EvidenceRefs_update dec_strings,
      field_of ''affected_target_ids'' fnd_AffectedTargetIDs fnd_AffectedTargetIDs_update dec_strings,
      field_of ''recommended_workflows'' fnd_RecommendedWorkflows fnd_RecommendedWorkflows_update dec_strings,
      field_of ''limitations'' fnd_Limitations fnd_Limitations_update dec_strings,
      field_of ''insufficient_evidence'' fnd_InsufficientEvidence fnd_InsufficientEvidence_update dec_bool]"

abbreviation dec_Finding :: "Finding decoder" where
  "dec_Finding \<equiv> dec_struct Finding_fields"

definition zero_PlanStep :: PlanStep where
  "zero_PlanStep =
     \<lparr>stp_StepID = [], stp_OperationID = [], stp_OperationVersion = [], stp_TargetID = [],
      stp_DependsOn = None, stp_ApprovalRequired = False, stp_BackupRequired = False\<rparr>"

definition PlanStep_fields :: "PlanStep field list" where
  "PlanStep_fields =
     [field_of ''step_id'' stp_StepID stp_StepID_update dec_string,
      field_of ''operation_id'' stp_OperationID stp_OperationID_update dec_string,
      field_of ''operation_version'' stp_OperationVersion stp_OperationVersion_update dec_string,
      field_of ''target_id'' stp_TargetID stp_TargetID_update dec_string,
      field_of ''depends_on'' stp_DependsOn stp_DependsOn_update dec_strings,
      field_of ''approval_required'' stp_ApprovalRequired stp_ApprovalRequired_update dec_bool,
      field_of ''backup_required'' stp_BackupRequired stp_BackupRequired_update dec_bool]"

abbreviation dec_PlanStep :: "PlanStep decoder" where
  "dec_PlanStep \<equiv> dec_struct PlanStep_fields"

definition zero_RepairPlan :: RepairPlan where
  "zero_RepairPlan =
     \<lparr>pln_SchemaName = [], pln_SchemaVersion = [], pln_PlanID = [], pln_CaseID = [],
      pln_FindingRefs = None, pln_Steps = None, pln_RiskSummary = [],
      pln_BackupRequirements = None, pln_ApprovalRequirements = None, pln_Status = []\<rparr>"

definition RepairPlan_fields :: "RepairPlan field list" where
  "RepairPlan_fields =
     [field_of ''schema_name'' pln_SchemaName pln_SchemaName_update dec_string,
      field_of ''schema_version'' pln_SchemaVersion pln_SchemaVersion_update dec_string,
      field_of ''plan_id'' pln_PlanID pln_PlanID_update dec_string,
      field_of ''case_id'' pln_CaseID pln_CaseID_update dec_string,
      field_of ''finding_refs'' pln_FindingRefs pln_FindingRefs_update dec_strings,
      field_of ''steps'' pln_Steps pln_Steps_update (dec_slice dec_PlanStep zero_PlanStep),
      field_of ''risk_summary'' pln_RiskSummary pln_RiskSummary_update dec_string,
      field_of ''backup_requirements'' pln_BackupRequirements pln_BackupRequirements_update dec_strings,
      field_of ''approval_requirements'' pln_ApprovalRequirements pln_ApprovalRequirements_update dec_strings,
      field_of ''status'' pln_Status pln_Status_update dec_string]"

abbreviation dec_RepairPlan :: "RepairPlan decoder" where
  "dec_RepairPlan \<equiv> dec_struct RepairPlan_fields"

definition ExecutionEvent_json :: "ExecutionEvent \<Rightarrow> json" where
  "ExecutionEvent_json x = JObj
     ([(''schema_name'', JStr (ex_SchemaName x)),
         (''schema_version'', JStr (ex_SchemaVersion x)),
         (''execution_id'', JStr (ex_ExecutionID x)), (''case_id'', JStr (ex_CaseID x)),
         (''operation_id'', JStr (ex_OperationID x)),
         (''operation_version'', JStr (ex_OperationVersion x)),
         (''target_id'', JStr (ex_TargetID x)), (''started_at'', JStr (ex_StartedAt x)),
         (''completed_at'', json_pointer JStr (ex_CompletedAt x)),
         (''status'', JStr (ex_Status x)), (''exit_code'', json_pointer JInt (ex_ExitCode x))]
      @ omit_empty ''stdout_artifact'' (ex_StdoutArtifact x)
      @ omit_empty ''stderr_artifact'' (ex_StderrArtifact x)
      @ [(''changed_resources'', json_strs (ex_ChangedResources x))]
      @ omit_empty ''error'' (ex_Error x))"

definition zero_ExecutionEvent :: ExecutionEvent where
  "zero_ExecutionEvent =
     \<lparr>ex_SchemaName = [], ex_SchemaVersion = [], ex_ExecutionID = [], ex_CaseID = [],
      ex_OperationID = [], ex_OperationVersion = [], ex_TargetID = [], ex_StartedAt = [],
      ex_CompletedAt = None, ex_Status = [], ex_ExitCode = None, ex_StdoutArtifact = [],
      ex_StderrArtifact = [], ex_ChangedResources = None, ex_Error = []\<rparr>"

definition ExecutionEvent_fields :: "ExecutionEvent field list" where
  "ExecutionEvent_fields =
     [field_of ''schema_name'' ex_SchemaName ex_SchemaName_update dec_string,
      field_of ''schema_version'' ex_SchemaVersion ex_SchemaVersion_update dec_string,
      field_of ''execution_id'' ex_ExecutionID ex_ExecutionID_update dec_string,
      field_of ''case_id'' ex_CaseID ex_CaseID_update dec_string,
      field_of ''operation_id'' ex_OperationID ex_OperationID_update dec_string,
      field_of ''operation_version'' ex_OperationVersion ex_OperationVersion_update dec_string,
      field_of ''target_id'' ex_TargetID ex_TargetID_update dec_string,
      field_of ''started_at'' ex_StartedAt ex_StartedAt_update dec_string,
      field_of ''completed_at'' ex_CompletedAt ex_CompletedAt_update (dec_pointer dec_string []),
      field_of ''status'' ex_Status ex_Status_update dec_string,
      field_of ''exit_code'' ex_ExitCode ex_ExitCode_update (dec_pointer dec_int64 0),
      field_of ''stdout_artifact'' ex_StdoutArtifact ex_StdoutArtifact_update dec_string,
      field_of ''stderr_artifact'' ex_StderrArtifact ex_StderrArtifact_update dec_string,
      field_of ''changed_resources'' ex_ChangedResources ex_ChangedResources_update dec_strings,
      field_of ''error'' ex_Error ex_Error_update dec_string]"

abbreviation dec_ExecutionEvent :: "ExecutionEvent decoder" where
  "dec_ExecutionEvent \<equiv> dec_struct ExecutionEvent_fields"

definition ConditionCheck_json :: "ConditionCheck \<Rightarrow> json" where
  "ConditionCheck_json x = JObj
     ([(''name'', JStr (cc_Name x)), (''status'', JStr (cc_Status x))]
      @ omit_empty ''detail'' (cc_Detail x))"

definition zero_ConditionCheck :: ConditionCheck where
  "zero_ConditionCheck =
     \<lparr>cc_Name = [], cc_Status = [], cc_Detail = []\<rparr>"

definition ConditionCheck_fields :: "ConditionCheck field list" where
  "ConditionCheck_fields =
     [field_of ''name'' cc_Name cc_Name_update dec_string,
      field_of ''status'' cc_Status cc_Status_update dec_string,
      field_of ''detail'' cc_Detail cc_Detail_update dec_string]"

abbreviation dec_ConditionCheck :: "ConditionCheck decoder" where
  "dec_ConditionCheck \<equiv> dec_struct ConditionCheck_fields"

definition VerificationReport_json :: "VerificationReport \<Rightarrow> json" where
  "VerificationReport_json x = JObj
     [(''schema_name'', JStr (vr_SchemaName x)),
      (''schema_version'', JStr (vr_SchemaVersion x)),
      (''verification_id'', JStr (vr_VerificationID x)), (''case_id'', JStr (vr_CaseID x)),
      (''execution_id'', JStr (vr_ExecutionID x)), (''verifier'', JStr (vr_Verifier x)),
      (''verified_at'', JStr (vr_VerifiedAt x)),
      (''expected_conditions'', json_docs ConditionCheck_json (vr_ExpectedConditions x)),
      (''observed_conditions'', json_docs ConditionCheck_json (vr_ObservedConditions x)),
      (''status'', JStr (vr_Status x)), (''regressions'', json_strs (vr_Regressions x)),
      (''remaining_risks'', json_strs (vr_RemainingRisks x)),
      (''evidence_refs'', json_strs (vr_EvidenceRefs x))]"

definition zero_VerificationReport :: VerificationReport where
  "zero_VerificationReport =
     \<lparr>vr_SchemaName = [], vr_SchemaVersion = [], vr_VerificationID = [], vr_CaseID = [],
      vr_ExecutionID = [], vr_Verifier = [], vr_VerifiedAt = [],
      vr_ExpectedConditions = None, vr_ObservedConditions = None, vr_Status = [],
      vr_Regressions = None, vr_RemainingRisks = None, vr_EvidenceRefs = None\<rparr>"

definition VerificationReport_fields :: "VerificationReport field list" where
  "VerificationReport_fields =
     [field_of ''schema_name'' vr_SchemaName vr_SchemaName_update dec_string,
      field_of ''schema_version'' vr_SchemaVersion vr_SchemaVersion_update dec_string,
      field_of ''verification_id'' vr_VerificationID vr_VerificationID_update dec_string,
      field_of ''case_id'' vr_CaseID vr_CaseID_update dec_string,
      field_of ''execution_id'' vr_ExecutionID vr_ExecutionID_update dec_string,
      field_of ''verifier'' vr_Verifier vr_Verifier_update dec_string,
      field_of ''verified_at'' vr_VerifiedAt vr_VerifiedAt_update dec_string,
      field_of ''expected_conditions'' vr_ExpectedConditions vr_ExpectedConditions_update (dec_slice dec_ConditionCheck zero_ConditionCheck),
      field_of ''observed_conditions'' vr_ObservedConditions vr_ObservedConditions_update (dec_slice dec_ConditionCheck zero_ConditionCheck),
      field_of ''status'' vr_Status vr_Status_update dec_string,
      field_of ''regressions'' vr_Regressions vr_Regressions_update dec_strings,
      field_of ''remaining_risks'' vr_RemainingRisks vr_RemainingRisks_update dec_strings,
      field_of ''evidence_refs'' vr_EvidenceRefs vr_EvidenceRefs_update dec_strings]"

abbreviation dec_VerificationReport :: "VerificationReport decoder" where
  "dec_VerificationReport \<equiv> dec_struct VerificationReport_fields"

definition WorkflowFailure_json :: "WorkflowFailure \<Rightarrow> json" where
  "WorkflowFailure_json x = JObj
     ([(''reason_code'', JStr (wfl_ReasonCode x))]
      @ omit_empty ''detail_code'' (wfl_DetailCode x))"

definition zero_WorkflowFailure :: WorkflowFailure where
  "zero_WorkflowFailure =
     \<lparr>wfl_ReasonCode = [], wfl_DetailCode = []\<rparr>"

definition WorkflowFailure_fields :: "WorkflowFailure field list" where
  "WorkflowFailure_fields =
     [field_of ''reason_code'' wfl_ReasonCode wfl_ReasonCode_update dec_string,
      field_of ''detail_code'' wfl_DetailCode wfl_DetailCode_update dec_string]"

abbreviation dec_WorkflowFailure :: "WorkflowFailure decoder" where
  "dec_WorkflowFailure \<equiv> dec_struct WorkflowFailure_fields"

definition CaseWorkflowState_json :: "CaseWorkflowState \<Rightarrow> json" where
  "CaseWorkflowState_json x = JObj
     ([(''schema_name'', JStr (wf_SchemaName x)),
         (''schema_version'', JStr (wf_SchemaVersion x)), (''case_id'', JStr (wf_CaseID x)),
         (''state'', JStr (wf_State x)), (''revision'', JInt (uint (wf_Revision x))),
         (''updated_at'', JStr (wf_UpdatedAt x)),
         (''last_transition_id'', JStr (wf_LastTransitionID x))]
      @ omit_empty ''active_plan_id'' (wf_ActivePlanID x)
      @ omit_empty ''active_execution_id'' (wf_ActiveExecutionID x)
      @ omit_nil ''failure'' WorkflowFailure_json (wf_Failure x))"

definition zero_CaseWorkflowState :: CaseWorkflowState where
  "zero_CaseWorkflowState =
     \<lparr>wf_SchemaName = [], wf_SchemaVersion = [], wf_CaseID = [], wf_State = [],
      wf_Revision = 0, wf_UpdatedAt = [], wf_LastTransitionID = [], wf_ActivePlanID = [],
      wf_ActiveExecutionID = [], wf_Failure = None\<rparr>"

definition CaseWorkflowState_fields :: "CaseWorkflowState field list" where
  "CaseWorkflowState_fields =
     [field_of ''schema_name'' wf_SchemaName wf_SchemaName_update dec_string,
      field_of ''schema_version'' wf_SchemaVersion wf_SchemaVersion_update dec_string,
      field_of ''case_id'' wf_CaseID wf_CaseID_update dec_string,
      field_of ''state'' wf_State wf_State_update dec_string,
      field_of ''revision'' wf_Revision wf_Revision_update dec_uint64,
      field_of ''updated_at'' wf_UpdatedAt wf_UpdatedAt_update dec_string,
      field_of ''last_transition_id'' wf_LastTransitionID wf_LastTransitionID_update dec_string,
      field_of ''active_plan_id'' wf_ActivePlanID wf_ActivePlanID_update dec_string,
      field_of ''active_execution_id'' wf_ActiveExecutionID wf_ActiveExecutionID_update dec_string,
      field_of ''failure'' wf_Failure wf_Failure_update (dec_pointer dec_WorkflowFailure zero_WorkflowFailure)]"

abbreviation dec_CaseWorkflowState :: "CaseWorkflowState decoder" where
  "dec_CaseWorkflowState \<equiv> dec_struct CaseWorkflowState_fields"

definition CoordinatorEvent_json :: "CoordinatorEvent \<Rightarrow> json" where
  "CoordinatorEvent_json x = JObj
     ([(''schema_name'', JStr (we_SchemaName x)),
         (''schema_version'', JStr (we_SchemaVersion x)), (''event_id'', JStr (we_EventID x)),
         (''case_id'', JStr (we_CaseID x)), (''event_type'', JStr (we_EventType x)),
         (''actor_type'', JStr (we_ActorType x)), (''occurred_at'', JStr (we_OccurredAt x))]
      @ omit_empty ''previous_state'' (we_PreviousState x)
      @ omit_empty ''next_state'' (we_NextState x)
      @ omit_empty ''expected_commit_id'' (we_ExpectedCommitID x)
      @ omit_zero ''workflow_revision'' (uint (we_WorkflowRevision x))
      @ [(''referenced_document_ids'', json_strs (we_ReferencedDocumentIDs x)),
         (''reason_code'', JStr (we_ReasonCode x))]
      @ omit_empty ''command_id'' (we_CommandID x))"

definition zero_CoordinatorEvent :: CoordinatorEvent where
  "zero_CoordinatorEvent =
     \<lparr>we_SchemaName = [], we_SchemaVersion = [], we_EventID = [], we_CaseID = [],
      we_EventType = [], we_ActorType = [], we_OccurredAt = [], we_PreviousState = [],
      we_NextState = [], we_ExpectedCommitID = [], we_WorkflowRevision = 0,
      we_ReferencedDocumentIDs = None, we_ReasonCode = [], we_CommandID = []\<rparr>"

definition CoordinatorEvent_fields :: "CoordinatorEvent field list" where
  "CoordinatorEvent_fields =
     [field_of ''schema_name'' we_SchemaName we_SchemaName_update dec_string,
      field_of ''schema_version'' we_SchemaVersion we_SchemaVersion_update dec_string,
      field_of ''event_id'' we_EventID we_EventID_update dec_string,
      field_of ''case_id'' we_CaseID we_CaseID_update dec_string,
      field_of ''event_type'' we_EventType we_EventType_update dec_string,
      field_of ''actor_type'' we_ActorType we_ActorType_update dec_string,
      field_of ''occurred_at'' we_OccurredAt we_OccurredAt_update dec_string,
      field_of ''previous_state'' we_PreviousState we_PreviousState_update dec_string,
      field_of ''next_state'' we_NextState we_NextState_update dec_string,
      field_of ''expected_commit_id'' we_ExpectedCommitID we_ExpectedCommitID_update dec_string,
      field_of ''workflow_revision'' we_WorkflowRevision we_WorkflowRevision_update dec_uint64,
      field_of ''referenced_document_ids'' we_ReferencedDocumentIDs we_ReferencedDocumentIDs_update dec_strings,
      field_of ''reason_code'' we_ReasonCode we_ReasonCode_update dec_string,
      field_of ''command_id'' we_CommandID we_CommandID_update dec_string]"

abbreviation dec_CoordinatorEvent :: "CoordinatorEvent decoder" where
  "dec_CoordinatorEvent \<equiv> dec_struct CoordinatorEvent_fields"

definition EvidenceAcquisitionRecord_json :: "EvidenceAcquisitionRecord \<Rightarrow> json" where
  "EvidenceAcquisitionRecord_json x = JObj
     [(''schema_name'', JStr (acq_SchemaName x)),
      (''schema_version'', JStr (acq_SchemaVersion x)),
      (''acquisition_id'', JStr (acq_AcquisitionID x)), (''case_id'', JStr (acq_CaseID x)),
      (''request_id'', JStr (acq_RequestID x)),
      (''source_commit_id'', JStr (acq_SourceCommitID x)),
      (''producer_type'', JStr (acq_ProducerType x)),
      (''producer_id'', JStr (acq_ProducerID x)),
      (''producer_version'', JStr (acq_ProducerVersion x)),
      (''actor_type'', JStr (acq_ActorType x)), (''acquired_at'', JStr (acq_AcquiredAt x)),
      (''target_ids'', json_strs (acq_TargetIDs x)),
      (''input_evidence_ids'', json_strs (acq_InputEvidenceIDs x)),
      (''added_target_ids'', json_strs (acq_AddedTargetIDs x)),
      (''added_evidence_ids'', json_strs (acq_AddedEvidenceIDs x)),
      (''parameters_sha256'', JStr (acq_ParametersSHA256 x)),
      (''result_sha256'', JStr (acq_ResultSHA256 x)),
      (''limitations'', json_strs (acq_Limitations x))]"

definition zero_EvidenceAcquisitionRecord :: EvidenceAcquisitionRecord where
  "zero_EvidenceAcquisitionRecord =
     \<lparr>acq_SchemaName = [], acq_SchemaVersion = [], acq_AcquisitionID = [], acq_CaseID = [],
      acq_RequestID = [], acq_SourceCommitID = [], acq_ProducerType = [],
      acq_ProducerID = [], acq_ProducerVersion = [], acq_ActorType = [], acq_AcquiredAt = [],
      acq_TargetIDs = None, acq_InputEvidenceIDs = None, acq_AddedTargetIDs = None,
      acq_AddedEvidenceIDs = None, acq_ParametersSHA256 = [], acq_ResultSHA256 = [],
      acq_Limitations = None\<rparr>"

definition EvidenceAcquisitionRecord_fields :: "EvidenceAcquisitionRecord field list" where
  "EvidenceAcquisitionRecord_fields =
     [field_of ''schema_name'' acq_SchemaName acq_SchemaName_update dec_string,
      field_of ''schema_version'' acq_SchemaVersion acq_SchemaVersion_update dec_string,
      field_of ''acquisition_id'' acq_AcquisitionID acq_AcquisitionID_update dec_string,
      field_of ''case_id'' acq_CaseID acq_CaseID_update dec_string,
      field_of ''request_id'' acq_RequestID acq_RequestID_update dec_string,
      field_of ''source_commit_id'' acq_SourceCommitID acq_SourceCommitID_update dec_string,
      field_of ''producer_type'' acq_ProducerType acq_ProducerType_update dec_string,
      field_of ''producer_id'' acq_ProducerID acq_ProducerID_update dec_string,
      field_of ''producer_version'' acq_ProducerVersion acq_ProducerVersion_update dec_string,
      field_of ''actor_type'' acq_ActorType acq_ActorType_update dec_string,
      field_of ''acquired_at'' acq_AcquiredAt acq_AcquiredAt_update dec_string,
      field_of ''target_ids'' acq_TargetIDs acq_TargetIDs_update dec_strings,
      field_of ''input_evidence_ids'' acq_InputEvidenceIDs acq_InputEvidenceIDs_update dec_strings,
      field_of ''added_target_ids'' acq_AddedTargetIDs acq_AddedTargetIDs_update dec_strings,
      field_of ''added_evidence_ids'' acq_AddedEvidenceIDs acq_AddedEvidenceIDs_update dec_strings,
      field_of ''parameters_sha256'' acq_ParametersSHA256 acq_ParametersSHA256_update dec_string,
      field_of ''result_sha256'' acq_ResultSHA256 acq_ResultSHA256_update dec_string,
      field_of ''limitations'' acq_Limitations acq_Limitations_update dec_strings]"

abbreviation dec_EvidenceAcquisitionRecord :: "EvidenceAcquisitionRecord decoder" where
  "dec_EvidenceAcquisitionRecord \<equiv> dec_struct EvidenceAcquisitionRecord_fields"

definition zero_AdvisoryHypothesis :: AdvisoryHypothesis where
  "zero_AdvisoryHypothesis =
     \<lparr>hyp_HypothesisID = [], hyp_Code = [], hyp_Title = [], hyp_Rationale = [],
      hyp_Confidence = [], hyp_SupportingFindingRefs = None,
      hyp_SupportingEvidenceRefs = None, hyp_ContradictingEvidenceRefs = None,
      hyp_Limitations = None, hyp_Advisory = False\<rparr>"

definition AdvisoryHypothesis_fields :: "AdvisoryHypothesis field list" where
  "AdvisoryHypothesis_fields =
     [field_of ''hypothesis_id'' hyp_HypothesisID hyp_HypothesisID_update dec_string,
      field_of ''code'' hyp_Code hyp_Code_update dec_string,
      field_of ''title'' hyp_Title hyp_Title_update dec_string,
      field_of ''rationale'' hyp_Rationale hyp_Rationale_update dec_string,
      field_of ''confidence'' hyp_Confidence hyp_Confidence_update dec_string,
      field_of ''supporting_finding_refs'' hyp_SupportingFindingRefs hyp_SupportingFindingRefs_update dec_strings,
      field_of ''supporting_evidence_refs'' hyp_SupportingEvidenceRefs hyp_SupportingEvidenceRefs_update dec_strings,
      field_of ''contradicting_evidence_refs'' hyp_ContradictingEvidenceRefs hyp_ContradictingEvidenceRefs_update dec_strings,
      field_of ''limitations'' hyp_Limitations hyp_Limitations_update dec_strings,
      field_of ''advisory'' hyp_Advisory hyp_Advisory_update dec_bool]"

abbreviation dec_AdvisoryHypothesis :: "AdvisoryHypothesis decoder" where
  "dec_AdvisoryHypothesis \<equiv> dec_struct AdvisoryHypothesis_fields"

definition zero_RetrievedSource :: RetrievedSource where
  "zero_RetrievedSource =
     \<lparr>src_URL = [], src_Domain = [], src_Title = []\<rparr>"

definition RetrievedSource_fields :: "RetrievedSource field list" where
  "RetrievedSource_fields =
     [field_of ''url'' src_URL src_URL_update dec_string,
      field_of ''domain'' src_Domain src_Domain_update dec_string,
      field_of ''title'' src_Title src_Title_update dec_string]"

abbreviation dec_RetrievedSource :: "RetrievedSource decoder" where
  "dec_RetrievedSource \<equiv> dec_struct RetrievedSource_fields"

definition zero_ProviderMetadata :: ProviderMetadata where
  "zero_ProviderMetadata =
     \<lparr>pm_ProviderName = [], pm_ModelName = []\<rparr>"

definition ProviderMetadata_fields :: "ProviderMetadata field list" where
  "ProviderMetadata_fields =
     [field_of ''provider_name'' pm_ProviderName pm_ProviderName_update dec_string,
      field_of ''model_name'' pm_ModelName pm_ModelName_update dec_string]"

abbreviation dec_ProviderMetadata :: "ProviderMetadata decoder" where
  "dec_ProviderMetadata \<equiv> dec_struct ProviderMetadata_fields"

definition AgentConsultation_json :: "AgentConsultation \<Rightarrow> json" where
  "AgentConsultation_json x = JObj
     ([(''schema_name'', JStr (con_SchemaName x)),
         (''schema_version'', JStr (con_SchemaVersion x)),
         (''consultation_id'', JStr (con_ConsultationID x)), (''case_id'', JStr (con_CaseID x)),
         (''request_id'', JStr (con_RequestID x)), (''runtime_id'', JStr (con_RuntimeID x)),
         (''runtime_version'', JStr (con_RuntimeVersion x)),
         (''source_commit_id'', JStr (con_SourceCommitID x)),
         (''input_digest'', JStr (con_InputDigest x)),
         (''generated_at'', JStr (con_GeneratedAt x)), (''status'', JStr (con_Status x)),
         (''round_count'', JInt (con_RoundCount x))]
      @ omit_empty ''topology_id'' (con_TopologyID x)
      @ [(''finding_refs'', json_strs (con_FindingRefs x)),
         (''evidence_refs'', json_strs (con_EvidenceRefs x)),
         (''target_refs'', json_strs (con_TargetRefs x)),
         (''hypotheses'', json_docs AdvisoryHypothesis_json (con_Hypotheses x)),
         (''next_diagnostic_steps'', json_strs (con_NextDiagnosticSteps x)),
         (''retrieved_sources'', json_docs RetrievedSource_json (con_RetrievedSources x)),
         (''limitations'', json_strs (con_Limitations x)),
         (''provider_metadata'', ProviderMetadata_json (con_ProviderMetadata x))]
      @ omit_false ''insufficient_evidence'' (con_InsufficientEvidence x))"

definition zero_AgentConsultation :: AgentConsultation where
  "zero_AgentConsultation =
     \<lparr>con_SchemaName = [], con_SchemaVersion = [], con_ConsultationID = [], con_CaseID = [],
      con_RequestID = [], con_RuntimeID = [], con_RuntimeVersion = [],
      con_SourceCommitID = [], con_InputDigest = [], con_GeneratedAt = [], con_Status = [],
      con_RoundCount = 0, con_TopologyID = [], con_FindingRefs = None,
      con_EvidenceRefs = None, con_TargetRefs = None, con_Hypotheses = None,
      con_NextDiagnosticSteps = None, con_RetrievedSources = None, con_Limitations = None,
      con_ProviderMetadata = zero_ProviderMetadata, con_InsufficientEvidence = False\<rparr>"

definition AgentConsultation_fields :: "AgentConsultation field list" where
  "AgentConsultation_fields =
     [field_of ''schema_name'' con_SchemaName con_SchemaName_update dec_string,
      field_of ''schema_version'' con_SchemaVersion con_SchemaVersion_update dec_string,
      field_of ''consultation_id'' con_ConsultationID con_ConsultationID_update dec_string,
      field_of ''case_id'' con_CaseID con_CaseID_update dec_string,
      field_of ''request_id'' con_RequestID con_RequestID_update dec_string,
      field_of ''runtime_id'' con_RuntimeID con_RuntimeID_update dec_string,
      field_of ''runtime_version'' con_RuntimeVersion con_RuntimeVersion_update dec_string,
      field_of ''source_commit_id'' con_SourceCommitID con_SourceCommitID_update dec_string,
      field_of ''input_digest'' con_InputDigest con_InputDigest_update dec_string,
      field_of ''generated_at'' con_GeneratedAt con_GeneratedAt_update dec_string,
      field_of ''status'' con_Status con_Status_update dec_string,
      field_of ''round_count'' con_RoundCount con_RoundCount_update dec_int64,
      field_of ''topology_id'' con_TopologyID con_TopologyID_update dec_string,
      field_of ''finding_refs'' con_FindingRefs con_FindingRefs_update dec_strings,
      field_of ''evidence_refs'' con_EvidenceRefs con_EvidenceRefs_update dec_strings,
      field_of ''target_refs'' con_TargetRefs con_TargetRefs_update dec_strings,
      field_of ''hypotheses'' con_Hypotheses con_Hypotheses_update (dec_slice dec_AdvisoryHypothesis zero_AdvisoryHypothesis),
      field_of ''next_diagnostic_steps'' con_NextDiagnosticSteps con_NextDiagnosticSteps_update dec_strings,
      field_of ''retrieved_sources'' con_RetrievedSources con_RetrievedSources_update (dec_slice dec_RetrievedSource zero_RetrievedSource),
      field_of ''limitations'' con_Limitations con_Limitations_update dec_strings,
      field_of ''provider_metadata'' con_ProviderMetadata con_ProviderMetadata_update dec_ProviderMetadata,
      field_of ''insufficient_evidence'' con_InsufficientEvidence con_InsufficientEvidence_update dec_bool]"

abbreviation dec_AgentConsultation :: "AgentConsultation decoder" where
  "dec_AgentConsultation \<equiv> dec_struct AgentConsultation_fields"

definition commitRecord_json :: "commitRecord \<Rightarrow> json" where
  "commitRecord_json x = JObj
     [(''schema_name'', JStr (rec_SchemaName x)),
      (''schema_version'', JStr (rec_SchemaVersion x)), (''case_id'', JStr (rec_CaseID x)),
      (''sequence'', JInt (uint (rec_Sequence x))), (''commit_id'', JStr (rec_CommitID x)),
      (''parent_commit_id'', json_pointer JStr (rec_ParentCommitID x)),
      (''snapshot_id'', JStr (rec_SnapshotID x)),
      (''snapshot_manifest_sha256'', JStr (rec_SnapshotManifestSHA256 x)),
      (''committed_at'', JStr (rec_CommittedAt x)), (''reason'', JStr (rec_Reason x))]"

definition zero_commitRecord :: commitRecord where
  "zero_commitRecord =
     \<lparr>rec_SchemaName = [], rec_SchemaVersion = [], rec_CaseID = [], rec_Sequence = 0,
      rec_CommitID = [], rec_ParentCommitID = None, rec_SnapshotID = [],
      rec_SnapshotManifestSHA256 = [], rec_CommittedAt = [], rec_Reason = []\<rparr>"

definition commitRecord_fields :: "commitRecord field list" where
  "commitRecord_fields =
     [field_of ''schema_name'' rec_SchemaName rec_SchemaName_update dec_string,
      field_of ''schema_version'' rec_SchemaVersion rec_SchemaVersion_update dec_string,
      field_of ''case_id'' rec_CaseID rec_CaseID_update dec_string,
      field_of ''sequence'' rec_Sequence rec_Sequence_update dec_uint64,
      field_of ''commit_id'' rec_CommitID rec_CommitID_update dec_string,
      field_of ''parent_commit_id'' rec_ParentCommitID rec_ParentCommitID_update (dec_pointer dec_string []),
      field_of ''snapshot_id'' rec_SnapshotID rec_SnapshotID_update dec_string,
      field_of ''snapshot_manifest_sha256'' rec_SnapshotManifestSHA256 rec_SnapshotManifestSHA256_update dec_string,
      field_of ''committed_at'' rec_CommittedAt rec_CommittedAt_update dec_string,
      field_of ''reason'' rec_Reason rec_Reason_update dec_string]"

abbreviation dec_commitRecord :: "commitRecord decoder" where
  "dec_commitRecord \<equiv> dec_struct commitRecord_fields"

record snapshotDocumentEntry =
  sde_RelativePath :: string
  sde_SHA256 :: string
  sde_SizeBytes :: int
  sde_MediaType :: string

definition snapshotDocumentEntry_json :: "snapshotDocumentEntry \<Rightarrow> json" where
  "snapshotDocumentEntry_json x = JObj
     [(''relative_path'', JStr (sde_RelativePath x)), (''sha256'', JStr (sde_SHA256 x)),
      (''size_bytes'', JInt (sde_SizeBytes x)), (''media_type'', JStr (sde_MediaType x))]"

definition zero_snapshotDocumentEntry :: snapshotDocumentEntry where
  "zero_snapshotDocumentEntry =
     \<lparr>sde_RelativePath = [], sde_SHA256 = [], sde_SizeBytes = 0, sde_MediaType = []\<rparr>"

definition snapshotDocumentEntry_fields :: "snapshotDocumentEntry field list" where
  "snapshotDocumentEntry_fields =
     [field_of ''relative_path'' sde_RelativePath sde_RelativePath_update dec_string,
      field_of ''sha256'' sde_SHA256 sde_SHA256_update dec_string,
      field_of ''size_bytes'' sde_SizeBytes sde_SizeBytes_update dec_int64,
      field_of ''media_type'' sde_MediaType sde_MediaType_update dec_string]"

abbreviation dec_snapshotDocumentEntry :: "snapshotDocumentEntry decoder" where
  "dec_snapshotDocumentEntry \<equiv> dec_struct snapshotDocumentEntry_fields"

record snapshotArtifactEntry =
  sae_ArtifactID :: string
  sae_SHA256 :: string
  sae_SizeBytes :: int
  sae_BlobRelativePath :: string
  sae_Kind :: string
  sae_MediaClassification :: string

definition snapshotArtifactEntry_json :: "snapshotArtifactEntry \<Rightarrow> json" where
  "snapshotArtifactEntry_json x = JObj
     [(''artifact_id'', JStr (sae_ArtifactID x)), (''sha256'', JStr (sae_SHA256 x)),
      (''size_bytes'', JInt (sae_SizeBytes x)),
      (''blob_relative_path'', JStr (sae_BlobRelativePath x)), (''kind'', JStr (sae_Kind x)),
      (''media_classification'', JStr (sae_MediaClassification x))]"

definition zero_snapshotArtifactEntry :: snapshotArtifactEntry where
  "zero_snapshotArtifactEntry =
     \<lparr>sae_ArtifactID = [], sae_SHA256 = [], sae_SizeBytes = 0, sae_BlobRelativePath = [],
      sae_Kind = [], sae_MediaClassification = []\<rparr>"

definition snapshotArtifactEntry_fields :: "snapshotArtifactEntry field list" where
  "snapshotArtifactEntry_fields =
     [field_of ''artifact_id'' sae_ArtifactID sae_ArtifactID_update dec_string,
      field_of ''sha256'' sae_SHA256 sae_SHA256_update dec_string,
      field_of ''size_bytes'' sae_SizeBytes sae_SizeBytes_update dec_int64,
      field_of ''blob_relative_path'' sae_BlobRelativePath sae_BlobRelativePath_update dec_string,
      field_of ''kind'' sae_Kind sae_Kind_update dec_string,
      field_of ''media_classification'' sae_MediaClassification sae_MediaClassification_update dec_string]"

abbreviation dec_snapshotArtifactEntry :: "snapshotArtifactEntry decoder" where
  "dec_snapshotArtifactEntry \<equiv> dec_struct snapshotArtifactEntry_fields"

record snapshotManifest =
  smf_SchemaName :: string
  smf_SchemaVersion :: string
  smf_CaseID :: string
  smf_SnapshotID :: string
  smf_ContentSHA256 :: string
  smf_CreatedAt :: string
  smf_Documents :: "snapshotDocumentEntry slice"
  smf_Artifacts :: "snapshotArtifactEntry slice"

definition snapshotManifest_json :: "snapshotManifest \<Rightarrow> json" where
  "snapshotManifest_json x = JObj
     [(''schema_name'', JStr (smf_SchemaName x)),
      (''schema_version'', JStr (smf_SchemaVersion x)), (''case_id'', JStr (smf_CaseID x)),
      (''snapshot_id'', JStr (smf_SnapshotID x)),
      (''content_sha256'', JStr (smf_ContentSHA256 x)),
      (''created_at'', JStr (smf_CreatedAt x)),
      (''documents'', json_docs snapshotDocumentEntry_json (smf_Documents x)),
      (''artifacts'', json_docs snapshotArtifactEntry_json (smf_Artifacts x))]"

definition zero_snapshotManifest :: snapshotManifest where
  "zero_snapshotManifest =
     \<lparr>smf_SchemaName = [], smf_SchemaVersion = [], smf_CaseID = [], smf_SnapshotID = [],
      smf_ContentSHA256 = [], smf_CreatedAt = [], smf_Documents = None, smf_Artifacts = None\<rparr>"

definition snapshotManifest_fields :: "snapshotManifest field list" where
  "snapshotManifest_fields =
     [field_of ''schema_name'' smf_SchemaName smf_SchemaName_update dec_string,
      field_of ''schema_version'' smf_SchemaVersion smf_SchemaVersion_update dec_string,
      field_of ''case_id'' smf_CaseID smf_CaseID_update dec_string,
      field_of ''snapshot_id'' smf_SnapshotID smf_SnapshotID_update dec_string,
      field_of ''content_sha256'' smf_ContentSHA256 smf_ContentSHA256_update dec_string,
      field_of ''created_at'' smf_CreatedAt smf_CreatedAt_update dec_string,
      field_of ''documents'' smf_Documents smf_Documents_update (dec_slice dec_snapshotDocumentEntry zero_snapshotDocumentEntry),
      field_of ''artifacts'' smf_Artifacts smf_Artifacts_update (dec_slice dec_snapshotArtifactEntry zero_snapshotArtifactEntry)]"

abbreviation dec_snapshotManifest :: "snapshotManifest decoder" where
  "dec_snapshotManifest \<equiv> dec_struct snapshotManifest_fields"

section \<open>Decoding and validating\<close>

text \<open>\<^verbatim>\<open>DecodeAndValidateJSON\<close>.\<close>

definition DecodeAndValidateJSON :: "'a decoder \<Rightarrow> 'a \<Rightarrow> ('a \<Rightarrow> go_err) \<Rightarrow> string \<Rightarrow> 'a result" where
  "DecodeAndValidateJSON dec z validate raw =
     bindE (decode_document dec z raw) (\<lambda>x. check_then (validate x) (Inr x))"

end
