(* ===== verification/GoHash.thy ===== *)
theory GoHash
  imports Prelude
begin

text \<open>
  The part of Go's \<^verbatim>\<open>crypto/sha256\<close> and \<^verbatim>\<open>encoding/hex\<close> the program uses: the SHA-256 digest
  of a byte string, over 32-bit words as the standard defines it, and its lower-case hexadecimal
  text. Content hashes and the identifiers derived from them rest on it.
\<close>

unbundle bit_operations_syntax

type_synonym w32 = "32 word"

section \<open>The compression function\<close>

text \<open>
  The standard defines its constants: the first 32 bits of the fractional parts of the square roots
  of the first 8 primes and of the cube roots of the first 64. They are computed here that way, as
  the integer roots of the primes scaled by a power of two.
\<close>

definition is_prime_int :: "int \<Rightarrow> bool" where
  "is_prime_int p = list_all (\<lambda>d. p mod d \<noteq> 0) [2..p - 1]"

definition integer_root :: "nat \<Rightarrow> int \<Rightarrow> int" where
  "integer_root k n = foldl (\<lambda>r b. if (r + b) ^ k \<le> n then r + b else r) 0 (map (\<lambda>i. 2 ^ i) (rev [0..<40]))"

definition root_fraction :: "nat \<Rightarrow> int \<Rightarrow> w32" where
  "root_fraction k p = of_int (integer_root k (p * 2 ^ (32 * k)))"

definition sha_init :: "w32 list" where
  "sha_init = map (root_fraction 2) [2, 3, 5, 7, 11, 13, 17, 19]"

definition sha_round_constants :: "w32 list" where
  "sha_round_constants = map (root_fraction 3) (filter is_prime_int [2..311])"

definition rotr :: "nat \<Rightarrow> w32 \<Rightarrow> w32" where
  "rotr n x = drop_bit n x OR push_bit (32 - n) x"

definition sha_ch :: "w32 \<Rightarrow> w32 \<Rightarrow> w32 \<Rightarrow> w32" where
  "sha_ch x y z = (x AND y) XOR (NOT x AND z)"

definition sha_maj :: "w32 \<Rightarrow> w32 \<Rightarrow> w32 \<Rightarrow> w32" where
  "sha_maj x y z = (x AND y) XOR (x AND z) XOR (y AND z)"

definition sha_big0 :: "w32 \<Rightarrow> w32" where
  "sha_big0 x = rotr 2 x XOR rotr 13 x XOR rotr 22 x"

definition sha_big1 :: "w32 \<Rightarrow> w32" where
  "sha_big1 x = rotr 6 x XOR rotr 11 x XOR rotr 25 x"

definition sha_small0 :: "w32 \<Rightarrow> w32" where
  "sha_small0 x = rotr 7 x XOR rotr 18 x XOR drop_bit 3 x"

definition sha_small1 :: "w32 \<Rightarrow> w32" where
  "sha_small1 x = rotr 17 x XOR rotr 19 x XOR drop_bit 10 x"

text \<open>The message schedule, kept with its newest word first.\<close>

definition sha_extend :: "w32 list \<Rightarrow> w32 list" where
  "sha_extend ws = (sha_small1 (ws ! 1) + ws ! 6 + sha_small0 (ws ! 14) + ws ! 15) # ws"

definition sha_schedule :: "w32 list \<Rightarrow> w32 list" where
  "sha_schedule block = rev ((sha_extend ^^ 48) (rev block))"

definition sha_round :: "w32 list \<Rightarrow> w32 \<times> w32 \<Rightarrow> w32 list" where
  "sha_round st kw =
     (case st of
        [a, b, c, d, e, f, g, h] \<Rightarrow>
          let t1 = h + sha_big1 e + sha_ch e f g + fst kw + snd kw;
              t2 = sha_big0 a + sha_maj a b c
          in [t1 + t2, a, b, c, d + t1, e, f, g]
      | _ \<Rightarrow> st)"

definition sha_compress :: "w32 list \<Rightarrow> w32 list \<Rightarrow> w32 list" where
  "sha_compress st block =
     map2 (+) st (foldl sha_round st (zip sha_round_constants (sha_schedule block)))"

section \<open>Padding and the digest\<close>

definition word_bytes :: "nat \<Rightarrow> int \<Rightarrow> int list" where
  "word_bytes k n = map (\<lambda>i. n div 256 ^ (k - 1 - i) mod 256) [0..<k]"

definition sha_pad :: "int list \<Rightarrow> int list" where
  "sha_pad bs = bs @ [128] @ replicate ((119 - length bs mod 64) mod 64) 0 @ word_bytes 8 (8 * int (length bs))"

fun be_words :: "int list \<Rightarrow> w32 list" where
  "be_words (a # b # c # d # r) =
     of_int (a * 16777216 + b * 65536 + c * 256 + d) # be_words r"
| "be_words _ = []"

function sha_blocks :: "w32 list \<Rightarrow> w32 list \<Rightarrow> w32 list" where
  "sha_blocks st ws = (if ws = [] then st else sha_blocks (sha_compress st (take 16 ws)) (drop 16 ws))"
  by pat_completeness auto
termination by (relation "measure (length \<circ> snd)") auto

declare sha_blocks.simps [simp del]

definition sha256_sum :: "string \<Rightarrow> int list" where
  "sha256_sum s =
     concat (map (\<lambda>w. word_bytes 4 (uint w)) (sha_blocks sha_init (be_words (sha_pad (map of_char s)))))"

definition hex_byte :: "int \<Rightarrow> string" where
  "hex_byte n = [lower_hex ! nat (n div 16), lower_hex ! nat (n mod 16)]"

definition hex_encode :: "int list \<Rightarrow> string" where
  "hex_encode bs = concat (map hex_byte bs)"

definition sha256Hex :: "string \<Rightarrow> string" where
  "sha256Hex s = hex_encode (sha256_sum s)"

section \<open>Lengths and alphabet\<close>

lemma length_sha_init [simp]: "length sha_init = 8"
  by (simp add: sha_init_def)

lemma length_sha_round [simp]: "length (sha_round st kw) = length st"
  by (simp add: sha_round_def Let_def split: list.splits)

lemma length_sha_rounds: "length (foldl sha_round st kws) = length st"
  by (induction kws arbitrary: st) auto

lemma length_sha_blocks: "length (sha_blocks st ws) = length st"
proof (induction st ws rule: sha_blocks.induct)
  case (1 st ws)
  then show ?case
    by (auto simp: sha_blocks.simps [of st ws] sha_compress_def length_sha_rounds)
qed

lemma length_word_bytes [simp]: "length (word_bytes k n) = k"
  by (simp add: word_bytes_def)

lemma word_bytes_less: "b \<in> set (word_bytes k n) \<Longrightarrow> 0 \<le> b \<and> b < 256"
  by (auto simp: word_bytes_def)

lemma length_concat_const: "(\<And>x. x \<in> set xs \<Longrightarrow> length (f x) = k) \<Longrightarrow> length (concat (map f xs)) = k * length xs"
  by (induction xs) auto

lemma length_sha256_sum [simp]: "length (sha256_sum s) = 32"
  unfolding sha256_sum_def by (subst length_concat_const [where k = 4]) (simp_all add: length_sha_blocks)

lemma sha256_sum_less: "b \<in> set (sha256_sum s) \<Longrightarrow> 0 \<le> b \<and> b < 256"
  unfolding sha256_sum_def by (auto dest: word_bytes_less)

lemma length_hex_encode [simp]: "length (hex_encode bs) = 2 * length bs"
  unfolding hex_encode_def by (rule length_concat_const) (simp add: hex_byte_def)

lemma hex_encode_lower:
  assumes "\<And>b. b \<in> set bs \<Longrightarrow> 0 \<le> b \<and> b < 256" and "c \<in> set (hex_encode bs)"
  shows "c \<in> set lower_hex"
proof -
  have len: "length lower_hex = 16" by (simp add: lower_hex_def)
  from assms(2) obtain b where b: "b \<in> set bs" "c \<in> set (hex_byte b)"
    by (auto simp: hex_encode_def)
  have "0 \<le> b" "b < 256" using assms(1) b by auto
  then have "nat (b div 16) < length lower_hex" "nat (b mod 16) < length lower_hex"
    using len by auto
  then show ?thesis using b by (auto simp: hex_byte_def)
qed

lemma length_sha256Hex [simp]: "length (sha256Hex s) = 64"
  by (simp add: sha256Hex_def)

lemma sha256Hex_lower: "c \<in> set (sha256Hex s) \<Longrightarrow> c \<in> set lower_hex"
  unfolding sha256Hex_def by (erule hex_encode_lower [rotated]) (rule sha256_sum_less)

text \<open>A prefix and the first 24 hexadecimal digits of a digest match an identifier pattern.\<close>

lemma re_id24_digest: "re_id24 p (p @ take 24 (sha256Hex s))"
  by (auto simp: re_run_iff dest!: in_set_takeD sha256Hex_lower)

lemma hex_encode_take: "hex_encode (take n bs) = take (2 * n) (hex_encode bs)"
proof (induction bs arbitrary: n)
  case Nil
  then show ?case by (simp add: hex_encode_def)
next
  case (Cons b bs)
  then show ?case by (cases n) (auto simp: hex_encode_def hex_byte_def)
qed

end
