(* ===== verification/CaseManifests.thy ===== *)
theory CaseManifests
  imports DocCodec Coordinator GoHash
begin

text \<open>
  What the case store writes and checks, before any file is touched (\<^verbatim>\<open>snapshot.go\<close>,
  \<^verbatim>\<open>load.go\<close>, \<^verbatim>\<open>commit.go\<close> and \<^verbatim>\<open>paths.go\<close> of \<^verbatim>\<open>internal/recovery/casestore\<close>): the
  canonical documents of a snapshot, the manifest over them and its content-addressed identity, the
  commit record and its identity, the checks of a manifest and of a record that were read back, the
  longest valid prefix of a chain of records, and the snapshot assembled from the documents. Paths
  and their checks are those of the Unix build.
\<close>

section \<open>Identifiers\<close>

definition check_id :: "string \<Rightarrow> (string \<Rightarrow> bool) \<Rightarrow> string \<Rightarrow> go_err" where
  "check_id what re d = err_if (\<not> re d) (invalid (''invalid '' @ what @ '' %q'') [GStr d])"

definition validateSnapshotID :: "string \<Rightarrow> go_err" where
  "validateSnapshotID = check_id ''snapshot_id'' reSnapshotID"
definition validateTargetID :: "string \<Rightarrow> go_err" where
  "validateTargetID = check_id ''target_id'' reTargetID"
definition validateEvidenceID :: "string \<Rightarrow> go_err" where
  "validateEvidenceID = check_id ''evidence_id'' reEvidenceID"
definition validateFindingID :: "string \<Rightarrow> go_err" where
  "validateFindingID = check_id ''finding_id'' reFindingID"
definition validatePlanID :: "string \<Rightarrow> go_err" where
  "validatePlanID = check_id ''plan_id'' rePlanID"
definition validateExecutionID :: "string \<Rightarrow> go_err" where
  "validateExecutionID = check_id ''execution_id'' reExecutionID"
definition validateVerificationID :: "string \<Rightarrow> go_err" where
  "validateVerificationID = check_id ''verification_id'' reVerificationID"
definition validateCoordinatorEventID :: "string \<Rightarrow> go_err" where
  "validateCoordinatorEventID = check_id ''coordinator event_id'' reCoordinatorEventID"
definition validateAcquisitionID :: "string \<Rightarrow> go_err" where
  "validateAcquisitionID = check_id ''acquisition_id'' reAcquisitionID"
definition validateConsultationID :: "string \<Rightarrow> go_err" where
  "validateConsultationID = check_id ''consultation_id'' reConsultationID"
definition validateArtifactID :: "string \<Rightarrow> go_err" where
  "validateArtifactID = check_id ''artifact_id'' reArtifactID"

text \<open>The store's digests are in lower case, unlike the domain's.\<close>

definition store_reSHA256 :: "string \<Rightarrow> bool" where
  "store_reSHA256 = re_run [] lower_hex 64 64"

definition validateSHA256Hex :: "string \<Rightarrow> go_err" where
  "validateSHA256Hex = check_id ''sha256'' store_reSHA256"

definition blobRelativePath :: "string \<Rightarrow> string" where
  "blobRelativePath sha = ''artifacts/sha256/'' @ take 2 sha @ ''/'' @ sha"

definition pad20 :: "string \<Rightarrow> string" where
  "pad20 s = replicate (20 - length s) (CHR ''0'') @ s"

definition commitFileName :: "64 word \<Rightarrow> string \<Rightarrow> string" where
  "commitFileName seq cid = pad20 (show_nat (unat seq)) @ ''-'' @ cid @ ''.json''"

definition map_error :: "(go_error \<Rightarrow> go_error) \<Rightarrow> 'a result \<Rightarrow> 'a result" where
  "map_error f r = (case r of Inl e \<Rightarrow> Inl (f e) | Inr x \<Rightarrow> Inr x)"

fun collect_results :: "('a \<Rightarrow> 'b result) \<Rightarrow> 'a list \<Rightarrow> 'b list result" where
  "collect_results f [] = Inr []"
| "collect_results f (x # xs) = bindE (f x) (\<lambda>y. bindE (collect_results f xs) (\<lambda>ys. Inr (y # ys)))"

section \<open>The canonical documents of a snapshot\<close>

record preparedDocument =
  pd_RelativePath :: string
  pd_MediaType :: string
  pd_Bytes :: string
  pd_SHA256 :: string
  pd_SizeBytes :: int

definition mediaTypeJSON :: string where "mediaTypeJSON = ''application/json''"

definition documentEntry :: "string \<Rightarrow> string \<Rightarrow> preparedDocument" where
  "documentEntry rel raw =
     \<lparr>pd_RelativePath = rel, pd_MediaType = mediaTypeJSON, pd_Bytes = raw, pd_SHA256 = sha256Hex raw,
      pd_SizeBytes = int (length raw)\<rparr>"

text \<open>The documents of one kind, in the order of their identifiers.\<close>

definition prepare_kind ::
    "string \<Rightarrow> string \<Rightarrow> ('a \<Rightarrow> string) \<Rightarrow> (string \<Rightarrow> go_err) \<Rightarrow> ('a \<Rightarrow> json) \<Rightarrow> 'a list \<Rightarrow> preparedDocument list result" where
  "prepare_kind what dir ident validate enc xs =
     collect_results (\<lambda>x. check_then (validate (ident x))
       (bindE (map_error (\<lambda>e. Errorf (''marshal '' @ what @ '' %s: %w'') [GStr (ident x), GWrap e]) (marshal (enc x)))
         (\<lambda>raw. Inr (documentEntry (dir @ ident x @ ''.json'') raw))))
       (sort_key ident xs)"

definition prepare_one :: "string \<Rightarrow> string \<Rightarrow> json \<Rightarrow> preparedDocument result" where
  "prepare_one what rel j =
     bindE (map_error (\<lambda>e. Errorf (''marshal '' @ what @ '': %w'') [GWrap e]) (marshal j))
       (\<lambda>raw. Inr (documentEntry rel raw))"

definition prepare_workflow :: "CaseWorkflowState option \<Rightarrow> preparedDocument list result" where
  "prepare_workflow w = (case w of None \<Rightarrow> Inr []
     | Some x \<Rightarrow> bindE (prepare_one ''case-workflow-state'' ''case-workflow-state.json'' (CaseWorkflowState_json x))
                  (\<lambda>d. Inr [d]))"

definition prepared_kinds :: "Snapshot \<Rightarrow> preparedDocument list result list" where
  "prepared_kinds s =
     [prepare_kind ''target'' ''targets/'' tg_TargetID validateTargetID Target_json (snap_Targets s),
      prepare_kind ''evidence'' ''evidence/'' ev_EvidenceID validateEvidenceID EvidenceBundle_json (snap_EvidenceBundles s),
      prepare_kind ''finding'' ''findings/'' fnd_FindingID validateFindingID Finding_json (snap_Findings s),
      prepare_kind ''plan'' ''plans/'' pln_PlanID validatePlanID RepairPlan_json (snap_RepairPlans s),
      prepare_kind ''execution'' ''executions/'' ex_ExecutionID validateExecutionID ExecutionEvent_json (snap_ExecutionEvents s),
      prepare_kind ''verification'' ''verifications/'' vr_VerificationID validateVerificationID VerificationReport_json
        (snap_VerificationReports s),
      prepare_kind ''coordinator-event'' ''coordinator-events/'' we_EventID validateCoordinatorEventID CoordinatorEvent_json
        (snap_CoordinatorEvents s),
      prepare_kind ''evidence-acquisition'' ''evidence-acquisitions/'' acq_AcquisitionID validateAcquisitionID
        EvidenceAcquisitionRecord_json (snap_EvidenceAcquisitions s),
      prepare_kind ''agent-consultation'' ''agent-consultations/'' con_ConsultationID validateConsultationID
        AgentConsultation_json (snap_AgentConsultations s)]"

definition prepareDocuments :: "Snapshot \<Rightarrow> preparedDocument list result" where
  "prepareDocuments s =
     bindE (prepare_one ''case-manifest'' ''case-manifest.json'' (CaseManifest_json (snap_Case s))) (\<lambda>c.
     bindE (prepare_workflow (snap_WorkflowState s)) (\<lambda>w.
     bindE (collect_results id (prepared_kinds s)) (\<lambda>ks.
     Inr (sort_key pd_RelativePath (c # w @ concat ks)))))"

section \<open>The artifacts of a snapshot\<close>

definition lower_string :: "string \<Rightarrow> string" where
  "lower_string s = map to_lower_char s"

text \<open>\<open>known\<close> are the artifacts met so far.\<close>

fun collect_refs :: "ArtifactRef list \<Rightarrow> ArtifactRef list \<Rightarrow> ArtifactRef list result" where
  "collect_refs known [] = Inr known"
| "collect_refs known (a # as) =
     (let b = a\<lparr>art_SHA256 := lower_string (art_SHA256 a)\<rparr> in
      check_then (validateArtifactID (art_ArtifactID a))
        (check_then (validateSHA256Hex (lower_string (art_SHA256 a)))
          (case List.find (\<lambda>p. art_ArtifactID p = art_ArtifactID b) known of
             None \<Rightarrow> collect_refs (known @ [b]) as
           | Some prev \<Rightarrow>
               if \<not> artifactRefsEqual prev b
               then Inl (invalid ''divergent metadata for artifact_id %q'' [GStr (art_ArtifactID b)])
               else collect_refs known as)))"

definition collectArtifactRefs :: "Snapshot \<Rightarrow> ArtifactRef list result" where
  "collectArtifactRefs s =
     bindE (collect_refs [] (concat (map (\<lambda>e. elems (ev_Artifacts e)) (snap_EvidenceBundles s))))
       (\<lambda>refs. Inr (sort_key art_ArtifactID refs))"

section \<open>The snapshot manifest\<close>

definition schemaSnapshotManifest :: string where "schemaSnapshotManifest = ''snapshot-manifest''"
definition schemaCommitRecord :: string where "schemaCommitRecord = ''commit-record''"
definition schemaVersion :: string where "schemaVersion = ''1.0.0''"

definition manifest_body :: "string \<Rightarrow> string \<Rightarrow> snapshotDocumentEntry list \<Rightarrow> snapshotArtifactEntry list \<Rightarrow> json" where
  "manifest_body caseID createdAt docs arts = JObj
     [(''schema_name'', JStr schemaSnapshotManifest), (''schema_version'', JStr schemaVersion),
      (''case_id'', JStr caseID), (''created_at'', JStr createdAt),
      (''documents'', json_docs snapshotDocumentEntry_json (Some docs)),
      (''artifacts'', json_docs snapshotArtifactEntry_json (Some arts))]"

text \<open>The digest of the body and the identifier made of it.\<close>

definition content_identity ::
    "string \<Rightarrow> string \<Rightarrow> snapshotDocumentEntry list \<Rightarrow> snapshotArtifactEntry list \<Rightarrow> (string \<times> string) result" where
  "content_identity caseID createdAt docs arts =
     bindE (marshal (manifest_body caseID createdAt docs arts)) (\<lambda>canonical.
       let sha = sha256Hex canonical in Inr (sha, ''snapshot-'' @ take 24 sha))"

definition document_entry :: "preparedDocument \<Rightarrow> snapshotDocumentEntry" where
  "document_entry d =
     \<lparr>sde_RelativePath = pd_RelativePath d, sde_SHA256 = pd_SHA256 d, sde_SizeBytes = pd_SizeBytes d,
      sde_MediaType = pd_MediaType d\<rparr>"

definition buildSnapshotManifest ::
    "string \<Rightarrow> string \<Rightarrow> preparedDocument list \<Rightarrow> snapshotArtifactEntry list \<Rightarrow> (snapshotManifest \<times> string) result" where
  "buildSnapshotManifest caseID createdAt docs arts =
     (let docEntries = sort_key sde_RelativePath (map document_entry docs);
          artsCopy = sort_key sae_ArtifactID arts in
      bindE (content_identity caseID createdAt docEntries artsCopy) (\<lambda>(sha, sid).
        let m = \<lparr>smf_SchemaName = schemaSnapshotManifest, smf_SchemaVersion = schemaVersion,
                 smf_CaseID = caseID, smf_SnapshotID = sid, smf_ContentSHA256 = sha,
                 smf_CreatedAt = createdAt, smf_Documents = Some docEntries, smf_Artifacts = Some artsCopy\<rparr>
        in bindE (marshal (snapshotManifest_json m)) (\<lambda>raw. Inr (m, raw))))"

definition recomputeSnapshotProvenance :: "snapshotManifest \<Rightarrow> (string \<times> string) result" where
  "recomputeSnapshotProvenance m =
     content_identity (smf_CaseID m) (smf_CreatedAt m)
       (sort_key sde_RelativePath (elems (smf_Documents m))) (sort_key sae_ArtifactID (elems (smf_Artifacts m)))"

definition artifact_entry :: "ArtifactRef \<Rightarrow> snapshotArtifactEntry" where
  "artifact_entry a =
     (let sha = lower_string (art_SHA256 a) in
      \<lparr>sae_ArtifactID = art_ArtifactID a, sae_SHA256 = sha, sae_SizeBytes = art_SizeBytes a,
       sae_BlobRelativePath = blobRelativePath sha, sae_Kind = art_Kind a,
       sae_MediaClassification = art_MediaClassification a\<rparr>)"

section \<open>Checking a manifest that was read\<close>

definition manifest_rules :: "(string \<times> (string \<Rightarrow> bool) \<times> string) list" where
  "manifest_rules =
     [(''targets/'', reTargetID, ''target''), (''evidence/'', reEvidenceID, ''evidence''),
      (''findings/'', reFindingID, ''finding''), (''plans/'', rePlanID, ''plan''),
      (''executions/'', reExecutionID, ''execution''), (''verifications/'', reVerificationID, ''verification''),
      (''coordinator-events/'', reCoordinatorEventID, ''coordinator-event''),
      (''evidence-acquisitions/'', reAcquisitionID, ''evidence-acquisition''),
      (''agent-consultations/'', reConsultationID, ''agent-consultation'')]"

text \<open>What stands between the prefix and the suffix of a path.\<close>

definition between :: "string \<Rightarrow> string \<Rightarrow> string \<Rightarrow> string" where
  "between pre suf s =
     (let r = drop (length pre) s in if has_suffix suf r then take (length r - length suf) r else r)"

definition validateManifestDocumentPath :: "string \<Rightarrow> go_err" where
  "validateManifestDocumentPath rel =
     (if rel = ''case-manifest.json'' \<or> rel = ''case-workflow-state.json'' then None
      else (case List.find (\<lambda>(pre, re, label). has_prefix pre rel \<and> has_suffix ''.json'' rel) manifest_rules of
         Some (pre, re, label) \<Rightarrow>
           (let d = between pre ''.json'' rel in
            err_if (\<not> (re d \<and> \<not> str_contains d ''/''))
              (integrity (''non-canonical '' @ label @ '' document path %q'') [GStr rel]))
       | None \<Rightarrow> Some (integrity ''non-canonical document path %q'' [GStr rel])))"

definition check_document_entry :: "nat \<Rightarrow> snapshotDocumentEntry \<Rightarrow> go_err" where
  "check_document_entry i d = first_err
     [wrap_err (\<lambda>x. integrity ''documents[%d].relative_path: %v'' [GNat i, GVal x])
        (rejectTraversal False (sde_RelativePath d)),
      wrap_err (\<lambda>x. integrity ''documents[%d]: %v'' [GNat i, GVal x])
        (validateManifestDocumentPath (sde_RelativePath d))]"

definition check_document_digest :: "nat \<Rightarrow> snapshotDocumentEntry \<Rightarrow> go_err" where
  "check_document_digest i d = first_err
     [wrap_err (\<lambda>x. integrity ''documents[%d]: %v'' [GNat i, GVal x]) (validateSHA256Hex (sde_SHA256 d)),
      err_if (sde_SizeBytes d < 0) (integrity ''documents[%d] negative size'' [GNat i]),
      err_if (sde_MediaType d \<noteq> mediaTypeJSON)
        (integrity ''documents[%d] media_type must be %q'' [GNat i, GStr mediaTypeJSON])]"

fun check_documents :: "nat \<Rightarrow> string list \<Rightarrow> snapshotDocumentEntry list \<Rightarrow> go_err" where
  "check_documents i seen [] = None"
| "check_documents i seen (d # ds) = first_err
     [check_document_entry i d,
      err_if (sde_RelativePath d \<in> set seen)
        (integrity ''duplicate document relative_path %q'' [GStr (sde_RelativePath d)]),
      check_document_digest i d,
      check_documents (Suc i) (sde_RelativePath d # seen) ds]"

definition check_artifact_entry :: "nat \<Rightarrow> snapshotArtifactEntry \<Rightarrow> go_err" where
  "check_artifact_entry i a = first_err
     [wrap_err (\<lambda>x. integrity ''artifacts[%d]: %v'' [GNat i, GVal x]) (validateSHA256Hex (sae_SHA256 a)),
      err_if (sae_SizeBytes a < 0) (integrity ''artifacts[%d] negative size'' [GNat i]),
      wrap_err (\<lambda>x. integrity ''artifacts[%d].blob_relative_path: %v'' [GNat i, GVal x])
        (rejectTraversal False (sae_BlobRelativePath a)),
      err_if (sae_BlobRelativePath a \<noteq> blobRelativePath (sae_SHA256 a))
        (integrity ''artifacts[%d] blob_relative_path want %q got %q''
           [GNat i, GStr (blobRelativePath (sae_SHA256 a)), GStr (sae_BlobRelativePath a)]),
      err_if (sae_Kind a = []) (integrity ''artifacts[%d] kind required'' [GNat i]),
      err_if (sae_MediaClassification a = []) (integrity ''artifacts[%d] media_classification required'' [GNat i])]"

fun check_artifact_entries :: "nat \<Rightarrow> string list \<Rightarrow> snapshotArtifactEntry list \<Rightarrow> go_err" where
  "check_artifact_entries i seen [] = None"
| "check_artifact_entries i seen (a # as) = first_err
     [wrap_err (\<lambda>x. integrity ''artifacts[%d]: %v'' [GNat i, GVal x]) (validateArtifactID (sae_ArtifactID a)),
      err_if (sae_ArtifactID a \<in> set seen) (integrity ''duplicate artifact_id %q'' [GStr (sae_ArtifactID a)]),
      check_artifact_entry i a,
      check_artifact_entries (Suc i) (sae_ArtifactID a # seen) as]"

definition one_case_manifest :: "string list \<Rightarrow> go_err" where
  "one_case_manifest rels =
     (let n = length (filter (\<lambda>r. r = ''case-manifest.json'') rels) in
      err_if (n \<noteq> 1) (integrity ''expected exactly one case-manifest.json, got %d'' [GNat n]))"

definition validateSnapshotManifest :: "snapshotManifest \<Rightarrow> string \<Rightarrow> string \<Rightarrow> go_err" where
  "validateSnapshotManifest m caseID commitCaseID = first_err
     [err_if (smf_SchemaName m \<noteq> schemaSnapshotManifest \<or> smf_SchemaVersion m \<noteq> schemaVersion)
        (integrity ''invalid snapshot manifest schema'' []),
      err_if (smf_Documents m = None) (integrity ''snapshot manifest documents must be an array'' []),
      err_if (smf_Artifacts m = None) (integrity ''snapshot manifest artifacts must be an array'' []),
      validateCaseID (smf_CaseID m),
      err_if (smf_CaseID m \<noteq> caseID)
        (integrity ''manifest case_id %q does not match requested %q'' [GStr (smf_CaseID m), GStr caseID]),
      err_if (smf_CaseID m \<noteq> commitCaseID)
        (integrity ''manifest case_id %q does not match commit case_id %q'' [GStr (smf_CaseID m), GStr commitCaseID]),
      validateSnapshotID (smf_SnapshotID m),
      validateSHA256Hex (smf_ContentSHA256 m),
      err_if (parse_rfc3339 (smf_CreatedAt m) = None) (integrity ''invalid created_at %q'' [GStr (smf_CreatedAt m)]),
      check_documents 0 [] (elems (smf_Documents m)),
      one_case_manifest (map sde_RelativePath (elems (smf_Documents m))),
      check_artifact_entries 0 [] (elems (smf_Artifacts m)),
      (case recomputeSnapshotProvenance m of
         Inl e \<Rightarrow> Some e
       | Inr (sha, sid) \<Rightarrow> first_err
           [err_if (sha \<noteq> smf_ContentSHA256 m) (integrity ''content_sha256 mismatch'' []),
            err_if (sid \<noteq> smf_SnapshotID m) (integrity ''snapshot_id mismatch with recomputed provenance'' [])])]"

section \<open>Comparing the manifest with the snapshot it led to\<close>

text \<open>The entries against the references left; \<open>refs\<close> plays the map \<^verbatim>\<open>byID\<close>.\<close>

fun compare_entries :: "ArtifactRef list \<Rightarrow> snapshotArtifactEntry list \<Rightarrow> go_err" where
  "compare_entries refs [] =
     (case refs of [] \<Rightarrow> None
      | r # _ \<Rightarrow> Some (integrity ''snapshot artifact %s missing from manifest'' [GStr (art_ArtifactID r)]))"
| "compare_entries refs (a # as) =
     (case List.find (\<lambda>r. art_ArtifactID r = sae_ArtifactID a) refs of
        None \<Rightarrow> Some (integrity ''manifest artifact %s missing from snapshot'' [GStr (sae_ArtifactID a)])
      | Some r \<Rightarrow>
         (let sha = lower_string (art_SHA256 r) in first_err
         [err_if (sae_SHA256 a \<noteq> sha \<or> sae_SizeBytes a \<noteq> art_SizeBytes r \<or> sae_Kind a \<noteq> art_Kind r \<or>
                  sae_MediaClassification a \<noteq> art_MediaClassification r)
            (integrity ''manifest artifact %s diverges from snapshot refs'' [GStr (sae_ArtifactID a)]),
          err_if (sae_BlobRelativePath a \<noteq> blobRelativePath sha)
            (integrity ''manifest artifact %s blob path mismatch'' [GStr (sae_ArtifactID a)]),
          compare_entries (filter (\<lambda>q. art_ArtifactID q \<noteq> sae_ArtifactID a) refs) as]))"

definition compareManifestArtifacts :: "snapshotManifest \<Rightarrow> Snapshot \<Rightarrow> go_err" where
  "compareManifestArtifacts m s =
     (case collectArtifactRefs s of Inl e \<Rightarrow> Some e
      | Inr refs \<Rightarrow>
          (let n = length (elems (smf_Artifacts m)) in
           if length refs \<noteq> n
           then Some (integrity ''manifest artifacts count %d != snapshot refs %d'' [GNat n, GNat (length refs)])
           else compare_entries refs (elems (smf_Artifacts m))))"

definition compareCanonicalDocuments :: "snapshotManifest \<Rightarrow> Snapshot \<Rightarrow> go_err" where
  "compareCanonicalDocuments m s =
     (case prepareDocuments s of Inl e \<Rightarrow> Some e
      | Inr docs \<Rightarrow>
          (let es = elems (smf_Documents m) in
           if length docs \<noteq> length es
           then Some (integrity ''canonical document count %d != manifest %d'' [GNat (length docs), GNat (length es)])
           else first_err
             [each (\<lambda>_ (d, e). err_if (document_entry d \<noteq> e)
                 (integrity ''canonical document mismatch at %q'' [GStr (pd_RelativePath d)])) (zip docs es),
              one_case_manifest (map pd_RelativePath docs)]))"

section \<open>The commit record\<close>

definition commit_body :: "string \<Rightarrow> 64 word \<Rightarrow> string option \<Rightarrow> string \<Rightarrow> string \<Rightarrow> string \<Rightarrow> string \<Rightarrow> json" where
  "commit_body caseID seq parent snapshotID manifestSHA committedAt reason = JObj
     [(''schema_name'', JStr schemaCommitRecord), (''schema_version'', JStr schemaVersion),
      (''case_id'', JStr caseID), (''sequence'', JInt (uint seq)),
      (''parent_commit_id'', json_pointer JStr parent), (''snapshot_id'', JStr snapshotID),
      (''snapshot_manifest_sha256'', JStr manifestSHA), (''committed_at'', JStr committedAt),
      (''reason'', JStr reason)]"

definition computeCommitID ::
    "string \<Rightarrow> 64 word \<Rightarrow> string option \<Rightarrow> string \<Rightarrow> string \<Rightarrow> string \<Rightarrow> string \<Rightarrow> string result" where
  "computeCommitID caseID seq parent snapshotID manifestSHA committedAt reason =
     bindE (marshal (commit_body caseID seq parent snapshotID manifestSHA committedAt reason)) (\<lambda>canonical.
       Inr (''commit-'' @ take 24 (sha256Hex canonical)))"

definition computeCommitIDFromRecord :: "commitRecord \<Rightarrow> string result" where
  "computeCommitIDFromRecord r =
     computeCommitID (rec_CaseID r) (rec_Sequence r) (rec_ParentCommitID r) (rec_SnapshotID r)
       (rec_SnapshotManifestSHA256 r) (rec_CommittedAt r) (rec_Reason r)"

definition buildCommitRecord ::
    "string \<Rightarrow> 64 word \<Rightarrow> string option \<Rightarrow> string \<Rightarrow> string \<Rightarrow> string \<Rightarrow> string \<Rightarrow> (commitRecord \<times> string) result" where
  "buildCommitRecord caseID seq parent snapshotID manifestSHA committedAt reason =
     bindE (computeCommitID caseID seq parent snapshotID manifestSHA committedAt reason) (\<lambda>cid.
       let r = \<lparr>rec_SchemaName = schemaCommitRecord, rec_SchemaVersion = schemaVersion, rec_CaseID = caseID,
                rec_Sequence = seq, rec_CommitID = cid, rec_ParentCommitID = parent,
                rec_SnapshotID = snapshotID, rec_SnapshotManifestSHA256 = manifestSHA,
                rec_CommittedAt = committedAt, rec_Reason = reason\<rparr>
       in bindE (marshal (commitRecord_json r)) (\<lambda>raw. Inr (r, raw)))"

definition validateCommitRecord :: "commitRecord \<Rightarrow> string \<Rightarrow> go_err" where
  "validateCommitRecord r caseID = first_err
     [err_if (rec_SchemaName r \<noteq> schemaCommitRecord \<or> rec_SchemaVersion r \<noteq> schemaVersion)
        (Errorf ''invalid commit schema'' []),
      validateCaseID (rec_CaseID r),
      err_if (rec_CaseID r \<noteq> caseID)
        (integrity ''commit case_id %q does not match requested %q'' [GStr (rec_CaseID r), GStr caseID]),
      err_if (rec_Sequence r < 1) (Errorf ''sequence must be >= 1'' []),
      validateCommitID (rec_CommitID r),
      (case rec_ParentCommitID r of None \<Rightarrow> None | Some p \<Rightarrow> validateCommitID p),
      validateSnapshotID (rec_SnapshotID r),
      validateSHA256Hex (rec_SnapshotManifestSHA256 r),
      err_if (parse_rfc3339 (rec_CommittedAt r) = None)
        (integrity ''invalid committed_at %q'' [GStr (rec_CommittedAt r)]),
      err_if (rec_Reason r \<noteq> CommitReasonLegacyImport \<and> rec_Reason r \<noteq> CommitReasonCaseSnapshot)
        (Errorf ''invalid reason %q'' [GStr (rec_Reason r)]),
      (case computeCommitIDFromRecord r of Inl e \<Rightarrow> Some e
       | Inr want \<Rightarrow> err_if (want \<noteq> rec_CommitID r) (integrity ''commit_id mismatch with recomputed provenance'' []))]"

section \<open>The chain of commit records\<close>

definition IntegrityError :: "string \<Rightarrow> go_arg \<Rightarrow> 64 word \<Rightarrow> string \<Rightarrow> string \<Rightarrow> go_error \<Rightarrow> go_error" where
  "IntegrityError caseID message lastSeq lastCommit lastSnapshot cause = ErrStruct ''casestore.IntegrityError''
     [(''CaseID'', GStr caseID), (''Message'', message), (''LastValidSequence'', GNat (unat lastSeq)),
      (''LastValidCommitID'', GStr lastCommit), (''LastValidSnapshotID'', GStr lastSnapshot),
      (''Cause'', GWrap cause)]"

text \<open>The last valid commit, as the error reports it.\<close>

definition last_valid :: "commitRecord list \<Rightarrow> 64 word \<times> string \<times> string" where
  "last_valid rs = (if rs = [] then (0, [], [])
     else (rec_Sequence (last rs), rec_CommitID (last rs), rec_SnapshotID (last rs)))"

definition chain_error :: "string \<Rightarrow> go_arg \<Rightarrow> commitRecord list \<Rightarrow> go_error \<Rightarrow> go_error" where
  "chain_error caseID message rs cause =
     (let (q, c, s) = last_valid rs in IntegrityError caseID message q c s cause)"

text \<open>
  The loop over the sorted records: \<open>rs\<close> are the valid ones so far, \<open>names\<close> of the records that are
  left and of the malformed files make the broken tail.
\<close>

fun chain_prefix ::
    "string \<Rightarrow> string list \<Rightarrow> commitRecord list \<Rightarrow> (commitRecord \<times> string) list \<Rightarrow> commitRecord list \<times> string list \<times> go_err" where
  "chain_prefix caseID malformed rs [] =
     (rs, malformed,
      (case malformed of [] \<Rightarrow> None
       | m # _ \<Rightarrow> Some (chain_error caseID (GStr (''malformed final commit record '' @ m)) rs ErrIntegrity)))"
| "chain_prefix caseID malformed rs ((r, n) # rest) =
     (let i = length rs; tail = n # map snd rest @ malformed in
      if rec_Sequence r \<noteq> word_of_nat (i + 1) then
        (rs, tail, Some (let (q, c, s) = last_valid rs in
           IntegrityError caseID (GVal (Errorf ''commit sequence gap: got %d want %d'' [GNat (unat (rec_Sequence r)), GNat (i + 1)]))
             (word_of_nat i) c s ErrIntegrity))
      else if i = 0 \<and> rec_ParentCommitID r \<noteq> None then
        ([], tail, Some (IntegrityError caseID (GStr ''first commit must have null parent_commit_id'') 0 [] [] ErrIntegrity))
      else if i \<noteq> 0 \<and> rec_ParentCommitID r \<noteq> Some (rec_CommitID (last rs)) then
        (rs, tail, Some (chain_error caseID (GStr ''parent_commit_id mismatch'') rs ErrIntegrity))
      else chain_prefix caseID malformed (rs @ [r]) rest)"

text \<open>
  The files of the directory, in the order of their names: which are records of this case under
  their own name and which are malformed. \<open>read\<close> gives the bytes of a file.
\<close>

definition tempSuffix :: string where "tempSuffix = ''.casestore-tmp''"

definition isTempStoreName :: "string \<Rightarrow> bool" where
  "isTempStoreName n = has_suffix tempSuffix n"

definition isStagingTxnName :: "string \<Rightarrow> bool" where
  "isStagingTxnName n = has_prefix ''txn-'' n"

definition final_name :: "string \<Rightarrow> bool" where
  "final_name n \<longleftrightarrow> \<not> isTempStoreName n \<and> has_suffix ''.json'' n"

definition parse_commit_file :: "string \<Rightarrow> string \<Rightarrow> string \<Rightarrow> commitRecord option" where
  "parse_commit_file caseID name raw =
     (case decode_document dec_commitRecord zero_commitRecord raw of Inl _ \<Rightarrow> None
      | Inr r \<Rightarrow> if validateCommitRecord r caseID = None \<and> name = commitFileName (rec_Sequence r) (rec_CommitID r)
                 then Some r else None)"

fun sort_commit_files ::
    "string \<Rightarrow> (string \<times> string) list \<Rightarrow> (commitRecord \<times> string) list \<times> string list" where
  "sort_commit_files caseID [] = ([], [])"
| "sort_commit_files caseID ((name, raw) # fs) =
     (let (loaded, malformed) = sort_commit_files caseID fs in
      case parse_commit_file caseID name raw of
        None \<Rightarrow> (loaded, name # malformed)
      | Some r \<Rightarrow> ((r, name) # loaded, malformed))"

definition chain_of_files ::
    "string \<Rightarrow> (string \<times> string) list \<Rightarrow> commitRecord list \<times> string list \<times> go_err" where
  "chain_of_files caseID fs =
     (let (loaded, malformed) = sort_commit_files caseID fs in
      chain_prefix caseID malformed [] (sort_key (\<lambda>(r, n). rec_Sequence r) loaded))"

section \<open>The snapshot made of the documents of a manifest\<close>

definition in_dir :: "string \<Rightarrow> string \<Rightarrow> bool" where
  "in_dir dir rel \<longleftrightarrow> has_prefix dir rel \<and> has_suffix ''.json'' rel"

definition load_document ::
    "(string \<Rightarrow> string result) \<Rightarrow> string \<Rightarrow> string \<Rightarrow> 'a decoder \<Rightarrow> 'a \<Rightarrow> ('a \<Rightarrow> go_err) \<Rightarrow> ('a \<Rightarrow> string) \<Rightarrow> string \<Rightarrow> 'a result" where
  "load_document read rel dir dec z validate ident mismatch =
     bindE (read rel) (\<lambda>raw.
     bindE (map_error (\<lambda>e. Errorf ''%s: %w'' [GStr rel, GWrap e]) (DecodeAndValidateJSON dec z validate raw)) (\<lambda>x.
     if rel \<noteq> dir @ ident x @ ''.json'' then Inl (integrity mismatch [GStr rel, GStr (ident x)])
     else Inr x))"

definition load_entry :: "(string \<Rightarrow> string result) \<Rightarrow> Snapshot \<Rightarrow> snapshotDocumentEntry \<Rightarrow> Snapshot result" where
  "load_entry read s d =
     (let rel = sde_RelativePath d in
      if rel = ''case-manifest.json'' then Inr s
      else if rel = ''case-workflow-state.json'' then
        bindE (read rel) (\<lambda>raw.
        bindE (map_error (\<lambda>e. Errorf ''%s: %w'' [GStr rel, GWrap e])
                 (DecodeAndValidateJSON dec_CaseWorkflowState zero_CaseWorkflowState CaseWorkflowState_Validate raw))
          (\<lambda>w. Inr (s\<lparr>snap_WorkflowState := Some w\<rparr>)))
      else if in_dir ''targets/'' rel then
        bindE (load_document read rel ''targets/'' dec_Target zero_Target Target_Validate tg_TargetID ''target path %q does not match target_id %q'')
          (\<lambda>x. Inr (s\<lparr>snap_Targets := snap_Targets s @ [x]\<rparr>))
      else if in_dir ''evidence/'' rel then
        bindE (load_document read rel ''evidence/'' dec_EvidenceBundle zero_EvidenceBundle EvidenceBundle_Validate ev_EvidenceID ''evidence path %q does not match evidence_id %q'')
          (\<lambda>x. Inr (s\<lparr>snap_EvidenceBundles := snap_EvidenceBundles s @ [x]\<rparr>))
      else if in_dir ''findings/'' rel then
        bindE (load_document read rel ''findings/'' dec_Finding zero_Finding Finding_Validate fnd_FindingID ''finding path %q does not match finding_id %q'')
          (\<lambda>x. Inr (s\<lparr>snap_Findings := snap_Findings s @ [x]\<rparr>))
      else if in_dir ''plans/'' rel then
        bindE (load_document read rel ''plans/'' dec_RepairPlan zero_RepairPlan RepairPlan_Validate pln_PlanID ''plan path %q does not match plan_id %q'')
          (\<lambda>x. Inr (s\<lparr>snap_RepairPlans := snap_RepairPlans s @ [x]\<rparr>))
      else if in_dir ''executions/'' rel then
        bindE (load_document read rel ''executions/'' dec_ExecutionEvent zero_ExecutionEvent ExecutionEvent_Validate ex_ExecutionID ''execution path %q does not match execution_id %q'')
          (\<lambda>x. Inr (s\<lparr>snap_ExecutionEvents := snap_ExecutionEvents s @ [x]\<rparr>))
      else if in_dir ''verifications/'' rel then
        bindE (load_document read rel ''verifications/'' dec_VerificationReport zero_VerificationReport VerificationReport_Validate vr_VerificationID ''verification path %q does not match verification_id %q'')
          (\<lambda>x. Inr (s\<lparr>snap_VerificationReports := snap_VerificationReports s @ [x]\<rparr>))
      else if in_dir ''coordinator-events/'' rel then
        bindE (load_document read rel ''coordinator-events/'' dec_CoordinatorEvent zero_CoordinatorEvent CoordinatorEvent_Validate we_EventID ''coordinator-event path %q does not match event_id %q'')
          (\<lambda>x. Inr (s\<lparr>snap_CoordinatorEvents := snap_CoordinatorEvents s @ [x]\<rparr>))
      else if in_dir ''evidence-acquisitions/'' rel then
        bindE (load_document read rel ''evidence-acquisitions/'' dec_EvidenceAcquisitionRecord zero_EvidenceAcquisitionRecord EvidenceAcquisitionRecord_Validate acq_AcquisitionID ''evidence-acquisition path %q does not match acquisition_id %q'')
          (\<lambda>x. Inr (s\<lparr>snap_EvidenceAcquisitions := snap_EvidenceAcquisitions s @ [x]\<rparr>))
      else if in_dir ''agent-consultations/'' rel then
        bindE (load_document read rel ''agent-consultations/'' dec_AgentConsultation zero_AgentConsultation AgentConsultation_Validate con_ConsultationID ''agent-consultation path %q does not match consultation_id %q'')
          (\<lambda>x. Inr (s\<lparr>snap_AgentConsultations := snap_AgentConsultations s @ [x]\<rparr>))
      else Inl (integrity ''unsupported document path %q'' [GStr rel]))"

fun load_entries :: "(string \<Rightarrow> string result) \<Rightarrow> Snapshot \<Rightarrow> snapshotDocumentEntry list \<Rightarrow> Snapshot result" where
  "load_entries read s [] = Inr s"
| "load_entries read s (d # ds) = bindE (load_entry read s d) (\<lambda>s'. load_entries read s' ds)"

definition empty_snapshot :: "CaseManifest \<Rightarrow> Snapshot" where
  "empty_snapshot c =
     \<lparr>snap_Case = c, snap_Targets = [], snap_EvidenceBundles = [], snap_Findings = [], snap_RepairPlans = [],
      snap_ExecutionEvents = [], snap_VerificationReports = [], snap_WorkflowState = None,
      snap_CoordinatorEvents = [], snap_EvidenceAcquisitions = [], snap_AgentConsultations = []\<rparr>"

definition sorted_snapshot :: "Snapshot \<Rightarrow> Snapshot" where
  "sorted_snapshot s = s\<lparr>
       snap_Targets := sort_key tg_TargetID (snap_Targets s),
       snap_EvidenceBundles := sort_key ev_EvidenceID (snap_EvidenceBundles s),
       snap_Findings := sort_key fnd_FindingID (snap_Findings s),
       snap_RepairPlans := sort_key pln_PlanID (snap_RepairPlans s),
       snap_ExecutionEvents := sort_key ex_ExecutionID (snap_ExecutionEvents s),
       snap_VerificationReports := sort_key vr_VerificationID (snap_VerificationReports s),
       snap_CoordinatorEvents := sort_key we_EventID (snap_CoordinatorEvents s),
       snap_EvidenceAcquisitions := sort_key acq_AcquisitionID (snap_EvidenceAcquisitions s),
       snap_AgentConsultations := sort_key con_ConsultationID (snap_AgentConsultations s)\<rparr>"

definition assemble_snapshot :: "(string \<Rightarrow> string result) \<Rightarrow> snapshotManifest \<Rightarrow> Snapshot result" where
  "assemble_snapshot read m =
     bindE (read ''case-manifest.json'') (\<lambda>raw.
     bindE (map_error (\<lambda>e. Errorf ''case-manifest: %w'' [GWrap e])
              (DecodeAndValidateJSON dec_CaseManifest zero_CaseManifest CaseManifest_Validate raw)) (\<lambda>c.
     bindE (load_entries read (empty_snapshot c) (elems (smf_Documents m))) (\<lambda>s.
     let s' = sorted_snapshot s in
     check_then (Snapshot_Validate False s')
       (check_then (compareManifestArtifacts m s')
         (check_then (compareCanonicalDocuments m s') (Inr s'))))))"

end
