(* ===== verification/CaseFiles.thy ===== *)
theory CaseFiles
  imports Coordinator CaseManifests
begin

text \<open>
  The file system the case store works on and the operations of \<^verbatim>\<open>os\<close> it uses, with the
  exclusive writes of \<^verbatim>\<open>atomic.go\<close> and the path checks of \<^verbatim>\<open>paths.go\<close> (Unix build). A tree of
  directories, files and symbolic links is an association list from absolute paths, as lists of
  components. Every call that changes the tree, syncs it or closes a file consumes one entry of a
  schedule of faults: it then fails with that error and changes nothing (a write may have written a
  part, a recursive removal may have removed a part). A crash is the schedule in which every later
  call fails. What a sync makes durable is not modelled: a call that returned has taken effect.
\<close>

section \<open>The tree\<close>

type_synonym path = "string list"

text \<open>A link carries the bytes of the file it leads to, if it leads to one.\<close>

datatype node = Dir | File string | Link "string option"

type_synonym files = "(path \<times> node) list"

definition look :: "files \<Rightarrow> path \<Rightarrow> node option" where
  "look fs p = map_of fs p"

definition put :: "path \<Rightarrow> node \<Rightarrow> files \<Rightarrow> files" where
  "put p n fs = (p, n) # filter (\<lambda>e. fst e \<noteq> p) fs"

definition under :: "path \<Rightarrow> path \<Rightarrow> bool" where
  "under d p \<longleftrightarrow> take (length d) p = d"

definition remove_tree :: "path \<Rightarrow> files \<Rightarrow> files" where
  "remove_tree d fs = filter (\<lambda>e. \<not> under d (fst e)) fs"

definition child :: "path \<Rightarrow> path \<Rightarrow> bool" where
  "child d p \<longleftrightarrow> p \<noteq> [] \<and> butlast p = d"

text \<open>\<^verbatim>\<open>os.ReadDir\<close>: the names, sorted. \<^verbatim>\<open>filepath.Walk\<close> visits a tree in the lexical order of its paths.\<close>

definition dir_names :: "files \<Rightarrow> path \<Rightarrow> string list" where
  "dir_names fs d = sort (remdups (map (last \<circ> fst) (filter (\<lambda>e. child d (fst e)) fs)))"

definition walk :: "files \<Rightarrow> path \<Rightarrow> path list" where
  "walk fs d = sort (remdups (map fst (filter (\<lambda>e. under d (fst e)) fs)))"

section \<open>Paths\<close>

text \<open>\<^verbatim>\<open>filepath.Join\<close> of a clean absolute path and a relative one, cleaned.\<close>

definition clean_step :: "path \<Rightarrow> string \<Rightarrow> path" where
  "clean_step p c = (if c = [] \<or> c = ''.'' then p else if c = ''..'' then butlast p else p @ [c])"

definition join_path :: "path \<Rightarrow> string \<Rightarrow> path" where
  "join_path p rel = foldl clean_step p (split_slash rel)"

definition parent_dir :: "path \<Rightarrow> path" where
  "parent_dir p = butlast p"

section \<open>Errors of the operating system\<close>

definition path_error :: "string \<Rightarrow> path \<Rightarrow> go_error" where
  "path_error code p = ErrStruct ''fs.PathError'' [(''Path'', GStrs p), (''Err'', GStr code)]"

definition os_error_is :: "string \<Rightarrow> go_error \<Rightarrow> bool" where
  "os_error_is code e = (case e of
     ErrStruct name fs \<Rightarrow> name = ''fs.PathError'' \<and> map_of fs ''Err'' = Some (GStr code)
   | _ \<Rightarrow> False)"

definition IsExist :: "go_error \<Rightarrow> bool" where
  "IsExist e \<longleftrightarrow> os_error_is ''EEXIST'' e \<or> os_error_is ''ENOTEMPTY'' e"

definition IsNotExist :: "go_error \<Rightarrow> bool" where
  "IsNotExist e \<longleftrightarrow> os_error_is ''ENOENT'' e"

section \<open>Reading\<close>

definition Lstat :: "files \<Rightarrow> path \<Rightarrow> node result" where
  "Lstat fs p = (if p = [] then Inr Dir
     else case look fs p of None \<Rightarrow> Inl (path_error ''ENOENT'' p) | Some n \<Rightarrow> Inr n)"

definition ReadFile :: "files \<Rightarrow> path \<Rightarrow> string result" where
  "ReadFile fs p = (case look fs p of
     Some (File b) \<Rightarrow> Inr b
   | Some (Link (Some b)) \<Rightarrow> Inr b
   | Some (Link None) \<Rightarrow> Inl (path_error ''ENOENT'' p)
   | Some Dir \<Rightarrow> Inl (path_error ''EISDIR'' p)
   | None \<Rightarrow> Inl (path_error ''ENOENT'' p))"

definition ReadDir :: "files \<Rightarrow> path \<Rightarrow> string list result" where
  "ReadDir fs p = (case Lstat fs p of
     Inl e \<Rightarrow> Inl e
   | Inr n \<Rightarrow> if n = Dir then Inr (dir_names fs p) else Inl (path_error ''ENOTDIR'' p))"

section \<open>The world of the store\<close>

text \<open>
  \<open>w_faults\<close> is the schedule: \<open>None\<close> lets a call through, \<open>Some (e, n)\<close> fails it with \<open>e\<close> after \<open>n\<close>
  bytes or files; calls beyond its end succeed. \<open>w_ctx\<close> are the values successive calls of
  \<^verbatim>\<open>ctx.Err()\<close> return (nil beyond its end), \<open>w_held\<close> the lock files another process holds.
\<close>

type_synonym fault = "(go_error \<times> nat) option"

record world =
  w_files :: files
  w_faults :: "fault list"
  w_entropy :: string
  w_ctx :: "go_err list"
  w_held :: "path list"
  w_clock :: instant

type_synonym 'a io = "(world, 'a) act"

definition next_fault :: "world \<Rightarrow> fault \<times> world" where
  "next_fault w = (case w_faults w of [] \<Rightarrow> (None, w) | f # fs \<Rightarrow> (f, w\<lparr>w_faults := fs\<rparr>))"

text \<open>A call with the schedule: \<open>done\<close> is its effect, \<open>part n\<close> what is left of it when it fails.\<close>

definition os_call :: "(files \<Rightarrow> files result) \<Rightarrow> (nat \<Rightarrow> files \<Rightarrow> files) \<Rightarrow> unit io" where
  "os_call done part w =
     (case next_fault w of
        (Some (e, n), v) \<Rightarrow> (Inl e, v\<lparr>w_files := part n (w_files v)\<rparr>)
      | (None, v) \<Rightarrow>
          (case done (w_files v) of
             Inl e \<Rightarrow> (Inl e, v)
           | Inr fs \<Rightarrow> (Inr (), v\<lparr>w_files := fs\<rparr>)))"

abbreviation os_atomic :: "(files \<Rightarrow> files result) \<Rightarrow> unit io" where
  "os_atomic done \<equiv> os_call done (\<lambda>_ fs. fs)"

definition files_of :: "(files \<Rightarrow> 'a) \<Rightarrow> 'a io" where
  "files_of f w = (Inr (f (w_files w)), w)"

definition with_files :: "(files \<Rightarrow> 'a result) \<Rightarrow> 'a io" where
  "with_files f w = (f (w_files w), w)"

definition check_files :: "(files \<Rightarrow> go_err) \<Rightarrow> unit io" where
  "check_files f w = check_act (f (w_files w)) w"

definition ctx_Err :: "unit io" where
  "ctx_Err w = (case w_ctx w of [] \<Rightarrow> (Inr (), w)
     | e # es \<Rightarrow> check_act e (w\<lparr>w_ctx := es\<rparr>))"

text \<open>\<^verbatim>\<open>randomHex\<close>\<close>

definition randomHex :: "nat \<Rightarrow> string io" where
  "randomHex n w =
     (if length (w_entropy w) < n then (Inl (Sentinel ''unexpected EOF''), w\<lparr>w_entropy := []\<rparr>)
      else (Inr (hex_encode (map of_char (take n (w_entropy w)))), w\<lparr>w_entropy := drop n (w_entropy w)\<rparr>))"

text \<open>An error path that runs a clean-up whose own errors are dropped.\<close>

definition cleanup_on_error :: "'a io \<Rightarrow> unit io \<Rightarrow> 'a io" where
  "cleanup_on_error m c w =
     (case m w of (Inr x, v) \<Rightarrow> (Inr x, v) | (Inl e, v) \<Rightarrow> (Inl e, snd (c v)))"

definition ignore_error :: "unit io \<Rightarrow> unit io" where
  "ignore_error m w = (Inr (), snd (m w))"

section \<open>Changing the tree\<close>

definition parent_ok :: "files \<Rightarrow> path \<Rightarrow> go_err" where
  "parent_ok fs p = (case Lstat fs (parent_dir p) of
     Inl e \<Rightarrow> Some e | Inr n \<Rightarrow> err_if (n \<noteq> Dir) (path_error ''ENOTDIR'' p))"

definition Mkdir :: "path \<Rightarrow> unit io" where
  "Mkdir p = os_atomic (\<lambda>fs. check_then (parent_ok fs p)
     (if p = [] \<or> look fs p \<noteq> None then Inl (path_error ''EEXIST'' p) else Inr (put p Dir fs)))"

definition create_excl :: "path \<Rightarrow> unit io" where
  "create_excl p = os_atomic (\<lambda>fs. check_then (parent_ok fs p)
     (if p = [] \<or> look fs p \<noteq> None then Inl (path_error ''EEXIST'' p) else Inr (put p (File []) fs)))"

text \<open>
  A write of \<open>data\<close> through the descriptor of the file just created at \<open>p\<close>; the file may hold a part
  of it after an error.
\<close>

definition write_to :: "path \<Rightarrow> string \<Rightarrow> files \<Rightarrow> files" where
  "write_to p data fs = (case look fs p of Some (File _) \<Rightarrow> put p (File data) fs | _ \<Rightarrow> fs)"

definition write_file :: "path \<Rightarrow> string \<Rightarrow> unit io" where
  "write_file p data = os_call (\<lambda>fs. Inr (write_to p data fs)) (\<lambda>n fs. write_to p (take n data) fs)"

definition sync_or_close :: "unit io" where
  "sync_or_close = os_atomic Inr"

definition move_tree :: "path \<Rightarrow> path \<Rightarrow> files \<Rightarrow> files" where
  "move_tree a b fs =
     map (\<lambda>(p, n). if under a p then (b @ drop (length a) p, n) else (p, n)) (remove_tree b fs)"

definition Rename :: "path \<Rightarrow> path \<Rightarrow> unit io" where
  "Rename a b = os_atomic (\<lambda>fs.
     case look fs a of
       None \<Rightarrow> Inl (path_error ''ENOENT'' a)
     | Some n \<Rightarrow> check_then (parent_ok fs b)
         (if a = b then Inr fs
          else if under a b \<or> under b a then Inl (path_error ''EINVAL'' b)
          else if n = Dir then
            (case look fs b of
               None \<Rightarrow> Inr (move_tree a b fs)
             | Some Dir \<Rightarrow> if dir_names fs b = [] then Inr (move_tree a b fs) else Inl (path_error ''ENOTEMPTY'' b)
             | Some _ \<Rightarrow> Inl (path_error ''ENOTDIR'' b))
          else if b = [] \<or> look fs b = Some Dir then Inl (path_error ''EISDIR'' b)
          else Inr (move_tree a b fs)))"

definition Remove :: "path \<Rightarrow> unit io" where
  "Remove p = os_atomic (\<lambda>fs.
     case look fs p of
       None \<Rightarrow> Inl (path_error ''ENOENT'' p)
     | Some n \<Rightarrow> if n = Dir \<and> dir_names fs p \<noteq> [] then Inl (path_error ''ENOTEMPTY'' p)
                 else Inr (remove_tree p fs))"

text \<open>The removal of a tree goes from the leaves up: after an error the last \<open>n\<close> paths are gone.\<close>

definition RemoveAll :: "path \<Rightarrow> unit io" where
  "RemoveAll p = os_call (\<lambda>fs. Inr (remove_tree p fs))
     (\<lambda>n fs. let gone = take n (rev (walk fs p)) in filter (\<lambda>e. fst e \<notin> set gone) fs)"

text \<open>\<^verbatim>\<open>os.MkdirAll\<close>: every missing directory from the top down.\<close>

definition mkdir_step :: "path \<Rightarrow> unit io" where
  "mkdir_step p = andThen (files_of (\<lambda>fs. Lstat fs p)) (\<lambda>st.
     case st of
       Inr n \<Rightarrow> check_act (err_if (n \<noteq> Dir) (path_error ''ENOTDIR'' p))
     | Inl _ \<Rightarrow> Mkdir p)"

fun each_act :: "('a \<Rightarrow> unit io) \<Rightarrow> 'a list \<Rightarrow> unit io" where
  "each_act f [] = ret ()"
| "each_act f (x # xs) = andThen (f x) (\<lambda>_. each_act f xs)"

definition prefixes :: "path \<Rightarrow> path list" where
  "prefixes p = map (\<lambda>i. take i p) [1..<Suc (length p)]"

definition MkdirAll :: "path \<Rightarrow> unit io" where
  "MkdirAll p = each_act mkdir_step (prefixes p)"

section \<open>Checks of paths\<close>

text \<open>\<^verbatim>\<open>ensureNotReparsePoint\<close>\<close>

definition ensureNotSymlink :: "files \<Rightarrow> path \<Rightarrow> go_err" where
  "ensureNotSymlink fs p = (case Lstat fs p of
     Inl e \<Rightarrow> if IsNotExist e then None else Some e
   | Inr n \<Rightarrow> (case n of Link _ \<Rightarrow> Some (Errorf ''%w: symlink not allowed at %s'' [GWrap ErrPathUnsafe, GStrs p])
               | _ \<Rightarrow> None))"

definition ensureUnderRoot :: "path \<Rightarrow> path \<Rightarrow> go_err" where
  "ensureUnderRoot root p =
     err_if (\<not> under root p) (Errorf ''%w: path %q escapes store root'' [GWrap ErrPathUnsafe, GStrs p])"

text \<open>The walk from the path up to the root; the path lies under the root when it starts.\<close>

function walk_up :: "files \<Rightarrow> path \<Rightarrow> path \<Rightarrow> go_err" where
  "walk_up fs root p =
     (case ensureNotSymlink fs p of
        Some e \<Rightarrow> Some e
      | None \<Rightarrow>
          if p = root then None
          else if p = [] then Some (Errorf ''%w: path %q escaped while walking ancestors'' [GWrap ErrPathUnsafe, GStrs p])
          else if \<not> under root (parent_dir p)
          then Some (Errorf ''%w: ancestor walk escaped store root for %q'' [GWrap ErrPathUnsafe, GStrs p])
          else walk_up fs root (parent_dir p))"
  by pat_completeness auto
termination by (relation "measure (\<lambda>(fs, root, p). length p)") (auto simp: parent_dir_def)

declare walk_up.simps [simp del]

definition ensureManagedPath :: "files \<Rightarrow> path \<Rightarrow> path \<Rightarrow> go_err" where
  "ensureManagedPath fs root p = first_err [ensureUnderRoot root p, walk_up fs root p]"

section \<open>Exclusive writes\<close>

definition try_act :: "('w, 'a) act \<Rightarrow> ('a \<Rightarrow> ('w, 'b) act) \<Rightarrow> (go_error \<Rightarrow> ('w, 'b) act) \<Rightarrow> ('w, 'b) act" where
  "try_act m f h w = (case m w of (Inr x, v) \<Rightarrow> f x v | (Inl e, v) \<Rightarrow> h e v)"

definition syncDir :: "path \<Rightarrow> unit io" where
  "syncDir d = andThen (check_files (\<lambda>fs. case Lstat fs d of Inl e \<Rightarrow> Some e | Inr _ \<Rightarrow> None)) (\<lambda>_. sync_or_close)"

definition temp_name :: "path \<Rightarrow> string \<Rightarrow> path" where
  "temp_name p suffix = parent_dir p @ [last p @ ''.'' @ suffix @ tempSuffix]"

text \<open>At most \<open>n\<close> attempts at a name nobody has.\<close>

fun create_temp :: "nat \<Rightarrow> path \<Rightarrow> path io" where
  "create_temp 0 p = fail_with (Errorf ''casestore: unable to create exclusive temp file for %s'' [GStrs p])"
| "create_temp (Suc n) p =
     andThen (randomHex 8) (\<lambda>suffix.
       let tmp = temp_name p suffix in
       try_act (create_excl tmp) (\<lambda>_. ret tmp) (\<lambda>e. if IsExist e then create_temp n p else fail_with e))"

definition close_and_remove :: "path \<Rightarrow> unit io" where
  "close_and_remove tmp = andThen (ignore_error sync_or_close) (\<lambda>_. ignore_error (Remove tmp))"

definition rename_or_remove :: "path \<Rightarrow> path \<Rightarrow> unit io" where
  "rename_or_remove tmp p = cleanup_on_error (Rename tmp p) (Remove tmp)"

definition writeFileExclusiveRename :: "path \<Rightarrow> string \<Rightarrow> unit io" where
  "writeFileExclusiveRename p data =
     andThen (MkdirAll (parent_dir p)) (\<lambda>_.
     andThen (check_files (\<lambda>fs. ensureNotSymlink fs (parent_dir p))) (\<lambda>_.
     andThen (create_temp 8 p) (\<lambda>tmp.
     andThen (cleanup_on_error
         (andThen (if data = [] then ret () else write_file tmp data) (\<lambda>_.
          andThen sync_or_close (\<lambda>_. sync_or_close)))
         (close_and_remove tmp)) (\<lambda>_.
     rename_or_remove tmp p))))"

definition writeFileDurable :: "path \<Rightarrow> string \<Rightarrow> unit io" where
  "writeFileDurable p data = andThen (writeFileExclusiveRename p data) (\<lambda>_. syncDir (parent_dir p))"

definition renameDurable :: "path \<Rightarrow> path \<Rightarrow> unit io" where
  "renameDurable a b = andThen (Rename a b) (\<lambda>_. syncDir (parent_dir b))"

end
