(* ===== verification/CaseStore.thy ===== *)
theory CaseStore
  imports CaseFiles
begin

text \<open>
  The case store (\<^verbatim>\<open>store.go\<close>, \<^verbatim>\<open>load.go\<close>, \<^verbatim>\<open>commit.go\<close>, \<^verbatim>\<open>hooks.go\<close> of
  \<^verbatim>\<open>internal/recovery/casestore\<close>): opening it, the directories of a case and its lock, loading a
  snapshot and a chain of commits, and committing a snapshot. Reading is a function of the tree;
  what changes it is an action of the world. On Unix a sync gives no durability warning, so the
  lists of warnings are left out and a commit reports none.
\<close>

section \<open>The store and its directories\<close>

record Store =
  st_root :: path
  st_failureCheckpoint :: string
  st_failureHook :: "string \<Rightarrow> go_err"

definition injectedFailureError :: "string \<Rightarrow> go_error" where
  "injectedFailureError cp = ErrStruct ''casestore.injectedFailureError'' [(''checkpoint'', GStr cp)]"

definition maybeFail :: "Store \<Rightarrow> string \<Rightarrow> go_err" where
  "maybeFail st cp = first_err
     [st_failureHook st cp,
      err_if (st_failureCheckpoint st \<noteq> [] \<and> st_failureCheckpoint st = cp) (injectedFailureError cp)]"

definition casesRoot :: "Store \<Rightarrow> path" where
  "casesRoot st = join_path (st_root st) ''cases''"

definition caseDir :: "Store \<Rightarrow> string \<Rightarrow> path" where
  "caseDir st c = join_path (casesRoot st) c"

definition snapshotsDir :: "Store \<Rightarrow> string \<Rightarrow> path" where
  "snapshotsDir st c = join_path (caseDir st c) ''snapshots''"

definition snapshotDir :: "Store \<Rightarrow> string \<Rightarrow> string \<Rightarrow> path" where
  "snapshotDir st c sid = join_path (snapshotsDir st c) sid"

definition commitsDir :: "Store \<Rightarrow> string \<Rightarrow> path" where
  "commitsDir st c = join_path (caseDir st c) ''commits''"

definition stagingDir :: "Store \<Rightarrow> string \<Rightarrow> path" where
  "stagingDir st c = join_path (caseDir st c) ''staging''"

definition artifactsDir :: "Store \<Rightarrow> string \<Rightarrow> path" where
  "artifactsDir st c = join_path (join_path (caseDir st c) ''artifacts'') ''sha256''"

definition lockPath :: "Store \<Rightarrow> string \<Rightarrow> path" where
  "lockPath st c = join_path (caseDir st c) ''case.lock''"

definition blobAbsPath :: "Store \<Rightarrow> string \<Rightarrow> string \<Rightarrow> path" where
  "blobAbsPath st c sha = join_path (caseDir st c) (blobRelativePath sha)"

abbreviation managed :: "Store \<Rightarrow> path \<Rightarrow> files \<Rightarrow> go_err" where
  "managed st p fs \<equiv> ensureManagedPath fs (st_root st) p"

text \<open>The error of a check, unless it is that the path does not exist.\<close>

definition unless_missing :: "go_err \<Rightarrow> go_err" where
  "unless_missing e = (case e of Some x \<Rightarrow> if IsNotExist x then None else Some x | None \<Rightarrow> None)"

definition not_a_directory :: "path \<Rightarrow> go_error" where
  "not_a_directory p = Errorf ''%w: managed path %q is not a directory'' [GWrap ErrPathUnsafe, GStrs p]"

definition syncDirChecked :: "Store \<Rightarrow> path \<Rightarrow> string \<Rightarrow> unit io" where
  "syncDirChecked st d cp =
     andThen (check_act (if cp \<noteq> [] then maybeFail st cp else None)) (\<lambda>_. syncDir d)"

function ensureManagedDir :: "Store \<Rightarrow> path \<Rightarrow> string \<Rightarrow> unit io" where
  "ensureManagedDir st p cp =
     andThen (check_act (ensureUnderRoot (st_root st) p)) (\<lambda>_.
     andThen (check_files (\<lambda>fs. unless_missing (managed st p fs))) (\<lambda>_.
     andThen (files_of (\<lambda>fs. Lstat fs p)) (\<lambda>found.
     case found of
       Inr n \<Rightarrow> andThen (check_files (managed st p)) (\<lambda>_. check_act (err_if (n \<noteq> Dir) (not_a_directory p)))
     | Inl e \<Rightarrow>
         if \<not> IsNotExist e then fail_with e
         else
           andThen (if parent_dir p \<noteq> p \<and> parent_dir p \<noteq> st_root st
                    then ensureManagedDir st (parent_dir p) cp else ret ()) (\<lambda>_.
           andThen (check_files (managed st (parent_dir p))) (\<lambda>_.
           try_act (Mkdir p)
             (\<lambda>_. andThen (syncDirChecked st (parent_dir p) cp) (\<lambda>_. check_files (managed st p)))
             (\<lambda>x. if \<not> IsExist x then fail_with x
                  else andThen (with_files (\<lambda>fs. Lstat fs p)) (\<lambda>n.
                       andThen (check_act (err_if (n \<noteq> Dir) (not_a_directory p))) (\<lambda>_.
                       check_files (managed st p)))))))))"
  by pat_completeness auto
termination
proof (relation "measure (\<lambda>(st, p, cp). length p)", goal_cases)
  case (2 st p cp)
  then show ?case by (cases p) (auto simp: parent_dir_def)
qed simp

declare ensureManagedDir.simps [simp del]

text \<open>\<^verbatim>\<open>Open\<close>, for an absolute root.\<close>

definition Open :: "path \<Rightarrow> Store io" where
  "Open root =
     (let st = \<lparr>st_root = root, st_failureCheckpoint = [], st_failureHook = \<lambda>_. None\<rparr> in
      andThen (with_files (\<lambda>fs. map_error (\<lambda>e. invalid ''root %q: %v'' [GStrs root, GVal e]) (Lstat fs root))) (\<lambda>n.
      andThen (check_act (err_if (n \<noteq> Dir) (invalid ''root %q is not a directory'' [GStrs root]))) (\<lambda>_.
      andThen (check_files (\<lambda>fs. ensureNotSymlink fs root)) (\<lambda>_.
      andThen (ensureManagedDir st (casesRoot st) ''before_cases_parent_sync'') (\<lambda>_.
      andThen (check_files (managed st (casesRoot st))) (\<lambda>_.
      ret st))))))"

definition case_paths :: "Store \<Rightarrow> string \<Rightarrow> path list" where
  "case_paths st c = [caseDir st c, snapshotsDir st c, commitsDir st c, stagingDir st c, artifactsDir st c]"

definition ensureCaseTreeSafe :: "Store \<Rightarrow> string \<Rightarrow> files \<Rightarrow> go_err" where
  "ensureCaseTreeSafe st c fs = first_err
     [validateCaseID c, each (\<lambda>_ p. managed st p fs) (case_paths st c)]"

definition case_checkpoints :: "string list" where
  "case_checkpoints =
     [''before_case_directory_parent_sync'', ''before_snapshots_directory_parent_sync'',
      ''before_commits_directory_parent_sync'', ''before_staging_directory_parent_sync'',
      ''before_artifacts_directory_parent_sync'']"

definition ensureCaseDirs :: "Store \<Rightarrow> string \<Rightarrow> unit io" where
  "ensureCaseDirs st c =
     andThen (check_act (validateCaseID c)) (\<lambda>_.
     andThen (check_files (\<lambda>fs. each (\<lambda>_ p. unless_missing (managed st p fs)) (case_paths st c))) (\<lambda>_.
     each_act (\<lambda>(p, cp). ensureManagedDir st p cp) (zip (case_paths st c) case_checkpoints)))"

section \<open>The lock of a case\<close>

text \<open>\<^verbatim>\<open>lock_unix.go\<close>: the lock file is created, then locked without waiting.\<close>

definition open_lock_file :: "path \<Rightarrow> unit io" where
  "open_lock_file p = os_atomic (\<lambda>fs.
     case look fs p of
       Some (File _) \<Rightarrow> Inr fs
     | Some (Link (Some _)) \<Rightarrow> Inr fs
     | Some (Link None) \<Rightarrow> Inl (path_error ''ENOENT'' p)
     | Some Dir \<Rightarrow> Inl (path_error ''EISDIR'' p)
     | None \<Rightarrow> check_then (parent_ok fs p) (Inr (put p (File []) fs)))"

definition flock :: "path \<Rightarrow> unit io" where
  "flock p w = (if p \<in> set (w_held w) then (Inl ErrCaseLocked, w) else (Inr (), w\<lparr>w_held := p # w_held w\<rparr>))"

definition unlock :: "path \<Rightarrow> unit io" where
  "unlock p w = (Inr (), w\<lparr>w_held := remove1 p (w_held w)\<rparr>)"

definition acquireCaseLock :: "path \<Rightarrow> unit io" where
  "acquireCaseLock p =
     andThen (MkdirAll (parent_dir p)) (\<lambda>_.
     andThen (open_lock_file p) (\<lambda>_.
     andThen (on_error sync_or_close (\<lambda>e. fail_with (Errorf ''casestore: flock: %w'' [GWrap e]))) (\<lambda>_.
     flock p)))"

definition withCaseLock :: "Store \<Rightarrow> string \<Rightarrow> 'a io \<Rightarrow> 'a io" where
  "withCaseLock st c m =
     andThen (check_files (managed st (lockPath st c))) (\<lambda>_.
     andThen (acquireCaseLock (lockPath st c)) (\<lambda>_ w.
       case m w of (r, v) \<Rightarrow> (r, snd (unlock (lockPath st c) v))))"

section \<open>Loading\<close>

definition verifyBlobFile :: "files \<Rightarrow> path \<Rightarrow> string \<Rightarrow> int \<Rightarrow> bool result" where
  "verifyBlobFile fs p sha want =
     bindE (ReadFile fs p) (\<lambda>b. Inr (int (length b) = want \<and> sha256Hex b = sha))"

fun slash_join :: "path \<Rightarrow> string" where
  "slash_join [] = ''.''"
| "slash_join [c] = c"
| "slash_join (c # d # p) = c @ ''/'' @ slash_join (d # p)"

text \<open>The walk over the documents: every file is listed, with its size and digest. It returns what it found.\<close>

fun check_tree :: "Store \<Rightarrow> files \<Rightarrow> path \<Rightarrow> snapshotDocumentEntry list \<Rightarrow> path list \<Rightarrow> string list result" where
  "check_tree st fs docsDir entries [] = Inr []"
| "check_tree st fs docsDir entries (p # ps) =
     check_then (managed st p fs)
       (if look fs p = Some Dir then check_tree st fs docsDir entries ps
        else
          let rel = slash_join (drop (length docsDir) p) in
          case List.find (\<lambda>d. sde_RelativePath d = rel) (rev entries) of
            None \<Rightarrow> Inl (integrity ''unexpected document file %s'' [GStr rel])
          | Some d \<Rightarrow>
              bindE (ReadFile fs p) (\<lambda>raw.
              if int (length raw) \<noteq> sde_SizeBytes d then Inl (integrity ''document %s size mismatch'' [GStr rel])
              else if sha256Hex raw \<noteq> sde_SHA256 d then Inl (integrity ''document %s hash mismatch'' [GStr rel])
              else bindE (check_tree st fs docsDir entries ps) (\<lambda>found. Inr (rel # found))))"

definition walk_documents :: "Store \<Rightarrow> files \<Rightarrow> path \<Rightarrow> snapshotDocumentEntry list \<Rightarrow> string list result" where
  "walk_documents st fs docsDir entries =
     (case Lstat fs docsDir of Inl e \<Rightarrow> Inl e
      | Inr _ \<Rightarrow> check_tree st fs docsDir entries (walk fs docsDir))"

definition check_blob :: "Store \<Rightarrow> files \<Rightarrow> string \<Rightarrow> snapshotArtifactEntry \<Rightarrow> go_err" where
  "check_blob st fs c a =
     (let blob = blobAbsPath st c (sae_SHA256 a) in first_err
     [managed st (parent_dir blob) fs,
      managed st blob fs,
      (case verifyBlobFile fs blob (sae_SHA256 a) (sae_SizeBytes a) of
         Inl e \<Rightarrow> Some (Errorf ''artifact %s: %w'' [GStr (sae_ArtifactID a), GWrap e])
       | Inr ok \<Rightarrow> err_if (\<not> ok) (integrity ''artifact blob %s hash/size mismatch'' [GStr (sae_SHA256 a)]))])"

definition manifest_path :: "Store \<Rightarrow> string \<Rightarrow> string \<Rightarrow> path" where
  "manifest_path st c sid = join_path (snapshotDir st c sid) ''snapshot-manifest.json''"

definition loadSnapshotAtCommit :: "Store \<Rightarrow> files \<Rightarrow> string \<Rightarrow> commitRecord \<Rightarrow> Snapshot result" where
  "loadSnapshotAtCommit st fs c head =
     (let snapDir = snapshotDir st c (rec_SnapshotID head); docsDir = join_path snapDir ''documents'' in
      check_then (validateSnapshotID (rec_SnapshotID head))
     (check_then (managed st snapDir fs)
     (bindE (ReadFile fs (manifest_path st c (rec_SnapshotID head))) (\<lambda>raw.
      check_then (err_if (sha256Hex raw \<noteq> rec_SnapshotManifestSHA256 head) (integrity ''snapshot manifest hash mismatch'' []))
     (bindE (map_error (\<lambda>e. Errorf ''decode snapshot manifest: %w'' [GWrap e])
               (decode_document dec_snapshotManifest zero_snapshotManifest raw)) (\<lambda>m.
      check_then (validateSnapshotManifest m c (rec_CaseID head))
     (check_then (err_if (smf_SnapshotID m \<noteq> rec_SnapshotID head) (integrity ''manifest snapshot_id mismatch'' []))
     (check_then (managed st docsDir fs)
     (bindE (walk_documents st fs docsDir (elems (smf_Documents m))) (\<lambda>found.
      check_then (each (\<lambda>_ d. err_if (sde_RelativePath d \<notin> set found)
                    (integrity ''missing document %s'' [GStr (sde_RelativePath d)])) (elems (smf_Documents m)))
     (bindE (assemble_snapshot (\<lambda>rel. ReadFile fs (join_path docsDir rel)) m) (\<lambda>s.
      check_then (each (\<lambda>_ a. check_blob st fs c a) (elems (smf_Artifacts m))) (Inr s)))))))))))))"

definition commit_file :: "Store \<Rightarrow> files \<Rightarrow> string \<Rightarrow> string \<Rightarrow> (string \<times> string) result" where
  "commit_file st fs c name =
     (let p = join_path (commitsDir st c) name in
      check_then (managed st p fs)
        (bindE (map_error (\<lambda>e. IntegrityError c (GStr ''failed reading commit'') 0 [] [] e) (ReadFile fs p))
          (\<lambda>raw. Inr (name, raw))))"

definition loadCommitChainPrefix :: "Store \<Rightarrow> files \<Rightarrow> string \<Rightarrow> commitRecord list \<times> string list \<times> go_err" where
  "loadCommitChainPrefix st fs c =
     (let d = commitsDir st c in
      case unless_missing (managed st d fs) of
        Some e \<Rightarrow> ([], [], Some e)
      | None \<Rightarrow>
          (case ReadDir fs d of
             Inl e \<Rightarrow> ([], [], if IsNotExist e then None else Some e)
           | Inr names \<Rightarrow>
               (case collect_results (commit_file st fs c)
                       (filter (\<lambda>n. look fs (join_path d n) \<noteq> Some Dir \<and> final_name n) names) of
                  Inl e \<Rightarrow> ([], [], Some e)
                | Inr files \<Rightarrow> chain_of_files c files)))"

definition loadCommitChain :: "Store \<Rightarrow> files \<Rightarrow> string \<Rightarrow> commitRecord list result" where
  "loadCommitChain st fs c = (case loadCommitChainPrefix st fs c of
     (valid, _, None) \<Rightarrow> Inr valid | (_, _, Some e) \<Rightarrow> Inl e)"

definition parentString :: "string option \<Rightarrow> string" where
  "parentString p = (case p of None \<Rightarrow> [] | Some s \<Rightarrow> s)"

definition info_of :: "string \<Rightarrow> bool \<Rightarrow> commitRecord \<Rightarrow> CommitInfo" where
  "info_of c idem r =
     \<lparr>ci_CaseID = c, ci_SnapshotID = rec_SnapshotID r, ci_CommitID = rec_CommitID r,
      ci_Sequence = rec_Sequence r, ci_ParentCommitID = parentString (rec_ParentCommitID r),
      ci_CommittedAt = rec_CommittedAt r, ci_Idempotent = idem, ci_DurabilityWarnings = None\<rparr>"

text \<open>Every commit of the chain is loaded; \<open>before\<close> are those that were.\<close>

fun load_chain :: "Store \<Rightarrow> files \<Rightarrow> string \<Rightarrow> commitRecord list \<Rightarrow> commitRecord list \<Rightarrow> (Snapshot \<times> CommitInfo) result" where
  "load_chain st fs c before [] = Inl (Errorf ''%w: %s'' [GWrap ErrCaseNotFound, GStr c])"
| "load_chain st fs c before (r # rs) =
     (case loadSnapshotAtCommit st fs c r of
        Inl e \<Rightarrow> Inl (chain_error c
          (GStr (if rs = [] then ''latest committed state is corrupt; refusing automatic fallback''
                 else ''committed state is corrupt; refusing automatic fallback'')) before e)
      | Inr s \<Rightarrow> if rs = [] then Inr (s, info_of c False r) else load_chain st fs c (before @ [r]) rs)"

definition load_latest :: "Store \<Rightarrow> string \<Rightarrow> files \<Rightarrow> (Snapshot \<times> CommitInfo) result" where
  "load_latest st c fs =
     check_then (validateCaseID c)
     (check_then (ensureCaseTreeSafe st c fs)
     (bindE (loadCommitChain st fs c) (\<lambda>chain. load_chain st fs c [] chain)))"

definition LoadLatest :: "Store \<Rightarrow> string \<Rightarrow> (Snapshot \<times> CommitInfo) io" where
  "LoadLatest st c = andThen ctx_Err (\<lambda>_. with_files (load_latest st c))"

section \<open>Committing\<close>

definition CommitOutcomeUnknownError :: "string \<Rightarrow> string \<Rightarrow> go_error \<Rightarrow> go_error" where
  "CommitOutcomeUnknownError c sid cause = ErrStruct ''casestore.CommitOutcomeUnknownError''
     [(''CaseID'', GStr c), (''SnapshotID'', GStr sid), (''Cause'', GWrap cause)]"

definition verifyPublishedSnapshot :: "Store \<Rightarrow> files \<Rightarrow> string \<Rightarrow> string \<Rightarrow> string \<Rightarrow> go_err" where
  "verifyPublishedSnapshot st fs c sid manifestSHA =
     (case loadSnapshotAtCommit st fs c
             (zero_commitRecord\<lparr>rec_CaseID := c, rec_SnapshotID := sid, rec_SnapshotManifestSHA256 := manifestSHA\<rparr>) of
        Inl e \<Rightarrow> Some e | Inr _ \<Rightarrow> None)"

fun verify_history :: "Store \<Rightarrow> files \<Rightarrow> string \<Rightarrow> commitRecord list \<Rightarrow> commitRecord list \<Rightarrow> go_err" where
  "verify_history st fs c before [] = None"
| "verify_history st fs c before (r # rs) =
     (case loadSnapshotAtCommit st fs c r of
        Inl e \<Rightarrow> Some (chain_error c (GStr ''committed history is corrupt; refusing commit'') before e)
      | Inr _ \<Rightarrow> verify_history st fs c (before @ [r]) rs)"

abbreviation verifyCommittedHistory :: "Store \<Rightarrow> files \<Rightarrow> string \<Rightarrow> commitRecord list \<Rightarrow> go_err" where
  "verifyCommittedHistory st fs c chain \<equiv> verify_history st fs c [] chain"

text \<open>At most \<open>n\<close> attempts at a directory nobody has.\<close>

fun create_staging :: "nat \<Rightarrow> Store \<Rightarrow> path \<Rightarrow> path io" where
  "create_staging 0 st stageRoot =
     fail_with (Errorf ''casestore: unable to create exclusive staging directory in %s'' [GStrs stageRoot])"
| "create_staging (Suc n) st stageRoot =
     andThen (randomHex 12) (\<lambda>name.
       let stagingRoot = join_path stageRoot (''txn-'' @ name); parent = parent_dir stagingRoot in
       andThen (check_act (ensureUnderRoot (st_root st) stagingRoot)) (\<lambda>_.
       andThen (check_files (managed st parent)) (\<lambda>_.
       try_act (Mkdir stagingRoot)
         (\<lambda>_. andThen (syncDirChecked st parent ''before_staging_directory_sync'') (\<lambda>_.
              andThen (check_files (managed st stagingRoot)) (\<lambda>_.
              ret stagingRoot)))
         (\<lambda>e. if IsExist e then create_staging n st stageRoot else fail_with e))))"

definition createStagingTransaction :: "Store \<Rightarrow> string \<Rightarrow> path io" where
  "createStagingTransaction st c =
     andThen (check_files (managed st (stagingDir st c))) (\<lambda>_. create_staging 8 st (stagingDir st c))"

definition write_document :: "Store \<Rightarrow> path \<Rightarrow> preparedDocument \<Rightarrow> unit io" where
  "write_document st docsDir d =
     andThen (check_act (rejectTraversal False (pd_RelativePath d))) (\<lambda>_.
     let dest = join_path docsDir (pd_RelativePath d) in
     andThen (check_act (ensureUnderRoot (st_root st) dest)) (\<lambda>_.
     andThen (ensureManagedDir st (parent_dir dest) ''before_documents_directory_sync'') (\<lambda>_.
     writeFileDurable dest (pd_Bytes d))))"

definition copy_artifact :: "path \<Rightarrow> ArtifactRef \<Rightarrow> string \<Rightarrow> string \<Rightarrow> unit io" where
  "copy_artifact tmp ref sha bytes =
     andThen (write_file tmp bytes) (\<lambda>_.
     andThen (check_act (err_if (int (length bytes) \<noteq> art_SizeBytes ref)
        (invalid ''artifact %s size mismatch: got %d want %d'' [GStr (art_ArtifactID ref), GNat (length bytes)]))) (\<lambda>_.
     andThen (check_act (err_if (sha256Hex bytes \<noteq> sha)
        (invalid ''artifact %s sha256 mismatch: got %s want %s''
           [GStr (art_ArtifactID ref), GStr (sha256Hex bytes), GStr sha]))) (\<lambda>_.
     andThen sync_or_close (\<lambda>_. sync_or_close))))"

definition store_blob :: "Store \<Rightarrow> path \<Rightarrow> ArtifactRef \<Rightarrow> string \<Rightarrow> string \<Rightarrow> unit io" where
  "store_blob st dest ref sha bytes =
     andThen (ensureManagedDir st (parent_dir dest) ''before_artifact_hash_prefix_sync'') (\<lambda>_.
     andThen (randomHex 8) (\<lambda>suffix.
     let tmp = temp_name dest suffix in
     andThen (create_excl tmp) (\<lambda>_.
     andThen (cleanup_on_error (copy_artifact tmp ref sha bytes) (close_and_remove tmp)) (\<lambda>_.
     andThen (rename_or_remove tmp dest) (\<lambda>_.
     syncDirChecked st (parent_dir dest) ''before_artifact_blob_directory_sync'')))))"

text \<open>The blob is there already, and is checked, or is copied from the provider.\<close>

definition reuse_blob :: "Store \<Rightarrow> path \<Rightarrow> ArtifactRef \<Rightarrow> string \<Rightarrow> unit io" where
  "reuse_blob st dest ref sha =
     andThen (check_files (managed st dest)) (\<lambda>_.
     andThen (with_files (\<lambda>fs. verifyBlobFile fs dest sha (art_SizeBytes ref))) (\<lambda>ok.
     check_act (err_if (\<not> ok) (integrity ''existing blob %s failed hash/size verification'' [GStr sha]))))"

definition provide_blob :: "Store \<Rightarrow> path \<Rightarrow> ArtifactProvider \<Rightarrow> ArtifactRef \<Rightarrow> string \<Rightarrow> unit io" where
  "provide_blob st dest provider ref sha =
     (case provider of
        None \<Rightarrow> fail_with (invalid ''ArtifactProvider required for artifact %s'' [GStr (art_ArtifactID ref)])
      | Some open_artifact \<Rightarrow>
          (case open_artifact ref of
             Inl x \<Rightarrow> fail_with (Errorf ''open artifact %s: %w'' [GStr (art_ArtifactID ref), GWrap x])
           | Inr bytes \<Rightarrow> store_blob st dest ref sha bytes))"

definition ingestArtifact :: "Store \<Rightarrow> string \<Rightarrow> ArtifactProvider \<Rightarrow> ArtifactRef \<Rightarrow> unit io" where
  "ingestArtifact st c provider ref =
     (let sha = lower_string (art_SHA256 ref); dest = blobAbsPath st c sha in
      andThen (check_act (validateSHA256Hex sha)) (\<lambda>_.
      andThen (check_files (managed st dest)) (\<lambda>_.
      andThen (check_files (managed st (parent_dir dest))) (\<lambda>_.
      andThen (files_of (\<lambda>fs. Lstat fs dest)) (\<lambda>found.
      case found of
        Inr _ \<Rightarrow> reuse_blob st dest ref sha
      | Inl e \<Rightarrow> if \<not> IsNotExist e then fail_with e else provide_blob st dest provider ref sha)))))"

text \<open>The snapshot directory appears under its final name, or is the one a crash left there.\<close>

definition reuse_snapshot :: "Store \<Rightarrow> string \<Rightarrow> string \<Rightarrow> string \<Rightarrow> path \<Rightarrow> unit io" where
  "reuse_snapshot st c sid manifestBytes stagingRoot =
     andThen (check_files (managed st (snapshotDir st c sid))) (\<lambda>_.
     andThen (check_files (\<lambda>fs. wrap_err (\<lambda>x. IntegrityError c
        (GVal (Errorf ''published orphan snapshot %s failed verification; refusing commit reuse'' [GStr sid]))
        0 [] [] x) (verifyPublishedSnapshot st fs c sid (sha256Hex manifestBytes)))) (\<lambda>_.
     ignore_error (RemoveAll stagingRoot)))"

definition publish_snapshot :: "Store \<Rightarrow> string \<Rightarrow> string \<Rightarrow> string \<Rightarrow> path \<Rightarrow> unit io" where
  "publish_snapshot st c sid manifestBytes stagingRoot =
     (let final = snapshotDir st c sid in
      andThen (check_act (validateSnapshotID sid)) (\<lambda>_.
      andThen (check_act (ensureUnderRoot (st_root st) final)) (\<lambda>_.
      andThen (files_of (\<lambda>fs. Lstat fs final)) (\<lambda>found.
      case found of
        Inr _ \<Rightarrow> reuse_snapshot st c sid manifestBytes stagingRoot
      | Inl e \<Rightarrow> if IsNotExist e then renameDurable stagingRoot final else fail_with e))))"

text \<open>The staging of the documents, the artifacts and the manifest, up to the published snapshot.\<close>

definition stage_snapshot ::
    "Store \<Rightarrow> string \<Rightarrow> ArtifactProvider \<Rightarrow> preparedDocument list \<Rightarrow> ArtifactRef list \<Rightarrow> string \<Rightarrow> string \<Rightarrow> unit io" where
  "stage_snapshot st c provider docs artifacts sid manifestBytes =
     andThen (createStagingTransaction st c) (\<lambda>stagingRoot.
     andThen (check_act (maybeFail st ''after_staging_created'')) (\<lambda>_.
     andThen ctx_Err (\<lambda>_.
     let docsDir = join_path stagingRoot ''documents'' in
     andThen (ensureManagedDir st docsDir ''before_documents_directory_sync'') (\<lambda>_.
     andThen (each_act (write_document st docsDir) docs) (\<lambda>_.
     andThen (check_act (maybeFail st ''after_documents_written'')) (\<lambda>_.
     andThen ctx_Err (\<lambda>_.
     andThen (each_act (ingestArtifact st c provider) artifacts) (\<lambda>_.
     andThen (check_act (maybeFail st ''after_artifacts_written'')) (\<lambda>_.
     andThen (writeFileDurable (join_path stagingRoot ''snapshot-manifest.json'') manifestBytes) (\<lambda>_.
     andThen (check_act (maybeFail st ''after_manifest_written'')) (\<lambda>_.
     andThen (publish_snapshot st c sid manifestBytes stagingRoot) (\<lambda>_.
     andThen (check_act (maybeFail st ''after_snapshot_published'')) (\<lambda>_.
     andThen (check_act (maybeFail st ''before_commit_published'')) (\<lambda>_.
     ctx_Err))))))))))))))"

text \<open>The record, under a name that is still free; after the rename every error leaves the outcome unknown.\<close>

definition publish_commit :: "Store \<Rightarrow> string \<Rightarrow> commitRecord \<Rightarrow> string \<Rightarrow> CommitInfo io" where
  "publish_commit st c record raw =
     (let d = commitsDir st c; name = commitFileName (rec_Sequence record) (rec_CommitID record);
          final = join_path d name; unknown = CommitOutcomeUnknownError c (rec_SnapshotID record) in
      andThen (check_act (ensureUnderRoot (st_root st) final)) (\<lambda>_.
      andThen (check_files (\<lambda>fs. case Lstat fs final of
         Inr _ \<Rightarrow> Some (integrity ''commit file already exists: %s'' [GStr name]) | Inl _ \<Rightarrow> None)) (\<lambda>_.
      andThen (writeFileExclusiveRename final raw) (\<lambda>_.
      andThen (check_act (wrap_err unknown (maybeFail st ''after_commit_published''))) (\<lambda>_.
      try_act (syncDirChecked st d ''before_commit_directory_sync'')
        (\<lambda>_. andThen (check_act (wrap_err unknown (maybeFail st ''after_commit_directory_sync''))) (\<lambda>_.
             ret (info_of c False record)))
        (\<lambda>derr. andThen (check_act (wrap_err unknown (maybeFail st ''after_commit_directory_sync''))) (\<lambda>_.
                fail_with (unknown derr))))))))"

definition next_sequence :: "commitRecord list \<Rightarrow> 64 word" where
  "next_sequence chain = (if chain = [] then 1 else rec_Sequence (last chain) + 1)"

definition head_parent :: "commitRecord list \<Rightarrow> string option" where
  "head_parent chain = (if chain = [] then None else Some (rec_CommitID (last chain)))"

definition commitLocked :: "Store \<Rightarrow> CommitRequest \<Rightarrow> CommitInfo io" where
  "commitLocked st rq =
     (let snap = cq_Snapshot rq; c = cm_CaseID (snap_Case snap) in
      andThen (lift_result (collectArtifactRefs snap)) (\<lambda>artifacts.
      andThen (check_act (each (\<lambda>_ a. rejectTraversal False (art_RelativePath a)) artifacts)) (\<lambda>_.
      andThen (with_files (\<lambda>fs. loadCommitChain st fs c)) (\<lambda>chain.
      andThen (check_files (\<lambda>fs. verifyCommittedHistory st fs c chain)) (\<lambda>_.
      andThen (lift_result (prepareDocuments snap)) (\<lambda>docs.
      andThen (check_files (\<lambda>fs.
         validateAcquisitionCommitProvenance (loadSnapshotAtCommit st fs) c chain (length chain) snap)) (\<lambda>_.
      andThen (lift_result (buildSnapshotManifest c (cm_UpdatedAt (snap_Case snap)) docs (map artifact_entry artifacts)))
        (\<lambda>(manifest, manifestBytes).
      if chain \<noteq> [] \<and> pe_Mode (cq_ParentExpectation rq) \<noteq> ParentExpectationAbsent \<and>
         rec_SnapshotID (last chain) = smf_SnapshotID manifest
      then ret (info_of c True (last chain))
      else
        andThen (check_act (ParentExpectation_check chain (cq_ParentExpectation rq))) (\<lambda>_.
        andThen (stage_snapshot st c (cq_ArtifactProvider rq) docs artifacts (smf_SnapshotID manifest) manifestBytes) (\<lambda>_.
        andThen (read_act (\<lambda>w. (w_clock w, w))) (\<lambda>now.
        andThen (lift_result (buildCommitRecord c (next_sequence chain) (head_parent chain) (smf_SnapshotID manifest)
                   (sha256Hex manifestBytes) (format_rfc3339 now) (cq_Reason rq)))
          (\<lambda>(record, raw). publish_commit st c record raw))))))))))))"

definition Commit :: "Store \<Rightarrow> CommitRequest \<Rightarrow> CommitInfo io" where
  "Commit st rq =
     (let c = cm_CaseID (snap_Case (cq_Snapshot rq)) in
      andThen ctx_Err (\<lambda>_.
      andThen (check_act (Snapshot_Validate False (cq_Snapshot rq))) (\<lambda>_.
      andThen (check_act (err_if (cq_Reason rq \<noteq> CommitReasonLegacyImport \<and> cq_Reason rq \<noteq> CommitReasonCaseSnapshot)
         (invalid ''invalid commit reason %q'' [GStr (cq_Reason rq)]))) (\<lambda>_.
      andThen (check_files (ensureCaseTreeSafe st c)) (\<lambda>_.
      andThen (ensureCaseDirs st c) (\<lambda>_.
      withCaseLock st c (andThen ctx_Err (\<lambda>_. commitLocked st rq))))))))"

end
