(* ===== verification/CaseFilesProofs.thy ===== *)
theory CaseFilesProofs
  imports CaseFiles
begin

text \<open>
  What the operations of the store can change, whatever the schedule of faults: trees stay well
  formed, and each action is bounded by two sets of paths, those it may change at will (\<open>V\<close>) and
  those it may only create (\<open>N\<close>). The bounds compose, so a long action is bounded by those of its
  calls.
\<close>

section \<open>Looking up\<close>

lemma look_filter: "look (filter (\<lambda>e. Q (fst e)) fs) p = (if Q p then look fs p else None)"
  by (induction fs) (auto simp: look_def)

lemma look_put [simp]: "look (put p n fs) q = (if q = p then Some n else look fs q)"
  using look_filter [of "\<lambda>q. q \<noteq> p" fs q] by (simp add: put_def look_def)

lemma look_remove_tree [simp]: "look (remove_tree d fs) p = (if under d p then None else look fs p)"
  using look_filter [of "\<lambda>q. \<not> under d q" fs p] by (simp add: remove_tree_def)

lemma under_iff: "under d p \<longleftrightarrow> (\<exists>r. p = d @ r)"
  unfolding under_def by (metis append_eq_conv_conj append_take_drop_id)

lemma under_refl [simp]: "under p p" by (simp add: under_def)
lemma under_Nil [simp]: "under [] p" by (simp add: under_def)
lemma under_append [simp]: "under d (d @ r)" by (simp add: under_iff)
lemma under_trans: "under a b \<Longrightarrow> under b c \<Longrightarrow> under a c" by (auto simp: under_iff)

lemma under_drop: "under d p \<Longrightarrow> d @ drop (length d) p = p"
  by (auto simp: under_iff)

lemma look_move_tree:
  assumes "\<not> under a b" "\<not> under b a"
  shows "look (move_tree a b fs) p =
    (if under b p then look fs (a @ drop (length b) p) else if under a p then None else look fs p)"
proof -
  let ?g = "\<lambda>(q, n). if under a q then (b @ drop (length a) q, n) else (q, n :: node)"
  have key: "look (map ?g gs) p =
    (if under b p then look gs (a @ drop (length b) p) else if under a p then None else look gs p)"
    if "\<forall>e \<in> set gs. \<not> under b (fst e)" for gs
    using that
  proof (induction gs)
    case Nil
    then show ?case by (simp add: look_def)
  next
    case (Cons e gs)
    obtain q n where e: "e = (q, n)" by (cases e)
    have ab: "\<not> under a p" if "under b p"
      using that assms by (auto simp: under_iff append_eq_append_conv2)
    have nb: "\<not> under b q" using Cons.prems e by simp
    show ?case
    proof (cases "under a q")
      case True
      then obtain r where r: "q = a @ r" by (auto simp: under_iff)
      have "p = b @ r \<longleftrightarrow> under b p \<and> a @ drop (length b) p = q"
        by (auto simp: r under_iff)
      with True Cons e nb show ?thesis
        by (auto simp: look_def r dest: ab)
    next
      case False
      then have "p \<noteq> q" if "under a p" using that by auto
      moreover have "a @ drop (length b) p \<noteq> q" using False by auto
      moreover have "p \<noteq> q" if "under b p" using that nb by auto
      ultimately show ?thesis
        using False Cons e by (auto simp: look_def)
    qed
  qed
  have "\<forall>e \<in> set (remove_tree b fs). \<not> under b (fst e)" by (simp add: remove_tree_def)
  from key [OF this] show ?thesis
    using assms by (auto simp: move_tree_def under_iff append_eq_append_conv2)
qed

section \<open>Well-formed trees\<close>

definition wf_files :: "files \<Rightarrow> bool" where
  "wf_files fs \<longleftrightarrow> (\<forall>p. look fs p \<noteq> None \<longrightarrow> p \<noteq> [] \<and> (parent_dir p = [] \<or> look fs (parent_dir p) = Some Dir))"

lemma wf_ancestor:
  assumes "wf_files fs" "look fs (d @ r) \<noteq> None" "r \<noteq> []" "d \<noteq> []"
  shows "look fs d = Some Dir"
  using assms(2,3)
proof (induction r rule: rev_induct)
  case Nil
  then show ?case by simp
next
  case (snoc x r)
  then have "look fs (d @ r) = Some Dir"
    using assms(1,4) by (auto simp: wf_files_def parent_dir_def butlast_append split: if_splits)
  with snoc.IH show ?case by (cases r) auto
qed

lemma wf_nothing_under:
  assumes "wf_files fs" "look fs d = None" "d \<noteq> []" "under d p"
  shows "look fs p = None"
proof -
  obtain r where r: "p = d @ r" using assms(4) by (auto simp: under_iff)
  show ?thesis
    using wf_ancestor [OF assms(1), of d r] assms(2,3) r by (cases "r = []"; cases "look fs p") auto
qed

lemma parent_ok_None: "parent_ok fs p = None \<longleftrightarrow> parent_dir p = [] \<or> look fs (parent_dir p) = Some Dir"
  by (auto simp: parent_ok_def Lstat_def split: option.splits)

lemma wf_put:
  "wf_files fs \<Longrightarrow> p \<noteq> [] \<Longrightarrow> parent_dir p = [] \<or> look fs (parent_dir p) = Some Dir \<Longrightarrow>
    look fs p = None \<or> look fs p \<noteq> Some Dir \<or> n = Dir \<Longrightarrow> wf_files (put p n fs)"
  by (auto simp: wf_files_def)

section \<open>Bounds on what changes\<close>

definition changes :: "(path \<Rightarrow> bool) \<Rightarrow> (path \<Rightarrow> bool) \<Rightarrow> files \<Rightarrow> files \<Rightarrow> bool" where
  "changes V N fs fs' \<longleftrightarrow> wf_files fs' \<and> (\<forall>p. look fs' p \<noteq> look fs p \<longrightarrow> V p \<or> look fs p = None \<and> N p)"

definition bounded :: "(path \<Rightarrow> bool) \<Rightarrow> (path \<Rightarrow> bool) \<Rightarrow> 'a io \<Rightarrow> bool" where
  "bounded V N m \<longleftrightarrow> (\<forall>w. wf_files (w_files w) \<longrightarrow> changes V N (w_files w) (w_files (snd (m w))))"

named_theorems bounds "actions bounded by what their calls change"

lemma changes_refl [simp]: "wf_files fs \<Longrightarrow> changes V N fs fs"
  by (simp add: changes_def)

lemma changes_trans: "changes V N a b \<Longrightarrow> changes V N b c \<Longrightarrow> changes V N a c"
  unfolding changes_def by metis

lemma changes_mono:
  "changes V N a b \<Longrightarrow> (\<And>p. V p \<Longrightarrow> V' p) \<Longrightarrow> (\<And>p. N p \<Longrightarrow> V' p \<or> N' p) \<Longrightarrow> changes V' N' a b"
  unfolding changes_def by metis

lemma changes_keeps: "changes V N a b \<Longrightarrow> look a p \<noteq> None \<Longrightarrow> \<not> V p \<Longrightarrow> look b p = look a p"
  unfolding changes_def by metis

lemma changes_wf: "changes V N a b \<Longrightarrow> wf_files b"
  by (simp add: changes_def)

lemma bounded_mono:
  "bounded V N m \<Longrightarrow> (\<And>p. V p \<Longrightarrow> V' p) \<Longrightarrow> (\<And>p. N p \<Longrightarrow> V' p \<or> N' p) \<Longrightarrow> bounded V' N' m"
  unfolding bounded_def using changes_mono by metis

lemma boundedD: "bounded V N m \<Longrightarrow> wf_files (w_files w) \<Longrightarrow> m w = (r, w') \<Longrightarrow> changes V N (w_files w) (w_files w')"
  unfolding bounded_def by (metis snd_conv)

text \<open>Actions that leave the tree alone.\<close>

definition pure_act :: "'a io \<Rightarrow> bool" where
  "pure_act m \<longleftrightarrow> (\<forall>w. w_files (snd (m w)) = w_files w)"

lemma pure_bounded: "pure_act m \<Longrightarrow> bounded V N m"
  by (simp add: pure_act_def bounded_def)

lemma next_fault_files: "next_fault w = (f, v) \<Longrightarrow> w_files v = w_files w"
  by (auto simp: next_fault_def split: list.splits)

lemma pure_acts [simp]:
  "pure_act (ret x)" "pure_act (fail_with e)" "pure_act (check_act c)" "pure_act (lift_result r)"
  "pure_act (files_of f)" "pure_act (with_files g)" "pure_act (check_files h)" "pure_act ctx_Err"
  "pure_act (randomHex n)" "pure_act sync_or_close" "pure_act (read_act (\<lambda>w. (k w, w)))"
  by (auto simp: pure_act_def check_act_def lift_result_def files_of_def with_files_def check_files_def
      ctx_Err_def randomHex_def sync_or_close_def os_call_def read_act_def next_fault_files
      split: option.splits sum.splits list.splits prod.splits)

lemmas pure_bounds [bounds, simp] = pure_acts [THEN pure_bounded]

text \<open>Sequences, with what is known of the value passed on.\<close>

definition returns :: "'a io \<Rightarrow> ('a \<Rightarrow> bool) \<Rightarrow> bool" where
  "returns m Q \<longleftrightarrow> (\<forall>w x w'. m w = (Inr x, w') \<longrightarrow> Q x)"

lemma bounded_andThen_returns:
  assumes "bounded V N m" "returns m Q" "\<And>x. Q x \<Longrightarrow> bounded V N (f x)"
  shows "bounded V N (andThen m f)"
proof -
  have "changes V N (w_files w) (w_files (snd (andThen m f w)))" if wf: "wf_files (w_files w)" for w
  proof (cases "m w")
    case (Pair r v)
    have 1: "changes V N (w_files w) (w_files v)" using boundedD [OF assms(1) wf Pair] .
    show ?thesis
    proof (cases r)
      case (Inl e)
      then show ?thesis using 1 Pair by (simp add: andThen_def)
    next
      case (Inr x)
      have "Q x" using assms(2) Pair Inr by (auto simp: returns_def)
      then have "changes V N (w_files v) (w_files (snd (f x v)))"
        using assms(3) changes_wf [OF 1] by (simp add: bounded_def)
      then show ?thesis using 1 Pair Inr by (auto simp: andThen_def intro: changes_trans)
    qed
  qed
  then show ?thesis by (simp add: bounded_def)
qed

lemma bounded_andThen [bounds]:
  "bounded V N m \<Longrightarrow> (\<And>x. bounded V N (f x)) \<Longrightarrow> bounded V N (andThen m f)"
  by (rule bounded_andThen_returns [where Q = "\<lambda>_. True"]) (simp_all add: returns_def)

lemma bounded_try [bounds]:
  assumes "bounded V N m" "\<And>x. bounded V N (f x)" "\<And>e. bounded V N (h e)"
  shows "bounded V N (try_act m f h)"
proof -
  have "changes V N (w_files w) (w_files (snd (try_act m f h w)))" if wf: "wf_files (w_files w)" for w
  proof (cases "m w")
    case (Pair r v)
    have 1: "changes V N (w_files w) (w_files v)" using boundedD [OF assms(1) wf Pair] .
    have 2: "changes V N (w_files v) (w_files (snd (f x v)))" "changes V N (w_files v) (w_files (snd (h e v)))" for x e
      using assms(2,3) changes_wf [OF 1] by (simp_all add: bounded_def)
    show ?thesis using 1 2 Pair by (cases r) (auto simp: try_act_def intro: changes_trans)
  qed
  then show ?thesis by (simp add: bounded_def)
qed

lemma bounded_cleanup [bounds]:
  assumes "bounded V N m" "bounded V N c" shows "bounded V N (cleanup_on_error m c)"
proof -
  have "changes V N (w_files w) (w_files (snd (cleanup_on_error m c w)))" if wf: "wf_files (w_files w)" for w
  proof (cases "m w")
    case (Pair r v)
    have 1: "changes V N (w_files w) (w_files v)" using boundedD [OF assms(1) wf Pair] .
    have 2: "changes V N (w_files v) (w_files (snd (c v)))"
      using assms(2) changes_wf [OF 1] by (simp add: bounded_def)
    show ?thesis using 1 2 Pair by (cases r) (auto simp: cleanup_on_error_def intro: changes_trans)
  qed
  then show ?thesis by (simp add: bounded_def)
qed

lemma bounded_ignore [bounds]: "bounded V N m \<Longrightarrow> bounded V N (ignore_error m)"
  by (simp add: bounded_def ignore_error_def)

lemma bounded_on_error [bounds]:
  "bounded V N m \<Longrightarrow> (\<And>e. bounded V N (h e)) \<Longrightarrow> bounded V N (on_error m h)"
proof -
  have "on_error m h = try_act m ret h"
    by (rule ext) (simp add: on_error_def try_act_def split: prod.splits sum.splits)
  then show "bounded V N m \<Longrightarrow> (\<And>e. bounded V N (h e)) \<Longrightarrow> bounded V N (on_error m h)"
    by (simp add: bounds)
qed

lemma bounded_each [bounds]:
  "(\<And>x. x \<in> set xs \<Longrightarrow> bounded V N (f x)) \<Longrightarrow> bounded V N (each_act f xs)"
  by (induction xs) (simp_all add: bounds)

lemma bounded_if [bounds]: "(b \<Longrightarrow> bounded V N m) \<Longrightarrow> (\<not> b \<Longrightarrow> bounded V N n) \<Longrightarrow> bounded V N (if b then m else n)"
  by simp

lemma bounded_cases [bounds]:
  "(\<And>e. bounded V N (f e)) \<Longrightarrow> (\<And>x. bounded V N (g x)) \<Longrightarrow> bounded V N (case r of Inl e \<Rightarrow> f e | Inr x \<Rightarrow> g x)"
  "bounded V N m \<Longrightarrow> (\<And>x. bounded V N (h x)) \<Longrightarrow> bounded V N (case a of None \<Rightarrow> m | Some x \<Rightarrow> h x)"
  "(\<And>x y. bounded V N (k x y)) \<Longrightarrow> bounded V N (case p of (x, y) \<Rightarrow> k x y)"
  by (auto split: sum.split option.split prod.split)

section \<open>The bounds of the calls\<close>

lemma os_call_bounded:
  assumes "\<And>fs fs'. wf_files fs \<Longrightarrow> done fs = Inr fs' \<Longrightarrow> changes V N fs fs'"
    and "\<And>fs n. wf_files fs \<Longrightarrow> changes V N fs (part n fs)"
  shows "bounded V N (os_call done part)"
  using assms
  by (auto simp: bounded_def os_call_def dest: next_fault_files split: prod.splits option.splits sum.splits)

lemma changes_put_new:
  "wf_files fs \<Longrightarrow> p \<noteq> [] \<Longrightarrow> look fs p = None \<Longrightarrow> parent_ok fs p = None \<Longrightarrow> V p \<or> N p \<Longrightarrow> changes V N fs (put p n fs)"
  using wf_put [of fs p n] by (auto simp: changes_def parent_ok_None)

lemma Mkdir_bounded [bounds]: "V p \<or> N p \<Longrightarrow> bounded V N (Mkdir p)"
  unfolding Mkdir_def
  by (rule os_call_bounded) (auto intro: changes_put_new split: if_split_asm)

lemma create_excl_bounded [bounds]: "V p \<or> N p \<Longrightarrow> bounded V N (create_excl p)"
  unfolding create_excl_def
  by (rule os_call_bounded) (auto intro: changes_put_new split: if_split_asm)

lemma Remove_bounded [bounds]:
  assumes "\<And>q. under p q \<Longrightarrow> V q" shows "bounded V N (Remove p)"
proof -
  have c: "changes V N fs (remove_tree p fs)" if "wf_files fs" for fs
    using that assms by (auto simp: changes_def wf_files_def parent_dir_def)
       (metis append_butlast_last_id under_append under_trans)+
  show ?thesis
    unfolding Remove_def
    by (rule os_call_bounded) (auto intro: c split: option.splits if_split_asm)
qed

lemma mkdir_step_bounded [bounds]: "V p \<or> N p \<Longrightarrow> bounded V N (mkdir_step p)"
  unfolding mkdir_step_def by (intro bounds; simp)

lemma MkdirAll_bounded [bounds]: "(\<And>q. under q p \<Longrightarrow> V q \<or> N q) \<Longrightarrow> bounded V N (MkdirAll p)"
proof -
  assume a: "\<And>q. under q p \<Longrightarrow> V q \<or> N q"
  have "V q \<or> N q" if "q \<in> set (prefixes p)" for q
    using that a [of q] by (auto simp: prefixes_def under_iff) (metis append_take_drop_id)+
  then show ?thesis unfolding MkdirAll_def by (intro bounds) auto
qed

lemma write_to_changes: "wf_files fs \<Longrightarrow> V p \<Longrightarrow> changes V N fs (write_to p b fs)"
  using wf_put [of fs p "File b"]
  by (auto simp: write_to_def changes_def wf_files_def split: option.splits node.splits)

lemma write_file_bounded [bounds]: "V p \<Longrightarrow> bounded V N (write_file p data)"
  unfolding write_file_def by (rule os_call_bounded) (auto intro: write_to_changes)

text \<open>Moving a tree to a place that is free, or where anything may change.\<close>

lemma wf_move_tree:
  assumes wf: "wf_files fs" and ab: "\<not> under a b" "\<not> under b a"
    and b: "b \<noteq> []" "parent_ok fs b = None" and a: "look fs a \<noteq> None"
  shows "wf_files (move_tree a b fs)"
  unfolding wf_files_def
proof (intro allI impI)
  fix p
  let ?l = "look (move_tree a b fs)"
  assume p: "?l p \<noteq> None"
  have l: "?l q = (if under b q then look fs (a @ drop (length b) q) else if under a q then None else look fs q)" for q
    using look_move_tree [OF ab] .
  have an: "a \<noteq> []" using wf a by (auto simp: wf_files_def)
  show "p \<noteq> [] \<and> (parent_dir p = [] \<or> ?l (parent_dir p) = Some Dir)"
  proof (cases "under b p")
    case True
    then obtain r where r: "p = b @ r" by (auto simp: under_iff)
    show ?thesis
    proof (cases "r = []")
      case True
      have "length (butlast b) < length b" using b(1) by (cases b) auto
      then have "\<not> under b (butlast b)" by (metis under_drop length_append le_add1 not_le)
      moreover have "\<not> under a (butlast b)"
        using ab(1) by (auto simp: under_iff) (metis append_butlast_last_id append_assoc b(1))
      ultimately show ?thesis
        using True r b by (auto simp: parent_dir_def l parent_ok_None)
    next
      case False
      then have f: "look fs (a @ r) \<noteq> None" using p r by (simp add: l)
      have "look fs (a @ butlast r) = Some Dir"
        using wf_ancestor [OF wf, of "a @ butlast r" "[last r]"] f False an by simp
      then show ?thesis using False r b(1) by (simp add: l parent_dir_def butlast_append)
    qed
  next
    case nb: False
    then have "\<not> under a p" and f: "look fs p \<noteq> None" using p by (auto simp: l split: if_split_asm)
    moreover have "\<not> under a (butlast p)" "\<not> under b (butlast p)" if "p \<noteq> []"
      using that nb \<open>\<not> under a p\<close> by (metis append_butlast_last_id under_append under_trans)+
    ultimately show ?thesis
      using wf nb by (auto simp: wf_files_def l parent_dir_def)
  qed
qed

lemma Rename_changes:
  assumes wf: "wf_files (w_files w)" and a: "\<And>q. under a q \<Longrightarrow> V q"
    and b: "(\<forall>q. under b q \<longrightarrow> V q) \<or> look (w_files w) b = None \<and> (\<forall>q. under b q \<longrightarrow> V q \<or> N q)"
  shows "changes V N (w_files w) (w_files (snd (Rename a b w)))"
proof -
  obtain f v where f: "next_fault w = (f, v)" by (cases "next_fault w")
  have v: "w_files v = w_files w" using f by (rule next_fault_files)
  show ?thesis
  proof (cases "f = None \<and> (\<exists>n. look (w_files w) a = Some n) \<and> parent_ok (w_files w) b = None \<and>
      a \<noteq> b \<and> \<not> under a b \<and> \<not> under b a \<and> w_files (snd (Rename a b w)) = move_tree a b (w_files w)")
    case True
    have bn: "b \<noteq> []" using True by auto
    have "wf_files (move_tree a b (w_files w))"
      using wf_move_tree [OF wf, of a b] True bn by auto
    moreover have "V p \<or> look (w_files w) p = None \<and> N p"
      if d: "look (move_tree a b (w_files w)) p \<noteq> look (w_files w) p" for p
    proof (cases "under b p")
      case ub: True
      from b show ?thesis
      proof
        assume n: "look (w_files w) b = None \<and> (\<forall>q. under b q \<longrightarrow> V q \<or> N q)"
        then have "look (w_files w) p = None" using wf_nothing_under [OF wf _ bn ub] by blast
        with n ub show ?thesis by blast
      qed (use ub in blast)
    next
      case False
      with d True have "under a p" by (auto simp: look_move_tree split: if_split_asm)
      then show ?thesis using a by blast
    qed
    ultimately show ?thesis using True by (simp add: changes_def)
  next
    case False
    then have "w_files (snd (Rename a b w)) = w_files w"
      using f v
      by (auto simp: Rename_def os_call_def check_then_def split: option.splits if_split_asm node.splits sum.splits)
    then show ?thesis using wf by simp
  qed
qed

lemma Rename_bounded [bounds]:
  "(\<And>q. under a q \<Longrightarrow> V q) \<Longrightarrow> (\<And>q. under b q \<Longrightarrow> V q) \<Longrightarrow> bounded V N (Rename a b)"
  unfolding bounded_def using Rename_changes by blast

text \<open>What a recursive removal leaves is closed upwards: a path is visited after its parent.\<close>

lemma take_rev_upwards:
  assumes "sorted xs" "distinct xs" "q \<in> set (take n (rev xs))" "r \<in> set xs" "q \<le> r"
  shows "r \<in> set (take n (rev xs))"
proof (rule ccontr)
  assume "r \<notin> set (take n (rev xs))"
  moreover have "r \<in> set (take n (rev xs)) \<or> r \<in> set (drop n (rev xs))"
    using assms(4) by (metis Un_iff append_take_drop_id set_append set_rev)
  ultimately have d: "r \<in> set (drop n (rev xs))" by blast
  have "sorted_wrt (\<ge>) (take n (rev xs) @ drop n (rev xs))"
    using assms(1) by (simp add: sorted_wrt_rev)
  then have "q \<ge> r" using d assms(3) by (simp only: sorted_wrt_append)
  then have "q = r" using assms(5) by simp
  then show False using assms(3) \<open>r \<notin> set (take n (rev xs))\<close> by simp
qed

lemma butlast_le: "butlast p \<le> (p :: path)"
proof (cases p rule: rev_cases)
  case (snoc ys y)
  have "ys \<le> ys @ [y]" by (induction ys) auto
  then show ?thesis using snoc by simp
qed simp

lemma set_walk: "p \<in> set (walk fs d) \<longleftrightarrow> under d p \<and> look fs p \<noteq> None"
  by (force simp: walk_def look_def map_of_eq_None_iff)

lemma RemoveAll_bounded [bounds]:
  assumes "\<And>q. under p q \<Longrightarrow> V q" shows "bounded V N (RemoveAll p)"
proof -
  have c: "changes V N fs (remove_tree p fs)" if "wf_files fs" for fs
    using that assms by (auto simp: changes_def wf_files_def parent_dir_def)
       (metis append_butlast_last_id under_append under_trans)+
  have d: "changes V N fs (filter (\<lambda>e. fst e \<notin> set (take n (rev (walk fs p)))) fs)" if wf: "wf_files fs" for fs n
  proof -
    let ?g = "set (take n (rev (walk fs p)))"
    have g: "q \<in> set (walk fs p)" if "q \<in> ?g" for q using that by (metis in_set_takeD set_rev)
    have up: "q \<in> ?g" if "look fs q \<noteq> None" "butlast q \<in> ?g" for q
    proof (rule take_rev_upwards [of _ "butlast q"])
      show "q \<in> set (walk fs p)"
        using g [OF that(2)] that(1) wf
        by (auto simp: set_walk) (metis append_butlast_last_id under_append under_trans wf_files_def option.distinct(1))
    qed (use that butlast_le in \<open>auto simp: walk_def\<close>)
    have l: "look (filter (\<lambda>e. fst e \<notin> ?g) fs) q = (if q \<in> ?g then None else look fs q)" for q
      using look_filter [of "\<lambda>q. q \<notin> ?g" fs q] by simp
    have "V q" if "q \<in> ?g" for q using g [OF that] assms by (simp add: set_walk)
    moreover have "wf_files (filter (\<lambda>e. fst e \<notin> ?g) fs)"
      using wf up unfolding wf_files_def l parent_dir_def by (metis option.distinct(1))
    ultimately show ?thesis by (simp add: changes_def l)
  qed
  show ?thesis
    unfolding RemoveAll_def by (rule os_call_bounded) (auto intro: c d simp: Let_def)
qed

section \<open>Exclusive writes\<close>

text \<open>Temporary files have names of their own.\<close>

definition temp_path :: "path \<Rightarrow> bool" where
  "temp_path p \<longleftrightarrow> p \<noteq> [] \<and> isTempStoreName (last p)"

lemma temp_name_temp [simp]: "temp_path (temp_name p s)"
  by (simp add: temp_path_def temp_name_def isTempStoreName_def has_suffix_def)

lemma temp_name_facts:
  "parent_dir (temp_name p s) = parent_dir p" "temp_name p s \<noteq> p"
proof -
  show "parent_dir (temp_name p s) = parent_dir p" by (simp add: temp_name_def parent_dir_def)
  have "length (last p) < length (last (temp_name p s))" by (simp add: temp_name_def)
  then show "temp_name p s \<noteq> p" by auto
qed

lemma same_parent_not_under: "parent_dir p = parent_dir q \<Longrightarrow> p \<noteq> [] \<Longrightarrow> q \<noteq> [] \<Longrightarrow> p \<noteq> q \<Longrightarrow> \<not> under p q"
proof
  assume a: "parent_dir p = parent_dir q" "p \<noteq> []" "q \<noteq> []" "p \<noteq> q" "under p q"
  then have "length p = length q"
    by (metis append_butlast_last_id length_append length_Cons list.size(3) parent_dir_def)
  then show False using a(4,5) by (auto simp: under_iff)
qed

text \<open>A name of at most one path per attempt; the one returned is temporary and a sibling of the target.\<close>

definition temp_for :: "path \<Rightarrow> path \<Rightarrow> bool" where
  "temp_for p tmp \<longleftrightarrow> temp_path tmp \<and> parent_dir tmp = parent_dir p \<and> tmp \<noteq> p"

lemma temp_for_name [simp]: "temp_for p (temp_name p s)"
  by (simp add: temp_for_def temp_name_facts)

lemma create_temp_bounded [bounds]: "(\<And>q. temp_for p q \<Longrightarrow> V q) \<Longrightarrow> bounded V N (create_temp n p)"
  by (induction n) (auto simp: Let_def intro!: bounds)

lemma create_temp_returns: "returns (create_temp n p) (temp_for p)"
proof (induction n)
  case (Suc n)
  then show ?case
    by (auto simp: returns_def andThen_def try_act_def Let_def split: prod.splits sum.splits if_split_asm)
qed (simp add: returns_def)

text \<open>A tree of one file: nothing is under a temporary file.\<close>

definition temp_tree :: "path \<Rightarrow> path \<Rightarrow> bool" where
  "temp_tree p q \<longleftrightarrow> (\<exists>tmp. temp_for p tmp \<and> under tmp q)"

lemma temp_tree_self: "temp_for p tmp \<Longrightarrow> temp_tree p tmp"
  unfolding temp_tree_def using under_refl by blast

lemma close_and_remove_bounded [bounds]:
  "temp_for p tmp \<Longrightarrow> (\<And>q. temp_tree p q \<Longrightarrow> V q) \<Longrightarrow> bounded V N (close_and_remove tmp)"
  unfolding close_and_remove_def by (intro bounds) (auto simp: temp_tree_def)

text \<open>What comes before the rename of an exclusive write.\<close>

definition write_temp :: "path \<Rightarrow> string \<Rightarrow> path io" where
  "write_temp p data =
     andThen (MkdirAll (parent_dir p)) (\<lambda>_.
     andThen (check_files (\<lambda>fs. ensureNotSymlink fs (parent_dir p))) (\<lambda>_.
     andThen (create_temp 8 p) (\<lambda>tmp.
     andThen (cleanup_on_error
         (andThen (if data = [] then ret () else write_file tmp data) (\<lambda>_.
          andThen sync_or_close (\<lambda>_. sync_or_close)))
         (close_and_remove tmp)) (\<lambda>_.
     ret tmp))))"

lemma andThen_assoc: "andThen (andThen m f) g = andThen m (\<lambda>x. andThen (f x) g)"
  by (rule ext) (simp add: andThen_def split: prod.splits sum.splits)

lemma andThen_ret [simp]: "andThen (ret x) f = f x"
  by (rule ext) (simp add: andThen_def)

lemma write_exclusive_split:
  "writeFileExclusiveRename p data = andThen (write_temp p data) (\<lambda>tmp. rename_or_remove tmp p)"
  by (simp add: writeFileExclusiveRename_def write_temp_def andThen_assoc)

lemma write_temp_bounded:
  assumes "\<And>q. temp_tree p q \<Longrightarrow> V q" "\<And>q. under q (parent_dir p) \<Longrightarrow> V q \<or> N q"
  shows "bounded V N (write_temp p data)"
proof -
  have t: "V q" if "temp_for p q" for q using assms(1) temp_tree_self [OF that] .
  have c: "bounded V N (andThen (create_temp 8 p) (\<lambda>tmp. andThen (cleanup_on_error
         (andThen (if data = [] then ret () else write_file tmp data) (\<lambda>_.
          andThen sync_or_close (\<lambda>_. sync_or_close))) (close_and_remove tmp)) (\<lambda>_. ret tmp)))"
    by (rule bounded_andThen_returns [OF create_temp_bounded create_temp_returns])
       (use t assms(1) in \<open>auto intro!: bounds\<close>)
  show ?thesis
    unfolding write_temp_def by (intro bounds c) (use assms in auto)
qed

lemma write_temp_returns: "returns (write_temp p data) (temp_for p)"
  using create_temp_returns [of 8 p]
  by (force simp: write_temp_def returns_def andThen_Inr)

lemma temp_tree_not_target: "p \<noteq> [] \<Longrightarrow> \<not> temp_tree p p"
proof
  assume p: "p \<noteq> []" "temp_tree p p"
  then obtain tmp where t: "temp_for p tmp" "under tmp p" by (auto simp: temp_tree_def)
  then have "\<not> under tmp p"
    using p same_parent_not_under [of tmp p] by (auto simp: temp_for_def temp_path_def)
  with t show False by simp
qed

lemma not_under_parent: "p \<noteq> [] \<Longrightarrow> \<not> under p (parent_dir p)"
proof
  assume p: "p \<noteq> []" "under p (parent_dir p)"
  then have "length p \<le> length (parent_dir p)" by (auto simp: under_iff dest: arg_cong [where f = length])
  moreover have "0 < length p" using p(1) by simp
  ultimately show False by (simp add: parent_dir_def del: length_greater_0_conv)
qed

lemma rename_target_changes:
  assumes wf: "wf_files (w_files v)" and tf: "temp_for p tmp" and t: "\<And>q. temp_tree p q \<Longrightarrow> V q"
    and b: "(\<forall>q. under p q \<longrightarrow> V q) \<or> look (w_files v) p = None \<and> (\<forall>q. under p q \<longrightarrow> V q \<or> N q)"
  shows "changes V N (w_files v) (w_files (snd (rename_or_remove tmp p v)))"
proof -
  have tv: "V q" if "under tmp q" for q using t tf that by (auto simp: temp_tree_def)
  obtain r' u where ru: "Rename tmp p v = (r', u)" by (cases "Rename tmp p v")
  have 2: "changes V N (w_files v) (w_files u)"
    using Rename_changes [OF wf, of tmp V p N] tv b ru by simp
  have 3: "changes V N (w_files u) (w_files (snd (Remove tmp u)))"
    using Remove_bounded [of tmp V N] tv changes_wf [OF 2] by (simp add: bounded_def)
  show ?thesis
    using 2 3 ru by (cases r') (auto simp: rename_or_remove_def cleanup_on_error_def intro: changes_trans)
qed

text \<open>The target appears at once with all its bytes, or not at all.\<close>

lemma write_exclusive_changes:
  assumes wf: "wf_files (w_files w)" and p: "p \<noteq> []"
    and t: "\<And>q. temp_tree p q \<Longrightarrow> V q" and d: "\<And>q. under q (parent_dir p) \<Longrightarrow> V q \<or> N q"
    and b: "(\<forall>q. under p q \<longrightarrow> V q) \<or> look (w_files w) p = None \<and> (\<forall>q. under p q \<longrightarrow> V q \<or> N q)"
  shows "changes V N (w_files w) (w_files (snd (writeFileExclusiveRename p data w)))"
proof (cases "write_temp p data w")
  case (Pair r v)
  have 1: "changes V N (w_files w) (w_files v)"
    by (rule boundedD [OF write_temp_bounded wf Pair]) (use t d in auto)
  show ?thesis
  proof (cases r)
    case (Inl e)
    then show ?thesis using 1 Pair by (simp add: write_exclusive_split andThen_def)
  next
    case (Inr tmp)
    then have tf: "temp_for p tmp" using write_temp_returns [of p data] Pair by (auto simp: returns_def)
    have "changes (temp_tree p) (\<lambda>q. under q (parent_dir p)) (w_files w) (w_files v)"
      by (rule boundedD [OF write_temp_bounded wf Pair]) auto
    then have "look (w_files v) p = look (w_files w) p"
      unfolding changes_def using temp_tree_not_target [OF p] not_under_parent [OF p] by metis
    then have b': "(\<forall>q. under p q \<longrightarrow> V q) \<or> look (w_files v) p = None \<and> (\<forall>q. under p q \<longrightarrow> V q \<or> N q)"
      using b by simp
    have "changes V N (w_files v) (w_files (snd (rename_or_remove tmp p v)))"
      using changes_wf [OF 1] tf t b' by (rule rename_target_changes)
    then show ?thesis
      using 1 Pair Inr by (auto simp: write_exclusive_split andThen_def intro: changes_trans)
  qed
qed

text \<open>Success means the bytes are there; an error means the target is as it was.\<close>

lemma changes_same: "changes V N fs fs' \<Longrightarrow> \<not> V p \<Longrightarrow> \<not> N p \<Longrightarrow> look fs' p = look fs p"
  unfolding changes_def by blast

lemma create_temp_file:
  "create_temp n p w = (Inr tmp, v) \<Longrightarrow> look (w_files v) tmp = Some (File [])"
proof (induction n arbitrary: w)
  case (Suc n)
  then show ?case
    by (auto simp: andThen_def try_act_def Let_def create_excl_def os_call_def check_then_def
        split: prod.splits sum.splits if_split_asm option.splits)
qed simp

lemma sync_files: "sync_or_close w = (r, v) \<Longrightarrow> w_files v = w_files w"
  using pure_acts(10) by (metis pure_act_def snd_conv)

lemma cleanup_Inr: "cleanup_on_error m c w = (Inr x, v) \<longleftrightarrow> m w = (Inr x, v)"
  by (auto simp: cleanup_on_error_def split: prod.splits sum.splits)

lemma write_temp_file:
  assumes "write_temp p data w = (Inr tmp, v)"
  shows "look (w_files v) tmp = Some (File data)"
proof -
  from assms obtain u x where c: "create_temp 8 p u = (Inr tmp, x)"
      and b: "andThen (if data = [] then ret () else write_file tmp data) (\<lambda>_.
          andThen sync_or_close (\<lambda>_. sync_or_close)) x = (Inr (), v)"
    by (auto simp: write_temp_def andThen_Inr cleanup_Inr)
  have f: "look (w_files x) tmp = Some (File [])" using c by (rule create_temp_file)
  from b obtain y where y: "(if data = [] then ret () else write_file tmp data) x = (Inr (), y)"
      and v: "w_files v = w_files y"
    by (auto simp: andThen_Inr dest!: sync_files split: if_split_asm)
  have "look (w_files y) tmp = Some (File data)"
    using y f
    by (auto simp: write_file_def os_call_def write_to_def dest!: next_fault_files
        split: if_split_asm prod.splits option.splits)
  then show ?thesis by (simp add: v)
qed

lemma Rename_file:
  assumes wf: "wf_files (w_files w)" and "a \<noteq> b" "look (w_files w) a = Some (File d)" "Rename a b w = (r, v)"
  shows "(r = Inr () \<longrightarrow> look (w_files v) b = Some (File d)) \<and> (\<forall>e. r = Inl e \<longrightarrow> w_files v = w_files w)"
  using assms(2-4)
  by (auto simp: Rename_def os_call_def check_then_def look_move_tree dest: next_fault_files
      split: prod.splits option.splits if_split_asm sum.splits)

lemma write_exclusive_result:
  assumes wf: "wf_files (w_files w)" and p: "p \<noteq> []" and r: "writeFileExclusiveRename p data w = (r, w')"
  shows "(r = Inr () \<longrightarrow> look (w_files w') p = Some (File data)) \<and> (\<forall>e. r = Inl e \<longrightarrow> look (w_files w') p = look (w_files w) p)"
proof (cases "write_temp p data w")
  case (Pair q v)
  have 1: "changes (temp_tree p) (\<lambda>q. under q (parent_dir p)) (w_files w) (w_files v)"
    by (rule boundedD [OF write_temp_bounded wf Pair]) auto
  then have same: "look (w_files v) p = look (w_files w) p"
    using temp_tree_not_target [OF p] not_under_parent [OF p] by (rule changes_same)
  show ?thesis
  proof (cases q)
    case (Inl e)
    then show ?thesis using r Pair same by (auto simp: write_exclusive_split andThen_def)
  next
    case (Inr tmp)
    then have tf: "temp_for p tmp" using write_temp_returns [of p data] Pair by (auto simp: returns_def)
    have f: "look (w_files v) tmp = Some (File data)"
      using Pair Inr by (auto intro: write_temp_file)
    obtain r' u where ru: "Rename tmp p v = (r', u)" by (cases "Rename tmp p v")
    have rn: "(r' = Inr () \<longrightarrow> look (w_files u) p = Some (File data)) \<and> (\<forall>e. r' = Inl e \<longrightarrow> w_files u = w_files v)"
      using Rename_file [OF changes_wf [OF 1] _ f ru] tf by (simp add: temp_for_def)
    have rm: "look (w_files (snd (Remove tmp u))) p = look (w_files u) p" if "wf_files (w_files u)"
    proof -
      have "bounded (temp_tree p) (\<lambda>_. False) (Remove tmp)"
        by (rule Remove_bounded) (use tf in \<open>auto simp: temp_tree_def\<close>)
      then have "changes (temp_tree p) (\<lambda>_. False) (w_files u) (w_files (snd (Remove tmp u)))"
        using that by (simp add: bounded_def)
      then show ?thesis using temp_tree_not_target [OF p] by (auto intro: changes_same)
    qed
    show ?thesis
      using r Pair Inr ru rn rm same changes_wf [OF 1]
      by (cases r') (auto simp: write_exclusive_split andThen_def rename_or_remove_def cleanup_on_error_def)
  qed
qed

end
