(* ===== verification/CaseStoreProofs.thy ===== *)
theory CaseStoreProofs
  imports CaseStore CaseFilesProofs
begin

text \<open>
  What a commit can do to the tree under any schedule of faults: where the files of a case are, the
  bounds of every step of a commit, and the moment the commit file appears.
\<close>

section \<open>Where the files of a case are\<close>

definition simple_name :: "string \<Rightarrow> bool" where
  "simple_name c \<longleftrightarrow> c \<noteq> [] \<and> CHR ''/'' \<notin> set c \<and> c \<noteq> ''.'' \<and> c \<noteq> ''..''"

lemma split_slash_simple: "CHR ''/'' \<notin> set c \<Longrightarrow> split_slash c = [c]"
  by (induction c) auto

lemma join_simple: "simple_name c \<Longrightarrow> join_path p c = p @ [c]"
  by (simp add: join_path_def simple_name_def split_slash_simple clean_step_def)

lemma split_slash_append: "CHR ''/'' \<notin> set a \<Longrightarrow> split_slash (a @ CHR ''/'' # s) = a # split_slash s"
  by (induction a) auto

lemma join_slash: "simple_name a \<Longrightarrow> join_path p (a @ CHR ''/'' # s) = join_path (p @ [a]) s"
  by (simp add: join_path_def simple_name_def split_slash_append clean_step_def)

lemma simple_literals [simp]:
  "simple_name ''cases''" "simple_name ''snapshots''" "simple_name ''commits''" "simple_name ''staging''"
  "simple_name ''artifacts''" "simple_name ''sha256''" "simple_name ''case.lock''" "simple_name ''documents''"
  "simple_name ''snapshot-manifest.json''"
  by (simp_all add: simple_name_def)

text \<open>Identifiers are simple names: a prefix with a letter, then bytes without a slash.\<close>

lemma simple_prefix: "simple_name p \<Longrightarrow> length p > 2 \<Longrightarrow> CHR ''/'' \<notin> set r \<Longrightarrow> simple_name (p @ r)"
  by (cases p rule: remdups_adj.cases) (auto simp: simple_name_def)

lemma hex_no_slash: "c \<in> set lower_hex \<Longrightarrow> c \<noteq> CHR ''/''"
  by (auto simp: lower_hex_def)

lemma re_id24_simple: "re_id24 p c \<Longrightarrow> simple_name p \<Longrightarrow> length p > 2 \<Longrightarrow> simple_name c"
  by (auto simp: re_run_iff intro!: simple_prefix dest: hex_no_slash)

lemma case_id_simple: "reCaseID c \<Longrightarrow> simple_name c"
  by (rule re_id24_simple [where p = "''case-''"]) (simp_all add: reCaseID_def simple_name_def)

lemma snapshot_id_simple: "reSnapshotID c \<Longrightarrow> simple_name c"
  by (rule re_id24_simple [where p = "''snapshot-''"]) (simp_all add: reSnapshotID_def simple_name_def)

lemma case_dirs:
  "casesRoot st = st_root st @ [''cases'']"
  "snapshotsDir st c = caseDir st c @ [''snapshots'']"
  "commitsDir st c = caseDir st c @ [''commits'']"
  "stagingDir st c = caseDir st c @ [''staging'']"
  "artifactsDir st c = caseDir st c @ [''artifacts'', ''sha256'']"
  "lockPath st c = caseDir st c @ [''case.lock'']"
  by (simp_all add: casesRoot_def caseDir_def snapshotsDir_def commitsDir_def stagingDir_def
      artifactsDir_def lockPath_def join_simple)

lemma snapshotDir_simple: "simple_name s \<Longrightarrow> snapshotDir st c s = caseDir st c @ [''snapshots'', s]"
  by (simp add: snapshotDir_def case_dirs join_simple)

section \<open>What may change and what may appear\<close>

text \<open>The staging area and temporary files of a case may change at will.\<close>

definition volatile :: "Store \<Rightarrow> string \<Rightarrow> path \<Rightarrow> bool" where
  "volatile st c p \<longleftrightarrow> under (stagingDir st c) p \<or>
     (\<exists>q. temp_path q \<and> under q p \<and>
        (parent_dir q = commitsDir st c \<or> under (caseDir st c @ [''artifacts'']) (parent_dir q)))"

text \<open>
  New files may appear in the case, but no commit file and nothing inside one of the snapshots \<open>S\<close>,
  the ones that were published before; directories above the case may be created.
\<close>

definition growable :: "Store \<Rightarrow> string \<Rightarrow> string set \<Rightarrow> path \<Rightarrow> bool" where
  "growable st c S p \<longleftrightarrow> (under (caseDir st c) p \<or> under p (caseDir st c)) \<and> parent_dir p \<noteq> commitsDir st c \<and>
     (\<forall>s \<in> S. \<not> under (snapshotDir st c s) p)"

text \<open>The snapshots are named by simple names.\<close>

abbreviation names :: "string set \<Rightarrow> bool" where
  "names S \<equiv> \<forall>s \<in> S. simple_name s"

lemma under_snoc: "under q (p @ [x]) \<longleftrightarrow> under q p \<or> q = p @ [x]"
  by (auto simp: under_iff append_eq_append_conv2 append_eq_Cons_conv Cons_eq_append_conv)

lemma under_parent: "under (parent_dir p) p"
  by (metis append_butlast_last_id butlast.simps(1) parent_dir_def under_append under_refl)

lemma growable_above: "names S \<Longrightarrow> under p (caseDir st c) \<Longrightarrow> growable st c S p"
proof -
  assume n: "names S" and p: "under p (caseDir st c)"
  then have l: "length p \<le> length (caseDir st c)" by (auto simp: under_iff)
  have "length (parent_dir p) \<le> length p" by (simp add: parent_dir_def)
  then have "parent_dir p \<noteq> commitsDir st c" using l by (auto simp: case_dirs)
  moreover have "\<not> under (snapshotDir st c s) p" if "s \<in> S" for s
    using n that l by (auto simp: snapshotDir_simple under_iff)
  ultimately show ?thesis using p by (simp add: growable_def)
qed

lemma growable_below:
  "names S \<Longrightarrow> x \<noteq> ''commits'' \<Longrightarrow> x \<noteq> ''snapshots'' \<Longrightarrow> growable st c S (caseDir st c @ x # r)"
  by (cases r rule: rev_cases) (auto simp: growable_def case_dirs snapshotDir_simple under_iff parent_dir_def butlast_append)

lemma growable_dirs [simp]:
  "names S \<Longrightarrow> growable st c S (caseDir st c @ [''commits''])"
  "names S \<Longrightarrow> growable st c S (caseDir st c @ [''snapshots''])"
  by (auto simp: growable_def case_dirs snapshotDir_simple under_iff parent_dir_def)

lemma volatile_staging: "under (stagingDir st c) p \<Longrightarrow> volatile st c p"
  by (simp add: volatile_def)

text \<open>Everything above a path of the staging area may be there or be created.\<close>

lemma staging_above:
  assumes "names S" "under (stagingDir st c) p" "under q p"
  shows "volatile st c q \<or> growable st c S q"
proof -
  from assms obtain r where "p = stagingDir st c @ r" by (auto simp: under_iff)
  then have "under (stagingDir st c) q \<or> under q (stagingDir st c)"
    using assms(3) by (auto simp: under_iff append_eq_append_conv2)
  then show ?thesis
  proof
    assume "under q (stagingDir st c)"
    then have "under q (caseDir st c) \<or> q = stagingDir st c" by (simp add: case_dirs under_snoc)
    then show ?thesis using assms(1) growable_above volatile_staging under_refl by blast
  qed (simp add: volatile_staging)
qed

abbreviation safe :: "Store \<Rightarrow> string \<Rightarrow> string set \<Rightarrow> 'a io \<Rightarrow> bool" where
  "safe st c S m \<equiv> bounded (volatile st c) (growable st c S) m"

section \<open>The steps of a commit\<close>

lemma bounded_let [bounds]: "bounded V N (f x) \<Longrightarrow> bounded V N (Let x f)"
  by simp

lemma bounded_check: "(c = None \<Longrightarrow> bounded V N (f ())) \<Longrightarrow> bounded V N (andThen (check_act c) f)"
  by (cases c) (auto simp: check_act_def bounded_def andThen_def)

lemma syncDir_bounded [bounds, simp]: "bounded V N (syncDir d)"
  unfolding syncDir_def by (intro bounds)

lemma syncDirChecked_bounded [bounds, simp]: "bounded V N (syncDirChecked st d cp)"
  unfolding syncDirChecked_def by (intro bounds)

lemma ensureManagedDir_bounded:
  "(\<And>q. under q p \<Longrightarrow> V q \<or> N q) \<Longrightarrow> bounded V N (ensureManagedDir st p cp)"
proof (induction st p cp rule: ensureManagedDir.induct)
  case (1 st p cp)
  have up: "under q p" if "under q (parent_dir p)" for q
    using that by (auto simp: parent_dir_def under_iff) (metis append_assoc append_butlast_last_id butlast.simps(1))
  have rec: "bounded V N (if parent_dir p \<noteq> p \<and> parent_dir p \<noteq> st_root st then ensureManagedDir st (parent_dir p) cp else ret ())"
    if "IsNotExist e" for e
    using "1.IH" [of e] "1.prems" up that by (intro bounds) auto
  show ?case
    unfolding ensureManagedDir.simps [of st p cp]
    by (intro bounds rec) (use "1.prems" under_refl in auto)
qed

lemma ensureCaseDirs_safe [bounds]: "names S \<Longrightarrow> safe st c S (ensureCaseDirs st c)"
proof -
  assume n: "names S"
  have ok: "volatile st c q \<or> growable st c S q" if p: "p \<in> set (case_paths st c)" and q: "under q p" for p q
  proof -
    have "under q (caseDir st c) \<or> q \<in> {snapshotsDir st c, commitsDir st c, stagingDir st c,
        caseDir st c @ [''artifacts''], artifactsDir st c}"
      using p q by (auto simp: case_paths_def case_dirs under_snoc under_snoc [of _ "_ @ [_]", simplified])
    then show ?thesis
      using n growable_above [OF n] growable_below [OF n, of "''staging''" st c "[]"]
        growable_below [OF n, of "''artifacts''" st c]
      by (auto simp: case_dirs)
  qed
  have e: "safe st c S (each_act (\<lambda>(p, cp). ensureManagedDir st p cp) (zip (case_paths st c) case_checkpoints))"
  proof (rule bounded_each)
    fix x assume x: "x \<in> set (zip (case_paths st c) case_checkpoints)"
    obtain p cp where pc: "x = (p, cp)" by (cases x)
    have "p \<in> set (case_paths st c)" using x unfolding pc by (rule set_zip_leftD)
    then have "safe st c S (ensureManagedDir st p cp)"
      by (intro ensureManagedDir_bounded ok)
    then show "safe st c S (case x of (p, cp) \<Rightarrow> ensureManagedDir st p cp)" by (simp add: pc)
  qed
  show ?thesis
    unfolding ensureCaseDirs_def by (intro bounds e)
qed

lemma open_lock_bounded [bounds]: "V p \<or> N p \<Longrightarrow> p \<noteq> [] \<Longrightarrow> bounded V N (open_lock_file p)"
  unfolding open_lock_file_def
  by (rule os_call_bounded) (auto intro: changes_put_new split: option.splits node.splits)

lemma flock_bounded [bounds]: "bounded V N (flock p)"
  by (simp add: bounded_def flock_def)

lemma acquireCaseLock_safe [bounds]: "names S \<Longrightarrow> safe st c S (acquireCaseLock (lockPath st c))"
  unfolding acquireCaseLock_def
  by (intro bounds)
     (auto simp: case_dirs parent_dir_def intro: growable_above growable_below)

lemma hex_encode_no_slash: "CHR ''/'' \<notin> set (hex_encode (map of_char bs))"
proof
  assume "CHR ''/'' \<in> set (hex_encode (map of_char bs))"
  moreover have "0 \<le> b \<and> b < 256" if "b \<in> set (map of_char bs)" for b :: int
  proof -
    from that have "b \<in> of_char ` set bs" by simp
    then obtain c :: char where "b = of_char c" by blast
    moreover have "(of_char c :: int) = int (of_char c)" by (simp add: of_char_def)
    ultimately show ?thesis using nat_of_char_less_256 [of c] by linarith
  qed
  ultimately have "CHR ''/'' \<in> set lower_hex" using hex_encode_lower by blast
  then show False using hex_no_slash by blast
qed

lemma randomHex_returns: "returns (randomHex n) (\<lambda>s. CHR ''/'' \<notin> set s)"
  using hex_encode_no_slash by (auto simp: returns_def randomHex_def split: if_split_asm)

text \<open>The staging root lies in the staging area.\<close>

definition staged :: "Store \<Rightarrow> string \<Rightarrow> path \<Rightarrow> bool" where
  "staged st c p \<longleftrightarrow> (\<exists>x r. p = stagingDir st c @ x # r)"

lemma staged_volatile: "staged st c p \<Longrightarrow> under p q \<Longrightarrow> volatile st c q"
  unfolding staged_def by (metis under_append under_trans volatile_staging)

lemma staged_above: "staged st c p \<Longrightarrow> names S \<Longrightarrow> under q p \<Longrightarrow> volatile st c q \<or> growable st c S q"
  unfolding staged_def using staging_above under_append by blast

lemma staged_append: "staged st c p \<Longrightarrow> staged st c (p @ r)"
  by (auto simp: staged_def)

lemma txn_simple: "CHR ''/'' \<notin> set name \<Longrightarrow> simple_name (''txn-'' @ name)"
  by (auto simp: simple_name_def)

lemma txn_join: "CHR ''/'' \<notin> set name \<Longrightarrow> join_path p (''txn-'' @ name) = p @ [''txn-'' @ name]"
  by (rule join_simple [OF txn_simple])

lemma try_Inr: "try_act m f h w = (Inr y, w') \<longleftrightarrow>
    (\<exists>x v. m w = (Inr x, v) \<and> f x v = (Inr y, w')) \<or> (\<exists>e v. m w = (Inl e, v) \<and> h e v = (Inr y, w'))"
  by (auto simp: try_act_def split: prod.splits sum.splits)

lemma create_staging_safe:
  shows "names S \<Longrightarrow> safe st c S (create_staging n st (stagingDir st c))"
    and "returns (create_staging n st (stagingDir st c)) (staged st c)"
proof -
  show "safe st c S (create_staging n st (stagingDir st c))" if "names S"
  proof (induction n)
    case (Suc n)
    show ?case
      unfolding create_staging.simps
      by (rule bounded_andThen_returns [OF _ randomHex_returns])
         (auto simp: txn_join [simplified] intro!: bounds Suc volatile_staging)
  qed (unfold create_staging.simps, rule bounds)
  show "returns (create_staging n st (stagingDir st c)) (staged st c)"
  proof (induction n)
    case (Suc n)
    show ?case
      unfolding create_staging.simps returns_def
    proof (intro allI impI)
      fix w x w'
      assume a: "andThen (randomHex 12) (\<lambda>name. let stagingRoot = join_path (stagingDir st c) (''txn-'' @ name);
          parent = parent_dir stagingRoot
        in andThen (check_act (ensureUnderRoot (st_root st) stagingRoot)) (\<lambda>_.
           andThen (check_files (managed st parent)) (\<lambda>_.
           try_act (Mkdir stagingRoot)
             (\<lambda>_. andThen (syncDirChecked st parent ''before_staging_directory_sync'') (\<lambda>_.
                  andThen (check_files (managed st stagingRoot)) (\<lambda>_. ret stagingRoot)))
             (\<lambda>e. if IsExist e then create_staging n st (stagingDir st c) else fail_with e)))) w = (Inr x, w')"
      then obtain name v where r: "randomHex 12 w = (Inr name, v)"
        by (auto simp: andThen_Inr)
      then have "simple_name (''txn-'' @ name)"
        using randomHex_returns [of 12] unfolding returns_def by (blast intro: txn_simple)
      then have j: "staged st c (join_path (stagingDir st c) (''txn-'' @ name))"
        by (auto simp: staged_def join_simple)
      show "staged st c x"
        using a r j Suc by (auto simp: andThen_Inr try_Inr Let_def returns_def split: if_split_asm)
    qed
  qed (simp add: returns_def)
qed

lemma createStagingTransaction_safe:
  "names S \<Longrightarrow> safe st c S (createStagingTransaction st c)"
  "returns (createStagingTransaction st c) (staged st c)"
  using create_staging_safe(1) [where S = S and st = st and c = c and n = 8]
    create_staging_safe(2) [where st = st and c = c and n = 8]
  by (auto simp: createStagingTransaction_def returns_def andThen_Inr intro!: bounds)

text \<open>Documents: a path without \<^verbatim>\<open>..\<close> stays below.\<close>

lemma rejectTraversal_parts: "rejectTraversal win p = None \<Longrightarrow> ''..'' \<notin> set (split_slash (to_slash win p))"
  by (auto simp: rejectTraversal_def Let_def)

lemma join_below: "''..'' \<notin> set (split_slash rel) \<Longrightarrow> under p (join_path p rel)"
proof -
  have "''..'' \<notin> set cs \<Longrightarrow> under q (foldl clean_step q cs)" for q cs
    by (induction cs arbitrary: q) (auto simp: clean_step_def intro: under_trans [OF under_append])
  then show "''..'' \<notin> set (split_slash rel) \<Longrightarrow> ?thesis" by (simp add: join_path_def)
qed

lemma staged_under: "staged st c p \<Longrightarrow> under p q \<Longrightarrow> staged st c q"
  by (auto simp: staged_def under_iff)

lemma staged_temp: "staged st c p \<Longrightarrow> temp_tree p q \<Longrightarrow> volatile st c q"
proof -
  assume p: "staged st c p" "temp_tree p q"
  then obtain tmp where t: "parent_dir tmp = parent_dir p" "tmp \<noteq> []" "under tmp q"
    by (auto simp: temp_tree_def temp_for_def temp_path_def)
  have "under (stagingDir st c) (parent_dir p)"
    using p(1) by (auto simp: staged_def parent_dir_def butlast_append)
  then have "under (stagingDir st c) tmp"
    using t(1,2) by (metis append_butlast_last_id parent_dir_def under_append under_trans)
  then show ?thesis using t(3) by (metis under_trans volatile_staging)
qed

lemma staged_parent_above:
  assumes "staged st c p" "names S" "under q (parent_dir p)" shows "volatile st c q \<or> growable st c S q"
proof -
  show ?thesis using assms staged_above under_parent under_trans by blast
qed

lemma write_staged:
  assumes "staged st c p" "names S"
  shows "safe st c S (writeFileDurable p data)"
proof -
  have p: "p \<noteq> []" using assms(1) by (auto simp: staged_def)
  have "safe st c S (writeFileExclusiveRename p data)"
    unfolding bounded_def
    using write_exclusive_changes [OF _ p, of _ "volatile st c" "growable st c S" data]
      staged_temp [OF assms(1)] staged_parent_above [OF assms] staged_volatile [OF assms(1)]
    by blast
  then show ?thesis unfolding writeFileDurable_def by (intro bounds) auto
qed

lemma write_document_safe:
  assumes "staged st c d" "names S" shows "safe st c S (write_document st d x)"
  unfolding write_document_def Let_def
proof (rule bounded_check)
  assume "rejectTraversal False (pd_RelativePath x) = None"
  then have "''..'' \<notin> set (split_slash (pd_RelativePath x))"
    using rejectTraversal_parts [of False] unfolding to_slash_def by simp
  then have s: "staged st c (join_path d (pd_RelativePath x))"
    using assms(1) join_below staged_under by blast
  show "safe st c S (andThen (check_act (ensureUnderRoot (st_root st) (join_path d (pd_RelativePath x)))) (\<lambda>_.
      andThen (ensureManagedDir st (parent_dir (join_path d (pd_RelativePath x))) ''before_documents_directory_sync'') (\<lambda>_.
      writeFileDurable (join_path d (pd_RelativePath x)) (pd_Bytes x))))"
    by (intro bounds ensureManagedDir_bounded write_staged [OF s assms(2)] staged_parent_above [OF s assms(2)])
qed

text \<open>Artifacts: the blob is created where nothing is, under a name made of its digest.\<close>

lemma sha_simple:
  assumes "store_reSHA256 s"
  shows "simple_name s" "simple_name (take 2 s)" "\<not> isTempStoreName s"
proof -
  have l: "length s = 64" and h: "\<And>c. c \<in> set s \<Longrightarrow> c \<in> set lower_hex"
    using assms by (auto simp: store_reSHA256_def re_run_empty_prefix)
  have n: "CHR ''/'' \<notin> set s" "CHR ''.'' \<notin> set s" "CHR ''-'' \<notin> set s"
    using h by (auto simp: lower_hex_def)
  then have t: "CHR ''/'' \<notin> set (take 2 s)" "CHR ''.'' \<notin> set (take 2 s)" by (auto dest: in_set_takeD)
  have "s \<noteq> []" "take 2 s \<noteq> []" using l by auto
  then show "simple_name s" "simple_name (take 2 s)"
    using n t by (auto simp: simple_name_def)
  have "s \<noteq> r @ tempSuffix" for r
  proof
    assume "s = r @ tempSuffix"
    then have "CHR ''-'' \<in> set s" by (simp add: tempSuffix_def)
    then show False using n by blast
  qed
  then show "\<not> isTempStoreName s"
    by (auto simp: isTempStoreName_def has_suffix_def has_prefix_iff) (metis rev_append rev_rev_ident)
qed

definition blob_path :: "Store \<Rightarrow> string \<Rightarrow> string \<Rightarrow> path" where
  "blob_path st c s = caseDir st c @ [''artifacts'', ''sha256'', take 2 s, s]"

lemma blobAbsPath_simple: "store_reSHA256 s \<Longrightarrow> blobAbsPath st c s = blob_path st c s"
proof -
  assume s: "store_reSHA256 s"
  have 1: "join_path p (''artifacts'' @ CHR ''/'' # r) = join_path (p @ [''artifacts'']) r" for p r
    by (rule join_slash) simp
  have 2: "join_path p (''sha256'' @ CHR ''/'' # r) = join_path (p @ [''sha256'']) r" for p r
    by (rule join_slash) simp
  show ?thesis
    using 1 2 join_slash [OF sha_simple(2) [OF s]] join_simple [OF sha_simple(1) [OF s]]
    by (simp add: blobAbsPath_def blobRelativePath_def blob_path_def)
qed

text \<open>An action, then one whose bound depends on the tree it finds.\<close>

lemma changes_andThen:
  assumes wf: "wf_files (w_files w)" and m: "bounded V N m"
    and f: "\<And>x v. m w = (Inr x, v) \<Longrightarrow> changes V N (w_files w) (w_files v) \<Longrightarrow>
      changes V N (w_files v) (w_files (snd (f x v)))"
  shows "changes V N (w_files w) (w_files (snd (andThen m f w)))"
proof (cases "m w")
  case (Pair r v)
  have 1: "changes V N (w_files w) (w_files v)" using boundedD [OF m wf Pair] .
  then show ?thesis using Pair f by (cases r) (auto simp: andThen_def intro: changes_trans)
qed

lemma boundedD': "bounded V N m \<Longrightarrow> wf_files (w_files w) \<Longrightarrow> changes V N (w_files w) (w_files (snd (m w)))"
  by (simp add: bounded_def)

lemma changes_then:
  assumes c: "changes V N (w_files w) (w_files (snd (m w)))" and f: "\<And>x. bounded V N (f x)"
  shows "changes V N (w_files w) (w_files (snd (andThen m f w)))"
proof (cases "m w")
  case (Pair r v)
  have v: "changes V N (w_files w) (w_files v)" using c Pair by simp
  have "changes V N (w_files v) (w_files (snd (f x v)))" for x
    using f changes_wf [OF v] by (rule boundedD')
  then show ?thesis using v Pair by (cases r) (auto simp: andThen_def intro: changes_trans)
qed

definition blob_temp :: "Store \<Rightarrow> path \<Rightarrow> ArtifactRef \<Rightarrow> string \<Rightarrow> string \<Rightarrow> path io" where
  "blob_temp st dest ref sha bytes =
     andThen (ensureManagedDir st (parent_dir dest) ''before_artifact_hash_prefix_sync'') (\<lambda>_.
     andThen (randomHex 8) (\<lambda>suffix.
     let tmp = temp_name dest suffix in
     andThen (create_excl tmp) (\<lambda>_.
     andThen (cleanup_on_error (copy_artifact tmp ref sha bytes) (close_and_remove tmp)) (\<lambda>_.
     ret tmp))))"

lemma store_blob_split:
  "store_blob st dest ref sha bytes = andThen (blob_temp st dest ref sha bytes) (\<lambda>tmp.
     andThen (rename_or_remove tmp dest) (\<lambda>_. syncDirChecked st (parent_dir dest) ''before_artifact_blob_directory_sync''))"
  by (simp add: store_blob_def blob_temp_def andThen_assoc Let_def)

lemma blob_temp_returns: "returns (blob_temp st dest ref sha bytes) (temp_for dest)"
  by (auto simp: blob_temp_def returns_def andThen_Inr Let_def)

lemma blob_temp_bounded:
  assumes "\<And>q. temp_tree p q \<Longrightarrow> V q" "\<And>q. under q (parent_dir p) \<Longrightarrow> V q \<or> N q"
  shows "bounded V N (blob_temp st p ref sha bytes)"
proof -
  have t: "V (temp_name p s)" for s
    using assms(1) [OF temp_tree_self [OF temp_for_name]] .
  show ?thesis
    unfolding blob_temp_def copy_artifact_def Let_def
    by (intro bounds ensureManagedDir_bounded) (use assms t in \<open>auto intro: temp_for_name\<close>)
qed

lemma volatile_blob_temp:
  assumes "temp_tree (blob_path st c s) q" shows "volatile st c q"
proof -
  from assms obtain t where t: "temp_path t" "parent_dir t = parent_dir (blob_path st c s)" "under t q"
    by (auto simp: temp_tree_def temp_for_def)
  have "under (caseDir st c @ [''artifacts'']) (parent_dir t)"
    unfolding t(2) by (simp add: blob_path_def parent_dir_def butlast_append under_iff)
  with t(1,3) show ?thesis unfolding volatile_def by blast
qed

lemma growable_blob: "names S \<Longrightarrow> under (blob_path st c s) q \<Longrightarrow> growable st c S q"
  by (auto simp: blob_path_def under_iff intro: growable_below)

lemma growable_blob_above:
  assumes "names S" "under q (parent_dir (blob_path st c s))" shows "growable st c S q"
proof -
  have "under q (caseDir st c @ [''artifacts'', ''sha256'', take 2 s])"
    using assms(2) by (simp add: blob_path_def parent_dir_def butlast_append)
  then have "under q (caseDir st c) \<or> (\<exists>r. q = caseDir st c @ ''artifacts'' # r)"
    by (auto simp: under_iff append_eq_append_conv2 append_eq_Cons_conv Cons_eq_append_conv)
  then show ?thesis using assms(1) growable_above growable_below by fastforce
qed

lemma store_blob_changes:
  assumes wf: "wf_files (w_files w)" and S: "names S" and free: "look (w_files w) (blob_path st c s) = None"
  shows "changes (volatile st c) (growable st c S) (w_files w)
    (w_files (snd (store_blob st (blob_path st c s) ref s bytes w)))"
  unfolding store_blob_split
proof (rule changes_andThen [OF wf])
  let ?p = "blob_path st c s"
  show "safe st c S (blob_temp st ?p ref s bytes)"
    using volatile_blob_temp growable_blob_above [OF S] by (blast intro: blob_temp_bounded)
  fix tmp v
  assume v: "blob_temp st ?p ref s bytes w = (Inr tmp, v)"
    and c: "changes (volatile st c) (growable st c S) (w_files w) (w_files v)"
  have tf: "temp_for ?p tmp" using blob_temp_returns v unfolding returns_def by blast
  have p: "?p \<noteq> []" by (simp add: blob_path_def)
  have "changes (temp_tree ?p) (\<lambda>q. under q (parent_dir ?p)) (w_files w) (w_files v)"
    by (rule boundedD [OF blob_temp_bounded wf v]) auto
  then have "look (w_files v) ?p = None"
    using free temp_tree_not_target [OF p] not_under_parent [OF p] changes_same by metis
  then have "changes (volatile st c) (growable st c S) (w_files v) (w_files (snd (rename_or_remove tmp ?p v)))"
    using changes_wf [OF c] tf volatile_blob_temp growable_blob [OF S]
    by (intro rename_target_changes) auto
  then show "changes (volatile st c) (growable st c S) (w_files v) (w_files (snd (andThen (rename_or_remove tmp ?p)
      (\<lambda>_. syncDirChecked st (parent_dir ?p) ''before_artifact_blob_directory_sync'') v)))"
    by (rule changes_then) (rule bounds)
qed

lemma bounded_look:
  "(\<And>v. wf_files (w_files v) \<Longrightarrow> changes V N (w_files v) (w_files (snd (g (f (w_files v)) v)))) \<Longrightarrow>
    bounded V N (andThen (files_of f) g)"
  by (simp add: bounded_def andThen_def files_of_def)

lemma ingestArtifact_safe:
  assumes S: "names S" shows "safe st c S (ingestArtifact st c provider ref)"
  unfolding ingestArtifact_def Let_def
proof (rule bounded_check)
  let ?s = "lower_string (art_SHA256 ref)"
  assume "validateSHA256Hex ?s = None"
  then have s: "store_reSHA256 ?s" by (simp add: validateSHA256Hex_def check_id_def)
  note b = blobAbsPath_simple [OF s]
  let ?p = "blob_path st c ?s"
  have "changes (volatile st c) (growable st c S) (w_files v) (w_files (snd ((case Lstat (w_files v) ?p of
        Inr _ \<Rightarrow> reuse_blob st ?p ref ?s
      | Inl e \<Rightarrow> if \<not> IsNotExist e then fail_with e else provide_blob st ?p provider ref ?s) v)))"
    if wf: "wf_files (w_files v)" for v
  proof (cases "look (w_files v) ?p")
    case None
    have "?p \<noteq> []" by (simp add: blob_path_def)
    with None show ?thesis
      using wf store_blob_changes [OF wf S None]
      by (auto simp: Lstat_def provide_blob_def split: option.splits sum.splits)
  next
    case (Some n)
    have "safe st c S (reuse_blob st ?p ref ?s)" unfolding reuse_blob_def by (intro bounds)
    moreover have "?p \<noteq> []" by (simp add: blob_path_def)
    ultimately show ?thesis using Some wf by (simp add: Lstat_def bounded_def)
  qed
  then show "safe st c S (andThen (check_files (managed st (blobAbsPath st c ?s))) (\<lambda>_.
      andThen (check_files (managed st (parent_dir (blobAbsPath st c ?s)))) (\<lambda>_.
      andThen (files_of (\<lambda>fs. Lstat fs (blobAbsPath st c ?s))) (\<lambda>found.
      case found of
        Inr _ \<Rightarrow> reuse_blob st (blobAbsPath st c ?s) ref ?s
      | Inl e \<Rightarrow> if \<not> IsNotExist e then fail_with e else provide_blob st (blobAbsPath st c ?s) provider ref ?s))))"
    unfolding b by (intro bounded_andThen bounded_look pure_bounds)
qed

text \<open>The snapshot directory: moved to a free name, so not one of those published before.\<close>

definition stage_files ::
    "Store \<Rightarrow> string \<Rightarrow> ArtifactProvider \<Rightarrow> preparedDocument list \<Rightarrow> ArtifactRef list \<Rightarrow> string \<Rightarrow> path io" where
  "stage_files st c provider docs artifacts manifestBytes =
     andThen (createStagingTransaction st c) (\<lambda>stagingRoot.
     andThen (check_act (maybeFail st ''after_staging_created'')) (\<lambda>_.
     andThen ctx_Err (\<lambda>_.
     let docsDir = join_path stagingRoot ''documents'' in
     andThen (ensureManagedDir st docsDir ''before_documents_directory_sync'') (\<lambda>_.
     andThen (each_act (write_document st docsDir) docs) (\<lambda>_.
     andThen (check_act (maybeFail st ''after_documents_written'')) (\<lambda>_.
     andThen ctx_Err (\<lambda>_.
     andThen (each_act (ingestArtifact st c provider) artifacts) (\<lambda>_.
     andThen (check_act (maybeFail st ''after_artifacts_written'')) (\<lambda>_.
     andThen (writeFileDurable (join_path stagingRoot ''snapshot-manifest.json'') manifestBytes) (\<lambda>_.
     andThen (check_act (maybeFail st ''after_manifest_written'')) (\<lambda>_.
     ret stagingRoot)))))))))))"

lemma stage_split:
  "stage_snapshot st c provider docs artifacts sid manifestBytes =
     andThen (stage_files st c provider docs artifacts manifestBytes) (\<lambda>root.
     andThen (publish_snapshot st c sid manifestBytes root) (\<lambda>_.
     andThen (check_act (maybeFail st ''after_snapshot_published'')) (\<lambda>_.
     andThen (check_act (maybeFail st ''before_commit_published'')) (\<lambda>_. ctx_Err))))"
  by (simp add: stage_snapshot_def stage_files_def andThen_assoc Let_def)

lemma stage_files_safe:
  assumes S: "names S" shows "safe st c S (stage_files st c provider docs artifacts manifestBytes)"
  unfolding stage_files_def
proof (rule bounded_andThen_returns [OF createStagingTransaction_safe(1) [OF S] createStagingTransaction_safe(2)])
  fix root assume r: "staged st c root"
  have d: "staged st c (join_path root ''documents'')" "staged st c (join_path root ''snapshot-manifest.json'')"
    using r staged_append by (simp_all add: join_simple)
  show "safe st c S (andThen (check_act (maybeFail st ''after_staging_created'')) (\<lambda>_.
     andThen ctx_Err (\<lambda>_.
     let docsDir = join_path root ''documents'' in
     andThen (ensureManagedDir st docsDir ''before_documents_directory_sync'') (\<lambda>_.
     andThen (each_act (write_document st docsDir) docs) (\<lambda>_.
     andThen (check_act (maybeFail st ''after_documents_written'')) (\<lambda>_.
     andThen ctx_Err (\<lambda>_.
     andThen (each_act (ingestArtifact st c provider) artifacts) (\<lambda>_.
     andThen (check_act (maybeFail st ''after_artifacts_written'')) (\<lambda>_.
     andThen (writeFileDurable (join_path root ''snapshot-manifest.json'') manifestBytes) (\<lambda>_.
     andThen (check_act (maybeFail st ''after_manifest_written'')) (\<lambda>_.
     ret root)))))))))))"
    unfolding Let_def
    by (intro bounds ensureManagedDir_bounded staged_above [OF d(1) S] write_document_safe [OF d(1) S]
        ingestArtifact_safe [OF S] write_staged [OF d(2) S])
qed

lemma stage_files_returns: "returns (stage_files st c provider docs artifacts manifestBytes) (staged st c)"
  using createStagingTransaction_safe(2) [of st c]
  by (auto simp: stage_files_def returns_def andThen_Inr Let_def)

lemma publish_snapshot_changes:
  assumes wf: "wf_files (w_files w)" and S: "names S" and root: "staged st c root"
    and published: "\<forall>s \<in> S. look (w_files w) (snapshotDir st c s) \<noteq> None"
  shows "changes (volatile st c) (growable st c S) (w_files w) (w_files (snd (publish_snapshot st c sid mb root w)))"
proof (cases "validateSnapshotID sid")
  case (Some e)
  then show ?thesis using wf by (simp add: publish_snapshot_def Let_def andThen_def check_act_def)
next
  case ok: None
  then have sid: "simple_name sid"
    by (auto simp: validateSnapshotID_def check_id_def intro: snapshot_id_simple)
  let ?f = "snapshotDir st c sid"
  have f: "?f = caseDir st c @ [''snapshots'', sid]" using sid by (rule snapshotDir_simple)
  have rv: "volatile st c q" if "under root q" for q using root that by (rule staged_volatile)
  have p: "changes (volatile st c) (growable st c S) (w_files w)
      (w_files (snd ((case Lstat (w_files w) ?f of Inr _ \<Rightarrow> reuse_snapshot st c sid mb root
        | Inl e \<Rightarrow> if IsNotExist e then renameDurable root ?f else fail_with e) w)))"
  proof (cases "look (w_files w) ?f")
    case None
    have "sid \<notin> S" using published None by auto
    then have "growable st c S q" if "under ?f q" for q
      using that S by (auto simp: f growable_def case_dirs snapshotDir_simple under_iff parent_dir_def butlast_append)
    then have "changes (volatile st c) (growable st c S) (w_files w) (w_files (snd (Rename root ?f w)))"
      using Rename_changes [OF wf, of root "volatile st c" ?f "growable st c S"] rv None by blast
    then have "changes (volatile st c) (growable st c S) (w_files w) (w_files (snd (renameDurable root ?f w)))"
      unfolding renameDurable_def by (rule changes_then) (rule bounds)
    then show ?thesis using None wf by (simp add: Lstat_def f)
  next
    case (Some n)
    have "safe st c S (reuse_snapshot st c sid mb root)"
      unfolding reuse_snapshot_def by (intro bounds rv)
    then show ?thesis using Some wf by (simp add: Lstat_def f bounded_def)
  qed
  show ?thesis
    unfolding publish_snapshot_def Let_def ok
    using p wf by (cases "ensureUnderRoot (st_root st) ?f") (simp_all add: andThen_def check_act_def files_of_def)
qed

lemma snapshotDir_not_volatile: "simple_name s \<Longrightarrow> \<not> volatile st c (snapshotDir st c s)"
proof
  let ?p = "caseDir st c @ [''snapshots'', s]"
  assume s: "simple_name s" and "volatile st c (snapshotDir st c s)"
  then have "volatile st c ?p" by (simp add: snapshotDir_simple)
  moreover have "\<not> under (stagingDir st c) ?p" by (auto simp: case_dirs under_iff)
  moreover have False if t: "temp_path q" "under q ?p" and
      d: "parent_dir q = commitsDir st c \<or> under (caseDir st c @ [''artifacts'']) (parent_dir q)" for q
  proof -
    have "under (parent_dir q) ?p" using under_parent t(2) by (rule under_trans)
    then have "under (commitsDir st c) ?p \<or> under (caseDir st c @ [''artifacts'']) ?p"
      using d by (auto dest: under_trans)
    then show False by (auto simp: case_dirs under_iff)
  qed
  ultimately show False unfolding volatile_def by blast
qed

lemma stage_snapshot_changes:
  assumes wf: "wf_files (w_files w)" and S: "names S"
    and published: "\<forall>s \<in> S. look (w_files w) (snapshotDir st c s) \<noteq> None"
  shows "changes (volatile st c) (growable st c S) (w_files w)
    (w_files (snd (stage_snapshot st c provider docs artifacts sid mb w)))"
  unfolding stage_split
proof (rule changes_andThen [OF wf stage_files_safe [OF S]])
  fix root v
  assume v: "stage_files st c provider docs artifacts mb w = (Inr root, v)"
    and c: "changes (volatile st c) (growable st c S) (w_files w) (w_files v)"
  have root: "staged st c root" using stage_files_returns v unfolding returns_def by blast
  have "look (w_files v) (snapshotDir st c s) \<noteq> None" if "s \<in> S" for s
  proof -
    have "\<not> volatile st c (snapshotDir st c s)"
      using S that snapshotDir_not_volatile by blast
    then show ?thesis using changes_keeps [OF c] published that by fastforce
  qed
  then have 1: "changes (volatile st c) (growable st c S) (w_files v) (w_files (snd (publish_snapshot st c sid mb root v)))"
    using publish_snapshot_changes [OF changes_wf [OF c] S root] by blast
  have 2: "safe st c S (andThen (check_act (maybeFail st ''after_snapshot_published'')) (\<lambda>_.
     andThen (check_act (maybeFail st ''before_commit_published'')) (\<lambda>_. ctx_Err)))"
    by (intro bounds)
  show "changes (volatile st c) (growable st c S) (w_files v) (w_files (snd (andThen (publish_snapshot st c sid mb root) (\<lambda>_.
     andThen (check_act (maybeFail st ''after_snapshot_published'')) (\<lambda>_.
     andThen (check_act (maybeFail st ''before_commit_published'')) (\<lambda>_. ctx_Err))) v)))"
    using 1 2 by (rule changes_then)
qed

end
