(* ===== verification/CommitProofs.thy ===== *)
theory CommitProofs
  imports CaseStoreProofs
begin

text \<open>
  A whole commit: what it may change, that the commit file appears at once, and the chain that is
  loaded afterwards.
\<close>

section \<open>Publishing the commit file\<close>

abbreviation commit_path :: "Store \<Rightarrow> string \<Rightarrow> commitRecord \<Rightarrow> path" where
  "commit_path st c r \<equiv> commitsDir st c @ [commitFileName (rec_Sequence r) (rec_CommitID r)]"

lemma commitsDir_not_Nil [simp]: "commitsDir st c \<noteq> []" "caseDir st c @ p # ps \<noteq> []"
  by (simp_all add: case_dirs)

text \<open>What follows the rename: it changes nothing, and its errors leave the outcome unknown.\<close>

definition finish_commit :: "Store \<Rightarrow> string \<Rightarrow> commitRecord \<Rightarrow> CommitInfo io" where
  "finish_commit st c record =
     (let unknown = CommitOutcomeUnknownError c (rec_SnapshotID record) in
      andThen (check_act (wrap_err unknown (maybeFail st ''after_commit_published''))) (\<lambda>_.
      try_act (syncDirChecked st (commitsDir st c) ''before_commit_directory_sync'')
        (\<lambda>_. andThen (check_act (wrap_err unknown (maybeFail st ''after_commit_directory_sync''))) (\<lambda>_.
             ret (info_of c False record)))
        (\<lambda>derr. andThen (check_act (wrap_err unknown (maybeFail st ''after_commit_directory_sync''))) (\<lambda>_.
                fail_with (unknown derr)))))"

lemma publish_commit_split:
  "publish_commit st c record raw =
     (let name = commitFileName (rec_Sequence record) (rec_CommitID record); final = join_path (commitsDir st c) name in
      andThen (check_act (ensureUnderRoot (st_root st) final)) (\<lambda>_.
      andThen (check_files (\<lambda>fs. case Lstat fs final of
         Inr _ \<Rightarrow> Some (integrity ''commit file already exists: %s'' [GStr name]) | Inl _ \<Rightarrow> None)) (\<lambda>_.
      andThen (writeFileExclusiveRename final raw) (\<lambda>_. finish_commit st c record))))"
  by (simp add: publish_commit_def finish_commit_def Let_def)

lemma finish_result:
  "finish_commit st c record v = (r, w') \<Longrightarrow>
    r = Inr (info_of c False record) \<or> (\<exists>e. r = Inl (CommitOutcomeUnknownError c (rec_SnapshotID record) e))"
  by (auto simp: finish_commit_def Let_def andThen_def try_act_def check_act_def wrap_err_def
      split: prod.splits sum.splits option.splits)

lemma finish_bounded: "bounded V N (finish_commit st c record)"
  unfolding finish_commit_def by (intro bounds)

lemma finish_files:
  assumes "wf_files (w_files v)" "finish_commit st c record v = (r, w')"
  shows "look (w_files w') p = look (w_files v) p"
  using changes_same [OF boundedD [OF finish_bounded [of "\<lambda>_. False" "\<lambda>_. False"] assms]] by blast

lemma andThen_check_act: "andThen (check_act a) f w = (case a of None \<Rightarrow> f () w | Some e \<Rightarrow> (Inl e, w))"
  by (simp add: andThen_def check_act_def split: option.split)

lemma andThen_check_files:
  "andThen (check_files g) f w = (case g (w_files w) of None \<Rightarrow> f () w | Some e \<Rightarrow> (Inl e, w))"
  by (simp add: andThen_def check_files_def check_act_def split: option.split)

lemma andThen_with_files:
  "andThen (with_files g) f w = (case g (w_files w) of Inr x \<Rightarrow> f x w | Inl e \<Rightarrow> (Inl e, w))"
  by (simp add: andThen_def with_files_def split: sum.split)

lemma andThen_lift_result: "andThen (lift_result a) f w = (case a of Inr x \<Rightarrow> f x w | Inl e \<Rightarrow> (Inl e, w))"
  by (simp add: andThen_def lift_result_def split: sum.split)

lemmas andThen_checks = andThen_check_act andThen_check_files andThen_with_files andThen_lift_result

lemma publish_commit_result:
  assumes wf: "wf_files (w_files v)" and S: "names S"
    and name: "simple_name (commitFileName (rec_Sequence record) (rec_CommitID record))"
    and r: "publish_commit st c record raw v = (r, w')"
  shows "changes (volatile st c) (\<lambda>q. growable st c S q \<or> q = commit_path st c record) (w_files v) (w_files w')"
    and "look (w_files w') (commit_path st c record) = look (w_files v) (commit_path st c record) \<and> (\<exists>e. r = Inl e) \<or>
      look (w_files v) (commit_path st c record) = None \<and>
      look (w_files w') (commit_path st c record) = Some (File raw) \<and>
      (r = Inr (info_of c False record) \<or> (\<exists>e. r = Inl (CommitOutcomeUnknownError c (rec_SnapshotID record) e)))"
proof -
  let ?p = "commit_path st c record" and ?N = "\<lambda>q. growable st c S q \<or> q = commit_path st c record"
  let ?d = "commitsDir st c"
  have j: "join_path ?d (commitFileName (rec_Sequence record) (rec_CommitID record)) = ?p"
    using name by (rule join_simple)
  have pd: "parent_dir ?p = ?d" by (simp add: parent_dir_def)
  have t: "volatile st c q" if "temp_tree ?p q" for q
    using that pd by (auto simp: temp_tree_def temp_for_def volatile_def)
  have up: "?N q" if "under q (parent_dir ?p)" for q
    using that growable_above [OF S] growable_dirs(1) [OF S] unfolding pd by (auto simp: case_dirs under_snoc)
  have down: "?N q" if q: "under ?p q" for q
  proof (cases "q = ?p")
    case False
    then obtain x y where "q = ?p @ x @ [y]" using q unfolding under_iff by (metis append_butlast_last_id append_Nil2)
    then show ?thesis using S by (auto simp: growable_def case_dirs snapshotDir_simple under_iff parent_dir_def butlast_append)
  qed simp
  consider (stop) e where "r = Inl e" "w' = v"
    | (go) "look (w_files v) ?p = None"
        "andThen (writeFileExclusiveRename ?p raw) (\<lambda>_. finish_commit st c record) v = (r, w')"
    using r unfolding publish_commit_split
    by (auto simp: Let_def j andThen_checks Lstat_def split: option.splits if_split_asm)
  then have "changes (volatile st c) ?N (w_files v) (w_files w') \<and>
      (look (w_files w') ?p = look (w_files v) ?p \<and> (\<exists>e. r = Inl e) \<or>
       look (w_files v) ?p = None \<and> look (w_files w') ?p = Some (File raw) \<and>
       (r = Inr (info_of c False record) \<or> (\<exists>e. r = Inl (CommitOutcomeUnknownError c (rec_SnapshotID record) e))))"
  proof cases
    case stop
    then show ?thesis using wf by simp
  next
    case go
    obtain q u where w: "writeFileExclusiveRename ?p raw v = (q, u)" by (cases "writeFileExclusiveRename ?p raw v")
    have "changes (volatile st c) ?N (w_files v) (w_files (snd (writeFileExclusiveRename ?p raw v)))"
      by (rule write_exclusive_changes [OF wf]) (use t up down go(1) in auto)
    then have u: "changes (volatile st c) ?N (w_files v) (w_files u)" by (simp add: w)
    have x: "(q = Inr () \<longrightarrow> look (w_files u) ?p = Some (File raw)) \<and>
        (\<forall>e. q = Inl e \<longrightarrow> look (w_files u) ?p = look (w_files v) ?p)"
      by (rule write_exclusive_result [OF wf _ w]) simp
    show ?thesis
    proof (cases q)
      case (Inl e)
      then have "r = Inl e" "w' = u" using go(2) w by (simp_all add: andThen_def)
      then show ?thesis using u x Inl by simp
    next
      case (Inr y)
      then have f: "finish_commit st c record u = (r, w')" using go(2) w by (simp add: andThen_def)
      have "changes (volatile st c) ?N (w_files u) (w_files w')"
        using boundedD [OF finish_bounded changes_wf [OF u] f] .
      then have 1: "changes (volatile st c) ?N (w_files v) (w_files w')" using u changes_trans by blast
      have 2: "look (w_files w') ?p = Some (File raw)"
        using finish_files [OF changes_wf [OF u] f] x Inr by simp
      show ?thesis using 1 2 go(1) finish_result [OF f] by simp
    qed
  qed
  then show "changes (volatile st c) ?N (w_files v) (w_files w')"
    and "look (w_files w') ?p = look (w_files v) ?p \<and> (\<exists>e. r = Inl e) \<or>
       look (w_files v) ?p = None \<and> look (w_files w') ?p = Some (File raw) \<and>
       (r = Inr (info_of c False record) \<or> (\<exists>e. r = Inl (CommitOutcomeUnknownError c (rec_SnapshotID record) e)))"
    by blast+
qed

section \<open>The clock\<close>

text \<open>A commit reads the clock and never sets it.\<close>

definition clocked :: "'a io \<Rightarrow> bool" where
  "clocked m \<longleftrightarrow> (\<forall>w. w_clock (snd (m w)) = w_clock w)"

named_theorems clocks "actions that leave the clock alone"

lemma clockedD: "clocked m \<Longrightarrow> m w = (r, v) \<Longrightarrow> w_clock v = w_clock w"
  unfolding clocked_def by (metis snd_conv)

lemma next_fault_clock: "next_fault w = (f, v) \<Longrightarrow> w_clock v = w_clock w"
  by (auto simp: next_fault_def split: list.splits)

lemma clocked_base [clocks]:
  "clocked (ret x)" "clocked (fail_with e)" "clocked (check_act a)" "clocked (lift_result q)"
  "clocked (files_of f)" "clocked (with_files g)" "clocked (check_files h)" "clocked ctx_Err"
  "clocked (randomHex n)" "clocked (flock p)" "clocked (os_call k part)"
  by (auto simp: clocked_def check_act_def lift_result_def files_of_def with_files_def check_files_def
      ctx_Err_def randomHex_def flock_def os_call_def next_fault_clock
      split: option.splits sum.splits list.splits prod.splits)

lemma clocked_andThen [clocks]: "clocked m \<Longrightarrow> (\<And>x. clocked (f x)) \<Longrightarrow> clocked (andThen m f)"
  unfolding clocked_def andThen_def by (auto split: prod.split sum.split) (metis snd_conv)+

lemma clocked_try [clocks]:
  "clocked m \<Longrightarrow> (\<And>x. clocked (f x)) \<Longrightarrow> (\<And>e. clocked (h e)) \<Longrightarrow> clocked (try_act m f h)"
  unfolding clocked_def try_act_def by (auto split: prod.split sum.split) (metis snd_conv)+

lemma clocked_others [clocks]:
  "clocked m \<Longrightarrow> clocked k \<Longrightarrow> clocked (cleanup_on_error m k)"
  "clocked k \<Longrightarrow> clocked (ignore_error k)"
  "clocked m \<Longrightarrow> (\<And>e. clocked (h e)) \<Longrightarrow> clocked (on_error m h)"
  unfolding clocked_def cleanup_on_error_def ignore_error_def on_error_def
  by (auto split: prod.split sum.split) (metis snd_conv)+

lemma clocked_each [clocks]: "(\<And>x. clocked (f x)) \<Longrightarrow> clocked (each_act f xs)"
  by (induction xs) (simp_all add: clocks)

lemma clocked_branches [clocks]:
  "(b \<Longrightarrow> clocked m) \<Longrightarrow> (\<not> b \<Longrightarrow> clocked n) \<Longrightarrow> clocked (if b then m else n)"
  "(\<And>e. clocked (f e)) \<Longrightarrow> (\<And>x. clocked (g x)) \<Longrightarrow> clocked (case r of Inl e \<Rightarrow> f e | Inr x \<Rightarrow> g x)"
  "clocked n \<Longrightarrow> (\<And>x. clocked (h x)) \<Longrightarrow> clocked (case a of None \<Rightarrow> n | Some x \<Rightarrow> h x)"
  "(\<And>x y. clocked (k x y)) \<Longrightarrow> clocked (case p of (x, y) \<Rightarrow> k x y)"
  "clocked (f' z) \<Longrightarrow> clocked (Let z f')"
  by (auto split: sum.split option.split prod.split)

lemma clocked_calls [clocks]:
  "clocked (Mkdir p)" "clocked (create_excl p)" "clocked (write_file p d)" "clocked sync_or_close"
  "clocked (Rename p q)" "clocked (Remove p)" "clocked (RemoveAll p)" "clocked (open_lock_file p)"
  unfolding Mkdir_def create_excl_def write_file_def sync_or_close_def Rename_def Remove_def RemoveAll_def
    open_lock_file_def by (rule clocks)+

lemma clocked_dirs [clocks]: "clocked (MkdirAll p)" "clocked (syncDir p)" "clocked (syncDirChecked st p cp)"
  unfolding MkdirAll_def mkdir_step_def syncDir_def syncDirChecked_def by (intro clocks)+

lemma clocked_managed [clocks]: "clocked (ensureManagedDir st p cp)"
proof (induction st p cp rule: ensureManagedDir.induct)
  case (1 st p cp)
  have "clocked (if parent_dir p \<noteq> p \<and> parent_dir p \<noteq> st_root st then ensureManagedDir st (parent_dir p) cp else ret ())"
    if "IsNotExist e" for e
    using "1.IH" [of e] that by (intro clocks) simp
  then show ?case
    unfolding ensureManagedDir.simps [of st p cp] by (intro clocks) simp_all
qed

lemma clocked_temp [clocks]: "clocked (create_temp n p)"
  by (induction n) (unfold create_temp.simps, (intro clocks; assumption?)+)

lemma clocked_write [clocks]: "clocked (writeFileExclusiveRename p d)" "clocked (writeFileDurable p d)"
  unfolding writeFileDurable_def writeFileExclusiveRename_def close_and_remove_def rename_or_remove_def
  by (intro clocks)+

lemma clocked_staging [clocks]: "clocked (create_staging n st p)"
  by (induction n) (unfold create_staging.simps, (intro clocks; assumption?)+)

lemma clocked_stage [clocks]: "clocked (stage_snapshot st c provider docs artifacts sid mb)"
  unfolding stage_snapshot_def createStagingTransaction_def write_document_def ingestArtifact_def reuse_blob_def
    provide_blob_def store_blob_def copy_artifact_def close_and_remove_def rename_or_remove_def
    publish_snapshot_def reuse_snapshot_def renameDurable_def
  by (intro clocks)

lemma clocked_prepare [clocks]: "clocked (ensureCaseDirs st c)" "clocked (acquireCaseLock p)"
  unfolding ensureCaseDirs_def acquireCaseLock_def by (intro clocks)+

section \<open>The commit under the lock\<close>

text \<open>A run through the checks of an action: it stops with an error, or goes on in the same world.\<close>

named_theorems act_elims "the ways through an action"

lemma check_elims [act_elims]:
  assumes "andThen (check_act a) f w = (r, w')"
  obtains e where "r = Inl e" "w' = w" | "a = None" "f () w = (r, w')"
  using assms by (auto simp: andThen_check_act split: option.splits)

lemma check_files_elims [act_elims]:
  assumes "andThen (check_files g) f w = (r, w')"
  obtains e where "r = Inl e" "w' = w" | "g (w_files w) = None" "f () w = (r, w')"
  using assms by (auto simp: andThen_check_files split: option.splits)

lemma with_files_elims [act_elims]:
  assumes "andThen (with_files g) f w = (r, w')"
  obtains e where "r = Inl e" "w' = w" | x where "g (w_files w) = Inr x" "f x w = (r, w')"
  using assms by (auto simp: andThen_with_files split: sum.splits)

lemma lift_elims [act_elims]:
  assumes "andThen (lift_result a) f w = (r, w')"
  obtains e where "r = Inl e" "w' = w" | x where "a = Inr x" "f x w = (r, w')"
  using assms by (auto simp: andThen_lift_result split: sum.splits)

lemma if_elims [act_elims]:
  assumes "(if b then m else n) w = (r, w')"
  obtains "b" "m w = (r, w')" | "\<not> b" "n w = (r, w')"
  using assms by (auto split: if_split_asm)

lemma pair_elims [act_elims]:
  assumes "(case p of (x, y) \<Rightarrow> f x y) w = (r, w')"
  obtains x y where "p = (x, y)" "f x y w = (r, w')"
  using assms by (cases p) auto

lemma stage_snapshot_valid:
  "stage_snapshot st c provider docs artifacts sid mb w = (Inr (), w') \<Longrightarrow> validateSnapshotID sid = None"
  unfolding stage_split andThen_Inr by (auto simp: publish_snapshot_def andThen_Inr Let_def)

text \<open>The record a commit adds to a chain, and the bytes of its file.\<close>

definition new_record :: "instant \<Rightarrow> CommitRequest \<Rightarrow> commitRecord list \<Rightarrow> commitRecord \<Rightarrow> string \<Rightarrow> bool" where
  "new_record now rq chain record raw \<longleftrightarrow>
     (\<exists>sid mb. validateSnapshotID sid = None \<and>
        buildCommitRecord (cm_CaseID (snap_Case (cq_Snapshot rq))) (next_sequence chain) (head_parent chain) sid
          (sha256Hex mb) (format_rfc3339 now) (cq_Reason rq) = Inr (record, raw))"

text \<open>What a commit does once its checks have passed.\<close>

definition commit_tail ::
    "Store \<Rightarrow> CommitRequest \<Rightarrow> string \<Rightarrow> commitRecord list \<Rightarrow> preparedDocument list \<Rightarrow> ArtifactRef list \<Rightarrow>
     snapshotManifest \<Rightarrow> string \<Rightarrow> CommitInfo io" where
  "commit_tail st rq c chain docs artifacts m mb =
     andThen (stage_snapshot st c (cq_ArtifactProvider rq) docs artifacts (smf_SnapshotID m) mb) (\<lambda>_.
     andThen (read_act (\<lambda>w. (w_clock w, w))) (\<lambda>now.
     andThen (lift_result (buildCommitRecord c (next_sequence chain) (head_parent chain) (smf_SnapshotID m)
               (sha256Hex mb) (format_rfc3339 now) (cq_Reason rq)))
      (\<lambda>(record, raw). publish_commit st c record raw)))"

lemma commitLocked_result:
  assumes wf: "wf_files (w_files w)" and S: "names S"
    and published: "\<forall>s \<in> S. look (w_files w) (snapshotDir st c s) \<noteq> None"
    and r: "commitLocked st rq w = (r, w')" and c: "c = cm_CaseID (snap_Case (cq_Snapshot rq))"
  shows "changes (volatile st c) (growable st c S) (w_files w) (w_files w') \<and>
      ((\<exists>e. r = Inl e) \<or> (\<exists>info. r = Inr info \<and> ci_Idempotent info)) \<or>
    (\<exists>chain record raw v. loadCommitChain st (w_files w) c = Inr chain \<and> new_record (w_clock w) rq chain record raw \<and>
      changes (volatile st c) (growable st c S) (w_files w) (w_files v) \<and>
      publish_commit st c record raw v = (r, w'))"
proof -
  have quiet: "changes (volatile st c) (growable st c S) (w_files w) (w_files w) \<and>
      ((\<exists>e. r = Inl e) \<or> (\<exists>info. r = Inr info \<and> ci_Idempotent info))"
    if "r = Inl e \<or> r = Inr (info_of c True x)" for e x
    using wf that by (auto simp: info_of_def)
  consider (stop) e x where "r = Inl e \<or> r = Inr (info_of c True x)" "w' = w"
    | (go) chain docs artifacts m mb where "loadCommitChain st (w_files w) c = Inr chain"
        "commit_tail st rq c chain docs artifacts m mb w = (r, w')"
    using r unfolding commitLocked_def Let_def c [symmetric]
      commit_tail_def [symmetric] ret_def
    by (elim act_elims) blast+
  then show ?thesis
  proof cases
    case stop
    then show ?thesis using quiet by blast
  next
    case go
    let ?st = "stage_snapshot st c (cq_ArtifactProvider rq) docs artifacts (smf_SnapshotID m) mb"
    obtain q v where q: "?st w = (q, v)" by (cases "?st w")
    have v: "changes (volatile st c) (growable st c S) (w_files w) (w_files v)"
      using stage_snapshot_changes [OF wf S published, where provider = "cq_ArtifactProvider rq"] q
      by (metis snd_conv)
    show ?thesis
    proof (cases q)
      case (Inl e)
      then show ?thesis using go(2) [unfolded commit_tail_def] q v by (auto simp: andThen_def)
    next
      case (Inr y)
      have sid: "validateSnapshotID (smf_SnapshotID m) = None"
        using stage_snapshot_valid q Inr by simp
      show ?thesis
      proof (cases "buildCommitRecord c (next_sequence chain) (head_parent chain) (smf_SnapshotID m)
                   (sha256Hex mb) (format_rfc3339 (w_clock v)) (cq_Reason rq)")
        case (Inl e)
        then have "r = Inl e" "w' = v"
          using go(2) [unfolded commit_tail_def] q Inr by (simp_all add: andThen_def read_act_def lift_result_def)
        then show ?thesis using v by simp
      next
        case (Inr rr)
        obtain n raw where rr: "rr = (n, raw)" by (cases rr)
        have "publish_commit st c n raw v = (r, w')"
          using go(2) [unfolded commit_tail_def] q Inr \<open>q = Inr y\<close> rr by (simp add: andThen_def read_act_def lift_result_def)
        moreover have "new_record (w_clock w) rq chain n raw"
          unfolding new_record_def using sid Inr rr c clockedD [OF clocked_stage q] by metis
        ultimately show ?thesis using go(1) v by blast
      qed
    qed
  qed
qed

section \<open>The whole commit\<close>

lemma andThen_elims:
  assumes "andThen m f w = (r, w')"
  obtains e where "m w = (Inl e, w')" "r = Inl e" | x v where "m w = (Inr x, v)" "f x v = (r, w')"
  using assms by (auto simp: andThen_def split: prod.splits sum.splits)

lemma withCaseLock_elims:
  assumes wf: "wf_files (w_files w)" and S: "names S" and r: "withCaseLock st c m w = (r, w')"
  obtains e where "r = Inl e" "changes (volatile st c) (growable st c S) (w_files w) (w_files w')"
  | u v where "changes (volatile st c) (growable st c S) (w_files w) (w_files u)" "w_clock u = w_clock w"
      "m u = (r, v)" "w_files w' = w_files v"
  using r unfolding withCaseLock_def
proof (elim check_files_elims andThen_elims)
  fix e assume "r = Inl e" "w' = w"
  then show thesis using that(1) wf by simp
next
  fix e assume "acquireCaseLock (lockPath st c) w = (Inl e, w')" "r = Inl e"
  then show thesis using that(1) boundedD [OF acquireCaseLock_safe [OF S] wf] by blast
next
  fix x u
  assume a: "acquireCaseLock (lockPath st c) w = (Inr x, u)"
    and m: "(case m u of (r, v) \<Rightarrow> (r, snd (unlock (lockPath st c) v))) = (r, w')"
  obtain q v where v: "m u = (q, v)" by (cases "m u")
  have "changes (volatile st c) (growable st c S) (w_files w) (w_files u)"
    using boundedD [OF acquireCaseLock_safe [OF S] wf a] .
  then show thesis using that(2) [of u v] m v clockedD [OF clocked_prepare(2) a] by (auto simp: unlock_def)
qed

definition known_reason :: "string \<Rightarrow> bool" where
  "known_reason r \<longleftrightarrow> r = CommitReasonLegacyImport \<or> r = CommitReasonCaseSnapshot"

lemma Commit_result:
  assumes wf: "wf_files (w_files w)" and S: "names S"
    and published: "\<forall>s \<in> S. look (w_files w) (snapshotDir st c s) \<noteq> None"
    and r: "Commit st rq w = (r, w')" and c: "c = cm_CaseID (snap_Case (cq_Snapshot rq))"
  shows "changes (volatile st c) (growable st c S) (w_files w) (w_files w') \<and>
      ((\<exists>e. r = Inl e) \<or> (\<exists>info. r = Inr info \<and> ci_Idempotent info)) \<or>
    (\<exists>(u::world) chain record raw v v'. changes (volatile st c) (growable st c S) (w_files w) (w_files u) \<and>
      ensureCaseTreeSafe st c (w_files w) = None \<and> known_reason (cq_Reason rq) \<and>
      loadCommitChain st (w_files u) c = Inr chain \<and> new_record (w_clock w) rq chain record raw \<and>
      changes (volatile st c) (growable st c S) (w_files u) (w_files v) \<and>
      publish_commit st c record raw v = (r, v') \<and> w_files w' = w_files v')"
    (is "?quiet \<or> ?publish")
proof -
  have ctx: "w_files v = w_files u" if "ctx_Err u = (x, v)" for x u v
    using pure_acts(8) that by (metis pure_act_def snd_conv)
  obtain q v where q: "ctx_Err w = (q, v)" by (cases "ctx_Err w")
  have v: "w_files v = w_files w" using ctx q .
  consider (stop) e where "r = Inl e" "w' = v"
    | (go) "known_reason (cq_Reason rq)" "ensureCaseTreeSafe st c (w_files v) = None"
        "andThen (ensureCaseDirs st c) (\<lambda>_. withCaseLock st c (andThen ctx_Err (\<lambda>_. commitLocked st rq))) v = (r, w')"
    using r unfolding Commit_def Let_def c [symmetric]
    by (cases q) (auto simp: andThen_def [of ctx_Err] q andThen_checks known_reason_def err_if_def
        split: option.splits if_split_asm)
  then show ?thesis
  proof cases
    case stop
    then show ?thesis using v wf by simp
  next
    case go
    from go(3) show ?thesis
    proof (rule andThen_elims)
      fix e assume "ensureCaseDirs st c v = (Inl e, w')" "r = Inl e"
      then show ?thesis using boundedD [OF ensureCaseDirs_safe [OF S], of v] v wf by simp
    next
      fix y u
      assume u: "ensureCaseDirs st c v = (Inr y, u)"
        and l: "withCaseLock st c (andThen ctx_Err (\<lambda>_. commitLocked st rq)) u = (r, w')"
      have cu: "changes (volatile st c) (growable st c S) (w_files w) (w_files u)"
        using boundedD [OF ensureCaseDirs_safe [OF S] _ u] v wf by simp
      from changes_wf [OF cu] S l show ?thesis
      proof (rule withCaseLock_elims)
        fix e assume "r = Inl e" "changes (volatile st c) (growable st c S) (w_files u) (w_files w')"
        then show ?thesis using cu changes_trans by blast
      next
        fix a b
        assume a: "changes (volatile st c) (growable st c S) (w_files u) (w_files a)" and ka: "w_clock a = w_clock u"
          and b: "andThen ctx_Err (\<lambda>_. commitLocked st rq) a = (r, b)" and w': "w_files w' = w_files b"
        have ca: "changes (volatile st c) (growable st c S) (w_files w) (w_files a)"
          using cu a changes_trans by blast
        from b show ?thesis
        proof (rule andThen_elims)
          fix e assume "ctx_Err a = (Inl e, b)" "r = Inl e"
          then show ?thesis using ca ctx w' by simp
        next
          fix x t
          assume t: "ctx_Err a = (Inr x, t)" and f: "commitLocked st rq t = (r, b)"
          have ta: "w_files t = w_files a" using ctx t .
          have clock: "w_clock t = w_clock w"
            using ka clockedD [OF clocked_base(8) t] clockedD [OF clocked_prepare(1) u] clockedD [OF clocked_base(8) q] by simp
          have p: "\<forall>s \<in> S. look (w_files t) (snapshotDir st c s) \<noteq> None"
            using published changes_keeps [OF ca] snapshotDir_not_volatile S ta by metis
          have wt: "wf_files (w_files t)" using changes_wf [OF ca] by (simp add: ta)
          have ct: "changes (volatile st c) (growable st c S) (w_files w) (w_files t)" using ca by (simp add: ta)
          have safe: "ensureCaseTreeSafe st c (w_files w) = None" using go(2) v by simp
          from commitLocked_result [OF wt S p f c] show ?thesis
          proof (elim disjE)
            assume "changes (volatile st c) (growable st c S) (w_files t) (w_files b) \<and>
              ((\<exists>e. r = Inl e) \<or> (\<exists>info. r = Inr info \<and> ci_Idempotent info))"
            then have ?quiet using changes_trans [OF ct] unfolding w' by blast
            then show ?thesis ..
          next
            assume "\<exists>chain record raw v. loadCommitChain st (w_files t) c = Inr chain \<and>
              new_record (w_clock t) rq chain record raw \<and>
              changes (volatile st c) (growable st c S) (w_files t) (w_files v) \<and>
              publish_commit st c record raw v = (r, b)"
            then have ?publish using ct go(1) safe w' clock by metis
            then show ?thesis ..
          qed
        qed
      qed
    qed
  qed
qed

end
