(* ===== verification/GoJsonRoundTrip.thy ===== *)
theory GoJsonRoundTrip
  imports GoJsonDecode
begin

text \<open>
  Decoding undoes \<open>marshal\<close>: the text of a document of valid UTF-8 strings and of compact raw
  messages parses back to that document, whatever follows it. \<open>value_of\<close> is the document as the
  parser sees it, \<open>json_fits d\<close> says that a document has no invalid string and no more than \<open>d\<close>
  levels.
\<close>

section \<open>Bytes that end a value\<close>

definition stops :: "string \<Rightarrow> bool" where
  "stops x \<longleftrightarrow> x = [] \<or> hd x \<in> {CHR '','', CHR '']'', CHR ''}''}"

lemma stops_facts:
  assumes "stops x"
  shows "dropWhile digit x = x" "\<not> starts (CHR ''.'') x" "\<not> starts (CHR ''e'') x" "\<not> starts (CHR ''E'') x"
  using assms by (cases x; auto simp: stops_def digit_def)+

lemma stops_Cons [simp]: "stops []" "stops (CHR '','' # x)" "stops (CHR '']'' # x)" "stops (CHR ''}'' # x)"
  by (simp_all add: stops_def)

lemma starts_append: "starts c s \<Longrightarrow> starts c (s @ x)"
  by (cases s) auto

lemma starts_append_iff: "s \<noteq> [] \<Longrightarrow> starts c (s @ x) \<longleftrightarrow> starts c s"
  by (cases s) auto

lemma tl_append_starts: "starts c s \<Longrightarrow> tl (s @ x) = tl s @ x"
  by (cases s) auto

lemma skip_space_append: "skip_space s \<noteq> [] \<Longrightarrow> skip_space (s @ x) = skip_space s @ x"
  by (induction s) (auto simp: skip_space_def)

lemma starts_not_Nil: "starts c s \<Longrightarrow> s \<noteq> []"
  by (cases s) auto

section \<open>What follows a value does not matter\<close>

lemma string_tail_append: "string_tail s = Some (b, r) \<Longrightarrow> string_tail (s @ x) = Some (b, r @ x)"
proof (induction s arbitrary: b rule: string_tail.induct)
  case 1
  then show ?case by simp
next
  case (2 c s)
  have four: "four_hex s' \<Longrightarrow> four_hex (s' @ x)" for s'
    by (simp add: four_hex_def)
  show ?case
  proof (cases "c = CHR 0x5C")
    case True
    with 2 four show ?thesis
      by (cases s) (force split: if_split_asm)+
  next
    case False
    with 2 show ?thesis
      by (force split: if_split_asm)
  qed
qed

lemma some_digits_append:
  "some_digits s = Some r \<Longrightarrow> stops x \<Longrightarrow> some_digits (s @ x) = Some (r @ x)"
proof -
  assume s: "some_digits s = Some r" and x: "stops x"
  have "dropWhile digit (s @ x) = dropWhile digit s @ x" for s
    by (induction s) (auto simp: stops_facts [OF x])
  with s show ?thesis
    by (cases s) (auto simp: some_digits_def split: if_splits)
qed

lemma number_int_append:
  "number_int s = Some r \<Longrightarrow> stops x \<Longrightarrow> number_int (s @ x) = Some (r @ x)"
  using some_digits_append [of s r x]
  by (cases s) (auto simp: number_int_def some_digits_def split: if_split_asm)

lemma number_frac_append:
  "number_frac s = Some r \<Longrightarrow> stops x \<Longrightarrow> number_frac (s @ x) = Some (r @ x)"
  using some_digits_append [of "tl s" r x] stops_facts [of x]
  by (cases s) (auto simp: number_frac_def starts_append_iff split: if_split_asm)

lemma drop_sign_append: "s \<noteq> [] \<Longrightarrow> drop_sign (s @ x) = drop_sign s @ x"
  by (cases s) (auto simp: drop_sign_def)

lemma number_exp_append:
  "number_exp s = Some r \<Longrightarrow> stops x \<Longrightarrow> number_exp (s @ x) = Some (r @ x)"
  using some_digits_append [of "drop_sign (tl s)" r x] stops_facts [of x]
  by (cases s; cases "tl s")
     (auto simp: number_exp_def drop_sign_def some_digits_def split: if_split_asm)

lemma number_tail_append:
  assumes "number_tail s = Some r" "stops x"
  shows "number_tail (s @ x) = Some (r @ x)"
proof -
  from assms obtain a b where a: "number_int (if starts (CHR ''-'') s then tl s else s) = Some a"
      and b: "number_frac a = Some b" "number_exp b = Some r"
    by (auto simp: number_tail_def bind_eq_Some_conv)
  have "s \<noteq> []" using a by (auto simp: number_int_def some_digits_def)
  then have "number_int (if starts (CHR ''-'') (s @ x) then tl (s @ x) else s @ x) = Some (a @ x)"
    using a number_int_append [of s a, OF _ assms(2)] number_int_append [of "tl s" a, OF _ assms(2)]
    by (cases s) (auto split: if_split_asm)
  then show ?thesis
    using b number_frac_append [OF _ assms(2)] number_exp_append [OF _ assms(2)]
    by (simp add: number_tail_def)
qed

lemma literal_tail_append: "literal_tail w s = Some r \<Longrightarrow> literal_tail w (s @ x) = Some (r @ x)"
  by (auto simp: literal_tail_def has_prefix_iff split: if_splits)

lemma upto_rest_append: "length r \<le> length s \<Longrightarrow> upto_rest (s @ x) (r @ x) = upto_rest s r"
  by (simp add: upto_rest_def)

lemma scalar_value_append:
  assumes "scalar_value s = Some (v, r)" "stops x"
  shows "scalar_value (s @ x) = Some (v, r @ x)"
proof -
  have "s \<noteq> []" using scalar_value_shorter [OF assms(1)] by auto
  then obtain c t where s: "s = c # t" by (cases s) auto
  show ?thesis
    using assms(1) string_tail_append [of t _ r x] literal_tail_append [of _ s r x]
      number_tail_append [of s r, OF _ assms(2)] number_tail_shorter [of s r]
      upto_rest_append [of r s x]
    unfolding scalar_value_def s
    by (auto split: if_split_asm)
qed

lemma member_key_append: "member_key s = Some (k, t) \<Longrightarrow> t \<noteq> [] \<Longrightarrow> member_key (s @ x) = Some (k, t @ x)"
proof -
  assume m: "member_key s = Some (k, t)" and t: "t \<noteq> []"
  from m obtain b r where q: "starts (CHR 0x22) s" "string_tail (tl s) = Some (b, r)"
      "starts (CHR '':'') (skip_space r)" and k: "k = unquote b" "t = skip_space (tl (skip_space r))"
    by (auto simp: member_key_def split: if_split_asm option.splits)
  have r: "skip_space (r @ x) = skip_space r @ x"
    using q(3) by (intro skip_space_append starts_not_Nil)
  have "string_tail (tl s @ x) = Some (b, r @ x)" by (rule string_tail_append [OF q(2)])
  then show ?thesis
    using q k t r skip_space_append [of "tl (skip_space r)" x]
    by (simp add: member_key_def starts_append tl_append_starts)
qed

text \<open>The three functions once more, as rules.\<close>

lemma parse_value_cases:
  obtains (obj) "starts (CHR ''{'') s" | (arr) "\<not> starts (CHR ''{'') s" "starts (CHR ''['') s"
    | (scalar) "\<not> starts (CHR ''{'') s" "\<not> starts (CHR ''['') s"
  by blast

lemma parse_members_step:
  "parse_members d s = Some (ms, r) \<longleftrightarrow> (\<exists>k t v q. member_key s = Some (k, t) \<and> parse_value d t = Some (v, q) \<and>
     (if starts (CHR '','') (skip_space q)
      then \<exists>ns. parse_members d (skip_space (tl (skip_space q))) = Some (ns, r) \<and> ms = (k, upto_rest t q, v) # ns
      else starts (CHR ''}'') (skip_space q) \<and> r = tl (skip_space q) \<and> ms = [(k, upto_rest t q, v)]))"
proof -
  have "length q < length s" if "member_key s = Some (k, t)" "parse_value d t = Some (v, q)" for k t v q
    using member_key_shorter [OF that(1)] parse_shorter(1) [OF that(2)] by simp
  then show ?thesis
    by (subst parse_members.simps) (auto simp: Let_def split: option.splits)
qed

lemma parse_elems_step:
  "parse_elems d s = Some (es, r) \<longleftrightarrow> (\<exists>v q. parse_value d s = Some (v, q) \<and>
     (if starts (CHR '','') (skip_space q)
      then \<exists>fs. parse_elems d (skip_space (tl (skip_space q))) = Some (fs, r) \<and> es = (upto_rest s q, v) # fs
      else starts (CHR '']'') (skip_space q) \<and> r = tl (skip_space q) \<and> es = [(upto_rest s q, v)]))"
  using parse_shorter(1) [of d s]
  by (subst parse_elems.simps) (auto simp: Let_def split: option.splits)

lemma parse_value_obj:
  "starts (CHR ''{'') s \<Longrightarrow> parse_value d s = Some (v, r) \<longleftrightarrow> d \<noteq> 0 \<and>
     (if starts (CHR ''}'') (skip_space (tl s)) then v = VObj [] \<and> r = tl (skip_space (tl s))
      else \<exists>ms. parse_members (d - 1) (skip_space (tl s)) = Some (ms, r) \<and> v = VObj ms)"
  by (subst parse_value.simps) (auto simp: Let_def)

lemma parse_value_arr:
  "starts (CHR ''['') s \<Longrightarrow> parse_value d s = Some (v, r) \<longleftrightarrow> d \<noteq> 0 \<and>
     (if starts (CHR '']'') (skip_space (tl s)) then v = VArr [] \<and> r = tl (skip_space (tl s))
      else \<exists>es. parse_elems (d - 1) (skip_space (tl s)) = Some (es, r) \<and> v = VArr es)"
  by (subst parse_value.simps) (auto simp: Let_def starts_def)

lemma parse_value_scalar:
  "\<not> starts (CHR ''{'') s \<Longrightarrow> \<not> starts (CHR ''['') s \<Longrightarrow> parse_value d s = scalar_value s"
  by (simp add: parse_value.simps)

lemma parse_not_Nil: "parse_value d s = Some (v, r) \<Longrightarrow> s \<noteq> []"
    "parse_members d s = Some (ms, r) \<Longrightarrow> s \<noteq> []" "parse_elems d s = Some (es, r) \<Longrightarrow> s \<noteq> []"
  using parse_shorter [of d s] by auto

lemmas append_simps = starts_append tl_append_starts starts_append_iff starts_not_Nil
  skip_space_append

text \<open>All three by induction on the length; an array parses its first element at the same length.\<close>

lemma parse_append_all:
  assumes x: "stops x"
  shows "(\<forall>d e v r. parse_value d s = Some (v, r) \<longrightarrow> d \<le> e \<longrightarrow> parse_value e (s @ x) = Some (v, r @ x)) \<and>
    (\<forall>d e ms r. parse_members d s = Some (ms, r) \<longrightarrow> d \<le> e \<longrightarrow> parse_members e (s @ x) = Some (ms, r @ x)) \<and>
    (\<forall>d e es r. parse_elems d s = Some (es, r) \<longrightarrow> d \<le> e \<longrightarrow> parse_elems e (s @ x) = Some (es, r @ x))"
proof (induction s rule: length_induct)
  case (1 s)
  have IHv: "parse_value e (t @ x) = Some (v, r @ x)"
    if "parse_value d t = Some (v, r)" "d \<le> e" "length t < length s" for d e v r t
    using 1 that by blast
  have IHm: "parse_members e (t @ x) = Some (ms, r @ x)"
    if "parse_members d t = Some (ms, r)" "d \<le> e" "length t < length s" for d e ms r t
    using 1 that by blast
  have IHe: "parse_elems e (t @ x) = Some (es, r @ x)"
    if "parse_elems d t = Some (es, r)" "d \<le> e" "length t < length s" for d e es r t
    using 1 that by blast
  have val: "parse_value e (s @ x) = Some (v, r @ x)" if p: "parse_value d s = Some (v, r)" and de: "d \<le> e" for d e v r
  proof (cases rule: parse_value_cases [of s])
    case obj
    note l = starts_skip_less [OF obj]
    have ne: "skip_space (tl s) \<noteq> []"
      using p [unfolded parse_value_obj [OF obj]] parse_not_Nil(2)
      by (metis starts_not_Nil)
    with p obj de show ?thesis
      using IHm [OF _ _ l, of "d - 1" _ r "e - 1"]
      by (auto simp: parse_value_obj append_simps split: if_split_asm)
  next
    case arr
    note l = starts_skip_less [OF arr(2)]
    have ne: "skip_space (tl s) \<noteq> []"
      using p [unfolded parse_value_arr [OF arr(2)]] parse_not_Nil(3)
      by (metis starts_not_Nil)
    with p arr de show ?thesis
      using IHe [OF _ _ l, of "d - 1" _ r "e - 1"]
      by (auto simp: parse_value_arr append_simps split: if_split_asm)
  next
    case scalar
    have "s \<noteq> []" using p by (rule parse_not_Nil)
    with scalar p x show ?thesis
      by (simp add: parse_value_scalar starts_append_iff scalar_value_append)
  qed
  have mem: "parse_members e (s @ x) = Some (ms, r @ x)" if p: "parse_members d s = Some (ms, r)" and de: "d \<le> e" for d e ms r
  proof -
    from p obtain k t v q where k: "member_key s = Some (k, t)" and v: "parse_value d t = Some (v, q)"
        and rest: "if starts (CHR '','') (skip_space q)
          then \<exists>ns. parse_members d (skip_space (tl (skip_space q))) = Some (ns, r) \<and> ms = (k, upto_rest t q, v) # ns
          else starts (CHR ''}'') (skip_space q) \<and> r = tl (skip_space q) \<and> ms = [(k, upto_rest t q, v)]"
      by (auto simp: parse_members_step)
    have lt: "length t < length s" using k by (rule member_key_shorter)
    have lq: "length q < length t" using v by (rule parse_shorter)
    have k': "member_key (s @ x) = Some (k, t @ x)"
      using k parse_not_Nil(1) [OF v] by (rule member_key_append)
    have v': "parse_value e (t @ x) = Some (v, q @ x)" using v de lt by (rule IHv)
    have u: "upto_rest (t @ x) (q @ x) = upto_rest t q" using lq by (simp add: upto_rest_append)
    have ne: "skip_space q \<noteq> []" using rest starts_not_Nil by (auto split: if_split_asm)
    show ?thesis
    proof (cases "starts (CHR '','') (skip_space q)")
      case True
      then obtain ns where n: "parse_members d (skip_space (tl (skip_space q))) = Some (ns, r)"
          "ms = (k, upto_rest t q, v) # ns"
        using rest by auto
      have "length (skip_space (tl (skip_space q))) < length s"
        using lq lt skip_tl_less by (metis less_trans)
      from IHm [OF n(1) de this] parse_not_Nil(2) [OF n(1)] k' v' u n True ne show ?thesis
        by (auto simp: parse_members_step append_simps)
    next
      case False
      with rest k' v' u ne show ?thesis
        by (auto simp: parse_members_step append_simps)
    qed
  qed
  have els: "parse_elems e (s @ x) = Some (es, r @ x)" if p: "parse_elems d s = Some (es, r)" and de: "d \<le> e" for d e es r
  proof -
    from p obtain v q where v: "parse_value d s = Some (v, q)"
        and rest: "if starts (CHR '','') (skip_space q)
          then \<exists>ns. parse_elems d (skip_space (tl (skip_space q))) = Some (ns, r) \<and> es = (upto_rest s q, v) # ns
          else starts (CHR '']'') (skip_space q) \<and> r = tl (skip_space q) \<and> es = [(upto_rest s q, v)]"
      by (auto simp: parse_elems_step)
    have lq: "length q < length s" using v by (rule parse_shorter)
    have v': "parse_value e (s @ x) = Some (v, q @ x)" using v de by (rule val)
    have u: "upto_rest (s @ x) (q @ x) = upto_rest s q" using lq by (simp add: upto_rest_append)
    have ne: "skip_space q \<noteq> []" using rest starts_not_Nil by (auto split: if_split_asm)
    show ?thesis
    proof (cases "starts (CHR '','') (skip_space q)")
      case True
      then obtain ns where n: "parse_elems d (skip_space (tl (skip_space q))) = Some (ns, r)"
          "es = (upto_rest s q, v) # ns"
        using rest by auto
      from IHe [OF n(1) de skip_tl_less [OF lq]] parse_not_Nil(3) [OF n(1)] v' u n True ne show ?thesis
        by (auto simp: parse_elems_step append_simps)
    next
      case False
      with rest v' u ne show ?thesis
        by (auto simp: parse_elems_step append_simps)
    qed
  qed
  show ?case using val mem els by blast
qed

lemma parse_append:
  "parse_value d s = Some (v, r) \<Longrightarrow> stops x \<Longrightarrow> d \<le> e \<Longrightarrow> parse_value e (s @ x) = Some (v, r @ x)"
  using parse_append_all [of x s] by blast

section \<open>Strings\<close>

text \<open>Valid UTF-8.\<close>

function utf8_valid :: "string \<Rightarrow> bool" where
  "utf8_valid [] = True"
| "utf8_valid (c # s) =
     (if (of_char c :: nat) < 128 then utf8_valid s
      else let n = utf8_size (c # s) in n \<noteq> 0 \<and> utf8_valid (drop (n - 1) s))"
  by pat_completeness auto
termination by (relation "measure length") auto

declare utf8_valid.simps(2) [simp del] unquote.simps(2) [simp del] json_escape.simps(2) [simp del]

lemma utf8_valid_ascii: "(\<forall>c \<in> set s. (of_char c :: nat) < 128) \<Longrightarrow> utf8_valid s"
  by (induction s) (auto simp: utf8_valid.simps(2))

text \<open>A sequence is recognised by its own bytes, all of them at least 128.\<close>

lemma utf8_size_bounds: "utf8_size s \<noteq> 0 \<Longrightarrow> 2 \<le> utf8_size s \<and> utf8_size s \<le> length s"
  by (auto simp: utf8_size_def Let_def split: list.splits if_split_asm)

lemma utf8_size_take:
  assumes "utf8_size s = n" "n \<noteq> 0"
  shows "utf8_size (take n s @ x) = n"
proof -
  obtain a b r where s: "s = a # b # r"
    using assms by (auto simp: utf8_size_def split: list.splits)
  let ?m = "(of_char a :: nat)"
  have n: "2 \<le> n" "n \<le> length s" using utf8_size_bounds [of s] assms by auto
  then have t: "take n s @ x = a # b # take (n - 2) r @ x"
    by (simp add: s take_Cons' numeral_2_eq_2)
  have "take (n - 2) (take (n - 2) r @ x) = take (n - 2) r"
    using n s by simp
  with assms n show ?thesis
    unfolding t unfolding s by (auto simp: utf8_size_def Let_def split: if_split_asm)
qed

lemma utf8_size_high:
  assumes "utf8_size s = n" "c \<in> set (take n s)"
  shows "128 \<le> (of_char c :: nat)"
proof -
  obtain a b r where s: "s = a # b # r"
    using assms by (cases s rule: remdups_adj.cases) (auto simp: utf8_size_def)
  have "2 \<le> n" using assms utf8_size_bounds [of s] by (cases n) auto
  then have "set (take n s) = insert a (insert b (set (take (n - 2) r)))"
    by (simp add: s take_Cons' numeral_2_eq_2)
  with assms show ?thesis
    unfolding s
    by (auto simp: utf8_size_def Let_def cont_byte_def list_all_iff split: if_split_asm)
qed

text \<open>The three shapes of an escaped ASCII byte.\<close>

definition esc_simple :: "char \<Rightarrow> bool" where
  "esc_simple c \<longleftrightarrow> length (esc_ascii c) = 2 \<and> hd (esc_ascii c) = CHR 0x5C \<and>
     esc_ascii c ! 1 \<in> set simple_escapes \<and> unescape (esc_ascii c ! 1) = c"

definition esc_hex :: "char \<Rightarrow> bool" where
  "esc_hex c \<longleftrightarrow> length (esc_ascii c) = 6 \<and> take 2 (esc_ascii c) = [CHR 0x5C, CHR ''u''] \<and>
     four_hex (drop 2 (esc_ascii c)) \<and> hex4 (drop 2 (esc_ascii c)) = of_char c"

definition esc_plain :: "char \<Rightarrow> bool" where
  "esc_plain c \<longleftrightarrow> esc_ascii c = [c] \<and> c \<noteq> CHR 0x22 \<and> c \<noteq> CHR 0x5C \<and> 32 \<le> (of_char c :: nat)"

lemma hex_digit_facts:
  "k < 16 \<Longrightarrow> hex_val (hex_digit k) = k \<and> hex_digit k \<in> set any_hex"
proof -
  have d: "hex_digit 0 = CHR ''0''" "hex_digit 1 = CHR ''1''" "hex_digit 2 = CHR ''2''" "hex_digit 3 = CHR ''3''"
    "hex_digit 4 = CHR ''4''" "hex_digit 5 = CHR ''5''" "hex_digit 6 = CHR ''6''" "hex_digit 7 = CHR ''7''"
    "hex_digit 8 = CHR ''8''" "hex_digit 9 = CHR ''9''" "hex_digit 10 = CHR ''a''" "hex_digit 11 = CHR ''b''"
    "hex_digit 12 = CHR ''c''" "hex_digit 13 = CHR ''d''" "hex_digit 14 = CHR ''e''" "hex_digit 15 = CHR ''f''"
    by (simp_all add: hex_digit_def lower_hex_def)
  assume "k < 16"
  then have "k \<in> {0, 1, 2, 3, 4, 5, 6, 7, 8, 9, 10, 11, 12, 13, 14, 15}"
    by (simp only: insert_iff empty_iff) presburger
  then show ?thesis
    by (elim insertE emptyE; hypsubst; simp only: d; simp add: hex_val_def any_hex_def)
qed

lemma esc_u00_hex:
  assumes "esc_ascii c = esc_u00 c" shows "esc_hex c"
proof -
  let ?n = "of_char c :: nat"
  have n: "?n div 16 < 16" "?n mod 16 < 16"
    using nat_of_char_less_256 [of c] by (auto simp del: nat_of_char_less_256)
  have z: "CHR ''0'' \<in> set any_hex" "hex_val (CHR ''0'') = 0"
    by (simp_all add: any_hex_def hex_val_def)
  show ?thesis
    using hex_digit_facts [OF n(1)] hex_digit_facts [OF n(2)] z
    by (simp add: esc_hex_def assms esc_u00_def four_hex_def hex4_def)
qed

lemma esc_shapes:
  assumes "(of_char c :: nat) < 128"
  obtains (simple) "esc_simple c" | (hex) "esc_hex c" | (plain) "esc_plain c"
proof (cases "c \<in> {CHR 0x5C, CHR 0x22, CHR 0x08, CHR 0x0C, CHR 0x0A, CHR 0x0D, CHR 0x09}")
  case True
  then have "esc_simple c"
    by (elim insertE emptyE; hypsubst; simp add: esc_simple_def esc_ascii_def simple_escapes_def unescape_def)
  then show ?thesis by (rule simple)
next
  case False
  show ?thesis
  proof (cases "(of_char c :: nat) < 32 \<or> c = CHR ''<'' \<or> c = CHR ''>'' \<or> c = CHR ''&''")
    case True
    with False have "esc_ascii c = esc_u00 c" by (simp add: esc_ascii_def)
    then show ?thesis by (intro hex esc_u00_hex)
  next
    case nh: False
    with False have "esc_plain c" by (auto simp: esc_plain_def esc_ascii_def)
    then show ?thesis by (rule plain)
  qed
qed

lemma list2: "length l = 2 \<Longrightarrow> l = [hd l, l ! 1]"
  by (cases l rule: remdups_adj.cases) auto

lemma list6: "length l = 6 \<Longrightarrow> take 2 l = [a, b] \<Longrightarrow> l = a # b # drop 2 l"
  by (metis append_Cons append_Nil append_take_drop_id)

lemma esc_hex_obtain:
  assumes "esc_hex c"
  obtains h where "esc_ascii c = CHR 0x5C # CHR ''u'' # h" "length h = 4" "four_hex h" "hex4 h = of_char c"
proof
  show "esc_ascii c = CHR 0x5C # CHR ''u'' # drop 2 (esc_ascii c)"
    by (rule list6) (use assms in \<open>simp_all add: esc_hex_def\<close>)
qed (use assms in \<open>simp_all add: esc_hex_def\<close>)

lemma four_hex_append: "four_hex h \<Longrightarrow> four_hex (h @ x)"
  by (simp add: four_hex_def)

lemma hex4_append: "length h = 4 \<Longrightarrow> hex4 (h @ x) = hex4 h"
  by (simp add: hex4_def)

text \<open>Hex digits and the bytes of a sequence pass through \<open>string_tail\<close>.\<close>

lemma string_tail_plain:
  "(\<forall>c \<in> set p. 32 \<le> (of_char c :: nat) \<and> c \<noteq> CHR 0x22 \<and> c \<noteq> CHR 0x5C) \<Longrightarrow>
    string_tail (p @ u) = map_option (apfst ((@) p)) (string_tail u)"
  by (induction p) (auto simp: option.map_comp comp_def apfst_compose map_option_case split: option.splits)

lemma hex_plain: "c \<in> set any_hex \<Longrightarrow> 32 \<le> (of_char c :: nat) \<and> c \<noteq> CHR 0x22 \<and> c \<noteq> CHR 0x5C"
proof -
  have "\<forall>c \<in> set any_hex. 32 \<le> (of_char c :: nat) \<and> c \<noteq> CHR 0x22 \<and> c \<noteq> CHR 0x5C"
    by (simp add: any_hex_def)
  then show "c \<in> set any_hex \<Longrightarrow> ?thesis" by blast
qed

lemma string_tail_u:
  assumes "length h = 4" "four_hex h"
  shows "string_tail (CHR 0x5C # CHR ''u'' # h @ u) = map_option (apfst (\<lambda>b. CHR 0x5C # CHR ''u'' # h @ b)) (string_tail u)"
proof -
  have "\<forall>c \<in> set h. c \<in> set any_hex" using assms by (simp add: four_hex_def list_all_iff)
  then have "string_tail (h @ u) = map_option (apfst ((@) h)) (string_tail u)"
    using string_tail_plain hex_plain by blast
  then show ?thesis
    using four_hex_append [OF assms(2)] by (cases "string_tail u") auto
qed

lemma string_tail_esc:
  assumes "(of_char c :: nat) < 128"
  shows "string_tail (esc_ascii c @ u) = map_option (apfst ((@) (esc_ascii c))) (string_tail u)"
  using assms
proof (cases rule: esc_shapes)
  case simple
  then obtain e where e: "esc_ascii c = [CHR 0x5C, e]" "e \<in> set simple_escapes"
    unfolding esc_simple_def using list2 by metis
  then show ?thesis by (cases "string_tail u") auto
next
  case hex
  then obtain h where h: "esc_ascii c = CHR 0x5C # CHR ''u'' # h" "length h = 4" "four_hex h"
      "hex4 h = of_char c"
    by (rule esc_hex_obtain)
  show ?thesis unfolding h(1) using string_tail_u [OF h(2,3), of u] by (cases "string_tail u") auto
next
  case plain
  then show ?thesis by (cases "string_tail u") (auto simp: esc_plain_def)
qed

lemma unquote_esc:
  assumes "(of_char c :: nat) < 128"
  shows "unquote (esc_ascii c @ u) = c # unquote u"
  using assms
proof (cases rule: esc_shapes)
  case simple
  then obtain e where e: "esc_ascii c = [CHR 0x5C, e]" "e \<in> set simple_escapes" "unescape e = c"
    unfolding esc_simple_def using list2 by metis
  then have "e \<noteq> CHR ''u''" by (auto simp: simple_escapes_def)
  with e show ?thesis by (simp add: unquote.simps(2))
next
  case hex
  then obtain h where h: "esc_ascii c = CHR 0x5C # CHR ''u'' # h" "length h = 4" "four_hex h"
      "hex4 h = of_char c"
    by (rule esc_hex_obtain)
  show ?thesis unfolding h(1) using assms h(2,4)
    by (simp add: unquote.simps(2) hex4_append utf8_encode_def)
next
  case plain
  then show ?thesis using assms by (simp add: esc_plain_def unquote.simps(2))
qed

lemma unquote_high:
  assumes "utf8_size s = n" "n \<noteq> 0"
  shows "unquote (take n s @ u) = take n s @ unquote u"
proof -
  obtain c t where s: "s = c # t" using assms by (cases s) (auto simp: utf8_size_def)
  have n: "2 \<le> n" "n \<le> length s" using assms utf8_size_bounds [of s] by auto
  then have hd: "take n s = c # take (n - 1) t" by (cases n) (auto simp: s)
  have c: "128 \<le> (of_char c :: nat)" using utf8_size_high [OF assms(1), of c] hd by simp
  have sz: "utf8_size (c # take (n - 1) t @ u) = n"
    using utf8_size_take [OF assms, of u] hd by simp
  have bs: "c \<noteq> CHR 0x5C" using c by auto
  have "unquote (take n s @ u) = take n (c # take (n - 1) t @ u) @ unquote (drop (n - 1) (take (n - 1) t @ u))"
    unfolding hd using c sz n bs by (simp add: unquote.simps(2) Let_def)
  also have "\<dots> = take n s @ unquote u"
    using n hd by (simp add: s take_Cons')
  finally show ?thesis .
qed

lemma string_tail_high:
  assumes "utf8_size s = n"
  shows "string_tail (take n s @ u) = map_option (apfst ((@) (take n s))) (string_tail u)"
proof -
  have "32 \<le> (of_char c :: nat) \<and> c \<noteq> CHR 0x22 \<and> c \<noteq> CHR 0x5C" if "c \<in> set (take n s)" for c
    using utf8_size_high [OF assms that] by auto
  then show ?thesis using string_tail_plain by blast
qed

text \<open>The two separators are written as escapes.\<close>

lemma seps:
  "unquote (CHR 0x5C # ''u2028'' @ u) = line_sep @ unquote u"
  "unquote (CHR 0x5C # ''u2029'' @ u) = para_sep @ unquote u"
  "string_tail (CHR 0x5C # ''u2028'' @ u) = map_option (apfst (\<lambda>b. CHR 0x5C # ''u2028'' @ b)) (string_tail u)"
  "string_tail (CHR 0x5C # ''u2029'' @ u) = map_option (apfst (\<lambda>b. CHR 0x5C # ''u2029'' @ b)) (string_tail u)"
proof -
  have h: "hex4 (''2028'' @ u) = 0x2028" "hex4 (''2029'' @ u) = 0x2029"
    by (simp_all add: hex4_def hex_val_def)
  have e: "utf8_encode 0x2028 = line_sep" "utf8_encode 0x2029 = para_sep"
    by (simp_all add: utf8_encode_def line_sep_def para_sep_def char_of_def bit_0)
  have f: "four_hex ''2028''" "four_hex ''2029''"
    by (simp_all add: four_hex_def any_hex_def)
  show "unquote (CHR 0x5C # ''u2028'' @ u) = line_sep @ unquote u"
    "unquote (CHR 0x5C # ''u2029'' @ u) = para_sep @ unquote u"
    using h e by (simp_all add: unquote.simps(2))
  show "string_tail (CHR 0x5C # ''u2028'' @ u) = map_option (apfst (\<lambda>b. CHR 0x5C # ''u2028'' @ b)) (string_tail u)"
    "string_tail (CHR 0x5C # ''u2029'' @ u) = map_option (apfst (\<lambda>b. CHR 0x5C # ''u2029'' @ b)) (string_tail u)"
    using string_tail_u [of "''2028''" u] string_tail_u [of "''2029''" u] f by simp_all
qed

lemma json_escape_tail:
  "utf8_valid s \<Longrightarrow> string_tail (json_escape s @ CHR 0x22 # x) = Some (json_escape s, x)"
proof (induction s rule: utf8_valid.induct)
  case 1
  then show ?case by simp
next
  case (2 c s)
  show ?case
  proof (cases "(of_char c :: nat) < 128")
    case True
    with 2 show ?thesis
      by (simp add: json_escape.simps(2) utf8_valid.simps(2) string_tail_esc)
  next
    case False
    let ?n = "utf8_size (c # s)" and ?u = "drop (utf8_size (c # s) - 1) s"
    have n: "?n \<noteq> 0" and v: "utf8_valid ?u"
      using False "2.prems" by (simp_all add: utf8_valid.simps(2) Let_def)
    have ih: "string_tail (json_escape ?u @ CHR 0x22 # x) = Some (json_escape ?u, x)"
      using "2.IH"(2) [OF False refl] n v by simp
    show ?thesis
      using False n ih seps(3,4) [of "json_escape ?u @ CHR 0x22 # x"]
        string_tail_high [of "c # s" ?n "json_escape ?u @ CHR 0x22 # x"]
      by (auto simp: json_escape.simps(2) Let_def)
  qed
qed

lemma unquote_json_escape: "utf8_valid s \<Longrightarrow> unquote (json_escape s) = s"
proof (induction s rule: utf8_valid.induct)
  case 1
  then show ?case by simp
next
  case (2 c s)
  show ?case
  proof (cases "(of_char c :: nat) < 128")
    case True
    with 2 show ?thesis
      by (simp add: json_escape.simps(2) utf8_valid.simps(2) unquote_esc)
  next
    case False
    let ?n = "utf8_size (c # s)" and ?u = "drop (utf8_size (c # s) - 1) s"
    have n: "?n \<noteq> 0" and v: "utf8_valid ?u"
      using False "2.prems" by (simp_all add: utf8_valid.simps(2) Let_def)
    have ih: "unquote (json_escape ?u) = ?u"
      using "2.IH"(2) [OF False refl] n v by simp
    have whole: "take ?n (c # s) @ ?u = c # s"
      using n by (cases ?n) auto
    show ?thesis
      using False n ih whole seps(1,2) [of "json_escape ?u"]
        unquote_high [of "c # s" ?n "json_escape ?u", OF refl n]
      by (auto simp: json_escape.simps(2) Let_def)
  qed
qed

section \<open>Numbers\<close>

lemma show_nat_digits:
  "list_all digit (show_nat n) \<and> show_nat n \<noteq> [] \<and> (0 < n \<longrightarrow> hd (show_nat n) \<noteq> CHR ''0'') \<and>
    parse_digits (show_nat n) = Some n"
proof (induction n rule: show_nat.induct)
  case (1 n)
  have d: "of_char (char_of (48 + m) :: char) = (48 + m :: nat)" if "m < 10" for m :: nat
    using that by simp
  show ?case
  proof (cases "n < 10")
    case True
    have "char_of (48 + n) \<noteq> CHR ''0''" if "0 < n"
    proof
      assume "char_of (48 + n) = CHR ''0''"
      then have "of_char (char_of (48 + n) :: char) = (48 :: nat)" by simp
      with d [OF True] that show False by simp
    qed
    with True d [OF True] show ?thesis
      by (simp add: show_nat.simps [of n] digit_def parse_digits_def)
  next
    case False
    have m: "n mod 10 < 10" by simp
    have "0 < n div 10" using False by (simp add: div_greater_zero_iff)
    with False 1 d [OF m] show ?thesis
      by (auto simp: show_nat.simps [of n] digit_def parse_digits_def split: if_split_asm)
  qed
qed

lemma drop_digits: "list_all digit s \<Longrightarrow> stops x \<Longrightarrow> dropWhile digit (s @ x) = x"
  by (induction s) (auto simp: stops_facts)

lemma number_int_nat: "stops x \<Longrightarrow> number_int (show_nat n @ x) = Some x"
proof -
  assume x: "stops x"
  have d: "list_all digit (show_nat n)" "show_nat n \<noteq> []" using show_nat_digits [of n] by auto
  show ?thesis
  proof (cases "n = 0")
    case True
    then show ?thesis by (simp add: show_nat.simps number_int_def char_of_def bit_0)
  next
    case False
    then have "\<not> starts (CHR ''0'') (show_nat n @ x)"
      using show_nat_digits [of n] by (auto simp: starts_def)
    with d x show ?thesis
      by (cases "show_nat n") (auto simp: number_int_def some_digits_def stops_facts drop_digits)
  qed
qed

lemma show_nat_no_sign: "\<not> starts (CHR ''-'') (show_nat n @ x)"
  using show_nat_digits [of n] by (cases "show_nat n") (auto simp: digit_def)

lemma show_int_tail: "stops x \<Longrightarrow> number_tail (show_int i @ x) = Some x"
proof -
  assume x: "stops x"
  have r: "number_frac x = Some x" "number_exp x = Some x"
    using stops_facts [OF x] by (simp_all add: number_frac_def number_exp_def)
  show ?thesis
    using number_int_nat [OF x] r show_nat_no_sign
    by (auto simp: number_tail_def show_int_def)
qed

lemma parse_show_int: "parse_int (show_int i) = Some i"
  using show_nat_digits [of "nat i"] show_nat_digits [of "nat (- i)"] show_nat_no_sign [of "nat i" "[]"]
  by (auto simp: parse_int_def show_int_def)

lemma parse_digits_show_int: "parse_digits (show_int (int n)) = Some n"
  using show_nat_digits [of n] by (simp add: show_int_def)

section \<open>Documents\<close>

text \<open>The document as the parser returns it, with the bytes of its parts.\<close>

definition text_of :: "json \<Rightarrow> string" where
  "text_of j = (case marshal j of Inr s \<Rightarrow> s | Inl _ \<Rightarrow> [])"

fun value_of :: "json \<Rightarrow> jval" where
  "value_of JNull = VNull"
| "value_of (JBool b) = VBool b"
| "value_of (JInt i) = VNum (show_int i)"
| "value_of (JStr s) = VStr s"
| "value_of (JArr js) = VArr (map (\<lambda>j. (text_of j, value_of j)) js)"
| "value_of (JObj fs) = VObj (map (\<lambda>(k, j). (k, text_of j, value_of j)) fs)"
| "value_of (JRaw r) = (case r of None \<Rightarrow> VNull
     | Some s \<Rightarrow> (case parse_value max_nesting s of Some (v, _) \<Rightarrow> v | None \<Rightarrow> VNull))"

text \<open>A raw message that is its own compaction and one value of at most \<open>d\<close> levels.\<close>

definition raw_fits :: "nat \<Rightarrow> string \<Rightarrow> bool" where
  "raw_fits d s \<longleftrightarrow> d \<le> max_nesting \<and> json_valid s \<and> json_compact (BeginValue, []) s = s \<and> skip_space s = s \<and>
     map_option snd (parse_value d s) = Some []"

fun json_fits :: "nat \<Rightarrow> json \<Rightarrow> bool" where
  "json_fits d JNull = True"
| "json_fits d (JBool b) = True"
| "json_fits d (JInt i) = True"
| "json_fits d (JStr s) = utf8_valid s"
| "json_fits d (JArr js) = (d \<noteq> 0 \<and> (\<forall>j \<in> set js. json_fits (d - 1) j))"
| "json_fits d (JObj fs) = (d \<noteq> 0 \<and> (\<forall>f \<in> set fs. utf8_valid (fst f) \<and> json_fits (d - 1) (snd f)))"
| "json_fits d (JRaw r) = (case r of None \<Rightarrow> True | Some s \<Rightarrow> raw_fits d s)"

text \<open>The first byte of a marshalled value.\<close>

definition value_start :: "string \<Rightarrow> bool" where
  "value_start s \<longleftrightarrow> s \<noteq> [] \<and> \<not> json_space (hd s) \<and> hd s \<noteq> CHR '']'' \<and> hd s \<noteq> CHR ''}''"

lemma skip_value_start: "value_start s \<Longrightarrow> skip_space (s @ x) = s @ x"
  by (cases s) (auto simp: value_start_def skip_space_def)

lemma skip_stop: "skip_space (CHR '','' # x) = CHR '','' # x" "skip_space (CHR '']'' # x) = CHR '']'' # x"
    "skip_space (CHR ''}'' # x) = CHR ''}'' # x" "skip_space (CHR '':'' # x) = CHR '':'' # x"
    "skip_space (CHR 0x22 # x) = CHR 0x22 # x"
  by (simp_all add: skip_space_def json_space_def)

lemma upto_rest_exact [simp]: "upto_rest (s @ x) x = s"
  by (simp add: upto_rest_def)

text \<open>One document parses back, whatever follows.\<close>

abbreviation parses_back :: "nat \<Rightarrow> json \<Rightarrow> bool" where
  "parses_back d j \<equiv> \<forall>s x. marshal j = Inr s \<longrightarrow> stops x \<longrightarrow>
     value_start s \<and> parse_value d (s @ x) = Some (value_of j, x)"

lemma digit_start:
  assumes "digit (hd s) \<or> hd s = CHR ''-''" "s \<noteq> []"
  shows "value_start s" "scalar_value (s @ x) = map_option (\<lambda>r. (VNum (upto_rest (s @ x) r), r)) (number_tail (s @ x))"
    "\<not> starts (CHR ''{'') (s @ x)" "\<not> starts (CHR ''['') (s @ x)"
  using assms by (cases s; auto simp: value_start_def json_space_def digit_def scalar_value_def)+

lemma show_int_start: "show_int i \<noteq> []" "digit (hd (show_int i)) \<or> hd (show_int i) = CHR ''-''"
  using show_nat_digits [of "nat i"] by (auto simp: show_int_def list_all_iff)

lemma literals_back:
  "parse_value d (''null'' @ x) = Some (VNull, x)" "parse_value d (''true'' @ x) = Some (VBool True, x)"
  "parse_value d (''false'' @ x) = Some (VBool False, x)"
  by (simp_all add: parse_value_scalar scalar_value_def literal_tail_def has_prefix_def)

lemma string_back: "utf8_valid k \<Longrightarrow> parse_value d (json_quote k @ x) = Some (VStr k, x)"
  by (simp add: json_quote_def parse_value_scalar scalar_value_def json_escape_tail unquote_json_escape)

lemma key_back:
  "utf8_valid k \<Longrightarrow> value_start s \<Longrightarrow> member_key (json_quote k @ CHR '':'' # s @ x) = Some (k, s @ x)"
  by (simp add: json_quote_def member_key_def json_escape_tail unquote_json_escape skip_stop skip_value_start)

lemma join_Cons: "join sep (x # xs) = (if xs = [] then x else x @ sep @ join sep xs)"
  by (cases xs) auto

lemma upto_rest_more: "upto_rest (s @ t @ x) (t @ x) = s"
  by (simp add: upto_rest_def)

lemma elems_back:
  assumes "\<forall>j \<in> set js. parses_back d j" "js \<noteq> []" "marshal_list js = Inr ss"
  shows "parse_elems d (join '','' ss @ CHR '']'' # x) = Some (map (\<lambda>j. (text_of j, value_of j)) js, x) \<and>
    value_start (join '','' ss @ CHR '']'' # x)"
  using assms
proof (induction js arbitrary: ss)
  case Nil
  then show ?case by simp
next
  case (Cons j js)
  from Cons.prems obtain t ts where t: "marshal j = Inr t" and ts: "marshal_list js = Inr ts" "ss = t # ts"
    by auto
  have tx: "text_of j = t" by (simp add: text_of_def t)
  have pb: "parses_back d j" using Cons.prems by simp
  then have st: "value_start t" using t stops_Cons(1) by blast
  then have stx: "value_start (t @ y)" for y by (cases t) (auto simp: value_start_def)
  show ?case
  proof (cases "js = []")
    case True
    with ts have "ts = []" by simp
    moreover have "parse_value d (t @ CHR '']'' # x) = Some (value_of j, CHR '']'' # x)"
      using Cons.prems t by simp
    ultimately show ?thesis
      using True ts tx stx by (simp add: parse_elems_step skip_stop)
  next
    case False
    then have "ts \<noteq> []" using ts by (cases js) auto
    let ?u = "join '','' ts @ CHR '']'' # x"
    have ih: "parse_elems d ?u = Some (map (\<lambda>j. (text_of j, value_of j)) js, x)" "value_start ?u"
      using Cons.IH [OF _ False ts(1)] Cons.prems by auto
    have "parse_value d (t @ CHR '','' # ?u) = Some (value_of j, CHR '','' # ?u)"
      using Cons.prems t by simp
    then show ?thesis
      using ih skip_value_start [OF ih(2), of "[]"] ts tx stx \<open>ts \<noteq> []\<close>
      by (simp add: parse_elems_step skip_stop join_Cons)
  qed
qed

lemma members_back:
  assumes "\<forall>f \<in> set fs. utf8_valid (fst f) \<and> parses_back d (snd f)" "fs \<noteq> []" "marshal_fields fs = Inr ss"
  shows "parse_members d (join '','' ss @ CHR ''}'' # x) = Some (map (\<lambda>(k, j). (k, text_of j, value_of j)) fs, x) \<and>
    value_start (join '','' ss @ CHR ''}'' # x)"
  using assms
proof (induction fs arbitrary: ss)
  case Nil
  then show ?case by simp
next
  case (Cons f fs)
  obtain k j where f: "f = (k, j)" by (cases f)
  from Cons.prems obtain t ts where t: "marshal j = Inr t" and ts: "marshal_fields fs = Inr ts"
      "ss = (json_quote k @ CHR '':'' # t) # ts"
    by (auto simp: f)
  have k: "utf8_valid k" and pb: "parses_back d j" using Cons.prems by (auto simp: f)
  have tx: "text_of j = t" by (simp add: text_of_def t)
  have st: "value_start t" using pb t stops_Cons(1) by blast
  have qs: "value_start (json_quote k @ y)" for y
    by (simp add: json_quote_def value_start_def json_space_def)
  show ?case
  proof (cases "fs = []")
    case True
    with ts have "ts = []" by simp
    moreover have "parse_value d (t @ CHR ''}'' # x) = Some (value_of j, CHR ''}'' # x)"
      using pb t by simp
    ultimately show ?thesis
      using True ts tx qs key_back [OF k st] by (simp add: parse_members_step skip_stop f)
  next
    case False
    then have "ts \<noteq> []" using ts by (cases fs) auto
    let ?u = "join '','' ts @ CHR ''}'' # x"
    have ih: "parse_members d ?u = Some (map (\<lambda>(k, j). (k, text_of j, value_of j)) fs, x)" "value_start ?u"
      using Cons.IH [OF _ False ts(1)] Cons.prems by auto
    have "parse_value d (t @ CHR '','' # ?u) = Some (value_of j, CHR '','' # ?u)"
      using pb t by simp
    then show ?thesis
      using ih skip_value_start [OF ih(2), of "[]"] ts tx qs key_back [OF k st] \<open>ts \<noteq> []\<close>
      by (simp add: parse_members_step skip_stop join_Cons f)
  qed
qed

lemma value_start_not_close: "value_start s \<Longrightarrow> \<not> starts (CHR '']'') s \<and> \<not> starts (CHR ''}'') s"
  by (cases s) (auto simp: value_start_def)

lemma raw_back:
  assumes "raw_fits d s" "stops x"
  shows "value_start s \<and> parse_value d (s @ x) = Some (value_of (JRaw (Some s)), x)"
proof -
  from assms obtain v where v: "parse_value d s = Some (v, [])" and d: "d \<le> max_nesting" and k: "skip_space s = s"
    by (auto simp: raw_fits_def)
  have m: "parse_value max_nesting s = Some (v, [])"
    using parse_append [OF v stops_Cons(1) d] by simp
  have "s \<noteq> []" using v by (rule parse_not_Nil)
  moreover have "\<not> json_space (hd s)"
    using k \<open>s \<noteq> []\<close> unfolding skip_space_def by (metis hd_dropWhile)
  moreover have "hd s \<noteq> CHR '']''" "hd s \<noteq> CHR ''}''"
    using v \<open>s \<noteq> []\<close>
    by (cases s; auto simp: parse_value_scalar scalar_value_def number_tail_def number_int_def some_digits_def digit_def bind_eq_Some_conv)+
  ultimately show ?thesis
    using parse_append [OF v assms(2) order_refl] m by (simp add: value_start_def)
qed

theorem marshal_parses_back: "json_fits d j \<Longrightarrow> parses_back d j"
proof (induction d j rule: json_fits.induct)
  case (1 d)
  then show ?case using literals_back(1) [of d] by (simp add: value_start_def json_space_def)
next
  case (2 d b)
  then show ?case using literals_back(2,3) [of d] by (cases b) (simp_all add: value_start_def json_space_def)
next
  case (3 d i)
  then show ?case
    using digit_start [OF show_int_start(2,1)] by (simp add: parse_value_scalar show_int_tail)
next
  case (4 d s)
  then show ?case using string_back by (simp add: value_start_def json_quote_def json_space_def)
next
  case (5 d js)
  have all: "\<forall>j \<in> set js. parses_back (d - 1) j" and d: "d \<noteq> 0"
    using "5.IH" "5.prems" by auto
  show ?case
  proof (intro allI impI)
    fix s x assume "marshal (JArr js) = Inr s" "stops x"
    then obtain ss where ss: "marshal_list js = Inr ss" "s = CHR ''['' # join '','' ss @ '']''" by auto
    show "value_start s \<and> parse_value d (s @ x) = Some (value_of (JArr js), x)"
    proof (cases "js = []")
      case True
      with ss d show ?thesis
        by (simp add: parse_value_arr skip_stop value_start_def json_space_def)
    next
      case False
      note eb = elems_back [OF all False ss(1), of x]
      from eb value_start_not_close skip_value_start [of _ "[]"] d ss show ?thesis
        by (simp add: parse_value_arr value_start_def json_space_def)
    qed
  qed
next
  case (6 d fs)
  have all: "\<forall>f \<in> set fs. utf8_valid (fst f) \<and> parses_back (d - 1) (snd f)" and d: "d \<noteq> 0"
    using "6.IH" "6.prems" by auto
  show ?case
  proof (intro allI impI)
    fix s x assume "marshal (JObj fs) = Inr s" "stops x"
    then obtain ss where ss: "marshal_fields fs = Inr ss" "s = CHR ''{'' # join '','' ss @ ''}''" by auto
    show "value_start s \<and> parse_value d (s @ x) = Some (value_of (JObj fs), x)"
    proof (cases "fs = []")
      case True
      with ss d show ?thesis
        by (simp add: parse_value_obj skip_stop value_start_def json_space_def)
    next
      case False
      note mb = members_back [OF all False ss(1), of x]
      from mb value_start_not_close skip_value_start [of _ "[]"] d ss show ?thesis
        by (simp add: parse_value_obj value_start_def json_space_def)
    qed
  qed
next
  case (7 d r)
  show ?case
  proof (cases r)
    case None
    then show ?thesis using literals_back(1) [of d] by (simp add: marshal_raw_def value_start_def json_space_def)
  next
    case (Some s)
    then have "raw_fits d s" using "7.prems" by simp
    then show ?thesis
      using raw_back [of d s] Some by (simp add: marshal_raw_def raw_fits_def)
  qed
qed

lemma json_fits_raws_valid: "json_fits d j \<Longrightarrow> raws_valid j"
  by (induction d j rule: json_fits.induct) (auto simp: raw_fits_def split: option.splits)

theorem decode_marshal:
  assumes "json_fits max_nesting j"
  shows "marshal j = Inr (text_of j)" and "decode_document dec z (text_of j) = dec z (text_of j, value_of j)"
proof -
  obtain s where s: "marshal j = Inr s"
    using marshal_total(1) [OF json_fits_raws_valid [OF assms]] by blast
  then show t: "marshal j = Inr (text_of j)" by (simp add: text_of_def)
  have "value_start (text_of j) \<and> parse_value max_nesting (text_of j @ []) = Some (value_of j, [])"
    using marshal_parses_back [OF assms] t stops_Cons(1) by blast
  then show "decode_document dec z (text_of j) = dec z (text_of j, value_of j)"
    using skip_value_start [of "text_of j" "[]"] upto_rest_exact [of "text_of j" "[]"]
    by (simp add: decode_document_def Let_def skip_space_def split: sum.splits)
       (cases "dec z (text_of j, value_of j)"; simp)?
qed

end
