(* ===== verification/DocCodecProofs.thy ===== *)
theory DocCodecProofs
  imports DocCodec GoJsonRoundTrip
begin

text \<open>
  Every document of a case survives being written and read: the interface of a codec (an encoder,
  a decoder, the zero value and what the document must satisfy), what follows for whole documents
  and for slices of them, and its instance for each struct. \<open>X_codable\<close> collects what JSON cannot
  keep: an integer beyond 64 bits, a map that is not in key order, a nil raw message.
\<close>

section \<open>The interface of a codec\<close>

locale json_codec =
  fixes enc :: "'a \<Rightarrow> json"
    and dec :: "'a decoder"
    and zero :: 'a
    and codable :: "'a \<Rightarrow> bool"
  assumes restores: "codable x \<Longrightarrow> dec zero (text_of (enc x), value_of (enc x)) = Inr x"
begin

lemma document_back:
  assumes "codable x" "json_fits max_nesting (enc x)"
  shows "marshal (enc x) = Inr (text_of (enc x))"
    and "decode_document dec zero (text_of (enc x)) = Inr x"
  using decode_marshal(1) [OF assms(2)] decode_marshal(2) [OF assms(2), of dec zero] restores [OF assms(1)] by simp_all

lemma elems_decode:
  "\<forall>x \<in> set xs. codable x \<Longrightarrow>
    dec_elems dec zero [] (map (\<lambda>x. (text_of (enc x), value_of (enc x))) xs) = Inr xs"
  by (induction xs) (simp_all add: restores)

lemma slice_back:
  "\<forall>x \<in> set (elems s). codable x \<Longrightarrow>
    dec_slice dec zero None (t, value_of (json_docs enc s)) = Inr s"
  using elems_decode [of "elems s"]
  by (cases s) (simp_all add: dec_slice_def json_docs_def comp_def)

lemma marshal_inj:
  assumes "codable x" "json_fits max_nesting (enc x)" "codable y" "json_fits max_nesting (enc y)"
    and "marshal (enc x) = marshal (enc y)"
  shows "x = y"
proof -
  have "text_of (enc x) = text_of (enc y)"
    using assms(5) unfolding text_of_def by (rule arg_cong)
  with document_back(2) [OF assms(1,2)] document_back(2) [OF assms(3,4)] show ?thesis
    by (metis sum.inject(2))
qed

end

section \<open>The fields of a struct\<close>

text \<open>The members of an object as the parser returns them, decoded one after the other.\<close>

definition members :: "(string \<times> json) list \<Rightarrow> (string \<times> jtext) list" where
  "members fs = map (\<lambda>(k, j). (k, text_of j, value_of j)) fs"

lemma value_of_obj: "value_of (JObj fs) = VObj (members fs)"
  by (simp add: members_def)

lemma members_simps [simp]:
  "members [] = []" "members ((k, j) # fs) = (k, text_of j, value_of j) # members fs"
  "members (xs @ ys) = members xs @ members ys"
  by (simp_all add: members_def)

lemma dec_struct_obj: "dec_struct fs r (t, value_of (JObj ms)) = dec_members fs r (members ms)"
  by (simp add: dec_struct_def value_of_obj del: value_of.simps)

lemma dec_members_append:
  "dec_members fs r (xs @ ys) = bindE (dec_members fs r xs) (\<lambda>r'. dec_members fs r' ys)"
proof (induction xs arbitrary: r)
  case Nil
  then show ?case by simp
next
  case (Cons m xs)
  obtain k t where "m = (k, t)" by (cases m)
  then show ?case
    using Cons by (cases "field_for fs k"; simp) (rename_tac d, case_tac "d r t"; simp)
qed

lemma bindE_Inr_eq [simp]: "bindE (Inr x) f = f x"
  by simp

text \<open>A value decoded into a nil or zero field.\<close>

lemma scalar_back [simp]:
  "dec_string x (t, value_of (JStr s)) = Inr s"
  "dec_bool y (t, value_of (JBool b)) = Inr b"
  "dec_strings None (t, value_of (json_strs ss)) = Inr ss"
  "dec_uint64 z (t, value_of (JInt (uint w))) = Inr w"
proof -
  show "dec_string x (t, value_of (JStr s)) = Inr s" "dec_bool y (t, value_of (JBool b)) = Inr b"
    by (simp_all add: dec_string_def dec_bool_def)
  have "dec_elems dec_string [] [] (map (\<lambda>x. (text_of (JStr x), VStr x)) xs) = Inr xs" for xs
    by (induction xs) (simp_all add: dec_string_def)
  then show "dec_strings None (t, value_of (json_strs ss)) = Inr ss"
    by (cases ss) (simp_all add: dec_strings_def dec_slice_def json_strs_def comp_def)
  have unat_less': "unat w < 2 ^ 64" for w :: "64 word"
    using unsigned_less [of w] by simp
  show "dec_uint64 z (t, value_of (JInt (uint w))) = Inr w"
    using parse_digits_show_int [of "unat w"] unat_less' [of w]
    by (simp add: dec_uint64_def)
qed

definition int64_ok :: "int \<Rightarrow> bool" where
  "int64_ok i \<longleftrightarrow> - (2 ^ 63) \<le> i \<and> i \<le> 2 ^ 63 - 1"

lemma int64_back [simp]: "int64_ok i \<Longrightarrow> dec_int64 x (t, value_of (JInt i)) = Inr i"
  by (simp add: dec_int64_def dec_int_in_def parse_show_int int64_ok_def)

definition raw_kept :: "raw_message \<Rightarrow> bool" where
  "raw_kept r \<longleftrightarrow> r \<noteq> None \<and> text_of (JRaw r) = elems r"

lemma raw_back_field [simp]: "raw_kept r \<Longrightarrow> dec_raw x (text_of (JRaw r), v) = Inr r"
  by (auto simp: dec_raw_def raw_kept_def)

lemma pointer_back [simp]:
  "dec_pointer dec_string z None (t, value_of (json_pointer JStr p)) = Inr p"
  "(\<And>i. q = Some i \<Longrightarrow> int64_ok i) \<Longrightarrow> dec_pointer dec_int64 y None (t, value_of (json_pointer JInt q)) = Inr q"
  using int64_back [of _ y t]
  by (auto simp: dec_pointer_def json_pointer_def dec_string_def split: option.splits)

text \<open>Maps are written in the order of their keys.\<close>

definition map_ordered :: "(string \<times> string) list option \<Rightarrow> bool" where
  "map_ordered m \<longleftrightarrow> sorted_wrt (<) (map fst (elems m))"

lemma dec_entries_back:
  "distinct (map fst (acc @ kvs)) \<Longrightarrow>
    dec_entries acc (map (\<lambda>(k, v). (k, t k, VStr v)) kvs) = Inr (acc @ kvs)"
proof (induction kvs arbitrary: acc)
  case Nil
  then show ?case by simp
next
  case (Cons e kvs)
  obtain k v where e: "e = (k, v)" by (cases e)
  have "filter (\<lambda>e. fst e \<noteq> k) acc = acc"
    using Cons.prems by (intro filter_True) (auto simp: e)
  then show ?case
    using Cons.IH [of "acc @ [(k, v)]"] Cons.prems by (simp add: e dec_string_def)
qed

lemma map_back [simp]:
  assumes "map_ordered m" shows "dec_map None (t, value_of (json_map m)) = Inr m"
proof (cases m)
  case None
  then show ?thesis by (simp add: dec_map_def json_map_def)
next
  case (Some kvs)
  have s: "sorted_wrt (<) (map fst kvs)" using assms Some by (simp add: map_ordered_def)
  then have d: "distinct (map fst kvs)" and so: "sorted (map fst kvs)"
    by (simp_all add: strict_sorted_iff)
  have "map (\<lambda>k. (k, JStr (the (map_of kvs k)))) (sort (remdups (map fst kvs))) = map (\<lambda>(k, v). (k, JStr v)) kvs"
    using d so by (auto simp: distinct_remdups_id sorted_sort_id map_of_is_SomeI)
  then have v: "value_of (json_map m) = VObj (map (\<lambda>(k, v). (k, text_of (JStr v), VStr v)) kvs)"
    by (simp add: Some json_map_def comp_def case_prod_beta)
  have c: "map (\<lambda>(k, v). (k, text_of (JStr v), VStr v)) kvs
      = map (\<lambda>(k, v). (k, text_of (JStr (the (map_of kvs k))), VStr v)) kvs"
    using d by (auto simp: map_of_is_SomeI)
  show ?thesis
    using dec_entries_back [of "[]" kvs "\<lambda>k. text_of (JStr (the (map_of kvs k)))"] d Some
    unfolding dec_map_def snd_conv v c by simp
qed

text \<open>Fields that may be left out.\<close>

lemma omit_back [simp]:
  "field_for fs k = Some (set_field g u dec_string) \<Longrightarrow> u (\<lambda>_. []) r = r \<Longrightarrow>
    dec_members fs r (members (omit_empty k s)) = Inr (u (\<lambda>_. s) r)"
  "field_for fs k = Some (set_field g' u' dec_bool) \<Longrightarrow> u' (\<lambda>_. False) r = r \<Longrightarrow>
    dec_members fs r (members (omit_false k b)) = Inr (u' (\<lambda>_. b) r)"
  "field_for fs k = Some (set_field h w dec_uint64) \<Longrightarrow> w (\<lambda>_. 0) r = r \<Longrightarrow>
    dec_members fs r (members (omit_zero k (uint n))) = Inr (w (\<lambda>_. n) r)"
  using uint_0_iff [of n]
  by (auto simp: omit_empty_def omit_false_def omit_zero_def set_field_def
      simp del: value_of.simps)

section \<open>The documents\<close>

lemmas codec_simps = dec_struct_obj dec_members_append field_for_def field_of_def set_field_def

definition ArtifactRef_codable :: "ArtifactRef \<Rightarrow> bool" where
  "ArtifactRef_codable x \<longleftrightarrow> int64_ok (art_SizeBytes x)"

interpretation artifact_codec: json_codec ArtifactRef_json dec_ArtifactRef zero_ArtifactRef ArtifactRef_codable
proof
  fix x :: ArtifactRef
  assume "ArtifactRef_codable x"
  then show "dec_ArtifactRef zero_ArtifactRef (text_of (ArtifactRef_json x), value_of (ArtifactRef_json x)) = Inr x"
    by (cases x) (simp add: codec_simps ArtifactRef_json_def ArtifactRef_fields_def zero_ArtifactRef_def ArtifactRef_codable_def
        del: value_of.simps)
qed

interpretation manifest_codec: json_codec CaseManifest_json dec_CaseManifest zero_CaseManifest "\<lambda>_. True"
proof
  fix x :: CaseManifest
  show "dec_CaseManifest zero_CaseManifest (text_of (CaseManifest_json x), value_of (CaseManifest_json x)) = Inr x"
    by (cases x) (simp add: codec_simps CaseManifest_json_def CaseManifest_fields_def zero_CaseManifest_def
        del: value_of.simps)
qed

definition Target_codable :: "Target \<Rightarrow> bool" where
  "Target_codable x \<longleftrightarrow> map_ordered (tg_StableIdentity x) \<and>
     map_ordered (tg_RuntimeLocators x)"

interpretation target_codec: json_codec Target_json dec_Target zero_Target Target_codable
proof
  fix x :: Target
  assume "Target_codable x"
  then show "dec_Target zero_Target (text_of (Target_json x), value_of (Target_json x)) = Inr x"
    by (cases x) (simp add: codec_simps Target_json_def Target_fields_def zero_Target_def Target_codable_def
        del: value_of.simps)
qed

definition EvidenceBundle_codable :: "EvidenceBundle \<Rightarrow> bool" where
  "EvidenceBundle_codable x \<longleftrightarrow> raw_kept (ev_Facts x) \<and>
     (\<forall>y \<in> set (elems (ev_Artifacts x)). ArtifactRef_codable y)"

interpretation evidence_codec: json_codec EvidenceBundle_json dec_EvidenceBundle zero_EvidenceBundle EvidenceBundle_codable
proof
  fix x :: EvidenceBundle
  assume "EvidenceBundle_codable x"
  then show "dec_EvidenceBundle zero_EvidenceBundle (text_of (EvidenceBundle_json x), value_of (EvidenceBundle_json x)) = Inr x"
    by (cases x) (simp add: codec_simps EvidenceBundle_json_def EvidenceBundle_fields_def zero_EvidenceBundle_def EvidenceBundle_codable_def artifact_codec.slice_back
        del: value_of.simps)
qed

interpretation finding_codec: json_codec Finding_json dec_Finding zero_Finding "\<lambda>_. True"
proof
  fix x :: Finding
  show "dec_Finding zero_Finding (text_of (Finding_json x), value_of (Finding_json x)) = Inr x"
    by (cases x) (simp add: codec_simps Finding_json_def Finding_fields_def zero_Finding_def
        del: value_of.simps)
qed

interpretation step_codec: json_codec PlanStep_json dec_PlanStep zero_PlanStep "\<lambda>_. True"
proof
  fix x :: PlanStep
  show "dec_PlanStep zero_PlanStep (text_of (PlanStep_json x), value_of (PlanStep_json x)) = Inr x"
    by (cases x) (simp add: codec_simps PlanStep_json_def PlanStep_fields_def zero_PlanStep_def
        del: value_of.simps)
qed

interpretation plan_codec: json_codec RepairPlan_json dec_RepairPlan zero_RepairPlan "\<lambda>_. True"
proof
  fix x :: RepairPlan
  show "dec_RepairPlan zero_RepairPlan (text_of (RepairPlan_json x), value_of (RepairPlan_json x)) = Inr x"
    by (cases x) (simp add: codec_simps RepairPlan_json_def RepairPlan_fields_def zero_RepairPlan_def step_codec.slice_back
        del: value_of.simps)
qed

definition ExecutionEvent_codable :: "ExecutionEvent \<Rightarrow> bool" where
  "ExecutionEvent_codable x \<longleftrightarrow> (\<forall>i. ex_ExitCode x = Some i \<longrightarrow> int64_ok i)"

interpretation execution_codec: json_codec ExecutionEvent_json dec_ExecutionEvent zero_ExecutionEvent ExecutionEvent_codable
proof
  fix x :: ExecutionEvent
  assume "ExecutionEvent_codable x"
  then show "dec_ExecutionEvent zero_ExecutionEvent (text_of (ExecutionEvent_json x), value_of (ExecutionEvent_json x)) = Inr x"
    by (cases x) (simp add: codec_simps ExecutionEvent_json_def ExecutionEvent_fields_def zero_ExecutionEvent_def ExecutionEvent_codable_def
        del: value_of.simps)
qed

interpretation condition_codec: json_codec ConditionCheck_json dec_ConditionCheck zero_ConditionCheck "\<lambda>_. True"
proof
  fix x :: ConditionCheck
  show "dec_ConditionCheck zero_ConditionCheck (text_of (ConditionCheck_json x), value_of (ConditionCheck_json x)) = Inr x"
    by (cases x) (simp add: codec_simps ConditionCheck_json_def ConditionCheck_fields_def zero_ConditionCheck_def
        del: value_of.simps)
qed

interpretation verification_codec: json_codec VerificationReport_json dec_VerificationReport zero_VerificationReport "\<lambda>_. True"
proof
  fix x :: VerificationReport
  show "dec_VerificationReport zero_VerificationReport (text_of (VerificationReport_json x), value_of (VerificationReport_json x)) = Inr x"
    by (cases x) (simp add: codec_simps VerificationReport_json_def VerificationReport_fields_def zero_VerificationReport_def condition_codec.slice_back condition_codec.slice_back
        del: value_of.simps)
qed

interpretation failure_codec: json_codec WorkflowFailure_json dec_WorkflowFailure zero_WorkflowFailure "\<lambda>_. True"
proof
  fix x :: WorkflowFailure
  show "dec_WorkflowFailure zero_WorkflowFailure (text_of (WorkflowFailure_json x), value_of (WorkflowFailure_json x)) = Inr x"
    by (cases x) (simp add: codec_simps WorkflowFailure_json_def WorkflowFailure_fields_def zero_WorkflowFailure_def
        del: value_of.simps)
qed

lemma failure_omit [simp]:
  assumes "field_for fs k = Some (set_field g u (dec_pointer dec_WorkflowFailure zero_WorkflowFailure))"
    and "g r = None" "u (\<lambda>_. None) r = r"
  shows "dec_members fs r (members (omit_nil k WorkflowFailure_json p)) = Inr (u (\<lambda>_. p) r)"
proof (cases p)
  case None
  with assms show ?thesis by (simp add: omit_nil_def)
next
  case (Some y)
  have "value_of (WorkflowFailure_json y) \<noteq> VNull" by (simp add: WorkflowFailure_json_def)
  with assms Some failure_codec.restores [of y] show ?thesis
    by (cases "value_of (WorkflowFailure_json y)")
       (simp_all add: omit_nil_def set_field_def dec_pointer_def)
qed

interpretation workflow_codec: json_codec CaseWorkflowState_json dec_CaseWorkflowState zero_CaseWorkflowState "\<lambda>_. True"
proof
  fix x :: CaseWorkflowState
  show "dec_CaseWorkflowState zero_CaseWorkflowState (text_of (CaseWorkflowState_json x), value_of (CaseWorkflowState_json x)) = Inr x"
    by (cases x) (simp add: codec_simps CaseWorkflowState_json_def CaseWorkflowState_fields_def zero_CaseWorkflowState_def failure_omit
        del: value_of.simps)
qed

interpretation event_codec: json_codec CoordinatorEvent_json dec_CoordinatorEvent zero_CoordinatorEvent "\<lambda>_. True"
proof
  fix x :: CoordinatorEvent
  show "dec_CoordinatorEvent zero_CoordinatorEvent (text_of (CoordinatorEvent_json x), value_of (CoordinatorEvent_json x)) = Inr x"
    by (cases x) (simp add: codec_simps CoordinatorEvent_json_def CoordinatorEvent_fields_def zero_CoordinatorEvent_def
        del: value_of.simps)
qed

interpretation acquisition_codec: json_codec EvidenceAcquisitionRecord_json dec_EvidenceAcquisitionRecord zero_EvidenceAcquisitionRecord "\<lambda>_. True"
proof
  fix x :: EvidenceAcquisitionRecord
  show "dec_EvidenceAcquisitionRecord zero_EvidenceAcquisitionRecord (text_of (EvidenceAcquisitionRecord_json x), value_of (EvidenceAcquisitionRecord_json x)) = Inr x"
    by (cases x) (simp add: codec_simps EvidenceAcquisitionRecord_json_def EvidenceAcquisitionRecord_fields_def zero_EvidenceAcquisitionRecord_def
        del: value_of.simps)
qed

interpretation hypothesis_codec: json_codec AdvisoryHypothesis_json dec_AdvisoryHypothesis zero_AdvisoryHypothesis "\<lambda>_. True"
proof
  fix x :: AdvisoryHypothesis
  show "dec_AdvisoryHypothesis zero_AdvisoryHypothesis (text_of (AdvisoryHypothesis_json x), value_of (AdvisoryHypothesis_json x)) = Inr x"
    by (cases x) (simp add: codec_simps AdvisoryHypothesis_json_def AdvisoryHypothesis_fields_def zero_AdvisoryHypothesis_def
        del: value_of.simps)
qed

interpretation source_codec: json_codec RetrievedSource_json dec_RetrievedSource zero_RetrievedSource "\<lambda>_. True"
proof
  fix x :: RetrievedSource
  show "dec_RetrievedSource zero_RetrievedSource (text_of (RetrievedSource_json x), value_of (RetrievedSource_json x)) = Inr x"
    by (cases x) (simp add: codec_simps RetrievedSource_json_def RetrievedSource_fields_def zero_RetrievedSource_def
        del: value_of.simps)
qed

interpretation provider_codec: json_codec ProviderMetadata_json dec_ProviderMetadata zero_ProviderMetadata "\<lambda>_. True"
proof
  fix x :: ProviderMetadata
  show "dec_ProviderMetadata zero_ProviderMetadata (text_of (ProviderMetadata_json x), value_of (ProviderMetadata_json x)) = Inr x"
    by (cases x) (simp add: codec_simps ProviderMetadata_json_def ProviderMetadata_fields_def zero_ProviderMetadata_def
        del: value_of.simps)
qed

definition AgentConsultation_codable :: "AgentConsultation \<Rightarrow> bool" where
  "AgentConsultation_codable x \<longleftrightarrow> int64_ok (con_RoundCount x)"

interpretation consultation_codec: json_codec AgentConsultation_json dec_AgentConsultation zero_AgentConsultation AgentConsultation_codable
proof
  fix x :: AgentConsultation
  assume "AgentConsultation_codable x"
  then show "dec_AgentConsultation zero_AgentConsultation (text_of (AgentConsultation_json x), value_of (AgentConsultation_json x)) = Inr x"
    by (cases x) (simp add: codec_simps AgentConsultation_json_def AgentConsultation_fields_def zero_AgentConsultation_def AgentConsultation_codable_def hypothesis_codec.slice_back source_codec.slice_back provider_codec.restores
        del: value_of.simps)
qed

interpretation commit_codec: json_codec commitRecord_json dec_commitRecord zero_commitRecord "\<lambda>_. True"
proof
  fix x :: commitRecord
  show "dec_commitRecord zero_commitRecord (text_of (commitRecord_json x), value_of (commitRecord_json x)) = Inr x"
    by (cases x) (simp add: codec_simps commitRecord_json_def commitRecord_fields_def zero_commitRecord_def
        del: value_of.simps)
qed

definition snapshotDocumentEntry_codable :: "snapshotDocumentEntry \<Rightarrow> bool" where
  "snapshotDocumentEntry_codable x \<longleftrightarrow> int64_ok (sde_SizeBytes x)"

interpretation document_entry_codec: json_codec snapshotDocumentEntry_json dec_snapshotDocumentEntry zero_snapshotDocumentEntry snapshotDocumentEntry_codable
proof
  fix x :: snapshotDocumentEntry
  assume "snapshotDocumentEntry_codable x"
  then show "dec_snapshotDocumentEntry zero_snapshotDocumentEntry (text_of (snapshotDocumentEntry_json x), value_of (snapshotDocumentEntry_json x)) = Inr x"
    by (cases x) (simp add: codec_simps snapshotDocumentEntry_json_def snapshotDocumentEntry_fields_def zero_snapshotDocumentEntry_def snapshotDocumentEntry_codable_def
        del: value_of.simps)
qed

definition snapshotArtifactEntry_codable :: "snapshotArtifactEntry \<Rightarrow> bool" where
  "snapshotArtifactEntry_codable x \<longleftrightarrow> int64_ok (sae_SizeBytes x)"

interpretation artifact_entry_codec: json_codec snapshotArtifactEntry_json dec_snapshotArtifactEntry zero_snapshotArtifactEntry snapshotArtifactEntry_codable
proof
  fix x :: snapshotArtifactEntry
  assume "snapshotArtifactEntry_codable x"
  then show "dec_snapshotArtifactEntry zero_snapshotArtifactEntry (text_of (snapshotArtifactEntry_json x), value_of (snapshotArtifactEntry_json x)) = Inr x"
    by (cases x) (simp add: codec_simps snapshotArtifactEntry_json_def snapshotArtifactEntry_fields_def zero_snapshotArtifactEntry_def snapshotArtifactEntry_codable_def
        del: value_of.simps)
qed

definition snapshotManifest_codable :: "snapshotManifest \<Rightarrow> bool" where
  "snapshotManifest_codable x \<longleftrightarrow> (\<forall>y \<in> set (elems (smf_Documents x)). snapshotDocumentEntry_codable y) \<and>
     (\<forall>y \<in> set (elems (smf_Artifacts x)). snapshotArtifactEntry_codable y)"

interpretation snapshot_manifest_codec: json_codec snapshotManifest_json dec_snapshotManifest zero_snapshotManifest snapshotManifest_codable
proof
  fix x :: snapshotManifest
  assume "snapshotManifest_codable x"
  then show "dec_snapshotManifest zero_snapshotManifest (text_of (snapshotManifest_json x), value_of (snapshotManifest_json x)) = Inr x"
    by (cases x) (simp add: codec_simps snapshotManifest_json_def snapshotManifest_fields_def zero_snapshotManifest_def snapshotManifest_codable_def document_entry_codec.slice_back artifact_entry_codec.slice_back
        del: value_of.simps)
qed

end
