(* ===== verification/AsciiText.thy ===== *)
theory AsciiText
  imports GoHash GoTime GoJsonRoundTrip DomainBase
begin

text \<open>
  Text the program makes is ASCII: digests, times and identifiers. JSON keeps it as it is.
\<close>

definition ascii :: "string \<Rightarrow> bool" where
  "ascii s \<longleftrightarrow> (\<forall>x \<in> set s. (of_char x :: nat) < 128)"

lemma ascii_simps [simp]: "ascii []" "ascii (x # s) \<longleftrightarrow> (of_char x :: nat) < 128 \<and> ascii s" "ascii (s @ t) \<longleftrightarrow> ascii s \<and> ascii t"
  by (auto simp: ascii_def)

lemma ascii_valid: "ascii s \<Longrightarrow> utf8_valid s"
  by (simp add: ascii_def utf8_valid_ascii)

lemma ascii_hex: "x \<in> set lower_hex \<Longrightarrow> (of_char x :: nat) < 128"
  by (auto simp: lower_hex_def)

lemma ascii_id: "re_id24 p s \<Longrightarrow> ascii p \<Longrightarrow> ascii s"
  by (auto simp: re_run_iff ascii_def dest: ascii_hex)

lemma ascii_sha [simp]: "ascii (sha256Hex s)"
  using sha256Hex_lower ascii_hex by (auto simp: ascii_def)

lemma ascii_digit: "(of_char (digits10 ! k) :: nat) < 128" if "k < 10" for k
proof -
  have "digits10 ! k \<in> set digits10" by (rule nth_mem) (use that in \<open>simp add: digits10_def\<close>)
  then show ?thesis by (auto simp: digits10_def)
qed

lemma ascii_digit_char: "0 \<le> n \<Longrightarrow> n \<le> 9 \<Longrightarrow> (of_char (digit_char n) :: nat) < 128"
  by (simp add: digit_char_def ascii_digit)

lemma ascii_pad2 [simp]: "0 \<le> n \<Longrightarrow> n \<le> 99 \<Longrightarrow> ascii (pad2 n)"
proof -
  assume n: "0 \<le> n" "n \<le> 99"
  then have "nat (n div 10) < 10" "nat (n mod 10) < 10" by (simp_all add: nat_less_iff)
  then show ?thesis by (simp add: pad2_def digit_char_def ascii_digit)
qed

lemma ascii_pad2_upto: "0 \<le> n \<Longrightarrow> n \<le> k \<Longrightarrow> k \<le> 99 \<Longrightarrow> ascii (pad2 n)"
  by (rule ascii_pad2) simp_all

lemma ascii_time:
  assumes "0 \<le> year_of t" "year_of t \<le> 9999" shows "ascii (format_rfc3339 t)"
proof -
  obtain y m d where c: "civil_of_days (unix_secs t div 86400 + epoch_days) = (y, m, d)"
    by (metis prod_cases3)
  have y: "0 \<le> y" "y \<le> 9999" using assms by (simp_all add: year_of_def c)
  have e: "show_year y = [digit_char (y div 1000), digit_char (y div 100 mod 10),
      digit_char (y div 10 mod 10), digit_char (y mod 10)]"
    using y by (simp only: show_year_def Let_def) simp
  have "0 \<le> y div 1000" "y div 1000 \<le> 9"
    "0 \<le> y div 100 mod 10" "y div 100 mod 10 \<le> 9"
    "0 \<le> y div 10 mod 10" "y div 10 mod 10 \<le> 9" "0 \<le> y mod 10" "y mod 10 \<le> 9"
    using y div_bounds [of 1000 y] pos_mod_bound [of 10 "y div 100"]
      pos_mod_bound [of 10 "y div 10"] pos_mod_bound [of 10 y] by auto
  then have 1: "ascii (show_year y)"
    by (simp only: e ascii_simps ascii_digit_char simp_thms)
  note b = civil_of_days_correct [OF c]
  have d: "d \<le> 31" using b(4,5) by (auto simp: days_in_def month_lengths_def nth_Cons' split: if_splits)
  let ?s = "unix_secs t mod 86400"
  have s: "0 \<le> ?s" "?s < 86400" by simp_all
  note k = clock_of_seconds [OF s]
  have b0: "0 \<le> m" "0 \<le> d" using b(2,4) by simp_all
  note q = ascii_pad2_upto [OF b0(1) b(3)] ascii_pad2_upto [OF b0(2) d] ascii_pad2_upto [OF k(1,2)]
    ascii_pad2_upto [OF k(3,4)] ascii_pad2_upto [OF k(5,6)]
  have le: "(12::int) \<le> 99" "(31::int) \<le> 99" "(23::int) \<le> 99" "(59::int) \<le> 99" by simp_all
  note p = q(1) [OF le(1)] q(2) [OF le(2)] q(3) [OF le(3)] q(4) [OF le(4)] q(5) [OF le(4)]
  show ?thesis
    by (simp only: format_rfc3339_def c Let_def prod.case ascii_simps 1 p simp_thms) simp
qed

section \<open>Identifiers\<close>

lemma ascii_re_run: "re_run p cls lo hi s \<Longrightarrow> ascii p \<Longrightarrow> ascii cls \<Longrightarrow> ascii s"
  by (auto simp: re_run_iff ascii_def)

lemma ascii_re_head_run: "re_head_run fc cls lo hi s \<Longrightarrow> ascii fc \<Longrightarrow> ascii cls \<Longrightarrow> ascii s"
  by (auto simp: re_head_run_def re_run_iff ascii_def split: list.splits)

lemma ascii_classes [simp]: "ascii lower_hex" "ascii lower_az" "ascii digits10"
  by (simp_all add: lower_hex_def lower_az_def digits10_def)

lemma ascii_ids:
  "reTargetID s \<Longrightarrow> ascii s" "reEvidenceID s \<Longrightarrow> ascii s" "reCaseID s \<Longrightarrow> ascii s" "reCommitID s \<Longrightarrow> ascii s"
  "reTopologyID s \<Longrightarrow> ascii s" "reProducerID s \<Longrightarrow> ascii s" "reReasonCode s \<Longrightarrow> ascii s"
  unfolding re_defs by (erule ascii_re_run ascii_re_head_run; simp)+

lemma ascii_take: "ascii s \<Longrightarrow> ascii (take n s)"
  by (auto simp: ascii_def dest: in_set_takeD)

end
