(* ===== verification/CommitChain.thy ===== *)
theory CommitChain
  imports CommitProofs DocCodecProofs AsciiText
begin

text \<open>
  The chain of commits a tree holds: how it depends on the commit files, and what it becomes when
  the record of a commit is added.
\<close>

section \<open>The chain of a list of files\<close>

lemma sort_commit_files_eq:
  "sort_commit_files c fs =
    (map (\<lambda>(n, raw). (the (parse_commit_file c n raw), n)) (filter (\<lambda>(n, raw). parse_commit_file c n raw \<noteq> None) fs),
     map fst (filter (\<lambda>(n, raw). parse_commit_file c n raw = None) fs))"
  by (induction c fs rule: sort_commit_files.induct) (auto split: option.split)

lemma chain_prefix_append:
  "chain_prefix c [] rs xs = (ys, t, None) \<Longrightarrow> chain_prefix c [] rs (xs @ zs) = chain_prefix c [] ys zs"
  by (induction c "[] :: string list" rs xs rule: chain_prefix.induct) (auto simp: Let_def split: if_split_asm)

text \<open>The records of a good chain, in order, with their numbers.\<close>

lemma chain_prefix_good:
  "chain_prefix c m rs xs = (ys, t, None) \<Longrightarrow>
    m = [] \<and> t = [] \<and> ys = rs @ map fst xs \<and>
    (\<forall>i < length xs. rec_Sequence (fst (xs ! i)) = word_of_nat (length rs + i + 1))"
proof (induction c m rs xs rule: chain_prefix.induct)
  case (1 c m rs)
  then show ?case by (auto split: list.splits)
next
  case (2 c m rs r n rest)
  then have s: "rec_Sequence r = word_of_nat (length rs + 1)"
    and p: "chain_prefix c m (rs @ [r]) rest = (ys, t, None)"
    by (auto simp: Let_def split: if_split_asm prod.splits)
  from 2 s p have ih: "m = [] \<and> t = [] \<and> ys = (rs @ [r]) @ map fst rest \<and>
      (\<forall>i < length rest. rec_Sequence (fst (rest ! i)) = word_of_nat (length (rs @ [r]) + i + 1))"
    by (auto simp: Let_def split: if_split_asm)
  have "rec_Sequence (fst (((r, n) # rest) ! i)) = word_of_nat (length rs + i + 1)" if "i < length ((r, n) # rest)" for i
    using ih s that by (cases i) auto
  then show ?case using ih by auto
qed

lemma chain_of_files_good:
  assumes "chain_of_files c fs = (chain, t, None)"
  obtains l where "sort_commit_files c fs = (l, [])"
    and "chain_prefix c [] [] (sort_key (\<lambda>(r, n). rec_Sequence r) l) = (chain, [], None)"
    and "chain = map fst (sort_key (\<lambda>(r, n). rec_Sequence r) l)" and "t = []"
    and "\<forall>i < length chain. rec_Sequence (chain ! i) = word_of_nat (i + 1)"
proof -
  obtain l m where s: "sort_commit_files c fs = (l, m)" by (cases "sort_commit_files c fs")
  let ?k = "sort_key (\<lambda>(r :: commitRecord, n :: string). rec_Sequence r) l"
  have p: "chain_prefix c m [] ?k = (chain, t, None)" using assms by (simp add: chain_of_files_def s)
  note g = chain_prefix_good [OF p]
  then have c: "chain = map fst ?k" by simp
  have "\<forall>i < length chain. rec_Sequence (chain ! i) = word_of_nat (i + 1)"
    using g unfolding c by simp
  then show thesis using that [of l] s p g c by simp
qed

lemma parse_commit_file_valid: "parse_commit_file c n raw = Some r \<Longrightarrow> validateCommitRecord r c = None"
  by (simp add: parse_commit_file_def split: sum.splits if_split_asm)

lemma chain_valid:
  assumes "chain_of_files c fs = (chain, t, None)" "r \<in> set chain"
  shows "validateCommitRecord r c = None"
proof -
  obtain l where s: "sort_commit_files c fs = (l, [])" and c: "chain = map fst (sort_key (\<lambda>(r, n). rec_Sequence r) l)"
    by (rule chain_of_files_good [OF assms(1)])
  have "r \<in> fst ` set l" using assms(2) unfolding c by simp
  moreover have "\<forall>x \<in> set l. validateCommitRecord (fst x) c = None"
    using s parse_commit_file_valid by (auto simp: sort_commit_files_eq)
  ultimately show ?thesis by auto
qed

lemma last_sequence:
  assumes "\<forall>i < length chain. rec_Sequence (chain ! i) = word_of_nat (i + 1)"
  shows "next_sequence chain = word_of_nat (length chain + 1)"
proof (cases "chain = []")
  case False
  then have "rec_Sequence (last chain) = word_of_nat (length chain)"
    using assms [rule_format, of "length chain - 1"] by (simp add: last_conv_nth)
  then show ?thesis using False by (simp add: next_sequence_def add.commute)
qed (simp add: next_sequence_def)

lemma word_of_nat_less64:
  "i < j \<Longrightarrow> j < 2 ^ 64 \<Longrightarrow> (word_of_nat i :: 64 word) < word_of_nat j"
  by (simp add: word_less_nat_alt unat_of_nat)

lemma word_of_nat_inj64:
  assumes "i < 2 ^ 64" "j < 2 ^ 64" "(word_of_nat i :: 64 word) = word_of_nat j" shows "i = j"
  using assms word_of_nat_less64 [of i j] word_of_nat_less64 [of j i]
  by (metis less_irrefl linorder_neqE_nat)

lemma chain_extended:
  assumes old: "chain_of_files c fs = (chain, t, None)" and new: "mset fs' = add_mset (name, raw) (mset fs)"
    and r: "parse_commit_file c name raw = Some r" "rec_Sequence r = next_sequence chain"
      "rec_ParentCommitID r = head_parent chain"
    and len: "length chain < 2 ^ 64 - 1"
  shows "chain_of_files c fs' = (chain @ [r], [], None)"
proof -
  let ?f = "\<lambda>(r, n :: string). rec_Sequence r"
  obtain l where s: "sort_commit_files c fs = (l, [])"
    and p: "chain_prefix c [] [] (sort_key ?f l) = (chain, [], None)"
    and c: "chain = map fst (sort_key ?f l)"
    and q: "\<forall>i < length chain. rec_Sequence (chain ! i) = word_of_nat (i + 1)"
    by (rule chain_of_files_good [OF old])
  obtain l' m' where s': "sort_commit_files c fs' = (l', m')" by (cases "sort_commit_files c fs'")
  have "set fs' = insert (name, raw) (set fs)" using arg_cong [OF new, of set_mset] by simp
  moreover have "parse_commit_file c a b \<noteq> None" if "(a, b) \<in> set fs" for a b
    using s that by (auto simp: sort_commit_files_eq filter_empty_conv)
  ultimately have m': "m' = []"
    using s' r(1) by (force simp: sort_commit_files_eq filter_empty_conv)
  have l': "mset l' = add_mset (r, name) (mset l)"
  proof -
    let ?g = "\<lambda>(n, raw). (the (parse_commit_file c n raw), n)"
    let ?P = "\<lambda>(n, raw). parse_commit_file c n raw \<noteq> None"
    have e: "mset (map ?g (filter ?P xs)) = image_mset ?g (filter_mset ?P (mset xs))" for xs
      by (simp only: mset_map mset_filter)
    have "l = map ?g (filter ?P fs)" "l' = map ?g (filter ?P fs')"
      using s s' by (simp_all only: sort_commit_files_eq prod.inject)
    then show ?thesis using e [of fs] e [of fs'] r(1) by (simp only: new) simp
  qed
  have nx: "next_sequence chain = word_of_nat (length chain + 1)" using q by (rule last_sequence)
  have less: "?f x < ?f (r, name)" if "x \<in> set (sort_key ?f l)" for x
  proof -
    have "fst x \<in> set chain" using that unfolding c by simp
    then obtain i where i: "i < length chain" "chain ! i = fst x" by (auto simp: in_set_conv_nth)
    have "rec_Sequence (fst x) = word_of_nat (i + 1)" using q i by auto
    moreover have "(word_of_nat (i + 1) :: 64 word) < word_of_nat (length chain + 1)"
      using i(1) len by (intro word_of_nat_less64) simp_all
    ultimately show ?thesis using r(2) nx by (simp add: split_beta)
  qed
  have seqs: "map ?f (sort_key ?f l) = map (\<lambda>i. word_of_nat (i + 1)) [0..<length chain]"
    using q unfolding c by (intro nth_equalityI) (auto simp: split_beta)
  have "inj_on ?f (set (sort_key ?f l))"
  proof -
    have "inj_on (\<lambda>i. word_of_nat (i + 1) :: 64 word) {0..<length chain}"
    proof (rule inj_onI)
      fix i j assume "i \<in> {0..<length chain}" "j \<in> {0..<length chain}"
        "(word_of_nat (i + 1) :: 64 word) = word_of_nat (j + 1)"
      then have "i + 1 = j + 1" using len by (intro word_of_nat_inj64) simp_all
      then show "i = j" by simp
    qed
    then have "distinct (map ?f (sort_key ?f l))" unfolding seqs by (simp add: distinct_map)
    then show ?thesis by (simp add: distinct_map)
  qed
  moreover have "set l' = insert (r, name) (set (sort_key ?f l))"
    using arg_cong [OF l', of set_mset] by simp
  moreover have "?f (r, name) \<notin> ?f ` (set (sort_key ?f l) - {(r, name)})"
  proof
    assume "?f (r, name) \<in> ?f ` (set (sort_key ?f l) - {(r, name)})"
    then obtain x where "x \<in> set (sort_key ?f l)" "?f (r, name) = ?f x" by blast
    then show False using less [of x] by simp
  qed
  ultimately have inj: "inj_on ?f (set l')" by (simp only: inj_on_insert simp_thms)
  have "sort_key ?f l' = sort_key ?f l @ [(r, name)]"
    using l' inj less by (intro sort_key_inj_key_eq) (auto simp: sorted_append less_imp_le)
  then have "chain_of_files c fs' = chain_prefix c [] chain [(r, name)]"
    using chain_prefix_append [OF p, of "[(r, name)]"] by (simp add: chain_of_files_def s' m')
  moreover have "rec_Sequence r = word_of_nat (length chain + 1)" using r(2) nx by simp
  ultimately show ?thesis using r(3) by (simp add: Let_def head_parent_def)
qed

section \<open>The commit files of a tree\<close>

text \<open>A file system has no names with a slash, and none that are empty or dots.\<close>

definition valid_tree :: "files \<Rightarrow> bool" where
  "valid_tree fs \<longleftrightarrow> wf_files fs \<and> (\<forall>p. look fs p \<noteq> None \<longrightarrow> list_all simple_name p)"

lemma look_there: "look fs p \<noteq> None \<longleftrightarrow> p \<in> fst ` set fs"
  by (simp add: look_def map_of_eq_None_iff)

lemma in_dir_names: "n \<in> set (dir_names fs d) \<longleftrightarrow> look fs (d @ [n]) \<noteq> None"
proof
  assume "n \<in> set (dir_names fs d)"
  then obtain p x where p: "(p, x) \<in> set fs" "child d p" "n = last p" by (auto simp: dir_names_def)
  then have "p = d @ [n]" by (auto simp: child_def)
  with p(1) show "look fs (d @ [n]) \<noteq> None" unfolding look_there by (metis fst_conv imageI)
next
  assume "look fs (d @ [n]) \<noteq> None"
  then have "d @ [n] \<in> fst ` set fs" unfolding look_there .
  then show "n \<in> set (dir_names fs d)" by (force simp: dir_names_def child_def)
qed

lemma sorted_names: "sorted (dir_names fs d)" "distinct (dir_names fs d)"
  by (simp_all add: dir_names_def)

text \<open>A commit file is never among what a commit may change at will, nor among what it may create before it is published.\<close>

lemma final_not_volatile: "final_name n \<Longrightarrow> \<not> volatile st c (commitsDir st c @ [n])"
proof
  let ?p = "commitsDir st c @ [n]"
  assume f: "final_name n" and "volatile st c ?p"
  moreover have "\<not> under (stagingDir st c) ?p" by (auto simp: case_dirs under_iff)
  ultimately obtain q where q: "temp_path q" "under q ?p"
      "parent_dir q = commitsDir st c \<or> under (caseDir st c @ [''artifacts'']) (parent_dir q)"
    unfolding volatile_def by blast
  have "q \<noteq> ?p" using q(1) f by (auto simp: temp_path_def final_name_def)
  then have "under q (commitsDir st c)" using q(2) by (simp add: under_snoc)
  moreover have "under (commitsDir st c) q \<or> under (caseDir st c @ [''artifacts'']) q"
    using q(3) under_parent [of q] by (auto intro: under_trans)
  ultimately have "q = commitsDir st c"
    using under_trans [of "caseDir st c @ [''artifacts'']" q "commitsDir st c"]
    by (auto simp: case_dirs under_iff append_eq_append_conv2 append_eq_Cons_conv Cons_eq_append_conv)
  then show False using q(3) by (auto simp: case_dirs under_iff parent_dir_def butlast_append)
qed

lemma volatile_length:
  assumes "volatile st c p" "\<not> under (stagingDir st c) p"
  shows "length (caseDir st c) + 1 < length p"
proof -
  obtain q where q: "temp_path q" "under q p"
      "parent_dir q = commitsDir st c \<or> under (caseDir st c @ [''artifacts'']) (parent_dir q)"
    using assms unfolding volatile_def by blast
  have "length q \<le> length p" using q(2) by (auto simp: under_iff)
  moreover have "length (parent_dir q) < length q" using q(1) by (simp add: temp_path_def parent_dir_def)
  moreover have "length (caseDir st c) + 1 \<le> length (parent_dir q)"
    using q(3) by (auto simp: case_dirs under_iff)
  ultimately show ?thesis by linarith
qed

lemma final_same:
  assumes "changes (volatile st c) N a b" "final_name n" "\<not> N (commitsDir st c @ [n])"
  shows "look b (commitsDir st c @ [n]) = look a (commitsDir st c @ [n])"
  using changes_same [OF assms(1) final_not_volatile [OF assms(2)] assms(3)] .

lemma final_not_growable: "\<not> growable st c S (commitsDir st c @ [n])"
  by (simp add: growable_def parent_dir_def)

lemma IsNotExist_Errorf: "\<not> IsNotExist (Errorf f xs)"
  by (simp add: IsNotExist_def os_error_is_def)

lemma managed_never_missing: "managed st p fs = Some e \<Longrightarrow> \<not> IsNotExist e"
proof -
  have "walk_up fs root p = Some e \<Longrightarrow> \<not> IsNotExist e" for root
  proof (induction fs root p rule: walk_up.induct)
    case (1 fs root p)
    have n: "ensureNotSymlink fs p = Some x \<Longrightarrow> \<not> IsNotExist x" for x
      by (auto simp: ensureNotSymlink_def Lstat_def IsNotExist_def os_error_is_def split: option.splits if_split_asm node.splits)
    from 1 n show ?case
      by (auto simp: walk_up.simps [of fs root p] IsNotExist_Errorf split: option.splits if_split_asm)
  qed
  then show "managed st p fs = Some e \<Longrightarrow> \<not> IsNotExist e"
    by (auto simp: ensureManagedPath_def ensureUnderRoot_def err_if_def first_err.simps(2) IsNotExist_def
        os_error_is_def split: if_split_asm option.splits)
qed

lemma unless_missing_managed: "unless_missing (managed st p fs) = managed st p fs"
  using managed_never_missing [of fs st p] by (auto simp: unless_missing_def split: option.split)

lemma managed_child:
  assumes "managed st d fs = None"
  shows "managed st (d @ [n]) fs = ensureNotSymlink fs (d @ [n])"
proof -
  have u: "under (st_root st) d" and w: "walk_up fs (st_root st) d = None"
    using assms by (auto simp: ensureManagedPath_def ensureUnderRoot_def err_if_def split: if_split_asm)
  have "d @ [n] \<noteq> st_root st" using u by (auto simp: under_iff)
  then show ?thesis
    using u w walk_up.simps [of fs "st_root st" "d @ [n]"]
    by (auto simp: ensureManagedPath_def ensureUnderRoot_def err_if_def first_err.simps(2) parent_dir_def
        under_snoc split: option.split)
qed

text \<open>Above something that is there, everything is a directory.\<close>

lemma dirs_managed:
  assumes d: "\<And>q. under q p \<Longrightarrow> q \<noteq> [] \<Longrightarrow> look fs q = Some Dir" and u: "under (st_root st) p"
  shows "managed st p fs = None"
proof -
  have "walk_up fs (st_root st) q = None" if "under q p" "under (st_root st) q" for q
    using that
  proof (induction q rule: rev_induct)
    case Nil
    then show ?case by (simp add: walk_up.simps ensureNotSymlink_def Lstat_def under_iff)
  next
    case (snoc y q)
    have l: "ensureNotSymlink fs (q @ [y]) = None"
      using d [OF snoc.prems(1)] by (simp add: ensureNotSymlink_def Lstat_def)
    show ?case
    proof (cases "q @ [y] = st_root st")
      case False
      then have "under (st_root st) q" using snoc.prems(2) by (simp add: under_snoc)
      moreover have "under q p" using snoc.prems(1) by (auto simp: under_iff)
      ultimately show ?thesis
        using snoc.IH l False by (simp add: walk_up.simps [of fs "st_root st" "q @ [y]"] parent_dir_def)
    next
      case True
      then have "ensureNotSymlink fs (st_root st) = None" using l by simp
      then show ?thesis unfolding True by (simp add: walk_up.simps [of fs "st_root st" "st_root st"])
    qed
  qed
  then show ?thesis using u by (simp add: ensureManagedPath_def ensureUnderRoot_def err_if_def)
qed

lemma wf_prefix_dir:
  "wf_files fs \<Longrightarrow> look fs p = Some Dir \<Longrightarrow> under q p \<Longrightarrow> q \<noteq> [] \<Longrightarrow> look fs q = Some Dir"
  using wf_ancestor [of fs q] by (auto simp: under_iff) (metis append_Nil2 option.distinct(1))

lemma wf_managed:
  assumes wf: "wf_files fs" and p: "look fs (p @ [x]) \<noteq> None" and u: "under (st_root st) p"
  shows "managed st p fs = None"
proof (rule dirs_managed [OF _ u])
  fix q assume "under q p" "q \<noteq> []"
  then obtain r where "p @ [x] = q @ (r @ [x])" by (auto simp: under_iff)
  with p \<open>q \<noteq> []\<close> show "look fs q = Some Dir"
    using wf_ancestor [OF wf, of q "r @ [x]"] by simp
qed

text \<open>The commit files and what is read from them depend on the entries of the directory alone.\<close>

definition final_files :: "files \<Rightarrow> path \<Rightarrow> string list" where
  "final_files fs d = filter (\<lambda>n. look fs (join_path d n) \<noteq> Some Dir \<and> final_name n) (dir_names fs d)"

definition simple_finals :: "files \<Rightarrow> path \<Rightarrow> bool" where
  "simple_finals fs d \<longleftrightarrow> (\<forall>n. final_name n \<longrightarrow> look fs (d @ [n]) \<noteq> None \<longrightarrow> simple_name n)"

definition good_chain :: "Store \<Rightarrow> files \<Rightarrow> string \<Rightarrow> commitRecord list \<Rightarrow> bool" where
  "good_chain st fs c chain \<longleftrightarrow>
     (\<exists>files. collect_results (commit_file st fs c) (final_files fs (commitsDir st c)) = Inr files \<and>
        chain_of_files c files = (chain, [], None))"

lemma set_final_files:
  "simple_finals fs d \<Longrightarrow> set (final_files fs d) =
    {n. final_name n \<and> look fs (d @ [n]) \<noteq> None \<and> look fs (d @ [n]) \<noteq> Some Dir}"
  by (auto simp: final_files_def in_dir_names simple_finals_def join_simple)

lemma final_files_same:
  assumes "simple_finals a d" "\<And>n. final_name n \<Longrightarrow> look b (d @ [n]) = look a (d @ [n])"
  shows "final_files b d = final_files a d"
proof (rule sorted_distinct_set_unique)
  have "simple_finals b d" using assms by (simp add: simple_finals_def)
  then show "set (final_files b d) = set (final_files a d)"
    using assms by (auto simp: set_final_files)
qed (simp_all add: final_files_def sorted_names sorted_wrt_filter)

lemma chain_of_files_tail: "chain_of_files c fs = (chain, t, None) \<Longrightarrow> t = []"
  by (erule chain_of_files_good) simp

lemma load_good:
  assumes wf: "wf_files fs"
  shows "loadCommitChain st fs c = Inr chain \<longleftrightarrow>
    managed st (commitsDir st c) fs = None \<and>
    (look fs (commitsDir st c) = None \<or> look fs (commitsDir st c) = Some Dir) \<and> good_chain st fs c chain"
proof (cases "managed st (commitsDir st c) fs")
  case (Some e)
  then show ?thesis by (simp add: loadCommitChain_def loadCommitChainPrefix_def unless_missing_managed)
next
  case m: None
  let ?d = "commitsDir st c"
  show ?thesis
  proof (cases "look fs ?d")
    case None
    then have "look fs (?d @ [n]) = None" for n
      using wf_nothing_under [OF wf None] by simp
    then have "dir_names fs ?d = []" using in_dir_names [of _ fs ?d] by (metis list.set_cases list.set_intros(1) neq_Nil_conv)
    then show ?thesis
      using None m
      by (auto simp: loadCommitChain_def loadCommitChainPrefix_def unless_missing_managed ReadDir_def Lstat_def
          IsNotExist_def os_error_is_def path_error_def good_chain_def final_files_def chain_of_files_def Let_def)
  next
    case (Some n)
    then show ?thesis
      using m
      by (auto simp: loadCommitChain_def loadCommitChainPrefix_def unless_missing_managed ReadDir_def Lstat_def
          IsNotExist_def os_error_is_def path_error_def good_chain_def final_files_def Let_def
          dest: chain_of_files_tail split: sum.splits prod.splits option.splits if_split_asm)
  qed
qed

lemma commit_file_simple:
  assumes "managed st (commitsDir st c) fs = None" "simple_name n"
  shows "commit_file st fs c n = check_then (ensureNotSymlink fs (commitsDir st c @ [n]))
    (bindE (map_error (\<lambda>e. IntegrityError c (GStr ''failed reading commit'') 0 [] [] e)
       (ReadFile fs (commitsDir st c @ [n]))) (\<lambda>raw. Inr (n, raw)))"
  by (simp add: commit_file_def Let_def join_simple assms managed_child)

lemma commit_file_same:
  assumes "managed st (commitsDir st c) a = None" "managed st (commitsDir st c) b = None" "simple_name n"
    and "look b (commitsDir st c @ [n]) = look a (commitsDir st c @ [n])"
  shows "commit_file st b c n = commit_file st a c n"
  using assms by (simp add: commit_file_simple ensureNotSymlink_def Lstat_def ReadFile_def)

lemma collect_results_cong: "(\<And>x. x \<in> set xs \<Longrightarrow> f x = g x) \<Longrightarrow> collect_results f xs = collect_results g xs"
  by (induction xs) simp_all

lemma good_chain_same:
  assumes m: "managed st (commitsDir st c) a = None" "managed st (commitsDir st c) b = None"
    and s: "simple_finals a (commitsDir st c)"
    and l: "\<And>n. final_name n \<Longrightarrow> look b (commitsDir st c @ [n]) = look a (commitsDir st c @ [n])"
  shows "good_chain st b c chain \<longleftrightarrow> good_chain st a c chain"
proof -
  have f: "final_files b (commitsDir st c) = final_files a (commitsDir st c)"
    using s l by (rule final_files_same)
  have "collect_results (commit_file st b c) (final_files a (commitsDir st c))
      = collect_results (commit_file st a c) (final_files a (commitsDir st c))"
    by (rule collect_results_cong, rule commit_file_same [OF m])
       (use s l in \<open>auto simp: set_final_files simple_finals_def\<close>)
  then show ?thesis by (simp add: good_chain_def f)
qed

text \<open>A chain read during a commit was there before it.\<close>

lemma chain_kept:
  assumes ch: "changes (volatile st c) (growable st c S) a b" and va: "valid_tree a"
    and safe: "ensureCaseTreeSafe st c a = None" and ld: "loadCommitChain st b c = Inr chain"
  shows "loadCommitChain st a c = Inr chain"
proof -
  let ?d = "commitsDir st c"
  have wf: "wf_files a" "wf_files b" using va changes_wf [OF ch] by (simp_all add: valid_tree_def)
  have ma: "managed st ?d a = None"
  proof -
    have "each (\<lambda>_ p. managed st p a) (case_paths st c) = None"
      using safe by (simp add: ensureCaseTreeSafe_def)
    then have "\<forall>p \<in> set (case_paths st c). managed st p a = None" by simp
    then show ?thesis by (simp add: case_paths_def)
  qed
  have s: "simple_finals a ?d" using va by (auto simp: valid_tree_def simple_finals_def)
  have l: "look b (?d @ [n]) = look a (?d @ [n])" if "final_name n" for n
    using ch that final_not_growable by (rule final_same)
  have "\<not> under (stagingDir st c) ?d" by (auto simp: case_dirs under_iff)
  then have "\<not> volatile st c ?d" using volatile_length [of st c ?d] by (auto simp: case_dirs)
  then have "look a ?d = None \<or> look a ?d = Some Dir"
    using ld changes_keeps [OF ch] unfolding load_good [OF wf(2)] by metis
  then show ?thesis
    using ld ma good_chain_same [OF ma _ s l] unfolding load_good [OF wf(1)] load_good [OF wf(2)] by blast
qed

text \<open>One more commit file, that holds the next record.\<close>

lemma collect_results_Inr:
  "collect_results f xs = Inr ys \<longleftrightarrow> (\<forall>x \<in> set xs. \<exists>y. f x = Inr y) \<and> ys = map (\<lambda>x. projr (f x)) xs"
proof (induction xs arbitrary: ys)
  case (Cons x xs)
  show ?case
  proof (cases "f x")
    case (Inr y)
    show ?thesis
    proof (cases "collect_results f xs")
      case (Inl e)
      then have "\<not> (\<forall>x \<in> set xs. \<exists>y. f x = Inr y)" using Cons by auto
      then show ?thesis using Inl Inr by simp
    next
      case (Inr zs)
      then show ?thesis using Cons \<open>f x = Inr y\<close> by auto
    qed
  qed simp
qed auto

lemma good_chain_added:
  assumes m: "managed st (commitsDir st c) a = None" "managed st (commitsDir st c) b = None"
    and s: "simple_finals a (commitsDir st c)" and name: "final_name name" "simple_name name"
    and new: "look a (commitsDir st c @ [name]) = None" "look b (commitsDir st c @ [name]) = Some (File raw)"
    and l: "\<And>n. final_name n \<Longrightarrow> n \<noteq> name \<Longrightarrow> look b (commitsDir st c @ [n]) = look a (commitsDir st c @ [n])"
    and g: "good_chain st a c chain"
    and r: "parse_commit_file c name raw = Some r" "rec_Sequence r = next_sequence chain"
      "rec_ParentCommitID r = head_parent chain"
    and len: "length chain < 2 ^ 64 - 1"
  shows "good_chain st b c (chain @ [r])"
proof -
  let ?d = "commitsDir st c"
  have sb: "simple_finals b ?d" using s l name(2) unfolding simple_finals_def by metis
  have lk: "look b (?d @ [n]) = (if n = name then Some (File raw) else look a (?d @ [n]))" if "final_name n" for n
    using l new(2) that by simp
  have set: "set (final_files b ?d) = insert name (set (final_files a ?d))"
    using new name(1) by (auto simp: set_final_files s sb lk split: if_split_asm)
  have fresh: "name \<notin> set (final_files a ?d)" using new(1) by (simp add: set_final_files s)
  have dist: "distinct (final_files fs ?d)" for fs by (simp add: final_files_def sorted_names)
  have mset: "mset (final_files b ?d) = add_mset name (mset (final_files a ?d))"
    using mset_set_set [OF dist [of b]] mset_set_set [OF dist [of a]] fresh by (simp add: set)
  have old: "commit_file st b c n = commit_file st a c n" if "n \<in> set (final_files a ?d)" for n
    using that fresh s by (intro commit_file_same [OF m])
      (use l [of n] new(1) in \<open>force simp: set_final_files simple_finals_def\<close>)+
  have cn: "commit_file st b c name = Inr (name, raw)"
    using new(2) by (simp add: commit_file_simple m name(2) ensureNotSymlink_def Lstat_def ReadFile_def map_error_def)
  obtain files where f: "collect_results (commit_file st a c) (final_files a ?d) = Inr files"
      and ch: "chain_of_files c files = (chain, [], None)"
    using g unfolding good_chain_def by blast
  let ?get = "\<lambda>n. projr (commit_file st b c n)"
  have "\<forall>n \<in> set (final_files a ?d). \<exists>y. commit_file st a c n = Inr y"
    and files: "files = map (\<lambda>n. projr (commit_file st a c n)) (final_files a ?d)"
    using f unfolding collect_results_Inr by blast+
  then have "collect_results (commit_file st b c) (final_files b ?d) = Inr (map ?get (final_files b ?d))"
    using cn unfolding collect_results_Inr set by (auto simp: old)
  moreover have "mset (map ?get (final_files b ?d)) = add_mset (name, raw) (mset files)"
  proof -
    have "files = map ?get (final_files a ?d)" unfolding files by (simp add: old)
    then show ?thesis by (simp only: mset_map mset image_mset_add_mset cn sum.sel)
  qed
  then have "chain_of_files c (map ?get (final_files b ?d)) = (chain @ [r], [], None)"
    using chain_extended [OF ch _ r len] by blast
  ultimately show ?thesis unfolding good_chain_def by blast
qed

section \<open>The record of a commit\<close>

text \<open>Its strings are plain ASCII, so its file is read back as it was.\<close>

lemma built_record:
  assumes "buildCommitRecord c q parent sid sha at reason = Inr (r, raw)"
  shows "rec_CaseID r = c" "rec_Sequence r = q" "rec_ParentCommitID r = parent" "rec_SnapshotID r = sid"
    "rec_SnapshotManifestSHA256 r = sha" "rec_CommittedAt r = at" "rec_Reason r = reason"
    "rec_SchemaName r = schemaCommitRecord" "rec_SchemaVersion r = schemaVersion"
    "computeCommitIDFromRecord r = Inr (rec_CommitID r)" "marshal (commitRecord_json r) = Inr raw"
    "re_id24 ''commit-'' (rec_CommitID r)"
proof -
  obtain cid where i: "computeCommitID c q parent sid sha at reason = Inr cid"
      and r: "r = \<lparr>rec_SchemaName = schemaCommitRecord, rec_SchemaVersion = schemaVersion, rec_CaseID = c,
                rec_Sequence = q, rec_CommitID = cid, rec_ParentCommitID = parent,
                rec_SnapshotID = sid, rec_SnapshotManifestSHA256 = sha, rec_CommittedAt = at, rec_Reason = reason\<rparr>"
      and m: "marshal (commitRecord_json r) = Inr raw"
    using assms by (auto simp: buildCommitRecord_def Let_def bindE_Inr)
  show "rec_CaseID r = c" "rec_Sequence r = q" "rec_ParentCommitID r = parent" "rec_SnapshotID r = sid"
    "rec_SnapshotManifestSHA256 r = sha" "rec_CommittedAt r = at" "rec_Reason r = reason"
    "rec_SchemaName r = schemaCommitRecord" "rec_SchemaVersion r = schemaVersion"
    "marshal (commitRecord_json r) = Inr raw"
    using r m by simp_all
  show "computeCommitIDFromRecord r = Inr (rec_CommitID r)"
    using i by (simp add: computeCommitIDFromRecord_def r)
  show "re_id24 ''commit-'' (rec_CommitID r)"
    using i re_id24_digest [of "''commit-''"] by (auto simp: computeCommitID_def bindE_Inr r)
qed

lemma show_nat_digit: "x \<in> set (show_nat n) \<Longrightarrow> x \<noteq> CHR ''/''"
proof (induction n rule: show_nat.induct)
  case (1 n)
  have d: "(char_of (48 + k) :: char) \<noteq> CHR ''/''" if "k < 10" for k :: nat
  proof
    assume "(char_of (48 + k) :: char) = CHR ''/''"
    then have "(of_char (char_of (48 + k) :: char) :: nat) = of_char (CHR ''/'')" by simp
    then show False using that by simp
  qed
  show ?case
  proof (cases "n < 10")
    case True
    then show ?thesis using 1 d [of n] by (simp add: show_nat.simps [of n])
  next
    case False
    then have "x \<in> set (show_nat (n div 10)) \<or> x = char_of (48 + n mod 10)"
      using 1(2) by (auto simp: show_nat.simps [of n])
    then show ?thesis using 1(1) False d [of "n mod 10"] by auto
  qed
qed

lemma commit_name:
  assumes "re_id24 ''commit-'' cid"
  shows "simple_name (commitFileName q cid)" "final_name (commitFileName q cid)"
proof -
  have "simple_name cid" using assms by (rule re_id24_simple) (simp_all add: simple_name_def)
  then have "CHR ''/'' \<notin> set cid" by (simp add: simple_name_def)
  moreover have "CHR ''/'' \<notin> set (show_nat (unat q))" using show_nat_digit by blast
  ultimately have s: "CHR ''/'' \<notin> set (commitFileName q cid)"
    by (simp add: commitFileName_def pad20_def)
  have "CHR ''-'' \<in> set (commitFileName q cid)" by (simp add: commitFileName_def)
  with s show "simple_name (commitFileName q cid)" by (auto simp: simple_name_def)
  show "final_name (commitFileName q cid)"
    by (simp add: final_name_def isTempStoreName_def has_suffix_def commitFileName_def tempSuffix_def has_prefix_iff)
qed

lemma sha_valid: "validateSHA256Hex (sha256Hex s) = None"
  using sha256Hex_lower by (auto simp: validateSHA256Hex_def check_id_def err_if_def store_reSHA256_def re_run_empty_prefix)

lemma record_fits:
  assumes "ascii (rec_SchemaName r)" "ascii (rec_SchemaVersion r)" "ascii (rec_CaseID r)" "ascii (rec_CommitID r)"
    "\<And>p. rec_ParentCommitID r = Some p \<Longrightarrow> ascii p" "ascii (rec_SnapshotID r)"
    "ascii (rec_SnapshotManifestSHA256 r)" "ascii (rec_CommittedAt r)" "ascii (rec_Reason r)"
  shows "json_fits max_nesting (commitRecord_json r)"
  using assms
  by (cases "rec_ParentCommitID r")
     (simp_all add: commitRecord_json_def json_pointer_def ascii_valid max_nesting_def)

lemma new_record_parses:
  assumes n: "new_record now rq chain r raw" and c: "c = cm_CaseID (snap_Case (cq_Snapshot rq))"
    and case_ok: "validateCaseID c = None" and reason: "known_reason (cq_Reason rq)"
    and valid: "\<forall>x \<in> set chain. validateCommitRecord x c = None"
    and q: "next_sequence chain = word_of_nat (length chain + 1)" and len: "length chain < 2 ^ 64 - 1"
    and year: "0 \<le> year_of now" "year_of now \<le> 9999"
  shows "parse_commit_file c (commitFileName (rec_Sequence r) (rec_CommitID r)) raw = Some r"
proof -
  obtain sid mb where sid: "validateSnapshotID sid = None"
      and b: "buildCommitRecord c (next_sequence chain) (head_parent chain) sid (sha256Hex mb) (format_rfc3339 now)
        (cq_Reason rq) = Inr (r, raw)"
    using n unfolding new_record_def c [symmetric] by blast
  note r = built_record [OF b]
  have ids: "re_id24 ''case-'' c" "re_id24 ''snapshot-'' sid"
    using case_ok sid
    by (simp_all add: validateCaseID_def validateSnapshotID_def check_id_def err_if_def reCaseID_def reSnapshotID_def
        split: if_split_asm)
  have parent: "re_id24 ''commit-'' p \<and> validateCommitID p = None" if "rec_ParentCommitID r = Some p" for p
  proof -
    have "chain \<noteq> []" "p = rec_CommitID (last chain)" using that r(3) by (auto simp: head_parent_def split: if_split_asm)
    then have "validateCommitID p = None" using valid by (auto simp: validateCommitRecord_def)
    then show ?thesis by (auto simp: validateCommitID_def err_if_def reCommitID_def split: if_split_asm)
  qed
  have "rec_Sequence r \<noteq> 0"
    using len word_of_nat_less64 [of 0 "length chain + 1"] r(2) q by auto
  then have "\<not> rec_Sequence r < 1" by (simp add: word_less_1)
  moreover have "validateCommitID (rec_CommitID r) = None"
    using r(12) by (simp add: validateCommitID_def err_if_def reCommitID_def)
  moreover have "parse_rfc3339 (rec_CommittedAt r) \<noteq> None"
    using parse_format [OF year] r(6) by simp
  moreover have "(case rec_ParentCommitID r of None \<Rightarrow> None | Some p \<Rightarrow> validateCommitID p) = None"
    using parent by (auto split: option.split)
  ultimately have v: "validateCommitRecord r c = None"
    using case_ok sid sha_valid reason r by (auto simp: validateCommitRecord_def known_reason_def err_if_def)
  have pa: "ascii p" if "Some p = head_parent chain" for p
    using parent [of p] ascii_id [of "''commit-''" p] that r(3) by simp
  have "json_fits max_nesting (commitRecord_json r)"
    using ascii_id [OF ids(1)] ascii_id [OF ids(2)] ascii_id [OF r(12)] pa ascii_time [OF year] reason r
    by (intro record_fits)
       (auto simp: schemaCommitRecord_def schemaVersion_def known_reason_def CommitReasonLegacyImport_def
         CommitReasonCaseSnapshot_def)
  then have "decode_document dec_commitRecord zero_commitRecord raw = Inr r"
    using commit_codec.document_back [of r] r(11) by simp
  then show ?thesis using v by (simp add: parse_commit_file_def)
qed

end
