(* ===== verification/CoordProofs.thy ===== *)
theory CoordProofs
  imports Coordinator
begin

text \<open>
  What a successful command has done: the snapshot it committed is the loaded one with one more
  audit event and the workflow document of the new state, it passed the validation of the case
  store, and it was published under the expected parent.
\<close>

section \<open>Store errors never become successes\<close>

lemma mapStoreWriteError_fails: "mapStoreWriteError d caseID expected e w \<noteq> (Inr x, w')"
  by (auto simp: mapStoreWriteError_def andThen_Inr Let_def split: prod.splits sum.splits if_splits)

lemma on_error_map_Inr [simp]:
  "on_error m (mapStoreWriteError d c x) w = (Inr y, w') \<longleftrightarrow> m w = (Inr y, w')"
  by (auto simp: on_error_def mapStoreWriteError_fails split: prod.splits sum.splits)

lemma on_error_fail_Inr [simp]:
  "on_error m (\<lambda>e. fail_with (f e)) w = (Inr y, w') \<longleftrightarrow> m w = (Inr y, w')"
  by (auto simp: on_error_def split: prod.splits sum.splits)

lemma commitSnapshot_Inr:
  "commitSnapshot d snap parent w = (Inr view, w') \<longleftrightarrow>
     (\<exists>info. d_Commit d (commit_request snap parent) w = (Inr info, w') \<and> view = viewFrom snap info)"
  by (auto simp: commitSnapshot_def andThen_Inr)

lemma loadExpected_Inr:
  "loadExpected d caseID expected w = (Inr (snap, info), w') \<longleftrightarrow>
     expected \<noteq> [] \<and> loadLatestVerified d caseID w = (Inr (snap, info), w') \<and> ci_CommitID info = expected"
  by (auto simp: loadExpected_def andThen_Inr)

section \<open>The stamped event\<close>

lemma stamp_first_append:
  "eventID \<notin> set (map we_EventID es) \<Longrightarrow> we_EventID e = eventID \<Longrightarrow>
   stamp_first eventID refs at (es @ [e]) = es @ [e\<lparr>we_ReferencedDocumentIDs := Some refs, we_OccurredAt := at\<rparr>]"
  by (induction es) auto

lemma stamp_first_ids: "map we_EventID (stamp_first eventID refs at es) = map we_EventID es"
  by (induction es) auto

lemma valid_event_ids:
  "Snapshot_Validate win s = None \<Longrightarrow> distinct (map we_EventID (snap_CoordinatorEvents s))"
  by (auto simp: Snapshot_Validate_def Let_def event_ids_def split: sum.splits)

definition new_event where
  "new_event eventID at caseID et actor from to expected reason command revision refs =
     \<lparr>we_SchemaName = SchemaCoordinatorEvent, we_SchemaVersion = SchemaVersion,
      we_EventID = eventID, we_CaseID = caseID, we_EventType = et, we_ActorType = actor,
      we_OccurredAt = at, we_PreviousState = from, we_NextState = to,
      we_ExpectedCommitID = expected, we_WorkflowRevision = revision,
      we_ReferencedDocumentIDs = Some refs, we_ReasonCode = reason, we_CommandID = command\<rparr>"

definition new_workflow :: "string \<Rightarrow> string \<Rightarrow> 64 word \<Rightarrow> string \<Rightarrow> string \<Rightarrow> string \<Rightarrow> WorkflowFailure option \<Rightarrow>
    CaseWorkflowState" where
  "new_workflow caseID state revision at eventID plan failure =
     \<lparr>wf_SchemaName = SchemaCaseWorkflowState, wf_SchemaVersion = SchemaVersion,
      wf_CaseID = caseID, wf_State = state, wf_Revision = revision, wf_UpdatedAt = at,
      wf_LastTransitionID = eventID, wf_ActivePlanID = plan, wf_ActiveExecutionID = [],
      wf_Failure = failure\<rparr>"

text \<open>The snapshot a transition commits, for the event id and the time it was given.\<close>

definition transitioned where
  "transitioned caseID et actor from to expected reason command caseState revision failure plan refs eventID at snap =
     snap\<lparr>snap_Case := (snap_Case snap)\<lparr>cm_UpdatedAt := at, cm_CurrentState := caseState\<rparr>,
          snap_WorkflowState := Some (new_workflow (cm_CaseID (snap_Case snap)) to revision at eventID plan failure),
          snap_CoordinatorEvents := snap_CoordinatorEvents snap @
            [new_event eventID at caseID et actor from to expected reason command revision refs]\<rparr>"

lemma setWorkflow_Inr:
  "setWorkflow clock state eventID revision failure plan s = Inr s' \<longleftrightarrow>
     (\<exists>c. CaseStateForWorkflow state = Inr c \<and>
        s' = s\<lparr>snap_Case := (snap_Case s)\<lparr>cm_UpdatedAt := monotonicNow clock s, cm_CurrentState := c\<rparr>,
               snap_WorkflowState := Some (new_workflow (cm_CaseID (snap_Case s)) state revision
                 (monotonicNow clock s) eventID plan failure)\<rparr>)"
  by (auto simp: setWorkflow_def Let_def new_workflow_def)

lemma set_workflow_act_Inr:
  "set_workflow_act d state eventID revision failure plan snap w = (Inr s', w') \<longleftrightarrow>
     (\<exists>now. d_Now d w = (now, w') \<and> setWorkflow now state eventID revision failure plan snap = Inr s')"
  by (auto simp: set_workflow_act_def andThen_Inr setWorkflow_def split: sum.splits)

lemma monotonicNow_append [simp]: "monotonicNow now (appendEvent e s) = monotonicNow now s"
  by (simp add: monotonicNow_def time_stamps_def appendEvent_def)

lemma appendEvent_fields [simp]:
  "snap_Case (appendEvent e s) = snap_Case s"
  "snap_WorkflowState (appendEvent e s) = snap_WorkflowState s"
  "snap_CoordinatorEvents (appendEvent e s) = snap_CoordinatorEvents s @ [e]"
  by (simp_all add: appendEvent_def)

lemma run_transition_Inr:
  assumes run: "run_transition d caseID et actor src dst info reason command revision failure plan refs snap w
      = (Inr view, w')"
  obtains eventID now c rs inf w1 where
    "cv_Snapshot view = transitioned caseID et actor src dst (ci_CommitID info) reason command c revision
       failure plan rs eventID (monotonicNow now snap) snap"
    "eventID \<notin> set (map we_EventID (snap_CoordinatorEvents snap))"
    "CaseStateForWorkflow dst = Inr c"
    "Snapshot_Validate (d_win d) (cv_Snapshot view) = None"
    "d_Commit d (commit_request (cv_Snapshot view) (ci_CommitID info)) w1 = (Inr inf, w')"
    "view = viewFrom (cv_Snapshot view) inf"
proof -
  obtain eventID wa nw wb now w1 c inf where ev: "d_NewID d ''cevt'' w = (Inr eventID, wa)"
    and t: "d_Now d wa = (nw, wb)" and t2: "d_Now d wb = (now, w1)"
    and c: "CaseStateForWorkflow dst = Inr c"
    and all: "let e = audit_event eventID nw caseID et actor src dst (ci_CommitID info) None reason command revision;
          s2 = appendEvent e snap;
          s3 = s2\<lparr>snap_Case := (snap_Case s2)\<lparr>cm_UpdatedAt := monotonicNow now s2, cm_CurrentState := c\<rparr>,
               snap_WorkflowState := Some (new_workflow (cm_CaseID (snap_Case s2)) dst revision
                 (monotonicNow now s2) eventID plan failure)\<rparr>;
          s4 = stampAuditEvent eventID (refs s3) (cm_UpdatedAt (snap_Case s3)) s3 in
       Snapshot_Validate (d_win d) s4 = None \<and>
       d_Commit d (commit_request s4 (ci_CommitID info)) w1 = (Inr inf, w') \<and> view = viewFrom s4 inf"
    using run
    by (auto simp: run_transition_def newAuditEvent_def andThen_Inr Let_def set_workflow_act_Inr setWorkflow_Inr
          validated_def commitSnapshot_Inr audit_event_def)
  define e where "e = audit_event eventID nw caseID et actor src dst (ci_CommitID info) None reason command revision"
  define s3 where "s3 = (appendEvent e snap)
      \<lparr>snap_Case := (snap_Case (appendEvent e snap))\<lparr>cm_UpdatedAt := monotonicNow now snap, cm_CurrentState := c\<rparr>,
       snap_WorkflowState := Some (new_workflow (cm_CaseID (snap_Case snap)) dst revision
                 (monotonicNow now snap) eventID plan failure)\<rparr>"
  define s4 where "s4 = stampAuditEvent eventID (refs s3) (cm_UpdatedAt (snap_Case s3)) s3"
  have ok: "Snapshot_Validate (d_win d) s4 = None"
    "d_Commit d (commit_request s4 (ci_CommitID info)) w1 = (Inr inf, w')" "view = viewFrom s4 inf"
    using all by (simp_all add: Let_def s4_def s3_def e_def)
  have id: "we_EventID e = eventID" by (simp add: e_def audit_event_def)
  have "distinct (map we_EventID (snap_CoordinatorEvents s4))" using valid_event_ids [OF ok(1)] .
  then have fresh: "eventID \<notin> set (map we_EventID (snap_CoordinatorEvents snap))"
    by (simp add: s4_def stampAuditEvent_def stamp_first_ids s3_def appendEvent_def id)
  have "s4 = transitioned caseID et actor src dst (ci_CommitID info) reason command c revision
       failure plan (refs s3) eventID (monotonicNow now snap) snap"
    using stamp_first_append [OF fresh id]
    by (simp add: s4_def s3_def stampAuditEvent_def appendEvent_def transitioned_def
          e_def audit_event_def new_event_def)
  moreover have "cv_Snapshot view = s4" using ok(3) by (simp add: viewFrom_def)
  ultimately show thesis using that [OF _ fresh c] ok by metis
qed

text \<open>The snapshot the references of a transition are computed on.\<close>

definition unstamped :: "string \<Rightarrow> string \<Rightarrow> string \<Rightarrow> 64 word \<Rightarrow> WorkflowFailure option \<Rightarrow> string \<Rightarrow> string \<Rightarrow>
    string \<Rightarrow> CoordinatorEvent \<Rightarrow> Snapshot \<Rightarrow> Snapshot" where
  "unstamped dst caseState caseID revision failure plan eventID at e snap =
     (appendEvent e snap)\<lparr>snap_Case := (snap_Case snap)\<lparr>cm_UpdatedAt := at, cm_CurrentState := caseState\<rparr>,
        snap_WorkflowState := Some (new_workflow caseID dst revision at eventID plan failure)\<rparr>"

lemma run_transition_intro:
  assumes "d_NewID d ''cevt'' w = (Inr eventID, wa)" "d_Now d wa = (nw, wb)" "d_Now d wb = (now, w1)"
    and "CaseStateForWorkflow dst = Inr c" and at: "monotonicNow now snap = at"
    and fresh: "eventID \<notin> set (map we_EventID (snap_CoordinatorEvents snap))"
    and rs: "\<And>e. refs (unstamped dst c (cm_CaseID (snap_Case snap)) revision failure plan eventID at e snap) = rs"
    and s': "s' = transitioned caseID et actor src dst (ci_CommitID info) reason command c revision failure plan
      rs eventID at snap"
    and ok: "Snapshot_Validate (d_win d) s' = None"
    and com: "d_Commit d (commit_request s' (ci_CommitID info)) w1 = (Inr done_info, w')"
  shows "run_transition d caseID et actor src dst info reason command revision failure plan refs snap w =
    (Inr (viewFrom s' done_info), w')"
proof -
  let ?e = "audit_event eventID nw caseID et actor src dst (ci_CommitID info) None reason command revision"
  let ?u = "unstamped dst c (cm_CaseID (snap_Case snap)) revision failure plan eventID at ?e snap"
  have id: "we_EventID ?e = eventID" by (simp add: audit_event_def)
  have st: "stampAuditEvent eventID rs (cm_UpdatedAt (snap_Case ?u)) ?u = s'"
    using stamp_first_append [OF fresh id]
    by (simp add: s' unstamped_def stampAuditEvent_def appendEvent_def transitioned_def audit_event_def new_event_def)
  have wf: "set_workflow_act d dst eventID revision failure plan (appendEvent ?e snap) wb = (Inr ?u, w1)"
    using assms(3,4) by (simp add: set_workflow_act_Inr setWorkflow_Inr at unstamped_def)
  show ?thesis
    using assms(1,2) ok com st
    by (simp add: run_transition_def newAuditEvent_def andThen_Inr wf id rs validated_def commitSnapshot_Inr)
qed

end
