(* ===== verification/SnapshotProofs.thy ===== *)
theory SnapshotProofs
  imports EventLog
begin

text \<open>
  What a snapshot that passed \<^verbatim>\<open>Snapshot.Validate\<close> is: its event log is a run of the lifecycle that
  leads to the workflow state, each finding and plan was committed by an audited event of an actor
  that may emit it, each target and each piece of evidence has one origin, and no document names one
  that is not there.
\<close>

section \<open>The checks a valid snapshot passed\<close>

lemma valid_case:
  assumes "Snapshot_Validate win s = None"
  shows "CaseManifest_Validate (snap_Case s) = None" "snap_Targets s \<noteq> []" "snap_EvidenceBundles s \<noteq> []"
    "check_case_times (snap_Case s) = None" "check_target_set s = None"
  using assms by (simp_all add: Snapshot_Validate_def Let_def)

lemma valid_refs:
  assumes "Snapshot_Validate win s = None"
  obtains artifacts where "check_evidence win (cm_CaseID (snap_Case s)) 0 [] [] (snap_EvidenceBundles s) = Inr artifacts"
    "check_references s (snapshot_refs s artifacts) = None" "check_workflow s (snapshot_refs s artifacts) = None"
  using assms by (auto simp: Snapshot_Validate_def Let_def split: sum.splits)

lemma valid_workflow:
  assumes "Snapshot_Validate win s = None" "snap_WorkflowState s = Some w"
  shows "CaseWorkflowState_Validate w = None" "wf_CaseID w = cm_CaseID (snap_Case s)"
    "CaseStateForWorkflow (wf_State w) = Inr (cm_CurrentState (snap_Case s))"
    "validateWorkflowTransitionIntegrity s w = None" "validateEvidenceAcquisitionOrigin s = None"
proof -
  obtain artifacts where "check_workflow s (snapshot_refs s artifacts) = None"
    using valid_refs [OF assms(1)] by blast
  then show "CaseWorkflowState_Validate w = None" "wf_CaseID w = cm_CaseID (snap_Case s)"
    "CaseStateForWorkflow (wf_State w) = Inr (cm_CurrentState (snap_Case s))"
    "validateWorkflowTransitionIntegrity s w = None" "validateEvidenceAcquisitionOrigin s = None"
    using assms(2) by (simp_all add: check_workflow_def ValidateWorkflowRefs_def Compatible_iff)
qed

lemma valid_event:
  assumes "Snapshot_Validate win s = None" "e \<in> set (snap_CoordinatorEvents s)"
  shows "CoordinatorEvent_Validate e = None" "we_CaseID e = cm_CaseID (snap_Case s)"
    "set (elems (we_ReferencedDocumentIDs e)) \<subseteq> set (document_ids s)"
    "validateCoordinatorEventReferenceSemantics s e = None"
proof -
  obtain artifacts where "check_references s (snapshot_refs s artifacts) = None"
    using valid_refs [OF assms(1)] by blast
  then have "ValidateCoordinatorEventRefs (snapshot_refs s artifacts) e = None \<and>
      we_CaseID e = cm_CaseID (snap_Case s) \<and> validateCoordinatorEventReferenceSemantics s e = None"
    using assms(2) by (auto simp: check_references_def Let_def each_from_iff in_set_conv_nth)
  then show "CoordinatorEvent_Validate e = None" "we_CaseID e = cm_CaseID (snap_Case s)"
    "set (elems (we_ReferencedDocumentIDs e)) \<subseteq> set (document_ids s)"
    "validateCoordinatorEventReferenceSemantics s e = None"
    by (auto simp: ValidateCoordinatorEventRefs_None Let_def snapshot_refs_def setOf_def)
qed

lemma valid_event_changing: "CoordinatorEvent_Validate e = None \<Longrightarrow> changing e"
proof -
  assume "CoordinatorEvent_Validate e = None"
  then have "we_EventType e \<in> set coordinatorEventTypes" by (simp add: CoordinatorEvent_Validate_def)
  then show ?thesis
    by (auto simp: changing_def IsStateChangingCoordinatorEventType_def coordinatorEventTypes_def)
qed

lemma no_workflow_no_events:
  "Snapshot_Validate win s = None \<Longrightarrow> snap_WorkflowState s = None \<Longrightarrow> snap_CoordinatorEvents s = []"
  by (simp add: Snapshot_Validate_def Let_def)

text \<open>The run behind a valid snapshot.\<close>

lemma valid_run:
  assumes "Snapshot_Validate win s = None" "snap_WorkflowState s = Some w"
  obtains ordered p where "event_run ordered p" "mset ordered = mset (snap_CoordinatorEvents s)"
    "wf_State w = phase_name p" "unat (wf_Revision w) = length ordered"
    "wf_LastTransitionID w = we_EventID (last ordered)" "we_OccurredAt (last ordered) = wf_UpdatedAt w"
  using integrity_run [OF valid_workflow(4) [OF assms]] valid_event(1) [OF assms(1)] valid_event_changing
  by metis

lemma valid_semantics:
  assumes "Snapshot_Validate win s = None" "e \<in> set (snap_CoordinatorEvents s)"
  shows "ValidatePR17CoordinatorEventSemantics e = None"
proof -
  obtain w where w: "snap_WorkflowState s = Some w"
    using assms no_workflow_no_events by fastforce
  obtain byRev where "collect_changing [] (snap_CoordinatorEvents s) = Inr byRev"
    using valid_workflow(4) [OF assms(1) w]
    by (auto simp: validateWorkflowTransitionIntegrity_def split: sum.splits)
  then show ?thesis
    using collect_changing_Inr assms(2) valid_event_changing [OF valid_event(1) [OF assms]]
    unfolding changing_def by blast
qed

lemma valid_provenance:
  assumes "Snapshot_Validate win s = None" "snap_WorkflowState s = Some w"
  shows "validateLifecycleProvenance s = None"
  using valid_workflow(4) [OF assms]
  by (auto simp: validateWorkflowTransitionIntegrity_def check_history_def Let_def
        split: sum.splits option.splits)

lemma audited_iff:
  "i \<in> set (audited et es) \<longleftrightarrow> (\<exists>e \<in> set es. we_EventType e = et \<and> i \<in> set (elems (we_ReferencedDocumentIDs e)))"
  by (auto simp: audited_def)

lemma provenance_None:
  assumes "validateLifecycleProvenance s = None" "snap_WorkflowState s = Some w"
  shows "fnd_FindingID ` set (snap_Findings s) \<subseteq> set (audited EventAnalysisCommitted (snap_CoordinatorEvents s))"
    "pln_PlanID ` set (snap_RepairPlans s) \<subseteq> set (audited EventPlanCommitted (snap_CoordinatorEvents s))"
    "snap_ExecutionEvents s = []" "snap_VerificationReports s = []"
  using assms by (auto simp: validateLifecycleProvenance_def Let_def)

section \<open>Origins\<close>

lemma claim_ids_Inr:
  "claim_ids known e1 e2 aid m ids = Inr m' \<Longrightarrow>
     map fst m' = rev ids @ map fst m \<and> (distinct (map fst m) \<longrightarrow> distinct (map fst m'))"
proof (induction ids arbitrary: m)
  case Nil
  then show ?case by simp
next
  case (Cons i ids)
  have i: "map_of m i = None" and rest: "claim_ids known e1 e2 aid ((i, aid) # m) ids = Inr m'"
    using Cons.prems by (auto split: if_splits option.splits)
  then have "distinct (map fst m) \<longrightarrow> distinct (map fst ((i, aid) # m))" by (simp add: map_of_eq_None_iff)
  moreover have "map fst m' = rev (i # ids) @ map fst m" using Cons.IH [OF rest] by simp
  ultimately show ?case using Cons.IH [OF rest] by blast
qed

lemma acquisition_claims_Inr:
  "acquisition_claims s mt me qs = Inr (mt', me') \<Longrightarrow>
     map fst mt' = rev (concat (map (elems \<circ> acq_AddedTargetIDs) qs)) @ map fst mt \<and>
     map fst me' = rev (concat (map (elems \<circ> acq_AddedEvidenceIDs) qs)) @ map fst me \<and>
     (distinct (map fst mt) \<longrightarrow> distinct (map fst mt')) \<and> (distinct (map fst me) \<longrightarrow> distinct (map fst me'))"
proof (induction qs arbitrary: mt me)
  case Nil
  then show ?case by simp
next
  case (Cons q qs)
  obtain a b e1 e2 e3 e4 kt ke where
    t: "claim_ids kt e1 e2 (acq_AcquisitionID q) mt (elems (acq_AddedTargetIDs q)) = Inr a"
    and e: "claim_ids ke e3 e4 (acq_AcquisitionID q) me (elems (acq_AddedEvidenceIDs q)) = Inr b"
    and rest: "acquisition_claims s a b qs = Inr (mt', me')"
    using Cons.prems by (auto simp: Let_def)
  note ta = claim_ids_Inr [OF t] and eb = claim_ids_Inr [OF e] and ih = Cons.IH [OF rest]
  have "map fst mt' = rev (concat (map (elems \<circ> acq_AddedTargetIDs) (q # qs))) @ map fst mt"
    using conjunct1 [OF ih] conjunct1 [OF ta] by (simp add: comp_def)
  moreover have "map fst me' = rev (concat (map (elems \<circ> acq_AddedEvidenceIDs) (q # qs))) @ map fst me"
    using conjunct1 [OF conjunct2 [OF ih]] conjunct1 [OF eb] by (simp add: comp_def)
  ultimately show ?case using ta eb ih by blast
qed

lemma origin_None:
  assumes "validateEvidenceAcquisitionOrigin s = None"
  shows "distinct (added_target_ids s)" "distinct (added_evidence_ids s)"
proof -
  obtain mt me where "acquisition_claims s [] [] (snap_EvidenceAcquisitions s) = Inr (mt, me)"
    using assms by (auto simp: validateEvidenceAcquisitionOrigin_def split: sum.splits)
  note c = acquisition_claims_Inr [OF this, unfolded list.map append_Nil2 distinct.simps(1) simp_thms]
  have "distinct (map fst mt)" "distinct (map fst me)" using c by blast+
  then have "distinct (rev (added_target_ids s))" "distinct (rev (added_evidence_ids s))"
    using c unfolding added_target_ids_def added_evidence_ids_def by argo+
  then show "distinct (added_target_ids s)" "distinct (added_evidence_ids s)"
    by (simp_all only: distinct_rev)
qed

end
