(* ===== verification/ExampleCase.thy ===== *)
theory ExampleCase
  imports CoordProofs SnapshotProofs
begin

text \<open>
  One concrete case at each point of its life; each of its snapshots is valid. The properties of the
  development are applied to them.
\<close>

section \<open>Documents\<close>

definition ex_id :: "string \<Rightarrow> char \<Rightarrow> string" where "ex_id p c = p @ replicate 24 c"

definition ex_case_id :: string where "ex_case_id = ex_id ''case-'' CHR ''a''"
definition ex_evidence_id :: string where "ex_evidence_id = ex_id ''evidence-'' CHR ''b''"
definition ex_finding_id :: string where "ex_finding_id = ex_id ''finding-'' CHR ''c''"
definition ex_plan_id :: string where "ex_plan_id = ex_id ''plan-'' CHR ''d''"
definition ex_commit_id :: string where "ex_commit_id = ex_id ''commit-'' CHR ''e''"
definition ex_target_id :: string where "ex_target_id = ''target-disk-0001''"
definition ex_time :: string where "ex_time = ''2026-07-29T12:00:00Z''"

definition ex_target :: Target where
  "ex_target = \<lparr>tg_SchemaName = SchemaTarget, tg_SchemaVersion = SchemaVersion, tg_TargetID = ex_target_id,
     tg_TargetType = ''disk'', tg_DiscoveredAt = ex_time, tg_DisplayName = ''Disk 0'',
     tg_StableIdentity = Some [(''serial'', ''S1'')], tg_RuntimeLocators = Some [],
     tg_Capabilities = Some [], tg_Limitations = Some []\<rparr>"

definition ex_evidence :: EvidenceBundle where
  "ex_evidence = \<lparr>ev_SchemaName = SchemaEvidenceBundle, ev_SchemaVersion = SchemaVersion,
     ev_EvidenceID = ex_evidence_id, ev_CaseID = ex_case_id, ev_TargetID = ex_target_id,
     ev_Collector = ''smart'', ev_CollectorVersion = ''1.0.0'', ev_CapturedAt = ex_time,
     ev_SourceStatus = ''ok'', ev_FactsSchema = [], ev_Facts = Some ''{}'', ev_Artifacts = Some [],
     ev_Limitations = Some []\<rparr>"

definition ex_finding :: Finding where
  "ex_finding = \<lparr>fnd_SchemaName = SchemaFinding, fnd_SchemaVersion = SchemaVersion,
     fnd_FindingID = ex_finding_id, fnd_CaseID = ex_case_id, fnd_Severity = ''high'',
     fnd_Confidence = ''medium'', fnd_Title = ''Disk'', fnd_Rationale = ''Sectors'',
     fnd_EvidenceRefs = Some [ex_evidence_id], fnd_AffectedTargetIDs = Some [ex_target_id],
     fnd_RecommendedWorkflows = Some [], fnd_Limitations = Some [], fnd_InsufficientEvidence = False\<rparr>"

definition ex_step :: "string \<Rightarrow> string list \<Rightarrow> PlanStep" where
  "ex_step i deps = \<lparr>stp_StepID = i, stp_OperationID = ''disk.image'', stp_OperationVersion = ''1.0.0'',
     stp_TargetID = ex_target_id, stp_DependsOn = Some deps, stp_ApprovalRequired = True,
     stp_BackupRequired = False\<rparr>"

definition ex_plan :: RepairPlan where
  "ex_plan = \<lparr>pln_SchemaName = SchemaRepairPlan, pln_SchemaVersion = SchemaVersion, pln_PlanID = ex_plan_id,
     pln_CaseID = ex_case_id, pln_FindingRefs = Some [ex_finding_id],
     pln_Steps = Some [ex_step ''s1'' [], ex_step ''s2'' [''s1'']], pln_RiskSummary = ''low'',
     pln_BackupRequirements = Some [], pln_ApprovalRequirements = Some [], pln_Status = ''draft''\<rparr>"

definition ex_manifest :: CaseManifest where
  "ex_manifest = \<lparr>cm_SchemaName = SchemaCaseManifest, cm_SchemaVersion = SchemaVersion, cm_CaseID = ex_case_id,
     cm_CreatedAt = ex_time, cm_UpdatedAt = ex_time, cm_Runtime = ''winpe'',
     cm_CurrentState = CaseStateSnapshotted, cm_TargetIDs = Some [ex_target_id],
     cm_PrivacyClass = ''standard'', cm_TechnicianStorageReference = []\<rparr>"

text \<open>A legacy case, as the importer makes it.\<close>

definition ex_legacy :: Snapshot where
  "ex_legacy = SnapshotFromImporterResult
     \<lparr>ir_Case = ex_manifest, ir_Targets = [ex_target], ir_EvidenceBundles = [ex_evidence]\<rparr>"

definition ex_info :: CommitInfo where
  "ex_info = \<lparr>ci_CaseID = ex_case_id, ci_SnapshotID = ex_id ''snapshot-'' CHR ''e'',
     ci_CommitID = ex_commit_id, ci_Sequence = 1, ci_ParentCommitID = [], ci_CommittedAt = ex_time,
     ci_Idempotent = False, ci_DurabilityWarnings = None\<rparr>"

section \<open>They are valid\<close>

lemma hex_id: "c \<in> set lower_hex \<Longrightarrow> re_run p lower_hex 24 24 (ex_id p c)"
  by (auto simp: ex_id_def re_run_iff)

lemma ex_ids [simp]:
  "reCaseID ex_case_id" "reEvidenceID ex_evidence_id" "reFindingID ex_finding_id" "rePlanID ex_plan_id"
  "reCommitID ex_commit_id"
  unfolding re_defs ex_case_id_def ex_evidence_id_def ex_finding_id_def ex_plan_id_def ex_commit_id_def
  by (rule hex_id, simp add: lower_hex_def)+

lemma ex_target_ok [simp]: "reTargetID ex_target_id" by code_simp

lemma ex_time_ok [simp]: "rfc3339_ok ex_time" "parse_rfc3339 ex_time = Some \<lparr>unix_secs = 1785326400, nanos = 0\<rparr>" by code_simp+

lemma ex_words [simp]: "\<not> blank ''Disk 0''" "\<not> blank ''serial''" "\<not> blank ''S1''" "\<not> blank ''disk''" "\<not> blank ''smart''"
  "\<not> blank ''1.0.0''" "\<not> blank ''ok''" "\<not> blank ''high''" "\<not> blank ''medium''" "\<not> blank ''Disk''" "\<not> blank ''Sectors''"
  "\<not> blank ''low''" "\<not> blank ''draft''" "\<not> blank ''winpe''" "\<not> blank ''standard''" "\<not> blank CaseStateSnapshotted"
  "\<not> blank ''s1''" "\<not> blank ''s2''" "json_valid ''{}''" "reOperationID ''disk.image''" "reSemver ''1.0.0''"
  by code_simp+

lemma loop_Cons_None:
  "each_from i f (x # xs) = None \<longleftrightarrow> f i x = None \<and> each_from (Suc i) f xs = None"
  "unique_from v key dup i seen (x # xs) = None \<longleftrightarrow>
     v i x = None \<and> key x \<notin> set seen \<and> unique_from v key dup (Suc i) (key x # seen) xs = None"
  by (auto split: option.splits)

lemma ex_docs [simp]:
  "Target_Validate ex_target = None" 
  "EvidenceBundle_Validate ex_evidence = None" 
  "Finding_Validate ex_finding = None" "CaseManifest_Validate ex_manifest = None"
  "PlanStep_Validate (ex_step ''s1'' ds) = None" "PlanStep_Validate (ex_step ''s2'' ds) = None"
  by (simp_all add: Target_Validate_def ex_target_def requireEnum_None targetTypes_def 
   EvidenceBundle_Validate_def ex_evidence_def sourceStatuses_def
   Finding_Validate_def ex_finding_def severities_def confidences_def
   CaseManifest_Validate_def ex_manifest_def runtimes_def privacyClasses_def caseStates_def
   PlanStep_Validate_def ex_step_def loop_Cons_None del: each_from.simps(2) unique_from.simps(2))

lemma ex_plan_ok [simp]: "RepairPlan_Validate ex_plan = None"
  by (simp add: RepairPlan_Validate_def ex_plan_def Let_def requireEnum_None planStatuses_def stepIndex_def loop_Cons_None del: each_from.simps(2) unique_from.simps(2)
     , simp add: ex_step_def)

section \<open>The states of one case\<close>

definition ex_refs :: "string list \<Rightarrow> string list" where
  "ex_refs ids = [ex_case_id] @ ids @ [DocumentIDCaseWorkflowState]"

text \<open>The \<open>n\<close>-th identifier of a kind.\<close>

definition ms_id :: "nat \<Rightarrow> string \<Rightarrow> string" where
  "ms_id n p = (p @ ''-'') @ replicate 24 (lower_hex ! (n mod 16))"

text \<open>Created, analyzed, with a plan, failed or cancelled, and adopted.\<close>

definition ex_s1 :: Snapshot where
  "ex_s1 = transitioned ex_case_id EventCaseCreated ActorSystem WorkflowCreated WorkflowEvidenceCollected []
     ''legacy_import_committed'' [] CaseStateSnapshotted 1 None [] (ex_refs [ex_target_id, ex_evidence_id])
     (ms_id 2 ''cevt'') ex_time ex_legacy"

definition ex_s2 :: Snapshot where
  "ex_s2 = transitioned ex_case_id EventAnalysisCommitted ActorDeterministicAnalyzer WorkflowEvidenceCollected
     WorkflowAnalyzed (ms_id 3 ''commit'') ''analysis_committed'' [] CaseStateDiagnosed 2 None []
     (ex_refs [ex_finding_id, ex_evidence_id, ex_target_id]) (ms_id 4 ''cevt'') ex_time
     (ex_s1\<lparr>snap_Findings := [ex_finding]\<rparr>)"

definition ex_s3 :: Snapshot where
  "ex_s3 = transitioned ex_case_id EventPlanCommitted ActorSystem WorkflowAnalyzed WorkflowPlanProposed
     (ms_id 5 ''commit'') ''plan_committed'' [] CaseStatePlanned 3 None ex_plan_id
     (ex_refs [ex_plan_id, ex_finding_id, ex_target_id]) (ms_id 6 ''cevt'') ex_time
     (ex_s2\<lparr>snap_RepairPlans := [ex_plan]\<rparr>)"

definition ex_s4 :: Snapshot where
  "ex_s4 = transitioned ex_case_id EventCaseFailed ActorTechnician WorkflowPlanProposed WorkflowFailed
     (ms_id 7 ''commit'') ''case_failed'' [] CaseStateFailed 4
     (Some \<lparr>wfl_ReasonCode = ''case_failed'', wfl_DetailCode = []\<rparr>) ex_plan_id
     [ex_case_id, DocumentIDCaseWorkflowState, ex_plan_id] (ms_id 8 ''cevt'') ex_time ex_s3"

definition ex_s5 :: Snapshot where
  "ex_s5 = transitioned ex_case_id EventCaseCancelled ActorTechnician WorkflowPlanProposed WorkflowCancelled
     (ms_id 7 ''commit'') ''case_cancelled'' [] CaseStateCancelled 4 None ex_plan_id
     [ex_case_id, DocumentIDCaseWorkflowState, ex_plan_id] (ms_id 8 ''cevt'') ex_time ex_s3"

definition ex_s0 :: Snapshot where
  "ex_s0 = transitioned ex_case_id EventLegacyCaseAdopted ActorSystem [] WorkflowEvidenceCollected ex_commit_id
     ''legacy_case_adopted'' [] CaseStateSnapshotted 1 None [] (ex_refs [ex_target_id, ex_evidence_id])
     (ms_id 2 ''cevt'') ex_time ex_legacy"

lemma ex_event_ids [simp]: "reCoordinatorEventID (ms_id 2 ''cevt'')" "reCoordinatorEventID (ms_id 4 ''cevt'')"
 "reCoordinatorEventID (ms_id 6 ''cevt'')" "reCoordinatorEventID (ms_id 8 ''cevt'')"
 "reCommitID (ms_id 3 ''commit'')" "reCommitID (ms_id 5 ''commit'')" "reCommitID (ms_id 7 ''commit'')" 
  by (simp_all add: ms_id_def re_defs re_run_iff lower_hex_def)

lemma ex_reasons [simp]: "reReasonCode ''legacy_import_committed''" "reReasonCode ''analysis_committed''"
"reReasonCode ''plan_committed''" "reReasonCode ''legacy_case_adopted''" "reReasonCode ''case_failed''" "reReasonCode ''case_cancelled''" by code_simp+

lemma enum_members:
 "EventCaseCreated \<in> set coordinatorEventTypes" "EventAnalysisCommitted \<in> set coordinatorEventTypes"
 "EventPlanCommitted \<in> set coordinatorEventTypes" "EventCaseFailed \<in> set coordinatorEventTypes"
 "EventCaseCancelled \<in> set coordinatorEventTypes" "EventLegacyCaseAdopted \<in> set coordinatorEventTypes"
 "WorkflowCancelled \<in> set workflowStates"
 "WorkflowCreated \<in> set workflowStates" "WorkflowEvidenceCollected \<in> set workflowStates"
 "WorkflowAnalyzed \<in> set workflowStates" "WorkflowPlanProposed \<in> set workflowStates" "WorkflowFailed \<in> set workflowStates"
 "ActorSystem \<in> set actorTypes" "ActorDeterministicAnalyzer \<in> set actorTypes" "ActorTechnician \<in> set actorTypes"
  by (simp_all add: coordinatorEventTypes_def workflowStates_def actorTypes_def)

lemma ex_fields [simp]:
 "cm_CaseID ex_manifest = ex_case_id" "cm_CreatedAt ex_manifest = ex_time" "cm_UpdatedAt ex_manifest = ex_time"
 "cm_TargetIDs ex_manifest = Some [ex_target_id]" "cm_CurrentState ex_manifest = CaseStateSnapshotted"
 "tg_TargetID ex_target = ex_target_id"
 "ev_EvidenceID ex_evidence = ex_evidence_id" "ev_CaseID ex_evidence = ex_case_id" "ev_TargetID ex_evidence = ex_target_id"
 "ev_Artifacts ex_evidence = Some []"
 "fnd_FindingID ex_finding = ex_finding_id" "fnd_CaseID ex_finding = ex_case_id"
 "fnd_EvidenceRefs ex_finding = Some [ex_evidence_id]" "fnd_AffectedTargetIDs ex_finding = Some [ex_target_id]"
 "pln_PlanID ex_plan = ex_plan_id" "pln_CaseID ex_plan = ex_case_id" "pln_FindingRefs ex_plan = Some [ex_finding_id]"
 "pln_Steps ex_plan = Some [ex_step ''s1'' [], ex_step ''s2'' [''s1'']]" "pln_Status ex_plan = ''draft''"
 "stp_TargetID (ex_step i ds) = ex_target_id"
 by (simp_all add: ex_manifest_def ex_target_def ex_evidence_def ex_finding_def ex_plan_def ex_step_def)

lemma case_state_enum: "requireEnum f c caseStates = None \<longleftrightarrow> c \<in> set caseStates"
  by (rule requireEnum_plain) code_simp

lemma ex_manifest_state [simp]:
 "c \<in> set caseStates \<Longrightarrow> CaseManifest_Validate (ex_manifest\<lparr>cm_UpdatedAt := ex_time, cm_CurrentState := c\<rparr>) = None"
 using ex_docs(4) by (simp add: CaseManifest_Validate_def case_state_enum split: if_splits)

lemma new_event_fields [simp]:
  "we_EventID (new_event i at cid et ac src dst ex re cm rv rs) = i"
  "we_CaseID (new_event i at cid et ac src dst ex re cm rv rs) = cid"
  "we_EventType (new_event i at cid et ac src dst ex re cm rv rs) = et"
  "we_ActorType (new_event i at cid et ac src dst ex re cm rv rs) = ac"
  "we_OccurredAt (new_event i at cid et ac src dst ex re cm rv rs) = at"
  "we_PreviousState (new_event i at cid et ac src dst ex re cm rv rs) = src"
  "we_NextState (new_event i at cid et ac src dst ex re cm rv rs) = dst"
  "we_ExpectedCommitID (new_event i at cid et ac src dst ex re cm rv rs) = ex"
  "we_WorkflowRevision (new_event i at cid et ac src dst ex re cm rv rs) = rv"
  "we_ReferencedDocumentIDs (new_event i at cid et ac src dst ex re cm rv rs) = Some rs"
  "we_ReasonCode (new_event i at cid et ac src dst ex re cm rv rs) = re"
  "we_CommandID (new_event i at cid et ac src dst ex re cm rv rs) = cm"
  by (simp_all add: new_event_def)

lemma new_workflow_fields [simp]:
  "wf_CaseID (new_workflow cid st rv at eid pl fl) = cid" "wf_State (new_workflow cid st rv at eid pl fl) = st"
  "wf_Revision (new_workflow cid st rv at eid pl fl) = rv" "wf_UpdatedAt (new_workflow cid st rv at eid pl fl) = at"
  "wf_LastTransitionID (new_workflow cid st rv at eid pl fl) = eid" "wf_ActivePlanID (new_workflow cid st rv at eid pl fl) = pl"
  "wf_SchemaName (new_workflow cid st rv at eid pl fl) = SchemaCaseWorkflowState"
  "wf_SchemaVersion (new_workflow cid st rv at eid pl fl) = SchemaVersion"
  "wf_ActiveExecutionID (new_workflow cid st rv at eid pl fl) = []" "wf_Failure (new_workflow cid st rv at eid pl fl) = fl"
  by (simp_all add: new_workflow_def)

lemma ex_distinct:
  "distinct [[], ex_case_id, ex_target_id, ex_evidence_id, ex_finding_id, ex_plan_id, DocumentIDCaseWorkflowState,
     ms_id 2 ''cevt'', ms_id 4 ''cevt'', ms_id 6 ''cevt'', ms_id 8 ''cevt'']" by code_simp

lemma ex_neqs [simp]:
  "[] \<noteq> ex_case_id" "[] \<noteq> ex_target_id" "[] \<noteq> ex_evidence_id"
  "[] \<noteq> ex_finding_id" "[] \<noteq> ex_plan_id" "[] \<noteq> DocumentIDCaseWorkflowState"
  "[] \<noteq> ms_id 2 ''cevt''" "[] \<noteq> ms_id 4 ''cevt''" "[] \<noteq> ms_id 6 ''cevt''"
  "[] \<noteq> ms_id 8 ''cevt''" "ex_case_id \<noteq> ex_target_id" "ex_case_id \<noteq> ex_evidence_id"
  "ex_case_id \<noteq> ex_finding_id" "ex_case_id \<noteq> ex_plan_id" "ex_case_id \<noteq> DocumentIDCaseWorkflowState"
  "ex_case_id \<noteq> ms_id 2 ''cevt''" "ex_case_id \<noteq> ms_id 4 ''cevt''" "ex_case_id \<noteq> ms_id 6 ''cevt''"
  "ex_case_id \<noteq> ms_id 8 ''cevt''" "ex_target_id \<noteq> ex_evidence_id" "ex_target_id \<noteq> ex_finding_id"
  "ex_target_id \<noteq> ex_plan_id" "ex_target_id \<noteq> DocumentIDCaseWorkflowState" "ex_target_id \<noteq> ms_id 2 ''cevt''"
  "ex_target_id \<noteq> ms_id 4 ''cevt''" "ex_target_id \<noteq> ms_id 6 ''cevt''" "ex_target_id \<noteq> ms_id 8 ''cevt''"
  "ex_evidence_id \<noteq> ex_finding_id" "ex_evidence_id \<noteq> ex_plan_id" "ex_evidence_id \<noteq> DocumentIDCaseWorkflowState"
  "ex_evidence_id \<noteq> ms_id 2 ''cevt''" "ex_evidence_id \<noteq> ms_id 4 ''cevt''" "ex_evidence_id \<noteq> ms_id 6 ''cevt''"
  "ex_evidence_id \<noteq> ms_id 8 ''cevt''" "ex_finding_id \<noteq> ex_plan_id" "ex_finding_id \<noteq> DocumentIDCaseWorkflowState"
  "ex_finding_id \<noteq> ms_id 2 ''cevt''" "ex_finding_id \<noteq> ms_id 4 ''cevt''" "ex_finding_id \<noteq> ms_id 6 ''cevt''"
  "ex_finding_id \<noteq> ms_id 8 ''cevt''" "ex_plan_id \<noteq> DocumentIDCaseWorkflowState" "ex_plan_id \<noteq> ms_id 2 ''cevt''"
  "ex_plan_id \<noteq> ms_id 4 ''cevt''" "ex_plan_id \<noteq> ms_id 6 ''cevt''" "ex_plan_id \<noteq> ms_id 8 ''cevt''"
  "DocumentIDCaseWorkflowState \<noteq> ms_id 2 ''cevt''" "DocumentIDCaseWorkflowState \<noteq> ms_id 4 ''cevt''" "DocumentIDCaseWorkflowState \<noteq> ms_id 6 ''cevt''"
  "DocumentIDCaseWorkflowState \<noteq> ms_id 8 ''cevt''" "ms_id 2 ''cevt'' \<noteq> ms_id 4 ''cevt''" "ms_id 2 ''cevt'' \<noteq> ms_id 6 ''cevt''"
  "ms_id 2 ''cevt'' \<noteq> ms_id 8 ''cevt''" "ms_id 4 ''cevt'' \<noteq> ms_id 6 ''cevt''" "ms_id 4 ''cevt'' \<noteq> ms_id 8 ''cevt''"
  "ms_id 6 ''cevt'' \<noteq> ms_id 8 ''cevt''"
  using ex_distinct by simp_all

lemmas ex_neqs_sym [simp] = ex_neqs [symmetric]

lemma ex_prefix [simp]:
 "\<not> has_prefix ''cevt-'' ex_case_id" "\<not> has_prefix ''cevt-'' ex_target_id" "\<not> has_prefix ''cevt-'' ex_evidence_id"
 "\<not> has_prefix ''cevt-'' ex_finding_id" "\<not> has_prefix ''cevt-'' ex_plan_id" "\<not> has_prefix ''cevt-'' DocumentIDCaseWorkflowState"
 by code_simp+

lemma ms_id_nonempty [simp]: "ms_id n p \<noteq> []"
  by (simp add: ms_id_def)

lemma small_ranges: "{Suc 0..<2} = {1}" "{Suc 0..<3} = {1, 2}" "{Suc 0..<4} = {1, 2, 3}"
  by auto

lemma ex_commit_nonempty [simp]: "ex_commit_id \<noteq> []"
  by (simp add: ex_commit_id_def ex_id_def)

lemma ex_semantics [simp]:
  "ValidatePR17CoordinatorEventSemantics (new_event (ms_id 2 ''cevt'') ex_time ex_case_id EventCaseCreated
     ActorSystem WorkflowCreated WorkflowEvidenceCollected [] ''legacy_import_committed'' [] 1 refs) = None"
  "ValidatePR17CoordinatorEventSemantics (new_event (ms_id 4 ''cevt'') ex_time ex_case_id EventAnalysisCommitted
     ActorDeterministicAnalyzer WorkflowEvidenceCollected WorkflowAnalyzed (ms_id 3 ''commit'')
     ''analysis_committed'' [] 2 refs) = None"
  "ValidatePR17CoordinatorEventSemantics (new_event (ms_id 6 ''cevt'') ex_time ex_case_id EventPlanCommitted
     ActorSystem WorkflowAnalyzed WorkflowPlanProposed (ms_id 5 ''commit'') ''plan_committed'' [] 3 refs) = None"
  "ValidatePR17CoordinatorEventSemantics (new_event (ms_id 8 ''cevt'') ex_time ex_case_id EventCaseFailed
     ActorTechnician WorkflowPlanProposed WorkflowFailed (ms_id 7 ''commit'') ''case_failed'' [] 4 refs) = None"
  "ValidatePR17CoordinatorEventSemantics (new_event (ms_id 8 ''cevt'') ex_time ex_case_id EventCaseCancelled
     ActorTechnician WorkflowPlanProposed WorkflowCancelled (ms_id 7 ''commit'') ''case_cancelled'' [] 4 refs) = None"
  "ValidatePR17CoordinatorEventSemantics (new_event (ms_id 2 ''cevt'') ex_time ex_case_id EventLegacyCaseAdopted
     ActorSystem [] WorkflowEvidenceCollected ex_commit_id ''legacy_case_adopted'' [] 1 refs) = None"
  by (simp_all add: ValidatePR17CoordinatorEventSemantics_def isPR17AllowedActor_def allowedActorForPR17Event_def
        validPR17TransitionForEvent_def IsStateChangingCoordinatorEventType_def CoordinatorEvent_Validate_def
        enum_members new_event_def word_le_nat_alt)

lemma semantics_validate: "ValidatePR17CoordinatorEventSemantics e = None \<Longrightarrow> CoordinatorEvent_Validate e = None"
  by (simp add: ValidatePR17CoordinatorEventSemantics_def)

lemmas ex_event_valid [simp] = ex_semantics [THEN semantics_validate]

lemmas snapshot_parts = Snapshot_Validate_def Let_def check_case_times_def time_before_def check_target_set_def
  check_references_def check_docs_def check_workflow_def validateWorkflowTransitionIntegrity_def
  check_history_def snapshot_refs_def setOf_def document_ids_def event_ids_def at_rev_def
  ValidateEvidenceRefs_def ValidateFindingRefs_def ValidatePlanRefs_def ValidateWorkflowRefs_def
  ValidateCoordinatorEventRefs_None Compatible_iff check_last_transition_def
  validateCoordinatorEventReferenceSemantics_def exact_refs_def requireExactRefSet_None containsRef_def
  createOrAdoptReferenceSet_def initialTargetIDs_def initialEvidenceIDs_def added_target_ids_def
  added_evidence_ids_def CaseWorkflowState_Validate_def validateEvidenceAcquisitionOrigin_def
  validateLifecycleProvenance_def ValidatePR17WorkflowStateSemantics_def
  ValidatePR17WorkflowStateDocumentSemantics_def no_execution_no_failure_def
  IsStateChangingCoordinatorEventType_def enum_members loop_Cons_None analysisReferenceClosure_def
  planReferenceClosure_def terminal_refs_def findFindingByID_def findPlanByID_def finding_closure_def
  audited_def small_ranges map_filter_simps occurred_in_order_def WorkflowFailure_Validate_def

lemmas ex_states = transitioned_def ex_legacy_def SnapshotFromImporterResult_def ex_refs_def

lemma ex_workflow_case [simp]:
  "CaseStateForWorkflow WorkflowEvidenceCollected = Inr CaseStateSnapshotted"
  "CaseStateForWorkflow WorkflowAnalyzed = Inr CaseStateDiagnosed"
  "CaseStateForWorkflow WorkflowPlanProposed = Inr CaseStatePlanned"
  "CaseStateForWorkflow WorkflowFailed = Inr CaseStateFailed"
  "CaseStateForWorkflow WorkflowCancelled = Inr CaseStateCancelled"
  by (simp_all add: CaseStateForWorkflow_def workflow_defs)

lemma ex_case_states [simp]:
  "CaseStateSnapshotted \<in> set caseStates" "CaseStateDiagnosed \<in> set caseStates"
  "CaseStatePlanned \<in> set caseStates" "CaseStateFailed \<in> set caseStates"
  "CaseStateCancelled \<in> set caseStates"
  by (simp_all add: caseStates_def)

lemma ex_s1_valid: "Snapshot_Validate False ex_s1 = None"
  by (simp add: ex_s1_def ex_states snapshot_parts insert_commute del: each_from.simps(2) unique_from.simps(2))

lemma ex_s2_valid: "Snapshot_Validate False ex_s2 = None"
  by (simp add: ex_s2_def ex_s1_def ex_states snapshot_parts insert_commute del: each_from.simps(2) unique_from.simps(2))

lemma ex_s3_valid: "Snapshot_Validate False ex_s3 = None"
  by (simp add: ex_s3_def ex_s2_def ex_s1_def ex_states snapshot_parts insert_commute del: each_from.simps(2) unique_from.simps(2))

lemma ex_s4_valid: "Snapshot_Validate False ex_s4 = None"
  by (simp add: ex_s4_def ex_s3_def ex_s2_def ex_s1_def ex_states snapshot_parts insert_commute del: each_from.simps(2) unique_from.simps(2))

lemma ex_s5_valid: "Snapshot_Validate False ex_s5 = None"
  by (simp add: ex_s5_def ex_s3_def ex_s2_def ex_s1_def ex_states snapshot_parts insert_commute del: each_from.simps(2) unique_from.simps(2))

lemma ex_s0_valid: "Snapshot_Validate False ex_s0 = None"
  by (simp add: ex_s0_def ex_states snapshot_parts insert_commute del: each_from.simps(2) unique_from.simps(2))

end
