(* ===== verification/Examples.thy ===== *)
theory Examples
  imports ExampleCase
begin

text \<open>
  A coordinator over a store that keeps the head of one case in memory, and the requests that take
  the example case through its life.
\<close>

section \<open>A store in memory\<close>

text \<open>The head of the one case the store holds, and the letter the next identifier is made of.\<close>

record memory_store =
  ms_Head :: "(Snapshot \<times> CommitInfo) option"
  ms_Next :: nat

definition ms_chain :: "memory_store \<Rightarrow> commitRecord list" where
  "ms_chain m = (case ms_Head m of None \<Rightarrow> []
     | Some (_, info) \<Rightarrow> [\<lparr>rec_SchemaName = [], rec_SchemaVersion = [], rec_CaseID = ci_CaseID info,
         rec_Sequence = ci_Sequence info, rec_CommitID = ci_CommitID info, rec_ParentCommitID = None,
         rec_SnapshotID = ci_SnapshotID info, rec_SnapshotManifestSHA256 = [],
         rec_CommittedAt = ci_CommittedAt info, rec_Reason = []\<rparr>])"

definition ms_commit :: "CommitRequest \<Rightarrow> (memory_store, CommitInfo) act" where
  "ms_commit q m =
     (case ParentExpectation_check (ms_chain m) (cq_ParentExpectation q) of
        Some e \<Rightarrow> (Inl e, m)
      | None \<Rightarrow>
         (let info = ex_info\<lparr>ci_CommitID := ms_id (ms_Next m) ''commit'',
                ci_ParentCommitID := head_commit (ms_chain m)\<rparr> in
          (Inr info, m\<lparr>ms_Head := Some (cq_Snapshot q, info), ms_Next := Suc (ms_Next m)\<rparr>)))"

definition ms_load :: "string \<Rightarrow> (memory_store, Snapshot \<times> CommitInfo) act" where
  "ms_load cid m = (case ms_Head m of None \<Rightarrow> (Inl ErrInvalidArgument, m) | Some h \<Rightarrow> (Inr h, m))"

definition ex_now :: instant where "ex_now = \<lparr>unix_secs = 1785326400, nanos = 5\<rparr>"

definition ms_deps :: "memory_store deps" where
  "ms_deps = \<lparr>d_Commit = ms_commit, d_LoadLatest = ms_load, d_Verify = (\<lambda>_ m. (Inr ''ok'', m)),
     d_ImportJSON = (\<lambda>_ _. Inr \<lparr>ir_Case = ex_manifest, ir_Targets = [ex_target], ir_EvidenceBundles = [ex_evidence]\<rparr>),
     d_Now = (\<lambda>m. (ex_now, m)),
     d_NewID = (\<lambda>p m. (Inr (ms_id (ms_Next m) p), m\<lparr>ms_Next := Suc (ms_Next m)\<rparr>)),
     d_CtxErr = (\<lambda>_. None), d_win = False\<rparr>"

section \<open>The requests of one case\<close>

definition ex_create :: CreateCaseRequest where
  "ex_create = \<lparr>kr_DiagnosticReport = ''{}'', kr_SourceArtifact = None, kr_ArtifactProvider = None,
     kr_CommandID = [], kr_Actor = [], kr_ReasonCode = []\<rparr>"

definition ex_adopt :: AdoptLegacyCaseRequest where
  "ex_adopt = \<lparr>lr_CaseID = ex_case_id, lr_ExpectedCommitID = ex_commit_id, lr_Actor = [],
     lr_ReasonCode = [], lr_CommandID = []\<rparr>"

definition ex_analysis :: CommitAnalysisRequest where
  "ex_analysis = \<lparr>ar_CaseID = ex_case_id, ar_ExpectedCommitID = ms_id 3 ''commit'',
     ar_Findings = [ex_finding\<lparr>fnd_CaseID := []\<rparr>], ar_Actor = [], ar_ReasonCode = [], ar_CommandID = []\<rparr>"

definition ex_plan_request :: CommitPlanRequest where
  "ex_plan_request = \<lparr>pr_CaseID = ex_case_id, pr_ExpectedCommitID = ms_id 5 ''commit'', pr_Plan = ex_plan,
     pr_Actor = [], pr_ReasonCode = [], pr_CommandID = []\<rparr>"

definition ex_fail :: FailCaseRequest where
  "ex_fail = \<lparr>fr_CaseID = ex_case_id, fr_ExpectedCommitID = ms_id 7 ''commit'', fr_Actor = [],
     fr_ReasonCode = [], fr_DetailCode = [], fr_CommandID = []\<rparr>"

definition ex_cancel :: CancelCaseRequest where
  "ex_cancel = \<lparr>xr_CaseID = ex_case_id, xr_ExpectedCommitID = ms_id 7 ''commit'', xr_Actor = [],
     xr_ReasonCode = [], xr_CommandID = []\<rparr>"

section \<open>The life of the case\<close>

definition ms_info :: "nat \<Rightarrow> string \<Rightarrow> CommitInfo" where
  "ms_info n parent = ex_info\<lparr>ci_CommitID := ms_id n ''commit'', ci_ParentCommitID := parent\<rparr>"

definition ex_w0 :: memory_store where "ex_w0 = \<lparr>ms_Head = None, ms_Next = 2\<rparr>"
definition ex_wl :: memory_store where "ex_wl = \<lparr>ms_Head = Some (ex_legacy, ex_info), ms_Next = 2\<rparr>"
definition ex_w1 :: memory_store where "ex_w1 = \<lparr>ms_Head = Some (ex_s1, ms_info 3 []), ms_Next = 4\<rparr>"
definition ex_w2 :: memory_store where "ex_w2 = \<lparr>ms_Head = Some (ex_s2, ms_info 5 (ms_id 3 ''commit'')), ms_Next = 6\<rparr>"
definition ex_w3 :: memory_store where "ex_w3 = \<lparr>ms_Head = Some (ex_s3, ms_info 7 (ms_id 5 ''commit'')), ms_Next = 8\<rparr>"
definition ex_w4 :: memory_store where "ex_w4 = \<lparr>ms_Head = Some (ex_s4, ms_info 9 (ms_id 7 ''commit'')), ms_Next = 10\<rparr>"

lemma ms_deps_fields [simp]:
  "d_Commit ms_deps = ms_commit" "d_LoadLatest ms_deps = ms_load" "d_Verify ms_deps cid m = (Inr ''ok'', m)"
  "d_ImportJSON ms_deps r a = Inr \<lparr>ir_Case = ex_manifest, ir_Targets = [ex_target], ir_EvidenceBundles = [ex_evidence]\<rparr>"
  "d_Now ms_deps m = (ex_now, m)"
  "d_NewID ms_deps p m = (Inr (ms_id (ms_Next m) p), m\<lparr>ms_Next := Suc (ms_Next m)\<rparr>)"
  "d_CtxErr ms_deps m = None" "d_win ms_deps = False"
  by (simp_all add: ms_deps_def)

lemma ex_now_format [simp]: "format_rfc3339 ex_now = ex_time"
  by code_simp

lemma ex_time_not_after [simp]: "\<not> time_before ex_now \<lparr>unix_secs = 1785326400, nanos = 0\<rparr>"
  by (simp add: ex_now_def time_before_def)

lemma ms_head [simp]:
  "head_commit (ms_chain \<lparr>ms_Head = Some (s, info), ms_Next = n\<rparr>) = ci_CommitID info"
  "ms_chain \<lparr>ms_Head = Some (s, info), ms_Next = n\<rparr> \<noteq> []"
  by (simp_all add: ms_chain_def head_commit_def)

lemma ms_commit_Inr:
  "ms_commit q m = (Inr info, m') \<longleftrightarrow>
     ParentExpectation_check (ms_chain m) (cq_ParentExpectation q) = None \<and>
     info = ex_info\<lparr>ci_CommitID := ms_id (ms_Next m) ''commit'', ci_ParentCommitID := head_commit (ms_chain m)\<rparr> \<and>
     m' = m\<lparr>ms_Head := Some (cq_Snapshot q, info), ms_Next := Suc (ms_Next m)\<rparr>"
  by (auto simp: ms_commit_def Let_def split: option.splits)

lemma ex_transitions [simp]:
  "validateTransition WorkflowCreated WorkflowEvidenceCollected ActorSystem n m = None"
  "0 < n \<Longrightarrow> validateTransition WorkflowEvidenceCollected WorkflowAnalyzed ActorDeterministicAnalyzer n m = None"
  "0 < m \<Longrightarrow> validateTransition WorkflowAnalyzed WorkflowPlanProposed ActorSystem n m = None"
  "validateTransition WorkflowPlanProposed WorkflowFailed ActorTechnician n m = None"
  "validateTransition WorkflowPlanProposed WorkflowCancelled ActorTechnician n m = None"
  by (auto simp: validateTransition_None transition_allowed_def isPR17AllowedActor_def
        allowedActorForPR17Event_def lifecycle.simps)

lemma ex_refill [simp]: "ex_finding\<lparr>fnd_CaseID := ex_case_id\<rparr> = ex_finding"
  by (simp add: ex_finding_def)

lemma ex_status_ok [simp]: "''ok'' \<noteq> IntegrityCorrupt"
  by (simp add: IntegrityCorrupt_def)

lemmas ex_run = andThen_Inr set_workflow_act_Inr setWorkflow_Inr commitSnapshot_Inr newAuditEvent_def
  run_transition_def loadExpected_Inr loadLatestVerified_def transition_check_def Let_def validated_def
  commit_request_def ms_commit_Inr ms_chain_def ms_load_def
  ParentExpectation_check_def ParentExpectation_validate_def ExpectAbsentParent_def ExpectParentCommit_def
  ParentExpectationUnspecified_def ParentExpectationAbsent_def ParentExpectationCommit_def
  head_commit_def validateCommitID_def audit_event_def appendEvent_def stampAuditEvent_def
  new_event_def new_workflow_def monotonicNow_def time_stamps_def map_filter_simps defaultActor_def
  defaultReason_def uniqueRefs_def currentState_def nextRevision_def activePlan_def

lemma ex_create_run: "CreateCase_cmd ms_deps ex_create ex_w0 = (Inr (viewFrom ex_s1 (ms_info 3 [])), ex_w1)"
  using ex_s1_valid
  by (simp add: CreateCase_cmd_def ex_create_def ex_w0_def ex_w1_def ex_run ex_s1_def ex_states createOrAdoptRefs_def ms_info_def)

lemma ex_analysis_run:
  "CommitAnalysis_cmd ms_deps ex_analysis ex_w1 = (Inr (viewFrom ex_s2 (ms_info 5 (ms_id 3 ''commit''))), ex_w2)"
  using ex_s2_valid
  by (simp add: CommitAnalysis_cmd_def ex_analysis_def ex_w1_def ex_w2_def ex_run ex_s2_def ex_s1_def ex_states
        analysisRefs_def ms_info_def mergeFindingsAppendOnly_def fill_case_def)

lemma ex_plan_run:
  "CommitPlan_cmd ms_deps ex_plan_request ex_w2 = (Inr (viewFrom ex_s3 (ms_info 7 (ms_id 5 ''commit''))), ex_w3)"
  using ex_s3_valid
  by (simp add: CommitPlan_cmd_def ex_plan_request_def ex_w2_def ex_w3_def ex_run ex_s3_def ex_s2_def ex_s1_def
        ex_states planRefs_def ms_info_def mergePlansImmutable_def validatePlanForPR17_def)

lemma ex_s3_fields:
  "snap_WorkflowState ex_s3 = Some (new_workflow ex_case_id WorkflowPlanProposed 3 ex_time (ms_id 6 ''cevt'') ex_plan_id None)"
  "cm_CaseID (snap_Case ex_s3) = ex_case_id" "cm_CreatedAt (snap_Case ex_s3) = ex_time"
  "cm_UpdatedAt (snap_Case ex_s3) = ex_time"
  "we_EventID ` set (snap_CoordinatorEvents ex_s3) = {ms_id 2 ''cevt'', ms_id 4 ''cevt'', ms_id 6 ''cevt''}"
  by (simp_all add: ex_s3_def ex_s2_def ex_s1_def ex_states)

lemma ex_s3_monotonic: "monotonicNow ex_now ex_s3 = ex_time"
  by (simp add: monotonicNow_def time_stamps_def ex_s3_fields map_filter_simps)

definition ex_wa :: memory_store where "ex_wa = \<lparr>ms_Head = Some (ex_s0, ms_info 3 ex_commit_id), ms_Next = 4\<rparr>"
definition ex_w5 :: memory_store where "ex_w5 = \<lparr>ms_Head = Some (ex_s5, ms_info 9 (ms_id 7 ''commit'')), ms_Next = 10\<rparr>"

lemma ms_info_id [simp]: "ci_CommitID (ms_info n p) = ms_id n ''commit''"
  by (simp add: ms_info_def)

lemma ex_loads [simp]:
  "ms_load cid ex_w3 = (Inr (ex_s3, ms_info 7 (ms_id 5 ''commit'')), ex_w3)"
  "ms_load cid ex_wl = (Inr (ex_legacy, ex_info), ex_wl)"
  by (simp_all add: ex_w3_def ex_wl_def ms_load_def)

text \<open>What a transition commits on the example store.\<close>

lemmas ms_transition = unstamped_def uniqueRefs_def ms_info_def commit_request_def ms_commit_Inr
  ParentExpectation_check_def ParentExpectation_validate_def ExpectParentCommit_def
  ParentExpectationUnspecified_def ParentExpectationAbsent_def ParentExpectationCommit_def validateCommitID_def

lemmas ms_command = andThen_Inr loadExpected_Inr loadLatestVerified_def transition_check_def
  Let_def defaultActor_def defaultReason_def currentState_def nextRevision_def activePlan_def

lemma ex_fail_run:
  "FailCase_cmd ms_deps ex_fail ex_w3 = (Inr (viewFrom ex_s4 (ms_info 9 (ms_id 7 ''commit''))), ex_w4)"
proof -
  let ?w = "ex_w3\<lparr>ms_Next := 9\<rparr>"
  have "run_transition ms_deps ex_case_id EventCaseFailed ActorTechnician WorkflowPlanProposed WorkflowFailed
      (ms_info 7 (ms_id 5 ''commit'')) ''case_failed'' [] 4
      (Some \<lparr>wfl_ReasonCode = ''case_failed'', wfl_DetailCode = []\<rparr>) ex_plan_id terminalRefs ex_s3 ex_w3 =
      (Inr (viewFrom ex_s4 (ms_info 9 (ms_id 7 ''commit''))), ex_w4)"
    by (rule run_transition_intro [where rs = "[ex_case_id, DocumentIDCaseWorkflowState, ex_plan_id]" and
          eventID = "ms_id 8 ''cevt''" and at = ex_time and now = ex_now and nw = ex_now and c = CaseStateFailed and
          wa = ?w and wb = ?w and ?w1.0 = ?w])
       (simp_all add: ex_w3_def ex_w4_def ex_s3_fields ex_s3_monotonic ex_s4_valid ex_s4_def [symmetric]
          terminalRefs_def ms_transition)
  then show ?thesis
    by (simp add: FailCase_cmd_def ex_fail_def ms_command ex_s3_fields)
qed

lemma ex_cancel_run:
  "CancelCase_cmd ms_deps ex_cancel ex_w3 = (Inr (viewFrom ex_s5 (ms_info 9 (ms_id 7 ''commit''))), ex_w5)"
proof -
  let ?w = "ex_w3\<lparr>ms_Next := 9\<rparr>"
  have "run_transition ms_deps ex_case_id EventCaseCancelled ActorTechnician WorkflowPlanProposed WorkflowCancelled
      (ms_info 7 (ms_id 5 ''commit'')) ''case_cancelled'' [] 4 None ex_plan_id terminalRefs ex_s3 ex_w3 =
      (Inr (viewFrom ex_s5 (ms_info 9 (ms_id 7 ''commit''))), ex_w5)"
    by (rule run_transition_intro [where rs = "[ex_case_id, DocumentIDCaseWorkflowState, ex_plan_id]" and
          eventID = "ms_id 8 ''cevt''" and at = ex_time and now = ex_now and nw = ex_now and c = CaseStateCancelled and
          wa = ?w and wb = ?w and ?w1.0 = ?w])
       (simp_all add: ex_w3_def ex_w5_def ex_s3_fields ex_s3_monotonic ex_s5_valid ex_s5_def [symmetric]
          terminalRefs_def ms_transition)
  then show ?thesis
    by (simp add: CancelCase_cmd_def ex_cancel_def ms_command ex_s3_fields)
qed

lemma ex_legacy_fields:
  "snap_WorkflowState ex_legacy = None" "snap_CoordinatorEvents ex_legacy = []" "snap_Case ex_legacy = ex_manifest"
  "snap_Targets ex_legacy = [ex_target]" "snap_EvidenceBundles ex_legacy = [ex_evidence]"
  "snap_Findings ex_legacy = []" "snap_RepairPlans ex_legacy = []" "snap_ExecutionEvents ex_legacy = []"
  "snap_VerificationReports ex_legacy = []"
  by (simp_all add: ex_states)

lemma ex_adopt_run:
  "AdoptLegacyCase_cmd ms_deps ex_adopt ex_wl = (Inr (viewFrom ex_s0 (ms_info 3 ex_commit_id)), ex_wa)"
proof -
  let ?w = "ex_wl\<lparr>ms_Next := 3\<rparr>"
  have "monotonicNow ex_now ex_legacy = ex_time"
    by (simp add: monotonicNow_def time_stamps_def ex_legacy_fields map_filter_simps)
  then have "run_transition ms_deps ex_case_id EventLegacyCaseAdopted ActorSystem [] WorkflowEvidenceCollected
      ex_info ''legacy_case_adopted'' [] 1 None [] createOrAdoptRefs ex_legacy ex_wl =
      (Inr (viewFrom ex_s0 (ms_info 3 ex_commit_id)), ex_wa)"
    by (intro run_transition_intro [where rs = "ex_refs [ex_target_id, ex_evidence_id]" and
          eventID = "ms_id 2 ''cevt''" and at = ex_time and now = ex_now and nw = ex_now and c = CaseStateSnapshotted and
          wa = ?w and wb = ?w and ?w1.0 = ?w])
       (simp_all add: ex_wl_def ex_wa_def ex_legacy_fields ex_s0_valid createOrAdoptRefs_def ms_transition
         appendEvent_def ex_refs_def ex_info_def ex_s0_valid [unfolded ex_s0_def ex_refs_def append_Cons append_Nil] ex_s0_def)
  then show ?thesis
    by (simp add: AdoptLegacyCase_cmd_def ex_adopt_def ms_command adoption_checks_def ex_legacy_fields ex_info_def)
qed

end
