(* ===== verification/CommitProperties.thy ===== *)
theory CommitProperties
  imports CommitChain Examples
begin

text \<open>
  What a commit promises under every schedule of faults: history is kept, the commit file appears at
  once with all its bytes or not at all, and the chain that is loaded afterwards is the old one or
  the old one with the new record at its end.
\<close>

section \<open>Auxiliary facts\<close>

lemma under_volatile: "volatile st c p \<Longrightarrow> under (stagingDir st c) p \<or> under (commitsDir st c) p \<or> under (caseDir st c @ [''artifacts'']) p"
  using under_trans [OF under_parent] by (auto simp: volatile_def dest: under_trans [OF _ under_trans [OF under_parent]]) metis

lemma snapshot_not_volatile: "simple_name s \<Longrightarrow> under (snapshotDir st c s) p \<Longrightarrow> \<not> volatile st c p"
  using under_volatile [of st c p] by (auto simp: snapshotDir_simple case_dirs under_iff)

definition published_before :: "Store \<Rightarrow> string \<Rightarrow> files \<Rightarrow> string set" where
  "published_before st c fs = {s. simple_name s \<and> look fs (snapshotDir st c s) \<noteq> None}"

lemma published_names: "names (published_before st c fs)"
  by (simp add: published_before_def)

lemma new_record_name:
  "new_record now rq chain r raw \<Longrightarrow>
    simple_name (commitFileName (rec_Sequence r) (rec_CommitID r)) \<and> final_name (commitFileName (rec_Sequence r) (rec_CommitID r))"
  unfolding new_record_def using built_record(12) commit_name by metis

lemma new_record_fields:
  assumes "new_record now rq chain r raw"
  shows "rec_CaseID r = cm_CaseID (snap_Case (cq_Snapshot rq))" "rec_Sequence r = next_sequence chain"
    "rec_ParentCommitID r = head_parent chain"
  using assms built_record(1-3) unfolding new_record_def by metis+

lemma managed_under: "managed st p fs = None \<Longrightarrow> under (st_root st) p"
  by (simp add: ensureManagedPath_def ensureUnderRoot_def err_if_def split: if_split_asm)

lemma commitsDir_above: "under q (commitsDir st c) \<Longrightarrow> \<not> volatile st c q"
proof
  assume q: "under q (commitsDir st c)" "volatile st c q"
  then have "length q \<le> length (commitsDir st c)" by (metis under_iff length_append le_add1)
  then have "length q \<le> length (caseDir st c) + 1" by (simp add: case_dirs)
  then have "under (stagingDir st c) q" using volatile_length [OF q(2)] by auto
  then have "under (stagingDir st c) (commitsDir st c)" using q(1) by (rule under_trans)
  then show False by (auto simp: case_dirs under_iff)
qed

lemma Commit_changes:
  assumes wf: "wf_files (w_files w)" and c: "c = cm_CaseID (snap_Case (cq_Snapshot rq))"
  obtains n where "changes (volatile st c)
      (\<lambda>q. growable st c (published_before st c (w_files w)) q \<or> q = commitsDir st c @ [n])
      (w_files w) (w_files (snd (Commit st rq w)))"
proof -
  let ?S = "published_before st c (w_files w)"
  obtain r w' where r: "Commit st rq w = (r, w')" by (cases "Commit st rq w")
  have p: "\<forall>s \<in> ?S. look (w_files w) (snapshotDir st c s) \<noteq> None" by (simp add: published_before_def)
  have mono: "changes (volatile st c) (\<lambda>q. growable st c ?S q \<or> q = commitsDir st c @ [n]) a b"
    if "changes (volatile st c) (growable st c ?S) a b" for n a b
    using that by (rule changes_mono) simp_all
  from Commit_result [OF wf published_names p r c] show thesis
  proof (elim disjE exE conjE)
    fix e assume "changes (volatile st c) (growable st c ?S) (w_files w) (w_files w')" "r = Inl e"
    then show thesis using that mono r by simp
  next
    fix info :: CommitInfo assume "changes (volatile st c) (growable st c ?S) (w_files w) (w_files w')"
    then show thesis using that mono r by simp
  next
    fix u :: world and chain re raw v v'
    assume u: "changes (volatile st c) (growable st c ?S) (w_files w) (w_files u)"
      and n: "new_record (w_clock w) rq chain re raw"
      and v: "changes (volatile st c) (growable st c ?S) (w_files u) (w_files v)"
      and pub: "publish_commit st c re raw v = (r, v')" and w': "w_files w' = w_files v'"
    have "changes (volatile st c) (\<lambda>q. growable st c ?S q \<or> q = commit_path st c re) (w_files v) (w_files v')"
      using publish_commit_result(1) [OF changes_wf [OF v] published_names _ pub] new_record_name [OF n] by blast
    then have "changes (volatile st c) (\<lambda>q. growable st c ?S q \<or> q = commit_path st c re) (w_files w) (w_files v')"
      using changes_trans [OF mono [OF u] changes_trans [OF mono [OF v]]] by blast
    then show thesis using that r w' by simp
  qed
qed

text \<open>The two ways a commit ends: no commit file was touched, or the file of the next record was added.\<close>

definition quiet_result :: "CommitInfo result \<Rightarrow> bool" where
  "quiet_result r \<longleftrightarrow> (case r of Inl e \<Rightarrow> True | Inr info \<Rightarrow> ci_Idempotent info)"

definition commit_reported :: "string \<Rightarrow> commitRecord \<Rightarrow> CommitInfo result \<Rightarrow> bool" where
  "commit_reported c record r \<longleftrightarrow>
     r = Inr (info_of c False record) \<or> (\<exists>e. r = Inl (CommitOutcomeUnknownError c (rec_SnapshotID record) e))"

definition file_added :: "Store \<Rightarrow> string \<Rightarrow> commitRecord \<Rightarrow> string \<Rightarrow> files \<Rightarrow> files \<Rightarrow> bool" where
  "file_added st c record raw fs fs' \<longleftrightarrow> look fs (commit_path st c record) = None \<and>
     (\<forall>n. final_name n \<longrightarrow> look fs' (commitsDir st c @ [n]) =
        (if n = commitFileName (rec_Sequence record) (rec_CommitID record) then Some (File raw)
         else look fs (commitsDir st c @ [n])))"

lemma Commit_outcome:
  assumes va: "valid_tree fs" and c: "c = cm_CaseID (snap_Case (cq_Snapshot rq))"
    and r: "Commit st rq w = (r, w')" and fs: "fs = w_files w" "fs' = w_files w'"
  shows "changes (volatile st c) (growable st c (published_before st c fs)) fs fs' \<and> quiet_result r \<or>
    (\<exists>chain record raw. loadCommitChain st fs c = Inr chain \<and> new_record (w_clock w) rq chain record raw \<and>
      ensureCaseTreeSafe st c fs = None \<and> known_reason (cq_Reason rq) \<and> wf_files fs' \<and>
      file_added st c record raw fs fs' \<and> commit_reported c record r)"
    (is "?quiet \<or> ?added")
proof -
  let ?S = "published_before st c fs"
  have wf: "wf_files fs" using va by (simp add: valid_tree_def)
  have p: "\<forall>s \<in> ?S. look fs (snapshotDir st c s) \<noteq> None" by (simp add: published_before_def)
  have same: "look b (commitsDir st c @ [n]) = look a (commitsDir st c @ [n])"
    if "changes (volatile st c) (growable st c ?S) a b" "final_name n" for a b n
    using that final_not_growable by (rule final_same)
  from Commit_result [OF wf [unfolded fs] published_names p [unfolded fs] r c, unfolded fs [symmetric]]
  show ?thesis
  proof (rule disjE)
    assume "changes (volatile st c) (growable st c ?S) fs fs' \<and>
      ((\<exists>e. r = Inl e) \<or> (\<exists>info. r = Inr info \<and> ci_Idempotent info))"
    then have ?quiet by (auto simp: quiet_result_def)
    then show ?thesis ..
  next
    assume "\<exists>(u::world) chain record raw v v'. changes (volatile st c) (growable st c ?S) fs (w_files u) \<and>
      ensureCaseTreeSafe st c fs = None \<and> known_reason (cq_Reason rq) \<and>
      loadCommitChain st (w_files u) c = Inr chain \<and> new_record (w_clock w) rq chain record raw \<and>
      changes (volatile st c) (growable st c ?S) (w_files u) (w_files v) \<and>
      publish_commit st c record raw v = (r, v') \<and> fs' = w_files v'"
    then obtain u :: world and chain re raw v v' where
      u: "changes (volatile st c) (growable st c ?S) fs (w_files u)"
      and safe: "ensureCaseTreeSafe st c fs = None" "known_reason (cq_Reason rq)"
      and l: "loadCommitChain st (w_files u) c = Inr chain"
      and n: "new_record (w_clock w) rq chain re raw"
      and v: "changes (volatile st c) (growable st c ?S) (w_files u) (w_files v)"
      and pub: "publish_commit st c re raw v = (r, v')" and w': "fs' = w_files v'"
      by blast
    let ?name = "commitFileName (rec_Sequence re) (rec_CommitID re)"
    note nm = new_record_name [OF n]
    note pr = publish_commit_result [OF changes_wf [OF v] published_names conjunct1 [OF nm] pub]
    have uv: "changes (volatile st c) (growable st c ?S) fs (w_files v)" using u v changes_trans by blast
    have here: "look (w_files v) (commit_path st c re) = look fs (commit_path st c re)"
      using same [OF uv] nm by simp
    have other: "look fs' (commitsDir st c @ [n]) = look fs (commitsDir st c @ [n])"
      if "final_name n" "n \<noteq> ?name" for n
      using final_same [OF pr(1) that(1)] that final_not_growable same [OF uv that(1)] by (simp add: w')
    show ?thesis
      using pr(2)
    proof (rule disjE)
      assume a: "look (w_files v') (commit_path st c re) = look (w_files v) (commit_path st c re) \<and> (\<exists>e. r = Inl e)"
      then have "changes (volatile st c) (growable st c ?S) (w_files v) fs'"
        using pr(1) unfolding changes_def w' by metis
      then have ?quiet using uv changes_trans a by (auto simp: quiet_result_def)
      then show ?thesis ..
    next
      assume a: "look (w_files v) (commit_path st c re) = None \<and> look (w_files v') (commit_path st c re) = Some (File raw) \<and>
        (r = Inr (info_of c False re) \<or> (\<exists>e. r = Inl (CommitOutcomeUnknownError c (rec_SnapshotID re) e)))"
      have "loadCommitChain st fs c = Inr chain" using chain_kept [OF u va safe(1) l] .
      moreover have "file_added st c re raw fs fs'" using here other a w' by (simp add: file_added_def)
      moreover have "wf_files fs'" using changes_wf [OF pr(1)] w' by simp
      ultimately have ?added using n a safe unfolding commit_reported_def by blast
      then show ?thesis ..
    qed
  qed
qed

text \<open>The chain loaded from a tree in which the commit files are the same, or one was added.\<close>

lemma chain_unchanged:
  assumes va: "valid_tree fs" and wf': "wf_files fs'"
    and chain: "loadCommitChain st fs c = Inr chain" and there: "look fs (commitsDir st c) = Some Dir"
    and l: "\<And>n. final_name n \<Longrightarrow> look fs' (commitsDir st c @ [n]) = look fs (commitsDir st c @ [n])"
    and k: "\<And>q. look fs q \<noteq> None \<Longrightarrow> under q (commitsDir st c) \<Longrightarrow> look fs' q = look fs q"
  shows "loadCommitChain st fs' c = Inr chain"
proof -
  let ?d = "commitsDir st c"
  have wf: "wf_files fs" and s: "simple_finals fs ?d" using va by (auto simp: valid_tree_def simple_finals_def)
  have m: "managed st ?d fs = None" and g: "good_chain st fs c chain"
    using chain unfolding load_good [OF wf] by blast+
  have dirs: "look fs' q = Some Dir" if "under q ?d" "q \<noteq> []" for q
    using k that wf_prefix_dir [OF wf there that] by force
  then have d': "look fs' ?d = Some Dir" using k there by simp
  have "under (st_root st) ?d" using m managed_under by blast
  with dirs have m': "managed st ?d fs' = None" by (rule dirs_managed)
  show ?thesis
    using m' d' g good_chain_same [OF m m' s l] wf' unfolding load_good [OF wf'] by blast
qed

lemma chain_appended:
  assumes va: "valid_tree fs" and wf': "wf_files fs'" and c: "c = cm_CaseID (snap_Case (cq_Snapshot rq))"
    and chain: "loadCommitChain st fs c = Inr chain" "length chain < 2 ^ 64 - 1"
    and n: "new_record now rq chain re raw" and safe: "ensureCaseTreeSafe st c fs = None"
    and reason: "known_reason (cq_Reason rq)" and add: "file_added st c re raw fs fs'"
    and year: "0 \<le> year_of now" "year_of now \<le> 9999"
  shows "loadCommitChain st fs' c = Inr (chain @ [re])"
proof -
  let ?d = "commitsDir st c" and ?name = "commitFileName (rec_Sequence re) (rec_CommitID re)"
  have wf: "wf_files fs" and s: "simple_finals fs ?d" using va by (auto simp: valid_tree_def simple_finals_def)
  have m: "managed st ?d fs = None" and g: "good_chain st fs c chain"
    using chain(1) unfolding load_good [OF wf] by blast+
  note nm = new_record_name [OF n]
  have l: "look fs' (?d @ [n]) = look fs (?d @ [n])" if "final_name n" "n \<noteq> ?name" for n
    using add nm that by (auto simp: file_added_def)
  have new: "look fs (?d @ [?name]) = None" "look fs' (?d @ [?name]) = Some (File raw)"
    using add nm by (auto simp: file_added_def)
  have m': "managed st ?d fs' = None"
    using wf_managed [OF wf', of ?d ?name] new(2) managed_under [OF m] by simp
  have d': "look fs' ?d = Some Dir" using wf_ancestor [OF wf', of ?d "[?name]"] new(2) by simp
  obtain files where ch: "chain_of_files c files = (chain, [], None)" using g unfolding good_chain_def by blast
  have nx: "next_sequence chain = word_of_nat (length chain + 1)"
    using ch by (rule chain_of_files_good) (rule last_sequence)
  have case_ok: "validateCaseID c = None" using safe by (simp add: ensureCaseTreeSafe_def)
  have parse: "parse_commit_file c ?name raw = Some re"
    by (rule new_record_parses [OF n c case_ok reason _ nx chain(2) year]) (use chain_valid [OF ch] in blast)
  note b = new_record_fields [OF n]
  have "good_chain st fs' c (chain @ [re])"
    using good_chain_added [OF m m' s conjunct2 [OF nm] conjunct1 [OF nm] new l g parse b(2,3) chain(2)] .
  then show ?thesis using m' d' unfolding load_good [OF wf'] by blast
qed

section \<open>A case with a published snapshot\<close>

definition ex_store :: Store where
  "ex_store = \<lparr>st_root = [''srv''], st_failureCheckpoint = [], st_failureHook = \<lambda>_. None\<rparr>"

definition ex_orphan :: string where "ex_orphan = ex_id ''snapshot-'' CHR ''e''"

definition ex_tree :: files where
  "ex_tree =
     [([''srv''], Dir), ([''srv'', ''cases''], Dir), ([''srv'', ''cases'', ex_case_id], Dir),
      ([''srv'', ''cases'', ex_case_id, ''commits''], Dir), ([''srv'', ''cases'', ex_case_id, ''snapshots''], Dir),
      ([''srv'', ''cases'', ex_case_id, ''snapshots'', ex_orphan], Dir),
      ([''srv'', ''cases'', ex_case_id, ''snapshots'', ex_orphan, ''snapshot-manifest.json''], File ''{}'')]"

text \<open>The third call of the operating system fails.\<close>

definition ex_commit_world :: world where
  "ex_commit_world =
     \<lparr>w_files = ex_tree, w_faults = [None, None, Some (Sentinel ''EIO'', 0)], w_entropy = ''0123456789ab'',
      w_ctx = [], w_held = [], w_clock = ex_now\<rparr>"

definition ex_request :: CommitRequest where
  "ex_request = \<lparr>cq_Snapshot = ex_legacy, cq_ArtifactProvider = None, cq_Reason = CommitReasonCaseSnapshot,
     cq_ParentExpectation = ExpectAbsentParent\<rparr>"

lemma ex_request_case: "cm_CaseID (snap_Case (cq_Snapshot ex_request)) = ex_case_id"
  by (simp add: ex_request_def ex_legacy_fields ex_manifest_def)

lemma ex_simple: "simple_name ex_case_id" "simple_name ex_orphan"
proof -
  show "simple_name ex_case_id" using ex_ids(1) by (rule case_id_simple)
  have "reSnapshotID ex_orphan" unfolding re_defs ex_orphan_def by (rule hex_id) (simp add: lower_hex_def)
  then show "simple_name ex_orphan" by (rule snapshot_id_simple)
qed

lemma ex_case_dir: "caseDir ex_store ex_case_id = [''srv'', ''cases'', ex_case_id]"
  by (simp add: caseDir_def case_dirs join_simple ex_simple ex_store_def)

lemma ex_tree_look: "look ex_tree p = map_of ex_tree p"
  by (simp add: look_def)

lemma ex_tree_valid: "valid_tree ex_tree"
proof -
  have k: "look ex_tree p \<noteq> None \<longleftrightarrow> p \<in> fst ` set ex_tree" for p by (rule look_there)
  have "p \<noteq> [] \<and> (parent_dir p = [] \<or> look ex_tree (parent_dir p) = Some Dir) \<and> list_all simple_name p"
    if "p \<in> fst ` set ex_tree" for p
    using that ex_simple
    by (auto simp: ex_tree_def parent_dir_def look_def simple_name_def [of "''srv''"])
  then show ?thesis unfolding valid_tree_def wf_files_def k by blast
qed

lemma ex_commits_dir: "look ex_tree (commitsDir ex_store ex_case_id) = Some Dir"
  by (simp add: case_dirs ex_case_dir ex_tree_def look_def)

lemma ex_no_commits: "loadCommitChain ex_store ex_tree ex_case_id = Inr []"
proof -
  have wf: "wf_files ex_tree" using ex_tree_valid by (simp add: valid_tree_def)
  have "managed ex_store (commitsDir ex_store ex_case_id) ex_tree = None"
    using wf_prefix_dir [OF wf ex_commits_dir]
  proof (rule dirs_managed)
    show "under (st_root ex_store) (commitsDir ex_store ex_case_id)"
      by (simp add: case_dirs(3) ex_case_dir) (simp add: ex_store_def under_def)
  qed
  moreover have "dir_names ex_tree (commitsDir ex_store ex_case_id) = []"
    by (simp add: dir_names_def child_def case_dirs ex_case_dir ex_tree_def)
  then have "good_chain ex_store ex_tree ex_case_id []"
    by (simp add: good_chain_def final_files_def chain_of_files_def)
  ultimately show ?thesis using ex_commits_dir by (simp add: load_good [OF wf])
qed

lemma ex_year: "0 \<le> year_of ex_now" "year_of ex_now \<le> 9999"
proof -
  have "year_of ex_now = 2026" by code_simp
  then show "0 \<le> year_of ex_now" "year_of ex_now \<le> 9999" by simp_all
qed

section \<open>History\<close>

text \<open>
  C1. Whatever fails, a commit keeps everything it finds except staging areas and temporary files,
  adds nothing to a snapshot that was already published, and touches nothing beside the directory of
  its case but the directories above it.
\<close>

theorem commit_keeps_history:
  assumes "wf_files (w_files w)" "c = cm_CaseID (snap_Case (cq_Snapshot rq))"
    and "fs = w_files w" "fs' = w_files (snd (Commit st rq w))"
  shows "(\<forall>p. look fs p \<noteq> None \<and> \<not> volatile st c p \<longrightarrow> look fs' p = look fs p) \<and>
    (\<forall>s p. simple_name s \<and> look fs (snapshotDir st c s) \<noteq> None \<and> under (snapshotDir st c s) p \<longrightarrow>
       look fs' p = look fs p) \<and>
    (\<forall>p. look fs' p \<noteq> look fs p \<longrightarrow> under (caseDir st c) p \<or> under p (caseDir st c))"
proof -
  obtain n where ch: "changes (volatile st c)
      (\<lambda>q. growable st c (published_before st c fs) q \<or> q = commitsDir st c @ [n]) fs fs'"
    using Commit_changes [OF assms(1,2)] assms(3,4) by metis
  have "look fs' p = look fs p" if "look fs p \<noteq> None" "\<not> volatile st c p" for p
    using changes_keeps [OF ch] that by blast
  moreover have "look fs' p = look fs p"
    if s: "simple_name s" "look fs (snapshotDir st c s) \<noteq> None" "under (snapshotDir st c s) p" for s p
  proof (rule changes_same [OF ch])
    show "\<not> volatile st c p" using s by (simp add: snapshot_not_volatile)
    have "s \<in> published_before st c fs" using s by (simp add: published_before_def)
    moreover have "p \<noteq> commitsDir st c @ [n]" using s by (auto simp: snapshotDir_simple case_dirs under_iff)
    ultimately show "\<not> (growable st c (published_before st c fs) p \<or> p = commitsDir st c @ [n])"
      using s(3) by (auto simp: growable_def)
  qed
  moreover have "under (caseDir st c) p \<or> under p (caseDir st c)" if "look fs' p \<noteq> look fs p" for p
    using ch that under_volatile [of st c p] unfolding changes_def
    by (auto simp: growable_def case_dirs under_iff)
  ultimately show ?thesis by blast
qed

theorem commit_keeps_history_witness:
  "look (w_files (snd (Commit ex_store ex_request ex_commit_world)))
     (snapshotDir ex_store ex_case_id ex_orphan @ [''snapshot-manifest.json'']) = Some (File ''{}'')"
proof -
  let ?d = "snapshotDir ex_store ex_case_id ex_orphan"
  have d: "?d = [''srv'', ''cases'', ex_case_id, ''snapshots'', ex_orphan]"
    by (simp add: snapshotDir_simple ex_simple ex_case_dir)
  have f: "look ex_tree (?d @ [''snapshot-manifest.json'']) = Some (File ''{}'')" "look ex_tree ?d = Some Dir"
    by (simp_all add: d look_def ex_tree_def)
  have w: "wf_files (w_files ex_commit_world)" "ex_tree = w_files ex_commit_world"
    using ex_tree_valid by (simp_all add: valid_tree_def ex_commit_world_def)
  show ?thesis
    using commit_keeps_history [OF w(1) ex_request_case [symmetric] w(2) refl, of ex_store] f ex_simple(2) under_append
    by (metis option.distinct(1))
qed

section \<open>Atomicity\<close>

text \<open>
  C2. The commit files are as they were and the commit failed or found its snapshot at the head
  already, or exactly one was added, complete, whose record follows the chain the tree held. A
  commit that adds its file never reports a plain failure: it reports the new commit or that its
  outcome is unknown.
\<close>

theorem commit_is_atomic:
  assumes "valid_tree fs" "c = cm_CaseID (snap_Case (cq_Snapshot rq))"
    and "Commit st rq w = (r, w')" "fs = w_files w" "fs' = w_files w'"
  shows "(\<forall>n. final_name n \<longrightarrow> look fs' (commitsDir st c @ [n]) = look fs (commitsDir st c @ [n])) \<and> quiet_result r \<or>
    (\<exists>chain record raw. loadCommitChain st fs c = Inr chain \<and> new_record (w_clock w) rq chain record raw \<and>
      file_added st c record raw fs fs' \<and> commit_reported c record r)"
  using Commit_outcome [OF assms]
proof (rule disjE)
  assume a: "changes (volatile st c) (growable st c (published_before st c fs)) fs fs' \<and> quiet_result r"
  then have "look fs' (commitsDir st c @ [n]) = look fs (commitsDir st c @ [n])" if "final_name n" for n
    using final_same [OF conjunct1 [OF a] that final_not_growable] by blast
  with a show ?thesis by blast
qed blast

theorem commit_is_atomic_witness:
  "\<exists>r w'. Commit ex_store ex_request ex_commit_world = (r, w') \<and>
    (look (w_files w') (commitsDir ex_store ex_case_id @ [''1.json'']) = None \<or>
     (\<exists>record raw. file_added ex_store ex_case_id record raw ex_tree (w_files w') \<and> commit_reported ex_case_id record r))"
proof -
  obtain r w' where r: "Commit ex_store ex_request ex_commit_world = (r, w')"
    by (cases "Commit ex_store ex_request ex_commit_world")
  have t: "ex_tree = w_files ex_commit_world" by (simp add: ex_commit_world_def)
  have n: "final_name ''1.json''" "look ex_tree (commitsDir ex_store ex_case_id @ [''1.json'']) = None"
    by (simp_all add: final_name_def isTempStoreName_def has_suffix_def tempSuffix_def has_prefix_iff
        case_dirs ex_case_dir ex_tree_def look_def)
  show ?thesis
    using commit_is_atomic [OF ex_tree_valid ex_request_case [symmetric] r t refl] r n by fastforce
qed

section \<open>The chain afterwards\<close>

text \<open>
  C3. After a commit the chain that is loaded from the tree is the chain that was loaded before it,
  or that chain with one record at its end, whose number and parent continue it; the second is what
  a commit reports that did not fail and was not a retry.
\<close>

theorem commit_extends_the_chain:
  assumes "valid_tree fs" "c = cm_CaseID (snap_Case (cq_Snapshot rq))"
    and "Commit st rq w = (r, w')" "fs = w_files w" "fs' = w_files w'"
    and chain: "loadCommitChain st fs c = Inr chain" "length chain < 2 ^ 64 - 1"
    and there: "look fs (commitsDir st c) = Some Dir"
    and year: "0 \<le> year_of (w_clock w)" "year_of (w_clock w) \<le> 9999"
  shows "loadCommitChain st fs' c = Inr chain \<and> quiet_result r \<or>
    (\<exists>record. loadCommitChain st fs' c = Inr (chain @ [record]) \<and> rec_CaseID record = c \<and>
      rec_Sequence record = next_sequence chain \<and> rec_ParentCommitID record = head_parent chain \<and>
      commit_reported c record r)"
  using Commit_outcome [OF assms(1-5)]
proof (rule disjE)
  assume a: "changes (volatile st c) (growable st c (published_before st c fs)) fs fs' \<and> quiet_result r"
  have "loadCommitChain st fs' c = Inr chain"
  proof (rule chain_unchanged [OF assms(1) changes_wf [OF conjunct1 [OF a]] chain(1) there])
    show "look fs' (commitsDir st c @ [n]) = look fs (commitsDir st c @ [n])" if "final_name n" for n
      using final_same [OF conjunct1 [OF a] that final_not_growable] .
    show "look fs' q = look fs q" if "look fs q \<noteq> None" "under q (commitsDir st c)" for q
      using changes_keeps [OF conjunct1 [OF a]] commitsDir_above that by blast
  qed
  with a show ?thesis by blast
next
  assume "\<exists>chain record raw. loadCommitChain st fs c = Inr chain \<and> new_record (w_clock w) rq chain record raw \<and>
      ensureCaseTreeSafe st c fs = None \<and> known_reason (cq_Reason rq) \<and> wf_files fs' \<and>
      file_added st c record raw fs fs' \<and> commit_reported c record r"
  then obtain re raw where n: "new_record (w_clock w) rq chain re raw"
      and safe: "ensureCaseTreeSafe st c fs = None" and reason: "known_reason (cq_Reason rq)"
      and wf': "wf_files fs'" and add: "file_added st c re raw fs fs'" and rep: "commit_reported c re r"
    using chain(1) by auto
  have "loadCommitChain st fs' c = Inr (chain @ [re])"
    using chain_appended [OF assms(1) wf' assms(2) chain n safe reason add year] .
  then show ?thesis using new_record_fields [OF n] rep assms(2) by blast
qed

theorem commit_extends_the_chain_witness:
  "\<exists>r w'. Commit ex_store ex_request ex_commit_world = (r, w') \<and>
    (loadCommitChain ex_store (w_files w') ex_case_id = Inr [] \<and> quiet_result r \<or>
     (\<exists>record. loadCommitChain ex_store (w_files w') ex_case_id = Inr [record] \<and>
        rec_Sequence record = 1 \<and> rec_ParentCommitID record = None))"
proof -
  obtain r w' where r: "Commit ex_store ex_request ex_commit_world = (r, w')"
    by (cases "Commit ex_store ex_request ex_commit_world")
  have t: "ex_tree = w_files ex_commit_world" "w_clock ex_commit_world = ex_now" by (simp_all add: ex_commit_world_def)
  have len: "length ([] :: commitRecord list) < 2 ^ 64 - 1" by simp
  show ?thesis
    using commit_extends_the_chain [OF ex_tree_valid ex_request_case [symmetric] r t(1) refl ex_no_commits len
        ex_commits_dir] ex_year r
    by (auto simp: t(2) next_sequence_def head_parent_def)
qed

end
