(* ===== verification/IntegrityProofs.thy ===== *)
theory IntegrityProofs
  imports SnapshotProofs
begin

text \<open>
  What the reference and path checks of \<^verbatim>\<open>Snapshot.Validate\<close> leave: artifact paths that stay below
  their root, artifact metadata that agrees, references that resolve, identifiers that are unique.
\<close>

section \<open>Paths\<close>

text \<open>
  Whether a walk along the segments of a path, started \<open>n\<close> directories below the root, ever leaves
  the root.
\<close>

fun stays_inside :: "nat \<Rightarrow> string list \<Rightarrow> bool" where
  "stays_inside n [] = True"
| "stays_inside n (p # ps) =
     (if p = ''..'' then 0 < n \<and> stays_inside (n - 1) ps
      else stays_inside (if p = [] \<or> p = ''.'' then n else Suc n) ps)"

lemma stays_inside_plain: "''..'' \<notin> set ps \<Longrightarrow> stays_inside n ps"
  by (induction ps arbitrary: n) auto

definition relative_path :: "bool \<Rightarrow> string \<Rightarrow> bool" where
  "relative_path win p \<longleftrightarrow> p \<noteq> [] \<and> hd p \<notin> {CHR ''/'', CHR 0x5C} \<and> \<not> (2 \<le> length p \<and> p ! 1 = CHR '':'') \<and>
     stays_inside 0 (split_slash (to_slash win p))"

lemma rejectTraversal_relative: "rejectTraversal win p = None \<Longrightarrow> relative_path win p"
  by (cases p) (auto simp: rejectTraversal_def relative_path_def Let_def has_prefix_def intro: stays_inside_plain)

section \<open>Artifacts\<close>

lemma artifactRefsEqual_refl [simp]: "artifactRefsEqual a a"
  by (simp add: artifactRefsEqual_def equal_fold_def)

lemma artifactRefsEqual_join: "artifactRefsEqual c a \<Longrightarrow> artifactRefsEqual c b \<Longrightarrow> artifactRefsEqual a b"
  by (simp add: artifactRefsEqual_def equal_fold_def)

text \<open>The artifacts known after a loop represent those it went through.\<close>

definition represents :: "bool \<Rightarrow> ArtifactRef list \<Rightarrow> ArtifactRef \<Rightarrow> bool" where
  "represents win known a \<longleftrightarrow> rejectTraversal win (art_RelativePath a) = None \<and>
     (\<exists>b. List.find (\<lambda>b. art_ArtifactID b = art_ArtifactID a) known = Some b \<and> artifactRefsEqual b a)"

definition keeps_known :: "ArtifactRef list \<Rightarrow> ArtifactRef list \<Rightarrow> bool" where
  "keeps_known known known' \<longleftrightarrow> (\<forall>i b. List.find (\<lambda>b. art_ArtifactID b = i) known = Some b \<longrightarrow>
     List.find (\<lambda>b. art_ArtifactID b = i) known' = Some b)"

lemma keeps_known_refl [simp]: "keeps_known k k" by (simp add: keeps_known_def)

lemma keeps_known_trans: "keeps_known a b \<Longrightarrow> keeps_known b c \<Longrightarrow> keeps_known a c"
  by (simp add: keeps_known_def)

lemma represents_keeps: "represents win k a \<Longrightarrow> keeps_known k k' \<Longrightarrow> represents win k' a"
  by (auto simp: represents_def keeps_known_def)

lemma keeps_known_Cons:
  "List.find (\<lambda>b. art_ArtifactID b = art_ArtifactID a) k = None \<Longrightarrow> keeps_known k (a # k)"
  by (auto simp: keeps_known_def)

lemma check_artifacts_Inr:
  "check_artifacts win i j known as = Inr known' \<Longrightarrow> keeps_known known known' \<and> (\<forall>a \<in> set as. represents win known' a)"
proof (induction as arbitrary: j known)
  case Nil
  then show ?case by simp
next
  case (Cons a as)
  then have path: "rejectTraversal win (art_RelativePath a) = None" by (auto split: option.splits)
  show ?case
  proof (cases "List.find (\<lambda>b. art_ArtifactID b = art_ArtifactID a) known")
    case None
    then have rest: "check_artifacts win i (Suc j) (a # known) as = Inr known'" using Cons.prems path by simp
    have "represents win (a # known) a" using path by (simp add: represents_def)
    then show ?thesis
      using Cons.IH [OF rest] keeps_known_Cons [OF None] by (auto intro: keeps_known_trans represents_keeps)
  next
    case (Some b)
    then have eq: "artifactRefsEqual b a" and rest: "check_artifacts win i (Suc j) known as = Inr known'"
      using Cons.prems path by (auto split: if_splits)
    have "represents win known a" using path Some eq by (simp add: represents_def)
    then show ?thesis using Cons.IH [OF rest] by (auto intro: represents_keeps)
  qed
qed

lemma check_evidence_Inr:
  "check_evidence win cid i seen known es = Inr known' \<Longrightarrow>
     keeps_known known known' \<and> (\<forall>e \<in> set es. ev_CaseID e = cid \<and> (\<forall>a \<in> set (elems (ev_Artifacts e)). represents win known' a)) \<and>
     distinct (map ev_EvidenceID es) \<and> set (map ev_EvidenceID es) \<inter> set seen = {}"
proof (induction es arbitrary: i seen known)
  case Nil
  then show ?case by simp
next
  case (Cons e es)
  obtain k where a: "check_artifacts win i 0 known (elems (ev_Artifacts e)) = Inr k"
    and rest: "check_evidence win cid (Suc i) (ev_EvidenceID e # seen) k es = Inr known'"
    and e: "ev_CaseID e = cid" "ev_EvidenceID e \<notin> set seen"
    using Cons.prems by (auto split: if_splits)
  show ?case
    using check_artifacts_Inr [OF a] Cons.IH [OF rest] e
    by (auto intro: keeps_known_trans represents_keeps)
qed

lemma valid_evidence:
  assumes "Snapshot_Validate win s = None"
  obtains artifacts where
    "\<forall>e \<in> set (snap_EvidenceBundles s). \<forall>a \<in> set (elems (ev_Artifacts e)). represents win artifacts a"
    "check_references s (snapshot_refs s artifacts) = None"
    "distinct (map ev_EvidenceID (snap_EvidenceBundles s))"
  using valid_refs [OF assms] check_evidence_Inr by metis

section \<open>Identifiers\<close>

lemma check_pairs_None:
  "check_pairs f1 f2 f3 cid i s1 s2 xs = None \<Longrightarrow>
     distinct (map fst xs) \<and> set (map fst xs) \<inter> set s1 = {} \<and>
     distinct (map (fst \<circ> snd) xs) \<and> set (map (fst \<circ> snd) xs) \<inter> set s2 = {} \<and>
     (\<forall>(a, r, c) \<in> set xs. c = cid)"
proof (induction xs arbitrary: i s1 s2)
  case (Cons x xs)
  obtain a r c where x: "x = (a, r, c)" by (rule prod_cases3)
  have new: "a \<notin> set s1" "r \<notin> set s2" "c = cid"
    and rest: "check_pairs f1 f2 f3 cid (Suc i) (a # s1) (r # s2) xs = None"
    using Cons.prems by (auto simp: x split: if_splits)
  show ?case using Cons.IH [OF rest] new by (simp add: x)
qed simp

lemma valid_ids:
  assumes "Snapshot_Validate win s = None"
  shows "distinct (map fnd_FindingID (snap_Findings s))" "distinct (map pln_PlanID (snap_RepairPlans s))"
    "distinct (event_ids s)" "distinct (map tg_TargetID (snap_Targets s))"
    "distinct (map acq_AcquisitionID (snap_EvidenceAcquisitions s))"
    "distinct (map acq_RequestID (snap_EvidenceAcquisitions s))"
    "distinct (map con_ConsultationID (snap_AgentConsultations s))"
    "distinct (map con_RequestID (snap_AgentConsultations s))"
    "\<forall>q \<in> set (snap_EvidenceAcquisitions s). acq_CaseID q = cm_CaseID (snap_Case s)"
    "\<forall>q \<in> set (snap_AgentConsultations s). con_CaseID q = cm_CaseID (snap_Case s)"
  using assms
  by (auto simp: Snapshot_Validate_def Let_def check_target_set_def comp_def split: sum.splits dest!: check_pairs_None)

section \<open>References\<close>

lemma check_docs_None [simp]: "check_docs k cid v key xs = None \<longleftrightarrow> (\<forall>x \<in> set xs. v x = None \<and> key x = cid)"
  unfolding check_docs_def by (rule each_from_iff) simp

lemma valid_document_refs:
  assumes "Snapshot_Validate win s = None"
  obtains refs where
    "cr_TargetIDs refs = tg_TargetID ` set (snap_Targets s)"
    "cr_EvidenceIDs refs = ev_EvidenceID ` set (snap_EvidenceBundles s)"
    "cr_FindingIDs refs = fnd_FindingID ` set (snap_Findings s)"
    "\<forall>e \<in> set (snap_EvidenceBundles s). ValidateEvidenceRefs refs e = None"
    "\<forall>f \<in> set (snap_Findings s). ValidateFindingRefs refs f = None"
    "\<forall>p \<in> set (snap_RepairPlans s). ValidatePlanRefs refs p = None"
    "\<forall>q \<in> set (snap_EvidenceAcquisitions s). ValidateAcquisitionRefs refs q = None"
    "\<forall>c \<in> set (snap_AgentConsultations s). ValidateConsultationRefs refs c = None"
    "cr_CaseIDs refs = {cm_CaseID (snap_Case s)}"
proof -
  obtain artifacts where "check_references s (snapshot_refs s artifacts) = None"
    using valid_refs [OF assms] by blast
  then show ?thesis
    by (intro that [of "snapshot_refs s artifacts"])
       (simp_all add: check_references_def Let_def snapshot_refs_def setOf_def)
qed

lemma ValidatePlanRefs_valid: "ValidatePlanRefs refs p = None \<Longrightarrow> RepairPlan_Validate p = None"
  by (simp add: ValidatePlanRefs_def)

lemma ValidateConsultationRefs_hypotheses:
  assumes "ValidateConsultationRefs refs c = None" "h \<in> set (elems (con_Hypotheses c))"
  shows "hyp_Advisory h" "set (elems (hyp_SupportingFindingRefs h)) \<subseteq> cr_FindingIDs refs"
    "set (elems (hyp_SupportingEvidenceRefs h)) \<subseteq> cr_EvidenceIDs refs"
    "set (elems (hyp_ContradictingEvidenceRefs h)) \<subseteq> cr_EvidenceIDs refs"
proof -
  have "AgentConsultation_Validate c = None" using assms(1) by (simp add: ValidateConsultationRefs_def)
  then show "hyp_Advisory h"
    unfolding AgentConsultation_Validate_def using assms(2) unique_hypotheses by fastforce
qed (use assms in \<open>simp_all add: ValidateConsultationRefs_def\<close>)

lemma ValidateConsultationRefs_own:
  assumes "ValidateConsultationRefs refs c = None"
  shows "set (elems (con_FindingRefs c)) \<subseteq> cr_FindingIDs refs" "set (elems (con_EvidenceRefs c)) \<subseteq> cr_EvidenceIDs refs"
    "set (elems (con_TargetRefs c)) \<subseteq> cr_TargetIDs refs"
  using assms by (simp_all add: ValidateConsultationRefs_def)

lemma valid_workflow_refs:
  assumes "Snapshot_Validate win s = None" "snap_WorkflowState s = Some w"
  shows "wf_CaseID w = cm_CaseID (snap_Case s)"
    "wf_ActivePlanID w \<noteq> [] \<Longrightarrow> wf_ActivePlanID w \<in> pln_PlanID ` set (snap_RepairPlans s)"
    "wf_ActiveExecutionID w \<noteq> [] \<Longrightarrow> wf_ActiveExecutionID w \<in> ex_ExecutionID ` set (snap_ExecutionEvents s)"
    "wf_LastTransitionID w \<in> we_EventID ` set (snap_CoordinatorEvents s)"
proof -
  obtain artifacts where "check_workflow s (snapshot_refs s artifacts) = None" using valid_refs [OF assms(1)] by blast
  then have r: "ValidateWorkflowRefs (snapshot_refs s artifacts) w = None" using assms(2) by (simp add: check_workflow_def)
  show "wf_CaseID w = cm_CaseID (snap_Case s)" by (rule valid_workflow(2) [OF assms])
  show "wf_ActivePlanID w \<noteq> [] \<Longrightarrow> wf_ActivePlanID w \<in> pln_PlanID ` set (snap_RepairPlans s)"
    "wf_ActiveExecutionID w \<noteq> [] \<Longrightarrow> wf_ActiveExecutionID w \<in> ex_ExecutionID ` set (snap_ExecutionEvents s)"
    "wf_LastTransitionID w \<in> we_EventID ` set (snap_CoordinatorEvents s)"
    using r by (auto simp: ValidateWorkflowRefs_def snapshot_refs_def setOf_def event_ids_def split: if_splits)
qed

lemma valid_target_set:
  assumes "Snapshot_Validate win s = None"
  shows "set (elems (cm_TargetIDs (snap_Case s))) = tg_TargetID ` set (snap_Targets s)"
  using valid_case(5) [OF assms] by (auto simp: check_target_set_def Let_def)

lemma valid_no_executions:
  assumes "Snapshot_Validate win s = None"
  shows "snap_ExecutionEvents s = []" "snap_VerificationReports s = []"
proof -
  have "snap_ExecutionEvents s = [] \<and> snap_VerificationReports s = []"
  proof (cases "snap_WorkflowState s")
    case None
    then show ?thesis using assms by (simp add: Snapshot_Validate_def Let_def)
  next
    case (Some w)
    then show ?thesis using provenance_None(3,4) [OF valid_provenance [OF assms Some] Some] by blast
  qed
  then show "snap_ExecutionEvents s = []" "snap_VerificationReports s = []" by simp_all
qed

section \<open>Ancestors\<close>

text \<open>An entry of the commit chain with a commit id that no later entry has.\<close>

lemma find_commit_Some:
  assumes "find_commit chain cid = Some (i, c)"
  shows "i < length chain" "chain ! i = c" "rec_CommitID c = cid"
    "\<forall>j. i < j \<longrightarrow> j < length chain \<longrightarrow> rec_CommitID (chain ! j) \<noteq> cid"
proof -
  let ?z = "zip [0..<length chain] chain"
  obtain k where k1: "k < length (rev ?z)" "(\<lambda>(i, c). rec_CommitID c = cid) (rev ?z ! k)" "(i, c) = rev ?z ! k"
    "\<forall>j < k. \<not> (\<lambda>(i, c). rec_CommitID c = cid) (rev ?z ! j)"
    using assms unfolding find_commit_def find_Some_iff by (elim exE conjE) (rule that)
  have k2: "rev ?z ! k = (i, c)" using k1(3) by (rule sym)
  have k: "k < length chain" "rec_CommitID c = cid" "\<forall>j < k. rec_CommitID (snd (rev ?z ! j)) \<noteq> cid"
    using k1(1) k1(2) [unfolded k2] k1(4) by (simp_all add: case_prod_beta)
  have nth: "rev ?z ! j = (length chain - Suc j, chain ! (length chain - Suc j))" if "j < length chain" for j
    using that by (simp add: rev_nth)
  have i: "i = length chain - Suc k" "c = chain ! i" using k2 nth [OF k(1)] by auto
  show "i < length chain" "chain ! i = c" "rec_CommitID c = cid" using i k(1,2) by auto
  show "\<forall>j. i < j \<longrightarrow> j < length chain \<longrightarrow> rec_CommitID (chain ! j) \<noteq> cid"
  proof (intro allI impI)
    fix j assume j: "i < j" "j < length chain"
    then have lt: "length chain - Suc j < k" using i(1) k(1) by linarith
    then have "rev ?z ! (length chain - Suc j) = (j, chain ! j)" using nth [of "length chain - Suc j"] j by simp
    then show "rec_CommitID (chain ! j) \<noteq> cid" using k(3) lt by fastforce
  qed
qed

lemma find_evidence_None: "findEvidenceByID es i = None \<longleftrightarrow> i \<notin> ev_EvidenceID ` set es"
  by (simp add: findEvidenceByID_def find_key_None)

lemma find_target_None: "findTargetByID ts i = None \<longleftrightarrow> i \<notin> tg_TargetID ` set ts"
  by (simp add: findTargetByID_def find_key_None)

lemma check_acquisition_None:
  "check_acquisition snap source q = None \<longleftrightarrow>
     (let ev = ev_EvidenceID ` set (snap_EvidenceBundles source); tg = tg_TargetID ` set (snap_Targets source) in
      set (elems (acq_InputEvidenceIDs q)) \<subseteq> ev \<and>
      set (elems (acq_AddedEvidenceIDs q)) \<subseteq> ev_EvidenceID ` set (snap_EvidenceBundles snap) - ev \<and>
      set (elems (acq_AddedTargetIDs q)) \<subseteq> tg_TargetID ` set (snap_Targets snap) - tg)"
  by (auto simp: check_acquisition_def Let_def find_evidence_None find_target_None)

section \<open>The parent of a commit\<close>

lemma parent_check_absent:
  "ParentExpectation_check chain ExpectAbsentParent = err_if (chain \<noteq> [])
     (Errorf ''%w: case already has head commit %s'' [GWrap ErrCaseExists, GStr (head_commit chain)])"
  by (simp add: ParentExpectation_check_def ParentExpectation_validate_def ExpectAbsentParent_def
      ParentExpectationUnspecified_def ParentExpectationAbsent_def err_if_def first_err.simps)

lemma parent_check_commit:
  assumes "reCommitID c"
  shows "ParentExpectation_check chain (ExpectParentCommit c) = err_if (head_commit chain \<noteq> c)
     (Errorf ''%w: expected parent commit %s, actual %s'' [GWrap ErrRevisionConflict, GStr c, GStr (head_commit chain)])"
  using assms by (simp add: ParentExpectation_check_def ParentExpectation_validate_def ExpectParentCommit_def
      ParentExpectationUnspecified_def ParentExpectationAbsent_def ParentExpectationCommit_def
      validateCommitID_def wrap_err_def err_if_def first_err.simps)

lemma parent_check_commit_None:
  "ParentExpectation_check chain (ExpectParentCommit c) = None \<longleftrightarrow> reCommitID c \<and> head_commit chain = c"
  by (auto simp: ParentExpectation_check_def ParentExpectation_validate_def ExpectParentCommit_def
      ParentExpectationUnspecified_def ParentExpectationAbsent_def ParentExpectationCommit_def validateCommitID_def)

end
