(* ===== verification/SnapshotStorage.thy ===== *)
theory SnapshotStorage
  imports CaseManifests DocCodecProofs IntegrityProofs
begin

text \<open>
  The documents a snapshot is stored as, seen as one list of tagged documents, and the loop that
  reads them back. A snapshot whose documents JSON can hold is read back as it was, its documents
  of each kind in the order of their identifiers.
\<close>

section \<open>The documents of a snapshot\<close>

datatype stored =
    SCase CaseManifest | SWorkflow CaseWorkflowState | STarget Target | SEvidence EvidenceBundle | SFinding Finding
  | SPlan RepairPlan | SExecution ExecutionEvent | SVerification VerificationReport | SEvent CoordinatorEvent
  | SAcquisition EvidenceAcquisitionRecord | SConsultation AgentConsultation

fun stored_rel :: "stored \<Rightarrow> string" where
  "stored_rel (SCase c) = ''case-manifest.json''"
| "stored_rel (SWorkflow w) = ''case-workflow-state.json''"
| "stored_rel (STarget x) = ''targets/'' @ tg_TargetID x @ ''.json''"
| "stored_rel (SEvidence x) = ''evidence/'' @ ev_EvidenceID x @ ''.json''"
| "stored_rel (SFinding x) = ''findings/'' @ fnd_FindingID x @ ''.json''"
| "stored_rel (SPlan x) = ''plans/'' @ pln_PlanID x @ ''.json''"
| "stored_rel (SExecution x) = ''executions/'' @ ex_ExecutionID x @ ''.json''"
| "stored_rel (SVerification x) = ''verifications/'' @ vr_VerificationID x @ ''.json''"
| "stored_rel (SEvent x) = ''coordinator-events/'' @ we_EventID x @ ''.json''"
| "stored_rel (SAcquisition x) = ''evidence-acquisitions/'' @ acq_AcquisitionID x @ ''.json''"
| "stored_rel (SConsultation x) = ''agent-consultations/'' @ con_ConsultationID x @ ''.json''"

fun stored_json :: "stored \<Rightarrow> json" where
  "stored_json (SCase x) = CaseManifest_json x"
| "stored_json (SWorkflow x) = CaseWorkflowState_json x"
| "stored_json (STarget x) = Target_json x"
| "stored_json (SEvidence x) = EvidenceBundle_json x"
| "stored_json (SFinding x) = Finding_json x"
| "stored_json (SPlan x) = RepairPlan_json x"
| "stored_json (SExecution x) = ExecutionEvent_json x"
| "stored_json (SVerification x) = VerificationReport_json x"
| "stored_json (SEvent x) = CoordinatorEvent_json x"
| "stored_json (SAcquisition x) = EvidenceAcquisitionRecord_json x"
| "stored_json (SConsultation x) = AgentConsultation_json x"

text \<open>What JSON can hold, and the document's own validation.\<close>

fun stored_codable :: "stored \<Rightarrow> bool" where
  "stored_codable (STarget x) = Target_codable x"
| "stored_codable (SEvidence x) = EvidenceBundle_codable x"
| "stored_codable (SExecution x) = ExecutionEvent_codable x"
| "stored_codable (SConsultation x) = AgentConsultation_codable x"
| "stored_codable _ = True"

fun stored_valid :: "stored \<Rightarrow> bool" where
  "stored_valid (SCase x) = (CaseManifest_Validate x = None)"
| "stored_valid (SWorkflow x) = (CaseWorkflowState_Validate x = None)"
| "stored_valid (STarget x) = (Target_Validate x = None)"
| "stored_valid (SEvidence x) = (EvidenceBundle_Validate x = None)"
| "stored_valid (SFinding x) = (Finding_Validate x = None)"
| "stored_valid (SPlan x) = (RepairPlan_Validate x = None)"
| "stored_valid (SExecution x) = (ExecutionEvent_Validate x = None)"
| "stored_valid (SVerification x) = (VerificationReport_Validate x = None)"
| "stored_valid (SEvent x) = (CoordinatorEvent_Validate x = None)"
| "stored_valid (SAcquisition x) = (EvidenceAcquisitionRecord_Validate x = None)"
| "stored_valid (SConsultation x) = (AgentConsultation_Validate x = None)"

definition stored_fits :: "stored \<Rightarrow> bool" where
  "stored_fits t \<longleftrightarrow> stored_codable t \<and> json_fits max_nesting (stored_json t)"

definition all_stored :: "Snapshot \<Rightarrow> stored list" where
  "all_stored s =
     SCase (snap_Case s) # map SWorkflow (case snap_WorkflowState s of None \<Rightarrow> [] | Some w \<Rightarrow> [w]) @
     map STarget (sort_key tg_TargetID (snap_Targets s)) @
     map SEvidence (sort_key ev_EvidenceID (snap_EvidenceBundles s)) @
     map SFinding (sort_key fnd_FindingID (snap_Findings s)) @
     map SPlan (sort_key pln_PlanID (snap_RepairPlans s)) @
     map SExecution (sort_key ex_ExecutionID (snap_ExecutionEvents s)) @
     map SVerification (sort_key vr_VerificationID (snap_VerificationReports s)) @
     map SEvent (sort_key we_EventID (snap_CoordinatorEvents s)) @
     map SAcquisition (sort_key acq_AcquisitionID (snap_EvidenceAcquisitions s)) @
     map SConsultation (sort_key con_ConsultationID (snap_AgentConsultations s))"

text \<open>JSON can hold every document of the snapshot.\<close>

definition storable :: "Snapshot \<Rightarrow> bool" where
  "storable s \<longleftrightarrow> (\<forall>t \<in> set (all_stored s). stored_fits t)"

definition stored_doc :: "stored \<Rightarrow> preparedDocument" where
  "stored_doc t = documentEntry (stored_rel t) (text_of (stored_json t))"

lemma stored_marshal: "stored_fits t \<Longrightarrow> marshal (stored_json t) = Inr (text_of (stored_json t))"
  using decode_marshal(1) by (simp add: stored_fits_def)

lemma prepare_one_stored:
  "json_fits max_nesting j \<Longrightarrow> prepare_one what rel j = Inr (documentEntry rel (text_of j))"
  using decode_marshal(1) [of j] by (simp add: prepare_one_def map_error_def)

lemma prepare_kind_stored:
  assumes "prepare_kind what dir ident validate enc xs = Inr ds"
    and tag: "\<And>x. stored_rel (tag x) = dir @ ident x @ ''.json'' \<and> stored_json (tag x) = enc x"
    and fits: "\<forall>x \<in> set xs. stored_fits (tag x)"
  shows "ds = map stored_doc (map tag (sort_key ident xs))"
proof -
  have "collect_results (\<lambda>x. check_then (validate (ident x))
       (bindE (map_error (\<lambda>e. Errorf (''marshal '' @ what @ '' %s: %w'') [GStr (ident x), GWrap e]) (marshal (enc x)))
         (\<lambda>raw. Inr (documentEntry (dir @ ident x @ ''.json'') raw)))) ys = Inr ds \<Longrightarrow>
      \<forall>x \<in> set ys. stored_fits (tag x) \<Longrightarrow> ds = map stored_doc (map tag ys)" for ys ds
  proof (induction ys arbitrary: ds)
    case (Cons y ys)
    have "marshal (enc y) = Inr (text_of (enc y))"
      using stored_marshal [of "tag y"] Cons.prems(2) tag by simp
    with Cons show ?case
      using tag [of y] by (auto simp: check_then_def stored_doc_def map_error_def split: option.splits)
  qed simp
  from this [of "sort_key ident xs" ds] show ?thesis
    using assms(1) fits by (simp add: prepare_kind_def)
qed

lemma prepareDocuments_stored:
  assumes "prepareDocuments s = Inr docs" "storable s"
  shows "docs = sort_key pd_RelativePath (map stored_doc (all_stored s))"
proof -
  have f: "stored_fits t" if "t \<in> set (all_stored s)" for t using assms(2) that by (simp add: storable_def)
  have one: "prepare_one ''case-manifest'' ''case-manifest.json'' (CaseManifest_json (snap_Case s))
      = Inr (stored_doc (SCase (snap_Case s)))"
    using f [of "SCase (snap_Case s)"] by (simp add: all_stored_def stored_fits_def prepare_one_stored stored_doc_def)
  have wf: "prepare_workflow (snap_WorkflowState s)
      = Inr (map stored_doc (map SWorkflow (case snap_WorkflowState s of None \<Rightarrow> [] | Some w \<Rightarrow> [w])))"
    using f [of "SWorkflow (the (snap_WorkflowState s))"]
    by (auto simp: prepare_workflow_def all_stored_def stored_fits_def prepare_one_stored stored_doc_def split: option.splits)
  obtain ks where k: "collect_results id (prepared_kinds s) = Inr ks"
      and d: "docs = sort_key pd_RelativePath (stored_doc (SCase (snap_Case s)) #
        map stored_doc (map SWorkflow (case snap_WorkflowState s of None \<Rightarrow> [] | Some w \<Rightarrow> [w])) @ concat ks)"
    using assms(1) by (auto simp: prepareDocuments_def one wf simp del: map_map)
  obtain a b c d' e f' g h i where ks: "ks = [a, b, c, d', e, f', g, h, i]"
    and p: "prepare_kind ''target'' ''targets/'' tg_TargetID validateTargetID Target_json (snap_Targets s) = Inr a"
      "prepare_kind ''evidence'' ''evidence/'' ev_EvidenceID validateEvidenceID EvidenceBundle_json (snap_EvidenceBundles s) = Inr b"
      "prepare_kind ''finding'' ''findings/'' fnd_FindingID validateFindingID Finding_json (snap_Findings s) = Inr c"
      "prepare_kind ''plan'' ''plans/'' pln_PlanID validatePlanID RepairPlan_json (snap_RepairPlans s) = Inr d'"
      "prepare_kind ''execution'' ''executions/'' ex_ExecutionID validateExecutionID ExecutionEvent_json (snap_ExecutionEvents s) = Inr e"
      "prepare_kind ''verification'' ''verifications/'' vr_VerificationID validateVerificationID VerificationReport_json
        (snap_VerificationReports s) = Inr f'"
      "prepare_kind ''coordinator-event'' ''coordinator-events/'' we_EventID validateCoordinatorEventID CoordinatorEvent_json
        (snap_CoordinatorEvents s) = Inr g"
      "prepare_kind ''evidence-acquisition'' ''evidence-acquisitions/'' acq_AcquisitionID validateAcquisitionID
        EvidenceAcquisitionRecord_json (snap_EvidenceAcquisitions s) = Inr h"
      "prepare_kind ''agent-consultation'' ''agent-consultations/'' con_ConsultationID validateConsultationID
        AgentConsultation_json (snap_AgentConsultations s) = Inr i"
    using k by (auto simp: prepared_kinds_def)
  have "a = map stored_doc (map STarget (sort_key tg_TargetID (snap_Targets s)))"
    "b = map stored_doc (map SEvidence (sort_key ev_EvidenceID (snap_EvidenceBundles s)))"
    "c = map stored_doc (map SFinding (sort_key fnd_FindingID (snap_Findings s)))"
    "d' = map stored_doc (map SPlan (sort_key pln_PlanID (snap_RepairPlans s)))"
    "e = map stored_doc (map SExecution (sort_key ex_ExecutionID (snap_ExecutionEvents s)))"
    "f' = map stored_doc (map SVerification (sort_key vr_VerificationID (snap_VerificationReports s)))"
    "g = map stored_doc (map SEvent (sort_key we_EventID (snap_CoordinatorEvents s)))"
    "h = map stored_doc (map SAcquisition (sort_key acq_AcquisitionID (snap_EvidenceAcquisitions s)))"
    "i = map stored_doc (map SConsultation (sort_key con_ConsultationID (snap_AgentConsultations s)))"
    by (rule p [THEN prepare_kind_stored]; simp add: f all_stored_def)+
  then show ?thesis by (simp add: d ks all_stored_def)
qed

section \<open>Reading the documents\<close>

fun add_stored :: "stored \<Rightarrow> Snapshot \<Rightarrow> Snapshot" where
  "add_stored (SCase x) s = s"
| "add_stored (SWorkflow x) s = s\<lparr>snap_WorkflowState := Some x\<rparr>"
| "add_stored (STarget x) s = s\<lparr>snap_Targets := snap_Targets s @ [x]\<rparr>"
| "add_stored (SEvidence x) s = s\<lparr>snap_EvidenceBundles := snap_EvidenceBundles s @ [x]\<rparr>"
| "add_stored (SFinding x) s = s\<lparr>snap_Findings := snap_Findings s @ [x]\<rparr>"
| "add_stored (SPlan x) s = s\<lparr>snap_RepairPlans := snap_RepairPlans s @ [x]\<rparr>"
| "add_stored (SExecution x) s = s\<lparr>snap_ExecutionEvents := snap_ExecutionEvents s @ [x]\<rparr>"
| "add_stored (SVerification x) s = s\<lparr>snap_VerificationReports := snap_VerificationReports s @ [x]\<rparr>"
| "add_stored (SEvent x) s = s\<lparr>snap_CoordinatorEvents := snap_CoordinatorEvents s @ [x]\<rparr>"
| "add_stored (SAcquisition x) s = s\<lparr>snap_EvidenceAcquisitions := snap_EvidenceAcquisitions s @ [x]\<rparr>"
| "add_stored (SConsultation x) s = s\<lparr>snap_AgentConsultations := snap_AgentConsultations s @ [x]\<rparr>"

text \<open>The directory of a document, among those the loop distinguishes.\<close>

lemma in_dir_own: "in_dir dir (dir @ x @ ''.json'')"
  by (simp add: in_dir_def has_suffix_def has_prefix_iff)

lemma in_dir_literal: "in_dir dir (p @ x) \<Longrightarrow> length dir \<le> length p \<Longrightarrow> take (length dir) p = dir"
  by (simp add: in_dir_def has_prefix_def)

lemma load_document_back:
  assumes "read rel = Inr (text_of j)" "decode_document dec z (text_of j) = Inr x" "validate x = None"
    "rel = dir @ ident x @ ''.json''"
  shows "load_document read rel dir dec z validate ident mm = Inr x"
  using assms by (simp add: load_document_def DecodeAndValidateJSON_def map_error_def check_then_def)

lemma stored_decodes:
  "stored_fits (SWorkflow w) \<Longrightarrow>
     decode_document dec_CaseWorkflowState zero_CaseWorkflowState (text_of (CaseWorkflowState_json w)) = Inr w"
  "stored_fits (SCase c) \<Longrightarrow> decode_document dec_CaseManifest zero_CaseManifest (text_of (CaseManifest_json c)) = Inr c"
  "stored_fits (STarget va) \<Longrightarrow>
     decode_document dec_Target zero_Target (text_of (Target_json va)) = Inr va"
  "stored_fits (SEvidence vb) \<Longrightarrow>
     decode_document dec_EvidenceBundle zero_EvidenceBundle (text_of (EvidenceBundle_json vb)) = Inr vb"
  "stored_fits (SFinding vc) \<Longrightarrow>
     decode_document dec_Finding zero_Finding (text_of (Finding_json vc)) = Inr vc"
  "stored_fits (SPlan vd) \<Longrightarrow>
     decode_document dec_RepairPlan zero_RepairPlan (text_of (RepairPlan_json vd)) = Inr vd"
  "stored_fits (SExecution ve) \<Longrightarrow>
     decode_document dec_ExecutionEvent zero_ExecutionEvent (text_of (ExecutionEvent_json ve)) = Inr ve"
  "stored_fits (SVerification vf) \<Longrightarrow>
     decode_document dec_VerificationReport zero_VerificationReport (text_of (VerificationReport_json vf)) = Inr vf"
  "stored_fits (SEvent vg) \<Longrightarrow>
     decode_document dec_CoordinatorEvent zero_CoordinatorEvent (text_of (CoordinatorEvent_json vg)) = Inr vg"
  "stored_fits (SAcquisition vh) \<Longrightarrow>
     decode_document dec_EvidenceAcquisitionRecord zero_EvidenceAcquisitionRecord (text_of (EvidenceAcquisitionRecord_json vh)) = Inr vh"
  "stored_fits (SConsultation vi) \<Longrightarrow>
     decode_document dec_AgentConsultation zero_AgentConsultation (text_of (AgentConsultation_json vi)) = Inr vi"
  by (simp_all add: stored_fits_def workflow_codec.document_back manifest_codec.document_back
      target_codec.document_back evidence_codec.document_back finding_codec.document_back plan_codec.document_back execution_codec.document_back verification_codec.document_back event_codec.document_back acquisition_codec.document_back consultation_codec.document_back)

lemmas entry_simps = load_entry_def Let_def in_dir_def has_prefix_iff has_suffix_def

lemma load_entry_stored:
  assumes "stored_fits t" "stored_valid t" "read (stored_rel t) = Inr (text_of (stored_json t))"
    "sde_RelativePath d = stored_rel t"
  shows "load_entry read s d = Inr (add_stored t s)"
proof (cases t)
  case (SCase x)
  then show ?thesis using assms(4) by (simp add: load_entry_def)
next
  case (SWorkflow x)
  then show ?thesis
    using assms stored_decodes(1) by (simp add: load_entry_def DecodeAndValidateJSON_def map_error_def check_then_def)
next
  case (STarget x)
  then show ?thesis using assms by (simp add: entry_simps load_document_back [OF _ stored_decodes(3)])
next
  case (SEvidence x)
  then show ?thesis using assms by (simp add: entry_simps load_document_back [OF _ stored_decodes(4)])
next
  case (SFinding x)
  then show ?thesis using assms by (simp add: entry_simps load_document_back [OF _ stored_decodes(5)])
next
  case (SPlan x)
  then show ?thesis using assms by (simp add: entry_simps load_document_back [OF _ stored_decodes(6)])
next
  case (SExecution x)
  then show ?thesis using assms by (simp add: entry_simps load_document_back [OF _ stored_decodes(7)])
next
  case (SVerification x)
  then show ?thesis using assms by (simp add: entry_simps load_document_back [OF _ stored_decodes(8)])
next
  case (SEvent x)
  then show ?thesis using assms by (simp add: entry_simps load_document_back [OF _ stored_decodes(9)])
next
  case (SAcquisition x)
  then show ?thesis using assms by (simp add: entry_simps load_document_back [OF _ stored_decodes(10)])
next
  case (SConsultation x)
  then show ?thesis using assms by (simp add: entry_simps load_document_back [OF _ stored_decodes(11)])
qed

end
