(* ===== verification/IntegrityProperties.thy ===== *)
theory IntegrityProperties
  imports IntegrityProofs Examples
begin

text \<open>
  Referential integrity, artifact paths, repair plans and the parent of a commit: what the case
  store promises of every snapshot it accepts and of every commit it appends.
\<close>

section \<open>A case with an artifact, and one with an acquisition\<close>

definition ex_artifact :: ArtifactRef where
  "ex_artifact = \<lparr>art_ArtifactID = ex_id ''artifact-'' CHR ''b'', art_Kind = ''log'', art_RelativePath = ''logs/smart.txt'',
     art_SHA256 = replicate 64 CHR ''0'', art_SizeBytes = 12, art_CreatedAt = ex_time,
     art_MediaClassification = ''case_local''\<rparr>"

definition ex_with_artifact :: Snapshot where
  "ex_with_artifact = ex_legacy\<lparr>snap_EvidenceBundles := [ex_evidence\<lparr>ev_Artifacts := Some [ex_artifact]\<rparr>]\<rparr>"

definition ex_acquisition :: EvidenceAcquisitionRecord where
  "ex_acquisition = \<lparr>acq_SchemaName = SchemaEvidenceAcquisitionRecord, acq_SchemaVersion = SchemaVersion,
     acq_AcquisitionID = ex_id ''acq-'' CHR ''a'', acq_CaseID = ex_case_id,
     acq_RequestID = ex_id ''acqreq-'' CHR ''a'', acq_SourceCommitID = ex_commit_id,
     acq_ProducerType = ProducerTargetResolver, acq_ProducerID = ''target.resolver'', acq_ProducerVersion = ''1.0.0'',
     acq_ActorType = ActorSystem, acq_AcquiredAt = ex_time, acq_TargetIDs = Some [ex_target_id],
     acq_InputEvidenceIDs = Some [ex_evidence_id], acq_AddedTargetIDs = Some [''target-disk-0002''],
     acq_AddedEvidenceIDs = Some [], acq_ParametersSHA256 = replicate 64 CHR ''0'',
     acq_ResultSHA256 = replicate 64 CHR ''0'', acq_Limitations = Some []\<rparr>"

definition ex_acquired :: Snapshot where
  "ex_acquired = ex_legacy\<lparr>snap_Targets := [ex_target, ex_target\<lparr>tg_TargetID := ''target-disk-0002''\<rparr>],
     snap_EvidenceAcquisitions := [ex_acquisition]\<rparr>"

definition ex_commit_record :: commitRecord where
  "ex_commit_record = \<lparr>rec_SchemaName = ''recovery-case-commit'', rec_SchemaVersion = SchemaVersion, rec_CaseID = ex_case_id,
     rec_Sequence = 1, rec_CommitID = ex_commit_id, rec_ParentCommitID = None, rec_SnapshotID = ex_id ''snapshot-'' CHR ''e'',
     rec_SnapshotManifestSHA256 = replicate 64 CHR ''0'', rec_CommittedAt = ex_time, rec_Reason = ''legacy_import''\<rparr>"

lemma ex_evidence_artifact: "EvidenceBundle_Validate (ex_evidence\<lparr>ev_Artifacts := Some [ex_artifact]\<rparr>) = None"
proof -
  have "ArtifactRef_Validate ex_artifact = None" by code_simp
  then show ?thesis using ex_docs(2)
    by (simp add: EvidenceBundle_Validate_def loop_Cons_None del: each_from.simps(2) split: if_splits)
qed

lemma ex_with_artifact_valid: "Snapshot_Validate False ex_with_artifact = None"
proof -
  have "rejectTraversal False (art_RelativePath ex_artifact) = None" by code_simp
  then show ?thesis
    using ex_evidence_artifact
    by (simp add: ex_with_artifact_def ex_states snapshot_parts del: each_from.simps(2) unique_from.simps(2))
qed

section \<open>Properties\<close>

text \<open>
  C18. Referential integrity: in a valid snapshot every document that names a case names this one, the
  manifest lists exactly the targets, and what documents name is there: the targets, evidence and findings
  named by evidence, findings, plans, acquisitions and consultations, the documents an audit event
  references, and the plan and the last transition of the workflow. There are no execution events and
  no verification reports. No two documents of a kind share an identifier, and no two acquisitions or
  consultations a request.
\<close>

theorem references_resolve:
  assumes "Snapshot_Validate win s = None"
  defines "cid \<equiv> cm_CaseID (snap_Case s)"
    and "tids \<equiv> tg_TargetID ` set (snap_Targets s)"
    and "eids \<equiv> ev_EvidenceID ` set (snap_EvidenceBundles s)"
    and "fids \<equiv> fnd_FindingID ` set (snap_Findings s)"
  shows "set (elems (cm_TargetIDs (snap_Case s))) = tids \<and>
    (\<forall>e \<in> set (snap_EvidenceBundles s). ev_CaseID e = cid \<and> ev_TargetID e \<in> tids) \<and>
    (\<forall>f \<in> set (snap_Findings s). fnd_CaseID f = cid \<and> set (elems (fnd_EvidenceRefs f)) \<subseteq> eids \<and>
       set (elems (fnd_AffectedTargetIDs f)) \<subseteq> tids) \<and>
    (\<forall>p \<in> set (snap_RepairPlans s). pln_CaseID p = cid \<and> set (elems (pln_FindingRefs p)) \<subseteq> fids \<and>
       stp_TargetID ` set (plan_steps p) \<subseteq> tids) \<and>
    (\<forall>q \<in> set (snap_EvidenceAcquisitions s). acq_CaseID q = cid \<and>
       set (elems (acq_TargetIDs q)) \<union> set (elems (acq_AddedTargetIDs q)) \<subseteq> tids \<and>
       set (elems (acq_InputEvidenceIDs q)) \<union> set (elems (acq_AddedEvidenceIDs q)) \<subseteq> eids) \<and>
    (\<forall>c \<in> set (snap_AgentConsultations s). con_CaseID c = cid \<and> set (elems (con_FindingRefs c)) \<subseteq> fids \<and>
       set (elems (con_EvidenceRefs c)) \<subseteq> eids \<and> set (elems (con_TargetRefs c)) \<subseteq> tids \<and>
       (\<forall>h \<in> set (elems (con_Hypotheses c)). set (elems (hyp_SupportingFindingRefs h)) \<subseteq> fids \<and>
          set (elems (hyp_SupportingEvidenceRefs h)) \<union> set (elems (hyp_ContradictingEvidenceRefs h)) \<subseteq> eids)) \<and>
    (\<forall>e \<in> set (snap_CoordinatorEvents s). we_CaseID e = cid \<and>
       set (elems (we_ReferencedDocumentIDs e)) \<subseteq> set (document_ids s)) \<and>
    (\<forall>w. snap_WorkflowState s = Some w \<longrightarrow> wf_CaseID w = cid \<and> wf_ActiveExecutionID w = [] \<and>
       wf_ActivePlanID w \<in> insert [] (pln_PlanID ` set (snap_RepairPlans s)) \<and>
       wf_LastTransitionID w \<in> we_EventID ` set (snap_CoordinatorEvents s)) \<and>
    snap_ExecutionEvents s = [] \<and> snap_VerificationReports s = [] \<and>
    distinct (map tg_TargetID (snap_Targets s)) \<and> distinct (map ev_EvidenceID (snap_EvidenceBundles s)) \<and>
    distinct (map fnd_FindingID (snap_Findings s)) \<and> distinct (map pln_PlanID (snap_RepairPlans s)) \<and>
    distinct (map we_EventID (snap_CoordinatorEvents s)) \<and>
    distinct (map acq_AcquisitionID (snap_EvidenceAcquisitions s)) \<and>
    distinct (map acq_RequestID (snap_EvidenceAcquisitions s)) \<and>
    distinct (map con_ConsultationID (snap_AgentConsultations s)) \<and>
    distinct (map con_RequestID (snap_AgentConsultations s))"
proof -
  obtain refs where sets: "cr_TargetIDs refs = tids" "cr_EvidenceIDs refs = eids" "cr_FindingIDs refs = fids"
      "cr_CaseIDs refs = {cid}"
    and docs: "\<forall>e \<in> set (snap_EvidenceBundles s). ValidateEvidenceRefs refs e = None"
      "\<forall>f \<in> set (snap_Findings s). ValidateFindingRefs refs f = None"
      "\<forall>p \<in> set (snap_RepairPlans s). ValidatePlanRefs refs p = None"
      "\<forall>q \<in> set (snap_EvidenceAcquisitions s). ValidateAcquisitionRefs refs q = None"
      "\<forall>c \<in> set (snap_AgentConsultations s). ValidateConsultationRefs refs c = None"
    using valid_document_refs [OF assms(1)] unfolding cid_def tids_def eids_def fids_def by metis
  have evidence: "\<forall>e \<in> set (snap_EvidenceBundles s). ev_CaseID e = cid \<and> ev_TargetID e \<in> tids"
    and findings: "\<forall>f \<in> set (snap_Findings s). fnd_CaseID f = cid \<and> set (elems (fnd_EvidenceRefs f)) \<subseteq> eids \<and>
       set (elems (fnd_AffectedTargetIDs f)) \<subseteq> tids"
    and plans: "\<forall>p \<in> set (snap_RepairPlans s). pln_CaseID p = cid \<and> set (elems (pln_FindingRefs p)) \<subseteq> fids \<and>
       stp_TargetID ` set (plan_steps p) \<subseteq> tids"
    and acquisitions: "\<forall>q \<in> set (snap_EvidenceAcquisitions s). acq_CaseID q = cid \<and>
       set (elems (acq_TargetIDs q)) \<union> set (elems (acq_AddedTargetIDs q)) \<subseteq> tids \<and>
       set (elems (acq_InputEvidenceIDs q)) \<union> set (elems (acq_AddedEvidenceIDs q)) \<subseteq> eids"
    using docs(1-4) by (simp_all add: sets ValidateEvidenceRefs_def ValidateFindingRefs_def ValidatePlanRefs_def
          ValidateAcquisitionRefs_def plan_steps_def image_subset_iff)
  have consultations: "\<forall>c \<in> set (snap_AgentConsultations s). con_CaseID c = cid \<and> set (elems (con_FindingRefs c)) \<subseteq> fids \<and>
       set (elems (con_EvidenceRefs c)) \<subseteq> eids \<and> set (elems (con_TargetRefs c)) \<subseteq> tids \<and>
       (\<forall>h \<in> set (elems (con_Hypotheses c)). set (elems (hyp_SupportingFindingRefs h)) \<subseteq> fids \<and>
          set (elems (hyp_SupportingEvidenceRefs h)) \<union> set (elems (hyp_ContradictingEvidenceRefs h)) \<subseteq> eids)"
    using docs(5) ValidateConsultationRefs_own ValidateConsultationRefs_hypotheses(2-4) valid_ids(10) [OF assms(1)]
    unfolding sets [symmetric] cid_def by (metis Un_least)
  have workflow: "\<forall>w. snap_WorkflowState s = Some w \<longrightarrow> wf_CaseID w = cid \<and> wf_ActiveExecutionID w = [] \<and>
       wf_ActivePlanID w \<in> insert [] (pln_PlanID ` set (snap_RepairPlans s)) \<and>
       wf_LastTransitionID w \<in> we_EventID ` set (snap_CoordinatorEvents s)"
    using valid_workflow_refs [OF assms(1)] valid_no_executions(1) [OF assms(1)] by (auto simp: cid_def)
  obtain artifacts where "distinct (map ev_EvidenceID (snap_EvidenceBundles s))" using valid_evidence [OF assms(1)] by metis
  then show ?thesis
    using evidence findings plans acquisitions consultations workflow valid_event(2,3) [OF assms(1)] valid_ids [OF assms(1)]
      valid_no_executions [OF assms(1)] valid_target_set [OF assms(1)]
    by (simp add: event_ids_def cid_def tids_def)
qed

theorem references_resolve_witness:
  "\<exists>f \<in> set (snap_Findings ex_s3). set (elems (fnd_EvidenceRefs f)) = {ex_evidence_id} \<and>
     {ex_evidence_id} \<subseteq> ev_EvidenceID ` set (snap_EvidenceBundles ex_s3) \<and>
     (\<exists>w. snap_WorkflowState ex_s3 = Some w \<and> wf_ActivePlanID w = ex_plan_id \<and>
        ex_plan_id \<in> insert [] (pln_PlanID ` set (snap_RepairPlans ex_s3)))"
proof -
  have "ex_finding \<in> set (snap_Findings ex_s3)" by (simp add: ex_s3_def ex_s2_def ex_s1_def transitioned_def)
  then show ?thesis
    using references_resolve [OF ex_s3_valid] ex_s3_fields(1)
    by (intro bexI [of _ ex_finding]) (auto simp: ex_finding_def new_workflow_def)
qed

text \<open>
  C19. Artifact paths are safe: a path that the case store accepts is relative, and walking its
  segments never leaves the directory it starts from; in a valid snapshot this holds of each
  artifact of each piece of evidence, and two artifacts with one id have the same metadata (digests
  up to case).
\<close>

theorem artifact_paths_are_safe:
  assumes "Snapshot_Validate win s = None"
    and "e \<in> set (snap_EvidenceBundles s)" "a \<in> set (elems (ev_Artifacts e))"
  shows "relative_path win (art_RelativePath a) \<and>
    (\<forall>e' \<in> set (snap_EvidenceBundles s). \<forall>a' \<in> set (elems (ev_Artifacts e')).
       art_ArtifactID a' = art_ArtifactID a \<longrightarrow> artifactRefsEqual a a')"
proof -
  obtain known where r: "\<forall>e \<in> set (snap_EvidenceBundles s). \<forall>a \<in> set (elems (ev_Artifacts e)). represents win known a"
    using valid_evidence [OF assms(1)] by metis
  have "represents win known a" using r assms(2,3) by blast
  then have "relative_path win (art_RelativePath a)" by (simp add: represents_def rejectTraversal_relative)
  moreover have "artifactRefsEqual a a'" if "represents win known a'" "art_ArtifactID a' = art_ArtifactID a" for a'
    using that \<open>represents win known a\<close> by (auto simp: represents_def intro: artifactRefsEqual_join)
  ultimately show ?thesis using r by blast
qed

theorem artifact_paths_are_safe_witness: "relative_path False ''logs/smart.txt''"
  using artifact_paths_are_safe [OF ex_with_artifact_valid,
      where e = "ex_evidence\<lparr>ev_Artifacts := Some [ex_artifact]\<rparr>" and a = ex_artifact]
  by (simp add: ex_with_artifact_def ex_artifact_def)

text \<open>
  C20. An accepted repair plan can be carried out in the order of its steps: step ids are unique, each
  dependency of a step is the id of an earlier step, and the dependency relation has no cycle.
\<close>

theorem accepted_plan_is_ordered:
  assumes "RepairPlan_Validate p = None"
  shows "acyclic (depends (plan_steps p)) \<and> distinct (map stp_StepID (plan_steps p)) \<and>
    (\<forall>i < length (plan_steps p). \<forall>d \<in> set (step_deps (plan_steps p ! i)).
       \<exists>k < i. stp_StepID (plan_steps p ! k) = d)"
  using assms topologically_ordered_acyclic [of "plan_steps p"]
  by (simp add: RepairPlan_Validate_iff topologically_ordered_def)

theorem accepted_plan_is_ordered_witness:
  "(''s1'', ''s2'') \<in> depends (plan_steps ex_plan) \<and> acyclic (depends (plan_steps ex_plan))"
proof -
  have "ex_step ''s2'' [''s1''] \<in> set (plan_steps ex_plan)" by (simp add: plan_steps_def ex_plan_def)
  then have "(''s1'', ''s2'') \<in> depends (plan_steps ex_plan)"
    by (force simp: depends_def ex_step_def step_deps_def)
  then show ?thesis using accepted_plan_is_ordered [OF ex_plan_ok] by blast
qed

text \<open>
  C21. Optimistic concurrency of the case store: a commit that expects no parent is accepted exactly
  when the chain of the case is empty, and one that expects a commit exactly when that is the last
  of the chain; a commit made by another writer in between therefore makes it fail, with the error
  the coordinator turns into a conflict.
\<close>

theorem parent_check_is_compare_and_swap:
  "(ParentExpectation_check chain ExpectAbsentParent = None \<longleftrightarrow> chain = []) \<and>
   (ParentExpectation_check chain (ExpectParentCommit c) = None \<longleftrightarrow> reCommitID c \<and> head_commit chain = c) \<and>
   (reCommitID c \<and> rec_CommitID other \<noteq> c \<longrightarrow>
      (\<exists>x. ParentExpectation_check (chain @ [other]) (ExpectParentCommit c) = Some x \<and> errors_is ErrRevisionConflict x) \<and>
      (\<exists>x. ParentExpectation_check (chain @ [other]) ExpectAbsentParent = Some x \<and> errors_is ErrCaseExists x))"
  by (auto simp: parent_check_absent parent_check_commit parent_check_commit_None head_commit_def err_if_def
        ErrRevisionConflict_def ErrCaseExists_def)

theorem parent_check_is_compare_and_swap_witness:
  "\<exists>x. ParentExpectation_check [ex_commit_record, ex_commit_record\<lparr>rec_CommitID := ''commit-2''\<rparr>] (ExpectParentCommit ex_commit_id) = Some x \<and>
     errors_is ErrRevisionConflict x"
proof -
  have "''commit-2'' \<noteq> ex_commit_id" by code_simp
  then show ?thesis
    using parent_check_is_compare_and_swap [of "[ex_commit_record]" ex_commit_id "ex_commit_record\<lparr>rec_CommitID := ''commit-2''\<rparr>"] by simp
qed

text \<open>
  C22. Provenance of acquisitions: an acquisition is accepted only if the commit it names as its
  source is an earlier commit of the chain, whose snapshot had all the evidence the acquisition
  read and none of the targets and evidence it says it added, and these are in the snapshot.
\<close>

theorem acquisitions_extend_an_ancestor:
  assumes "validateAcquisitionCommitProvenance load cid chain current snap = None"
    and "q \<in> set (snap_EvidenceAcquisitions snap)"
  shows "\<exists>i source. i < current \<and> i < length chain \<and> rec_CommitID (chain ! i) = acq_SourceCommitID q \<and>
    load cid (chain ! i) = Inr source \<and>
    set (elems (acq_InputEvidenceIDs q)) \<subseteq> ev_EvidenceID ` set (snap_EvidenceBundles source) \<and>
    set (elems (acq_AddedEvidenceIDs q)) \<subseteq>
      ev_EvidenceID ` set (snap_EvidenceBundles snap) - ev_EvidenceID ` set (snap_EvidenceBundles source) \<and>
    set (elems (acq_AddedTargetIDs q)) \<subseteq>
      tg_TargetID ` set (snap_Targets snap) - tg_TargetID ` set (snap_Targets source)"
proof -
  have "(case find_commit chain (acq_SourceCommitID q) of None \<Rightarrow> False
    | Some (i, c) \<Rightarrow> i < current \<and> (\<exists>source. load cid c = Inr source \<and> check_acquisition snap source q = None))"
    using bspec [OF iffD1 [OF each_const_None assms(1) [unfolded validateAcquisitionCommitProvenance_def]] assms(2)]
    by (cases "find_commit chain (acq_SourceCommitID q)") (auto split: if_splits sum.splits)
  then obtain i c source where f: "find_commit chain (acq_SourceCommitID q) = Some (i, c)" and "i < current"
      "load cid c = Inr source" "check_acquisition snap source q = None"
    by (auto split: option.splits)
  then show ?thesis using find_commit_Some [OF f] by (auto simp: check_acquisition_None Let_def)
qed

theorem acquisitions_extend_an_ancestor_witness:
  "\<exists>i < 1. rec_CommitID ([ex_commit_record] ! i) = ex_commit_id \<and>
     ''target-disk-0002'' \<in> tg_TargetID ` set (snap_Targets ex_acquired) - tg_TargetID ` set (snap_Targets ex_legacy)"
proof -
  have "check_acquisition ex_acquired ex_legacy ex_acquisition = None"
    by (simp add: check_acquisition_None Let_def ex_acquired_def ex_acquisition_def ex_states ex_target_id_def)
  moreover have "snap_EvidenceAcquisitions ex_acquired = [ex_acquisition]" by (simp add: ex_acquired_def)
  moreover have "find_commit [ex_commit_record] (acq_SourceCommitID ex_acquisition) = Some (0, ex_commit_record)"
    by (simp add: find_commit_def ex_commit_record_def ex_acquisition_def)
  ultimately have "validateAcquisitionCommitProvenance (\<lambda>_ _. Inr ex_legacy) ex_case_id [ex_commit_record] 1 ex_acquired = None"
    "ex_acquisition \<in> set (snap_EvidenceAcquisitions ex_acquired)"
    by (simp_all add: validateAcquisitionCommitProvenance_def)
  from acquisitions_extend_an_ancestor [OF this] show ?thesis
    by (auto simp: ex_acquisition_def)
qed

text \<open>
  The comparison of reference lists is equality of the sets of non-empty references, whatever
  their order and repetitions.
\<close>

theorem exact_references_are_sets:
  "requireExactRefSet got want = None \<longleftrightarrow> set got - {[]} = set want - {[]}"
  by (rule requireExactRefSet_None)

end
