(* ===== verification/SnapshotRoundTrip.thy ===== *)
theory SnapshotRoundTrip
  imports SnapshotStorage IntegrityProperties
begin

text \<open>
  Reading back the documents written for a snapshot: the documents of each kind are picked out of the
  manifest in path order, put back in identifier order, and compared with the manifest.
\<close>

section \<open>Sorting\<close>

lemma sort_key_map: "sort_key f (map g xs) = map g (sort_key (f \<circ> g) xs)"
proof -
  have "insort_key f (g x) (map g ys) = map g (insort_key (f \<circ> g) x ys)" for x ys
    by (induction ys) auto
  then show ?thesis by (induction xs) simp_all
qed

lemma sort_key_again [simp]: "sort_key f (sort_key f xs) = sort_key f xs"
  by (rule sort_key_id_if_sorted) simp

section \<open>The documents of one kind\<close>

definition picked :: "(stored \<Rightarrow> 'a option) \<Rightarrow> stored list \<Rightarrow> 'a list" where
  "picked f ts = List.map_filter f ts"

lemma picked_simps [simp]:
  "picked f [] = []"
  "picked f (t # ts) = (case f t of None \<Rightarrow> picked f ts | Some x \<Rightarrow> x # picked f ts)"
  "picked f (ts @ us) = picked f ts @ picked f us"
  by (simp_all add: picked_def List.map_filter_def split: option.splits)

lemma picked_map: "picked f (map tag xs) = List.map_filter (f \<circ> tag) xs"
  by (induction xs) (auto simp: map_filter_simps split: option.splits)

lemma picked_permuted: "mset ts = mset us \<Longrightarrow> mset (picked f ts) = mset (picked f us)"
  unfolding picked_def List.map_filter_def by (simp only: mset_map mset_filter)

fun the_workflow where "the_workflow (SWorkflow x) = Some x" | "the_workflow _ = None"
fun the_target where "the_target (STarget x) = Some x" | "the_target _ = None"
fun the_evidence where "the_evidence (SEvidence x) = Some x" | "the_evidence _ = None"
fun the_finding where "the_finding (SFinding x) = Some x" | "the_finding _ = None"
fun the_plan where "the_plan (SPlan x) = Some x" | "the_plan _ = None"
fun the_execution where "the_execution (SExecution x) = Some x" | "the_execution _ = None"
fun the_verification where "the_verification (SVerification x) = Some x" | "the_verification _ = None"
fun the_event where "the_event (SEvent x) = Some x" | "the_event _ = None"
fun the_acquisition where "the_acquisition (SAcquisition x) = Some x" | "the_acquisition _ = None"
fun the_consultation where "the_consultation (SConsultation x) = Some x" | "the_consultation _ = None"

lemma fold_add_stored:
  "snap_Case (fold add_stored ts s) = snap_Case s"
  "snap_Targets (fold add_stored ts s) = snap_Targets s @ picked the_target ts"
  "snap_EvidenceBundles (fold add_stored ts s) = snap_EvidenceBundles s @ picked the_evidence ts"
  "snap_Findings (fold add_stored ts s) = snap_Findings s @ picked the_finding ts"
  "snap_RepairPlans (fold add_stored ts s) = snap_RepairPlans s @ picked the_plan ts"
  "snap_ExecutionEvents (fold add_stored ts s) = snap_ExecutionEvents s @ picked the_execution ts"
  "snap_VerificationReports (fold add_stored ts s) = snap_VerificationReports s @ picked the_verification ts"
  "snap_CoordinatorEvents (fold add_stored ts s) = snap_CoordinatorEvents s @ picked the_event ts"
  "snap_EvidenceAcquisitions (fold add_stored ts s) = snap_EvidenceAcquisitions s @ picked the_acquisition ts"
  "snap_AgentConsultations (fold add_stored ts s) = snap_AgentConsultations s @ picked the_consultation ts"
  "snap_WorkflowState (fold add_stored ts s) = fold (\<lambda>w _. Some w) (picked the_workflow ts) (snap_WorkflowState s)"
proof (induction ts arbitrary: s)
  case (Cons t ts)
  { case 1 show ?case by (cases t) (simp_all add: Cons) next
    case 2 show ?case by (cases t) (simp_all add: Cons) next
    case 3 show ?case by (cases t) (simp_all add: Cons) next
    case 4 show ?case by (cases t) (simp_all add: Cons) next
    case 5 show ?case by (cases t) (simp_all add: Cons) next
    case 6 show ?case by (cases t) (simp_all add: Cons) next
    case 7 show ?case by (cases t) (simp_all add: Cons) next
    case 8 show ?case by (cases t) (simp_all add: Cons) next
    case 9 show ?case by (cases t) (simp_all add: Cons) next
    case 10 show ?case by (cases t) (simp_all add: Cons) next
    case 11 show ?case by (cases t) (simp_all add: Cons) }
qed simp_all

lemma map_filter_None: "List.map_filter (\<lambda>x. None) xs = []"
  by (simp add: map_filter_def)

lemma map_filter_all: "List.map_filter Some xs = xs"
  by (simp add: map_filter_def comp_def)

lemma picked_all_stored:
  "picked the_target (all_stored s) = sort_key tg_TargetID (snap_Targets s)"
  "picked the_evidence (all_stored s) = sort_key ev_EvidenceID (snap_EvidenceBundles s)"
  "picked the_finding (all_stored s) = sort_key fnd_FindingID (snap_Findings s)"
  "picked the_plan (all_stored s) = sort_key pln_PlanID (snap_RepairPlans s)"
  "picked the_execution (all_stored s) = sort_key ex_ExecutionID (snap_ExecutionEvents s)"
  "picked the_verification (all_stored s) = sort_key vr_VerificationID (snap_VerificationReports s)"
  "picked the_event (all_stored s) = sort_key we_EventID (snap_CoordinatorEvents s)"
  "picked the_acquisition (all_stored s) = sort_key acq_AcquisitionID (snap_EvidenceAcquisitions s)"
  "picked the_consultation (all_stored s) = sort_key con_ConsultationID (snap_AgentConsultations s)"
  "picked the_workflow (all_stored s) = (case snap_WorkflowState s of None \<Rightarrow> [] | Some w \<Rightarrow> [w])"
  by (simp_all add: all_stored_def picked_map comp_def map_filter_None map_filter_all)


text \<open>Whatever the order the documents are read in, the snapshot in identifier order is the one that was written.\<close>

definition distinct_ids :: "Snapshot \<Rightarrow> bool" where
  "distinct_ids s \<longleftrightarrow>
     distinct (map tg_TargetID (snap_Targets s)) \<and> distinct (map ev_EvidenceID (snap_EvidenceBundles s)) \<and>
     distinct (map fnd_FindingID (snap_Findings s)) \<and> distinct (map pln_PlanID (snap_RepairPlans s)) \<and>
     distinct (map ex_ExecutionID (snap_ExecutionEvents s)) \<and>
     distinct (map vr_VerificationID (snap_VerificationReports s)) \<and>
     distinct (map we_EventID (snap_CoordinatorEvents s)) \<and>
     distinct (map acq_AcquisitionID (snap_EvidenceAcquisitions s)) \<and>
     distinct (map con_ConsultationID (snap_AgentConsultations s))"

lemma picked_sorted:
  assumes "mset ts = mset us" "picked f us = sort_key k xs" "distinct (map k xs)"
  shows "sort_key k (picked f ts) = sort_key k xs"
proof -
  have "mset (picked f ts) = mset xs" using picked_permuted [OF assms(1), of f] assms(2) by simp
  then show ?thesis using assms(3) by (rule sort_key_permuted)
qed

lemma fold_all_stored:
  assumes "mset ts = mset (all_stored s)" "distinct_ids s"
  shows "sorted_snapshot (fold add_stored ts (empty_snapshot (snap_Case s))) = sorted_snapshot s"
proof -
  note p = picked_sorted [OF assms(1)]
  have "mset (picked the_workflow ts) = mset (case snap_WorkflowState s of None \<Rightarrow> [] | Some w \<Rightarrow> [w])"
    using picked_permuted [OF assms(1), of the_workflow] by (simp add: picked_all_stored)
  then have w: "fold (\<lambda>w _. Some w) (picked the_workflow ts) None = snap_WorkflowState s"
    by (cases "snap_WorkflowState s") auto
  show ?thesis
    using assms(2) unfolding sorted_snapshot_def
    by (simp add: fold_add_stored empty_snapshot_def w distinct_ids_def picked_all_stored p)
qed

section \<open>A valid snapshot\<close>

lemma distinct_ids_sorted: "distinct_ids (sorted_snapshot s) \<longleftrightarrow> distinct_ids s"
  by (simp add: distinct_ids_def sorted_snapshot_def distinct_map)

lemma valid_distinct_ids: "Snapshot_Validate win s = None \<Longrightarrow> distinct_ids s"
  using valid_ids [of win s] valid_evidence [of win s]
  by (auto simp: distinct_ids_def event_ids_def Snapshot_Validate_def Let_def split: sum.splits)

lemma valid_stored:
  assumes "Snapshot_Validate win (sorted_snapshot s) = None" "t \<in> set (all_stored s)"
  shows "stored_valid t"
proof -
  let ?s = "sorted_snapshot s"
  obtain artifacts where r: "check_references ?s (snapshot_refs ?s artifacts) = None"
    using valid_refs [OF assms(1)] by blast
  have docs: "\<forall>x \<in> set (snap_EvidenceBundles s). EvidenceBundle_Validate x = None"
    "\<forall>x \<in> set (snap_Findings s). Finding_Validate x = None"
    "\<forall>x \<in> set (snap_RepairPlans s). RepairPlan_Validate x = None"
    "\<forall>x \<in> set (snap_ExecutionEvents s). ExecutionEvent_Validate x = None"
    "\<forall>x \<in> set (snap_VerificationReports s). VerificationReport_Validate x = None"
    "\<forall>x \<in> set (snap_EvidenceAcquisitions s). EvidenceAcquisitionRecord_Validate x = None"
    "\<forall>x \<in> set (snap_AgentConsultations s). AgentConsultation_Validate x = None"
    using r by (simp_all add: check_references_def Let_def sorted_snapshot_def ValidateEvidenceRefs_def
        ValidateFindingRefs_def ValidatePlanRefs_def ValidateExecutionRefs_def ValidateVerificationRefs_def
        ValidateAcquisitionRefs_def ValidateConsultationRefs_def)
  have "\<forall>x \<in> set (snap_CoordinatorEvents s). CoordinatorEvent_Validate x = None"
    using valid_event(1) [OF assms(1)] by (simp add: sorted_snapshot_def)
  moreover have "\<forall>x. snap_WorkflowState s = Some x \<longrightarrow> CaseWorkflowState_Validate x = None"
    using valid_workflow(1) [OF assms(1)] by (simp add: sorted_snapshot_def)
  moreover have "\<forall>x \<in> set (snap_Targets s). Target_Validate x = None" "CaseManifest_Validate (snap_Case s) = None"
    using valid_case(1,5) [OF assms(1)] by (simp_all add: sorted_snapshot_def check_target_set_def Let_def)
  ultimately show ?thesis
    using assms(2) docs by (auto simp: all_stored_def split: option.splits)
qed

section \<open>The artifacts\<close>

definition lowered :: "ArtifactRef \<Rightarrow> ArtifactRef" where
  "lowered a = a\<lparr>art_SHA256 := lower_string (art_SHA256 a)\<rparr>"

definition collectable :: "ArtifactRef list \<Rightarrow> bool" where
  "collectable as \<longleftrightarrow> (\<forall>a \<in> set as. validateArtifactID (art_ArtifactID a) = None \<and>
     validateSHA256Hex (lower_string (art_SHA256 a)) = None)"

lemma lowered_id [simp]: "art_ArtifactID (lowered a) = art_ArtifactID a"
  by (simp add: lowered_def)

lemma to_lower_char_again: "to_lower_char (to_lower_char c) = to_lower_char c"
  by (auto simp: to_lower_char_def Let_def)

lemma lowered_again: "lower_string (lower_string t) = lower_string t"
  by (simp add: lower_string_def to_lower_char_again)

lemma lowered_equal: "artifactRefsEqual (lowered a) (lowered b) \<longleftrightarrow> lowered a = lowered b"
  by (cases a; cases b) (auto simp: artifactRefsEqual_def equal_fold_def lowered_def lowered_again simp flip: lower_string_def)

lemma collect_step:
  "collect_refs known (a # as) =
     check_then (validateArtifactID (art_ArtifactID a)) (check_then (validateSHA256Hex (lower_string (art_SHA256 a)))
       (case List.find (\<lambda>p. art_ArtifactID p = art_ArtifactID a) known of
          None \<Rightarrow> collect_refs (known @ [lowered a]) as
        | Some prev \<Rightarrow>
            if \<not> artifactRefsEqual prev (lowered a)
            then Inl (invalid ''divergent metadata for artifact_id %q'' [GStr (art_ArtifactID a)])
            else collect_refs known as))"
  by (simp add: Let_def lowered_def split: option.splits)

declare collect_refs.simps(2) [simp del]

lemma collect_refs_iff:
  assumes "set known \<subseteq> range lowered" "distinct (map art_ArtifactID known)"
  shows "collect_refs known as = Inr r \<Longrightarrow>
     collectable as \<and> inj_on art_ArtifactID (set known \<union> lowered ` set as) \<and>
     set r = set known \<union> lowered ` set as \<and> distinct (map art_ArtifactID r)"
    and "collectable as \<Longrightarrow> inj_on art_ArtifactID (set known \<union> lowered ` set as) \<Longrightarrow> \<exists>r. collect_refs known as = Inr r"
  using assms
proof (induction as arbitrary: known)
  case Nil
  { case 1 then show ?case by (simp add: collectable_def distinct_map) next
    case 2 then show ?case by simp }
next
  case (Cons a as)
  have find: "List.find (\<lambda>p. art_ArtifactID p = art_ArtifactID a) k = Some b \<Longrightarrow>
      b \<in> set k \<and> art_ArtifactID b = art_ArtifactID a" for b k
    by (auto simp: find_Some_iff)
  have new: "List.find (\<lambda>p. art_ArtifactID p = art_ArtifactID a) k = None \<Longrightarrow>
      art_ArtifactID a \<notin> art_ArtifactID ` set k" for k
    by (auto simp: find_None_iff)
  note step = collect_step
  { case 1
    show ?case
    proof (cases "List.find (\<lambda>p. art_ArtifactID p = art_ArtifactID a) known")
      case None
      then have "collect_refs (known @ [lowered a]) as = Inr r" and ok: "collectable [a]"
        using 1(1) by (auto simp: step collectable_def check_then_def split: option.splits)
      then have "collectable as \<and> inj_on art_ArtifactID (set (known @ [lowered a]) \<union> lowered ` set as) \<and>
          set r = set (known @ [lowered a]) \<union> lowered ` set as \<and> distinct (map art_ArtifactID r)"
        using new [OF None] 1(2,3) by (intro Cons.IH(1)) auto
      then show ?thesis using ok by (simp add: collectable_def)
    next
      case (Some b)
      then have "collect_refs known as = Inr r" and ok: "collectable [a]" and e: "artifactRefsEqual b (lowered a)"
        using 1(1) by (auto simp: step collectable_def check_then_def split: option.splits if_splits)
      moreover have "lowered a \<in> set known"
        using find [OF Some] e 1(2) lowered_equal by fastforce
      ultimately show ?thesis using Cons.IH(1) [of known] 1(2,3) by (simp add: collectable_def insert_absorb)
    qed
  next
    case 2
    show ?case
    proof (cases "List.find (\<lambda>p. art_ArtifactID p = art_ArtifactID a) known")
      case None
      have "\<exists>r. collect_refs (known @ [lowered a]) as = Inr r"
        using 2 new [OF None] by (intro Cons.IH(2)) (auto simp: collectable_def)
      then show ?thesis using None 2(1) by (simp add: step collectable_def check_then_def)
    next
      case (Some b)
      have "b = lowered a"
        using find [OF Some] by (intro inj_onD [OF 2(2)]) auto
      moreover have "\<exists>r. collect_refs known as = Inr r"
        using 2 by (intro Cons.IH(2)) (auto simp: collectable_def inj_on_def)
      ultimately show ?thesis using Some 2(1) by (simp add: step collectable_def check_then_def)
    qed }
qed

lemma bundles_artifacts: "set (concat (map (\<lambda>e. elems (ev_Artifacts e)) (snap_EvidenceBundles (sorted_snapshot s)))) =
    set (concat (map (\<lambda>e. elems (ev_Artifacts e)) (snap_EvidenceBundles s)))"
  by (simp add: sorted_snapshot_def)

lemma collectArtifactRefs_sorted:
  assumes "collectArtifactRefs s = Inr arts"
  shows "collectArtifactRefs (sorted_snapshot s) = Inr arts"
    and "distinct (map art_ArtifactID arts)" "sorted (map art_ArtifactID arts)"
proof -
  let ?as = "\<lambda>s. concat (map (\<lambda>e. elems (ev_Artifacts e)) (snap_EvidenceBundles s))"
  obtain r where r: "collect_refs [] (?as s) = Inr r" and arts: "arts = sort_key art_ArtifactID r"
    using assms by (auto simp: collectArtifactRefs_def)
  note r' = collect_refs_iff(1) [OF _ _ r, simplified]
  obtain q where q: "collect_refs [] (?as (sorted_snapshot s)) = Inr q"
    using collect_refs_iff(2) [of "[]" "?as (sorted_snapshot s)"] r' unfolding collectable_def bundles_artifacts by auto
  note q' = collect_refs_iff(1) [OF _ _ q, simplified]
  have "set q = set r" using q' r' bundles_artifacts [of s] by auto
  then have "mset q = mset r"
    using q' r' by (intro set_eq_iff_mset_eq_distinct [THEN iffD1]) (auto simp: distinct_map)
  then have "sort_key art_ArtifactID q = sort_key art_ArtifactID r"
    using r' by (intro sort_key_permuted) auto
  then show "collectArtifactRefs (sorted_snapshot s) = Inr arts"
    by (simp add: collectArtifactRefs_def q arts)
  show "distinct (map art_ArtifactID arts)" using r' by (simp add: arts distinct_map)
  show "sorted (map art_ArtifactID arts)" by (simp add: arts)
qed

lemma compare_own_entries: "distinct (map art_ArtifactID arts) \<Longrightarrow> compare_entries arts (map artifact_entry arts) = None"
proof (induction arts)
  case (Cons a arts)
  have "filter (\<lambda>q. art_ArtifactID q \<noteq> art_ArtifactID a) arts = arts"
    using Cons.prems by (auto simp: filter_id_conv image_iff)
  then show ?case using Cons by (simp add: artifact_entry_def Let_def)
qed simp

section \<open>The snapshot read back\<close>

lemma load_entries_stored:
  assumes "\<forall>t \<in> set ts. stored_fits t \<and> stored_valid t \<and> read (stored_rel t) = Inr (text_of (stored_json t))"
  shows "load_entries read s (map (document_entry \<circ> stored_doc) ts) = Inr (fold add_stored ts s)"
  using assms
proof (induction ts arbitrary: s)
  case (Cons t ts)
  have "sde_RelativePath (document_entry (stored_doc t)) = stored_rel t"
    by (simp add: document_entry_def stored_doc_def documentEntry_def)
  then have "load_entry read s (document_entry (stored_doc t)) = Inr (add_stored t s)"
    using Cons.prems by (intro load_entry_stored) auto
  then show ?case using Cons by simp
qed simp

lemma prepareDocuments_sorted: "prepareDocuments (sorted_snapshot s) = prepareDocuments s"
  by (simp add: prepareDocuments_def prepared_kinds_def prepare_kind_def sorted_snapshot_def)

lemma one_case_manifest_stored:
  assumes "mset ts = mset (all_stored s)"
  shows "one_case_manifest (map stored_rel ts) = None"
proof -
  let ?p = "\<lambda>t. stored_rel t = ''case-manifest.json''"
  have "size (mset (filter ?p ts)) = size (mset (filter ?p (all_stored s)))"
    using assms by (simp only: mset_filter)
  moreover have "filter ?p (all_stored s) = [SCase (snap_Case s)]"
    by (auto simp: all_stored_def filter_empty_conv split: option.splits)
  ultimately show ?thesis
    by (simp add: one_case_manifest_def filter_map comp_def del: mset_filter)
qed

lemma compare_own_documents:
  assumes "prepareDocuments s = Inr docs" "one_case_manifest (map pd_RelativePath docs) = None"
    "elems (smf_Documents m) = map document_entry docs"
  shows "compareCanonicalDocuments m s = None"
  using assms by (auto simp: compareCanonicalDocuments_def Let_def each_from_iff in_set_conv_nth)

text \<open>The manifest that is built lists the documents and the artifacts in the order it is given them.\<close>

lemma built_manifest:
  assumes "buildSnapshotManifest c u docs (map artifact_entry arts) = Inr (m, raw)"
    "sorted (map pd_RelativePath docs)" "sorted (map art_ArtifactID arts)"
  shows "elems (smf_Documents m) = map document_entry docs" "elems (smf_Artifacts m) = map artifact_entry arts"
proof -
  have "sort_key sde_RelativePath (map document_entry docs) = map document_entry docs"
    using assms(2) by (intro sort_key_id_if_sorted) (simp add: document_entry_def comp_def)
  moreover have "sort_key sae_ArtifactID (map artifact_entry arts) = map artifact_entry arts"
    using assms(3) by (intro sort_key_id_if_sorted) (simp add: artifact_entry_def Let_def comp_def)
  ultimately show "elems (smf_Documents m) = map document_entry docs" "elems (smf_Artifacts m) = map artifact_entry arts"
    using assms(1) by (auto simp: buildSnapshotManifest_def Let_def)
qed

lemma snapshot_read_back:
  assumes valid: "Snapshot_Validate False (sorted_snapshot s) = None" and fits: "storable s"
    and docs: "prepareDocuments s = Inr docs" and arts: "collectArtifactRefs s = Inr arts"
    and built: "buildSnapshotManifest c u docs (map artifact_entry arts) = Inr (m, raw)"
    and files: "\<forall>d \<in> set docs. read (pd_RelativePath d) = Inr (pd_Bytes d)"
  shows "assemble_snapshot read m = Inr (sorted_snapshot s)"
proof -
  define ts where "ts = sort_key (pd_RelativePath \<circ> stored_doc) (all_stored s)"
  have ts: "docs = map stored_doc ts" "mset ts = mset (all_stored s)"
    using prepareDocuments_stored [OF docs fits] by (simp_all add: ts_def sort_key_map)
  have rels: "map pd_RelativePath docs = map stored_rel ts"
    by (simp add: ts(1) stored_doc_def documentEntry_def)
  have ok: "stored_fits t \<and> stored_valid t \<and> read (stored_rel t) = Inr (text_of (stored_json t))" if "t \<in> set (all_stored s)" for t
  proof -
    have "stored_doc t \<in> set docs" using that mset_eq_setD [OF ts(2)] by (simp add: ts(1))
    then show ?thesis
      using files that valid_stored [OF valid that] fits by (auto simp: storable_def stored_doc_def documentEntry_def)
  qed
  have "sorted (map pd_RelativePath docs)" using prepareDocuments_stored [OF docs fits] by simp
  note m = built_manifest [OF built this collectArtifactRefs_sorted(3) [OF arts]]
  have case_doc: "read ''case-manifest.json'' = Inr (text_of (CaseManifest_json (snap_Case s)))"
    "stored_fits (SCase (snap_Case s))"
    using ok [of "SCase (snap_Case s)"] by (simp_all add: all_stored_def)
  have "load_entries read (empty_snapshot (snap_Case s)) (elems (smf_Documents m)) =
      Inr (fold add_stored ts (empty_snapshot (snap_Case s)))"
    using load_entries_stored [of ts read] ok mset_eq_setD [OF ts(2)] by (simp add: m(1) ts(1))
  moreover have "sorted_snapshot (fold add_stored ts (empty_snapshot (snap_Case s))) = sorted_snapshot s"
    using fold_all_stored [OF ts(2)] valid_distinct_ids [OF valid] by (simp add: distinct_ids_sorted)
  moreover have "compareManifestArtifacts m (sorted_snapshot s) = None"
    using compare_own_entries [OF collectArtifactRefs_sorted(2) [OF arts]]
    by (simp add: compareManifestArtifacts_def collectArtifactRefs_sorted(1) [OF arts] m(2))
  moreover have "compareCanonicalDocuments m (sorted_snapshot s) = None"
    using one_case_manifest_stored [OF ts(2)] docs m(1)
    by (intro compare_own_documents) (simp_all add: prepareDocuments_sorted rels)
  moreover have "CaseManifest_Validate (snap_Case s) = None"
    using valid_case(1) [OF valid] by (simp add: sorted_snapshot_def)
  ultimately show ?thesis
    using valid stored_decodes(2) [OF case_doc(2)]
    by (simp add: assemble_snapshot_def case_doc(1) DecodeAndValidateJSON_def map_error_def Let_def)
qed

text \<open>
  C4. A snapshot survives storage: its documents are written with the names and bytes
  \<^verbatim>\<open>prepareDocuments\<close> gives them and listed in the manifest \<^verbatim>\<open>buildSnapshotManifest\<close> makes;
  reading the files of that manifest, which comes upon them in path order, gives the snapshot with
  the documents of each kind in identifier order, nothing lost and nothing changed, and every check
  of the reader against the manifest passes. JSON must be able to hold the documents
  (\<open>storable\<close>: valid UTF-8, integers of 64 bits, maps in key order, nesting in bounds).
\<close>

theorem stored_snapshot_is_read_back:
  assumes valid: "Snapshot_Validate False (sorted_snapshot s) = None" and fits: "storable s"
    and docs: "prepareDocuments s = Inr docs" and arts: "collectArtifactRefs s = Inr arts"
    and built: "buildSnapshotManifest c u docs (map artifact_entry arts) = Inr (m, raw)"
    and files: "\<forall>d \<in> set docs. read (pd_RelativePath d) = Inr (pd_Bytes d)"
  shows "assemble_snapshot read m = Inr (sorted_snapshot s)"
  using assms by (rule snapshot_read_back)

text \<open>A case with one target, one piece of evidence and one artifact, read from the files made for it.\<close>

lemma ex_sorted: "sorted_snapshot ex_with_artifact = ex_with_artifact"
  by (simp add: sorted_snapshot_def ex_with_artifact_def ex_legacy_def SnapshotFromImporterResult_def)

lemma ex_all_stored:
  "all_stored ex_with_artifact = [SCase ex_manifest, STarget ex_target, SEvidence (ex_evidence\<lparr>ev_Artifacts := Some [ex_artifact]\<rparr>)]"
  by (simp add: all_stored_def ex_with_artifact_def ex_legacy_fields ex_legacy_def SnapshotFromImporterResult_def)

lemma raw_fits_empty: "Suc d \<le> max_nesting \<Longrightarrow> raw_fits (Suc d) ''{}''"
proof -
  assume "Suc d \<le> max_nesting"
  moreover have "json_valid ''{}''" "json_compact (BeginValue, []) ''{}'' = ''{}''" "skip_space ''{}'' = ''{}''"
    "skip_space ''}'' = ''}''" by code_simp+
  ultimately show ?thesis by (simp add: raw_fits_def parse_value_obj)
qed

lemma ex_utf8:
  "utf8_valid SchemaEvidenceBundle" "utf8_valid SchemaTarget" "utf8_valid SchemaCaseManifest" "utf8_valid SchemaVersion"
  "utf8_valid ex_evidence_id" "utf8_valid ex_case_id" "utf8_valid ex_target_id" "utf8_valid ex_time"
  "utf8_valid CaseStateSnapshotted" "utf8_valid (ex_id ''artifact-'' CHR ''b'')" "utf8_valid (replicate 64 CHR ''0'')"
  by code_simp+

lemma ex_docs_fit:
  "Target_codable ex_target" "EvidenceBundle_codable (ex_evidence\<lparr>ev_Artifacts := Some [ex_artifact]\<rparr>)"
  "json_fits max_nesting (CaseManifest_json ex_manifest)" "json_fits max_nesting (Target_json ex_target)"
  "json_fits max_nesting (EvidenceBundle_json (ex_evidence\<lparr>ev_Artifacts := Some [ex_artifact]\<rparr>))"
proof -
  note docs = ex_utf8 ex_target_def ex_manifest_def ex_evidence_def ex_artifact_def CaseManifest_json_def Target_json_def
    EvidenceBundle_json_def ArtifactRef_json_def json_docs_def json_strs_def json_map_def omit_empty_def max_nesting_def utf8_valid_ascii
  have raw: "raw_fits 9999 ''{}''" using raw_fits_empty [of 9998] by (simp add: max_nesting_def)
  show "Target_codable ex_target" "EvidenceBundle_codable (ex_evidence\<lparr>ev_Artifacts := Some [ex_artifact]\<rparr>)" by code_simp+
  show "json_fits max_nesting (CaseManifest_json ex_manifest)" by (simp add: docs)
  show "json_fits max_nesting (Target_json ex_target)" by (simp add: docs)
  show "json_fits max_nesting (EvidenceBundle_json (ex_evidence\<lparr>ev_Artifacts := Some [ex_artifact]\<rparr>))"
    by (simp add: docs raw)
qed

lemma ex_storable: "storable ex_with_artifact"
  by (simp add: storable_def ex_all_stored stored_fits_def ex_docs_fit)

lemma prepare_kind_short:
  "prepare_kind what dir ident validate enc [] = Inr []"
  "validate (ident x) = None \<Longrightarrow> json_fits max_nesting (enc x) \<Longrightarrow>
     prepare_kind what dir ident validate enc [x] = Inr [documentEntry (dir @ ident x @ ''.json'') (text_of (enc x))]"
  using decode_marshal(1) [of "enc x"] by (simp_all add: prepare_kind_def map_error_def)

lemma ex_prepared: "\<exists>docs. prepareDocuments ex_with_artifact = Inr docs"
proof -
  have "validateTargetID (tg_TargetID ex_target) = None" "validateEvidenceID (ev_EvidenceID ex_evidence) = None"
    by (simp_all add: validateTargetID_def validateEvidenceID_def check_id_def ex_target_def ex_evidence_def)
  moreover have "snap_Case ex_with_artifact = ex_manifest" "snap_Targets ex_with_artifact = [ex_target]"
    "snap_WorkflowState ex_with_artifact = None" "snap_EvidenceBundles ex_with_artifact = [ex_evidence\<lparr>ev_Artifacts := Some [ex_artifact]\<rparr>]"
    "snap_Findings ex_with_artifact = []" "snap_RepairPlans ex_with_artifact = []" "snap_ExecutionEvents ex_with_artifact = []"
    "snap_VerificationReports ex_with_artifact = []" "snap_CoordinatorEvents ex_with_artifact = []"
    "snap_EvidenceAcquisitions ex_with_artifact = []" "snap_AgentConsultations ex_with_artifact = []"
    by (simp_all add: ex_with_artifact_def ex_legacy_def SnapshotFromImporterResult_def)
  ultimately show ?thesis
    by (simp add: prepareDocuments_def prepared_kinds_def prepare_workflow_def prepare_one_stored prepare_kind_short ex_docs_fit)
qed

lemma ex_collected: "collectArtifactRefs ex_with_artifact = Inr [ex_artifact]"
proof -
  have "collect_refs [] [ex_artifact] = Inr [ex_artifact]" by code_simp
  then show ?thesis by (simp add: collectArtifactRefs_def ex_with_artifact_def)
qed

lemma manifest_total: "\<exists>m raw. buildSnapshotManifest c u docs arts = Inr (m, raw)"
proof -
  have raws: "raws_valid (json_docs snapshotDocumentEntry_json d)" "raws_valid (json_docs snapshotArtifactEntry_json a)" for d a
    by (simp_all add: raws_valid_docs snapshotDocumentEntry_json_def snapshotDocumentEntry_fields_def
        snapshotArtifactEntry_json_def snapshotArtifactEntry_fields_def)
  have ident: "\<exists>sha sid. content_identity c u ds as = Inr (sha, sid)" for ds as
  proof -
    have "raws_valid (manifest_body c u ds as)"
      unfolding manifest_body_def using raws(1) [of "Some ds"] raws(2) [of "Some as"] by (simp del: raws_valid_docs)
    then obtain b where "marshal (manifest_body c u ds as) = Inr b" using marshal_total(1) by blast
    then show ?thesis by (simp add: content_identity_def Let_def)
  qed
  have "\<exists>raw. marshal (snapshotManifest_json m) = Inr raw" for m
    by (rule marshal_total(1)) (simp add: snapshotManifest_json_def snapshotManifest_fields_def raws del: raws_valid_docs)
  then show ?thesis
    using ident [of "sort_key sde_RelativePath (map document_entry docs)" "sort_key sae_ArtifactID arts"]
    by (auto simp: buildSnapshotManifest_def Let_def)
qed

lemma stored_doc_fields: "pd_RelativePath (stored_doc t) = stored_rel t" "pd_Bytes (stored_doc t) = text_of (stored_json t)"
  by (simp_all add: stored_doc_def documentEntry_def)

theorem stored_snapshot_is_read_back_witness:
  "\<exists>docs m raw. prepareDocuments ex_with_artifact = Inr docs \<and>
     buildSnapshotManifest ex_case_id ex_time docs (map artifact_entry [ex_artifact]) = Inr (m, raw) \<and>
     assemble_snapshot (\<lambda>p. case map_of (map (\<lambda>d. (pd_RelativePath d, pd_Bytes d)) docs) p of
         Some b \<Rightarrow> Inr b | None \<Rightarrow> Inl (Errorf ''no such file'' [])) m = Inr ex_with_artifact"
proof -
  obtain docs where docs: "prepareDocuments ex_with_artifact = Inr docs" using ex_prepared ..
  obtain m raw where built: "buildSnapshotManifest ex_case_id ex_time docs (map artifact_entry [ex_artifact]) = Inr (m, raw)"
    using manifest_total by blast
  have "set docs = stored_doc ` set (all_stored ex_with_artifact)" "distinct (map pd_RelativePath docs)"
    using prepareDocuments_stored [OF docs ex_storable]
    by (auto simp: ex_all_stored stored_doc_fields)
  then have files: "\<forall>d \<in> set docs. map_of (map (\<lambda>d. (pd_RelativePath d, pd_Bytes d)) docs) (pd_RelativePath d) = Some (pd_Bytes d)"
    by (auto intro!: map_of_is_SomeI simp: comp_def)
  show ?thesis
    using docs built stored_snapshot_is_read_back [OF _ ex_storable docs ex_collected built] files
    by (intro exI [of _ docs] exI [of _ m] exI [of _ raw]) (simp add: ex_sorted ex_with_artifact_valid)
qed

end
