(* ===== verification/CaseRecover.thy ===== *)
theory CaseRecover
  imports CaseStore
begin

text \<open>
  Verification and recovery of a case (\<^verbatim>\<open>verify.go\<close> and \<^verbatim>\<open>recover.go\<close> of
  \<^verbatim>\<open>internal/recovery/casestore\<close>): the read-only integrity report and inspection, and the removal
  of staging areas and temporary files. A message of a report is kept as the error whose text it is.
  Traversals visit the entries a directory had when it was read; the removal of a file removes no
  other entry of its walk.
\<close>

section \<open>Listing\<close>

type_synonym message = go_error

definition note_error :: "string \<Rightarrow> go_error \<Rightarrow> message" where
  "note_error what e = Errorf (what @ '': %v'') [GVal e]"

text \<open>\<^verbatim>\<open>os.Stat\<close> says that the path is missing; links are followed.\<close>

definition stat_missing :: "files \<Rightarrow> path \<Rightarrow> bool" where
  "stat_missing fs p \<longleftrightarrow> p \<noteq> [] \<and> (look fs p = None \<or> look fs p = Some (Link None))"

text \<open>
  The entries of a managed directory, or the error of the checks before: \<open>Inr None\<close> when it is missing.
\<close>

definition managed_entries :: "Store \<Rightarrow> files \<Rightarrow> path \<Rightarrow> string list option result" where
  "managed_entries st fs d =
     (case unless_missing (managed st d fs) of
        Some e \<Rightarrow> Inl e
      | None \<Rightarrow> (case ReadDir fs d of
          Inl e \<Rightarrow> if IsNotExist e then Inr None else Inl e
        | Inr names \<Rightarrow> Inr (Some names)))"

definition trimCaseRel :: "path \<Rightarrow> path \<Rightarrow> string" where
  "trimCaseRel caseD p = slash_join (drop (length caseD) p)"

definition readManifest :: "Store \<Rightarrow> files \<Rightarrow> string \<Rightarrow> string \<Rightarrow> snapshotManifest result" where
  "readManifest st fs c sid =
     bindE (ReadFile fs (manifest_path st c sid)) (\<lambda>raw. decode_document dec_snapshotManifest zero_snapshotManifest raw)"

definition artifact_digests :: "snapshotManifest \<Rightarrow> string list" where
  "artifact_digests m = map sae_SHA256 (elems (smf_Artifacts m))"

definition listReferencedBlobs :: "Store \<Rightarrow> files \<Rightarrow> string \<Rightarrow> commitRecord list \<Rightarrow> string list" where
  "listReferencedBlobs st fs c chain =
     concat (map (\<lambda>r. case readManifest st fs c (rec_SnapshotID r) of Inl _ \<Rightarrow> [] | Inr m \<Rightarrow> artifact_digests m) chain)"

definition appendUniqueString :: "string list \<Rightarrow> string \<Rightarrow> string list" where
  "appendUniqueString dst v = (if v \<in> set dst then dst else dst @ [v])"

section \<open>Verify\<close>

definition IntegrityOK :: string where "IntegrityOK = ''ok''"
definition IntegrityDegraded :: string where "IntegrityDegraded = ''degraded''"
definition IntegrityCorrupt :: string where "IntegrityCorrupt = ''corrupt''"

record IntegrityReport =
  ir_CaseID :: string
  ir_CheckedAt :: string
  ir_LatestCommit :: string
  ir_CommitCount :: nat
  ir_SnapshotCount :: nat
  ir_VerifiedDocuments :: nat
  ir_VerifiedArtifacts :: nat
  ir_StagingEntries :: "string list"
  ir_OrphanSnapshots :: "string list"
  ir_OrphanArtifacts :: "string list"
  ir_TemporaryFiles :: "string list"
  ir_ValidCommitIDs :: "string list"
  ir_BrokenCommitTail :: "string list"
  ir_Warnings :: "message list"
  ir_Errors :: "message list"
  ir_Status :: string

definition degrade :: "string \<Rightarrow> string" where
  "degrade s = (if s = IntegrityCorrupt then s else IntegrityDegraded)"

definition corrupt :: "message \<Rightarrow> IntegrityReport \<Rightarrow> IntegrityReport" where
  "corrupt e r = r\<lparr>ir_Status := IntegrityCorrupt, ir_Errors := ir_Errors r @ [e]\<rparr>"

definition degraded :: "IntegrityReport \<Rightarrow> IntegrityReport" where
  "degraded r = r\<lparr>ir_Status := degrade (ir_Status r)\<rparr>"

definition empty_report :: "string \<Rightarrow> string \<Rightarrow> IntegrityReport" where
  "empty_report c now =
     \<lparr>ir_CaseID = c, ir_CheckedAt = now, ir_LatestCommit = [], ir_CommitCount = 0, ir_SnapshotCount = 0,
      ir_VerifiedDocuments = 0, ir_VerifiedArtifacts = 0, ir_StagingEntries = [], ir_OrphanSnapshots = [],
      ir_OrphanArtifacts = [], ir_TemporaryFiles = [], ir_ValidCommitIDs = [], ir_BrokenCommitTail = [],
      ir_Warnings = [], ir_Errors = [], ir_Status = IntegrityOK\<rparr>"

definition note_tail :: "string list \<Rightarrow> IntegrityReport \<Rightarrow> IntegrityReport" where
  "note_tail tail r =
     (let ms = map (\<lambda>n. Sentinel (''broken commit tail: '' @ n)) tail in
      r\<lparr>ir_BrokenCommitTail := ir_BrokenCommitTail r @ tail, ir_Warnings := ir_Warnings r @ ms,
        ir_Errors := ir_Errors r @ ms\<rparr>)"

text \<open>One commit of the valid prefix: its snapshot, its provenance and its manifest. Blobs referenced so far are \<open>bs\<close>.\<close>

definition verify_commit ::
    "Store \<Rightarrow> files \<Rightarrow> string \<Rightarrow> commitRecord list \<Rightarrow> nat \<Rightarrow> IntegrityReport \<times> string list \<Rightarrow> IntegrityReport \<times> string list" where
  "verify_commit st fs c chain i s =
     (case s of (r0, bs) \<Rightarrow>
      let rec = chain ! i; r = r0\<lparr>ir_ValidCommitIDs := ir_ValidCommitIDs r0 @ [rec_CommitID rec]\<rparr>;
          wrapped = (\<lambda>e. Errorf ''commit %s: %v'' [GStr (rec_CommitID rec), GVal e]) in
      case loadSnapshotAtCommit st fs c rec of
        Inl e \<Rightarrow> (corrupt (wrapped e) r, bs)
      | Inr snap \<Rightarrow>
          (case validateAcquisitionCommitProvenance (loadSnapshotAtCommit st fs) c chain i snap of
             Some e \<Rightarrow> (corrupt (wrapped e) r, bs)
           | None \<Rightarrow>
               (case readManifest st fs c (rec_SnapshotID rec) of
                  Inl e \<Rightarrow> (corrupt e r, bs)
                | Inr m \<Rightarrow>
                    (r\<lparr>ir_VerifiedDocuments := ir_VerifiedDocuments r + length (elems (smf_Documents m)),
                       ir_VerifiedArtifacts := ir_VerifiedArtifacts r + length (elems (smf_Artifacts m))\<rparr>,
                     bs @ artifact_digests m))))"

definition verify_commits :: "Store \<Rightarrow> files \<Rightarrow> string \<Rightarrow> commitRecord list \<Rightarrow> IntegrityReport \<Rightarrow> IntegrityReport \<times> string list" where
  "verify_commits st fs c chain r = fold (verify_commit st fs c chain) [0..<length chain] (r, [])"

definition verify_snapshot_entry ::
    "Store \<Rightarrow> files \<Rightarrow> string \<Rightarrow> string list \<Rightarrow> string \<Rightarrow> IntegrityReport \<Rightarrow> IntegrityReport" where
  "verify_snapshot_entry st fs c committed n r =
     (let p = join_path (snapshotsDir st c) n in
      if look fs p \<noteq> Some Dir then r
      else case managed st p fs of
        Some e \<Rightarrow> corrupt (note_error ''read snapshots'' e) r
      | None \<Rightarrow> if n \<in> set committed then r
                else degraded (r\<lparr>ir_OrphanSnapshots := ir_OrphanSnapshots r @ [n]\<rparr>))"

definition verify_snapshots :: "Store \<Rightarrow> files \<Rightarrow> string \<Rightarrow> string list \<Rightarrow> IntegrityReport \<Rightarrow> IntegrityReport" where
  "verify_snapshots st fs c committed r =
     (case managed_entries st fs (snapshotsDir st c) of
        Inl e \<Rightarrow> corrupt (note_error ''read snapshots'' e) r
      | Inr None \<Rightarrow> r
      | Inr (Some names) \<Rightarrow>
          fold (verify_snapshot_entry st fs c committed) names (r\<lparr>ir_SnapshotCount := length names\<rparr>))"

text \<open>The walk over the artifacts ends at the first path that is not safe, with what was found before it.\<close>

fun verify_walk ::
    "Store \<Rightarrow> files \<Rightarrow> string \<Rightarrow> string list \<Rightarrow> path list \<Rightarrow> IntegrityReport \<Rightarrow> IntegrityReport \<times> go_err" where
  "verify_walk st fs c blobs [] r = (r, None)"
| "verify_walk st fs c blobs (p # ps) r =
     (case managed st p fs of
        Some e \<Rightarrow> (r, Some e)
      | None \<Rightarrow>
          (let name = last p; rel = trimCaseRel (caseDir st c) p in
           verify_walk st fs c blobs ps
            (if look fs p = Some Dir then r
             else if isTempStoreName name
             then degraded (r\<lparr>ir_TemporaryFiles := ir_TemporaryFiles r @ [rel]\<rparr>)
             else if \<not> reSHA256 name \<or> name \<in> set blobs then r
             else degraded (r\<lparr>ir_OrphanArtifacts := ir_OrphanArtifacts r @ [rel]\<rparr>))))"

definition verify_staging :: "Store \<Rightarrow> files \<Rightarrow> string \<Rightarrow> IntegrityReport \<Rightarrow> IntegrityReport" where
  "verify_staging st fs c r =
     (case managed_entries st fs (stagingDir st c) of
        Inl e \<Rightarrow> corrupt (note_error ''read staging'' e) r
      | Inr names \<Rightarrow>
          fold (\<lambda>n r. case managed st (join_path (stagingDir st c) n) fs of
              Some e \<Rightarrow> corrupt (note_error ''read staging'' e) r
            | None \<Rightarrow> degraded (r\<lparr>ir_StagingEntries := ir_StagingEntries r @ [n]\<rparr>)) (elems names) r)"

definition verify_temp_commits :: "Store \<Rightarrow> files \<Rightarrow> string \<Rightarrow> IntegrityReport \<Rightarrow> IntegrityReport" where
  "verify_temp_commits st fs c r =
     (case managed_entries st fs (commitsDir st c) of
        Inl e \<Rightarrow> corrupt (note_error ''read commits'' e) r
      | Inr names \<Rightarrow>
          fold (\<lambda>n r. case managed st (join_path (commitsDir st c) n) fs of
              Some e \<Rightarrow> corrupt (note_error ''read commits'' e) r
            | None \<Rightarrow> if isTempStoreName n
                      then degraded (r\<lparr>ir_TemporaryFiles := ir_TemporaryFiles r @ [''commits/'' @ n]\<rparr>) else r)
            (elems names) r)"

definition verify_artifacts :: "Store \<Rightarrow> files \<Rightarrow> string \<Rightarrow> string list \<Rightarrow> IntegrityReport \<Rightarrow> IntegrityReport" where
  "verify_artifacts st fs c blobs r =
     (if Lstat fs (artifactsDir st c) = Inl (path_error ''ENOENT'' (artifactsDir st c)) then r
      else case verify_walk st fs c blobs (walk fs (artifactsDir st c)) r of
        (r', None) \<Rightarrow> r'
      | (r', Some e) \<Rightarrow> if IsNotExist e then r' else corrupt (note_error ''walk artifacts'' e) r')"

definition verify_report :: "Store \<Rightarrow> files \<Rightarrow> string \<Rightarrow> IntegrityReport \<Rightarrow> IntegrityReport" where
  "verify_report st fs c r0 =
     (case ensureCaseTreeSafe st c fs of
        Some e \<Rightarrow> corrupt e r0
      | None \<Rightarrow>
          if stat_missing fs (caseDir st c) then corrupt (Sentinel ''case directory missing'') r0
          else
            (case loadCommitChainPrefix st fs c of (chain, tail, e) \<Rightarrow>
             let r1 = note_tail tail r0;
                 r2 = (case e of None \<Rightarrow> r1 | Some x \<Rightarrow> corrupt x r1);
                 r3 = r2\<lparr>ir_CommitCount := length chain,
                        ir_LatestCommit := (if chain = [] then ir_LatestCommit r2 else rec_CommitID (last chain))\<rparr>;
                 (r4, blobs) = verify_commits st fs c chain r3;
                 r5 = verify_snapshots st fs c (map rec_SnapshotID chain) r4 in
             case unless_missing (managed st (artifactsDir st c) fs) of
               Some x \<Rightarrow> corrupt (note_error ''walk artifacts'' x) r5
             | None \<Rightarrow> verify_temp_commits st fs c (verify_staging st fs c (verify_artifacts st fs c blobs r5))))"

definition Verify :: "Store \<Rightarrow> string \<Rightarrow> IntegrityReport io" where
  "Verify st c =
     andThen ctx_Err (\<lambda>_.
     andThen (check_act (validateCaseID c)) (\<lambda>_.
     andThen (read_act (\<lambda>w. (w_clock w, w))) (\<lambda>now.
     files_of (\<lambda>fs. verify_report st fs c (empty_report c (format_rfc3339 now))))))"

section \<open>InspectRecovery\<close>

record RecoveryInspection =
  ri_CaseID :: string
  ri_InspectedAt :: string
  ri_ValidCommittedSnapshots :: "string list"
  ri_ValidCommitIDs :: "string list"
  ri_ReferencedFinalSnapshots :: "string list"
  ri_BrokenTailSnapshots :: "string list"
  ri_StagingTransactions :: "string list"
  ri_TemporaryCommitFiles :: "string list"
  ri_PublishedUncommitted :: "string list"
  ri_UnreferencedArtifactBlobs :: "string list"
  ri_MalformedFinalCommits :: "string list"
  ri_BrokenCommitTail :: "string list"
  ri_BrokenCommitChain :: bool
  ri_MissingManifests :: "string list"
  ri_HashMismatches :: "message list"
  ri_Warnings :: "message list"

definition empty_inspection :: "string \<Rightarrow> string \<Rightarrow> RecoveryInspection" where
  "empty_inspection c now =
     \<lparr>ri_CaseID = c, ri_InspectedAt = now, ri_ValidCommittedSnapshots = [], ri_ValidCommitIDs = [],
      ri_ReferencedFinalSnapshots = [], ri_BrokenTailSnapshots = [], ri_StagingTransactions = [],
      ri_TemporaryCommitFiles = [], ri_PublishedUncommitted = [], ri_UnreferencedArtifactBlobs = [],
      ri_MalformedFinalCommits = [], ri_BrokenCommitTail = [], ri_BrokenCommitChain = False,
      ri_MissingManifests = [], ri_HashMismatches = [], ri_Warnings = []\<rparr>"

definition warn :: "message \<Rightarrow> RecoveryInspection \<Rightarrow> RecoveryInspection" where
  "warn e r = r\<lparr>ri_Warnings := ri_Warnings r @ [e]\<rparr>"

definition malformed_commit :: "string \<Rightarrow> RecoveryInspection \<Rightarrow> RecoveryInspection" where
  "malformed_commit n r = r\<lparr>ri_MalformedFinalCommits := appendUniqueString (ri_MalformedFinalCommits r) n\<rparr>"

text \<open>One commit file: a record, a malformed name or a warning. \<open>parseable\<close> plays the map.\<close>

definition scan_commit_file ::
    "Store \<Rightarrow> files \<Rightarrow> string \<Rightarrow> string \<Rightarrow> (string \<times> commitRecord) list \<times> string list \<times> message list \<Rightarrow>
      (string \<times> commitRecord) list \<times> string list \<times> message list" where
  "scan_commit_file st fs c n s =
     (case s of (parseable, malformed, warnings) \<Rightarrow>
      let p = join_path (commitsDir st c) n in
      if look fs p = Some Dir \<or> \<not> final_name n then s
      else case managed st p fs of
        Some e \<Rightarrow> (parseable, malformed, warnings @ [note_error ''read commits'' e])
      | None \<Rightarrow>
          (case ReadFile fs p of
             Inl _ \<Rightarrow> (parseable, malformed @ [n], warnings)
           | Inr raw \<Rightarrow>
               (case parse_commit_file c n raw of
                  None \<Rightarrow> (parseable, malformed @ [n], warnings)
                | Some r \<Rightarrow> (parseable @ [(n, r)], malformed, warnings))))"

definition scanParseableFinalCommits ::
    "Store \<Rightarrow> files \<Rightarrow> string \<Rightarrow> (string \<times> commitRecord) list \<times> string list \<times> message list" where
  "scanParseableFinalCommits st fs c =
     (case managed_entries st fs (commitsDir st c) of
        Inl e \<Rightarrow> ([], [], [note_error ''read commits'' e])
      | Inr names \<Rightarrow> fold (scan_commit_file st fs c) (elems names) ([], [], []))"

definition inspect_commit :: "Store \<Rightarrow> files \<Rightarrow> string \<Rightarrow> commitRecord \<Rightarrow> RecoveryInspection \<Rightarrow> RecoveryInspection" where
  "inspect_commit st fs c rec r0 =
     (let r = r0\<lparr>ri_ValidCommitIDs := ri_ValidCommitIDs r0 @ [rec_CommitID rec]\<rparr> in
      case loadSnapshotAtCommit st fs c rec of
        Inl e \<Rightarrow> r\<lparr>ri_HashMismatches := ri_HashMismatches r @ [note_error (rec_SnapshotID rec) e]\<rparr>
      | Inr _ \<Rightarrow> r\<lparr>ri_ValidCommittedSnapshots := ri_ValidCommittedSnapshots r @ [rec_SnapshotID rec]\<rparr>)"

text \<open>\<open>ord\<close> is the order in which Go ranges over the map of parseable commits.\<close>

definition inspect_finals ::
    "Store \<Rightarrow> files \<Rightarrow> string \<Rightarrow> ((string \<times> commitRecord) list \<Rightarrow> (string \<times> commitRecord) list) \<Rightarrow> string list \<Rightarrow>
      RecoveryInspection \<Rightarrow> RecoveryInspection" where
  "inspect_finals st fs c ord tail r0 =
     (case scanParseableFinalCommits st fs c of (parseable, malformed, warnings) \<Rightarrow>
      let r1 = fold malformed_commit malformed r0;
          r2 = r1\<lparr>ri_Warnings := ri_Warnings r1 @ warnings\<rparr>;
          r3 = r2\<lparr>ri_ReferencedFinalSnapshots :=
                 fold (\<lambda>(n, rec) xs. appendUniqueString xs (rec_SnapshotID rec)) (ord parseable) (ri_ReferencedFinalSnapshots r2)\<rparr> in
      r3\<lparr>ri_BrokenTailSnapshots :=
           fold (\<lambda>n xs. case map_of parseable n of None \<Rightarrow> xs | Some rec \<Rightarrow> appendUniqueString xs (rec_SnapshotID rec))
             tail (ri_BrokenTailSnapshots r3)\<rparr>)"

definition inspect_snapshot_entry ::
    "Store \<Rightarrow> files \<Rightarrow> string \<Rightarrow> string list \<Rightarrow> string \<Rightarrow> RecoveryInspection \<Rightarrow> RecoveryInspection" where
  "inspect_snapshot_entry st fs c known n r =
     (let p = join_path (snapshotsDir st c) n in
      if look fs p \<noteq> Some Dir then r
      else case managed st p fs of
        Some e \<Rightarrow> warn (note_error ''read snapshots'' e) r
      | None \<Rightarrow>
          if n \<in> set known then r
          else if stat_missing fs (join_path p ''snapshot-manifest.json'')
          then r\<lparr>ri_MissingManifests := ri_MissingManifests r @ [n]\<rparr>
          else r\<lparr>ri_PublishedUncommitted := ri_PublishedUncommitted r @ [n]\<rparr>)"

definition inspect_staging_entry :: "Store \<Rightarrow> files \<Rightarrow> string \<Rightarrow> string \<Rightarrow> RecoveryInspection \<Rightarrow> RecoveryInspection" where
  "inspect_staging_entry st fs c n r =
     (let p = join_path (stagingDir st c) n in
      case managed st p fs of
        Some e \<Rightarrow> warn (note_error ''read staging'' e) r
      | None \<Rightarrow> if look fs p = Some Dir \<and> isStagingTxnName n
                then r\<lparr>ri_StagingTransactions := ri_StagingTransactions r @ [n]\<rparr> else r)"

definition inspect_commit_entry :: "Store \<Rightarrow> files \<Rightarrow> string \<Rightarrow> string \<Rightarrow> RecoveryInspection \<Rightarrow> RecoveryInspection" where
  "inspect_commit_entry st fs c n r =
     (let p = join_path (commitsDir st c) n in
      case managed st p fs of
        Some e \<Rightarrow> warn (note_error ''read commits'' e) r
      | None \<Rightarrow>
          if isTempStoreName n then r\<lparr>ri_TemporaryCommitFiles := ri_TemporaryCommitFiles r @ [n]\<rparr>
          else if \<not> has_suffix ''.json'' n then r
          else (case ReadFile fs p of
                  Inl _ \<Rightarrow> malformed_commit n r
                | Inr raw \<Rightarrow>
                    (case decode_document dec_commitRecord zero_commitRecord raw of
                       Inl _ \<Rightarrow> malformed_commit n r
                     | Inr rec \<Rightarrow>
                         if commitFileName (rec_Sequence rec) (rec_CommitID rec) \<noteq> n then malformed_commit n r else r)))"

fun inspect_walk ::
    "Store \<Rightarrow> files \<Rightarrow> string \<Rightarrow> string list \<Rightarrow> path list \<Rightarrow> RecoveryInspection \<Rightarrow> RecoveryInspection \<times> go_err" where
  "inspect_walk st fs c blobs [] r = (r, None)"
| "inspect_walk st fs c blobs (p # ps) r =
     (case managed st p fs of
        Some e \<Rightarrow> (r, Some e)
      | None \<Rightarrow>
          (let name = last p in
           inspect_walk st fs c blobs ps
            (if look fs p = Some Dir \<or> isTempStoreName name \<or> \<not> reSHA256 name \<or> name \<in> set blobs then r
             else r\<lparr>ri_UnreferencedArtifactBlobs := ri_UnreferencedArtifactBlobs r @ [trimCaseRel (caseDir st c) p]\<rparr>)))"

definition inspect_artifacts :: "Store \<Rightarrow> files \<Rightarrow> string \<Rightarrow> commitRecord list \<Rightarrow> RecoveryInspection \<Rightarrow> RecoveryInspection" where
  "inspect_artifacts st fs c chain r =
     (let d = artifactsDir st c in
      case unless_missing (managed st d fs) of
        Some e \<Rightarrow> warn (note_error ''walk artifacts'' e) r
      | None \<Rightarrow>
          if Lstat fs d = Inl (path_error ''ENOENT'' d) then r
          else case inspect_walk st fs c (listReferencedBlobs st fs c chain) (walk fs d) r of
            (r', None) \<Rightarrow> r'
          | (r', Some e) \<Rightarrow> if IsNotExist e then r' else warn (note_error ''walk artifacts'' e) r')"

text \<open>The entries of one directory, each handled by \<open>f\<close>; an error is a warning.\<close>

definition inspect_entries ::
    "Store \<Rightarrow> files \<Rightarrow> path \<Rightarrow> string \<Rightarrow> (string \<Rightarrow> RecoveryInspection \<Rightarrow> RecoveryInspection) \<Rightarrow>
      RecoveryInspection \<Rightarrow> RecoveryInspection" where
  "inspect_entries st fs d what f r =
     (case managed_entries st fs d of Inl e \<Rightarrow> warn (note_error what e) r | Inr names \<Rightarrow> fold f (elems names) r)"

definition inspection ::
    "Store \<Rightarrow> files \<Rightarrow> string \<Rightarrow> ((string \<times> commitRecord) list \<Rightarrow> (string \<times> commitRecord) list) \<Rightarrow>
      RecoveryInspection \<Rightarrow> RecoveryInspection" where
  "inspection st fs c ord r0 =
     (case ensureCaseTreeSafe st c fs of
        Some e \<Rightarrow> warn e (r0\<lparr>ri_BrokenCommitChain := True\<rparr>)
      | None \<Rightarrow>
          (case loadCommitChainPrefix st fs c of (chain, tail, e) \<Rightarrow>
           let r1 = r0\<lparr>ri_BrokenCommitTail := ri_BrokenCommitTail r0 @ tail\<rparr>;
               r2 = (case e of None \<Rightarrow> r1 | Some x \<Rightarrow> warn x (r1\<lparr>ri_BrokenCommitChain := True\<rparr>));
               r3 = fold (inspect_commit st fs c) chain r2;
               r4 = inspect_finals st fs c ord tail r3;
               known = map rec_SnapshotID chain @ map (\<lambda>(n, rec). rec_SnapshotID rec) (fst (scanParseableFinalCommits st fs c));
               r5 = inspect_entries st fs (snapshotsDir st c) ''read snapshots'' (inspect_snapshot_entry st fs c known) r4;
               r6 = inspect_entries st fs (stagingDir st c) ''read staging'' (inspect_staging_entry st fs c) r5;
               r7 = inspect_entries st fs (commitsDir st c) ''read commits'' (inspect_commit_entry st fs c) r6 in
           inspect_artifacts st fs c chain r7))"

definition InspectRecovery ::
    "((string \<times> commitRecord) list \<Rightarrow> (string \<times> commitRecord) list) \<Rightarrow> Store \<Rightarrow> string \<Rightarrow> RecoveryInspection io" where
  "InspectRecovery ord st c =
     andThen ctx_Err (\<lambda>_.
     andThen (check_act (validateCaseID c)) (\<lambda>_.
     andThen (read_act (\<lambda>w. (w_clock w, w))) (\<lambda>now.
     files_of (\<lambda>fs. inspection st fs c ord (empty_inspection c (format_rfc3339 now))))))"

section \<open>CleanupStaging\<close>

record CleanupReport =
  cl_CaseID :: string
  cl_RemovedStaging :: "string list"
  cl_RemovedTemporary :: "string list"
  cl_PreservedSnapshots :: "string list"
  cl_Warnings :: "message list"

definition empty_cleanup :: "string \<Rightarrow> CleanupReport" where
  "empty_cleanup c = \<lparr>cl_CaseID = c, cl_RemovedStaging = [], cl_RemovedTemporary = [], cl_PreservedSnapshots = [], cl_Warnings = []\<rparr>"

definition cleanup_warn :: "message \<Rightarrow> CleanupReport \<Rightarrow> CleanupReport" where
  "cleanup_warn e r = r\<lparr>cl_Warnings := cl_Warnings r @ [e]\<rparr>"

text \<open>A loop that threads the report; its steps never fail.\<close>

fun each_report :: "('a \<Rightarrow> 'r \<Rightarrow> 'r io) \<Rightarrow> 'a list \<Rightarrow> 'r \<Rightarrow> 'r io" where
  "each_report f [] r = ret r"
| "each_report f (x # xs) r = andThen (f x r) (each_report f xs)"

definition preserved :: "Store \<Rightarrow> files \<Rightarrow> string \<Rightarrow> CleanupReport \<Rightarrow> CleanupReport" where
  "preserved st fs c r =
     (case managed_entries st fs (snapshotsDir st c) of
        Inl e \<Rightarrow> cleanup_warn (note_error ''read snapshots'' e) r
      | Inr names \<Rightarrow>
          fold (\<lambda>n r. let p = join_path (snapshotsDir st c) n in
            case managed st p fs of
              Some e \<Rightarrow> cleanup_warn (note_error ''read snapshots'' e) r
            | None \<Rightarrow> if look fs p = Some Dir then r\<lparr>cl_PreservedSnapshots := cl_PreservedSnapshots r @ [n]\<rparr> else r)
            (elems names) r)"

definition remove_staging :: "Store \<Rightarrow> string \<Rightarrow> string \<Rightarrow> CleanupReport \<Rightarrow> CleanupReport io" where
  "remove_staging st c n r =
     (let p = join_path (stagingDir st c) n in
      andThen (files_of (\<lambda>fs. (managed st p fs, look fs p = Some Dir))) (\<lambda>(unsafe, dir).
      case unsafe of
        Some e \<Rightarrow> ret (cleanup_warn (note_error ''read staging'' e) r)
      | None \<Rightarrow>
          if \<not> dir \<or> \<not> isStagingTxnName n then ret r
          else try_act (RemoveAll p)
            (\<lambda>_. ret (r\<lparr>cl_RemovedStaging := cl_RemovedStaging r @ [n]\<rparr>))
            (\<lambda>e. ret (cleanup_warn e r))))"

definition remove_temporary :: "Store \<Rightarrow> string \<Rightarrow> path \<Rightarrow> CleanupReport \<Rightarrow> CleanupReport io" where
  "remove_temporary st c p r =
     andThen (files_of (\<lambda>fs. (managed st p fs, look fs p = Some Dir))) (\<lambda>(unsafe, dir).
     case unsafe of
       Some e \<Rightarrow> ret (cleanup_warn (note_error ''walk temporary files'' e) r)
     | None \<Rightarrow>
         if dir \<or> \<not> isTempStoreName (last p) then ret r
         else try_act (Remove p)
           (\<lambda>_. ret (r\<lparr>cl_RemovedTemporary := cl_RemovedTemporary r @ [trimCaseRel (caseDir st c) p]\<rparr>))
           (\<lambda>e. ret (cleanup_warn e r)))"

definition walk_temporary :: "Store \<Rightarrow> string \<Rightarrow> path \<Rightarrow> CleanupReport \<Rightarrow> CleanupReport io" where
  "walk_temporary st c root r =
     andThen (files_of (\<lambda>fs. (unless_missing (managed st root fs), Lstat fs root, walk fs root))) (\<lambda>(unsafe, found, ps).
     case (unsafe, found) of
       (Some e, _) \<Rightarrow> ret (cleanup_warn (note_error ''walk temporary files'' e) r)
     | (None, Inl e) \<Rightarrow> ret (cleanup_warn (note_error ''walk temporary files'' e) r)
     | (None, Inr _) \<Rightarrow> each_report (remove_temporary st c) ps r)"

definition cleanup_locked :: "Store \<Rightarrow> string \<Rightarrow> CleanupReport \<Rightarrow> CleanupReport io" where
  "cleanup_locked st c r0 =
     andThen ctx_Err (\<lambda>_.
     andThen (files_of (\<lambda>fs. (preserved st fs c r0, managed_entries st fs (stagingDir st c)))) (\<lambda>(r, staging).
     case staging of
       Inl e \<Rightarrow> ret (cleanup_warn (note_error ''read staging'' e) r)
     | Inr names \<Rightarrow>
         andThen (each_report (remove_staging st c) (elems names) r)
           (each_report (walk_temporary st c) [commitsDir st c, join_path (caseDir st c) ''artifacts''])))"

definition CleanupStaging :: "Store \<Rightarrow> string \<Rightarrow> CleanupReport io" where
  "CleanupStaging st c =
     andThen ctx_Err (\<lambda>_.
     andThen (check_act (validateCaseID c)) (\<lambda>_.
     andThen (check_files (ensureCaseTreeSafe st c)) (\<lambda>_.
     andThen (ensureCaseDirs st c) (\<lambda>_.
     withCaseLock st c (cleanup_locked st c (empty_cleanup c))))))"

end
