(* ===== verification/PublishedCase.thy ===== *)
theory PublishedCase
  imports SnapshotRoundTrip CommitProperties CaseRecover
begin

text \<open>
  A case with one commit, as a commit without faults leaves it: the documents of a legacy snapshot, the
  manifest made for them, the record of the commit and the directories that hold them. The digests,
  and with them the names of the snapshot and of the commit, are left as the functions give them.
\<close>

section \<open>The documents and their manifest\<close>

lemma pc_fields:
  "snap_EvidenceAcquisitions ex_legacy = []" "snap_AgentConsultations ex_legacy = []" "sorted_snapshot ex_legacy = ex_legacy"
  by (simp_all add: sorted_snapshot_def ex_legacy_def SnapshotFromImporterResult_def)

lemma pc_all_stored: "all_stored ex_legacy = [SCase ex_manifest, STarget ex_target, SEvidence ex_evidence]"
  by (simp add: all_stored_def ex_legacy_fields pc_fields)

lemma pc_fits: "EvidenceBundle_codable ex_evidence" "json_fits max_nesting (EvidenceBundle_json ex_evidence)"
proof -
  note docs = ex_utf8 ex_evidence_def EvidenceBundle_json_def json_docs_def json_strs_def json_map_def omit_empty_def
    max_nesting_def utf8_valid_ascii
  have raw: "raw_fits 9999 ''{}''" using raw_fits_empty [of 9998] by (simp add: max_nesting_def)
  show "EvidenceBundle_codable ex_evidence" by code_simp
  show "json_fits max_nesting (EvidenceBundle_json ex_evidence)" by (simp add: docs raw)
qed

lemma pc_storable: "storable ex_legacy"
  by (simp add: storable_def pc_all_stored stored_fits_def ex_docs_fit pc_fits)

abbreviation pc_case_doc :: preparedDocument where "pc_case_doc \<equiv> stored_doc (SCase ex_manifest)"
abbreviation pc_target_doc :: preparedDocument where "pc_target_doc \<equiv> stored_doc (STarget ex_target)"
abbreviation pc_evidence_doc :: preparedDocument where "pc_evidence_doc \<equiv> stored_doc (SEvidence ex_evidence)"

lemma pc_rels:
  "stored_rel (SCase ex_manifest) = ''case-manifest.json''"
  "stored_rel (STarget ex_target) = ''targets/target-disk-0001.json''"
  "stored_rel (SEvidence ex_evidence) = ''evidence/evidence-bbbbbbbbbbbbbbbbbbbbbbbb.json''"
  by code_simp+

lemma pc_prepared: "prepareDocuments ex_legacy = Inr [pc_case_doc, pc_evidence_doc, pc_target_doc]"
proof -
  have "validateTargetID (tg_TargetID ex_target) = None" "validateEvidenceID (ev_EvidenceID ex_evidence) = None"
    by (simp_all add: validateTargetID_def validateEvidenceID_def check_id_def ex_target_def ex_evidence_def)
  then obtain docs where d: "prepareDocuments ex_legacy = Inr docs"
    by (simp add: prepareDocuments_def prepared_kinds_def prepare_workflow_def prepare_one_stored prepare_kind_short ex_docs_fit
        ex_legacy_fields pc_fields pc_fits)
  have "docs = [pc_case_doc, pc_evidence_doc, pc_target_doc]"
    unfolding prepareDocuments_stored [OF d pc_storable]
    by (simp add: pc_all_stored stored_doc_fields pc_rels del: stored_rel.simps)
  with d show ?thesis by simp
qed

lemma pc_collected: "collectArtifactRefs ex_legacy = Inr []"
  by (simp add: collectArtifactRefs_def ex_legacy_fields ex_evidence_def)

lemma pc_valid: "Snapshot_Validate False ex_legacy = None"
  by (simp add: ex_states snapshot_parts del: each_from.simps(2) unique_from.simps(2))

text \<open>A manifest that was built for good entries passes its own checks and is read back from its bytes.\<close>

lemma built_manifest_checks:
  assumes b: "buildSnapshotManifest c u docs [] = Inr (m, raw)" and c: "validateCaseID c = None" "parse_rfc3339 u \<noteq> None"
    and d: "sorted (map pd_RelativePath docs)" "check_documents 0 [] (map document_entry docs) = None"
      "one_case_manifest (map pd_RelativePath docs) = None"
  shows "validateSnapshotManifest m c c = None"
proof -
  have s: "sort_key sde_RelativePath (map document_entry docs) = map document_entry docs"
    using d(1) by (intro sort_key_id_if_sorted) (simp add: document_entry_def comp_def)
  then obtain sha sid where i: "content_identity c u (map document_entry docs) [] = Inr (sha, sid)"
    and m: "m = \<lparr>smf_SchemaName = schemaSnapshotManifest, smf_SchemaVersion = schemaVersion,
                 smf_CaseID = c, smf_SnapshotID = sid, smf_ContentSHA256 = sha,
                 smf_CreatedAt = u, smf_Documents = Some (map document_entry docs), smf_Artifacts = Some []\<rparr>"
    using b by (auto simp: buildSnapshotManifest_def Let_def)
  have "validateSHA256Hex sha = None" "validateSnapshotID sid = None"
    using i re_id24_digest [of "''snapshot-''"]
    by (auto simp: content_identity_def Let_def sha_valid validateSnapshotID_def check_id_def reSnapshotID_def)
  moreover have "sde_RelativePath \<circ> document_entry = pd_RelativePath"
    by (simp add: document_entry_def fun_eq_iff)
  ultimately show ?thesis
    using c d(2,3) i s by (auto simp: validateSnapshotManifest_def m recomputeSnapshotProvenance_def err_if_def)
qed

lemma built_manifest_decodes:
  assumes b: "buildSnapshotManifest c u docs [] = Inr (m, raw)" and a: "ascii c" "ascii u"
    and d: "\<forall>d \<in> set docs. ascii (pd_RelativePath d) \<and> ascii (pd_MediaType d) \<and> ascii (pd_SHA256 d) \<and> int64_ok (pd_SizeBytes d)"
  shows "decode_document dec_snapshotManifest zero_snapshotManifest raw = Inr m"
proof -
  obtain sha sid where i: "content_identity c u (sort_key sde_RelativePath (map document_entry docs)) [] = Inr (sha, sid)"
    and m: "m = \<lparr>smf_SchemaName = schemaSnapshotManifest, smf_SchemaVersion = schemaVersion,
                 smf_CaseID = c, smf_SnapshotID = sid, smf_ContentSHA256 = sha, smf_CreatedAt = u,
                 smf_Documents = Some (sort_key sde_RelativePath (map document_entry docs)), smf_Artifacts = Some []\<rparr>"
    and r: "marshal (snapshotManifest_json m) = Inr raw"
    using b by (auto simp: buildSnapshotManifest_def Let_def)
  have "ascii sha" using i by (auto simp: content_identity_def Let_def)
  moreover have "re_id24 ''snapshot-'' sid"
    using i re_id24_digest [of "''snapshot-''"] by (auto simp: content_identity_def Let_def)
  then have "ascii sid" by (rule ascii_id) (simp add: ascii_def)
  ultimately have "ascii sha" "ascii sid" by blast+
  then have "json_fits max_nesting (snapshotManifest_json m)"
    using a d by (auto simp: snapshotManifest_json_def m json_docs_def ascii_valid max_nesting_def
        snapshotDocumentEntry_json_def document_entry_def schemaSnapshotManifest_def schemaVersion_def utf8_valid_ascii)
  moreover have "snapshotManifest_codable m"
    using d by (auto simp: snapshotManifest_codable_def m snapshotDocumentEntry_codable_def document_entry_def)
  ultimately show ?thesis using snapshot_manifest_codec.document_back [of m] r by simp
qed

definition pc_docs :: "preparedDocument list" where "pc_docs = [pc_case_doc, pc_evidence_doc, pc_target_doc]"

definition pc_manifest :: snapshotManifest where
  "pc_manifest = fst (projr (buildSnapshotManifest ex_case_id ex_time pc_docs []))"

definition pc_manifest_raw :: string where
  "pc_manifest_raw = snd (projr (buildSnapshotManifest ex_case_id ex_time pc_docs []))"

abbreviation pc_snapshot :: string where "pc_snapshot \<equiv> smf_SnapshotID pc_manifest"

lemma pc_built: "buildSnapshotManifest ex_case_id ex_time pc_docs [] = Inr (pc_manifest, pc_manifest_raw)"
  using manifest_total [of ex_case_id ex_time pc_docs "[]"] by (auto simp: pc_manifest_def pc_manifest_raw_def)

lemma pc_doc_fields:
  "map pd_RelativePath pc_docs = [''case-manifest.json'', ''evidence/evidence-bbbbbbbbbbbbbbbbbbbbbbbb.json'', ''targets/target-disk-0001.json'']"
  by (simp add: pc_docs_def stored_doc_fields pc_rels del: stored_rel.simps)

lemma pc_sizes:
  "int64_ok (pd_SizeBytes pc_case_doc)" "int64_ok (pd_SizeBytes pc_evidence_doc)" "int64_ok (pd_SizeBytes pc_target_doc)"
proof -
  have "length (text_of (CaseManifest_json ex_manifest)) < 10000" "length (text_of (EvidenceBundle_json ex_evidence)) < 10000"
    "length (text_of (Target_json ex_target)) < 10000"
    by code_simp+
  then show "int64_ok (pd_SizeBytes pc_case_doc)" "int64_ok (pd_SizeBytes pc_evidence_doc)" "int64_ok (pd_SizeBytes pc_target_doc)"
    by (simp_all add: stored_doc_def documentEntry_def int64_ok_def)
qed

lemma pc_paths_ok:
  "check_document_entry i (document_entry d) = None" if "d \<in> set pc_docs"
proof -
  have "rejectTraversal False p = None \<and> validateManifestDocumentPath p = None"
    if "p \<in> {''case-manifest.json'', ''evidence/evidence-bbbbbbbbbbbbbbbbbbbbbbbb.json'', ''targets/target-disk-0001.json''}" for p
    using that by (elim insertE emptyE; hypsubst) code_simp+
  moreover have "pd_RelativePath d \<in> set (map pd_RelativePath pc_docs)" using that by simp
  ultimately show ?thesis
    unfolding pc_doc_fields by (simp add: check_document_entry_def document_entry_def)
qed

lemma pc_digest_ok: "check_document_digest i (document_entry (stored_doc t)) = None"
  by (simp add: check_document_digest_def document_entry_def stored_doc_def documentEntry_def sha_valid)

lemma pc_manifest_checks: "validateSnapshotManifest pc_manifest ex_case_id ex_case_id = None"
proof (rule built_manifest_checks [OF pc_built])
  have "sde_RelativePath (document_entry d) = pd_RelativePath d" for d by (simp add: document_entry_def)
  then show "check_documents 0 [] (map document_entry pc_docs) = None"
    using pc_paths_ok pc_doc_fields by (simp add: pc_docs_def pc_digest_ok)
  show "sorted (map pd_RelativePath pc_docs)" "one_case_manifest (map pd_RelativePath pc_docs) = None"
    unfolding pc_doc_fields by (simp_all add: one_case_manifest_def)
qed (simp_all add: validateCaseID_def)

lemma pc_manifest_decodes: "decode_document dec_snapshotManifest zero_snapshotManifest pc_manifest_raw = Inr pc_manifest"
proof (rule built_manifest_decodes [OF pc_built])
  show "\<forall>d \<in> set pc_docs. ascii (pd_RelativePath d) \<and> ascii (pd_MediaType d) \<and> ascii (pd_SHA256 d) \<and> int64_ok (pd_SizeBytes d)"
  proof -
    have "pd_MediaType (stored_doc t) = ''application/json'' \<and> ascii (pd_SHA256 (stored_doc t))" for t
      by (simp add: stored_doc_def documentEntry_def mediaTypeJSON_def)
    moreover have "ascii ''application/json''" "\<forall>p \<in> set (map pd_RelativePath pc_docs). ascii p"
      unfolding pc_doc_fields by (simp_all add: ascii_def)
    ultimately show ?thesis using pc_sizes by (simp add: pc_docs_def)
  qed
  show "ascii ex_case_id" "ascii ex_time" by code_simp+
qed

lemma pc_manifest_lists: "elems (smf_Documents pc_manifest) = map document_entry pc_docs" "elems (smf_Artifacts pc_manifest) = []"
  using built_manifest [OF pc_built [folded list.map(1) [of artifact_entry]]] by (simp_all add: pc_doc_fields)

lemma pc_snapshot_id: "validateSnapshotID pc_snapshot = None" "simple_name pc_snapshot"
proof -
  show "validateSnapshotID pc_snapshot = None" using pc_manifest_checks by (simp add: validateSnapshotManifest_def)
  then show "simple_name pc_snapshot"
    by (auto simp: validateSnapshotID_def check_id_def intro: snapshot_id_simple)
qed

section \<open>The commit and the tree\<close>

definition pc_record :: commitRecord where
  "pc_record = fst (projr (buildCommitRecord ex_case_id 1 None pc_snapshot (sha256Hex pc_manifest_raw)
     (format_rfc3339 ex_now) CommitReasonCaseSnapshot))"

definition pc_record_raw :: string where
  "pc_record_raw = snd (projr (buildCommitRecord ex_case_id 1 None pc_snapshot (sha256Hex pc_manifest_raw)
     (format_rfc3339 ex_now) CommitReasonCaseSnapshot))"

definition pc_file :: string where "pc_file = commitFileName (rec_Sequence pc_record) (rec_CommitID pc_record)"

lemma record_total: "\<exists>r raw. buildCommitRecord c q parent sid sha u reason = Inr (r, raw)"
proof -
  have p: "raws_valid (json_pointer JStr parent)" by (cases parent) (simp_all add: json_pointer_def)
  have "\<exists>s. marshal (commit_body c q parent sid sha u reason) = Inr s"
    by (rule marshal_total(1)) (simp add: commit_body_def p)
  moreover have "\<exists>s. marshal (commitRecord_json r) = Inr s" for r
    by (rule marshal_total(1)) (cases "rec_ParentCommitID r"; simp add: commitRecord_json_def json_pointer_def)
  ultimately show ?thesis by (auto simp: buildCommitRecord_def computeCommitID_def Let_def)
qed

lemma pc_record_built:
  "buildCommitRecord ex_case_id 1 None pc_snapshot (sha256Hex pc_manifest_raw) (format_rfc3339 ex_now) CommitReasonCaseSnapshot
     = Inr (pc_record, pc_record_raw)"
  using record_total [of ex_case_id 1 None pc_snapshot "sha256Hex pc_manifest_raw" "format_rfc3339 ex_now" CommitReasonCaseSnapshot]
  by (auto simp: pc_record_def pc_record_raw_def)

lemmas pc_record_fields = built_record [OF pc_record_built]

lemma pc_file_name: "simple_name pc_file" "final_name pc_file"
  unfolding pc_file_def by (rule commit_name [OF pc_record_fields(12)])+

lemma pc_parses: "parse_commit_file ex_case_id pc_file pc_record_raw = Some pc_record"
proof -
  have "new_record ex_now ex_request [] pc_record pc_record_raw"
    unfolding new_record_def using pc_snapshot_id pc_record_built
    by (auto simp: ex_request_case next_sequence_def head_parent_def ex_request_def ex_legacy_fields ex_manifest_def)
  then show ?thesis
    unfolding pc_file_def
    by (rule new_record_parses) (simp_all add: ex_request_case validateCaseID_def known_reason_def next_sequence_def ex_year,
        simp add: ex_request_def)
qed

definition pc_dir :: path where "pc_dir = [''srv'', ''cases'', ex_case_id]"

definition pc_docs_dir :: path where "pc_docs_dir = pc_dir @ [''snapshots'', pc_snapshot, ''documents'']"

definition pc_tree :: files where
  "pc_tree =
     [([''srv''], Dir), ([''srv'', ''cases''], Dir), ([''srv'', ''cases'', ex_case_id], Dir),
      (pc_dir @ [''commits''], Dir), (pc_dir @ [''commits'', pc_file], File pc_record_raw),
      (pc_dir @ [''snapshots''], Dir), (pc_dir @ [''snapshots'', pc_snapshot], Dir),
      (pc_dir @ [''snapshots'', pc_snapshot, ''snapshot-manifest.json''], File pc_manifest_raw),
      (pc_docs_dir, Dir), (pc_docs_dir @ [''case-manifest.json''], File (pd_Bytes pc_case_doc)),
      (pc_docs_dir @ [''evidence''], Dir),
      (pc_docs_dir @ [''evidence'', ''evidence-bbbbbbbbbbbbbbbbbbbbbbbb.json''], File (pd_Bytes pc_evidence_doc)),
      (pc_docs_dir @ [''targets''], Dir),
      (pc_docs_dir @ [''targets'', ''target-disk-0001.json''], File (pd_Bytes pc_target_doc))]"

lemmas pc_paths = pc_tree_def pc_docs_dir_def pc_dir_def

lemma pc_look:
  "look pc_tree [''srv'', ''cases'', ex_case_id] = Some Dir"
  "look pc_tree (pc_dir @ [''commits'']) = Some Dir"
  "look pc_tree (pc_dir @ [''commits'', pc_file]) = Some (File pc_record_raw)"
  "look pc_tree (pc_dir @ [''snapshots'']) = Some Dir"
  "look pc_tree (pc_dir @ [''snapshots'', pc_snapshot]) = Some Dir"
  "look pc_tree (pc_dir @ [''snapshots'', pc_snapshot, ''snapshot-manifest.json'']) = Some (File pc_manifest_raw)"
  "look pc_tree pc_docs_dir = Some Dir"
  "look pc_tree (pc_docs_dir @ [''case-manifest.json'']) = Some (File (pd_Bytes pc_case_doc))"
  "look pc_tree (pc_docs_dir @ [''evidence'', ''evidence-bbbbbbbbbbbbbbbbbbbbbbbb.json'']) = Some (File (pd_Bytes pc_evidence_doc))"
  "look pc_tree (pc_docs_dir @ [''targets'', ''target-disk-0001.json'']) = Some (File (pd_Bytes pc_target_doc))"
  "look pc_tree (pc_docs_dir @ [''evidence'']) = Some Dir" "look pc_tree (pc_docs_dir @ [''targets'']) = Some Dir"
  "look pc_tree (pc_dir @ [''staging'']) = None" "look pc_tree (pc_dir @ [''artifacts'', ''sha256'']) = None"
  by (simp_all add: look_def pc_paths)

lemma pc_names: "dir_names pc_tree (pc_dir @ [''commits'']) = [pc_file]" "dir_names pc_tree (pc_dir @ [''snapshots'']) = [pc_snapshot]"
  by (simp_all add: dir_names_def child_def pc_paths)

lemma pc_documents_dir: "set (walk pc_tree pc_docs_dir) = {pc_docs_dir, pc_docs_dir @ [''case-manifest.json''],
    pc_docs_dir @ [''evidence''], pc_docs_dir @ [''evidence'', ''evidence-bbbbbbbbbbbbbbbbbbbbbbbb.json''],
    pc_docs_dir @ [''targets''], pc_docs_dir @ [''targets'', ''target-disk-0001.json'']}"
  by (simp add: walk_def under_def pc_paths)

text \<open>Without links every path below the root is safe.\<close>

lemma linkless_managed:
  assumes "\<And>q t. look fs q \<noteq> Some (Link t)" "under (st_root st) p"
  shows "managed st p fs = None"
proof -
  have n: "ensureNotSymlink fs q = None" for q
    using assms(1) [of q] by (auto simp: ensureNotSymlink_def Lstat_def IsNotExist_def os_error_is_def path_error_def
        split: option.split node.split)
  have "walk_up fs root q = None" if "under root q" for root q
    using that
  proof (induction q rule: rev_induct)
    case Nil
    then show ?case by (simp add: walk_up.simps n under_iff)
  next
    case (snoc y q)
    then show ?case by (auto simp: walk_up.simps [of fs root "q @ [y]"] n under_snoc parent_dir_def)
  qed
  then show ?thesis using assms(2) by (simp add: ensureManagedPath_def ensureUnderRoot_def err_if_def)
qed

lemma pc_managed: "managed ex_store (''srv'' # p) pc_tree = None" "managed ex_store (pc_dir @ p) pc_tree = None"
  "managed ex_store (pc_docs_dir @ p) pc_tree = None"
proof -
  have "t \<in> {Dir, File pc_record_raw, File pc_manifest_raw, File (pd_Bytes pc_case_doc), File (pd_Bytes pc_evidence_doc),
      File (pd_Bytes pc_target_doc)}" if "look pc_tree q = Some t" for q t
    using map_of_SomeD [OF that [unfolded look_def]] by (auto simp: pc_tree_def)
  then have "look pc_tree q \<noteq> Some (Link t)" for q t by blast
  then show m: "managed ex_store (''srv'' # p) pc_tree = None" for p
    by (rule linkless_managed) (simp add: ex_store_def under_def)
  show "managed ex_store (pc_dir @ p) pc_tree = None" "managed ex_store (pc_docs_dir @ p) pc_tree = None"
    using m by (simp_all add: pc_docs_dir_def pc_dir_def)
qed

lemma pc_case_dirs:
  "caseDir ex_store ex_case_id = pc_dir" "snapshotsDir ex_store ex_case_id = pc_dir @ [''snapshots'']"
  "commitsDir ex_store ex_case_id = pc_dir @ [''commits'']" "stagingDir ex_store ex_case_id = pc_dir @ [''staging'']"
  "artifactsDir ex_store ex_case_id = pc_dir @ [''artifacts'', ''sha256'']"
  "snapshotDir ex_store ex_case_id pc_snapshot = pc_dir @ [''snapshots'', pc_snapshot]"
  "manifest_path ex_store ex_case_id pc_snapshot = pc_dir @ [''snapshots'', pc_snapshot, ''snapshot-manifest.json'']"
  using pc_snapshot_id(2)
  by (simp_all add: case_dirs ex_case_dir pc_dir_def snapshotDir_simple manifest_path_def join_simple)

lemma pc_chain: "loadCommitChainPrefix ex_store pc_tree ex_case_id = ([pc_record], [], None)"
proof -
  have "commit_file ex_store pc_tree ex_case_id pc_file = Inr (pc_file, pc_record_raw)"
    using pc_managed(2) [of "[''commits'']"] pc_managed(2) [of "[''commits'', pc_file]"]
    by (simp add: commit_file_def pc_case_dirs join_simple pc_file_name ReadFile_def pc_look map_error_def)
  moreover have "chain_of_files ex_case_id [(pc_file, pc_record_raw)] = ([pc_record], [], None)"
    using pc_parses pc_record_fields(2,3) by (simp add: chain_of_files_def)
  ultimately show ?thesis
    using pc_managed(2) [of "[''commits'']"]
    by (simp add: loadCommitChainPrefix_def pc_case_dirs unless_missing_def ReadDir_def Lstat_def pc_look pc_names
        join_simple pc_file_name)
qed

lemma check_tree_fine:
  assumes "\<forall>p \<in> set ps. managed st p fs = None \<and> (look fs p = Some Dir \<or> (\<exists>d raw.
      List.find (\<lambda>d. sde_RelativePath d = slash_join (drop (length dir) p)) (rev entries) = Some d \<and>
      look fs p = Some (File raw) \<and> sde_SizeBytes d = int (length raw) \<and> sde_SHA256 d = sha256Hex raw))"
  shows "check_tree st fs dir entries ps =
    Inr (map (\<lambda>p. slash_join (drop (length dir) p)) (filter (\<lambda>p. look fs p \<noteq> Some Dir) ps))"
  using assms by (induction ps) (auto simp: ReadFile_def)

lemma pc_walked:
  "\<exists>found. walk_documents ex_store pc_tree pc_docs_dir (map document_entry pc_docs) = Inr found \<and>
     set (map pd_RelativePath pc_docs) \<subseteq> set found"
proof -
  have rels: "sde_RelativePath (document_entry d) = pd_RelativePath d" "sde_SizeBytes (document_entry (stored_doc t)) = int (length (pd_Bytes (stored_doc t)))"
    "sde_SHA256 (document_entry (stored_doc t)) = sha256Hex (pd_Bytes (stored_doc t))" for d t
    by (simp_all add: document_entry_def stored_doc_def documentEntry_def)
  have names: "pd_RelativePath pc_case_doc = ''case-manifest.json''"
    "pd_RelativePath pc_evidence_doc = ''evidence/evidence-bbbbbbbbbbbbbbbbbbbbbbbb.json''"
    "pd_RelativePath pc_target_doc = ''targets/target-disk-0001.json''"
    using pc_doc_fields by (simp_all add: pc_docs_def)
  let ?rel = "\<lambda>p. slash_join (drop (length pc_docs_dir) p)"
  have "check_tree ex_store pc_tree pc_docs_dir (map document_entry pc_docs) (walk pc_tree pc_docs_dir) =
      Inr (map ?rel (filter (\<lambda>p. look pc_tree p \<noteq> Some Dir) (walk pc_tree pc_docs_dir)))"
    by (rule check_tree_fine, unfold pc_documents_dir)
       (use pc_managed(3) [of "[]"] in \<open>simp add: pc_managed pc_look pc_docs_def rels names\<close>)
  moreover have "set (map ?rel (filter (\<lambda>p. look pc_tree p \<noteq> Some Dir) (walk pc_tree pc_docs_dir))) =
      {''case-manifest.json'', ''evidence/evidence-bbbbbbbbbbbbbbbbbbbbbbbb.json'', ''targets/target-disk-0001.json''}"
  proof -
    have "{p \<in> set (walk pc_tree pc_docs_dir). look pc_tree p \<noteq> Some Dir} = {pc_docs_dir @ [''case-manifest.json''],
        pc_docs_dir @ [''evidence'', ''evidence-bbbbbbbbbbbbbbbbbbbbbbbb.json''], pc_docs_dir @ [''targets'', ''target-disk-0001.json'']}"
      unfolding pc_documents_dir by (auto simp: pc_look)
    then show ?thesis by (simp only: set_map set_filter) simp
  qed
  ultimately show ?thesis
    by (simp add: walk_documents_def Lstat_def pc_look pc_doc_fields) (simp add: pc_docs_dir_def)
qed

lemma pc_reads:
  "\<forall>d \<in> set [pc_case_doc, pc_evidence_doc, pc_target_doc]. ReadFile pc_tree (join_path pc_docs_dir (pd_RelativePath d)) = Inr (pd_Bytes d)"
proof -
  have simple: "simple_name ''evidence''" "simple_name ''targets''" "simple_name ''case-manifest.json''"
    "simple_name ''evidence-bbbbbbbbbbbbbbbbbbbbbbbb.json''" "simple_name ''target-disk-0001.json''"
    by (simp_all add: simple_name_def)
  have "join_path pc_docs_dir (''evidence'' @ CHR ''/'' # ''evidence-bbbbbbbbbbbbbbbbbbbbbbbb.json'') =
      pc_docs_dir @ [''evidence'', ''evidence-bbbbbbbbbbbbbbbbbbbbbbbb.json'']"
    "join_path pc_docs_dir (''targets'' @ CHR ''/'' # ''target-disk-0001.json'') = pc_docs_dir @ [''targets'', ''target-disk-0001.json'']"
    "join_path pc_docs_dir ''case-manifest.json'' = pc_docs_dir @ [''case-manifest.json'']"
    by (simp_all only: join_slash join_simple simple) simp_all
  then show ?thesis using pc_doc_fields by (simp add: pc_docs_def ReadFile_def pc_look)
qed

lemma pc_loaded: "loadSnapshotAtCommit ex_store pc_tree ex_case_id pc_record = Inr ex_legacy"
proof -
  have dir: "join_path (pc_dir @ [''snapshots'', pc_snapshot]) ''documents'' = pc_docs_dir"
    by (simp add: join_simple simple_name_def pc_docs_dir_def)
  have read: "assemble_snapshot (\<lambda>rel. ReadFile pc_tree (join_path pc_docs_dir rel)) pc_manifest = Inr ex_legacy"
    using snapshot_read_back [of ex_legacy, OF _ pc_storable pc_prepared pc_collected _ pc_reads] pc_built
    by (simp add: pc_fields pc_valid pc_docs_def)
  obtain found where found: "walk_documents ex_store pc_tree pc_docs_dir (map document_entry pc_docs) = Inr found"
    "set (map pd_RelativePath pc_docs) \<subseteq> set found"
    using pc_walked by blast
  have "each (\<lambda>_ d. err_if (sde_RelativePath d \<notin> set found) (integrity ''missing document %s'' [GStr (sde_RelativePath d)]))
      (map document_entry pc_docs) = None"
    using found(2) by (auto simp: document_entry_def)
  moreover have "managed ex_store pc_docs_dir pc_tree = None" using pc_managed(3) [of "[]"] by simp
  ultimately show ?thesis
    unfolding loadSnapshotAtCommit_def pc_record_fields(1,4,5) pc_case_dirs Let_def dir
    using pc_managed(2) [of "[''snapshots'', pc_snapshot]"] pc_snapshot_id(1) pc_manifest_checks read found(1)
    by (simp add: ReadFile_def pc_look map_error_def pc_manifest_decodes pc_manifest_lists)
qed

lemma pc_report: "ir_Status (verify_report ex_store pc_tree ex_case_id (empty_report ex_case_id now)) = IntegrityOK"
proof -
  note m = pc_managed(2) [of "[]", simplified] pc_managed(2)
  have safe: "ensureCaseTreeSafe ex_store ex_case_id pc_tree = None"
    using m by (simp add: ensureCaseTreeSafe_def case_paths_def pc_case_dirs validateCaseID_def)
  have there: "\<not> stat_missing pc_tree pc_dir" using pc_look(1) by (simp add: stat_missing_def pc_dir_def)
  have manifest: "readManifest ex_store pc_tree ex_case_id pc_snapshot = Inr pc_manifest"
    by (simp add: readManifest_def pc_case_dirs ReadFile_def pc_look pc_manifest_decodes)
  have commits: "verify_commits ex_store pc_tree ex_case_id [pc_record] r = (r\<lparr>ir_ValidCommitIDs := ir_ValidCommitIDs r @ [rec_CommitID pc_record],
      ir_VerifiedDocuments := ir_VerifiedDocuments r + 3\<rparr>, [])" for r
    using pc_loaded manifest
    by (simp add: verify_commits_def verify_commit_def validateAcquisitionCommitProvenance_def pc_fields pc_record_fields(4)
        pc_manifest_lists artifact_digests_def pc_docs_def)
  have gone: "IsNotExist (path_error ''ENOENT'' p)" for p
    by (simp add: IsNotExist_def os_error_is_def path_error_def)
  have entries: "managed_entries ex_store pc_tree (pc_dir @ [''commits'']) = Inr (Some [pc_file])"
    "managed_entries ex_store pc_tree (pc_dir @ [''snapshots'']) = Inr (Some [pc_snapshot])"
    "managed_entries ex_store pc_tree (pc_dir @ [''staging'']) = Inr None"
    using m gone by (simp_all add: managed_entries_def unless_missing_def ReadDir_def Lstat_def pc_look pc_names)
  have name: "\<not> isTempStoreName pc_file" using pc_file_name(2) by (simp add: final_name_def)
  show ?thesis
    using m(2) pc_file_name(1) pc_snapshot_id(2) name
    by (simp add: verify_report_def safe pc_case_dirs there pc_chain note_tail_def Let_def commits verify_snapshots_def entries
        verify_snapshot_entry_def join_simple pc_record_fields(4) unless_missing_def verify_artifacts_def Lstat_def pc_look
        verify_staging_def verify_temp_commits_def empty_report_def)
qed

end
