(* ===== verification/RecoverProperties.thy ===== *)
theory RecoverProperties
  imports PublishedCase
begin

text \<open>
  What the tools around a commit promise: managed directories are created, cleaning up removes
  only what an interrupted commit can leave behind, and a report without complaint means that the case loads.
\<close>

section \<open>Cleaning up\<close>

text \<open>What the clean-up may remove: staging areas and files with the reserved suffix.\<close>

definition leftover :: "Store \<Rightarrow> string \<Rightarrow> path \<Rightarrow> bool" where
  "leftover st c q \<longleftrightarrow> (\<exists>n r. q = stagingDir st c @ n # r \<and> isStagingTxnName n) \<or>
     isTempStoreName (last q) \<and> (under (commitsDir st c) q \<or> under (caseDir st c @ [''artifacts'']) q)"

text \<open>What it may create: the directories of the case and its lock.\<close>

definition skeleton :: "Store \<Rightarrow> string \<Rightarrow> path \<Rightarrow> bool" where
  "skeleton st c q \<longleftrightarrow> (\<exists>p \<in> set (lockPath st c # case_paths st c). under q p)"

abbreviation tidy :: "Store \<Rightarrow> string \<Rightarrow> 'a io \<Rightarrow> bool" where
  "tidy st c m \<equiv> bounded (leftover st c) (skeleton st c) m"

text \<open>A file that is not a directory has nothing below it.\<close>

lemma Remove_leaf:
  assumes "wf_files (w_files w)" "look (w_files w) p \<noteq> Some Dir" "V p"
  shows "changes V N (w_files w) (w_files (snd (Remove p w)))"
proof (cases "look (w_files w) p = None")
  case True
  then show ?thesis
    using assms by (auto simp: Remove_def os_call_def dest: next_fault_files split: prod.splits option.splits)
next
  case False
  have none: "look (w_files w) q = None" if "under p q" "q \<noteq> p" for q
  proof (rule ccontr)
    assume "look (w_files w) q \<noteq> None"
    moreover obtain r where "q = p @ r" "r \<noteq> []" using \<open>under p q\<close> \<open>q \<noteq> p\<close> by (auto simp: under_iff)
    moreover have "p \<noteq> []" using False assms(1) by (auto simp: wf_files_def)
    ultimately show False using wf_ancestor [OF assms(1), of p r] assms(2) by simp
  qed
  have "changes V N (w_files w) (remove_tree p (w_files w))"
    using assms(1,3) none by (auto simp: changes_def wf_files_def parent_dir_def)
       (metis append_butlast_last_id under_append under_trans)+
  then show ?thesis
    using assms(1) by (auto simp: Remove_def os_call_def dest: next_fault_files split: prod.splits option.splits)
qed

lemma remove_temporary_tidy:
  assumes "under (commitsDir st c) p \<or> under (caseDir st c @ [''artifacts'']) p"
  shows "tidy st c (remove_temporary st c p r)"
proof -
  have "changes (leftover st c) (skeleton st c) (w_files w) (w_files (snd (remove_temporary st c p r w)))"
    if wf: "wf_files (w_files w)" for w
  proof (cases "managed st p (w_files w) = None \<and> look (w_files w) p \<noteq> Some Dir \<and> isTempStoreName (last p)")
    case True
    then have "leftover st c p" using assms by (auto simp: leftover_def)
    moreover have "w_files (snd (remove_temporary st c p r w)) = w_files (snd (Remove p w))"
      using True by (auto simp: remove_temporary_def andThen_def files_of_def try_act_def ret_def split: prod.splits sum.splits)
    ultimately show ?thesis using Remove_leaf [OF wf] True by simp
  next
    case False
    then show ?thesis
      using wf by (auto simp: remove_temporary_def andThen_def files_of_def ret_def split: option.splits)
  qed
  then show ?thesis by (simp add: bounded_def)
qed

lemma remove_staging_tidy:
  assumes "simple_name n" shows "tidy st c (remove_staging st c n r)"
  using assms unfolding remove_staging_def
  by (intro bounds) (auto simp: join_simple leftover_def under_iff)

lemma each_report_tidy:
  "(\<And>x r. x \<in> set xs \<Longrightarrow> bounded V N (f x r)) \<Longrightarrow> bounded V N (each_report f xs r)"
  by (induction xs arbitrary: r) (auto intro!: bounds)

lemma walk_temporary_tidy:
  assumes "root \<in> {commitsDir st c, caseDir st c @ [''artifacts'']}"
  shows "tidy st c (walk_temporary st c root r)"
  unfolding walk_temporary_def
proof (rule bounded_andThen_returns)
  show "returns (files_of (\<lambda>fs. (unless_missing (managed st root fs), Lstat fs root, walk fs root)))
      (\<lambda>(u, f, ps). \<forall>p \<in> set ps. under root p)"
    by (auto simp: returns_def files_of_def set_walk)
qed (use assms in \<open>auto intro!: bounds each_report_tidy remove_temporary_tidy\<close>)

text \<open>The locked part, in a tree whose staging area holds simple names.\<close>

lemma cleanup_locked_changes:
  assumes wf: "wf_files (w_files w)"
    and simple: "\<forall>n. look (w_files w) (stagingDir st c @ [n]) \<noteq> None \<longrightarrow> simple_name n"
  shows "changes (leftover st c) (skeleton st c) (w_files w) (w_files (snd (cleanup_locked st c r w)))"
proof -
  obtain x v where x: "ctx_Err w = (x, v)" by (cases "ctx_Err w")
  have v: "w_files v = w_files w" using pure_acts(8) x unfolding pure_act_def by (metis snd_conv)
  have walks: "tidy st c (each_report (walk_temporary st c) [commitsDir st c, join_path (caseDir st c) ''artifacts''] q)" for q
    by (auto simp: join_simple simple_literals intro!: bounds walk_temporary_tidy)
  have simples: "simple_name n" if "managed_entries st (w_files w) (stagingDir st c) = Inr (Some ns)" "n \<in> set ns" for n ns
    using that simple in_dir_names by (auto simp: managed_entries_def ReadDir_def split: option.splits sum.splits if_splits)
  have t: "tidy st c (case managed_entries st (w_files w) (stagingDir st c) of
       Inl e \<Rightarrow> ret (cleanup_warn (note_error ''read staging'' e) q)
     | Inr ns \<Rightarrow> andThen (each_report (remove_staging st c) (elems ns) q)
         (each_report (walk_temporary st c) [commitsDir st c, join_path (caseDir st c) ''artifacts'']))" for q
  proof (cases "managed_entries st (w_files w) (stagingDir st c)")
    case (Inr ns)
    have "tidy st c (each_report (remove_staging st c) (elems ns) q)"
      using simples Inr by (cases ns) (auto intro!: each_report_tidy remove_staging_tidy)
    then show ?thesis using walks Inr by (auto intro!: bounds)
  qed simp
  show ?thesis
  proof (cases x)
    case (Inl e)
    then show ?thesis using x v wf by (simp add: cleanup_locked_def andThen_def)
  next
    case (Inr u)
    then show ?thesis
      using x wf t [of "preserved st (w_files v) c r", unfolded bounded_def, rule_format, of v]
      by (simp add: cleanup_locked_def andThen_def [of ctx_Err] andThen_def [of "files_of _"] files_of_def v)
  qed
qed

text \<open>The directories of the case and its lock are created first.\<close>

lemma skeleton_short:
  "\<not> skeleton st c (stagingDir st c @ n # r)" "\<not> skeleton st c (commitsDir st c @ n # r)"
  "simple_name s \<Longrightarrow> \<not> skeleton st c (snapshotDir st c s @ r)"
  by (auto simp: skeleton_def case_paths_def case_dirs snapshotDir_simple under_iff)

lemma skeleton_bounds:
  "bounded (\<lambda>_. False) (skeleton st c) (ensureCaseDirs st c)"
  "bounded (\<lambda>_. False) (skeleton st c) (acquireCaseLock (lockPath st c))"
proof -
  have e: "bounded (\<lambda>_. False) (skeleton st c) (each_act (\<lambda>(p, cp). ensureManagedDir st p cp) (zip (case_paths st c) case_checkpoints))"
  proof (rule bounded_each)
    fix x assume "x \<in> set (zip (case_paths st c) case_checkpoints)"
    then have "fst x \<in> set (case_paths st c)" by (metis prod.collapse set_zip_leftD)
    then show "bounded (\<lambda>_. False) (skeleton st c) (case x of (p, cp) \<Rightarrow> ensureManagedDir st p cp)"
      by (cases x) (auto simp: skeleton_def intro!: ensureManagedDir_bounded)
  qed
  show "bounded (\<lambda>_. False) (skeleton st c) (ensureCaseDirs st c)"
    unfolding ensureCaseDirs_def by (intro bounded_andThen pure_bounds e)
  show "bounded (\<lambda>_. False) (skeleton st c) (acquireCaseLock (lockPath st c))"
    unfolding acquireCaseLock_def
    by (intro bounds) (use under_trans [OF _ under_parent] in \<open>auto simp: skeleton_def case_dirs\<close>)
qed

text \<open>A first phase that only creates, then one that may change more.\<close>

lemma phased:
  assumes "changes (\<lambda>_. False) N fs (w_files w)" "bounded (\<lambda>_. False) N m"
    and "\<And>x v. changes (\<lambda>_. False) N fs (w_files v) \<Longrightarrow> changes V N fs (w_files (snd (f x v)))"
  shows "changes V N fs (w_files (snd (andThen m f w)))"
proof (cases "m w")
  case (Pair x v)
  have v: "changes (\<lambda>_. False) N fs (w_files v)"
    using changes_trans [OF assms(1) boundedD [OF assms(2) changes_wf [OF assms(1)] Pair]] .
  show ?thesis
  proof (cases x)
    case (Inl e)
    then show ?thesis using changes_mono [OF v] Pair by (simp add: andThen_def)
  next
    case (Inr y)
    then show ?thesis using assms(3) [OF v] Pair by (simp add: andThen_def)
  qed
qed

lemma CleanupStaging_changes:
  assumes va: "valid_tree (w_files w)"
  shows "changes (leftover st c) (skeleton st c) (w_files w) (w_files (snd (CleanupStaging st c w)))"
proof -
  let ?N = "skeleton st c"
  have locked: "changes (leftover st c) ?N (w_files w) (w_files (snd (case cleanup_locked st c r u of
      (x, v) \<Rightarrow> (x, snd (unlock (lockPath st c) v)))))"
    if u: "changes (\<lambda>_. False) ?N (w_files w) (w_files u)" for u :: world and r
  proof -
    have "simple_name n" if n: "look (w_files u) (stagingDir st c @ [n]) \<noteq> None" for n
    proof -
      have "look (w_files w) (stagingDir st c @ [n]) \<noteq> None"
        using u n skeleton_short(1) [of st c n "[]"] unfolding changes_def by metis
      then show ?thesis using va by (auto simp: valid_tree_def)
    qed
    then have "changes (leftover st c) ?N (w_files u) (w_files (snd (cleanup_locked st c r u)))"
      using cleanup_locked_changes [OF changes_wf [OF u]] by blast
    then have "changes (leftover st c) ?N (w_files w) (w_files (snd (cleanup_locked st c r u)))"
      using changes_trans [OF changes_mono [OF u]] by blast
    then show ?thesis by (cases "cleanup_locked st c r u") (simp add: unlock_def)
  qed
  have "changes (\<lambda>_. False) ?N (w_files w) (w_files w)" using va by (simp add: valid_tree_def)
  then show ?thesis
    unfolding CleanupStaging_def withCaseLock_def
    by (intro phased skeleton_bounds pure_bounds pure_acts locked)
qed

text \<open>No commit file, no directory above one and nothing in a snapshot is left over.\<close>

lemma leftover_commits:
  "final_name n \<Longrightarrow> \<not> leftover st c (commitsDir st c @ [n])"
  "under q (commitsDir st c) \<Longrightarrow> \<not> leftover st c q"
proof -
  show "final_name n \<Longrightarrow> \<not> leftover st c (commitsDir st c @ [n])"
    by (auto simp: leftover_def final_name_def case_dirs under_iff)
  assume "under q (commitsDir st c)"
  then have "under q (caseDir st c) \<or> q = commitsDir st c" by (simp add: case_dirs under_snoc)
  then have "length q \<le> length (caseDir st c) \<or> q = commitsDir st c" by (auto simp: under_iff)
  then show "\<not> leftover st c q"
    by (auto simp: leftover_def case_dirs under_iff isTempStoreName_def has_suffix_def tempSuffix_def has_prefix_iff)
qed

lemma leftover_snapshot: "simple_name s \<Longrightarrow> under (snapshotDir st c s) p \<Longrightarrow> \<not> leftover st c p"
  by (auto simp: leftover_def snapshotDir_simple case_dirs under_iff)

section \<open>Verification\<close>

text \<open>A report without complaint lists nothing to complain about; every step keeps that.\<close>

definition fine :: "IntegrityReport \<Rightarrow> bool" where
  "fine r \<longleftrightarrow> ir_Status r = IntegrityOK"

definition nothing_listed :: "IntegrityReport \<Rightarrow> bool" where
  "nothing_listed r \<longleftrightarrow> ir_Errors r = [] \<and> ir_StagingEntries r = [] \<and> ir_OrphanSnapshots r = [] \<and>
     ir_OrphanArtifacts r = [] \<and> ir_TemporaryFiles r = []"

text \<open>A step that complains or leaves the lists and the number of commits alone.\<close>

definition strict_step :: "(IntegrityReport \<Rightarrow> IntegrityReport) \<Rightarrow> bool" where
  "strict_step f \<longleftrightarrow> (\<forall>r. fine (f r) \<longrightarrow> fine r \<and> (nothing_listed r \<longrightarrow> nothing_listed (f r)) \<and>
     ir_CommitCount (f r) = ir_CommitCount r)"

lemma not_fine [simp]: "\<not> fine (corrupt e r)" "\<not> fine (degraded r)"
  by (simp_all add: fine_def corrupt_def degraded_def degrade_def IntegrityOK_def IntegrityCorrupt_def IntegrityDegraded_def)

lemma fine_updates [simp]:
  "fine (r\<lparr>ir_SnapshotCount := n\<rparr>) = fine r" "fine (r\<lparr>ir_ValidCommitIDs := xs\<rparr>) = fine r"
  "fine (r\<lparr>ir_VerifiedDocuments := n\<rparr>) = fine r" "fine (r\<lparr>ir_VerifiedArtifacts := n\<rparr>) = fine r"
  "nothing_listed (r\<lparr>ir_SnapshotCount := n\<rparr>) = nothing_listed r"
  "nothing_listed (r\<lparr>ir_ValidCommitIDs := xs\<rparr>) = nothing_listed r"
  "nothing_listed (r\<lparr>ir_VerifiedDocuments := n\<rparr>) = nothing_listed r"
  "nothing_listed (r\<lparr>ir_VerifiedArtifacts := n\<rparr>) = nothing_listed r"
  by (simp_all add: fine_def nothing_listed_def)

lemma strict_keep: "fine (f r) \<Longrightarrow> strict_step f \<Longrightarrow> fine r \<and> (nothing_listed r \<longrightarrow> nothing_listed (f r)) \<and> ir_CommitCount (f r) = ir_CommitCount r"
  by (simp add: strict_step_def)

lemma strict_fold: "(\<And>x. x \<in> set xs \<Longrightarrow> strict_step (f x)) \<Longrightarrow> strict_step (fold f xs)"
proof (induction xs)
  case (Cons x xs)
  have "strict_step (fold f xs)" "strict_step (f x)" using Cons by simp_all
  then show ?case
    using strict_keep [of "fold f xs" "f x _"] strict_keep [of "f x"] unfolding strict_step_def by (metis comp_apply fold_simps(2))
qed (simp add: strict_step_def)

lemma strict_snapshots: "strict_step (verify_snapshots st fs c committed)"
proof -
  have "strict_step (verify_snapshot_entry st fs c committed n)" for n
    unfolding strict_step_def verify_snapshot_entry_def Let_def by (simp split: option.split)
  then have f: "strict_step (fold (verify_snapshot_entry st fs c committed) ns)" for ns by (rule strict_fold)
  show ?thesis
    unfolding strict_step_def
  proof (intro allI)
    fix r
    show "fine (verify_snapshots st fs c committed r) \<longrightarrow> fine r \<and>
        (nothing_listed r \<longrightarrow> nothing_listed (verify_snapshots st fs c committed r)) \<and>
        ir_CommitCount (verify_snapshots st fs c committed r) = ir_CommitCount r"
      using strict_keep [OF _ f, of _ "r\<lparr>ir_SnapshotCount := _\<rparr>"]
      by (simp add: verify_snapshots_def split: sum.split option.split)
  qed
qed

lemma strict_listings: "strict_step (verify_staging st fs c)" "strict_step (verify_temp_commits st fs c)"
proof -
  have s: "strict_step (fold (\<lambda>n r. case managed st (join_path (stagingDir st c) n) fs of
              Some e \<Rightarrow> corrupt (note_error ''read staging'' e) r
            | None \<Rightarrow> degraded (r\<lparr>ir_StagingEntries := ir_StagingEntries r @ [n]\<rparr>)) ns)" for ns
    by (rule strict_fold) (simp add: strict_step_def split: option.splits)
  show "strict_step (verify_staging st fs c)"
    unfolding strict_step_def verify_staging_def
    using strict_keep [OF _ s] by (cases "managed_entries st fs (stagingDir st c)") simp_all
  have t: "strict_step (fold (\<lambda>n r. case managed st (join_path (commitsDir st c) n) fs of
              Some e \<Rightarrow> corrupt (note_error ''read commits'' e) r
            | None \<Rightarrow> if isTempStoreName n
                      then degraded (r\<lparr>ir_TemporaryFiles := ir_TemporaryFiles r @ [''commits/'' @ n]\<rparr>) else r) ns)" for ns
    by (rule strict_fold) (unfold strict_step_def, simp split: option.split)
  show "strict_step (verify_temp_commits st fs c)"
    unfolding strict_step_def verify_temp_commits_def
    using strict_keep [OF _ t] by (cases "managed_entries st fs (commitsDir st c)") simp_all
qed

lemma strict_walk: "strict_step (\<lambda>r. fst (verify_walk st fs c blobs ps r))"
proof -
  have "fine (fst (verify_walk st fs c blobs ps r)) \<longrightarrow> fine r \<and>
    (nothing_listed r \<longrightarrow> nothing_listed (fst (verify_walk st fs c blobs ps r))) \<and>
    ir_CommitCount (fst (verify_walk st fs c blobs ps r)) = ir_CommitCount r" for r
  proof (induction ps arbitrary: r)
    case (Cons p ps)
    show ?case
      using Cons.IH [of r] Cons.IH [of "degraded r'" for r'] by (auto simp: Let_def split: option.splits)
  qed simp
  then show ?thesis by (simp add: strict_step_def)
qed

lemma strict_artifacts: "strict_step (verify_artifacts st fs c blobs)"
  unfolding strict_step_def
proof (intro allI)
  fix r
  obtain q e where q: "verify_walk st fs c blobs (walk fs (artifactsDir st c)) r = (q, e)" by fastforce
  then show "fine (verify_artifacts st fs c blobs r) \<longrightarrow> fine r \<and>
      (nothing_listed r \<longrightarrow> nothing_listed (verify_artifacts st fs c blobs r)) \<and>
      ir_CommitCount (verify_artifacts st fs c blobs r) = ir_CommitCount r"
    using strict_keep [OF _ strict_walk [of st fs c blobs "walk fs (artifactsDir st c)"], of r]
    by (simp add: verify_artifacts_def split: option.split)
qed

text \<open>The commits: every one loads and has the acquisitions it may have.\<close>

definition commit_sound :: "Store \<Rightarrow> files \<Rightarrow> string \<Rightarrow> commitRecord list \<Rightarrow> nat \<Rightarrow> bool" where
  "commit_sound st fs c chain i \<longleftrightarrow> (\<exists>s. loadSnapshotAtCommit st fs c (chain ! i) = Inr s \<and>
     validateAcquisitionCommitProvenance (loadSnapshotAtCommit st fs) c chain i s = None)"

lemma verify_commit_fine:
  "fine (fst (verify_commit st fs c chain i s)) \<Longrightarrow> commit_sound st fs c chain i \<and> fine (fst s) \<and>
     (nothing_listed (fst s) \<longrightarrow> nothing_listed (fst (verify_commit st fs c chain i s))) \<and>
     ir_CommitCount (fst (verify_commit st fs c chain i s)) = ir_CommitCount (fst s)"
  by (cases s) (auto simp: verify_commit_def Let_def commit_sound_def split: sum.splits option.splits)

lemma verify_commits_fine:
  assumes "fine (fst (verify_commits st fs c chain r))"
  shows "(\<forall>i < length chain. commit_sound st fs c chain i) \<and> fine r \<and>
    (nothing_listed r \<longrightarrow> nothing_listed (fst (verify_commits st fs c chain r))) \<and>
    ir_CommitCount (fst (verify_commits st fs c chain r)) = ir_CommitCount r"
proof -
  have "fine (fst (fold (verify_commit st fs c chain) is s)) \<Longrightarrow> (\<forall>i \<in> set is. commit_sound st fs c chain i) \<and>
      fine (fst s) \<and> (nothing_listed (fst s) \<longrightarrow> nothing_listed (fst (fold (verify_commit st fs c chain) is s))) \<and>
      ir_CommitCount (fst (fold (verify_commit st fs c chain) is s)) = ir_CommitCount (fst s)" for "is" s
  proof (induction "is" arbitrary: s)
    case (Cons i js)
    then show ?case using verify_commit_fine [of st fs c chain i s] by simp
  qed simp
  from this [of "[0..<length chain]" "(r, [])"] show ?thesis
    using assms by (simp add: verify_commits_def)
qed

text \<open>Without an error the whole chain is valid and there is no broken tail.\<close>

lemma chain_prefix_complete: "chain_prefix c malformed rs fs = (chain, tail, None) \<Longrightarrow> tail = []"
  by (induction c malformed rs fs rule: chain_prefix.induct) (auto simp: Let_def split: if_splits list.splits)

lemma loaded_prefix: "loadCommitChainPrefix st fs c = (chain, tail, None) \<Longrightarrow> loadCommitChain st fs c = Inr chain \<and> tail = []"
  by (auto simp: loadCommitChain_def loadCommitChainPrefix_def Let_def chain_of_files_def
      split: option.splits sum.splits prod.splits if_splits dest: chain_prefix_complete)

lemma load_chain_sound:
  "chain \<noteq> [] \<Longrightarrow> \<forall>r \<in> set chain. \<exists>s. loadSnapshotAtCommit st fs c r = Inr s \<Longrightarrow>
    \<exists>s. loadSnapshotAtCommit st fs c (last chain) = Inr s \<and> load_chain st fs c before chain = Inr (s, info_of c False (last chain))"
  by (induction chain arbitrary: before) auto

lemma verify_report_fine:
  assumes f: "fine (verify_report st fs c r0)" and r0: "nothing_listed r0"
  shows "\<exists>chain. loadCommitChain st fs c = Inr chain \<and> ensureCaseTreeSafe st c fs = None \<and>
    ir_CommitCount (verify_report st fs c r0) = length chain \<and> nothing_listed (verify_report st fs c r0) \<and>
    (\<forall>i < length chain. commit_sound st fs c chain i)"
proof -
  have safe: "ensureCaseTreeSafe st c fs = None" and there: "\<not> stat_missing fs (caseDir st c)"
    using f by (auto simp: verify_report_def split: option.splits if_splits)
  obtain chain tail e where p: "loadCommitChainPrefix st fs c = (chain, tail, e)" by (rule prod_cases3)
  define r2 where "r2 = (case e of None \<Rightarrow> note_tail tail r0 | Some x \<Rightarrow> corrupt x (note_tail tail r0))"
  define r3 where "r3 = r2\<lparr>ir_CommitCount := length chain,
      ir_LatestCommit := (if chain = [] then ir_LatestCommit r2 else rec_CommitID (last chain))\<rparr>"
  obtain r4 blobs where v: "verify_commits st fs c chain r3 = (r4, blobs)" by fastforce
  define r5 where "r5 = verify_snapshots st fs c (map rec_SnapshotID chain) r4"
  have "verify_report st fs c r0 = (case unless_missing (managed st (artifactsDir st c) fs) of
      Some x \<Rightarrow> corrupt (note_error ''walk artifacts'' x) r5
    | None \<Rightarrow> verify_temp_commits st fs c (verify_staging st fs c (verify_artifacts st fs c blobs r5)))"
    by (simp only: verify_report_def safe there p option.case prod.case Let_def if_False
        r2_def [symmetric] r3_def [symmetric] v r5_def [symmetric])
  then have rep: "verify_report st fs c r0 = verify_temp_commits st fs c (verify_staging st fs c (verify_artifacts st fs c blobs r5))"
    using f by (simp split: option.splits)
  note k1 = strict_keep [OF f [unfolded rep] strict_listings(2)]
  note k2 = strict_keep [OF conjunct1 [OF k1] strict_listings(1)]
  note k3 = strict_keep [OF conjunct1 [OF k2] strict_artifacts]
  note k4 = strict_keep [OF conjunct1 [OF k3, unfolded r5_def] strict_snapshots]
  note k5 = verify_commits_fine [of st fs c chain r3, unfolded v fst_conv, OF conjunct1 [OF k4]]
  have "fine r2" using k5 by (simp add: r3_def fine_def)
  then have e: "e = None" by (auto simp: r2_def split: option.splits)
  have l: "loadCommitChain st fs c = Inr chain" "tail = []" using loaded_prefix p e by auto
  have "nothing_listed r3" using r0 by (simp add: r3_def r2_def e l note_tail_def nothing_listed_def)
  then show ?thesis using k1 k2 k3 k4 k5 l safe by (simp add: rep r5_def r3_def)
qed

section \<open>Managed directories\<close>

text \<open>Between the root and the path there are only directories, or nothing.\<close>

definition way_clear :: "files \<Rightarrow> path \<Rightarrow> path \<Rightarrow> bool" where
  "way_clear fs root p \<longleftrightarrow> Lstat fs root = Inr Dir \<and> under root p \<and>
     (\<forall>q. under root q \<and> under q p \<longrightarrow> look fs q = None \<or> look fs q = Some Dir)"

lemma clear_no_link: "way_clear fs root p \<Longrightarrow> under root q \<Longrightarrow> under q p \<Longrightarrow> ensureNotSymlink fs q = None"
  by (auto simp: way_clear_def ensureNotSymlink_def Lstat_def IsNotExist_def os_error_is_def path_error_def)

lemma under_len: "under a b \<Longrightarrow> under b a \<Longrightarrow> a = b"
  by (auto simp: under_iff)

lemma clear_walk:
  "way_clear fs root p \<Longrightarrow> under root q \<Longrightarrow> under q p \<Longrightarrow> walk_up fs root q = None"
proof (induction q rule: rev_induct)
  case Nil
  then show ?case using clear_no_link [of fs root p "[]"] by (simp add: walk_up.simps under_iff)
next
  case (snoc y q)
  show ?case
  proof (cases "q @ [y] = root")
    case True
    then show ?thesis using clear_no_link [OF snoc.prems] walk_up.simps [of fs root root] by simp
  next
    case False
    then have u: "under root q" using snoc.prems(2) by (auto simp: under_snoc)
    have "under q p" using snoc.prems(3) by (auto simp: under_iff)
    then show ?thesis
      using snoc.IH [OF snoc.prems(1) u] clear_no_link [OF snoc.prems] False u
      by (simp add: walk_up.simps [of fs root "q @ [y]"] parent_dir_def)
  qed
qed

lemma clear_managed: "way_clear fs (st_root st) p \<Longrightarrow> under (st_root st) q \<Longrightarrow> under q p \<Longrightarrow> managed st q fs = None"
  using clear_walk by (simp add: ensureManagedPath_def ensureUnderRoot_def err_if_def)

text \<open>Nothing but missing directories on the way is created.\<close>

definition grown :: "path \<Rightarrow> files \<Rightarrow> files \<Rightarrow> bool" where
  "grown p fs fs' \<longleftrightarrow> (\<forall>q. look fs' q = look fs q \<or> under q p \<and> look fs q = None \<and> look fs' q = Some Dir)"

lemma grown_clear: "way_clear fs root p \<Longrightarrow> grown p fs fs' \<Longrightarrow> way_clear fs' root p"
  unfolding way_clear_def grown_def Lstat_def
  by (auto split: option.splits if_splits) (metis option.distinct(1) option.inject)+

lemma quiet_calls:
  "w_faults w = [] \<Longrightarrow> parent_ok (w_files w) p = None \<Longrightarrow> p \<noteq> [] \<Longrightarrow> look (w_files w) p = None \<Longrightarrow>
     Mkdir p w = (Inr (), w\<lparr>w_files := put p Dir (w_files w)\<rparr>)"
  "w_faults w = [] \<Longrightarrow> sync_or_close w = (Inr (), w)"
  by (simp_all add: Mkdir_def sync_or_close_def os_call_def next_fault_def)

lemma quiet_sync:
  "w_faults w = [] \<Longrightarrow> maybeFail st cp = None \<Longrightarrow> Lstat (w_files w) d = Inr n \<Longrightarrow> syncDirChecked st d cp w = (Inr (), w)"
  by (auto simp: syncDirChecked_def syncDir_def andThen_def check_act_def check_files_def quiet_calls)

lemma quiet_steps:
  "andThen (files_of f) g w = g (f (w_files w)) w"
  "check_act None w = (Inr (), w)" "ret x w = (Inr x, w)"
  "h (w_files w) = None \<Longrightarrow> check_files h w = (Inr (), w)"
  "m w = (Inr x, v) \<Longrightarrow> andThen m k w = k x v"
  "m w = (Inr x, v) \<Longrightarrow> try_act m k l w = k x v"
  by (simp_all add: andThen_def files_of_def check_act_def ret_def check_files_def try_act_def)

lemmas managed_dir_steps = andThen_check_act andThen_check_files quiet_steps err_if_def ensureUnderRoot_def unless_missing_def

lemma managed_dir_created:
  "way_clear (w_files w) (st_root st) p \<Longrightarrow> w_faults w = [] \<Longrightarrow> maybeFail st cp = None \<Longrightarrow>
     \<exists>v. ensureManagedDir st p cp w = (Inr (), v) \<and> w_faults v = [] \<and> Lstat (w_files v) p = Inr Dir \<and> grown p (w_files w) (w_files v)"
proof (induction p rule: rev_induct)
  case Nil
  then have "st_root st = []" by (auto simp: way_clear_def under_iff)
  then show ?case
    using Nil clear_managed [OF Nil.prems(1), of "[]"]
    by (simp add: ensureManagedDir.simps [of st "[]"] managed_dir_steps Lstat_def grown_def)
next
  case (snoc y p)
  let ?p = "p @ [y]"
  note c = snoc.prems(1)
  have u: "under (st_root st) ?p" using c by (simp add: way_clear_def)
  show ?case
  proof (cases "look (w_files w) ?p = None")
    case False
    then have l: "Lstat (w_files w) ?p = Inr Dir" using c u by (auto simp: way_clear_def Lstat_def)
    then show ?thesis
      using snoc.prems clear_managed [OF c u] u
      by (simp add: ensureManagedDir.simps [of st ?p] managed_dir_steps grown_def)
  next
    case True
    have ne: "?p \<noteq> st_root st"
    proof
      assume "?p = st_root st"
      then have "Lstat (w_files w) ?p = Inr Dir" using c by (simp add: way_clear_def)
      then show False using True by (simp add: Lstat_def)
    qed
    then have up: "under (st_root st) p" using u by (auto simp: under_snoc)
    have cp: "way_clear (w_files w) (st_root st) p"
      using c up by (auto simp: way_clear_def under_snoc)
    obtain v where v: "(if p \<noteq> ?p \<and> p \<noteq> st_root st then ensureManagedDir st p cp else ret ()) w = (Inr (), v)"
        "w_faults v = []" "Lstat (w_files v) p = Inr Dir" "grown p (w_files w) (w_files v)"
    proof (cases "p = st_root st")
      case True
      then show thesis using that [of w] cp snoc.prems(2) by (simp add: ret_def grown_def way_clear_def)
    next
      case False
      then show thesis using that snoc.IH [OF cp snoc.prems(2,3)] by auto
    qed
    have g: "grown ?p (w_files w) (w_files v)" using v(4) by (auto simp: grown_def under_snoc)
    have cv: "way_clear (w_files v) (st_root st) ?p" using grown_clear [OF c g] .
    have "\<not> under ?p p" by (auto simp: under_iff)
    then have none: "look (w_files v) ?p = None" using v(4) True unfolding grown_def by metis
    let ?v = "v\<lparr>w_files := put ?p Dir (w_files v)\<rparr>"
    have g': "grown ?p (w_files w) (w_files ?v)" using g True by (auto simp: grown_def)
    have cv': "way_clear (w_files ?v) (st_root st) ?p" using grown_clear [OF c g'] .
    have pk: "parent_ok (w_files v) ?p = None" using v(3) by (simp add: parent_ok_def parent_dir_def)
    have lp: "Lstat (w_files ?v) p = Inr Dir" using v(3) by (auto simp: Lstat_def split: option.splits if_splits)
    have gone: "Lstat (w_files w) ?p = Inl (path_error ''ENOENT'' ?p)" "IsNotExist (path_error ''ENOENT'' ?p)"
      using True by (simp_all add: Lstat_def IsNotExist_def os_error_is_def path_error_def)
    have made: "Mkdir ?p v = (Inr (), ?v)" using quiet_calls(1) [OF v(2) pk] none by simp
    have synced: "syncDirChecked st p cp ?v = (Inr (), ?v)" using quiet_sync [of ?v st cp p Dir] v(2) snoc.prems(3) lp by simp
    note steps = ensureManagedDir.simps [of st ?p] andThen_check_act andThen_check_files quiet_steps(1,4) err_if_def
      ensureUnderRoot_def unless_missing_def parent_dir_def quiet_steps(6) [where m = "Mkdir ?p", OF made]
      quiet_steps(5) [where m = "syncDirChecked st p cp", OF synced]
    note ok = clear_managed [OF c u] clear_managed [OF cv up] clear_managed [OF cv' u] u gone
    have "ensureManagedDir st ?p cp w = (Inr (), ?v)"
    proof (cases "p = st_root st")
      case True
      then have "w = v" using v(1) by (simp add: ret_def)
      then show ?thesis using ok True [symmetric] by (simp add: steps quiet_steps(3,5))
    next
      case False
      then have "ensureManagedDir st p cp w = (Inr (), v)" using v(1) by simp
      then show ?thesis using ok False by (simp add: steps quiet_steps(5) [where m = "ensureManagedDir st p cp"])
    qed
    then show ?thesis using v(2) g' by (intro exI [of _ ?v]) (simp add: Lstat_def)
  qed
qed

text \<open>A case without a commit.\<close>

definition ex_empty_case :: files where
  "ex_empty_case = [([''srv''], Dir), ([''srv'', ''cases''], Dir), ([''srv'', ''cases'', ex_case_id], Dir)]"

definition ex_empty_world :: world where
  "ex_empty_world = ex_commit_world\<lparr>w_files := ex_empty_case, w_faults := []\<rparr>"

text \<open>The case with one commit, whose snapshot is the one that was stored.\<close>

definition ex_published_world :: world where
  "ex_published_world = ex_commit_world\<lparr>w_files := pc_tree, w_faults := []\<rparr>"

section \<open>Properties\<close>

text \<open>
  C7. Creating a managed directory ends with the directory in place: when no call fails and there is
  nothing but directories on the way from the root of the store, the recursion to the nearest
  directory that exists ends and returns, the path is a directory, and nothing was created but
  directories that were missing on the way. (Under any other schedule it ends as well: the recursion
  goes up the path.)
\<close>

theorem managed_directory_is_created:
  assumes "way_clear (w_files w) (st_root st) p" "w_faults w = []" "maybeFail st cp = None"
  shows "\<exists>v. ensureManagedDir st p cp w = (Inr (), v) \<and> Lstat (w_files v) p = Inr Dir \<and> grown p (w_files w) (w_files v)"
  using managed_dir_created [OF assms] by blast

theorem managed_directory_is_created_witness:
  "\<exists>v. ensureManagedDir ex_store (stagingDir ex_store ex_case_id) [] ex_empty_world = (Inr (), v) \<and>
     look (w_files v) (stagingDir ex_store ex_case_id) = Some Dir"
proof -
  have d: "stagingDir ex_store ex_case_id = [''srv'', ''cases'', ex_case_id, ''staging'']"
    by (simp add: case_dirs ex_case_dir)
  have q: "under q (stagingDir ex_store ex_case_id) \<longleftrightarrow> q \<in> {[], [''srv''], [''srv'', ''cases''], [''srv'', ''cases'', ex_case_id],
      [''srv'', ''cases'', ex_case_id, ''staging'']}" for q
    unfolding d by (auto simp: under_iff Cons_eq_append_conv)
  have "way_clear (w_files ex_empty_world) (st_root ex_store) (stagingDir ex_store ex_case_id)"
    unfolding way_clear_def q by (auto simp: Lstat_def look_def ex_empty_world_def ex_empty_case_def ex_store_def d under_iff)
  moreover have "w_faults ex_empty_world = []" "maybeFail ex_store [] = None"
    by (simp_all add: ex_empty_world_def maybeFail_def ex_store_def)
  ultimately obtain v where v: "ensureManagedDir ex_store (stagingDir ex_store ex_case_id) [] ex_empty_world = (Inr (), v)"
      "Lstat (w_files v) (stagingDir ex_store ex_case_id) = Inr Dir"
    using managed_directory_is_created by blast
  have "stagingDir ex_store ex_case_id \<noteq> []" by (simp add: d)
  then have "look (w_files v) (stagingDir ex_store ex_case_id) = Some Dir"
    using v(2) by (auto simp: Lstat_def split: option.splits)
  with v(1) show ?thesis by blast
qed


text \<open>
  C5. Whatever fails, cleaning up changes nothing that is there but staging areas and files with the
  reserved suffix below the commits and artifacts, creates nothing but the directories of the case
  and its lock, and leaves the chain of commits and every published snapshot as they were.
\<close>

theorem cleanup_removes_only_leftovers:
  assumes va: "valid_tree fs" and fs: "fs = w_files w" "fs' = w_files (snd (CleanupStaging st c w))"
    and chain: "loadCommitChain st fs c = Inr chain" "look fs (commitsDir st c) = Some Dir"
  shows "(\<forall>q. look fs' q \<noteq> look fs q \<longrightarrow> leftover st c q \<or> look fs q = None \<and> skeleton st c q) \<and>
    loadCommitChain st fs' c = Inr chain \<and>
    (\<forall>s p. simple_name s \<and> under (snapshotDir st c s) p \<longrightarrow> look fs' p = look fs p)"
proof -
  have ch: "changes (leftover st c) (skeleton st c) fs fs'"
    using CleanupStaging_changes va fs by blast
  have "loadCommitChain st fs' c = Inr chain"
  proof (rule chain_unchanged [OF va changes_wf [OF ch] chain])
    show "look fs' (commitsDir st c @ [n]) = look fs (commitsDir st c @ [n])" if "final_name n" for n
      using changes_same [OF ch] that leftover_commits(1) skeleton_short(2) by blast
    show "look fs' q = look fs q" if "look fs q \<noteq> None" "under q (commitsDir st c)" for q
      using changes_keeps [OF ch] that leftover_commits(2) by blast
  qed
  moreover have "look fs' p = look fs p"
    if s: "simple_name s" "under (snapshotDir st c s) p" for s p
    using changes_same [OF ch] leftover_snapshot [OF s] skeleton_short(3) [OF s(1)] s(2) by (auto simp: under_iff)
  ultimately show ?thesis using ch unfolding changes_def by blast
qed

theorem cleanup_removes_only_leftovers_witness:
  "\<exists>fs'. fs' = w_files (snd (CleanupStaging ex_store ex_case_id ex_commit_world)) \<and>
     loadCommitChain ex_store fs' ex_case_id = Inr [] \<and>
     look fs' (snapshotDir ex_store ex_case_id ex_orphan) = Some Dir"
proof -
  have w: "ex_tree = w_files ex_commit_world" by (simp add: ex_commit_world_def)
  have "look ex_tree (snapshotDir ex_store ex_case_id ex_orphan) = Some Dir"
    by (simp add: snapshotDir_simple ex_simple ex_case_dir look_def ex_tree_def)
  then show ?thesis
    using cleanup_removes_only_leftovers [OF ex_tree_valid w refl ex_no_commits ex_commits_dir] ex_simple(2)
    by (metis under_refl)
qed

text \<open>
  C6. A case that verification calls ok is one the store can use: its chain of commits is complete and
  counted, every commit of it loads with acquisitions that extend an ancestor, and there are no
  errors, staging areas, temporary files or orphans. When it has a commit, loading the case returns
  the snapshot of the last one with its record; when it has none, loading it says that the case is
  not found. Verification changes no file.
\<close>

theorem verified_case_loads:
  assumes "Verify st c w = (Inr report, w')" "ir_Status report = IntegrityOK" "fs = w_files w"
  shows "w_files w' = fs \<and> nothing_listed report \<and>
    (\<exists>chain. loadCommitChain st fs c = Inr chain \<and> ir_CommitCount report = length chain \<and>
      (\<forall>i < length chain. commit_sound st fs c chain i) \<and>
      (if chain = [] then load_latest st c fs = Inl (Errorf ''%w: %s'' [GWrap ErrCaseNotFound, GStr c])
       else \<exists>s. loadSnapshotAtCommit st fs c (last chain) = Inr s \<and>
         load_latest st c fs = Inr (s, info_of c False (last chain))))"
proof -
  obtain v where v: "ctx_Err w = (Inr (), v)" and a: "andThen (check_act (validateCaseID c)) (\<lambda>_.
      andThen (read_act (\<lambda>w. (w_clock w, w))) (\<lambda>now.
      files_of (\<lambda>fs. verify_report st fs c (empty_report c (format_rfc3339 now))))) v = (Inr report, w')"
    using assms(1) unfolding Verify_def andThen_Inr by auto
  have fs: "w_files v = fs" using pure_acts(8) v assms(3) unfolding pure_act_def by (metis snd_conv)
  have id: "validateCaseID c = None" using a by (cases "validateCaseID c") (auto simp: andThen_check_act)
  then have rep: "report = verify_report st fs c (empty_report c (format_rfc3339 (w_clock v)))" and same: "w_files w' = fs"
    using a fs by (auto simp: check_act_def andThen_def read_act_def files_of_def)
  let ?now = "format_rfc3339 (w_clock v)"
  have "nothing_listed (empty_report c ?now)" by (simp add: nothing_listed_def empty_report_def)
  then obtain chain where ch: "loadCommitChain st fs c = Inr chain" "ensureCaseTreeSafe st c fs = None"
      "ir_CommitCount report = length chain" "nothing_listed report" "\<forall>i < length chain. commit_sound st fs c chain i"
    using verify_report_fine [of st fs c "empty_report c ?now"] assms(2) unfolding rep fine_def by blast
  have "\<exists>s. loadSnapshotAtCommit st fs c (last chain) = Inr s \<and> load_latest st c fs = Inr (s, info_of c False (last chain))"
    if "chain \<noteq> []"
  proof -
    have "\<forall>r \<in> set chain. \<exists>s. loadSnapshotAtCommit st fs c r = Inr s"
      using ch(5) unfolding commit_sound_def by (metis in_set_conv_nth)
    from load_chain_sound [OF that this, of "[]"] show ?thesis by (simp add: load_latest_def id ch(1,2))
  qed
  moreover have "load_latest st c fs = Inl (Errorf ''%w: %s'' [GWrap ErrCaseNotFound, GStr c])" if "chain = []"
    using ch(1,2) that by (simp add: load_latest_def id)
  ultimately show ?thesis using ch same by auto
qed

theorem verified_case_loads_witness:
  "\<exists>report w'. Verify ex_store ex_case_id ex_published_world = (Inr report, w') \<and> nothing_listed report \<and>
     w_files w' = pc_tree \<and> loadCommitChain ex_store pc_tree ex_case_id = Inr [pc_record] \<and> ir_CommitCount report = 1 \<and>
     commit_sound ex_store pc_tree ex_case_id [pc_record] 0 \<and>
     load_latest ex_store ex_case_id pc_tree = Inr (ex_legacy, info_of ex_case_id False pc_record)"
proof -
  obtain report where v: "Verify ex_store ex_case_id ex_published_world = (Inr report, ex_published_world)"
      and s: "ir_Status report = IntegrityOK"
    using pc_report
    by (simp add: Verify_def ctx_Err_def ex_published_world_def ex_commit_world_def andThen_def andThen_check_act validateCaseID_def err_if_def
        read_act_def files_of_def quiet_steps(2))
  have "pc_tree = w_files ex_published_world" by (simp add: ex_published_world_def)
  moreover have chain: "loadCommitChain ex_store pc_tree ex_case_id = Inr [pc_record]" by (simp add: loadCommitChain_def pc_chain)
  ultimately show ?thesis using v verified_case_loads [OF v s, of pc_tree] pc_loaded by auto
qed

end
