(* ===== verification/CaseProperties.thy ===== *)
theory CaseProperties
  imports Examples
begin

text \<open>
  What holds of every snapshot that \<^verbatim>\<open>Snapshot.Validate\<close> accepts, that is of every snapshot the
  case store commits and the coordinator loads.
\<close>

text \<open>
  C8. The audit log of a valid snapshot tells the whole life of the case: put in the order of their
  revisions, its events are a run of the lifecycle (each one a step that the abstract lifecycle
  allows from the state the one before it left, numbered from 1 without a gap, in the order of
  their times), and this run ends in the state, at the revision, with the transition id and at the
  time that the workflow document records; the case manifest shows the state that belongs to it.
\<close>

theorem valid_snapshot_is_a_run:
  assumes "Snapshot_Validate win s = None" "snap_WorkflowState s = Some w"
  shows "\<exists>ordered p. event_run ordered p \<and> mset ordered = mset (snap_CoordinatorEvents s) \<and>
    wf_State w = phase_name p \<and> unat (wf_Revision w) = length (snap_CoordinatorEvents s) \<and>
    wf_LastTransitionID w = we_EventID (last ordered) \<and> we_OccurredAt (last ordered) = wf_UpdatedAt w \<and>
    CaseStateForWorkflow (phase_name p) = Inr (cm_CurrentState (snap_Case s))"
proof -
  obtain ordered p where *: "event_run ordered p" "mset ordered = mset (snap_CoordinatorEvents s)"
    "wf_State w = phase_name p" "unat (wf_Revision w) = length ordered"
    "wf_LastTransitionID w = we_EventID (last ordered)" "we_OccurredAt (last ordered) = wf_UpdatedAt w"
    using valid_run [OF assms] .
  moreover have "length ordered = length (snap_CoordinatorEvents s)" using *(2) by (metis size_mset)
  ultimately show ?thesis using valid_workflow(3) [OF assms] by metis
qed

theorem valid_snapshot_is_a_run_witness:
  "\<exists>ordered p. event_run ordered p \<and> mset ordered = mset (snap_CoordinatorEvents ex_s3) \<and> WorkflowPlanProposed = phase_name p \<and>
     length (snap_CoordinatorEvents ex_s3) = 3"
  using valid_snapshot_is_a_run [OF ex_s3_valid ex_s3_fields(1)] by auto

text \<open>
  A failed or cancelled case stays so: in a valid snapshot an event that led to one of these two
  states is the last transition, and the workflow is in the state it led to.
\<close>

theorem terminal_event_is_last:
  assumes "Snapshot_Validate win s = None" "snap_WorkflowState s = Some w"
    and "e \<in> set (snap_CoordinatorEvents s)" "we_NextState e = WorkflowFailed \<or> we_NextState e = WorkflowCancelled"
  shows "wf_LastTransitionID w = we_EventID e \<and> wf_State w = we_NextState e"
proof -
  obtain ordered p where run: "event_run ordered p" "mset ordered = mset (snap_CoordinatorEvents s)"
    "wf_State w = phase_name p" "wf_LastTransitionID w = we_EventID (last ordered)"
    using valid_run [OF assms(1,2)] by metis
  have "e \<in> set ordered" using assms(3) run(2) by (metis set_mset_mset)
  then obtain xs ys where split: "ordered = xs @ e # ys" by (meson split_list)
  then have "ys = []" using event_run_terminal_last run(1) assms(4) by blast
  then show ?thesis using run split event_run_phase by fastforce
qed

theorem terminal_event_is_last_witness:
  "\<exists>e \<in> set (snap_CoordinatorEvents ex_s4). we_NextState e = WorkflowFailed \<and> ms_id 8 ''cevt'' = we_EventID e"
proof -
  let ?w = "new_workflow ex_case_id WorkflowFailed 4 ex_time (ms_id 8 ''cevt'') ex_plan_id
     (Some \<lparr>wfl_ReasonCode = ''case_failed'', wfl_DetailCode = []\<rparr>)"
  let ?e = "new_event (ms_id 8 ''cevt'') ex_time ex_case_id EventCaseFailed ActorTechnician WorkflowPlanProposed
     WorkflowFailed (ms_id 7 ''commit'') ''case_failed'' [] 4 [ex_case_id, DocumentIDCaseWorkflowState, ex_plan_id]"
  have "snap_WorkflowState ex_s4 = Some ?w" "?e \<in> set (snap_CoordinatorEvents ex_s4)"
    by (simp_all add: ex_s4_def transitioned_def ex_s3_fields)
  then show ?thesis
    using terminal_event_is_last [OF ex_s4_valid, of ?w ?e] by (intro bexI [of _ ?e]) simp_all
qed

text \<open>
  C9. Every event of a valid snapshot was emitted by the system, the technician or the deterministic
  analyzer, and by one of those that may emit its type: no event of the log comes from the language
  model. The case was created or adopted exactly once.
\<close>

theorem valid_snapshot_actors:
  assumes "Snapshot_Validate win s = None"
  shows "(\<forall>e \<in> set (snap_CoordinatorEvents s). isPR17AllowedActor (we_ActorType e) \<and> we_ActorType e \<noteq> ActorLLMAdvisor \<and>
      allowedActorForPR17Event (we_EventType e) (we_ActorType e)) \<and>
    length (filter (\<lambda>e. we_EventType e \<in> {EventCaseCreated, EventLegacyCaseAdopted}) (snap_CoordinatorEvents s)) =
      (if snap_WorkflowState s = None then 0 else 1)"
proof (cases "snap_WorkflowState s")
  case None
  then show ?thesis using no_workflow_no_events [OF assms] by simp
next
  case (Some w)
  let ?P = "\<lambda>e. we_EventType e \<in> {EventCaseCreated, EventLegacyCaseAdopted}"
  obtain ordered p where run: "event_run ordered p" "mset ordered = mset (snap_CoordinatorEvents s)"
    using valid_run [OF assms Some] by metis
  obtain e es where ord: "ordered = e # es" using event_run_nonempty [OF run(1)] by (cases ordered) auto
  have "filter ?P es = []"
    using event_run_fresh [OF run(1)] by (fastforce simp: ord filter_empty_conv in_set_conv_nth)
  moreover have "?P e" using event_run_fresh [OF run(1), of 0] by (simp add: ord)
  ultimately have "size (filter_mset ?P (mset ordered)) = 1" by (simp add: ord mset_filter [symmetric])
  then have one: "length (filter ?P (snap_CoordinatorEvents s)) = 1"
    by (simp only: run(2) mset_filter [symmetric] size_mset)
  have "isPR17AllowedActor (we_ActorType e) \<and> we_ActorType e \<noteq> ActorLLMAdvisor \<and>
      allowedActorForPR17Event (we_EventType e) (we_ActorType e)" if "e \<in> set (snap_CoordinatorEvents s)" for e
    using valid_semantics [OF assms that]
    by (auto simp: event_semantics_None isPR17AllowedActor_def actor_defs)
  then show ?thesis using one Some by simp
qed

theorem valid_snapshot_actors_witness:
  "length (filter (\<lambda>e. we_EventType e \<in> {EventCaseCreated, EventLegacyCaseAdopted}) (snap_CoordinatorEvents ex_s3)) = 1"
  using valid_snapshot_actors [OF ex_s3_valid] ex_s3_fields(1) by simp

text \<open>
  C10. Provenance: each finding of a valid snapshot is referenced by an \<^verbatim>\<open>analysis_committed\<close> event
  of the system or the deterministic analyzer, each plan by a \<^verbatim>\<open>plan_committed\<close> event of an actor
  other than the language model, and there are no execution events or verification reports yet.
\<close>

theorem findings_and_plans_are_audited:
  assumes "Snapshot_Validate win s = None"
  shows "(\<forall>f \<in> set (snap_Findings s). \<exists>e \<in> set (snap_CoordinatorEvents s). we_EventType e = EventAnalysisCommitted \<and>
        we_ActorType e \<in> {ActorSystem, ActorDeterministicAnalyzer} \<and>
        fnd_FindingID f \<in> set (elems (we_ReferencedDocumentIDs e))) \<and>
    (\<forall>p \<in> set (snap_RepairPlans s). \<exists>e \<in> set (snap_CoordinatorEvents s). we_EventType e = EventPlanCommitted \<and>
        we_ActorType e \<in> {ActorSystem, ActorTechnician, ActorDeterministicAnalyzer} \<and>
        pln_PlanID p \<in> set (elems (we_ReferencedDocumentIDs e))) \<and>
    snap_ExecutionEvents s = [] \<and> snap_VerificationReports s = []"
proof (cases "snap_WorkflowState s")
  case None
  then show ?thesis using assms by (simp add: Snapshot_Validate_def Let_def)
next
  case (Some w)
  note prov = provenance_None [OF valid_provenance [OF assms Some] Some]
  have actors: "allowedActorForPR17Event (we_EventType e) (we_ActorType e)" if "e \<in> set (snap_CoordinatorEvents s)" for e
    using valid_semantics [OF assms that] by (auto simp: event_semantics_None)
  have "\<exists>e \<in> set (snap_CoordinatorEvents s). we_EventType e = EventAnalysisCommitted \<and>
        we_ActorType e \<in> {ActorSystem, ActorDeterministicAnalyzer} \<and>
        fnd_FindingID f \<in> set (elems (we_ReferencedDocumentIDs e))" if "f \<in> set (snap_Findings s)" for f
    using prov(1) that actors by (fastforce simp: audited_iff allowedActorForPR17Event_def image_subset_iff)
  moreover have "\<exists>e \<in> set (snap_CoordinatorEvents s). we_EventType e = EventPlanCommitted \<and>
        we_ActorType e \<in> {ActorSystem, ActorTechnician, ActorDeterministicAnalyzer} \<and>
        pln_PlanID p \<in> set (elems (we_ReferencedDocumentIDs e))" if "p \<in> set (snap_RepairPlans s)" for p
    using prov(2) that actors by (fastforce simp: audited_iff allowedActorForPR17Event_def image_subset_iff)
  ultimately show ?thesis using prov(3,4) by blast
qed

theorem findings_and_plans_are_audited_witness:
  "\<exists>e \<in> set (snap_CoordinatorEvents ex_s3). we_EventType e = EventPlanCommitted \<and>
     ex_plan_id \<in> set (elems (we_ReferencedDocumentIDs e))"
proof -
  have "ex_plan \<in> set (snap_RepairPlans ex_s3)" by (simp add: ex_s3_def transitioned_def)
  then show ?thesis using findings_and_plans_are_audited [OF ex_s3_valid] by fastforce
qed

text \<open>
  C11. Each target and each piece of evidence of a valid snapshot with a workflow has one origin: no
  id was added by two acquisitions or twice by one, and the event that created or adopted the case
  references exactly the targets and evidence that no acquisition added, the case and the workflow
  document.
\<close>

theorem one_origin:
  assumes "Snapshot_Validate win s = None" "snap_WorkflowState s \<noteq> None"
  shows "distinct (added_target_ids s) \<and> distinct (added_evidence_ids s) \<and>
    (\<forall>e \<in> set (snap_CoordinatorEvents s). we_EventType e \<in> {EventCaseCreated, EventLegacyCaseAdopted} \<longrightarrow>
       set (elems (we_ReferencedDocumentIDs e)) - {[]} =
         {cm_CaseID (snap_Case s), DocumentIDCaseWorkflowState} \<union>
         (tg_TargetID ` set (snap_Targets s) - set (added_target_ids s)) \<union>
         (ev_EvidenceID ` set (snap_EvidenceBundles s) - set (added_evidence_ids s)) - {[]})"
proof -
  obtain w where w: "snap_WorkflowState s = Some w" using assms(2) by blast
  have "set (elems (we_ReferencedDocumentIDs e)) - {[]} =
         {cm_CaseID (snap_Case s), DocumentIDCaseWorkflowState} \<union>
         (tg_TargetID ` set (snap_Targets s) - set (added_target_ids s)) \<union>
         (ev_EvidenceID ` set (snap_EvidenceBundles s) - set (added_evidence_ids s)) - {[]}"
    if "e \<in> set (snap_CoordinatorEvents s)" and "we_EventType e \<in> {EventCaseCreated, EventLegacyCaseAdopted}" for e
  proof -
    have "set (elems (we_ReferencedDocumentIDs e)) - {[]} = set (createOrAdoptReferenceSet s) - {[]}"
      using valid_event(4) [OF assms(1) that(1)] that(2)
      by (auto simp: validateCoordinatorEventReferenceSemantics_def Let_def exact_refs_def requireExactRefSet_None
            split: if_splits)
    then show ?thesis
      by (auto simp: createOrAdoptReferenceSet_def initialTargetIDs_def initialEvidenceIDs_def)
  qed
  then show ?thesis using origin_None [OF valid_workflow(5) [OF assms(1) w]] by blast
qed

theorem one_origin_witness: "distinct (added_target_ids ex_s3)"
  using one_origin [OF ex_s3_valid] ex_s3_fields(1) by simp

end
