(* ===== verification/CommandProofs.thy ===== *)
theory CommandProofs
  imports CoordProofs SnapshotProofs
begin

text \<open>
  The contract every command on a loaded case keeps: it makes exactly one step of the lifecycle, on
  the revision its caller expected, records it in one new audit event, and publishes a valid
  snapshot under the commit it started from.
\<close>

section \<open>One committed transition\<close>

definition same_case :: "Snapshot \<Rightarrow> Snapshot \<Rightarrow> bool" where
  "same_case old new \<longleftrightarrow>
     snap_Case new = (snap_Case old)\<lparr>cm_UpdatedAt := cm_UpdatedAt (snap_Case new),
                                     cm_CurrentState := cm_CurrentState (snap_Case new)\<rparr> \<and>
     snap_Targets new = snap_Targets old \<and> snap_EvidenceBundles new = snap_EvidenceBundles old \<and>
     snap_ExecutionEvents new = snap_ExecutionEvents old \<and>
     snap_VerificationReports new = snap_VerificationReports old \<and>
     snap_EvidenceAcquisitions new = snap_EvidenceAcquisitions old \<and>
     snap_AgentConsultations new = snap_AgentConsultations old"

definition one_step :: "action \<Rightarrow> string \<Rightarrow> 64 word \<Rightarrow> Snapshot \<Rightarrow> Snapshot \<Rightarrow> bool" where
  "one_step a expected revision old new \<longleftrightarrow>
     (\<exists>p q e. event_step e p a q \<and> currentState old = source_name p \<and> currentState new = phase_name q \<and>
        snap_CoordinatorEvents new = snap_CoordinatorEvents old @ [e] \<and>
        we_EventID e \<notin> we_EventID ` set (snap_CoordinatorEvents old) \<and>
        we_ExpectedCommitID e = expected \<and> we_WorkflowRevision e = revision \<and>
        we_OccurredAt e = cm_UpdatedAt (snap_Case new) \<and>
        (\<exists>wf. snap_WorkflowState new = Some wf \<and> wf_LastTransitionID wf = we_EventID e \<and>
           wf_Revision wf = revision))"

definition published :: "'w deps \<Rightarrow> string \<Rightarrow> CaseView \<Rightarrow> 'w \<Rightarrow> bool" where
  "published d expected view w \<longleftrightarrow>
     Snapshot_Validate (d_win d) (cv_Snapshot view) = None \<and>
     cv_State view = currentState (cv_Snapshot view) \<and>
     (\<exists>w1. d_Commit d (commit_request (cv_Snapshot view) expected) w1 = (Inr (cv_CommitInfo view), w))"

lemma transitioned_fields [simp]:
  "snap_Targets (transitioned cid et ac src dst ex re cm c rv fl pl rs eid at s) = snap_Targets s"
  "snap_EvidenceBundles (transitioned cid et ac src dst ex re cm c rv fl pl rs eid at s) = snap_EvidenceBundles s"
  "snap_Findings (transitioned cid et ac src dst ex re cm c rv fl pl rs eid at s) = snap_Findings s"
  "snap_RepairPlans (transitioned cid et ac src dst ex re cm c rv fl pl rs eid at s) = snap_RepairPlans s"
  "snap_ExecutionEvents (transitioned cid et ac src dst ex re cm c rv fl pl rs eid at s) = snap_ExecutionEvents s"
  "snap_VerificationReports (transitioned cid et ac src dst ex re cm c rv fl pl rs eid at s) = snap_VerificationReports s"
  "snap_EvidenceAcquisitions (transitioned cid et ac src dst ex re cm c rv fl pl rs eid at s) = snap_EvidenceAcquisitions s"
  "snap_AgentConsultations (transitioned cid et ac src dst ex re cm c rv fl pl rs eid at s) = snap_AgentConsultations s"
  "currentState (transitioned cid et ac src dst ex re cm c rv fl pl rs eid at s) = dst"
  "snap_WorkflowState (transitioned cid et ac src dst ex re cm c rv fl pl rs eid at s) =
     Some (new_workflow (cm_CaseID (snap_Case s)) dst rv at eid pl fl)"
  "snap_Case (transitioned cid et ac src dst ex re cm c rv fl pl rs eid at s) =
     (snap_Case s)\<lparr>cm_UpdatedAt := at, cm_CurrentState := c\<rparr>"
  "snap_CoordinatorEvents (transitioned cid et ac src dst ex re cm c rv fl pl rs eid at s) =
     snap_CoordinatorEvents s @ [new_event eid at cid et ac src dst ex re cm rv rs]"
  by (simp_all add: transitioned_def currentState_def new_workflow_def)

lemma run_transition_step:
  assumes run: "run_transition d caseID (action_event a) actor (source_name p) (phase_name q) info reason command
      revision failure plan refs snap w = (Inr view, w')"
    and step: "lifecycle p a q" and cur: "currentState snap = source_name p"
  shows "one_step a (ci_CommitID info) revision snap (cv_Snapshot view)"
    and "published d (ci_CommitID info) view w'" and "same_case snap (cv_Snapshot view)"
    and "snap_Findings (cv_Snapshot view) = snap_Findings snap"
    and "snap_RepairPlans (cv_Snapshot view) = snap_RepairPlans snap"
    and "\<exists>wf. snap_WorkflowState (cv_Snapshot view) = Some wf \<and> wf_ActivePlanID wf = plan \<and> wf_Failure wf = failure"
proof -
  obtain eventID now c rs done_info w1 where
    s: "cv_Snapshot view = transitioned caseID (action_event a) actor (source_name p) (phase_name q) (ci_CommitID info)
       reason command c revision failure plan rs eventID (monotonicNow now snap) snap"
    and fresh: "eventID \<notin> set (map we_EventID (snap_CoordinatorEvents snap))"
    and ok: "Snapshot_Validate (d_win d) (cv_Snapshot view) = None"
    and com: "d_Commit d (commit_request (cv_Snapshot view) (ci_CommitID info)) w1 = (Inr done_info, w')"
    and view: "view = viewFrom (cv_Snapshot view) done_info"
    using run by (rule run_transition_Inr)
  show "one_step a (ci_CommitID info) revision snap (cv_Snapshot view)"
    using step cur fresh
    by (auto simp: one_step_def s event_step_def new_event_def new_workflow_def intro!: exI [of _ p] exI [of _ q])
  have "cv_CommitInfo view = done_info" "cv_State view = currentState (cv_Snapshot view)"
    by (subst view, simp add: viewFrom_def)+
  then show "published d (ci_CommitID info) view w'"
    using ok com by (auto simp: published_def)
  show "same_case snap (cv_Snapshot view)" by (simp add: same_case_def s)
  show "snap_Findings (cv_Snapshot view) = snap_Findings snap"
    "snap_RepairPlans (cv_Snapshot view) = snap_RepairPlans snap"
    "\<exists>wf. snap_WorkflowState (cv_Snapshot view) = Some wf \<and> wf_ActivePlanID wf = plan \<and> wf_Failure wf = failure"
    by (simp_all add: s new_workflow_def)
qed

text \<open>What the transition check of a command tells about the state it starts from.\<close>

lemma transition_check_Inr:
  "transition_check caseID src dst actor n m w = (Inr u, w') \<longleftrightarrow>
     w' = w \<and> (\<exists>p a q. transition_allowed p a q actor n m \<and> src = source_name p \<and> dst = phase_name q)"
  by (auto simp: transition_check_def validateTransition_None)

lemma lifecycle_into:
  "lifecycle p a Analyzed \<longleftrightarrow> a = CommitAnalysis \<and> (p = Some EvidenceCollected \<or> p = Some Analyzed)"
  "lifecycle p a PlanProposed \<longleftrightarrow> a = CommitPlan \<and> p = Some Analyzed"
  "lifecycle p a Failed \<longleftrightarrow> a = FailCase \<and> (\<exists>r \<in> {EvidenceCollected, Analyzed, PlanProposed}. p = Some r)"
  "lifecycle p a Cancelled \<longleftrightarrow> a = CancelCase \<and> (\<exists>r \<in> {EvidenceCollected, Analyzed, PlanProposed}. p = Some r)"
  by (auto elim!: lifecycleE intro: lifecycle.intros)

lemma transition_check_into:
  "transition_check cid src WorkflowAnalyzed actor n m w = (Inr u, w') \<longleftrightarrow>
     w' = w \<and> (\<exists>p. transition_allowed p CommitAnalysis Analyzed actor n m \<and> src = source_name p)"
  "transition_check cid src WorkflowPlanProposed actor n m w = (Inr u, w') \<longleftrightarrow>
     w' = w \<and> (\<exists>p. transition_allowed p CommitPlan PlanProposed actor n m \<and> src = source_name p)"
  "transition_check cid src WorkflowFailed actor n m w = (Inr u, w') \<longleftrightarrow>
     w' = w \<and> (\<exists>p. transition_allowed p FailCase Failed actor n m \<and> src = source_name p)"
  "transition_check cid src WorkflowCancelled actor n m w = (Inr u, w') \<longleftrightarrow>
     w' = w \<and> (\<exists>p. transition_allowed p CancelCase Cancelled actor n m \<and> src = source_name p)"
  by (auto simp: transition_check_Inr transition_allowed_def lifecycle_into)

lemma allowed_lifecycle: "transition_allowed p a q actor n m \<Longrightarrow> lifecycle p a q"
  by (simp add: transition_allowed_def)

text \<open>The state and the audit log after a step.\<close>

lemma one_step_state:
  "one_step CommitAnalysis ex r old new \<Longrightarrow> currentState new = WorkflowAnalyzed"
  "one_step CommitPlan ex r old new \<Longrightarrow> currentState new = WorkflowPlanProposed"
  "one_step FailCase ex r old new \<Longrightarrow> currentState new = WorkflowFailed"
  "one_step CancelCase ex r old new \<Longrightarrow> currentState new = WorkflowCancelled"
  "one_step AdoptLegacy ex r old new \<Longrightarrow> currentState new = WorkflowEvidenceCollected"
  by (auto simp: one_step_def event_step_def lifecycle_iffs)

lemma one_step_log:
  "one_step a ex r old new \<Longrightarrow>
     length (snap_CoordinatorEvents new) = Suc (length (snap_CoordinatorEvents old))"
  by (auto simp: one_step_def)

end
