(* ===== verification/Consultations.thy ===== *)
theory Consultations
  imports Coordinator GoHash
begin

text \<open>
  Advisory consultations of the language model (\<^verbatim>\<open>internal/recovery/coordinator/consultation.go\<close>):
  the identity of a consultation, the replay of a request that was already committed, and the
  command \<^verbatim>\<open>CommitAgentConsultation\<close>, which appends a consultation and changes nothing else.
\<close>

section \<open>Requests\<close>

record CommitAgentConsultationRequest =
  qr_CaseID :: string
  qr_ExpectedCommitID :: string
  qr_RequestID :: string
  qr_Consultation :: AgentConsultation
  qr_Actor :: string

record CommitAgentConsultationResult =
  qv_CaseView :: CaseView
  qv_Consultation :: AgentConsultation
  qv_Idempotent :: bool

definition ctx_ok :: "'w deps \<Rightarrow> ('w, unit) act" where
  "ctx_ok d w = (case d_CtxErr d w of None \<Rightarrow> (Inr (), w) | Some e \<Rightarrow> (Inl e, w))"

definition requireConsultationActor :: "string \<Rightarrow> string result" where
  "requireConsultationActor actor =
     (let actor = defaultActor actor ActorSystem in
      if actor \<in> {ActorSystem, ActorTechnician, ActorLLMAdvisor} then Inr actor
      else Inl (Errorf ''%w: actor_type %q'' [GWrap ErrActorNotAllowed, GStr actor]))"

definition requireAnalyzedForConsultation :: "Snapshot \<Rightarrow> string \<Rightarrow> go_err" where
  "requireAnalyzedForConsultation s caseID =
     err_if (currentState s \<noteq> WorkflowAnalyzed)
       (TransitionError caseID (currentState s) WorkflowAnalyzed ''consultation_not_allowed''
         (GVal (Errorf ''agent consultation requires workflow state analyzed (got %s)'' [GStr (currentState s)])))"

text \<open>
  The loop over the runes after the prefix; a byte outside ASCII starts a rune that is no digit.
\<close>

definition request_id_matches :: "string \<Rightarrow> string \<Rightarrow> bool" where
  "request_id_matches prefix i \<longleftrightarrow> length i = length prefix + 24 \<and>
     list_all (\<lambda>r. \<not> ((r < CHR ''0'' \<or> CHR ''9'' < r) \<and> (r < CHR ''a'' \<or> CHR ''f'' < r))) (drop (length prefix) i) \<and>
     take (length prefix) i = prefix"

definition validateConsultationRequestID :: "string \<Rightarrow> go_err" where
  "validateConsultationRequestID i = first_err
     [err_if (i = []) (bad_argument ''request_id is required'' []),
      err_if (\<not> request_id_matches ''creq-'' i)
        (bad_argument ''request_id must match creq-<24 lowercase hex>'' [])]"

definition consultationIDFor :: "string \<Rightarrow> string \<Rightarrow> string \<Rightarrow> string" where
  "consultationIDFor caseID requestID inputDigest =
     ''consult-'' @ hex_encode (take 12 (sha256_sum
        (''agentruntime|consultation|'' @ caseID @ ''|'' @ requestID @ ''|'' @ inputDigest)))"

section \<open>The identity of a consultation\<close>

text \<open>The payload leaves the time of generation out.\<close>

definition consultation_identity :: "AgentConsultation \<Rightarrow> json" where
  "consultation_identity c = JObj
     ([(''schema_name'', JStr (con_SchemaName c)), (''schema_version'', JStr (con_SchemaVersion c)),
       (''consultation_id'', JStr (con_ConsultationID c)), (''case_id'', JStr (con_CaseID c)),
       (''request_id'', JStr (con_RequestID c)), (''runtime_id'', JStr (con_RuntimeID c)),
       (''runtime_version'', JStr (con_RuntimeVersion c)), (''source_commit_id'', JStr (con_SourceCommitID c)),
       (''input_digest'', JStr (con_InputDigest c)), (''status'', JStr (con_Status c)),
       (''round_count'', JInt (con_RoundCount c))]
      @ omit_empty ''topology_id'' (con_TopologyID c)
      @ [(''finding_refs'', json_strs (con_FindingRefs c)), (''evidence_refs'', json_strs (con_EvidenceRefs c)),
         (''target_refs'', json_strs (con_TargetRefs c)),
         (''hypotheses'', json_docs AdvisoryHypothesis_json (con_Hypotheses c)),
         (''next_diagnostic_steps'', json_strs (con_NextDiagnosticSteps c)),
         (''retrieved_sources'', json_docs RetrievedSource_json (con_RetrievedSources c)),
         (''limitations'', json_strs (con_Limitations c)),
         (''provider_metadata'', ProviderMetadata_json (con_ProviderMetadata c))]
      @ omit_false ''insufficient_evidence'' (con_InsufficientEvidence c))"

definition canonicalConsultationBody :: "AgentConsultation \<Rightarrow> string result" where
  "canonicalConsultationBody c = marshal (consultation_identity c)"

lemma identity_total: "\<exists>body. canonicalConsultationBody c = Inr body"
  unfolding canonicalConsultationBody_def
  by (rule marshal_total(1))
     (auto simp: consultation_identity_def AdvisoryHypothesis_json_def RetrievedSource_json_def ProviderMetadata_json_def
        omit_empty_def omit_false_def)

definition consultationsCanonicallyEqual :: "AgentConsultation \<Rightarrow> AgentConsultation \<Rightarrow> bool" where
  "consultationsCanonicallyEqual a b =
     (case canonicalConsultationBody a of
        Inl _ \<Rightarrow> False
      | Inr left \<Rightarrow> (case canonicalConsultationBody b of Inl _ \<Rightarrow> False | Inr right \<Rightarrow> left = right))"

section \<open>Replays\<close>

text \<open>The loop over the stored consultations: \<open>None\<close> is \<^verbatim>\<open>ok = false\<close>.\<close>

fun consultation_replay :: "Snapshot \<Rightarrow> CommitInfo \<Rightarrow> string \<Rightarrow> string \<Rightarrow> string \<Rightarrow> AgentConsultation list \<Rightarrow>
    CommitAgentConsultationResult result option" where
  "consultation_replay s info requestID consultationID canonical [] = None"
| "consultation_replay s info requestID consultationID canonical (e # es) =
     (if con_RequestID e \<noteq> requestID \<and> con_ConsultationID e \<noteq> consultationID
      then consultation_replay s info requestID consultationID canonical es
      else (case canonicalConsultationBody e of
              Inl x \<Rightarrow> Some (Inl x)
            | Inr body \<Rightarrow>
                if con_RequestID e = requestID \<and> body \<noteq> canonical
                then Some (Inl (AcquisitionConflictError (cm_CaseID (snap_Case s)) requestID))
                else if con_ConsultationID e = consultationID \<and> body \<noteq> canonical
                then Some (Inl (AcquisitionConflictError (cm_CaseID (snap_Case s)) requestID))
                else if body \<noteq> canonical
                then consultation_replay s info requestID consultationID canonical es
                else Some (Inr \<lparr>qv_CaseView = viewFrom s info, qv_Consultation = e, qv_Idempotent = True\<rparr>)))"

definition findConsultationReplay :: "Snapshot \<Rightarrow> CommitInfo \<Rightarrow> string \<Rightarrow> string \<Rightarrow> string \<Rightarrow>
    CommitAgentConsultationResult result option" where
  "findConsultationReplay s info requestID consultationID canonical =
     consultation_replay s info requestID consultationID canonical (snap_AgentConsultations s)"

section \<open>Appending a consultation\<close>

text \<open>The sets of \<^verbatim>\<open>buildCrossRefs\<close>; it knows no artifacts, acquisitions or consultations.\<close>

definition buildCrossRefs :: "Snapshot \<Rightarrow> CrossRefs" where
  "buildCrossRefs s =
     (let targets = map tg_TargetID (snap_Targets s); evidence = map ev_EvidenceID (snap_EvidenceBundles s);
          findings = map fnd_FindingID (snap_Findings s); plans = map pln_PlanID (snap_RepairPlans s);
          executions = map ex_ExecutionID (snap_ExecutionEvents s);
          verifications = map vr_VerificationID (snap_VerificationReports s);
          events = map we_EventID (snap_CoordinatorEvents s) in
      \<lparr>cr_CaseIDs = {cm_CaseID (snap_Case s)}, cr_TargetIDs = setOf targets, cr_EvidenceIDs = setOf evidence,
       cr_FindingIDs = setOf findings, cr_PlanIDs = setOf plans, cr_ExecutionIDs = setOf executions,
       cr_VerificationIDs = setOf verifications, cr_ArtifactIDs = {}, cr_CoordinatorEventIDs = setOf events,
       cr_DocumentIDs = setOf ([cm_CaseID (snap_Case s)] @ targets @ evidence @ findings @ plans @ executions
         @ verifications @ events @ (if snap_WorkflowState s = None then [] else [DocumentIDCaseWorkflowState]))\<rparr>)"

definition appendConsultation :: "bool \<Rightarrow> Snapshot \<Rightarrow> AgentConsultation \<Rightarrow> Snapshot result" where
  "appendConsultation win s c =
     check_then (each (\<lambda>_ e. first_err
         [err_if (con_ConsultationID e = con_ConsultationID c) (bad_argument ''consultation_id already exists'' []),
          err_if (con_RequestID e = con_RequestID c) (bad_argument ''consultation request_id already exists'' [])])
         (snap_AgentConsultations s))
    (check_then (wrap_err bad_value (ValidateConsultationRefs (buildCrossRefs s) c))
      (let next = s\<lparr>snap_AgentConsultations := snap_AgentConsultations s @ [c]\<rparr> in
       check_then (wrap_err bad_value (Snapshot_Validate win next)) (Inr next)))"

text \<open>The request and consultation with their identifiers filled in, before the case is loaded.\<close>

definition consultation_request :: "CommitAgentConsultationRequest \<Rightarrow> AgentConsultation result" where
  "consultation_request req =
     bindE (requireConsultationActor (qr_Actor req)) (\<lambda>_.
     check_then (validateConsultationRequestID (qr_RequestID req))
    (check_then (err_if (con_RequestID (qr_Consultation req) \<noteq> [] \<and>
                         con_RequestID (qr_Consultation req) \<noteq> qr_RequestID req)
        (bad_argument ''consultation.request_id must match request_id'' []))
      (let c = (qr_Consultation req)\<lparr>con_RequestID := qr_RequestID req\<rparr>;
           c = (if con_CaseID c = [] then c\<lparr>con_CaseID := qr_CaseID req\<rparr> else c) in
       check_then (err_if (con_CaseID c \<noteq> qr_CaseID req) (bad_argument ''consultation.case_id mismatch'' []))
         (Inr c))))"

definition fill_consultation :: "CommitInfo \<Rightarrow> AgentConsultation \<Rightarrow> AgentConsultation" where
  "fill_consultation info c =
     (let c = (if con_ConsultationID c = []
               then c\<lparr>con_ConsultationID := consultationIDFor (con_CaseID c) (con_RequestID c) (con_InputDigest c)\<rparr>
               else c) in
      if con_SourceCommitID c = [] then c\<lparr>con_SourceCommitID := ci_CommitID info\<rparr> else c)"

definition expected_head :: "string \<Rightarrow> string \<Rightarrow> CommitInfo \<Rightarrow> ('w, unit) act" where
  "expected_head caseID expected info = check_act (first_err
     [err_if (expected = []) (bad_argument ''expected_commit_id is required'' []),
      err_if (expected \<noteq> ci_CommitID info) (RevisionConflictError caseID expected (ci_CommitID info))])"

definition CommitAgentConsultation :: "'w deps \<Rightarrow> CommitAgentConsultationRequest \<Rightarrow>
    ('w, CommitAgentConsultationResult) act" where
  "CommitAgentConsultation d req =
     andThen (ctx_ok d) (\<lambda>_.
     andThen (lift_result (consultation_request req)) (\<lambda>c0.
     andThen (loadLatestVerified d (qr_CaseID req)) (\<lambda>(snap, info).
     andThen (check_act (requireAnalyzedForConsultation snap (qr_CaseID req))) (\<lambda>_.
     (let c = fill_consultation info c0 in
     andThen (lift_result (canonicalConsultationBody c)) (\<lambda>canonical.
     (case findConsultationReplay snap info (qr_RequestID req) (con_ConsultationID c) canonical of
        Some r \<Rightarrow> lift_result r
      | None \<Rightarrow>
          andThen (expected_head (qr_CaseID req) (qr_ExpectedCommitID req) info) (\<lambda>_.
          andThen (check_act (wrap_err (\<lambda>x. bad_argument ''consultation: %v'' [GVal x]) (AgentConsultation_Validate c))) (\<lambda>_.
          andThen (lift_result (appendConsultation (d_win d) snap c)) (\<lambda>next.
          andThen (commitSnapshot d next (ci_CommitID info)) (\<lambda>view.
            ret \<lparr>qv_CaseView = view, qv_Consultation = c, qv_Idempotent = False\<rparr>)))))))))))"

end
