(* ===== verification/CommandProperties.thy ===== *)
theory CommandProperties
  imports CommandProofs Consultations Examples
begin

text \<open>
  What each command of the coordinator has done when it succeeds, and what it has not done when the
  caller's revision is stale.
\<close>

text \<open>
  C12. A successful \<^verbatim>\<open>CommitAnalysis\<close> started from the revision its caller expected, made the one step
  to \<^verbatim>\<open>analyzed\<close> and published it under that revision. The findings the case had are kept in their
  order at the front, what is added are the findings of the request, each id occurs, and no other
  document changes.
\<close>

theorem CommitAnalysis_success:
  assumes "CommitAnalysis_cmd d req w = (Inr view, w')"
  shows "\<exists>old info w1. loadLatestVerified d (ar_CaseID req) w = (Inr (old, info), w1) \<and>
    ci_CommitID info = ar_ExpectedCommitID req \<and>
    one_step CommitAnalysis (ar_ExpectedCommitID req) (nextRevision old) old (cv_Snapshot view) \<and>
    currentState (cv_Snapshot view) = WorkflowAnalyzed \<and> published d (ar_ExpectedCommitID req) view w' \<and>
    same_case old (cv_Snapshot view) \<and> snap_RepairPlans (cv_Snapshot view) = snap_RepairPlans old \<and>
    (\<exists>new. snap_Findings (cv_Snapshot view) = snap_Findings old @ new \<and>
       set new \<subseteq> fill_case (ar_CaseID req) ` set (ar_Findings req)) \<and>
    fnd_FindingID ` set (snap_Findings (cv_Snapshot view)) =
      fnd_FindingID ` set (snap_Findings old) \<union> fnd_FindingID ` set (ar_Findings req)"
proof -
  let ?actor = "defaultActor (ar_Actor req) ActorDeterministicAnalyzer"
  let ?filled = "map (fill_case (ar_CaseID req)) (ar_Findings req)"
  obtain old info w1 merged p where load: "loadLatestVerified d (ar_CaseID req) w = (Inr (old, info), w1)"
    and head: "ci_CommitID info = ar_ExpectedCommitID req"
    and p: "transition_allowed p CommitAnalysis Analyzed ?actor (length (ar_Findings req)) (length (snap_RepairPlans old))"
      "currentState old = source_name p"
    and merge: "mergeFindingsAppendOnly (snap_Findings old) ?filled = Inr merged"
    and run: "run_transition d (ar_CaseID req) (action_event CommitAnalysis) ?actor (source_name p) (phase_name Analyzed)
       info (defaultReason (ar_ReasonCode req) ''analysis_committed'') (ar_CommandID req) (nextRevision old) None
       (activePlan old) (\<lambda>_. analysisRefs (ar_CaseID req) ?filled) (old\<lparr>snap_Findings := merged\<rparr>) w1 = (Inr view, w')"
    using assms by (auto simp: CommitAnalysis_cmd_def Let_def andThen_Inr loadExpected_Inr transition_check_into)
  have "currentState (old\<lparr>snap_Findings := merged\<rparr>) = source_name p" using p by (simp add: currentState_def)
  note step = run_transition_step [OF run allowed_lifecycle [OF p(1)] this]
  obtain new where "merged = snap_Findings old @ new" "set new \<subseteq> set ?filled"
    using findings.extends [OF merge] by blast
  moreover have "fnd_FindingID (fill_case c f) = fnd_FindingID f" for c f by (simp add: fill_case_def)
  then have "set (map fnd_FindingID ?filled) = fnd_FindingID ` set (ar_Findings req)" by force
  ultimately show ?thesis
    using load head step findings.ids_exact [OF merge] one_step_state(1) [OF step(1)]
    by (intro exI [of _ old] exI [of _ info] exI [of _ w1])
       (auto simp: same_case_def one_step_def currentState_def nextRevision_def)
qed

theorem CommitAnalysis_success_witness:
  "\<exists>old. snap_Findings ex_s2 = [ex_finding] \<and> one_step CommitAnalysis (ms_id 3 ''commit'') (nextRevision old) old ex_s2"
  using CommitAnalysis_success [OF ex_analysis_run]
  by (auto simp: viewFrom_def ex_analysis_def ex_s2_def)



text \<open>
  C14. A successful \<^verbatim>\<open>FailCase\<close> made the one step to \<^verbatim>\<open>failed\<close> from the expected revision and published
  it; the workflow records the reason, and findings, plans and every other document are as they were.
\<close>

theorem FailCase_success:
  assumes "FailCase_cmd d req w = (Inr view, w')"
  shows "\<exists>old info w1. loadLatestVerified d (fr_CaseID req) w = (Inr (old, info), w1) \<and>
    ci_CommitID info = fr_ExpectedCommitID req \<and>
    one_step FailCase (fr_ExpectedCommitID req) (nextRevision old) old (cv_Snapshot view) \<and>
    currentState (cv_Snapshot view) = WorkflowFailed \<and> published d (fr_ExpectedCommitID req) view w' \<and>
    same_case old (cv_Snapshot view) \<and> snap_Findings (cv_Snapshot view) = snap_Findings old \<and>
    snap_RepairPlans (cv_Snapshot view) = snap_RepairPlans old \<and>
    (\<exists>wf. snap_WorkflowState (cv_Snapshot view) = Some wf \<and> wf_ActivePlanID wf = activePlan old \<and>
       wf_Failure wf = Some \<lparr>wfl_ReasonCode = defaultReason (fr_ReasonCode req) ''case_failed'',
                             wfl_DetailCode = fr_DetailCode req\<rparr>)"
proof -
  obtain old info w1 p where load: "loadLatestVerified d (fr_CaseID req) w = (Inr (old, info), w1)"
    and head: "ci_CommitID info = fr_ExpectedCommitID req"
    and p: "transition_allowed p FailCase Failed (defaultActor (fr_Actor req) ActorTechnician) (length (snap_Findings old))
        (length (snap_RepairPlans old))" "currentState old = source_name p"
    and run: "run_transition d (fr_CaseID req) (action_event FailCase) (defaultActor (fr_Actor req) ActorTechnician)
       (source_name p) (phase_name Failed) info (defaultReason (fr_ReasonCode req) ''case_failed'')
       (fr_CommandID req) (nextRevision old)
       (Some \<lparr>wfl_ReasonCode = defaultReason (fr_ReasonCode req) ''case_failed'', wfl_DetailCode = fr_DetailCode req\<rparr>)
       (activePlan old) terminalRefs old w1 = (Inr view, w')"
    using assms unfolding FailCase_cmd_def Let_def
    by (auto simp: andThen_Inr loadExpected_Inr transition_check_into)
  note step = run_transition_step [OF run allowed_lifecycle [OF p(1)] p(2)]
  then show ?thesis using load head one_step_state
    by (intro exI [of _ old] exI [of _ info] exI [of _ w1]) auto
qed

theorem FailCase_success_witness:
  "\<exists>old. one_step FailCase (ms_id 7 ''commit'') (nextRevision old) old ex_s4"
  using FailCase_success [OF ex_fail_run] by (auto simp: viewFrom_def ex_fail_def)

text \<open>
  A successful \<^verbatim>\<open>CancelCase\<close> made the one step to \<^verbatim>\<open>cancelled\<close> from the expected revision and
  published it; findings, plans and every other document are as they were.
\<close>

theorem CancelCase_success:
  assumes "CancelCase_cmd d req w = (Inr view, w')"
  shows "\<exists>old info w1. loadLatestVerified d (xr_CaseID req) w = (Inr (old, info), w1) \<and>
    ci_CommitID info = xr_ExpectedCommitID req \<and>
    one_step CancelCase (xr_ExpectedCommitID req) (nextRevision old) old (cv_Snapshot view) \<and>
    currentState (cv_Snapshot view) = WorkflowCancelled \<and> published d (xr_ExpectedCommitID req) view w' \<and>
    same_case old (cv_Snapshot view) \<and> snap_Findings (cv_Snapshot view) = snap_Findings old \<and>
    snap_RepairPlans (cv_Snapshot view) = snap_RepairPlans old"
proof -
  obtain old info w1 p where load: "loadLatestVerified d (xr_CaseID req) w = (Inr (old, info), w1)"
    and head: "ci_CommitID info = xr_ExpectedCommitID req"
    and p: "transition_allowed p CancelCase Cancelled (defaultActor (xr_Actor req) ActorTechnician) (length (snap_Findings old))
        (length (snap_RepairPlans old))" "currentState old = source_name p"
    and run: "run_transition d (xr_CaseID req) (action_event CancelCase) (defaultActor (xr_Actor req) ActorTechnician)
       (source_name p) (phase_name Cancelled) info (defaultReason (xr_ReasonCode req) ''case_cancelled'')
       (xr_CommandID req) (nextRevision old) None (activePlan old) terminalRefs old w1 = (Inr view, w')"
    using assms unfolding CancelCase_cmd_def Let_def
    by (auto simp: andThen_Inr loadExpected_Inr transition_check_into)
  note step = run_transition_step [OF run allowed_lifecycle [OF p(1)] p(2)]
  then show ?thesis using load head one_step_state
    by (intro exI [of _ old] exI [of _ info] exI [of _ w1]) auto
qed

theorem CancelCase_success_witness:
  "\<exists>old. one_step CancelCase (ms_id 7 ''commit'') (nextRevision old) old ex_s5"
  using CancelCase_success [OF ex_cancel_run] by (auto simp: viewFrom_def ex_cancel_def)

text \<open>
  A successful \<^verbatim>\<open>AdoptLegacyCase\<close> adopted a case that had no workflow, no audit event and no
  document of the later lifecycle: it gave it its first event, at revision 1, under the commit its
  caller expected, and changed none of its documents.
\<close>

theorem AdoptLegacyCase_success:
  assumes "AdoptLegacyCase_cmd d req w = (Inr view, w')"
  shows "\<exists>old info w1. loadLatestVerified d (lr_CaseID req) w = (Inr (old, info), w1) \<and>
    ci_CommitID info = lr_ExpectedCommitID req \<and>
    snap_WorkflowState old = None \<and> snap_CoordinatorEvents old = [] \<and> snap_Findings old = [] \<and>
    snap_RepairPlans old = [] \<and>
    one_step AdoptLegacy (lr_ExpectedCommitID req) 1 old (cv_Snapshot view) \<and>
    currentState (cv_Snapshot view) = WorkflowEvidenceCollected \<and> published d (lr_ExpectedCommitID req) view w' \<and>
    same_case old (cv_Snapshot view) \<and> length (snap_CoordinatorEvents (cv_Snapshot view)) = 1"
proof -
  obtain old info w1 where load: "loadLatestVerified d (lr_CaseID req) w = (Inr (old, info), w1)"
    and head: "ci_CommitID info = lr_ExpectedCommitID req" and checks: "adoption_checks old = None"
    and run: "run_transition d (lr_CaseID req) (action_event AdoptLegacy) (defaultActor (lr_Actor req) ActorSystem)
       (source_name None) (phase_name EvidenceCollected) info (defaultReason (lr_ReasonCode req) ''legacy_case_adopted'')
       (lr_CommandID req) 1 None [] createOrAdoptRefs old w1 = (Inr view, w')"
    using assms unfolding AdoptLegacyCase_cmd_def Let_def by (auto simp: andThen_Inr loadExpected_Inr)
  have old: "snap_WorkflowState old = None" "snap_CoordinatorEvents old = []" "snap_Findings old = []" "snap_RepairPlans old = []"
    using checks by (simp_all add: adoption_checks_def)
  have "currentState old = source_name None" by (simp add: currentState_def old)
  note step = run_transition_step [OF run lifecycle.adopt this]
  then show ?thesis using load head old one_step_state(5) one_step_log
    by (intro exI [of _ old] exI [of _ info] exI [of _ w1]) auto
qed

theorem AdoptLegacyCase_success_witness:
  "\<exists>old. snap_WorkflowState old = None \<and> one_step AdoptLegacy ex_commit_id 1 old ex_s0"
  using AdoptLegacyCase_success [OF ex_adopt_run] by (auto simp: viewFrom_def ex_adopt_def)

text \<open>
  C15. A successful \<^verbatim>\<open>CreateCase\<close> published, on the condition that the case store holds no commit of
  the case, the imported documents with one audit event: the creation, at revision 1, from \<^verbatim>\<open>created\<close>
  to \<^verbatim>\<open>evidence_collected\<close>, by the system or the technician, without an expected commit.
\<close>

theorem CreateCase_success:
  assumes "CreateCase_cmd d req w = (Inr view, w')"
  shows "\<exists>result e w1. d_ImportJSON d (kr_DiagnosticReport req) (kr_SourceArtifact req) = Inr result \<and>
    (let s = cv_Snapshot view in
     snap_Targets s = ir_Targets result \<and> snap_EvidenceBundles s = ir_EvidenceBundles result \<and>
     cm_CaseID (snap_Case s) = cm_CaseID (ir_Case result) \<and> snap_Findings s = [] \<and> snap_RepairPlans s = [] \<and>
     snap_CoordinatorEvents s = [e] \<and> event_step e (Some Created) CreateCase EvidenceCollected \<and>
     we_ActorType e \<in> {ActorSystem, ActorTechnician} \<and> we_ExpectedCommitID e = [] \<and> we_WorkflowRevision e = 1 \<and>
     currentState s = WorkflowEvidenceCollected \<and> Snapshot_Validate (d_win d) s = None \<and>
     d_Commit d \<lparr>cq_Snapshot = s, cq_ArtifactProvider = kr_ArtifactProvider req, cq_Reason = CommitReasonLegacyImport,
       cq_ParentExpectation = ExpectAbsentParent\<rparr> w1 = (Inr (cv_CommitInfo view), w'))"
proof -
  let ?actor = "defaultActor (kr_Actor req) ActorSystem"
  obtain result eid now nw w1 info w2 c where imp: "d_ImportJSON d (kr_DiagnosticReport req) (kr_SourceArtifact req) = Inr result"
    and trans: "validateTransition WorkflowCreated WorkflowEvidenceCollected ?actor 0 0 = None"
    and com: "let s1 = SnapshotFromImporterResult result;
       e = audit_event eid now (cm_CaseID (snap_Case s1)) EventCaseCreated ?actor WorkflowCreated WorkflowEvidenceCollected
         [] None (defaultReason (kr_ReasonCode req) ''legacy_import_committed'') (kr_CommandID req) 1;
       s2 = (appendEvent e s1)\<lparr>snap_Case := (snap_Case s1)\<lparr>cm_UpdatedAt := nw, cm_CurrentState := c\<rparr>,
          snap_WorkflowState := Some (new_workflow (cm_CaseID (snap_Case s1)) WorkflowEvidenceCollected 1 nw eid [] None)\<rparr>;
       s3 = stampAuditEvent eid (createOrAdoptRefs s2) nw s2 in
     Snapshot_Validate (d_win d) s3 = None \<and> view = viewFrom s3 info \<and>
     d_Commit d \<lparr>cq_Snapshot = s3, cq_ArtifactProvider = kr_ArtifactProvider req, cq_Reason = CommitReasonLegacyImport,
       cq_ParentExpectation = ExpectAbsentParent\<rparr> w1 = (Inr info, w')"
    using assms
    by (auto simp: CreateCase_cmd_def Let_def andThen_Inr newAuditEvent_def set_workflow_act_Inr setWorkflow_Inr
          validated_def audit_event_def)
  have "transition_allowed (Some Created) CreateCase EvidenceCollected ?actor 0 0"
    using trans by (auto simp: validateTransition_None transition_allowed_def lifecycle.simps)
  then have "?actor \<in> {ActorSystem, ActorTechnician}"
    by (simp add: transition_allowed_def allowedActorForPR17Event_def)
  then show ?thesis
    using com imp
    by (intro exI [of _ result] exI [of _ "hd (snap_CoordinatorEvents (cv_Snapshot view))"] exI [of _ w1])
       (auto simp: Let_def viewFrom_def stampAuditEvent_def appendEvent_def SnapshotFromImporterResult_def
          audit_event_def event_step_def lifecycle.create currentState_def new_workflow_def)
qed

theorem CreateCase_success_witness:
  "\<exists>e. snap_CoordinatorEvents ex_s1 = [e] \<and> event_step e (Some Created) CreateCase EvidenceCollected"
  using CreateCase_success [OF ex_create_run] by (auto simp: viewFrom_def Let_def)

text \<open>
  C16. Optimistic concurrency: when the head of the case is not the commit the caller expects, the
  commands that move a loaded case (analysis, plan, failure, cancellation, adoption) return the revision
  conflict with both commits and leave the world as loading the case left it: nothing is committed, no
  identifier allocated, no clock read. A caller of these that expects no commit at all is refused before
  anything is loaded. A well-formed request to store a consultation in an analyzed case gets the same
  errors once the case is loaded, unless the case already has a consultation with its request id or its
  identifier: that is looked at before the head is, so a retry is answered under any expected commit.
\<close>

theorem stale_revision_conflicts:
  assumes "loadLatestVerified d cid w = (Inr (old, info), w1)" "ci_CommitID info \<noteq> expected"
  shows "let missing = bad_argument ''expected_commit_id is required'' [];
        stale = RevisionConflictError cid expected (ci_CommitID info);
        refused = (if expected = [] then (Inl missing, w) else (Inl stale, w1)) in
    (\<forall>r. ar_CaseID r = cid \<and> ar_ExpectedCommitID r = expected \<longrightarrow> CommitAnalysis_cmd d r w = refused) \<and>
    (\<forall>r. pr_CaseID r = cid \<and> pr_ExpectedCommitID r = expected \<longrightarrow> CommitPlan_cmd d r w = refused) \<and>
    (\<forall>r. fr_CaseID r = cid \<and> fr_ExpectedCommitID r = expected \<longrightarrow> FailCase_cmd d r w = refused) \<and>
    (\<forall>r. xr_CaseID r = cid \<and> xr_ExpectedCommitID r = expected \<longrightarrow> CancelCase_cmd d r w = refused) \<and>
    (\<forall>r. lr_CaseID r = cid \<and> lr_ExpectedCommitID r = expected \<longrightarrow> AdoptLegacyCase_cmd d r w = refused) \<and>
    (\<forall>r c. qr_CaseID r = cid \<and> qr_ExpectedCommitID r = expected \<and> d_CtxErr d w = None \<and>
       consultation_request r = Inr c \<and> currentState old = WorkflowAnalyzed \<and>
       (\<forall>e \<in> set (snap_AgentConsultations old). con_RequestID e \<noteq> qr_RequestID r \<and>
          con_ConsultationID e \<noteq> con_ConsultationID (fill_consultation info c)) \<longrightarrow>
       CommitAgentConsultation d r w = (Inl (if expected = [] then missing else stale), w1))"
proof -
  have load: "loadExpected d cid expected w =
      (if expected = [] then (Inl (bad_argument ''expected_commit_id is required'' []), w)
       else (Inl (RevisionConflictError cid expected (ci_CommitID info)), w1))"
    using assms by (simp add: loadExpected_def andThen_def check_act_def err_if_def)
  have consult: "CommitAgentConsultation d r w = (Inl (if expected = [] then bad_argument ''expected_commit_id is required'' []
      else RevisionConflictError cid expected (ci_CommitID info)), w1)"
    if r: "qr_CaseID r = cid" "qr_ExpectedCommitID r = expected" "d_CtxErr d w = None" "consultation_request r = Inr c"
        "currentState old = WorkflowAnalyzed"
      and new: "\<forall>e \<in> set (snap_AgentConsultations old). con_RequestID e \<noteq> qr_RequestID r \<and>
        con_ConsultationID e \<noteq> con_ConsultationID (fill_consultation info c)" for r c
  proof -
    obtain body where body: "canonicalConsultationBody (fill_consultation info c) = Inr body" using identity_total by blast
    have "consultation_replay old info (qr_RequestID r) (con_ConsultationID (fill_consultation info c)) body es = None"
      if "set es \<subseteq> set (snap_AgentConsultations old)" for es
      using that new by (induction es) auto
    then have "findConsultationReplay old info (qr_RequestID r) (con_ConsultationID (fill_consultation info c)) body = None"
      by (simp add: findConsultationReplay_def)
    then show ?thesis
      using r assms body
      by (simp add: CommitAgentConsultation_def andThen_def ctx_ok_def lift_result_def check_act_def Let_def
          requireAnalyzedForConsultation_def expected_head_def err_if_def first_err.simps)
  qed
  show ?thesis
    unfolding Let_def
    using load consult
    by (auto simp: CommitAnalysis_cmd_def CommitPlan_cmd_def FailCase_cmd_def CancelCase_cmd_def
          AdoptLegacyCase_cmd_def Let_def andThen_def)
qed

theorem stale_revision_conflicts_witness:
  "FailCase_cmd ms_deps (ex_fail\<lparr>fr_ExpectedCommitID := ms_id 5 ''commit''\<rparr>) ex_w3 =
     (Inl (RevisionConflictError ex_case_id (ms_id 5 ''commit'') (ms_id 7 ''commit'')), ex_w3)"
proof -
  have load: "loadLatestVerified ms_deps ex_case_id ex_w3 = (Inr (ex_s3, ms_info 7 (ms_id 5 ''commit'')), ex_w3)"
    by (simp add: loadLatestVerified_def andThen_Inr)
  have "ms_id 7 ''commit'' \<noteq> ms_id 5 ''commit''" by code_simp
  then show ?thesis
    using stale_revision_conflicts [OF load, of "ms_id 5 ''commit''"] ms_id_nonempty [of 5 "''commit''"]
    by (simp add: ex_fail_def Let_def)
qed

text \<open>
  C17. The transition table: a command may lead from one state to another exactly when the abstract
  lifecycle has such a step, the actor is one that may emit its event, and an analysis comes with a
  finding and a plan commit with a plan.
\<close>

theorem transition_table_is_the_lifecycle:
  "validateTransition src dst actor findings plans = None \<longleftrightarrow>
     (\<exists>p a q. lifecycle p a q \<and> src = source_name p \<and> dst = phase_name q \<and>
        isPR17AllowedActor actor \<and> allowedActorForPR17Event (action_event a) actor \<and>
        (a = CommitAnalysis \<longrightarrow> 0 < findings) \<and> (a = CommitPlan \<longrightarrow> 0 < plans))"
  by (auto simp: validateTransition_None transition_allowed_def)

theorem transition_table_is_the_lifecycle_witness:
  "validateTransition WorkflowAnalyzed WorkflowPlanProposed ActorTechnician 0 1 = None"
  unfolding transition_table_is_the_lifecycle
  by (intro exI [of _ "Some Analyzed"] exI [of _ CommitPlan] exI [of _ PlanProposed])
     (simp add: lifecycle.plan isPR17AllowedActor_def allowedActorForPR17Event_def)

end
