(* ===== verification/CoordProperties.thy ===== *)
theory CoordProperties
  imports CoordProofs IntegrityProofs Examples
begin

text \<open>
  What the pieces of the coordinator promise the commands: the append-only merges, the clock that
  does not go back, and the errors of a commit.
\<close>

section \<open>The merge as one expression\<close>

lemma find_append: "List.find P (ys @ zs) = (case List.find P ys of None \<Rightarrow> List.find P zs | Some y \<Rightarrow> Some y)"
  by (induction ys) auto

lemma find_last_append_fresh:
  assumes "key x \<notin> key ` set ns"
  shows "List.find (\<lambda>y. key y = key x) (rev (xs @ ns)) = List.find (\<lambda>y. key y = key x) (rev xs)"
proof -
  have "List.find (\<lambda>y. key y = key x) (rev ns) = None" using assms by (simp add: find_key_None)
  then show ?thesis by (simp add: find_append)
qed

lemma find_last_distinct:
  assumes "distinct (map key xs)" "x \<in> set xs"
  shows "List.find (\<lambda>y. key y = key x) (rev xs) = Some x"
proof (cases "List.find (\<lambda>y. key y = key x) (rev xs)")
  case None
  then show ?thesis using assms(2) by (simp add: find_key_None)
next
  case (Some y)
  then have "y \<in> set xs" "key y = key x" by (auto dest: find_SomeD)
  then show ?thesis using Some assms by (metis distinct_map inj_onD)
qed

text \<open>
  Over documents of distinct identifiers and a total comparison, the loop is this: the first incoming
  document that differs from the one of its id is the conflict, and otherwise those of new ids are
  appended.
\<close>

definition merged :: "('a \<Rightarrow> string) \<Rightarrow> ('a \<Rightarrow> 'a \<Rightarrow> bool) \<Rightarrow> (string \<Rightarrow> go_error) \<Rightarrow> 'a list \<Rightarrow> 'a list \<Rightarrow> 'a list result" where
  "merged key same conflict xs ys =
     (case List.find (\<lambda>y. \<exists>x \<in> set xs. key x = key y \<and> \<not> same x y) ys of
        Some y \<Rightarrow> Inl (conflict (key y))
      | None \<Rightarrow> Inr (xs @ filter (\<lambda>y. key y \<notin> key ` set xs) ys))"

lemma merge_loop_merged:
  assumes eq: "\<And>a b. eq a b = Inr (same a b)"
    and "distinct (map key xs)" "distinct (map key ys)" "key ` set ns \<inter> key ` set ys = {}"
  shows "merge_loop key eq conflict (xs @ ns) ys =
    (case List.find (\<lambda>y. \<exists>x \<in> set xs. key x = key y \<and> \<not> same x y) ys of
        Some y \<Rightarrow> Inl (conflict (key y))
      | None \<Rightarrow> Inr (xs @ ns @ filter (\<lambda>y. key y \<notin> key ` set xs) ys))"
  using assms(3,4)
proof (induction ys arbitrary: ns)
  case Nil
  then show ?case by simp
next
  case (Cons y ys)
  have old: "List.find (\<lambda>z. key z = key y) (rev (xs @ ns)) = List.find (\<lambda>z. key z = key y) (rev xs)"
    using Cons.prems(2) by (intro find_last_append_fresh) auto
  show ?case
  proof (cases "key y \<in> key ` set xs")
    case False
    then have new: "List.find (\<lambda>z. key z = key y) (rev xs) = None" by (simp add: find_key_None)
    have "key ` set (ns @ [y]) \<inter> key ` set ys = {}" "distinct (map key ys)" using Cons.prems by auto
    moreover have none: "(\<exists>x \<in> set xs. key x = key y \<and> \<not> same x y) = False" using False by (metis image_eqI)
    ultimately show ?thesis using Cons.IH [of "ns @ [y]"] old new False by (simp add: none cong: option.case_cong)
  next
    case True
    then obtain x where x: "x \<in> set xs" "key x = key y" by (metis imageE)
    have hit: "List.find (\<lambda>z. key z = key y) (rev xs) = Some x"
      using find_last_distinct [OF assms(2) x(1)] x(2) by simp
    have only: "(\<exists>z \<in> set xs. key z = key y \<and> \<not> same z y) \<longleftrightarrow> \<not> same x y"
      using x assms(2) by (metis distinct_map inj_onD)
    have "key ` set ns \<inter> key ` set ys = {}" "distinct (map key ys)" using Cons.prems by auto
    then show ?thesis using Cons.IH [of ns] old hit True by (simp add: eq only cong: option.case_cong)
  qed
qed

lemma merge_loop_reference:
  assumes "\<And>a b. eq a b = Inr (same a b)" "distinct (map key xs)" "distinct (map key ys)"
  shows "merge_loop key eq conflict xs ys = merged key same conflict xs ys"
  using merge_loop_merged [of eq same key xs ys "[]" conflict] assms by (simp add: merged_def cong: option.case_cong)

lemma merged_again:
  assumes "merged key same conflict xs ys = Inr zs" "\<And>x. same x x" "distinct (map key xs)" "distinct (map key ys)"
  shows "merged key same conflict zs ys = Inr zs"
proof -
  have ok: "\<forall>y \<in> set ys. \<forall>x \<in> set xs. key x = key y \<longrightarrow> same x y"
    and zs: "zs = xs @ filter (\<lambda>y. key y \<notin> key ` set xs) ys"
    using assms(1) by (auto simp: merged_def find_None_iff split: option.splits)
  have "same x y" if "x \<in> set zs" "y \<in> set ys" "key x = key y" for x y
  proof (cases "x \<in> set xs")
    case False
    then have "x \<in> set ys" using that(1) by (simp add: zs)
    then have "x = y" using that(2,3) assms(4) by (metis distinct_map inj_onD)
    then show ?thesis using assms(2) by simp
  qed (use ok that in blast)
  moreover have "filter (\<lambda>y. key y \<notin> key ` set zs) ys = []" by (auto simp: zs filter_empty_conv)
  ultimately show ?thesis by (auto simp: merged_def find_None_iff split: option.splits dest: find_SomeD)
qed

definition canonical :: "('a \<Rightarrow> json) \<Rightarrow> 'a \<Rightarrow> 'a \<Rightarrow> bool" where
  "canonical doc a b \<longleftrightarrow> marshal (doc a) = marshal (doc b)"

lemma marshal_equal_total:
  assumes "\<And>a. raws_valid (doc a)"
  shows "marshal_equal doc a b = Inr (canonical doc a b)"
  using marshal_total(1) [OF assms, of a] marshal_total(1) [OF assms, of b]
  by (auto simp: marshal_equal_def canonical_def)

lemma canonical_refl [simp]: "canonical doc a a" by (simp add: canonical_def)

definition finding_conflict :: "string \<Rightarrow> go_error" where
  "finding_conflict d = bad_argument ''finding_id %q already exists with divergent content'' [GStr d]"

lemma mergeFindings_loop:
  assumes "distinct (map fnd_FindingID xs)" "distinct (map fnd_FindingID ys)"
  shows "mergeFindingsAppendOnly xs ys = merged fnd_FindingID (canonical Finding_json) finding_conflict xs ys"
  unfolding mergeFindingsAppendOnly_def finding_conflict_def [abs_def, symmetric] using assms
  by (intro merge_loop_reference) (simp_all add: findingsCanonicallyEqual_def marshal_equal_total)

section \<open>Merges\<close>

text \<open>
  C23. Merging findings is append-only, and exactly this: when both lists have distinct ids, the first
  incoming finding whose canonical JSON differs from that of the stored finding with its id is
  refused as a conflict, and otherwise the findings with new ids are appended in their order.
\<close>

theorem merge_findings_reference:
  assumes "distinct (map fnd_FindingID stored)" "distinct (map fnd_FindingID incoming)"
  shows "mergeFindingsAppendOnly stored incoming =
    (case List.find (\<lambda>y. \<exists>x \<in> set stored. fnd_FindingID x = fnd_FindingID y \<and>
         marshal (Finding_json x) \<noteq> marshal (Finding_json y)) incoming of
       Some y \<Rightarrow> Inl (bad_argument ''finding_id %q already exists with divergent content'' [GStr (fnd_FindingID y)])
     | None \<Rightarrow> Inr (stored @ filter (\<lambda>y. fnd_FindingID y \<notin> fnd_FindingID ` set stored) incoming))"
  unfolding mergeFindings_loop [OF assms] merged_def canonical_def finding_conflict_def ..

theorem merge_findings_reference_witness:
  "mergeFindingsAppendOnly [ex_finding] [ex_finding, ex_finding\<lparr>fnd_FindingID := ''finding-2''\<rparr>] =
     Inr [ex_finding, ex_finding\<lparr>fnd_FindingID := ''finding-2''\<rparr>]"
proof -
  have "''finding-2'' \<noteq> ex_finding_id" by code_simp
  then show ?thesis
    using merge_findings_reference [of "[ex_finding]" "[ex_finding, ex_finding\<lparr>fnd_FindingID := ''finding-2''\<rparr>]"]
    by auto
qed

text \<open>
  A merge may be repeated: once findings have been merged, merging them again succeeds and
  changes nothing, so that a command retried with the findings it sent does not conflict with itself.
\<close>

theorem merge_findings_retry:
  assumes "mergeFindingsAppendOnly stored incoming = Inr all"
    and "distinct (map fnd_FindingID stored)" "distinct (map fnd_FindingID incoming)"
  shows "mergeFindingsAppendOnly all incoming = Inr all \<and> take (length stored) all = stored \<and>
    fnd_FindingID ` set all = fnd_FindingID ` set stored \<union> fnd_FindingID ` set incoming"
proof -
  have "distinct (map fnd_FindingID all)" using findings.keeps_distinct [OF assms(1,2)] .
  moreover have "merged fnd_FindingID (canonical Finding_json) finding_conflict stored incoming = Inr all"
    using assms mergeFindings_loop by simp
  ultimately have "mergeFindingsAppendOnly all incoming = Inr all"
    using merged_again [of fnd_FindingID "canonical Finding_json" finding_conflict stored incoming "all"] assms(2,3)
    by (simp add: mergeFindings_loop)
  then show ?thesis
    using findings.keeps_documents [OF assms(1)] findings.ids_exact [OF assms(1)] by simp
qed

theorem merge_findings_retry_witness:
  "mergeFindingsAppendOnly [ex_finding] [ex_finding] = Inr [ex_finding]"
proof -
  have "mergeFindingsAppendOnly [] [ex_finding] = Inr [ex_finding]" by (simp add: mergeFindingsAppendOnly_def)
  then show ?thesis using merge_findings_retry [of "[]" "[ex_finding]" "[ex_finding]"] by simp
qed

text \<open>
  A plan cannot be replaced: merging a plan keeps the stored plans, in their order, and either
  appends the plan under a new id or finds the same plan, by canonical JSON, under its id.
\<close>

theorem merge_plans_immutable:
  assumes "mergePlansImmutable stored p = Inr all"
  shows "take (length stored) all = stored \<and> pln_PlanID ` set all = insert (pln_PlanID p) (pln_PlanID ` set stored) \<and>
    (all = stored @ [p] \<and> pln_PlanID p \<notin> pln_PlanID ` set stored \<or>
     all = stored \<and> (\<exists>q \<in> set stored. pln_PlanID q = pln_PlanID p \<and> marshal (RepairPlan_json q) = marshal (RepairPlan_json p)))"
proof -
  have same: "plansCanonicallyEqual q p = Inr True \<longleftrightarrow> marshal (RepairPlan_json q) = marshal (RepairPlan_json p)" for q
    by (simp add: plansCanonicallyEqual_def marshal_equal_total canonical_def)
  show ?thesis
    using assms plans.ids_exact [OF assms] plans.keeps_documents [OF assms]
    by (auto simp: mergePlansImmutable_Inr same dest!: find_SomeD)
qed

theorem merge_plans_immutable_witness: "pln_PlanID ` set [ex_plan] = insert ex_plan_id {}"
proof -
  have "mergePlansImmutable [] ex_plan = Inr [ex_plan]" by (simp add: mergePlansImmutable_def)
  from merge_plans_immutable [OF this] show ?thesis by simp
qed

section \<open>The clock\<close>

lemma digits_val_nonneg: "list_all is_digit s \<Longrightarrow> 0 \<le> digits_val s"
proof -
  have digit: "is_digit c \<Longrightarrow> 0 \<le> digit_val c" for c
    by (auto simp: is_digit_def digits10_def digit_val_def)
  have "list_all is_digit s \<Longrightarrow> 0 \<le> n \<Longrightarrow> 0 \<le> foldl (\<lambda>n c. 10 * n + digit_val c) n s" for n
    by (induction s arbitrary: n) (auto simp: digit)
  then show "list_all is_digit s \<Longrightarrow> ?thesis" by (simp add: digits_val_def)
qed

lemma parse_fraction_nonneg: "0 \<le> fst (parse_fraction s)"
proof -
  have "0 \<le> digits_val (take 9 (takeWhile is_digit ds))" for ds
    by (rule digits_val_nonneg) (auto simp: list_all_iff dest: in_set_takeD set_takeWhileD)
  then show ?thesis
    by (auto simp: parse_fraction_def Let_def simp del: takeWhile.simps dropWhile.simps take_Suc_Cons
          split: list.splits)
qed

lemma parse_nanos_nonneg: "parse_rfc3339 s = Some t \<Longrightarrow> 0 \<le> nanos t"
  by (auto simp: parse_rfc3339_def Let_def bind_eq_Some_conv case_prod_beta parse_fraction_nonneg split: if_splits)

definition clock_reading :: "instant \<Rightarrow> Snapshot \<Rightarrow> instant" where
  "clock_reading now s = latest now (List.map_filter parse_rfc3339 (time_stamps s))"

lemma clock_reading_ge:
  assumes "raw \<in> set (time_stamps s)" "parse_rfc3339 raw = Some u"
  shows "\<not> time_before (clock_reading now s) u"
  unfolding clock_reading_def
  by (rule latest_ge) (use assms in \<open>force simp: List.map_filter_def\<close>)

lemma clock_reading_nanos:
  assumes "0 \<le> nanos now"
  shows "0 \<le> nanos (clock_reading now s)"
  using latest_mem [of now "List.map_filter parse_rfc3339 (time_stamps s)"] assms
  by (auto simp: clock_reading_def List.map_filter_def dest: parse_nanos_nonneg)

text \<open>
  C24. The time the coordinator writes never goes back by a whole second: it parses to the latest of
  the clock and the times of the case, its fraction of a second dropped, so it is not before any
  time of the case that has no fraction (the coordinator itself writes none) and not before the
  second the clock is in.
\<close>

theorem monotonic_clock:
  assumes "0 \<le> nanos now" "0 \<le> year_of (clock_reading now s)" "year_of (clock_reading now s) \<le> 9999"
  shows "\<exists>t. parse_rfc3339 (monotonicNow now s) = Some t \<and> \<not> time_before t (whole_second now) \<and>
    (\<forall>raw \<in> set (time_stamps s). \<forall>u. parse_rfc3339 raw = Some u \<longrightarrow> nanos u = 0 \<longrightarrow> \<not> time_before t u)"
proof -
  let ?t = "clock_reading now s"
  have "parse_rfc3339 (monotonicNow now s) = Some (whole_second ?t)"
    using parse_format [OF assms(2,3)] by (simp add: monotonicNow_def clock_reading_def)
  moreover have "\<not> time_before ?t now" unfolding clock_reading_def by (rule latest_ge) simp
  then have "\<not> time_before (whole_second ?t) (whole_second now)"
    by (auto simp: time_before_def whole_second_def)
  moreover have "\<not> time_before (whole_second ?t) u"
    if "raw \<in> set (time_stamps s)" "parse_rfc3339 raw = Some u" "nanos u = 0" for raw u
    using whole_second_ge [OF clock_reading_ge [OF that(1,2)] that(3) clock_reading_nanos [OF assms(1)]] .
  ultimately show ?thesis by blast
qed

lemma ex_s3_reading: "clock_reading ex_now ex_s3 = ex_now"
  by (simp add: clock_reading_def time_stamps_def ex_s3_fields List.map_filter_def ex_now_def time_before_def)

lemma ex_now_year: "year_of ex_now = 2026" by code_simp

theorem monotonic_clock_witness:
  "\<exists>t. parse_rfc3339 (monotonicNow ex_now ex_s3) = Some t \<and> \<not> time_before t \<lparr>unix_secs = 1785326400, nanos = 0\<rparr>"
proof -
  have "ex_time \<in> set (time_stamps ex_s3)" by (simp add: time_stamps_def ex_s3_fields)
  then show ?thesis
    using monotonic_clock [of ex_now ex_s3] by (auto simp: ex_s3_reading ex_now_year) (auto simp: ex_now_def whole_second_def)
qed

text \<open>
  A time of the case that has a fraction of a second, which \<^verbatim>\<open>time.Parse\<close> accepts, may lie after
  the time the coordinator writes next.
\<close>

theorem fraction_is_lost:
  "\<exists>s t u. parse_rfc3339 (cm_UpdatedAt (snap_Case s)) = Some u \<and> parse_rfc3339 (monotonicNow ex_now s) = Some t \<and>
     time_before t u"
proof -
  let ?late = "''2026-07-29T12:00:00.5Z''"
  let ?s = "ex_s3\<lparr>snap_Case := (snap_Case ex_s3)\<lparr>cm_UpdatedAt := ?late\<rparr>\<rparr>"
  have parse: "parse_rfc3339 ?late = Some \<lparr>unix_secs = 1785326400, nanos = 500000000\<rparr>" by code_simp
  have format: "format_rfc3339 \<lparr>unix_secs = 1785326400, nanos = 500000000\<rparr> = ex_time" by code_simp
  have "monotonicNow ex_now ?s = ex_time"
    by (simp add: monotonicNow_def time_stamps_def ex_s3_fields List.map_filter_def parse ex_now_def time_before_def format)
  then show ?thesis by (intro exI [of _ ?s]) (simp add: parse time_before_def)
qed

section \<open>Errors of a commit\<close>

text \<open>
  C25. No commit that the store refuses looks like a success, and what it refused it for is what the
  caller is told: an existing case, a head that moved, a case that is locked (or, when the head has
  moved meanwhile, the conflict), a damaged store; any other error is passed on as it is.
\<close>

theorem commit_errors_are_classified:
  assumes "d_Commit d (commit_request snap parent) w = (Inl e, w1)"
  shows "\<exists>x w2. commitSnapshot d snap parent w = (Inl x, w2) \<and>
    (if errors_is ErrCaseExists e then errors_is ErrCaseAlreadyExists x
     else if errors_is ErrRevisionConflict e then errors_is ErrCaseRevisionConflict x
     else if errors_is ErrCaseLocked e then errors_is ErrCaseBusy x \<or> errors_is ErrCaseRevisionConflict x
     else if isIntegrityFailure e then errors_is ErrCaseCorrupt x
     else x = e \<and> w2 = w1)"
proof -
  have head: "\<exists>h w2. actual_head d c w1 = (Inr h, w2)" for c
    by (cases "d_LoadLatest d c w1") (auto simp: actual_head_def split: sum.splits)
  let ?kind = "\<lambda>x w2.
    (if errors_is ErrCaseExists e then errors_is ErrCaseAlreadyExists x
     else if errors_is ErrRevisionConflict e then errors_is ErrCaseRevisionConflict x
     else if errors_is ErrCaseLocked e then errors_is ErrCaseBusy x \<or> errors_is ErrCaseRevisionConflict x
     else if isIntegrityFailure e then errors_is ErrCaseCorrupt x
     else x = e \<and> w2 = w1)"
  have "\<exists>x w2. mapStoreWriteError d (cm_CaseID (snap_Case snap)) parent e w1 = (Inl x :: CommitInfo result, w2) \<and> ?kind x w2"
    using head [of "cm_CaseID (snap_Case snap)"]
    by (cases "d_LoadLatest d (cm_CaseID (snap_Case snap)) w1")
       (auto simp: mapStoreWriteError_def andThen_def Let_def corrupt_def ErrCaseBusy_def ErrCaseCorrupt_def split: sum.splits)
  then obtain x w2 where m: "mapStoreWriteError d (cm_CaseID (snap_Case snap)) parent e w1 = (Inl x :: CommitInfo result, w2)"
    and "?kind x w2" by blast
  moreover have "commitSnapshot d snap parent w = (Inl x, w2)"
    using assms m by (simp add: commitSnapshot_def andThen_def on_error_def)
  ultimately show ?thesis by blast
qed

theorem commit_errors_are_classified_witness:
  "\<exists>x w2. commitSnapshot ms_deps ex_s3 ex_commit_id ex_w3 = (Inl x, w2) \<and> errors_is ErrCaseRevisionConflict x"
proof -
  let ?e = "Errorf ''%w: expected parent commit %s, actual %s''
     [GWrap ErrRevisionConflict, GStr ex_commit_id, GStr (ms_id 7 ''commit'')]"
  have "ms_id 7 ''commit'' \<noteq> ex_commit_id" by code_simp
  then have "d_Commit ms_deps (commit_request ex_s3 ex_commit_id) ex_w3 = (Inl ?e, ex_w3)"
    by (simp add: ms_deps_def ms_commit_def commit_request_def parent_check_commit ms_chain_def ex_w3_def ms_info_def
          head_commit_def err_if_def)
  moreover have "\<not> errors_is ErrCaseExists ?e" "errors_is ErrRevisionConflict ?e"
    by (simp_all add: ErrCaseExists_def ErrRevisionConflict_def)
  ultimately show ?thesis using commit_errors_are_classified [of ms_deps ex_s3 ex_commit_id ex_w3 ?e ex_w3] by auto
qed

end
