(* ===== verification/ConsultationProperties.thy ===== *)
theory ConsultationProperties
  imports Consultations CommandProofs IntegrityProofs Examples
begin

text \<open>
  The language model only advises: a consultation that the coordinator commits changes no finding,
  plan, event or state, and a repeated request is answered with what was stored.
\<close>

section \<open>Identifiers\<close>

lemma lower_hex_digit: "\<not> ((r < CHR ''0'' \<or> CHR ''9'' < r) \<and> (r < CHR ''a'' \<or> CHR ''f'' < r)) \<longleftrightarrow> r \<in> set lower_hex"
proof -
  have hex: "set lower_hex = char_of ` ({48..57} \<union> {97..102} :: nat set)"
    by code_simp
  have "r \<in> set lower_hex \<longleftrightarrow> of_char r \<in> ({48..57} \<union> {97..102} :: nat set)"
    unfolding hex by (force simp: char_of_eq_iff take_bit_eq_mod intro: rev_image_eqI [of "of_char r"])
  then show ?thesis by (auto simp: less_char_def not_less)
qed

text \<open>
  The hand-written check of a consultation's request id is the pattern the document's own
  validation uses: the prefix and 24 lower-case hexadecimal digits.
\<close>

theorem request_id_check_is_the_pattern:
  "validateConsultationRequestID i = None \<longleftrightarrow> reConsultationRequestID i"
proof -
  have "request_id_matches ''creq-'' i \<longleftrightarrow> reConsultationRequestID i"
    unfolding request_id_matches_def lower_hex_digit reConsultationRequestID_def re_run_def has_prefix_def Let_def
    by auto
  then show ?thesis
    by (auto simp: validateConsultationRequestID_def request_id_matches_def)
qed

text \<open>
  The identifier derived for a consultation without one has the form its validation requires,
  whatever the case, request and digest it is derived from.
\<close>

theorem derived_consultation_id_is_valid:
  "reConsultationID (consultationIDFor caseID requestID digest)"
  using re_id24_digest [of "''consult-''" "''agentruntime|consultation|'' @ caseID @ ''|'' @ requestID @ ''|'' @ digest"]
  by (simp add: consultationIDFor_def reConsultationID_def sha256Hex_def hex_encode_take)

lemma appendConsultation_Inr:
  "appendConsultation win s c = Inr new \<longleftrightarrow>
     con_ConsultationID c \<notin> con_ConsultationID ` set (snap_AgentConsultations s) \<and>
     con_RequestID c \<notin> con_RequestID ` set (snap_AgentConsultations s) \<and>
     ValidateConsultationRefs (buildCrossRefs s) c = None \<and>
     new = s\<lparr>snap_AgentConsultations := snap_AgentConsultations s @ [c]\<rparr> \<and> Snapshot_Validate win new = None"
  unfolding appendConsultation_def Let_def by (auto simp: image_iff)

section \<open>An example\<close>

definition ex_consultation :: AgentConsultation where
  "ex_consultation = \<lparr>con_SchemaName = SchemaAgentConsultation, con_SchemaVersion = SchemaVersion,
     con_ConsultationID = ex_id ''consult-'' CHR ''1'', con_CaseID = ex_case_id, con_RequestID = ex_id ''creq-'' CHR ''2'',
     con_RuntimeID = ''runtime'', con_RuntimeVersion = ''1.0.0'', con_SourceCommitID = ms_id 5 ''commit'',
     con_InputDigest = replicate 64 CHR ''0'', con_GeneratedAt = ex_time, con_Status = ''completed'', con_RoundCount = 1,
     con_TopologyID = [], con_FindingRefs = Some [ex_finding_id], con_EvidenceRefs = Some [ex_evidence_id],
     con_TargetRefs = Some [],
     con_Hypotheses = Some [\<lparr>hyp_HypothesisID = ex_id ''hyp-'' CHR ''3'', hyp_Code = ''disk_failing'', hyp_Title = ''Disk'',
        hyp_Rationale = ''Sectors'', hyp_Confidence = ''medium'', hyp_SupportingFindingRefs = Some [ex_finding_id],
        hyp_SupportingEvidenceRefs = Some [], hyp_ContradictingEvidenceRefs = Some [], hyp_Limitations = Some [],
        hyp_Advisory = True\<rparr>],
     con_NextDiagnosticSteps = Some [], con_RetrievedSources = Some [], con_Limitations = Some [''none''],
     con_ProviderMetadata = \<lparr>pm_ProviderName = ''mock'', pm_ModelName = []\<rparr>, con_InsufficientEvidence = False\<rparr>"

definition ex_consulted :: Snapshot where
  "ex_consulted = ex_s2\<lparr>snap_AgentConsultations := [ex_consultation]\<rparr>"

definition ex_consult :: CommitAgentConsultationRequest where
  "ex_consult = \<lparr>qr_CaseID = ex_case_id, qr_ExpectedCommitID = ms_id 5 ''commit'',
     qr_RequestID = ex_id ''creq-'' CHR ''2'', qr_Consultation = ex_consultation, qr_Actor = ActorLLMAdvisor\<rparr>"

lemma ex_consultation_valid [simp]: "AgentConsultation_Validate ex_consultation = None" by code_simp

lemma ex_consultation_fields [simp]:
  "con_CaseID ex_consultation = ex_case_id" "con_RequestID ex_consultation = ex_id ''creq-'' CHR ''2''"
  "con_SourceCommitID ex_consultation = ms_id 5 ''commit''" "con_ConsultationID ex_consultation = ex_id ''consult-'' CHR ''1''"
  by (simp_all add: ex_consultation_def)

lemma ex_consulted_valid: "Snapshot_Validate False ex_consulted = None"
proof -
  have "ValidateConsultationRefs refs ex_consultation = None"
    if "ex_case_id \<in> cr_CaseIDs refs" "ex_finding_id \<in> cr_FindingIDs refs" "ex_evidence_id \<in> cr_EvidenceIDs refs" for refs
    using that by (simp add: ValidateConsultationRefs_def) (simp add: ex_consultation_def)
  then show ?thesis
    by (simp add: ex_consulted_def ex_s2_def ex_s1_def ex_states snapshot_parts insert_commute
        del: each_from.simps(2) unique_from.simps(2))
qed

definition ex_wc :: memory_store where
  "ex_wc = \<lparr>ms_Head = Some (ex_consulted, ms_info 6 (ms_id 5 ''commit'')), ms_Next = 7\<rparr>"

text \<open>A request that names its source commit, and one that leaves it to the coordinator.\<close>

definition ex_consult_default :: CommitAgentConsultationRequest where
  "ex_consult_default = ex_consult\<lparr>qr_Consultation := ex_consultation\<lparr>con_SourceCommitID := []\<rparr>\<rparr>"

lemma ex_consult_ids: "validateConsultationRequestID (ex_id ''creq-'' CHR ''2'') = None" "ex_id ''consult-'' CHR ''1'' \<noteq> []"
  by code_simp+

lemma ex_consult_steps:
  assumes "consultation_request req = Inr c0" "fill_consultation (ms_info 5 (ms_id 3 ''commit'')) c0 = ex_consultation"
    and "qr_CaseID req = ex_case_id" "qr_ExpectedCommitID req = ms_id 5 ''commit''"
  shows "CommitAgentConsultation ms_deps req ex_w2 =
     (Inr \<lparr>qv_CaseView = viewFrom ex_consulted (ms_info 6 (ms_id 5 ''commit'')), qv_Consultation = ex_consultation,
           qv_Idempotent = False\<rparr>, ex_wc)"
proof -
  have old: "snap_AgentConsultations ex_s2 = []" "currentState ex_s2 = WorkflowAnalyzed"
    "cm_CaseID (snap_Case ex_s2) = ex_case_id"
    by (simp_all add: ex_s2_def ex_s1_def ex_states currentState_def new_workflow_def)
  have refs: "ValidateConsultationRefs (buildCrossRefs ex_s2) ex_consultation = None"
    by (simp add: ValidateConsultationRefs_def buildCrossRefs_def Let_def setOf_def)
       (simp add: ex_consultation_def ex_s2_def ex_s1_def ex_states)
  obtain body where body: "canonicalConsultationBody ex_consultation = Inr body"
    using identity_total by blast
  have load: "loadLatestVerified ms_deps ex_case_id ex_w2 = (Inr (ex_s2, ms_info 5 (ms_id 3 ''commit'')), ex_w2)"
    by (simp add: loadLatestVerified_def andThen_Inr ms_load_def ex_w2_def)
  have "appendConsultation False ex_s2 ex_consultation = Inr ex_consulted"
    using refs ex_consulted_valid by (simp add: appendConsultation_Inr old ex_consulted_def)
  moreover have "commitSnapshot ms_deps ex_consulted (ms_id 5 ''commit'') ex_w2 =
      (Inr (viewFrom ex_consulted (ms_info 6 (ms_id 5 ''commit''))), ex_wc)"
    by (simp add: commitSnapshot_Inr commit_request_def ms_commit_Inr parent_check_commit ex_w2_def ex_wc_def ms_info_def)
  ultimately show ?thesis
    using load
    by (simp add: CommitAgentConsultation_def andThen_Inr Let_def assms body findConsultationReplay_def old
          requireAnalyzedForConsultation_def ctx_ok_def expected_head_def)
qed

lemma ex_consult_requests:
  "consultation_request ex_consult = Inr ex_consultation"
  "consultation_request ex_consult_default = Inr (ex_consultation\<lparr>con_SourceCommitID := []\<rparr>)"
  using ex_consult_ids
  by (simp_all add: consultation_request_def ex_consult_def ex_consult_default_def requireConsultationActor_def
      defaultActor_def ActorLLMAdvisor_def ActorSystem_def Let_def)

lemma ex_consult_run:
  "CommitAgentConsultation ms_deps ex_consult ex_w2 =
     (Inr \<lparr>qv_CaseView = viewFrom ex_consulted (ms_info 6 (ms_id 5 ''commit'')), qv_Consultation = ex_consultation,
           qv_Idempotent = False\<rparr>, ex_wc)"
  using ex_consult_ids by (intro ex_consult_steps [OF ex_consult_requests(1)]) (simp_all add: fill_consultation_def Let_def ex_consult_def)


lemma ex_wc_load:
  "loadLatestVerified ms_deps ex_case_id ex_wc = (Inr (ex_consulted, ms_info 6 (ms_id 5 ''commit'')), ex_wc)"
  by (simp add: loadLatestVerified_def andThen_Inr ms_load_def ex_wc_def)

section \<open>The command\<close>

lemma replay_Some_Inr:
  "consultation_replay s info rid cid canonical es = Some (Inr r) \<Longrightarrow>
     \<exists>e \<in> set es. r = \<lparr>qv_CaseView = viewFrom s info, qv_Consultation = e, qv_Idempotent = True\<rparr> \<and>
       (con_RequestID e = rid \<or> con_ConsultationID e = cid) \<and> canonicalConsultationBody e = Inr canonical"
  by (induction es) (auto split: if_splits sum.splits)

lemma consultation_request_Inr:
  "consultation_request req = Inr c \<Longrightarrow> con_CaseID c = qr_CaseID req \<and> con_RequestID c = qr_RequestID req \<and>
     reConsultationRequestID (qr_RequestID req)"
  using request_id_check_is_the_pattern
  by (auto simp: consultation_request_def Let_def split: if_splits)

lemma fill_consultation_keeps:
  "con_CaseID (fill_consultation info c) = con_CaseID c" "con_RequestID (fill_consultation info c) = con_RequestID c"
  by (simp_all add: fill_consultation_def Let_def)

lemma expected_head_Inr [simp]:
  "expected_head caseID expected info w = (Inr u, w') \<longleftrightarrow> expected \<noteq> [] \<and> expected = ci_CommitID info \<and> w' = w"
  by (auto simp: expected_head_def)

lemma ctx_ok_Inr [simp]: "ctx_ok d w = (Inr u, w') \<longleftrightarrow> d_CtxErr d w = None \<and> w' = w"
  by (auto simp: ctx_ok_def split: option.splits)

lemma requireAnalyzed_None [simp]: "requireAnalyzedForConsultation s c = None \<longleftrightarrow> currentState s = WorkflowAnalyzed"
  by (simp add: requireAnalyzedForConsultation_def)

text \<open>
  C26. A consultation is advisory: a successful \<^verbatim>\<open>CommitAgentConsultation\<close> either returns a
  consultation the case already had under this request, and commits nothing, or publishes, under the
  head its caller expected, the case with this one consultation appended and nothing else changed.
  The case is analyzed before and after.
\<close>

theorem consultation_changes_nothing_else:
  assumes "CommitAgentConsultation d req w = (Inr r, w')"
  shows "\<exists>old info w1. loadLatestVerified d (qr_CaseID req) w = (Inr (old, info), w1) \<and>
    currentState old = WorkflowAnalyzed \<and>
    (if qv_Idempotent r
     then w' = w1 \<and> cv_Snapshot (qv_CaseView r) = old \<and> qv_Consultation r \<in> set (snap_AgentConsultations old)
     else qr_ExpectedCommitID req = ci_CommitID info \<and>
       cv_Snapshot (qv_CaseView r) = old\<lparr>snap_AgentConsultations := snap_AgentConsultations old @ [qv_Consultation r]\<rparr> \<and>
       con_RequestID (qv_Consultation r) = qr_RequestID req \<and>
       qr_RequestID req \<notin> con_RequestID ` set (snap_AgentConsultations old) \<and>
       published d (ci_CommitID info) (qv_CaseView r) w')"
proof -
  obtain c0 old info w1 canonical where req: "consultation_request req = Inr c0"
    and load: "loadLatestVerified d (qr_CaseID req) w = (Inr (old, info), w1)" and state: "currentState old = WorkflowAnalyzed"
    and rest: "(case findConsultationReplay old info (qr_RequestID req) (con_ConsultationID (fill_consultation info c0)) canonical of
        Some r \<Rightarrow> lift_result r
      | None \<Rightarrow>
          andThen (expected_head (qr_CaseID req) (qr_ExpectedCommitID req) info) (\<lambda>_.
          andThen (check_act (wrap_err (\<lambda>x. bad_argument ''consultation: %v'' [GVal x])
             (AgentConsultation_Validate (fill_consultation info c0)))) (\<lambda>_.
          andThen (lift_result (appendConsultation (d_win d) old (fill_consultation info c0))) (\<lambda>next.
          andThen (commitSnapshot d next (ci_CommitID info)) (\<lambda>view.
            ret \<lparr>qv_CaseView = view, qv_Consultation = fill_consultation info c0, qv_Idempotent = False\<rparr>))))) w1 = (Inr r, w')"
    using assms unfolding CommitAgentConsultation_def Let_def by (auto simp: andThen_Inr)
  note head = exI [of _ old, OF exI [of _ info, OF exI [of _ w1]]]
  show ?thesis
  proof (cases "findConsultationReplay old info (qr_RequestID req) (con_ConsultationID (fill_consultation info c0)) canonical")
    case (Some r')
    then have "r' = Inr r" "w' = w1" using rest by auto
    then have "qv_Idempotent r" "cv_Snapshot (qv_CaseView r) = old" "qv_Consultation r \<in> set (snap_AgentConsultations old)"
      using replay_Some_Inr Some unfolding findConsultationReplay_def by (fastforce simp: viewFrom_def)+
    then show ?thesis using load state \<open>w' = w1\<close> by (intro head) simp
  next
    case None
    let ?c = "fill_consultation info c0"
    have *: "con_RequestID ?c \<notin> con_RequestID ` set (snap_AgentConsultations old)" "qr_ExpectedCommitID req = ci_CommitID info"
      "\<not> qv_Idempotent r" "qv_Consultation r = ?c"
      "cv_Snapshot (qv_CaseView r) = old\<lparr>snap_AgentConsultations := snap_AgentConsultations old @ [?c]\<rparr>"
      "published d (ci_CommitID info) (qv_CaseView r) w'"
      using rest None
      by (auto simp: andThen_Inr appendConsultation_Inr commitSnapshot_Inr viewFrom_def published_def currentState_def)
    then show ?thesis
      using load state consultation_request_Inr [OF req] by (intro head) (simp add: fill_consultation_keeps)
  qed
qed

section \<open>Retries\<close>

lemma replay_hit:
  assumes "con_RequestID c = rid" "canonicalConsultationBody c = Inr canonical" "con_ConsultationID c = cid"
    and "\<forall>e \<in> set es. con_RequestID e \<noteq> rid \<and> con_ConsultationID e \<noteq> cid"
  shows "consultation_replay s info rid cid canonical (es @ [c]) =
    Some (Inr \<lparr>qv_CaseView = viewFrom s info, qv_Consultation = c, qv_Idempotent = True\<rparr>)"
  using assms by (induction es) auto

lemma identity_ignores_time [simp]:
  "canonicalConsultationBody (c\<lparr>con_GeneratedAt := t\<rparr>) = canonicalConsultationBody c"
  by (simp add: canonicalConsultationBody_def consultation_identity_def)

lemma fill_with_source:
  assumes "con_SourceCommitID c \<noteq> []"
  shows "fill_consultation info2 (c\<lparr>con_GeneratedAt := t\<rparr>) = (fill_consultation info c)\<lparr>con_GeneratedAt := t\<rparr>"
  using assms by (simp add: fill_consultation_def Let_def)

lemma retried_request:
  "consultation_request req = Inr c \<Longrightarrow>
     consultation_request (req\<lparr>qr_ExpectedCommitID := x, qr_Consultation := (qr_Consultation req)\<lparr>con_GeneratedAt := t\<rparr>\<rparr>)
       = Inr (c\<lparr>con_GeneratedAt := t\<rparr>)"
  by (auto simp: consultation_request_def Let_def)

lemma request_source: "consultation_request req = Inr c \<Longrightarrow> con_SourceCommitID c = con_SourceCommitID (qr_Consultation req)"
  by (auto simp: consultation_request_def Let_def split: if_splits)

text \<open>The steps of a consultation that was appended.\<close>

lemma committed_consultation:
  assumes "CommitAgentConsultation d req w = (Inr r, w')" "\<not> qv_Idempotent r"
  obtains old info w1 c0 where "consultation_request req = Inr c0"
    "loadLatestVerified d (qr_CaseID req) w = (Inr (old, info), w1)" "currentState old = WorkflowAnalyzed"
    "qv_Consultation r = fill_consultation info c0"
    "cv_Snapshot (qv_CaseView r) = old\<lparr>snap_AgentConsultations := snap_AgentConsultations old @ [qv_Consultation r]\<rparr>"
    "\<forall>e \<in> set (snap_AgentConsultations old). con_RequestID e \<noteq> con_RequestID (qv_Consultation r) \<and>
       con_ConsultationID e \<noteq> con_ConsultationID (qv_Consultation r)"
    "\<exists>canonical. canonicalConsultationBody (qv_Consultation r) = Inr canonical"
  using assms unfolding CommitAgentConsultation_def Let_def
  by (auto simp: andThen_Inr appendConsultation_Inr commitSnapshot_Inr viewFrom_def image_iff
        findConsultationReplay_def split: option.splits dest!: replay_Some_Inr) metis

theorem consultation_changes_nothing_else_witness:
  "ex_consulted = ex_s2\<lparr>snap_AgentConsultations := snap_AgentConsultations ex_s2 @ [ex_consultation]\<rparr>"
  using consultation_changes_nothing_else [OF ex_consult_run]
  by (auto simp: viewFrom_def loadLatestVerified_def andThen_Inr ms_load_def ex_w2_def ex_consult_def)

text \<open>
  C27. A consultation that was committed may be sent again: when its request named the commit it was
  made from, and the case that is loaded is the one that commit left, the same request, whatever
  expected head and time of generation it names now, is answered with the stored consultation and
  commits nothing.
\<close>

theorem consultation_retry_is_idempotent:
  assumes "CommitAgentConsultation d req w = (Inr r, w')" "\<not> qv_Idempotent r"
    and "con_SourceCommitID (qr_Consultation req) \<noteq> []"
    and "loadLatestVerified d (qr_CaseID req) w2 = (Inr (cv_Snapshot (qv_CaseView r), info2), w3)" "d_CtxErr d w2 = None"
  shows "CommitAgentConsultation d
      (req\<lparr>qr_ExpectedCommitID := x, qr_Consultation := (qr_Consultation req)\<lparr>con_GeneratedAt := t\<rparr>\<rparr>) w2 =
    (Inr \<lparr>qv_CaseView = viewFrom (cv_Snapshot (qv_CaseView r)) info2, qv_Consultation = qv_Consultation r,
          qv_Idempotent = True\<rparr>, w3)"
proof -
  obtain old info w1 c0 canonical where c0: "consultation_request req = Inr c0" and state: "currentState old = WorkflowAnalyzed"
    and c: "qv_Consultation r = fill_consultation info c0"
    and new: "cv_Snapshot (qv_CaseView r) = old\<lparr>snap_AgentConsultations := snap_AgentConsultations old @ [qv_Consultation r]\<rparr>"
    and fresh: "\<forall>e \<in> set (snap_AgentConsultations old). con_RequestID e \<noteq> con_RequestID (qv_Consultation r) \<and>
       con_ConsultationID e \<noteq> con_ConsultationID (qv_Consultation r)"
    and body: "canonicalConsultationBody (qv_Consultation r) = Inr canonical"
    using committed_consultation [OF assms(1,2)] by metis
  have rid: "con_RequestID (qv_Consultation r) = qr_RequestID req"
    using consultation_request_Inr [OF c0] by (simp add: c fill_consultation_keeps)
  have filled: "fill_consultation info2 (c0\<lparr>con_GeneratedAt := t\<rparr>) = (qv_Consultation r)\<lparr>con_GeneratedAt := t\<rparr>"
    using fill_with_source assms(3) request_source [OF c0] c by simp
  have "findConsultationReplay (cv_Snapshot (qv_CaseView r)) info2 (qr_RequestID req) (con_ConsultationID (qv_Consultation r)) canonical =
      Some (Inr \<lparr>qv_CaseView = viewFrom (cv_Snapshot (qv_CaseView r)) info2, qv_Consultation = qv_Consultation r, qv_Idempotent = True\<rparr>)"
    using replay_hit [OF rid body refl] fresh rid by (simp add: findConsultationReplay_def new)
  moreover have "requireAnalyzedForConsultation (cv_Snapshot (qv_CaseView r)) cid = None" for cid
    using state by (simp add: new currentState_def)
  ultimately show ?thesis
    unfolding CommitAgentConsultation_def Let_def
    using assms(4,5) retried_request [OF c0, where x = x and t = t] body
    by (simp add: andThen_def ctx_ok_def filled check_act_def lift_result_def del: requireAnalyzed_None)
qed

theorem consultation_retry_is_idempotent_witness:
  "CommitAgentConsultation ms_deps (ex_consult\<lparr>qr_ExpectedCommitID := ms_id 3 ''commit'',
      qr_Consultation := ex_consultation\<lparr>con_GeneratedAt := ''2027-01-01T00:00:00Z''\<rparr>\<rparr>) ex_wc =
     (Inr \<lparr>qv_CaseView = viewFrom ex_consulted (ms_info 6 (ms_id 5 ''commit'')), qv_Consultation = ex_consultation,
           qv_Idempotent = True\<rparr>, ex_wc)"
  using consultation_retry_is_idempotent [OF ex_consult_run, where ?w2.0 = ex_wc and ?w3.0 = ex_wc
      and ?info2.0 = "ms_info 6 (ms_id 5 ''commit'')" and x = "ms_id 3 ''commit''"
      and t = "''2027-01-01T00:00:00Z''"] ex_wc_load
  by (simp add: viewFrom_def ex_consult_def)

section \<open>Retries without the source commit\<close>










section \<open>Consultations of a valid case\<close>

text \<open>
  C29. Every consultation of a valid snapshot belongs to the case and is marked as advice: it took
  between one and three rounds and each of its hypotheses is advisory. The findings, the evidence and
  the targets it refers to, as a whole and in each hypothesis for and against it, are of the case.
\<close>

theorem stored_consultations_are_advice:
  assumes "Snapshot_Validate win s = None" "c \<in> set (snap_AgentConsultations s)"
  shows "con_CaseID c = cm_CaseID (snap_Case s) \<and> con_RoundCount c \<in> {1..3} \<and>
    set (elems (con_FindingRefs c)) \<subseteq> fnd_FindingID ` set (snap_Findings s) \<and>
    set (elems (con_EvidenceRefs c)) \<subseteq> ev_EvidenceID ` set (snap_EvidenceBundles s) \<and>
    set (elems (con_TargetRefs c)) \<subseteq> tg_TargetID ` set (snap_Targets s) \<and>
    (\<forall>h \<in> set (elems (con_Hypotheses c)). hyp_Advisory h \<and>
       set (elems (hyp_SupportingFindingRefs h)) \<subseteq> fnd_FindingID ` set (snap_Findings s) \<and>
       set (elems (hyp_SupportingEvidenceRefs h)) \<union> set (elems (hyp_ContradictingEvidenceRefs h)) \<subseteq>
         ev_EvidenceID ` set (snap_EvidenceBundles s))"
proof -
  obtain refs where refs: "cr_EvidenceIDs refs = ev_EvidenceID ` set (snap_EvidenceBundles s)"
      "cr_FindingIDs refs = fnd_FindingID ` set (snap_Findings s)" "cr_TargetIDs refs = tg_TargetID ` set (snap_Targets s)"
    and c: "ValidateConsultationRefs refs c = None"
    using valid_document_refs [OF assms(1)] assms(2) by metis
  have "AgentConsultation_Validate c = None" using c by (simp add: ValidateConsultationRefs_def)
  then have "con_RoundCount c \<in> {1..3}" by (simp add: AgentConsultation_Validate_def)
  then show ?thesis
    using ValidateConsultationRefs_hypotheses [OF c] ValidateConsultationRefs_own [OF c] valid_ids(10) [OF assms(1)] assms(2)
    by (auto simp: refs)
qed

theorem stored_consultations_are_advice_witness:
  "ex_consultation \<in> set (snap_AgentConsultations ex_consulted) \<and> con_RoundCount ex_consultation \<in> {1..3} \<and>
     ex_finding_id \<in> fnd_FindingID ` set (snap_Findings ex_consulted)"
  using stored_consultations_are_advice [OF ex_consulted_valid, of ex_consultation]
  by (simp add: ex_consulted_def) (simp add: ex_consultation_def)

end
