(* ===== verification/BootDoctorCatalog.thy ===== *)
theory BootDoctorCatalog
  imports DomainAdvisory
begin

text \<open>
  The tables of the boot doctor (\<^verbatim>\<open>internal/recovery/bootdoctor/catalog.go\<close> and
  \<^verbatim>\<open>suppress.go\<close>): the codes of its findings, what each finding says, and which findings a code
  suppresses. A Go map literal is an association list.
\<close>

section \<open>Codes\<close>

definition CodeFirmwareModeUnknown :: string where "CodeFirmwareModeUnknown = ''firmware_mode_unknown''"
definition CodeFirmwareModeConflicting :: string where "CodeFirmwareModeConflicting = ''firmware_mode_conflicting''"
definition CodeUEFIWithMBRSystemDisk :: string where "CodeUEFIWithMBRSystemDisk = ''uefi_with_mbr_system_disk''"
definition CodeLegacyWithGPTLayout :: string where "CodeLegacyWithGPTLayout = ''legacy_with_gpt_layout''"
definition CodeUnsupportedLegacyBootTopology :: string where "CodeUnsupportedLegacyBootTopology = ''unsupported_legacy_boot_topology''"
definition CodeWindowsInstallationMissing :: string where "CodeWindowsInstallationMissing = ''windows_installation_missing''"
definition CodeMultipleWindowsInstallations :: string where "CodeMultipleWindowsInstallations = ''multiple_windows_installations''"
definition CodeWindowsInstallationAmbiguous :: string where "CodeWindowsInstallationAmbiguous = ''windows_installation_ambiguous''"
definition CodeWindowsPartitionRelationUnknown :: string where "CodeWindowsPartitionRelationUnknown = ''windows_partition_relation_unknown''"
definition CodeWindowsSystemDiskRelationUnknown :: string where "CodeWindowsSystemDiskRelationUnknown = ''windows_system_disk_relation_unknown''"
definition CodeWindowsInstallationIncomplete :: string where "CodeWindowsInstallationIncomplete = ''windows_installation_incomplete''"
definition CodeEFISystemPartitionMissing :: string where "CodeEFISystemPartitionMissing = ''efi_system_partition_missing''"
definition CodeMultipleEFISystemPartitions :: string where "CodeMultipleEFISystemPartitions = ''multiple_efi_system_partitions''"
definition CodeEFISystemPartitionAmbiguous :: string where "CodeEFISystemPartitionAmbiguous = ''efi_system_partition_ambiguous''"
definition CodeEFISystemPartitionCrossDisk :: string where "CodeEFISystemPartitionCrossDisk = ''efi_system_partition_cross_disk''"
definition CodeEFISystemPartitionRelationUnknown :: string where "CodeEFISystemPartitionRelationUnknown = ''efi_system_partition_relation_unknown''"
definition CodeEFISystemPartitionUnreadable :: string where "CodeEFISystemPartitionUnreadable = ''efi_system_partition_unreadable''"
definition CodeBCDStoreMissing :: string where "CodeBCDStoreMissing = ''bcd_store_missing''"
definition CodeBCDStoreAmbiguous :: string where "CodeBCDStoreAmbiguous = ''bcd_store_ambiguous''"
definition CodeBCDStoreUnreadable :: string where "CodeBCDStoreUnreadable = ''bcd_store_unreadable''"
definition CodeBCDMembershipUnknown :: string where "CodeBCDMembershipUnknown = ''bcd_membership_unknown''"
definition CodeBCDWindowsEntryMissing :: string where "CodeBCDWindowsEntryMissing = ''bcd_windows_entry_missing''"
definition CodeBCDPointsToUnknownInstallation :: string where "CodeBCDPointsToUnknownInstallation = ''bcd_points_to_unknown_installation''"
definition CodeBCDCrossDiskMismatch :: string where "CodeBCDCrossDiskMismatch = ''bcd_cross_disk_mismatch''"
definition CodeBitLockerLocked :: string where "CodeBitLockerLocked = ''bitlocker_locked''"
definition CodeBitLockerStatusUnknown :: string where "CodeBitLockerStatusUnknown = ''bitlocker_status_unknown''"
definition CodeBitLockerRecoveryMaterialRequired :: string where "CodeBitLockerRecoveryMaterialRequired = ''bitlocker_recovery_material_required''"
definition CodeBitLockerBlocksBootAnalysis :: string where "CodeBitLockerBlocksBootAnalysis = ''bitlocker_blocks_boot_analysis''"
definition CodeStorageHealthCritical :: string where "CodeStorageHealthCritical = ''storage_health_critical''"
definition CodeStorageHealthWarning :: string where "CodeStorageHealthWarning = ''storage_health_warning''"
definition CodeStorageHealthUnknown :: string where "CodeStorageHealthUnknown = ''storage_health_unknown''"
definition CodeStorageEvidenceMissing :: string where "CodeStorageEvidenceMissing = ''storage_evidence_missing''"
definition CodeUnsafeToAttemptBootRepair :: string where "CodeUnsafeToAttemptBootRepair = ''unsafe_to_attempt_boot_repair''"
definition CodeBootTopologyIncomplete :: string where "CodeBootTopologyIncomplete = ''boot_topology_incomplete''"
definition CodeBootTopologyAmbiguous :: string where "CodeBootTopologyAmbiguous = ''boot_topology_ambiguous''"
definition CodeBootTopologyConflicting :: string where "CodeBootTopologyConflicting = ''boot_topology_conflicting''"
definition CodeInsufficientEvidenceForRepairPlan :: string where "CodeInsufficientEvidenceForRepairPlan = ''insufficient_evidence_for_repair_plan''"
definition CodeTechnicianSelectionRequired :: string where "CodeTechnicianSelectionRequired = ''technician_selection_required''"
definition CodeBootTopologyConsistent :: string where "CodeBootTopologyConsistent = ''boot_topology_consistent''"

section \<open>What a finding says\<close>

record codeSpec =
  cs_Severity :: string
  cs_Confidence :: string
  cs_Title :: string
  cs_Rationale :: string
  cs_Workflows :: "string list"

definition catalog :: "(string \<times> codeSpec) list" where
  "catalog =
     [
      (CodeFirmwareModeUnknown, \<lparr>cs_Severity = ''high'', cs_Confidence = ''low'',
        cs_Title = ''Firmware boot mode is unknown'',
        cs_Rationale =
        ''Evidence does not establish a single firmware boot mode, so boot-chain conclusions remain '' @
        ''provisional.'',
        cs_Workflows = [''boot.inspect_firmware_mode'']\<rparr>),
      (CodeFirmwareModeConflicting, \<lparr>cs_Severity = ''high'', cs_Confidence = ''high'',
        cs_Title = ''Firmware boot mode evidence conflicts'',
        cs_Rationale =
        ''Collected firmware facts disagree (for example UEFI vs BIOS). No single boot chain may be '' @
        ''assumed.'',
        cs_Workflows = [''boot.inspect_firmware_mode'']\<rparr>),
      (CodeUEFIWithMBRSystemDisk, \<lparr>cs_Severity = ''high'', cs_Confidence = ''high'',
        cs_Title = ''UEFI firmware with MBR system disk'',
        cs_Rationale =
        ''Firmware mode is UEFI while the selected or only system disk uses MBR partition style.'',
        cs_Workflows = [''storage.inspect_partition_layout'', ''boot.inspect_firmware_mode'']\<rparr>),
      (CodeLegacyWithGPTLayout, \<lparr>cs_Severity = ''medium'', cs_Confidence = ''high'',
        cs_Title = ''Legacy BIOS firmware with GPT layout'',
        cs_Rationale =
        ''Firmware mode is legacy/BIOS while disk layout is GPT, which is an unusual and often '' @
        ''unsupported combination for this Boot Doctor profile.'',
        cs_Workflows = [''storage.inspect_partition_layout'', ''boot.inspect_firmware_mode'']\<rparr>),
      (CodeUnsupportedLegacyBootTopology, \<lparr>cs_Severity = ''high'', cs_Confidence = ''medium'',
        cs_Title = ''Unsupported legacy boot topology'',
        cs_Rationale =
        ''Automatic Boot Doctor analysis supports UEFI+GPT recovery paths; legacy BIOS topologies require '' @
        ''technician-directed follow-up.'',
        cs_Workflows = [''boot.inspect_firmware_mode'']\<rparr>),
      (CodeWindowsInstallationMissing, \<lparr>cs_Severity = ''high'', cs_Confidence = ''high'',
        cs_Title = ''No Windows installation target found'',
        cs_Rationale =
        ''Topology candidates do not include a Windows installation role grounded in evidence.'',
        cs_Workflows = [''windows.inspect_installation'']\<rparr>),
      (CodeMultipleWindowsInstallations, \<lparr>cs_Severity = ''medium'', cs_Confidence = ''high'',
        cs_Title = ''Multiple Windows installations present'',
        cs_Rationale =
        ''More than one Windows installation candidate exists; automatic selection is not permitted.'',
        cs_Workflows = [''windows.inspect_installation'']\<rparr>),
      (CodeWindowsInstallationAmbiguous, \<lparr>cs_Severity = ''medium'', cs_Confidence = ''low'',
        cs_Title = ''Windows installation selection is ambiguous'',
        cs_Rationale =
        ''Windows installation candidates or relations are ambiguous and require technician selection.'',
        cs_Workflows = [''windows.inspect_installation'']\<rparr>),
      (CodeWindowsPartitionRelationUnknown, \<lparr>cs_Severity = ''medium'', cs_Confidence = ''low'',
        cs_Title = ''Windows-to-partition relation is unknown'',
        cs_Rationale =
        ''A Windows installation is present but its hosting partition relation is missing or not proven.'',
        cs_Workflows = [''windows.inspect_installation'', ''storage.inspect_partition_layout'']\<rparr>),
      (CodeWindowsSystemDiskRelationUnknown, \<lparr>cs_Severity = ''medium'', cs_Confidence = ''low'',
        cs_Title = ''Windows partition-to-disk relation is unknown'',
        cs_Rationale =
        ''The Windows partition cannot be related to a system disk with acceptable confidence.'',
        cs_Workflows = [''storage.inspect_partition_layout'']\<rparr>),
      (CodeWindowsInstallationIncomplete, \<lparr>cs_Severity = ''medium'', cs_Confidence = ''medium'',
        cs_Title = ''Windows installation topology is incomplete'',
        cs_Rationale =
        ''Windows installation evidence is present but required partition or disk roles remain '' @
        ''unresolved.'',
        cs_Workflows = [''windows.inspect_installation'']\<rparr>),
      (CodeEFISystemPartitionMissing, \<lparr>cs_Severity = ''medium'', cs_Confidence = ''high'',
        cs_Title = ''EFI System Partition is missing'',
        cs_Rationale =
        ''No EFI System Partition candidate was identified from partition evidence.'',
        cs_Workflows = [''boot.inspect_efi_layout'']\<rparr>),
      (CodeMultipleEFISystemPartitions, \<lparr>cs_Severity = ''medium'', cs_Confidence = ''high'',
        cs_Title = ''Multiple EFI System Partitions present'',
        cs_Rationale =
        ''More than one ESP candidate exists; automatic selection is not permitted.'',
        cs_Workflows = [''boot.inspect_efi_layout'']\<rparr>),
      (CodeEFISystemPartitionAmbiguous, \<lparr>cs_Severity = ''medium'', cs_Confidence = ''low'',
        cs_Title = ''EFI System Partition selection is ambiguous'',
        cs_Rationale =
        ''ESP candidates or relations are ambiguous and require technician selection.'',
        cs_Workflows = [''boot.inspect_efi_layout'']\<rparr>),
      (CodeEFISystemPartitionCrossDisk, \<lparr>cs_Severity = ''critical'', cs_Confidence = ''high'',
        cs_Title = ''EFI System Partition is on a different disk'',
        cs_Rationale =
        ''ESP and Windows system disk roles are not connected on the same disk, creating cross-disk boot '' @
        ''risk.'',
        cs_Workflows = [''boot.inspect_efi_layout'', ''storage.inspect_partition_layout'']\<rparr>),
      (CodeEFISystemPartitionRelationUnknown, \<lparr>cs_Severity = ''medium'', cs_Confidence = ''low'',
        cs_Title = ''ESP-to-disk relation is unknown'',
        cs_Rationale =
        ''An ESP candidate exists without a proven hosts_esp relation to the system disk.'',
        cs_Workflows = [''boot.inspect_efi_layout'']\<rparr>),
      (CodeEFISystemPartitionUnreadable, \<lparr>cs_Severity = ''medium'', cs_Confidence = ''medium'',
        cs_Title = ''EFI System Partition evidence is unreadable'',
        cs_Rationale =
        ''Evidence explicitly indicates the ESP could not be read; filesystem corruption is not asserted '' @
        ''without that proof.'',
        cs_Workflows = [''boot.inspect_efi_layout'']\<rparr>),
      (CodeBCDStoreMissing, \<lparr>cs_Severity = ''medium'', cs_Confidence = ''medium'',
        cs_Title = ''BCD store is missing'',
        cs_Rationale =
        ''No BCD store candidate was identified for the boot topology.'',
        cs_Workflows = [''boot.inspect_bcd_store'']\<rparr>),
      (CodeBCDStoreAmbiguous, \<lparr>cs_Severity = ''medium'', cs_Confidence = ''low'',
        cs_Title = ''BCD store selection is ambiguous'',
        cs_Rationale =
        ''Multiple BCD store candidates or ambiguous BCD relations prevent a unique selection.'',
        cs_Workflows = [''boot.inspect_bcd_store'']\<rparr>),
      (CodeBCDStoreUnreadable, \<lparr>cs_Severity = ''medium'', cs_Confidence = ''medium'',
        cs_Title = ''BCD store evidence is unreadable'',
        cs_Rationale =
        ''Evidence indicates the BCD store could not be read. Corruption is not asserted from absence '' @
        ''alone.'',
        cs_Workflows = [''boot.inspect_bcd_store'']\<rparr>),
      (CodeBCDMembershipUnknown, \<lparr>cs_Severity = ''medium'', cs_Confidence = ''low'',
        cs_Title = ''BCD membership relative to Windows is unknown'',
        cs_Rationale =
        ''BCD evidence does not prove membership for the selected Windows installation.'',
        cs_Workflows = [''boot.inspect_bcd_store'']\<rparr>),
      (CodeBCDWindowsEntryMissing, \<lparr>cs_Severity = ''medium'', cs_Confidence = ''medium'',
        cs_Title = ''BCD Windows boot entry appears missing'',
        cs_Rationale =
        ''A BCD store is present but no boot_store_for_windows relation to a known installation is '' @
        ''established.'',
        cs_Workflows = [''boot.inspect_bcd_store'', ''windows.inspect_installation'']\<rparr>),
      (CodeBCDPointsToUnknownInstallation, \<lparr>cs_Severity = ''medium'', cs_Confidence = ''medium'',
        cs_Title = ''BCD points to an unknown Windows installation'',
        cs_Rationale =
        ''BCD relations reference a Windows target that is not present among topology candidates.'',
        cs_Workflows = [''boot.inspect_bcd_store'', ''windows.inspect_installation'']\<rparr>),
      (CodeBCDCrossDiskMismatch, \<lparr>cs_Severity = ''critical'', cs_Confidence = ''high'',
        cs_Title = ''BCD store is on a mismatched disk'',
        cs_Rationale =
        ''BCD containment relations place the store outside the selected Windows/ESP disk chain.'',
        cs_Workflows = [''boot.inspect_bcd_store'', ''storage.inspect_partition_layout'']\<rparr>),
      (CodeBitLockerLocked, \<lparr>cs_Severity = ''high'', cs_Confidence = ''high'',
        cs_Title = ''BitLocker volume is locked'',
        cs_Rationale =
        ''BitLocker evidence reports a locked or inaccessible volume. Filesystem damage is not inferred '' @
        ''from inaccessibility alone.'',
        cs_Workflows = [''bitlocker.inspect_inventory'']\<rparr>),
      (CodeBitLockerStatusUnknown, \<lparr>cs_Severity = ''high'', cs_Confidence = ''low'',
        cs_Title = ''BitLocker status is unknown'',
        cs_Rationale =
        ''BitLocker evidence is present but lock/protection status is empty or unrecognized and is not '' @
        ''treated as safe.'',
        cs_Workflows = [''bitlocker.inspect_inventory'']\<rparr>),
      (CodeBitLockerRecoveryMaterialRequired, \<lparr>cs_Severity = ''high'', cs_Confidence = ''medium'',
        cs_Title = ''BitLocker recovery material is required'',
        cs_Rationale =
        ''Locked BitLocker state blocks further boot-path inspection until recovery material is supplied '' @
        ''out of band. Recovery secrets are never stored in Findings.'',
        cs_Workflows = [''bitlocker.inspect_inventory'']\<rparr>),
      (CodeBitLockerBlocksBootAnalysis, \<lparr>cs_Severity = ''high'', cs_Confidence = ''high'',
        cs_Title = ''BitLocker blocks boot analysis'',
        cs_Rationale =
        ''BitLocker inaccessibility prevents complete boot topology analysis of protected volumes.'',
        cs_Workflows = [''bitlocker.inspect_inventory'']\<rparr>),
      (CodeStorageHealthCritical, \<lparr>cs_Severity = ''critical'', cs_Confidence = ''high'',
        cs_Title = ''Storage health is critical'',
        cs_Rationale =
        ''Drive health evidence reports failed, unhealthy, or critical status. Boot repair must be '' @
        ''treated as unsafe.'',
        cs_Workflows = [''storage.inspect_disk_health'']\<rparr>),
      (CodeStorageHealthWarning, \<lparr>cs_Severity = ''medium'', cs_Confidence = ''medium'',
        cs_Title = ''Storage health warning'',
        cs_Rationale =
        ''Drive health evidence reports a non-critical warning condition that lowers repair confidence.'',
        cs_Workflows = [''storage.inspect_disk_health'']\<rparr>),
      (CodeStorageHealthUnknown, \<lparr>cs_Severity = ''high'', cs_Confidence = ''low'',
        cs_Title = ''Storage health is unknown'',
        cs_Rationale =
        ''Storage health status is missing or unrecognized and is not treated as healthy.'',
        cs_Workflows = [''storage.inspect_disk_health'']\<rparr>),
      (CodeStorageEvidenceMissing, \<lparr>cs_Severity = ''high'', cs_Confidence = ''low'',
        cs_Title = ''Storage health evidence is missing'',
        cs_Rationale =
        ''No drive-health evidence records were available for topology eligibility diagnostics.'',
        cs_Workflows = [''storage.inspect_disk_health'']\<rparr>),
      (CodeUnsafeToAttemptBootRepair, \<lparr>cs_Severity = ''critical'', cs_Confidence = ''high'',
        cs_Title = ''Unsafe to attempt boot repair'',
        cs_Rationale =
        ''Critical storage health or cross-disk destructive-risk topology makes boot repair unsafe based '' @
        ''on current evidence.'',
        cs_Workflows = [''storage.inspect_disk_health'', ''case.verify_store_integrity'']\<rparr>),
      (CodeBootTopologyIncomplete, \<lparr>cs_Severity = ''medium'', cs_Confidence = ''medium'',
        cs_Title = ''Boot topology is incomplete'',
        cs_Rationale =
        ''Required boot roles or relations are missing, so a repair plan cannot be justified yet.'',
        cs_Workflows = [''boot.inspect_efi_layout'', ''windows.inspect_installation'']\<rparr>),
      (CodeBootTopologyAmbiguous, \<lparr>cs_Severity = ''medium'', cs_Confidence = ''low'',
        cs_Title = ''Boot topology is ambiguous'',
        cs_Rationale =
        ''Multiple candidates or ambiguous relations prevent selecting a single boot chain.'',
        cs_Workflows = []\<rparr>),
      (CodeBootTopologyConflicting, \<lparr>cs_Severity = ''high'', cs_Confidence = ''high'',
        cs_Title = ''Boot topology evidence conflicts'',
        cs_Rationale =
        ''Topology ambiguities or firmware conflicts contradict a single coherent boot chain.'',
        cs_Workflows = [''boot.inspect_firmware_mode'']\<rparr>),
      (CodeInsufficientEvidenceForRepairPlan, \<lparr>cs_Severity = ''medium'', cs_Confidence = ''low'',
        cs_Title = ''Insufficient evidence for a repair plan'',
        cs_Rationale =
        ''Current evidence and topology blockers are insufficient to justify any typed repair plan.'',
        cs_Workflows = [''case.verify_store_integrity'']\<rparr>),
      (CodeTechnicianSelectionRequired, \<lparr>cs_Severity = ''medium'', cs_Confidence = ''medium'',
        cs_Title = ''Technician selection is required'',
        cs_Rationale =
        ''Automatic topology selection is unavailable; a complete connected technician selection is '' @
        ''required.'',
        cs_Workflows = []\<rparr>),
      (CodeBootTopologyConsistent, \<lparr>cs_Severity = ''info'', cs_Confidence = ''high'',
        cs_Title = ''Boot topology is consistent'',
        cs_Rationale =
        ''Topology roles are unique, relations are proven or strong, firmware is consistent, BitLocker '' @
        ''does not block, and storage health is known and non-critical.'',
        cs_Workflows = []\<rparr>)
     ]"

section \<open>Suppression\<close>

definition suppressWhenPresent :: "(string \<times> string list) list" where
  "suppressWhenPresent =
     [
      (CodeWindowsInstallationMissing, [CodeBCDMembershipUnknown, CodeBCDWindowsEntryMissing,
         CodeBCDPointsToUnknownInstallation, CodeWindowsPartitionRelationUnknown,
         CodeWindowsSystemDiskRelationUnknown, CodeWindowsInstallationIncomplete]),
      (CodeMultipleWindowsInstallations, [CodeBCDMembershipUnknown, CodeBCDWindowsEntryMissing,
         CodeBCDPointsToUnknownInstallation]),
      (CodeWindowsInstallationAmbiguous, [CodeBCDMembershipUnknown, CodeBCDWindowsEntryMissing,
         CodeBCDPointsToUnknownInstallation]),
      (CodeFirmwareModeConflicting, [CodeBootTopologyConsistent, CodeUEFIWithMBRSystemDisk,
         CodeLegacyWithGPTLayout]),
      (CodeFirmwareModeUnknown, [CodeBootTopologyConsistent, CodeUEFIWithMBRSystemDisk,
         CodeLegacyWithGPTLayout]),
      (CodeBitLockerLocked, [CodeBootTopologyConsistent]),
      (CodeBitLockerStatusUnknown, [CodeBootTopologyConsistent]),
      (CodeStorageHealthCritical, [CodeBootTopologyConsistent]),
      (CodeStorageHealthUnknown, [CodeBootTopologyConsistent]),
      (CodeStorageEvidenceMissing, [CodeBootTopologyConsistent]),
      (CodeBootTopologyAmbiguous, [CodeBootTopologyConsistent]),
      (CodeBootTopologyIncomplete, [CodeBootTopologyConsistent]),
      (CodeBootTopologyConflicting, [CodeBootTopologyConsistent]),
      (CodeEFISystemPartitionCrossDisk, [CodeBootTopologyConsistent]),
      (CodeBCDCrossDiskMismatch, [CodeBootTopologyConsistent])
     ]"

section \<open>The tables are well formed\<close>

lemmas code_defs =
  CodeFirmwareModeUnknown_def CodeFirmwareModeConflicting_def CodeUEFIWithMBRSystemDisk_def
  CodeLegacyWithGPTLayout_def CodeUnsupportedLegacyBootTopology_def
  CodeWindowsInstallationMissing_def CodeMultipleWindowsInstallations_def
  CodeWindowsInstallationAmbiguous_def CodeWindowsPartitionRelationUnknown_def
  CodeWindowsSystemDiskRelationUnknown_def CodeWindowsInstallationIncomplete_def
  CodeEFISystemPartitionMissing_def CodeMultipleEFISystemPartitions_def
  CodeEFISystemPartitionAmbiguous_def CodeEFISystemPartitionCrossDisk_def
  CodeEFISystemPartitionRelationUnknown_def CodeEFISystemPartitionUnreadable_def
  CodeBCDStoreMissing_def CodeBCDStoreAmbiguous_def CodeBCDStoreUnreadable_def
  CodeBCDMembershipUnknown_def CodeBCDWindowsEntryMissing_def
  CodeBCDPointsToUnknownInstallation_def CodeBCDCrossDiskMismatch_def CodeBitLockerLocked_def
  CodeBitLockerStatusUnknown_def CodeBitLockerRecoveryMaterialRequired_def
  CodeBitLockerBlocksBootAnalysis_def CodeStorageHealthCritical_def CodeStorageHealthWarning_def
  CodeStorageHealthUnknown_def CodeStorageEvidenceMissing_def CodeUnsafeToAttemptBootRepair_def
  CodeBootTopologyIncomplete_def CodeBootTopologyAmbiguous_def CodeBootTopologyConflicting_def
  CodeInsufficientEvidenceForRepairPlan_def CodeTechnicianSelectionRequired_def
  CodeBootTopologyConsistent_def

definition spec_ok :: "codeSpec \<Rightarrow> bool" where
  "spec_ok s \<longleftrightarrow> cs_Severity s \<in> set severities \<and> cs_Confidence s \<in> set confidences \<and>
     \<not> blank (cs_Title s) \<and> \<not> blank (cs_Rationale s)"

lemma catalog_ok: "list_all (\<lambda>(c, s). spec_ok s) catalog"
  by code_simp

lemma catalog_codes: "distinct (map fst catalog)"
  by code_simp

lemma code_chars: "list_all (\<lambda>(c, s). re_head_run lower_az (lower_az @ digits10 @ ''_'') 1 127 c) catalog"
  by code_simp

text \<open>No code that suppresses another is itself suppressed.\<close>

lemma suppressors_stay: "list_all (\<lambda>(p, vs). list_all (\<lambda>(q, ws). p \<notin> set ws) suppressWhenPresent) suppressWhenPresent"
  by code_simp

end
