(* ===== verification/BootDoctor.thy ===== *)
theory BootDoctor
  imports BootDoctorCatalog GoHash "HOL-Library.AList"
begin

text \<open>
  The boot doctor (\<^verbatim>\<open>internal/recovery/bootdoctor\<close>): from the boot topology of a case to findings.
  \<^verbatim>\<open>collectDrafts\<close> is a sequence of calls of its local \<^verbatim>\<open>add\<close>; the model lists the calls in
  their order, one definition for each part of the function, and folds \<open>add_draft\<close> over them. A Go map
  of drafts is an association list with distinct codes; the order in which Go ranges over it is the
  parameter \<open>ord\<close> of \<open>Analyze\<close>.
\<close>

section \<open>Identity\<close>

definition analyzerID :: string where "analyzerID = ''effexor-recovery-boot-doctor''"
definition analyzerVersion :: string where "analyzerVersion = ''1.0.0''"
definition codeLimitPrefix :: string where "codeLimitPrefix = ''finding_code:''"

definition uniqueSorted :: "string list \<Rightarrow> string list" where
  "uniqueSorted vs = sort (remdups (filter (\<lambda>v. v \<noteq> []) (map trim_space vs)))"

fun join_with :: "string \<Rightarrow> string list \<Rightarrow> string" where
  "join_with sep [] = []"
| "join_with sep [x] = x"
| "join_with sep (x # y # xs) = x @ sep @ join_with sep (y # xs)"

definition findingIDFor :: "string \<Rightarrow> string \<Rightarrow> string list \<Rightarrow> string list \<Rightarrow> string" where
  "findingIDFor caseID code targets evidence =
     ''finding-'' @ take 24 (hex_encode (sha256_sum
       (''bootdoctor|'' @ analyzerVersion @ ''|'' @ caseID @ ''|'' @ code @ ''|''
        @ ''targets='' @ join_with '','' (uniqueSorted targets) @ ''|''
        @ ''evidence='' @ join_with '','' (uniqueSorted evidence))))"

definition FindingCodeOf :: "Finding \<Rightarrow> string" where
  "FindingCodeOf f =
     (case List.find (has_prefix codeLimitPrefix) (elems (fnd_Limitations f)) of
        None \<Rightarrow> []
      | Some l \<Rightarrow> drop (length codeLimitPrefix) l)"

section \<open>Queries on the topology\<close>

definition toSet :: "string list \<Rightarrow> string set" where
  "toSet vs = set (filter (\<lambda>v. v \<noteq> []) vs)"

definition candidatesByRole :: "WindowsBootTopology \<Rightarrow> string \<Rightarrow> string list" where
  "candidatesByRole topo role =
     uniqueSorted (map tc_TargetID (filter (\<lambda>c. tc_Role c = role) (elems (wt_Candidates topo))))"

definition candidateTargets :: "WindowsBootTopology \<Rightarrow> string list" where
  "candidateTargets topo = uniqueSorted (map tc_TargetID (elems (wt_Candidates topo)))"

definition firmwareTargets :: "WindowsBootTopology \<Rightarrow> string list" where
  "firmwareTargets topo = candidatesByRole topo RoleFirmware"

definition topologyEvidenceRefs :: "WindowsBootTopology \<Rightarrow> string list" where
  "topologyEvidenceRefs topo = uniqueSorted
     (concat (map (elems \<circ> tc_EvidenceRefs) (elems (wt_Candidates topo)))
      @ concat (map (elems \<circ> tr_EvidenceRefs) (elems (wt_Relations topo)))
      @ concat (map (elems \<circ> ta_EvidenceRefs) (elems (wt_Ambiguities topo))))"

definition ambiguityCodes :: "WindowsBootTopology \<Rightarrow> string set" where
  "ambiguityCodes topo = set (map ta_Code (elems (wt_Ambiguities topo)))"

definition targetsForAmbiguity :: "WindowsBootTopology \<Rightarrow> string \<Rightarrow> string list" where
  "targetsForAmbiguity topo code = uniqueSorted
     (concat (map (elems \<circ> ta_TargetIDs) (filter (\<lambda>a. ta_Code a = code) (elems (wt_Ambiguities topo)))))"

definition hasLimitation :: "WindowsBootTopology \<Rightarrow> string \<Rightarrow> bool" where
  "hasLimitation topo code \<longleftrightarrow> code \<in> set (elems (wt_Limitations topo))"

definition hasDriveHealthAmbiguity :: "WindowsBootTopology \<Rightarrow> bool" where
  "hasDriveHealthAmbiguity topo \<longleftrightarrow> list_ex (\<lambda>a. ta_Code a = ''storage_health_unknown'' \<or>
     ta_Code a = ''storage_health_unsafe'') (elems (wt_Ambiguities topo))"

definition hasRelationType :: "WindowsBootTopology \<Rightarrow> string \<Rightarrow> bool" where
  "hasRelationType topo typ \<longleftrightarrow> list_ex (\<lambda>r. tr_RelationType r = typ \<and> tr_Confidence r \<noteq> ConfidenceAmbiguous \<and>
     tr_Confidence r \<noteq> ConfidenceUnknown) (elems (wt_Relations topo))"

definition hasBCDForWindows :: "WindowsBootTopology \<Rightarrow> string \<Rightarrow> bool" where
  "hasBCDForWindows topo windowsID \<longleftrightarrow> list_ex (\<lambda>r. tr_RelationType r = RelationBootStoreForWindows \<and>
     tr_ToTargetID r = windowsID \<and> \<not> (tr_Confidence r = ConfidenceAmbiguous \<or> tr_Confidence r = ConfidenceUnknown))
     (elems (wt_Relations topo))"

definition bcdUnknownWindows :: "WindowsBootTopology \<Rightarrow> string set \<Rightarrow> string list \<times> string list" where
  "bcdUnknownWindows topo windows =
     (let rs = filter (\<lambda>r. tr_RelationType r = RelationBootStoreForWindows) (elems (wt_Relations topo)) in
      (uniqueSorted (concat (map (\<lambda>r. [tr_FromTargetID r, tr_ToTargetID r]) rs)),
       uniqueSorted (map tr_ToTargetID (filter (\<lambda>r. tr_ToTargetID r \<notin> windows) rs))))"

text \<open>
  \<^verbatim>\<open>hasCrossDiskESP\<close>: first the selected disk and partition, if both are set; when that decides
  nothing, the disks that contain a partition hosting Windows (or, if none is known, any partition).
\<close>

definition windows_disks :: "WindowsBootTopology \<Rightarrow> string set" where
  "windows_disks topo =
     (let rs = elems (wt_Relations topo);
          winParts = set (map tr_FromTargetID (filter (\<lambda>r. tr_RelationType r = RelationHostsWindows) rs));
          contains = filter (\<lambda>r. tr_RelationType r = RelationContains) rs in
      set (map tr_FromTargetID (if winParts \<noteq> {} then filter (\<lambda>r. tr_ToTargetID r \<in> winParts) contains else contains)))"

definition cross_disk_by_disks :: "WindowsBootTopology \<Rightarrow> bool" where
  "cross_disk_by_disks topo \<longleftrightarrow> windows_disks topo \<noteq> {} \<and>
     list_ex (\<lambda>r. tr_RelationType r = RelationHostsESP \<and> tr_FromTargetID r \<notin> windows_disks topo) (elems (wt_Relations topo))"

definition hasCrossDiskESP :: "WindowsBootTopology \<Rightarrow> bool" where
  "hasCrossDiskESP topo =
     (let esp = ts_ESPTargetID (wt_Selection topo); disk = ts_SystemDiskTargetID (wt_Selection topo);
          rs = elems (wt_Relations topo) in
      if esp \<noteq> [] \<and> disk \<noteq> []
      then if list_ex (\<lambda>r. tr_RelationType r = RelationHostsESP \<and> tr_FromTargetID r = disk \<and> tr_ToTargetID r = esp) rs
           then False
           else if list_ex (\<lambda>r. tr_RelationType r = RelationHostsESP \<and> tr_ToTargetID r = esp \<and> tr_FromTargetID r \<noteq> disk) rs
           then True
           else cross_disk_by_disks topo
      else cross_disk_by_disks topo)"

definition hasBCDCrossDisk :: "WindowsBootTopology \<Rightarrow> bool" where
  "hasBCDCrossDisk topo =
     (let esp = ts_ESPTargetID (wt_Selection topo); part = ts_WindowsPartitionTargetID (wt_Selection topo) in
      list_ex (\<lambda>r. tr_RelationType r = RelationContainsBCDStore \<and> esp \<noteq> [] \<and> tr_FromTargetID r \<noteq> esp \<and>
        part \<noteq> [] \<and> tr_FromTargetID r \<noteq> part) (elems (wt_Relations topo)))"

definition targetsByID :: "Target list \<Rightarrow> (string \<times> Target) list" where
  "targetsByID ts = rev (map (\<lambda>t. (tg_TargetID t, t)) ts)"

definition preferredDisk :: "WindowsBootTopology \<Rightarrow> string list \<Rightarrow> string" where
  "preferredDisk topo disks =
     (if ts_SystemDiskTargetID (wt_Selection topo) \<noteq> [] then ts_SystemDiskTargetID (wt_Selection topo)
      else case disks of [d] \<Rightarrow> d | _ \<Rightarrow> [])"

text \<open>
  \<^verbatim>\<open>strings.ToUpper\<close> on the letters that matter: no letter outside ASCII has one of the letters of
  \<^verbatim>\<open>GPT\<close> and \<^verbatim>\<open>MBR\<close> as its upper case.
\<close>

definition to_upper_char :: "char \<Rightarrow> char" where
  "to_upper_char c = (let n = (of_char c :: nat) in if 97 \<le> n \<and> n \<le> 122 then char_of (n - 32) else c)"

definition diskStyle :: "(string \<times> Target) list \<Rightarrow> string \<Rightarrow> string" where
  "diskStyle byID diskID =
     (if diskID = [] then []
      else (case map_of byID diskID of
              None \<Rightarrow> []
            | Some t \<Rightarrow>
               (let raw = (case map_of (elems (tg_RuntimeLocators t)) ''partition_style'' of None \<Rightarrow> [] | Some v \<Rightarrow> v);
                    style = map to_upper_char (trim_space raw) in
                if style = ''GPT'' \<or> style = ''MBR'' then style else [])))"

definition hasConflictingAmbiguity :: "WindowsBootTopology \<Rightarrow> bool" where
  "hasConflictingAmbiguity topo \<longleftrightarrow> list_ex (\<lambda>a. ta_Code a \<in> {''unsupported_layout'', ''storage_health_unsafe'',
     ''bitlocker_inaccessible'', ''bitlocker_status_unknown''}) (elems (wt_Ambiguities topo))"

definition selectedTargets :: "WindowsBootTopology \<Rightarrow> string list" where
  "selectedTargets topo = uniqueSorted
     [ts_WindowsTargetID (wt_Selection topo), ts_WindowsPartitionTargetID (wt_Selection topo),
      ts_SystemDiskTargetID (wt_Selection topo), ts_ESPTargetID (wt_Selection topo), ts_BCDTargetID (wt_Selection topo)]"

definition selectedOrAll :: "WindowsBootTopology \<Rightarrow> string list \<Rightarrow> string list" where
  "selectedOrAll topo all_targets = (let sel = selectedTargets topo in if sel = [] then all_targets else sel)"

section \<open>Drafts\<close>

record draft =
  dr_targets :: "string list"
  dr_evidence :: "string list"
  dr_extraLim :: "string list"
  dr_insuff :: bool

text \<open>The arguments of one call of \<^verbatim>\<open>add\<close>: no call passes extra limitations.\<close>

type_synonym add_call = "string \<times> string list \<times> string list \<times> bool"

text \<open>\<^verbatim>\<open>hasBlock\<close> and \<^verbatim>\<open>hasAmb\<close>\<close>

definition has_block :: "WindowsBootTopology \<Rightarrow> string \<Rightarrow> bool" where
  "has_block topo code \<longleftrightarrow> code \<in> toSet (elems (me_Blockers (wt_MutationEligibility topo)))"

definition has_amb :: "WindowsBootTopology \<Rightarrow> string \<Rightarrow> bool" where
  "has_amb topo code \<longleftrightarrow> code \<in> ambiguityCodes topo"

definition add_if :: "bool \<Rightarrow> add_call list \<Rightarrow> add_call list" where
  "add_if b cs = (if b then cs else [])"

definition firmware_drafts :: "WindowsBootTopology \<Rightarrow> Target list \<Rightarrow> add_call list" where
  "firmware_drafts topo targets =
     (let ev = topologyEvidenceRefs topo; fw = firmwareTargets topo; disks = candidatesByRole topo RoleSystemDisk;
          style = diskStyle (targetsByID targets) (preferredDisk topo disks) in
      if wt_FirmwareMode topo = FirmwareUnknown then [(CodeFirmwareModeUnknown, fw, ev, False)]
      else if wt_FirmwareMode topo = FirmwareConflicting
      then [(CodeFirmwareModeConflicting, fw, ev, False), (CodeBootTopologyConflicting, candidateTargets topo, ev, False)]
      else if wt_FirmwareMode topo = FirmwareBIOS
      then [(CodeUnsupportedLegacyBootTopology, fw @ disks, ev, False)]
        @ add_if (style = ''GPT'') [(CodeLegacyWithGPTLayout, fw @ disks, ev, False)]
      else if wt_FirmwareMode topo = FirmwareUEFI
      then add_if (style = ''MBR'' \<or> has_block topo ''disk_not_gpt'') [(CodeUEFIWithMBRSystemDisk, fw @ disks, ev, False)]
      else [])"

definition windows_drafts :: "WindowsBootTopology \<Rightarrow> add_call list" where
  "windows_drafts topo =
     (let ev = topologyEvidenceRefs topo; windows = candidatesByRole topo RoleWindowsInstallation;
          parts = candidatesByRole topo RoleWindowsPartition; disks = candidatesByRole topo RoleSystemDisk in
      (if length windows = 0 \<or> has_block topo ''windows_missing''
       then [(CodeWindowsInstallationMissing, [], ev, length windows = 0)]
       else add_if (1 < length windows \<or> has_block topo ''windows_ambiguous'')
         [(CodeMultipleWindowsInstallations, windows, ev, False), (CodeWindowsInstallationAmbiguous, windows, ev, False),
          (CodeBootTopologyAmbiguous, windows, ev, False)])
      @ add_if (has_block topo ''windows_partition_unresolved'' \<or> (length windows = 1 \<and> length parts = 0))
         [(CodeWindowsPartitionRelationUnknown, windows @ parts, ev, True),
          (CodeWindowsInstallationIncomplete, windows @ parts, ev, True)]
      @ add_if (has_block topo ''system_disk_unresolved'' \<or> (length windows = 1 \<and> length disks = 0))
         [(CodeWindowsSystemDiskRelationUnknown, windows @ disks, ev, True),
          (CodeWindowsInstallationIncomplete, windows @ disks, ev, True)]
      @ add_if (1 \<le> length windows \<and> \<not> hasRelationType topo RelationHostsWindows)
         [(CodeWindowsPartitionRelationUnknown, windows @ parts, ev, True)])"

definition esp_drafts :: "WindowsBootTopology \<Rightarrow> add_call list" where
  "esp_drafts topo =
     (let ev = topologyEvidenceRefs topo; esps = candidatesByRole topo RoleEFISystemPartition;
          disks = candidatesByRole topo RoleSystemDisk in
      (if length esps = 0 \<or> has_block topo ''esp_missing''
       then [(CodeEFISystemPartitionMissing, [], ev, length esps = 0)]
       else add_if (1 < length esps \<or> has_block topo ''esp_ambiguous'')
         [(CodeMultipleEFISystemPartitions, esps, ev, False), (CodeEFISystemPartitionAmbiguous, esps, ev, False),
          (CodeBootTopologyAmbiguous, esps, ev, False)])
      @ add_if (has_amb topo ''esp_cross_disk'' \<or> hasCrossDiskESP topo)
         [(CodeEFISystemPartitionCrossDisk, esps @ disks, ev, False), (CodeUnsafeToAttemptBootRepair, esps @ disks, ev, False)]
      @ add_if (1 \<le> length esps \<and> \<not> hasRelationType topo RelationHostsESP)
         [(CodeEFISystemPartitionRelationUnknown, esps @ disks, ev, True)]
      @ add_if (has_amb topo ''esp_unreadable'') [(CodeEFISystemPartitionUnreadable, esps, ev, False)])"

definition bcd_drafts :: "WindowsBootTopology \<Rightarrow> add_call list" where
  "bcd_drafts topo =
     (let ev = topologyEvidenceRefs topo; bcds = candidatesByRole topo RoleBCDStore;
          windows = candidatesByRole topo RoleWindowsInstallation; disks = candidatesByRole topo RoleSystemDisk;
          (points, unknown) = bcdUnknownWindows topo (toSet windows) in
      (if has_block topo ''bcd_ambiguous'' \<or> 1 < length bcds \<or> has_amb topo ''bcd_ambiguous''
       then [(CodeBCDStoreAmbiguous, bcds, ev, False), (CodeBootTopologyAmbiguous, bcds, ev, False)]
       else add_if ((has_block topo ''bcd_missing'' \<or> has_amb topo ''bcd_missing'' \<or>
               (length bcds = 0 \<and> ts_Source (wt_Selection topo) \<noteq> SelectionNone)) \<and> length bcds = 0)
         [(CodeBCDStoreMissing, [], ev, True)])
      @ add_if (has_amb topo ''bcd_unreadable'') [(CodeBCDStoreUnreadable, bcds, ev, False)]
      @ add_if (1 \<le> length bcds \<and> length windows = 1 \<and> \<not> hasBCDForWindows topo (windows ! 0))
         [(CodeBCDMembershipUnknown, bcds @ windows, ev, True), (CodeBCDWindowsEntryMissing, bcds @ windows, ev, True)]
      @ add_if (0 < length unknown) [(CodeBCDPointsToUnknownInstallation, bcds @ points, ev, False)]
      @ add_if (hasBCDCrossDisk topo)
         [(CodeBCDCrossDiskMismatch, bcds @ disks, ev, False), (CodeUnsafeToAttemptBootRepair, bcds @ disks, ev, False)])"

definition bitlocker_drafts :: "WindowsBootTopology \<Rightarrow> add_call list" where
  "bitlocker_drafts topo =
     (let ev = topologyEvidenceRefs topo in
      (let tg = targetsForAmbiguity topo ''bitlocker_inaccessible'' in
       add_if (has_block topo ''bitlocker_inaccessible'' \<or> has_amb topo ''bitlocker_inaccessible'')
         [(CodeBitLockerLocked, tg, ev, False), (CodeBitLockerRecoveryMaterialRequired, tg, ev, False),
          (CodeBitLockerBlocksBootAnalysis, tg, ev, False)])
      @ (let tg = targetsForAmbiguity topo ''bitlocker_status_unknown'' in
         add_if (has_block topo ''bitlocker_status_unknown'' \<or> has_amb topo ''bitlocker_status_unknown'')
           [(CodeBitLockerStatusUnknown, tg, ev, True), (CodeBitLockerBlocksBootAnalysis, tg, ev, True)]))"

definition storage_drafts :: "WindowsBootTopology \<Rightarrow> add_call list" where
  "storage_drafts topo =
     (let ev = topologyEvidenceRefs topo; disks = candidatesByRole topo RoleSystemDisk in
      add_if (has_block topo ''storage_health_unsafe'' \<or> has_amb topo ''storage_health_unsafe'')
         [(CodeStorageHealthCritical, disks, ev, False), (CodeUnsafeToAttemptBootRepair, disks, ev, False)]
      @ add_if (has_amb topo ''storage_health_warning'') [(CodeStorageHealthWarning, disks, ev, False)]
      @ add_if (has_block topo ''storage_health_unknown'')
         (add_if (hasLimitation topo ''storage_health_unknown'' \<and> \<not> hasDriveHealthAmbiguity topo)
            [(CodeStorageEvidenceMissing, disks, ev, True)]
          @ [(CodeStorageHealthUnknown, disks, ev, True)]))"

definition incomplete_selection :: "WindowsBootTopology \<Rightarrow> bool" where
  "incomplete_selection topo \<longleftrightarrow>
     \<not> me_Eligible (wt_MutationEligibility topo) \<or> ts_Source (wt_Selection topo) = SelectionNone \<or>
     ts_WindowsTargetID (wt_Selection topo) = [] \<or> ts_WindowsPartitionTargetID (wt_Selection topo) = [] \<or>
     ts_SystemDiskTargetID (wt_Selection topo) = [] \<or> ts_ESPTargetID (wt_Selection topo) = []"

definition completeness_drafts :: "WindowsBootTopology \<Rightarrow> add_call list" where
  "completeness_drafts topo =
     (let ev = topologyEvidenceRefs topo; cands = candidateTargets topo; sel = selectedOrAll topo cands in
      add_if ((has_block topo ''technician_selection_required'' \<or> ts_Source (wt_Selection topo) = SelectionNone) \<and>
            \<not> me_Eligible (wt_MutationEligibility topo)) [(CodeTechnicianSelectionRequired, cands, ev, False)]
      @ add_if (has_block topo ''evidence_incomplete'' \<or> has_block topo ''relation_runtime_only'')
         [(CodeBootTopologyIncomplete, cands, ev, True), (CodeInsufficientEvidenceForRepairPlan, cands, ev, True)]
      @ add_if (has_block topo ''unsupported_layout'') [(CodeBootTopologyConflicting, cands, ev, False)]
      @ add_if (incomplete_selection topo)
         [(CodeBootTopologyIncomplete, sel, ev, True), (CodeInsufficientEvidenceForRepairPlan, sel, ev, True)])"

definition consistent_drafts :: "WindowsBootTopology \<Rightarrow> add_call list" where
  "consistent_drafts topo =
     add_if (me_Eligible (wt_MutationEligibility topo) \<and> ts_Source (wt_Selection topo) \<noteq> SelectionNone \<and>
           wt_FirmwareMode topo = FirmwareUEFI \<and> toSet (elems (me_Blockers (wt_MutationEligibility topo))) = {} \<and>
           \<not> hasConflictingAmbiguity topo)
       [(CodeBootTopologyConsistent, selectedTargets topo, topologyEvidenceRefs topo, False)]"

definition draft_calls :: "WindowsBootTopology \<Rightarrow> Target list \<Rightarrow> add_call list" where
  "draft_calls topo targets =
     firmware_drafts topo targets @ windows_drafts topo @ esp_drafts topo @ bcd_drafts topo
     @ bitlocker_drafts topo @ storage_drafts topo @ completeness_drafts topo @ consistent_drafts topo"

definition empty_draft :: draft where
  "empty_draft = \<lparr>dr_targets = [], dr_evidence = [], dr_extraLim = [], dr_insuff = False\<rparr>"

definition add_draft :: "string \<Rightarrow> (string \<times> draft) list \<Rightarrow> add_call \<Rightarrow> (string \<times> draft) list" where
  "add_draft topoEv out call =
     (case call of (code, targets, evidence, insuff) \<Rightarrow>
        if code = [] then out
        else (let ev = evidence @ (if topoEv \<noteq> [] then [topoEv] else []);
                  d = (case map_of out code of None \<Rightarrow> empty_draft | Some d \<Rightarrow> d) in
              AList.update code
                \<lparr>dr_targets = dr_targets d @ targets, dr_evidence = dr_evidence d @ ev,
                 dr_extraLim = dr_extraLim d, dr_insuff = dr_insuff d \<or> insuff\<rparr> out))"

definition collectDrafts :: "WindowsBootTopology \<Rightarrow> string \<Rightarrow> Target list \<Rightarrow> (string \<times> draft) list" where
  "collectDrafts topo topoEv targets = foldl (add_draft topoEv) [] (draft_calls topo targets)"

text \<open>The suppressed codes do not depend on the order in which the map is ranged over.\<close>

definition applySuppression :: "(string \<times> draft) list \<Rightarrow> (string \<times> draft) list" where
  "applySuppression codes =
     (let dropped = set (concat (map (\<lambda>(p, _). case map_of suppressWhenPresent p of None \<Rightarrow> [] | Some vs \<Rightarrow> vs) codes)) in
      filter (\<lambda>(c, _). c \<notin> dropped) codes)"

section \<open>Analysis\<close>

record Input =
  in_CaseID :: string
  in_Topology :: WindowsBootTopology
  in_TopologyEvidenceID :: string
  in_Targets :: "Target list"
  in_KnownEvidenceIDs :: "string list"
  in_KnownTargetIDs :: "string list"

definition refsExist :: "string \<Rightarrow> string list \<Rightarrow> string set \<Rightarrow> go_err" where
  "refsExist kind ids known =
     (if known = {} then None
      else each (\<lambda>_ i. err_if (i \<notin> known) (Errorf ''bootdoctor: finding references unknown %s %q'' [GStr kind, GStr i])) ids)"

definition finding_limitations :: "Input \<Rightarrow> string \<Rightarrow> draft \<Rightarrow> string list" where
  "finding_limitations i code d = uniqueSorted
     ([codeLimitPrefix @ code] @ dr_extraLim d
      @ [''analyzer='' @ analyzerID, ''analyzer_version='' @ analyzerVersion,
         ''topology_id='' @ wt_TopologyID (in_Topology i)]
      @ (if in_TopologyEvidenceID i \<noteq> [] then [''topology_evidence_id='' @ in_TopologyEvidenceID i] else []))"

text \<open>The body of the loop over the drafts.\<close>

definition finding_of :: "Input \<Rightarrow> string \<times> draft \<Rightarrow> Finding result" where
  "finding_of i cd =
     (case cd of (code, d) \<Rightarrow>
       (case map_of catalog code of
          None \<Rightarrow> Inl (Errorf ''bootdoctor: unknown finding code %q'' [GStr code])
        | Some spec \<Rightarrow>
           (let targets = uniqueSorted (dr_targets d); evidence = uniqueSorted (dr_evidence d) in
            check_then (refsExist ''target'' targets (toSet (in_KnownTargetIDs i)))
           (check_then (refsExist ''evidence'' evidence (toSet (in_KnownEvidenceIDs i)))
             (let f = \<lparr>fnd_SchemaName = SchemaFinding, fnd_SchemaVersion = SchemaVersion,
                       fnd_FindingID = findingIDFor (in_CaseID i) code targets evidence, fnd_CaseID = in_CaseID i,
                       fnd_Severity = cs_Severity spec, fnd_Confidence = cs_Confidence spec,
                       fnd_Title = cs_Title spec, fnd_Rationale = cs_Rationale spec,
                       fnd_EvidenceRefs = Some evidence, fnd_AffectedTargetIDs = Some targets,
                       fnd_RecommendedWorkflows = Some (cs_Workflows spec),
                       fnd_Limitations = Some (finding_limitations i code d),
                       fnd_InsufficientEvidence = dr_insuff d \<or> evidence = []\<rparr> in
              check_then (wrap_err (\<lambda>x. Errorf ''bootdoctor: finding %s: %w'' [GStr code, GWrap x]) (Finding_Validate f))
                (Inr f))))))"

fun findings_of :: "Input \<Rightarrow> (string \<times> draft) list \<Rightarrow> Finding list result" where
  "findings_of i [] = Inr []"
| "findings_of i (cd # cds) = bindE (finding_of i cd) (\<lambda>f. bindE (findings_of i cds) (\<lambda>fs. Inr (f # fs)))"

definition input_checks :: "Input \<Rightarrow> go_err" where
  "input_checks i =
     (let topo = in_Topology i; knownEv = toSet (in_KnownEvidenceIDs i) in first_err
     [err_if (blank (in_CaseID i)) (Errorf ''bootdoctor: case_id is required'' []),
      err_if (wt_CaseID topo \<noteq> [] \<and> wt_CaseID topo \<noteq> in_CaseID i) (Errorf ''bootdoctor: topology.case_id mismatch'' []),
      wrap_err (\<lambda>x. Errorf ''bootdoctor: topology: %w'' [GWrap x]) (WindowsBootTopology_Validate topo),
      err_if (in_TopologyEvidenceID i \<noteq> [] \<and> knownEv \<noteq> {} \<and> in_TopologyEvidenceID i \<notin> knownEv)
        (Errorf ''bootdoctor: topology evidence %q is not in known evidence set'' [GStr (in_TopologyEvidenceID i)])])"

definition Analyze :: "((string \<times> draft) list \<Rightarrow> (string \<times> draft) list) \<Rightarrow> Input \<Rightarrow> Finding list result" where
  "Analyze ord i =
     check_then (input_checks i)
       (let codes = applySuppression (collectDrafts (in_Topology i) (in_TopologyEvidenceID i) (in_Targets i)) in
        bindE (findings_of i (ord codes)) (\<lambda>fs. Inr (sort_key (\<lambda>f. [FindingCodeOf f, fnd_FindingID f]) fs)))"

end
