(* ===== verification/BootDoctorProofs.thy ===== *)
theory BootDoctorProofs
  imports BootDoctor "HOL-Library.Multiset"
begin

text \<open>
  Lemmas on the boot doctor: the codes and references of its drafts, the findings it builds from them
  and the order of its result.
\<close>

section \<open>Trimming\<close>

lemma strip_any_suffix: "\<exists>p. s = p @ strip_any rs s"
proof (induction rs s rule: strip_any.induct)
  case (1 rs s)
  show ?case
  proof (cases "List.find (\<lambda>r. r \<noteq> [] \<and> has_prefix r s) rs")
    case None
    then show ?thesis by (simp add: strip_any.simps)
  next
    case (Some r)
    then obtain p where "drop (length r) s = p @ strip_any rs (drop (length r) s)" using 1 by blast
    moreover have "strip_any rs s = strip_any rs (drop (length r) s)"
      using Some by (simp add: strip_any.simps [of rs s])
    ultimately have "s = (take (length r) s @ p) @ strip_any rs s"
      by (metis append.assoc append_take_drop_id)
    then show ?thesis by blast
  qed
qed

lemma trim_space_prefix:
  assumes "\<not> space_edge c"
  shows "\<exists>q. c # s = trim_space (c # s) @ q"
proof -
  have "\<forall>r \<in> set space_runes. r \<noteq> [] \<longrightarrow> hd r \<noteq> c"
    using assms unfolding space_edge_def set_map by (metis image_eqI)
  then have "strip_any space_runes (c # s) = c # s" by (rule strip_any_id)
  moreover obtain p where "rev (c # s) = p @ strip_any (map rev space_runes) (rev (c # s))"
    using strip_any_suffix by blast
  ultimately have "c # s = trim_space (c # s) @ rev p"
    unfolding trim_space_def by (metis rev_append rev_rev_ident)
  then show ?thesis by blast
qed

lemma trim_id_chars: "set s \<subseteq> set id_chars \<Longrightarrow> trim_space s = s"
proof (cases "s = []")
  case False
  moreover assume "set s \<subseteq> set id_chars"
  moreover have "hd s \<in> set s" "last s \<in> set s" using False by simp_all
  ultimately show ?thesis using id_chars_edge by (intro trim_space_id) blast+
qed simp

lemma re_run_id_chars:
  "re_run p cls lo hi s \<Longrightarrow> set p \<subseteq> set id_chars \<Longrightarrow> set cls \<subseteq> set id_chars \<Longrightarrow> trim_space s = s"
  by (rule trim_id_chars) (auto simp: re_run_iff subset_iff)

lemma trim_ids:
  "reTargetID s \<Longrightarrow> trim_space s = s" "reEvidenceID s \<Longrightarrow> trim_space s = s"
  unfolding re_defs
  by (erule re_run_id_chars; simp only: set_append Un_subset_iff id_classes id_literals; simp)+

lemma uniqueSorted_set: "set (uniqueSorted vs) = trim_space ` set vs - {[]}"
  by (auto simp: uniqueSorted_def)

lemma uniqueSorted_facts [simp]: "sorted (uniqueSorted vs)" "distinct (uniqueSorted vs)"
  by (simp_all add: uniqueSorted_def)

text \<open>On a list of identifiers \<open>uniqueSorted\<close> keeps the set.\<close>

lemma uniqueSorted_ids:
  assumes "\<forall>v \<in> set vs. v \<noteq> [] \<longrightarrow> trim_space v = v"
  shows "set (uniqueSorted vs) = set vs - {[]}"
proof -
  have "trim_space ` set vs - {[]} = set vs - {[]}"
  proof (rule set_eqI)
    fix x
    show "x \<in> trim_space ` set vs - {[]} \<longleftrightarrow> x \<in> set vs - {[]}"
      using assms by (auto simp: image_iff) (metis blank_Nil)
  qed
  then show ?thesis by (simp add: uniqueSorted_set)
qed

section \<open>The codes of the catalog\<close>

definition known_code :: "string \<Rightarrow> bool" where
  "known_code c \<longleftrightarrow> map_of catalog c \<noteq> None \<and> c \<noteq> []"

text \<open>The codes of the calls, those of the last section and of the unsafe cases apart.\<close>

definition other_codes :: "string list" where
  "other_codes = [CodeFirmwareModeUnknown, CodeFirmwareModeConflicting, CodeUEFIWithMBRSystemDisk, CodeLegacyWithGPTLayout,
   CodeUnsupportedLegacyBootTopology, CodeWindowsInstallationMissing, CodeMultipleWindowsInstallations,
   CodeWindowsInstallationAmbiguous, CodeWindowsPartitionRelationUnknown, CodeWindowsSystemDiskRelationUnknown,
   CodeWindowsInstallationIncomplete, CodeEFISystemPartitionMissing, CodeMultipleEFISystemPartitions,
   CodeEFISystemPartitionAmbiguous, CodeEFISystemPartitionCrossDisk, CodeEFISystemPartitionRelationUnknown,
   CodeEFISystemPartitionUnreadable, CodeBCDStoreMissing, CodeBCDStoreAmbiguous, CodeBCDStoreUnreadable,
   CodeBCDMembershipUnknown, CodeBCDWindowsEntryMissing, CodeBCDPointsToUnknownInstallation,
   CodeBCDCrossDiskMismatch, CodeBitLockerLocked, CodeBitLockerStatusUnknown,
   CodeBitLockerRecoveryMaterialRequired, CodeBitLockerBlocksBootAnalysis, CodeStorageHealthCritical,
   CodeStorageHealthWarning, CodeStorageHealthUnknown, CodeStorageEvidenceMissing, CodeBootTopologyIncomplete, CodeBootTopologyAmbiguous, CodeBootTopologyConflicting,
   CodeInsufficientEvidenceForRepairPlan, CodeTechnicianSelectionRequired]"

lemma known_codes: "list_all known_code other_codes" "known_code CodeUnsafeToAttemptBootRepair"
    "known_code CodeBootTopologyConsistent"
  by code_simp+

lemma code_differs: "list_all (\<lambda>c. c \<noteq> CodeUnsafeToAttemptBootRepair \<and> c \<noteq> CodeBootTopologyConsistent) other_codes"
    "CodeUnsafeToAttemptBootRepair \<noteq> CodeBootTopologyConsistent"
  by code_simp+

lemmas known_code_each = known_codes [unfolded other_codes_def list.pred_inject simp_thms]

lemma known_code_spec:
  assumes "known_code c"
  obtains s where "map_of catalog c = Some s" "spec_ok s" "re_head_run lower_az (lower_az @ digits10 @ ''_'') 1 127 c"
proof -
  obtain s where s: "map_of catalog c = Some s" using assms by (auto simp: known_code_def)
  then have "(c, s) \<in> set catalog" by (rule map_of_SomeD)
  then have "spec_ok s" "re_head_run lower_az (lower_az @ digits10 @ ''_'') 1 127 c"
    using catalog_ok code_chars by (auto simp: list_all_iff)
  with s show ?thesis by (rule that)
qed

section \<open>What the drafts refer to\<close>

definition topology_targets :: "WindowsBootTopology \<Rightarrow> string set" where
  "topology_targets t =
     tc_TargetID ` set (elems (wt_Candidates t)) \<union> tr_FromTargetID ` set (elems (wt_Relations t))
     \<union> tr_ToTargetID ` set (elems (wt_Relations t)) \<union> (\<Union>a \<in> set (elems (wt_Ambiguities t)). set (elems (ta_TargetIDs a)))
     \<union> (set (selected_ids (wt_Selection t)) - {[]})"

definition topology_evidence :: "WindowsBootTopology \<Rightarrow> string set" where
  "topology_evidence t =
     (\<Union>c \<in> set (elems (wt_Candidates t)). set (elems (tc_EvidenceRefs c)))
     \<union> (\<Union>r \<in> set (elems (wt_Relations t)). set (elems (tr_EvidenceRefs r)))
     \<union> (\<Union>a \<in> set (elems (wt_Ambiguities t)). set (elems (ta_EvidenceRefs a)))"

lemma valid_topology_ids:
  assumes "WindowsBootTopology_Validate t = None"
  shows "\<forall>x \<in> topology_targets t. reTargetID x" "\<forall>x \<in> topology_evidence t. reEvidenceID x"
    "reTopologyID (wt_TopologyID t)" "reCaseID (wt_CaseID t)"
    "elems (me_Blockers (wt_MutationEligibility t)) \<noteq> [] \<longrightarrow> \<not> me_Eligible (wt_MutationEligibility t)"
proof -
  have parts: "\<forall>c \<in> set (elems (wt_Candidates t)). TopologyCandidate_Validate c = None"
    "\<forall>r \<in> set (elems (wt_Relations t)). TopologyRelation_Validate r = None"
    "\<forall>a \<in> set (elems (wt_Ambiguities t)). TopologyAmbiguity_Validate a = None"
    "TopologySelection_Validate (wt_Selection t) = None"
    "MutationEligibility_Validate (wt_MutationEligibility t) = None"
    "reTopologyID (wt_TopologyID t)" "reCaseID (wt_CaseID t)"
    using assms by (simp_all add: WindowsBootTopology_Validate_def)
  have sel: "\<forall>d \<in> set (selected_ids (wt_Selection t)). d \<noteq> [] \<longrightarrow> reTargetID d"
  proof (intro ballI impI)
    fix d assume d: "d \<in> set (selected_ids (wt_Selection t))" "d \<noteq> []"
    have "\<forall>d \<in> set (selected_ids (wt_Selection t)).
        (if d = [] then None else requireMatch ''selection_target_id'' d reTargetID) = None"
      using parts(4) by (simp add: TopologySelection_Validate_def)
    from bspec [OF this d(1)] show "reTargetID d" using d(2) by simp
  qed
  show "\<forall>x \<in> topology_targets t. reTargetID x"
    using parts(1-3) sel unfolding topology_targets_def
    by (fastforce simp: TopologyCandidate_Validate_def TopologyRelation_Validate_def TopologyAmbiguity_Validate_def
         requireUniqueIDList_None)
  show "\<forall>x \<in> topology_evidence t. reEvidenceID x"
    using parts(1-3) unfolding topology_evidence_def
    by (fastforce simp: TopologyCandidate_Validate_def TopologyRelation_Validate_def TopologyAmbiguity_Validate_def
         requireUniqueIDList_None)
  show "reTopologyID (wt_TopologyID t)" "reCaseID (wt_CaseID t)" by (fact parts)+
  show "elems (me_Blockers (wt_MutationEligibility t)) \<noteq> [] \<longrightarrow> \<not> me_Eligible (wt_MutationEligibility t)"
    using parts(5) by (auto simp: MutationEligibility_Validate_iff)
qed

lemma uniqueSorted_targets:
  assumes "\<forall>x \<in> topology_targets t. reTargetID x" "set vs - {[]} \<subseteq> topology_targets t"
  shows "set (uniqueSorted vs) \<subseteq> topology_targets t"
proof -
  have "\<forall>v \<in> set vs. v \<noteq> [] \<longrightarrow> trim_space v = v" using assms trim_ids by blast
  then show ?thesis using assms(2) by (simp add: uniqueSorted_ids)
qed

lemma uniqueSorted_evidence:
  assumes "\<forall>x \<in> topology_evidence t. reEvidenceID x" "set vs - {[]} \<subseteq> topology_evidence t"
  shows "set (uniqueSorted vs) \<subseteq> topology_evidence t"
proof -
  have "\<forall>v \<in> set vs. v \<noteq> [] \<longrightarrow> trim_space v = v" using assms trim_ids by blast
  then show ?thesis using assms(2) by (simp add: uniqueSorted_ids)
qed

text \<open>The lists of targets and evidence the drafts are made of.\<close>

lemma target_lists:
  assumes "\<forall>x \<in> topology_targets t. reTargetID x"
  shows "set (candidatesByRole t role) \<subseteq> topology_targets t" "set (candidateTargets t) \<subseteq> topology_targets t"
    "set (firmwareTargets t) \<subseteq> topology_targets t" "set (targetsForAmbiguity t code) \<subseteq> topology_targets t"
    "set (selectedTargets t) \<subseteq> topology_targets t" "bcdUnknownWindows t ws = (ps, us) \<Longrightarrow> set ps \<subseteq> topology_targets t"
    "set (selectedOrAll t (candidateTargets t)) \<subseteq> topology_targets t"
proof -
  note sub = uniqueSorted_targets [OF assms]
  show role: "set (candidatesByRole t role) \<subseteq> topology_targets t" for role
    unfolding candidatesByRole_def by (rule sub) (auto simp: topology_targets_def)
  show cands: "set (candidateTargets t) \<subseteq> topology_targets t"
    unfolding candidateTargets_def by (rule sub) (auto simp: topology_targets_def)
  show "set (firmwareTargets t) \<subseteq> topology_targets t"
    unfolding firmwareTargets_def by (rule role)
  show "set (targetsForAmbiguity t code) \<subseteq> topology_targets t"
    unfolding targetsForAmbiguity_def by (rule sub) (auto simp: topology_targets_def)
  show sel: "set (selectedTargets t) \<subseteq> topology_targets t"
    unfolding selectedTargets_def by (rule sub) (auto simp: topology_targets_def selected_ids_def)
  show "set ps \<subseteq> topology_targets t" if "bcdUnknownWindows t ws = (ps, us)"
  proof -
    have "ps = uniqueSorted (concat (map (\<lambda>r. [tr_FromTargetID r, tr_ToTargetID r])
        (filter (\<lambda>r. tr_RelationType r = RelationBootStoreForWindows) (elems (wt_Relations t)))))"
      using that by (simp add: bcdUnknownWindows_def Let_def)
    then show ?thesis by (simp only:) (rule sub, auto simp: topology_targets_def)
  qed
  show "set (selectedOrAll t (candidateTargets t)) \<subseteq> topology_targets t"
    unfolding selectedOrAll_def Let_def using sel cands by simp
qed

lemma evidence_list:
  assumes "\<forall>x \<in> topology_evidence t. reEvidenceID x"
  shows "set (topologyEvidenceRefs t) \<subseteq> topology_evidence t"
  unfolding topologyEvidenceRefs_def by (rule uniqueSorted_evidence [OF assms]) (auto simp: topology_evidence_def)

definition call_ok :: "WindowsBootTopology \<Rightarrow> add_call \<Rightarrow> bool" where
  "call_ok t c \<longleftrightarrow> known_code (fst c) \<and> set (fst (snd c)) \<subseteq> topology_targets t \<and>
     fst (snd (snd c)) = topologyEvidenceRefs t"

lemma add_if_ok [simp]: "(\<forall>c \<in> set (add_if b cs). P c) \<longleftrightarrow> (b \<longrightarrow> (\<forall>c \<in> set cs. P c))"
  unfolding add_if_def by (cases b) simp_all

lemma set_add_if [simp]: "set (add_if b cs) = (if b then set cs else {})"
  by (simp add: add_if_def)

lemma draft_calls_ok:
  assumes "\<forall>x \<in> topology_targets t. reTargetID x"
  shows "\<forall>c \<in> set (draft_calls t ts). call_ok t c"
proof -
  note facts = target_lists [OF assms] known_code_each
  have "\<forall>c \<in> set (firmware_drafts t ts). call_ok t c"
    unfolding firmware_drafts_def Let_def using facts by (simp add: call_ok_def ball_Un)
  moreover have "\<forall>c \<in> set (windows_drafts t). call_ok t c"
    unfolding windows_drafts_def Let_def using facts by (simp add: call_ok_def ball_Un)
  moreover have "\<forall>c \<in> set (esp_drafts t). call_ok t c"
    unfolding esp_drafts_def Let_def using facts by (simp add: call_ok_def ball_Un)
  moreover have "\<forall>c \<in> set (bcd_drafts t). call_ok t c"
    unfolding bcd_drafts_def Let_def using facts
    by (cases "bcdUnknownWindows t (toSet (candidatesByRole t RoleWindowsInstallation))") (simp add: call_ok_def ball_Un)
  moreover have "\<forall>c \<in> set (bitlocker_drafts t). call_ok t c"
    unfolding bitlocker_drafts_def Let_def using facts by (simp add: call_ok_def ball_Un)
  moreover have "\<forall>c \<in> set (storage_drafts t). call_ok t c"
    unfolding storage_drafts_def Let_def using facts by (simp add: call_ok_def ball_Un)
  moreover have "\<forall>c \<in> set (completeness_drafts t). call_ok t c"
    unfolding completeness_drafts_def Let_def using facts by (simp add: call_ok_def ball_Un)
  moreover have "\<forall>c \<in> set (consistent_drafts t). call_ok t c"
    unfolding consistent_drafts_def Let_def using facts by (simp add: call_ok_def ball_Un)
  ultimately show ?thesis unfolding draft_calls_def by auto
qed

text \<open>
  What holds of the code of every call: of the ordinary codes always, of the two others if they hold it
  or their conditions do not arise.
\<close>

definition unsafe_conditions :: "WindowsBootTopology \<Rightarrow> bool" where
  "unsafe_conditions t \<longleftrightarrow> has_amb t ''esp_cross_disk'' \<or> hasCrossDiskESP t \<or> hasBCDCrossDisk t \<or>
     has_block t ''storage_health_unsafe'' \<or> has_amb t ''storage_health_unsafe''"

lemma drafted_code:
  assumes others: "list_all P other_codes" and unsafe: "unsafe_conditions t \<longrightarrow> P CodeUnsafeToAttemptBootRepair"
    and consistent: "consistent_drafts t = [] \<or> P CodeBootTopologyConsistent"
  shows "\<forall>c \<in> set (draft_calls t ts). P (fst c)"
proof -
  note facts = others [unfolded other_codes_def list.pred_inject simp_thms] unsafe [unfolded unsafe_conditions_def]
  have "\<forall>c \<in> set (firmware_drafts t ts). P (fst c)"
    unfolding firmware_drafts_def Let_def using facts by (simp add: ball_Un)
  moreover have "\<forall>c \<in> set (windows_drafts t). P (fst c)"
    unfolding windows_drafts_def Let_def using facts by (simp add: ball_Un)
  moreover have "\<forall>c \<in> set (esp_drafts t). P (fst c)"
    unfolding esp_drafts_def Let_def using facts by (auto simp: ball_Un)
  moreover have "\<forall>c \<in> set (bcd_drafts t). P (fst c)"
    unfolding bcd_drafts_def Let_def using facts
    by (cases "bcdUnknownWindows t (toSet (candidatesByRole t RoleWindowsInstallation))") (auto simp: ball_Un)
  moreover have "\<forall>c \<in> set (bitlocker_drafts t). P (fst c)"
    unfolding bitlocker_drafts_def Let_def using facts by (simp add: ball_Un)
  moreover have "\<forall>c \<in> set (storage_drafts t). P (fst c)"
    unfolding storage_drafts_def Let_def using facts by (auto simp: ball_Un)
  moreover have "\<forall>c \<in> set (completeness_drafts t). P (fst c)"
    unfolding completeness_drafts_def Let_def using facts by (simp add: ball_Un)
  moreover have "\<forall>c \<in> set (consistent_drafts t). P (fst c)"
    using consistent by (auto simp: consistent_drafts_def Let_def add_if_def)
  ultimately show ?thesis unfolding draft_calls_def by auto
qed

lemma only_consistent_drafts:
  assumes "CodeBootTopologyConsistent \<in> fst ` set (draft_calls t ts)"
  shows "consistent_drafts t \<noteq> []"
proof
  assume "consistent_drafts t = []"
  then have "\<forall>c \<in> set (draft_calls t ts). fst c \<noteq> CodeBootTopologyConsistent"
    using code_differs by (intro drafted_code) (auto simp: list_all_iff)
  then show False using assms by auto
qed

lemma draft_sections:
  "set (esp_drafts t) \<subseteq> set (draft_calls t ts)" "set (bcd_drafts t) \<subseteq> set (draft_calls t ts)"
  "set (storage_drafts t) \<subseteq> set (draft_calls t ts)" "set (completeness_drafts t) \<subseteq> set (draft_calls t ts)"
  "set (firmware_drafts t ts) \<subseteq> set (draft_calls t ts)" "set (consistent_drafts t) \<subseteq> set (draft_calls t ts)"
  unfolding draft_calls_def by auto

lemma drafted_call: "code \<in> fst ` set sec \<Longrightarrow> set sec \<subseteq> set calls \<Longrightarrow> code \<in> fst ` set calls"
  by (meson image_mono subsetD)

lemma code_add_if [simp]: "code \<in> fst ` set (add_if b cs) \<longleftrightarrow> b \<and> code \<in> fst ` set cs"
  by simp

lemma cross_disk_drafts:
  "has_amb t ''esp_cross_disk'' \<or> hasCrossDiskESP t \<Longrightarrow> CodeEFISystemPartitionCrossDisk \<in> fst ` set (draft_calls t ts)"
  by (rule drafted_call [OF _ draft_sections(1)]) (simp add: esp_drafts_def Let_def image_Un del: set_add_if)

lemma bcd_mismatch_drafts:
  "hasBCDCrossDisk t \<Longrightarrow> CodeBCDCrossDiskMismatch \<in> fst ` set (draft_calls t ts)"
  by (rule drafted_call [OF _ draft_sections(2)],
      cases "bcdUnknownWindows t (toSet (candidatesByRole t RoleWindowsInstallation))")
     (simp add: bcd_drafts_def Let_def image_Un del: set_add_if)

lemma storage_critical_drafts:
  "has_block t ''storage_health_unsafe'' \<or> has_amb t ''storage_health_unsafe'' \<Longrightarrow>
     CodeStorageHealthCritical \<in> fst ` set (draft_calls t ts)"
  by (rule drafted_call [OF _ draft_sections(3)]) (simp add: storage_drafts_def Let_def image_Un del: set_add_if)

lemma unsafe_drafts:
  assumes "CodeUnsafeToAttemptBootRepair \<in> fst ` set (draft_calls t ts)"
  shows "CodeEFISystemPartitionCrossDisk \<in> fst ` set (draft_calls t ts) \<or>
    CodeBCDCrossDiskMismatch \<in> fst ` set (draft_calls t ts) \<or> CodeStorageHealthCritical \<in> fst ` set (draft_calls t ts)"
proof (rule ccontr)
  assume none: "\<not> ?thesis"
  have "\<not> unsafe_conditions t" using cross_disk_drafts [of t ts] bcd_mismatch_drafts [of t ts] storage_critical_drafts [of t ts] none
    unfolding unsafe_conditions_def by blast
  then have "\<forall>c \<in> set (draft_calls t ts). fst c \<noteq> CodeUnsafeToAttemptBootRepair"
    using code_differs by (intro drafted_code) (auto simp: list_all_iff)
  then show False using assms by auto
qed

section \<open>The map of drafts\<close>

definition draft_ok :: "WindowsBootTopology \<Rightarrow> string \<Rightarrow> string \<times> draft \<Rightarrow> bool" where
  "draft_ok t topoEv cd \<longleftrightarrow> known_code (fst cd) \<and> set (dr_targets (snd cd)) \<subseteq> topology_targets t \<and>
     set (dr_evidence (snd cd)) = set (topologyEvidenceRefs t) \<union> (if topoEv = [] then {} else {topoEv}) \<and>
     dr_extraLim (snd cd) = []"

lemma set_update_subset: "set (AList.update k v xs) \<subseteq> insert (k, v) (set xs)"
  by (induction xs) auto

lemma add_draft_ok:
  assumes "call_ok t call" "\<forall>cd \<in> set out. draft_ok t topoEv cd"
  shows "\<forall>cd \<in> set (add_draft topoEv out call). draft_ok t topoEv cd"
proof -
  obtain code ts ev b where call: "call = (code, ts, ev, b)" by (cases call)
  have old: "draft_ok t topoEv (code, d)" if "map_of out code = Some d" for d
    using assms(2) map_of_SomeD [OF that] by blast
  show ?thesis
    using assms old
    by (cases "map_of out code")
       (auto simp: call add_draft_def call_ok_def draft_ok_def empty_draft_def known_code_def Let_def
         dest!: subsetD [OF set_update_subset])
qed

lemma update_codes: "fst ` set (AList.update k v xs) = insert k (fst ` set xs)"
  by (simp add: update_conv' flip: dom_map_of_conv_image_fst)

lemma add_draft_codes:
  "fst ` set (add_draft topoEv out call) = fst ` set out \<union> (if fst call = [] then {} else {fst call})"
  by (cases call) (simp add: add_draft_def Let_def update_codes)

lemma collectDrafts_facts:
  assumes "\<forall>x \<in> topology_targets t. reTargetID x"
  shows "\<forall>cd \<in> set (collectDrafts t topoEv ts). draft_ok t topoEv cd"
    "distinct (map fst (collectDrafts t topoEv ts))"
    "fst ` set (collectDrafts t topoEv ts) = fst ` set (draft_calls t ts)"
proof -
  have ok: "\<forall>c \<in> set (draft_calls t ts). call_ok t c" by (rule draft_calls_ok [OF assms])
  have "(\<forall>cd \<in> set out. draft_ok t topoEv cd) \<Longrightarrow> \<forall>c \<in> set calls. call_ok t c \<Longrightarrow>
      \<forall>cd \<in> set (foldl (add_draft topoEv) out calls). draft_ok t topoEv cd" for calls out
  proof (induction calls arbitrary: out)
    case (Cons c cs)
    then have "call_ok t c" "\<forall>c \<in> set cs. call_ok t c" by simp_all
    then show ?case using Cons.IH [OF add_draft_ok [OF _ Cons.prems(1)]] by simp
  qed simp
  from this [of "[]" "draft_calls t ts"] show "\<forall>cd \<in> set (collectDrafts t topoEv ts). draft_ok t topoEv cd"
    unfolding collectDrafts_def using ok by simp
  have "distinct (map fst out) \<Longrightarrow> distinct (map fst (foldl (add_draft topoEv) out calls))" for calls out
    by (induction calls arbitrary: out) (auto simp: add_draft_def Let_def distinct_update split: prod.splits)
  from this [of "[]"] show "distinct (map fst (collectDrafts t topoEv ts))"
    unfolding collectDrafts_def by simp
  have "\<forall>c \<in> set calls. call_ok t c \<Longrightarrow>
      fst ` set (foldl (add_draft topoEv) out calls) = fst ` set out \<union> fst ` set calls" for calls out
    by (induction calls arbitrary: out) (auto simp: add_draft_codes call_ok_def known_code_def)
  from this [of "draft_calls t ts" "[]"] show "fst ` set (collectDrafts t topoEv ts) = fst ` set (draft_calls t ts)"
    unfolding collectDrafts_def using ok by simp
qed

section \<open>Findings\<close>

lemma find_only: "x \<in> set xs \<Longrightarrow> P x \<Longrightarrow> \<forall>y \<in> set xs. P y \<longrightarrow> y = x \<Longrightarrow> List.find P xs = Some x"
proof (induction xs)
  case (Cons a xs)
  show ?case
  proof (cases "P a")
    case True
    then have "a = x" using Cons.prems(3) by (meson list.set_intros(1))
    then show ?thesis using True by simp
  next
    case False
    then have "x \<in> set xs" using Cons.prems(1,2) by (metis set_ConsD)
    then have "List.find P xs = Some x" using Cons.prems(2,3) by (intro Cons.IH) (meson list.set_intros(2))+
    then show ?thesis using False by simp
  qed
qed simp

lemma code_limit_trim:
  assumes "known_code code"
  shows "trim_space (codeLimitPrefix @ code) = codeLimitPrefix @ code"
proof (rule trim_space_id)
  obtain s where s: "re_head_run lower_az (lower_az @ digits10 @ ''_'') 1 127 code"
    using assms by (rule known_code_spec)
  then have "set code \<subseteq> set id_chars"
    using id_classes id_literals by (auto simp: re_head_run_def re_run_iff subset_iff split: list.splits)
  moreover have ne: "code \<noteq> []" using assms by (simp add: known_code_def)
  ultimately have "last code \<in> set id_chars" using last_in_set by blast
  then show "\<not> space_edge (last (codeLimitPrefix @ code))"
    using ne by (simp add: id_chars_edge)
  show "\<not> space_edge (hd (codeLimitPrefix @ code))"
    by (simp add: codeLimitPrefix_def id_chars_edge id_chars_def lower_az_def)
qed (simp add: codeLimitPrefix_def)

text \<open>An entry of another kind is not mistaken for the code, even after it is trimmed.\<close>

lemma other_limit:
  assumes "c \<in> set lower_az" "c \<noteq> CHR ''f''"
  shows "\<not> has_prefix codeLimitPrefix (trim_space (c # s))"
proof
  assume "has_prefix codeLimitPrefix (trim_space (c # s))"
  then obtain r where r: "trim_space (c # s) = codeLimitPrefix @ r" by (auto simp: has_prefix_iff)
  have "\<not> space_edge c" using assms(1) id_classes id_chars_edge by blast
  then obtain q where "c # s = trim_space (c # s) @ q" using trim_space_prefix by blast
  then have "c # s = codeLimitPrefix @ r @ q" using r by simp
  then show False using assms(2) by (simp add: codeLimitPrefix_def)
qed

lemma finding_code_of_limits:
  assumes "known_code code" "dr_extraLim d = []" "fnd_Limitations f = Some (finding_limitations i code d)"
  shows "FindingCodeOf f = code"
proof -
  let ?rest = "[''analyzer='' @ analyzerID, ''analyzer_version='' @ analyzerVersion, ''topology_id='' @ wt_TopologyID (in_Topology i)]
      @ (if in_TopologyEvidenceID i \<noteq> [] then [''topology_evidence_id='' @ in_TopologyEvidenceID i] else [])"
  have set: "set (finding_limitations i code d) = insert (codeLimitPrefix @ code) (trim_space ` set ?rest) - {[]}"
    unfolding finding_limitations_def uniqueSorted_set using assms(2) code_limit_trim [OF assms(1)] by simp
  have "\<forall>y \<in> trim_space ` set ?rest. \<not> has_prefix codeLimitPrefix y"
    using other_limit [of "CHR ''a''" "''nalyzer='' @ analyzerID"]
      other_limit [of "CHR ''a''" "''nalyzer_version='' @ analyzerVersion"]
      other_limit [of "CHR ''t''" "''opology_id='' @ wt_TopologyID (in_Topology i)"]
      other_limit [of "CHR ''t''" "''opology_evidence_id='' @ in_TopologyEvidenceID i"]
    by (simp add: lower_az_def)
  moreover have "codeLimitPrefix @ code \<noteq> []" by (simp add: codeLimitPrefix_def)
  ultimately have "List.find (has_prefix codeLimitPrefix) (finding_limitations i code d) = Some (codeLimitPrefix @ code)"
    unfolding set by (intro find_only) (auto simp: set)
  then show ?thesis by (simp add: FindingCodeOf_def assms(3))
qed

lemma refsExist_None: "refsExist kind ids known = None \<longleftrightarrow> known = {} \<or> set ids \<subseteq> known"
  by (auto simp: refsExist_def)

lemma findingIDFor_valid: "reFindingID (findingIDFor caseID code ts ev)"
  unfolding findingIDFor_def reFindingID_def sha256Hex_def [symmetric] by (rule re_id24_digest)

lemma finding_of_Inr:
  assumes "finding_of i (code, d) = Inr f"
  shows "Finding_Validate f = None" "fnd_CaseID f = in_CaseID i"
    "fnd_EvidenceRefs f = Some (uniqueSorted (dr_evidence d))" "fnd_AffectedTargetIDs f = Some (uniqueSorted (dr_targets d))"
    "fnd_Limitations f = Some (finding_limitations i code d)"
    "\<exists>spec. map_of catalog code = Some spec \<and> fnd_Severity f = cs_Severity spec"
    "fnd_InsufficientEvidence f \<longleftrightarrow> dr_insuff d \<or> uniqueSorted (dr_evidence d) = []"
    "toSet (in_KnownTargetIDs i) = {} \<or> set (uniqueSorted (dr_targets d)) \<subseteq> toSet (in_KnownTargetIDs i)"
    "toSet (in_KnownEvidenceIDs i) = {} \<or> set (uniqueSorted (dr_evidence d)) \<subseteq> toSet (in_KnownEvidenceIDs i)"
  using assms by (auto simp: finding_of_def Let_def refsExist_None split: option.splits)

lemma findings_of_Inr:
  "findings_of i cds = Inr fs \<longleftrightarrow>
     (\<forall>cd \<in> set cds. \<exists>f. finding_of i cd = Inr f) \<and> fs = map (\<lambda>cd. projr (finding_of i cd)) cds"
  by (induction cds arbitrary: fs) auto

end
