(* ===== verification/BootDoctorProperties.thy ===== *)
theory BootDoctorProperties
  imports BootDoctorProofs ExampleCase
begin

text \<open>
  What the boot doctor promises: its findings are valid, refer only to what the case knows and do not
  depend on the order in which Go ranges over a map; a topology that is not eligible is always reported,
  and a topology is called consistent only when nothing critical was found.
\<close>

section \<open>The findings of one analysis\<close>

text \<open>The drafts Go ranges over; \<open>ranges ord\<close> says that \<open>ord\<close> visits each entry of a map once.\<close>

definition kept_drafts :: "Input \<Rightarrow> (string \<times> draft) list" where
  "kept_drafts i = applySuppression (collectDrafts (in_Topology i) (in_TopologyEvidenceID i) (in_Targets i))"

definition drafted :: "Input \<Rightarrow> string set" where
  "drafted i = fst ` set (draft_calls (in_Topology i) (in_Targets i))"

definition ranges :: "((string \<times> draft) list \<Rightarrow> (string \<times> draft) list) \<Rightarrow> bool" where
  "ranges ord \<longleftrightarrow> (\<forall>xs. mset (ord xs) = mset xs)"

definition victims :: "string \<Rightarrow> string set" where
  "victims p = (case map_of suppressWhenPresent p of None \<Rightarrow> {} | Some vs \<Rightarrow> set vs)"

abbreviation result_order :: "Finding \<Rightarrow> string list" where
  "result_order f \<equiv> [FindingCodeOf f, fnd_FindingID f]"

definition input_valid :: "Input \<Rightarrow> bool" where
  "input_valid i \<longleftrightarrow> WindowsBootTopology_Validate (in_Topology i) = None \<and> wt_CaseID (in_Topology i) = in_CaseID i"

lemma input_checks_valid: "input_checks i = None \<Longrightarrow> input_valid i"
  using valid_topology_ids(4) [of "in_Topology i"]
  by (auto simp: input_checks_def Let_def input_valid_def dest: re_not_blank)

lemma kept_facts:
  assumes "input_valid i"
  shows "\<forall>cd \<in> set (kept_drafts i). draft_ok (in_Topology i) (in_TopologyEvidenceID i) cd"
    "distinct (map fst (kept_drafts i))"
    "fst ` set (kept_drafts i) = {c \<in> drafted i. \<forall>p \<in> drafted i. c \<notin> victims p}"
proof -
  have ids: "\<forall>x \<in> topology_targets (in_Topology i). reTargetID x"
    using assms valid_topology_ids unfolding input_valid_def by blast
  let ?ds = "collectDrafts (in_Topology i) (in_TopologyEvidenceID i) (in_Targets i)"
  note facts = collectDrafts_facts [OF ids, of "in_TopologyEvidenceID i" "in_Targets i"]
  show "\<forall>cd \<in> set (kept_drafts i). draft_ok (in_Topology i) (in_TopologyEvidenceID i) cd"
    using facts(1) by (auto simp: kept_drafts_def applySuppression_def Let_def)
  show "distinct (map fst (kept_drafts i))"
    using facts(2) by (simp add: kept_drafts_def applySuppression_def Let_def distinct_map_filter)
  have "set (concat (map (\<lambda>(p, _). case map_of suppressWhenPresent p of None \<Rightarrow> [] | Some vs \<Rightarrow> vs) ds)) =
      (\<Union>p \<in> fst ` set ds. victims p)" for ds :: "(string \<times> draft) list"
    by (induction ds) (auto simp: victims_def split: option.splits)
  note drop = this [of ?ds]
  have codes: "fst ` set ?ds = drafted i" using facts(3) by (simp add: drafted_def)
  show "fst ` set (kept_drafts i) = {c \<in> drafted i. \<forall>p \<in> drafted i. c \<notin> victims p}"
    unfolding kept_drafts_def applySuppression_def Let_def drop codes [symmetric] by force
qed

lemma ranges_set: "ranges ord \<Longrightarrow> set (ord xs) = set xs"
  unfolding ranges_def by (metis set_mset_mset)

lemma ranges_distinct: "ranges ord \<Longrightarrow> distinct (map fst xs) \<Longrightarrow> distinct (map fst (ord xs))"
  unfolding ranges_def by (metis mset_map mset_eq_imp_distinct_iff)

lemma built_code:
  assumes "input_valid i" "cd \<in> set (kept_drafts i)" "finding_of i cd = Inr f"
  shows "FindingCodeOf f = fst cd"
proof (cases cd)
  case (Pair code d)
  then have "known_code code" "dr_extraLim d = []"
    using kept_facts(1) [OF assms(1)] assms(2) by (auto simp: draft_ok_def)
  then show ?thesis using finding_code_of_limits finding_of_Inr(5) assms(3) Pair by simp
qed

lemma head_le: "[a, b] \<le> [c, d] \<Longrightarrow> a \<le> (c :: string)"
  by (auto simp: Cons_le_Cons)

lemma inj_on_pair_key: "inj_on g A \<Longrightarrow> inj_on (\<lambda>x. [g x, h x]) A"
  by (rule inj_onI) (simp add: inj_on_def)

text \<open>The result: one finding for each kept draft, in the order of the codes.\<close>

lemma Analyze_result:
  assumes "ranges ord" "Analyze ord i = Inr fs"
  shows "input_valid i" "\<forall>cd \<in> set (kept_drafts i). \<exists>f \<in> set fs. finding_of i cd = Inr f"
    "\<forall>f \<in> set fs. \<exists>cd \<in> set (kept_drafts i). finding_of i cd = Inr f"
    "map FindingCodeOf fs = sort (map fst (kept_drafts i))"
proof -
  obtain gs where checks: "input_checks i = None" and gs: "findings_of i (ord (kept_drafts i)) = Inr gs"
    and fs: "fs = sort_key result_order gs"
    using assms(2) by (auto simp: Analyze_def Let_def kept_drafts_def)
  show valid: "input_valid i" using checks by (rule input_checks_valid)
  have built: "\<forall>cd \<in> set (kept_drafts i). \<exists>f. finding_of i cd = Inr f"
    and gs_map: "gs = map (\<lambda>cd. projr (finding_of i cd)) (ord (kept_drafts i))"
    using gs ranges_set [OF assms(1), of "kept_drafts i"] by (auto simp: findings_of_Inr)
  have fs_set: "set fs = (\<lambda>cd. projr (finding_of i cd)) ` set (kept_drafts i)"
    unfolding fs gs_map using ranges_set [OF assms(1), of "kept_drafts i"] by simp
  show "\<forall>cd \<in> set (kept_drafts i). \<exists>f \<in> set fs. finding_of i cd = Inr f"
  proof
    fix cd assume cd: "cd \<in> set (kept_drafts i)"
    then obtain f where "finding_of i cd = Inr f" using built by blast
    then show "\<exists>f \<in> set fs. finding_of i cd = Inr f"
      unfolding fs_set using cd by (intro bexI [of _ f]) (auto intro: rev_image_eqI)
  qed
  show "\<forall>f \<in> set fs. \<exists>cd \<in> set (kept_drafts i). finding_of i cd = Inr f"
  proof
    fix f assume "f \<in> set fs"
    then obtain cd where cd: "cd \<in> set (kept_drafts i)" "f = projr (finding_of i cd)" unfolding fs_set by blast
    moreover obtain f' where "finding_of i cd = Inr f'" using built cd(1) by blast
    ultimately show "\<exists>cd \<in> set (kept_drafts i). finding_of i cd = Inr f" by (intro bexI [of _ cd]) auto
  qed
  have "FindingCodeOf (projr (finding_of i cd)) = fst cd" if "cd \<in> set (kept_drafts i)" for cd
    using built that built_code [OF valid that] by fastforce
  then have "map FindingCodeOf gs = map fst (ord (kept_drafts i))"
    unfolding gs_map using ranges_set [OF assms(1), of "kept_drafts i"] by simp
  then have "mset (map FindingCodeOf gs) = mset (map fst (ord (kept_drafts i)))" by simp
  moreover have "mset (ord (kept_drafts i)) = mset (kept_drafts i)" using assms(1) by (simp add: ranges_def)
  ultimately have "mset (map FindingCodeOf fs) = mset (map fst (kept_drafts i))"
    unfolding fs by (simp only: mset_map mset_sort)
  moreover have "sorted (map FindingCodeOf fs)"
  proof -
    have "sorted (map result_order fs)" unfolding fs by simp
    then show ?thesis
      unfolding sorted_map by (rule sorted_wrt_mono_rel [rotated]) (erule head_le)
  qed
  ultimately show "map FindingCodeOf fs = sort (map fst (kept_drafts i))"
    by (rule properties_for_sort [symmetric])
qed

lemma Analyze_codes:
  assumes "ranges ord" "Analyze ord i = Inr fs"
  shows "FindingCodeOf ` set fs = {c \<in> drafted i. \<forall>p \<in> drafted i. c \<notin> victims p}"
proof -
  have "set (map FindingCodeOf fs) = fst ` set (kept_drafts i)"
    unfolding Analyze_result(4) [OF assms] by simp
  then show ?thesis using kept_facts(3) [OF Analyze_result(1) [OF assms]] by simp
qed

section \<open>The suppression table\<close>

lemma suppressors_not_victims: "victims p \<noteq> {} \<Longrightarrow> p \<notin> victims q"
proof
  assume "victims p \<noteq> {}" "p \<in> victims q"
  then obtain vs ws where "(p, vs) \<in> set suppressWhenPresent" "(q, ws) \<in> set suppressWhenPresent" "p \<in> set ws"
    unfolding victims_def by (auto split: option.splits dest!: map_of_SomeD)
  then show False using suppressors_stay by (force simp: list_all_iff)
qed

lemma never_victims: "list_all (\<lambda>(p, vs). CodeInsufficientEvidenceForRepairPlan \<notin> set vs \<and>
    CodeUnsafeToAttemptBootRepair \<notin> set vs) suppressWhenPresent"
  by code_simp

lemma not_victims: "CodeInsufficientEvidenceForRepairPlan \<notin> victims p" "CodeUnsafeToAttemptBootRepair \<notin> victims p"
  using never_victims by (auto simp: victims_def list_all_iff split: option.splits dest!: map_of_SomeD)

lemma consistent_victim: "CodeBootTopologyConsistent \<in> victims CodeEFISystemPartitionCrossDisk"
  "CodeBootTopologyConsistent \<in> victims CodeBCDCrossDiskMismatch"
  "CodeBootTopologyConsistent \<in> victims CodeStorageHealthCritical"
  by code_simp+

definition critical_codes :: "string list" where
  "critical_codes = [CodeEFISystemPartitionCrossDisk, CodeBCDCrossDiskMismatch, CodeStorageHealthCritical,
     CodeUnsafeToAttemptBootRepair]"

lemma critical_catalog: "list_all (\<lambda>(c, s). cs_Severity s = ''critical'' \<longrightarrow> c \<in> set critical_codes) catalog"
  by code_simp

lemma insufficient_drafted:
  "incomplete_selection t \<Longrightarrow> CodeInsufficientEvidenceForRepairPlan \<in> fst ` set (draft_calls t ts)"
  by (rule drafted_call [OF _ draft_sections(4)])
     (simp add: completeness_drafts_def Let_def image_Un del: set_add_if)

lemma firmware_reported:
  assumes "WindowsBootTopology_Validate t = None" "firmware_drafts t ts = []"
  shows "wt_FirmwareMode t = FirmwareUEFI"
proof -
  have "wt_FirmwareMode t \<in> set firmwareModes"
    using assms(1) by (simp add: WindowsBootTopology_Validate_def requireEnum_None)
  then show ?thesis
    using assms(2) by (auto simp: firmware_drafts_def Let_def firmwareModes_def split: if_splits)
qed

section \<open>Every analysis of a known topology succeeds\<close>

definition covered :: "Input \<Rightarrow> bool" where
  "covered i \<longleftrightarrow>
     (in_TopologyEvidenceID i = [] \<or> reEvidenceID (in_TopologyEvidenceID i)) \<and>
     (toSet (in_KnownTargetIDs i) = {} \<or> topology_targets (in_Topology i) \<subseteq> toSet (in_KnownTargetIDs i)) \<and>
     (toSet (in_KnownEvidenceIDs i) = {} \<or>
      topology_evidence (in_Topology i) \<union> ({in_TopologyEvidenceID i} - {[]}) \<subseteq> toSet (in_KnownEvidenceIDs i))"

lemma plain_severities: "plain_enum severities" "plain_enum confidences"
  by code_simp+

lemma finding_of_total:
  assumes "input_valid i" "covered i" "cd \<in> set (kept_drafts i)"
  shows "\<exists>f. finding_of i cd = Inr f"
proof -
  obtain code d where cd: "cd = (code, d)" by (cases cd)
  let ?t = "in_Topology i" and ?ev = "{in_TopologyEvidenceID i} - {[]}"
  have ids: "\<forall>x \<in> topology_targets ?t. reTargetID x" "\<forall>x \<in> topology_evidence ?t. reEvidenceID x" "reCaseID (in_CaseID i)"
    using assms(1) valid_topology_ids [of ?t] by (auto simp: input_valid_def)
  have ok: "draft_ok ?t (in_TopologyEvidenceID i) cd" using kept_facts(1) [OF assms(1)] assms(3) by blast
  obtain spec where spec: "map_of catalog code = Some spec" "spec_ok spec"
    using ok cd known_code_spec [of code] unfolding draft_ok_def by (metis fst_conv)
  have tg: "set (uniqueSorted (dr_targets d)) \<subseteq> topology_targets ?t"
    using ok cd by (intro uniqueSorted_targets [OF ids(1)]) (auto simp: draft_ok_def)
  have no_empty: "[] \<notin> set (topologyEvidenceRefs ?t)"
    by (simp add: topologyEvidenceRefs_def uniqueSorted_set)
  have evs: "set (dr_evidence d) \<subseteq> topology_evidence ?t \<union> {in_TopologyEvidenceID i}" "[] \<notin> set (dr_evidence d)"
    using ok cd evidence_list [OF ids(2)] no_empty by (auto simp: draft_ok_def)
  then have "\<forall>v \<in> set (dr_evidence d). reEvidenceID v"
    using assms(2) ids(2) by (auto simp: covered_def)
  then have ev: "set (uniqueSorted (dr_evidence d)) \<subseteq> topology_evidence ?t \<union> ?ev"
      "\<forall>x \<in> set (uniqueSorted (dr_evidence d)). reEvidenceID x"
    using uniqueSorted_ids [of "dr_evidence d"] trim_ids(2) evs by auto
  have refs: "refsExist ''target'' (uniqueSorted (dr_targets d)) (toSet (in_KnownTargetIDs i)) = None"
    "refsExist ''evidence'' (uniqueSorted (dr_evidence d)) (toSet (in_KnownEvidenceIDs i)) = None"
    using assms(2) tg ev(1) unfolding refsExist_None covered_def by blast+
  have tgs: "\<forall>x \<in> set (uniqueSorted (dr_targets d)). reTargetID x" using tg ids(1) by blast
  show ?thesis
    using spec refs tgs ev(2) ids(3)
    by (simp add: cd finding_of_def Let_def Finding_Validate_def findingIDFor_valid spec_ok_def
        requireEnum_plain plain_severities)
qed

lemma Analyze_succeeds:
  assumes "ranges ord" "input_valid i" "covered i"
  shows "\<exists>fs. Analyze ord i = Inr fs"
proof -
  have "reCaseID (in_CaseID i)" using assms(2) valid_topology_ids(4) [of "in_Topology i"] by (simp add: input_valid_def)
  then have "input_checks i = None"
    using assms(2,3) by (auto simp: input_checks_def Let_def input_valid_def covered_def dest: re_not_blank)
  moreover have "\<exists>gs. findings_of i (ord (kept_drafts i)) = Inr gs"
    using finding_of_total [OF assms(2,3)] ranges_set [OF assms(1)] by (simp add: findings_of_Inr)
  ultimately show ?thesis by (auto simp: Analyze_def Let_def kept_drafts_def)
qed

section \<open>An example\<close>

text \<open>
  A topology of a UEFI machine whose resolver found no candidate of any role, but which says it is
  eligible and selects every role.
\<close>

definition ex_topology :: WindowsBootTopology where
  "ex_topology = \<lparr>wt_SchemaName = SchemaWindowsBootTopology, wt_SchemaVersion = SchemaVersion,
     wt_TopologyID = ''topology-'' @ replicate 24 CHR ''a'', wt_CaseID = ex_case_id, wt_ResolverID = ''resolver'',
     wt_ResolverVersion = ''1.0.0'', wt_SourceCommitID = ex_commit_id, wt_GeneratedAt = ex_time,
     wt_FirmwareMode = FirmwareUEFI, wt_Candidates = Some [], wt_Relations = Some [],
     wt_Selection = \<lparr>ts_Source = SelectionAutomatic, ts_WindowsTargetID = ''target-windows01'',
       ts_WindowsPartitionTargetID = ''target-partition1'', ts_SystemDiskTargetID = ''target-disk0001'',
       ts_ESPTargetID = ''target-esp00001'', ts_BCDTargetID = []\<rparr>,
     wt_Ambiguities = Some [], wt_Limitations = Some [],
     wt_MutationEligibility = \<lparr>me_Eligible = True, me_Basis = MutationEligibilityDiagnosticEvidenceOnly,
       me_Blockers = Some []\<rparr>\<rparr>"

definition ex_input :: Input where
  "ex_input = \<lparr>in_CaseID = ex_case_id, in_Topology = ex_topology, in_TopologyEvidenceID = ex_evidence_id,
     in_Targets = [], in_KnownEvidenceIDs = [ex_evidence_id], in_KnownTargetIDs = []\<rparr>"

text \<open>The same topology when it is not eligible.\<close>

definition ex_blocked :: Input where
  "ex_blocked = ex_input\<lparr>in_Topology := ex_topology\<lparr>wt_MutationEligibility :=
     \<lparr>me_Eligible = False, me_Basis = MutationEligibilityDiagnosticEvidenceOnly, me_Blockers = Some [''bcd_missing'']\<rparr>\<rparr>\<rparr>"

lemma ex_topologies: "WindowsBootTopology_Validate ex_topology = None"
  "WindowsBootTopology_Validate (in_Topology ex_blocked) = None" "reEvidenceID ex_evidence_id" "reCaseID ex_case_id"
  by code_simp+

lemma ranges_examples [simp]: "ranges (\<lambda>xs. xs)" "ranges rev"
  by (simp_all add: ranges_def)

lemma ex_inputs: "input_valid ex_input" "input_valid ex_blocked" "covered ex_input" "covered ex_blocked"
  using ex_topologies
  by (simp_all add: input_valid_def covered_def ex_input_def ex_blocked_def ex_topology_def topology_evidence_def toSet_def)

lemma ex_results: "\<exists>fs. Analyze (\<lambda>xs. xs) ex_input = Inr fs" "\<exists>fs. Analyze (\<lambda>xs. xs) ex_blocked = Inr fs"
  using Analyze_succeeds ex_inputs by simp_all

lemma ex_calls: "map fst (draft_calls ex_topology []) =
  [CodeWindowsInstallationMissing, CodeEFISystemPartitionMissing, CodeBCDStoreMissing, CodeBootTopologyConsistent]"
  by code_simp

lemma ex_not_victims: "list_all (\<lambda>p. CodeBootTopologyConsistent \<notin> victims p \<and> CodeWindowsInstallationMissing \<notin> victims p)
  (map fst (draft_calls ex_topology []))"
  by code_simp

lemma ex_codes: "CodeBootTopologyConsistent \<in> {c \<in> drafted ex_input. \<forall>p \<in> drafted ex_input. c \<notin> victims p}"
  "CodeWindowsInstallationMissing \<in> {c \<in> drafted ex_input. \<forall>p \<in> drafted ex_input. c \<notin> victims p}"
proof -
  have "drafted ex_input = set (map fst (draft_calls ex_topology []))" by (simp add: drafted_def ex_input_def)
  then show "CodeBootTopologyConsistent \<in> {c \<in> drafted ex_input. \<forall>p \<in> drafted ex_input. c \<notin> victims p}"
    "CodeWindowsInstallationMissing \<in> {c \<in> drafted ex_input. \<forall>p \<in> drafted ex_input. c \<notin> victims p}"
    using ex_not_victims unfolding list_all_iff ex_calls by auto
qed

section \<open>Properties\<close>

text \<open>
  C36. The order in which Go ranges over its map of drafts does not matter: when one order gives a
  result, every other order gives the same.
\<close>

theorem map_order_is_irrelevant:
  assumes "ranges ord" "ranges ord'" "Analyze ord i = Inr fs"
  shows "Analyze ord' i = Inr fs"
proof -
  note result = Analyze_result [OF assms(1,3)]
  have perm: "mset (ord' (kept_drafts i)) = mset (ord (kept_drafts i))" using assms(1,2) by (simp add: ranges_def)
  have built: "\<forall>cd \<in> set (kept_drafts i). \<exists>f. finding_of i cd = Inr f" using result(2) by blast
  let ?gs = "\<lambda>o'. map (\<lambda>cd. projr (finding_of i cd)) (o' (kept_drafts i))"
  have run: "Analyze o' i = Inr (sort_key result_order (?gs o'))" if "ranges o'" for o'
    using assms(3) built ranges_set [OF that, of "kept_drafts i"]
    by (auto simp: Analyze_def Let_def kept_drafts_def [symmetric] findings_of_Inr)
  have fs: "fs = sort_key result_order (?gs ord)" using run [OF assms(1)] assms(3) by simp
  have "distinct (map FindingCodeOf fs)"
    unfolding result(4) distinct_sort by (rule kept_facts(2) [OF result(1)])
  then have "inj_on FindingCodeOf (set fs)" unfolding distinct_map by blast
  then have "inj_on result_order (set fs)" by (rule inj_on_pair_key)
  moreover have "mset (?gs ord') = mset fs" unfolding fs by (simp only: mset_sort mset_map perm)
  moreover have "set (?gs ord') = set fs" using calculation(2) by (rule mset_eq_setD)
  ultimately have "inj_on result_order (set (?gs ord'))" "mset (?gs ord') = mset fs" by simp_all
  moreover have "sorted (map result_order fs)" unfolding fs by simp
  ultimately have "sort_key result_order (?gs ord') = fs" by (intro sort_key_inj_key_eq)
  then show ?thesis using run [OF assms(2)] by simp
qed

lemma map_order_is_irrelevant_witness:
  "\<exists>fs. Analyze (\<lambda>xs. xs) ex_input = Inr fs \<and> Analyze rev ex_input = Inr fs"
proof -
  obtain fs where fs: "Analyze (\<lambda>xs. xs) ex_input = Inr fs" using ex_results(1) by blast
  show ?thesis using map_order_is_irrelevant [OF ranges_examples fs] fs by blast
qed

text \<open>
  C37. Every finding of a successful analysis passes its own validation, belongs to the case, refers
  only to the targets and evidence the case knows (when it is told what the case knows), carries its
  code in its limitations where \<^verbatim>\<open>FindingCodeOf\<close> finds it, and there is at most one finding of each
  code, in the order of the codes.
\<close>

theorem findings_are_valid:
  assumes "ranges ord" "Analyze ord i = Inr fs"
  shows "(\<forall>f \<in> set fs. Finding_Validate f = None \<and> fnd_CaseID f = in_CaseID i \<and>
      (toSet (in_KnownTargetIDs i) \<noteq> {} \<longrightarrow> set (elems (fnd_AffectedTargetIDs f)) \<subseteq> toSet (in_KnownTargetIDs i)) \<and>
      (toSet (in_KnownEvidenceIDs i) \<noteq> {} \<longrightarrow> set (elems (fnd_EvidenceRefs f)) \<subseteq> toSet (in_KnownEvidenceIDs i)) \<and>
      map_of catalog (FindingCodeOf f) \<noteq> None) \<and>
    sorted (map FindingCodeOf fs) \<and> distinct (map FindingCodeOf fs)"
proof (intro conjI)
  note result = Analyze_result [OF assms]
  note kept = kept_facts [OF result(1)]
  show "\<forall>f \<in> set fs. Finding_Validate f = None \<and> fnd_CaseID f = in_CaseID i \<and>
      (toSet (in_KnownTargetIDs i) \<noteq> {} \<longrightarrow> set (elems (fnd_AffectedTargetIDs f)) \<subseteq> toSet (in_KnownTargetIDs i)) \<and>
      (toSet (in_KnownEvidenceIDs i) \<noteq> {} \<longrightarrow> set (elems (fnd_EvidenceRefs f)) \<subseteq> toSet (in_KnownEvidenceIDs i)) \<and>
      map_of catalog (FindingCodeOf f) \<noteq> None"
  proof
    fix f assume "f \<in> set fs"
    then obtain code d where cd: "(code, d) \<in> set (kept_drafts i)" and f: "finding_of i (code, d) = Inr f"
      using result(3) by fastforce
    have "map_of catalog code \<noteq> None" using kept(1) cd by (auto simp: draft_ok_def known_code_def)
    then have "map_of catalog (FindingCodeOf f) \<noteq> None" using built_code [OF result(1) cd f] by simp
    then show "Finding_Validate f = None \<and> fnd_CaseID f = in_CaseID i \<and>
      (toSet (in_KnownTargetIDs i) \<noteq> {} \<longrightarrow> set (elems (fnd_AffectedTargetIDs f)) \<subseteq> toSet (in_KnownTargetIDs i)) \<and>
      (toSet (in_KnownEvidenceIDs i) \<noteq> {} \<longrightarrow> set (elems (fnd_EvidenceRefs f)) \<subseteq> toSet (in_KnownEvidenceIDs i)) \<and>
      map_of catalog (FindingCodeOf f) \<noteq> None"
      using finding_of_Inr(1-4) [OF f] finding_of_Inr(8,9) [OF f] by auto
  qed
  show "sorted (map FindingCodeOf fs)" unfolding result(4) by simp
  show "distinct (map FindingCodeOf fs)" unfolding result(4) using kept(2) by simp
qed

lemma findings_are_valid_witness:
  "\<exists>fs. Analyze rev ex_input = Inr fs \<and> list_all (\<lambda>f. Finding_Validate f = None \<and> fnd_CaseID f = ex_case_id) fs \<and>
     distinct (map FindingCodeOf fs)"
proof -
  obtain fs where fs: "Analyze rev ex_input = Inr fs" using Analyze_succeeds [OF ranges_examples(2)] ex_inputs by blast
  have "in_CaseID ex_input = ex_case_id" by (simp add: ex_input_def)
  then show ?thesis
    using findings_are_valid [OF ranges_examples(2) fs] fs by (auto simp: list_all_iff)
qed

text \<open>
  C38. The analysis succeeds on every valid topology of the case whose references the case knows: no
  code, draft or table entry makes it fail.
\<close>

theorem analysis_of_a_known_topology_succeeds:
  assumes "ranges ord" and "WindowsBootTopology_Validate (in_Topology i) = None"
    and "wt_CaseID (in_Topology i) = in_CaseID i"
    and "in_TopologyEvidenceID i = [] \<or> reEvidenceID (in_TopologyEvidenceID i)"
    and "toSet (in_KnownTargetIDs i) = {} \<or> topology_targets (in_Topology i) \<subseteq> toSet (in_KnownTargetIDs i)"
    and "toSet (in_KnownEvidenceIDs i) = {} \<or>
      topology_evidence (in_Topology i) \<union> ({in_TopologyEvidenceID i} - {[]}) \<subseteq> toSet (in_KnownEvidenceIDs i)"
  shows "\<exists>fs. Analyze ord i = Inr fs"
  using assms by (intro Analyze_succeeds) (simp_all add: input_valid_def covered_def)

lemma analysis_of_a_known_topology_succeeds_witness: "\<exists>fs. Analyze rev ex_blocked = Inr fs"
  by (rule analysis_of_a_known_topology_succeeds [OF ranges_examples(2)])
     (use ex_inputs(2,4) in \<open>simp_all add: input_valid_def covered_def\<close>)

text \<open>
  C39. No finding is reported together with one whose rule suppresses it; in particular the topology is
  called consistent only if it is eligible, boots with UEFI and has no conflicting ambiguity and no
  partition or boot store on a foreign disk, and then no finding of the analysis is critical.
\<close>

theorem suppressed_findings_are_absent:
  assumes "ranges ord" "Analyze ord i = Inr fs" "f \<in> set fs" "g \<in> set fs"
  shows "FindingCodeOf g \<notin> victims (FindingCodeOf f) \<and>
    (FindingCodeOf f = CodeBootTopologyConsistent \<longrightarrow>
       me_Eligible (wt_MutationEligibility (in_Topology i)) \<and> wt_FirmwareMode (in_Topology i) = FirmwareUEFI \<and>
       \<not> hasConflictingAmbiguity (in_Topology i) \<and> \<not> hasCrossDiskESP (in_Topology i) \<and>
       \<not> hasBCDCrossDisk (in_Topology i) \<and> fnd_Severity g \<noteq> ''critical'')"
proof -
  note codes = Analyze_codes [OF assms(1,2)] and result = Analyze_result [OF assms(1,2)]
  have f: "FindingCodeOf f \<in> drafted i" "\<forall>p \<in> drafted i. FindingCodeOf f \<notin> victims p"
    and g: "FindingCodeOf g \<in> drafted i" "\<forall>p \<in> drafted i. FindingCodeOf g \<notin> victims p"
    using codes assms(3,4) by auto
  have absent: "FindingCodeOf g \<notin> victims (FindingCodeOf f)" using f(1) g(2) by blast
  show ?thesis
  proof (cases "FindingCodeOf f = CodeBootTopologyConsistent")
    case False
    then show ?thesis using absent by blast
  next
    case consistent: True
    let ?t = "in_Topology i"
    have cond: "consistent_drafts ?t \<noteq> []"
      using f(1) only_consistent_drafts unfolding consistent drafted_def by blast
    have none: "CodeEFISystemPartitionCrossDisk \<notin> drafted i" "CodeBCDCrossDiskMismatch \<notin> drafted i"
        "CodeStorageHealthCritical \<notin> drafted i"
      using f(2) consistent consistent_victim by auto
    then have "\<not> hasCrossDiskESP ?t" "\<not> hasBCDCrossDisk ?t" "CodeUnsafeToAttemptBootRepair \<notin> drafted i"
      using cross_disk_drafts [of ?t "in_Targets i"] bcd_mismatch_drafts [of ?t "in_Targets i"]
        unsafe_drafts [of ?t "in_Targets i"] unfolding drafted_def by blast+
    moreover have "fnd_Severity g \<noteq> ''critical''"
    proof
      assume critical: "fnd_Severity g = ''critical''"
      obtain cd where cd: "cd \<in> set (kept_drafts i)" "finding_of i cd = Inr g" using result(3) assms(4) by blast
      obtain spec where "map_of catalog (FindingCodeOf g) = Some spec" "cs_Severity spec = ''critical''"
        using built_code [OF result(1) cd] finding_of_Inr(6) [of i "fst cd" "snd cd" g] cd(2) critical by auto
      then have "FindingCodeOf g \<in> set critical_codes"
        using critical_catalog by (auto simp: list_all_iff dest!: map_of_SomeD)
      then show False using g(1) none calculation(3) by (auto simp: critical_codes_def)
    qed
    ultimately show ?thesis
      using cond absent by (simp add: consistent_drafts_def add_if_def split: if_splits)
  qed
qed

lemma suppressed_findings_are_absent_witness:
  "\<exists>fs f. Analyze rev ex_input = Inr fs \<and> f \<in> set fs \<and> FindingCodeOf f = CodeBootTopologyConsistent \<and>
     (\<forall>g \<in> set fs. fnd_Severity g \<noteq> ''critical'')"
proof -
  obtain fs where fs: "Analyze rev ex_input = Inr fs" using Analyze_succeeds [OF ranges_examples(2)] ex_inputs by blast
  obtain f where f: "f \<in> set fs" "FindingCodeOf f = CodeBootTopologyConsistent"
    using ex_codes(1) Analyze_codes [OF ranges_examples(2) fs] by (metis (no_types, lifting) imageE)
  show ?thesis using suppressed_findings_are_absent [OF ranges_examples(2) fs f(1)] fs f by blast
qed

text \<open>
  C40. The boot doctor is never silent about a machine that must not be repaired: a topology that is not
  eligible always has the finding that the evidence is insufficient for a repair plan, and an analysis
  without any finding is one of an eligible UEFI machine with a conflicting ambiguity.
\<close>

theorem ineligible_topologies_are_reported:
  assumes "ranges ord" "Analyze ord i = Inr fs"
  shows "(\<not> me_Eligible (wt_MutationEligibility (in_Topology i)) \<longrightarrow>
      (\<exists>f \<in> set fs. FindingCodeOf f = CodeInsufficientEvidenceForRepairPlan)) \<and>
    (fs = [] \<longrightarrow> me_Eligible (wt_MutationEligibility (in_Topology i)) \<and>
      wt_FirmwareMode (in_Topology i) = FirmwareUEFI \<and> hasConflictingAmbiguity (in_Topology i))"
proof -
  let ?t = "in_Topology i"
  note codes = Analyze_codes [OF assms(1,2)]
  have incomplete: "CodeInsufficientEvidenceForRepairPlan \<in> FindingCodeOf ` set fs" if "incomplete_selection ?t"
    using insufficient_drafted [OF that] not_victims unfolding codes drafted_def by blast
  then have reported: "\<exists>f \<in> set fs. FindingCodeOf f = CodeInsufficientEvidenceForRepairPlan"
    if "\<not> me_Eligible (wt_MutationEligibility ?t)"
    using that by (auto simp: incomplete_selection_def elim!: imageE) (metis)
  have "me_Eligible (wt_MutationEligibility ?t) \<and> wt_FirmwareMode ?t = FirmwareUEFI \<and> hasConflictingAmbiguity ?t"
    if empty: "fs = []"
  proof -
    have "{c \<in> drafted i. \<forall>p \<in> drafted i. c \<notin> victims p} = {}" using codes empty by simp
    then have "drafted i = {}" using suppressors_not_victims by blast
    then have none: "firmware_drafts ?t (in_Targets i) = []" "consistent_drafts ?t = []"
      using draft_sections(5,6) [of ?t "in_Targets i"] by (auto simp: drafted_def)
    have valid: "WindowsBootTopology_Validate ?t = None" using Analyze_result(1) [OF assms] by (simp add: input_valid_def)
    have selected: "\<not> incomplete_selection ?t" using incomplete empty by auto
    then have "elems (me_Blockers (wt_MutationEligibility ?t)) = []"
      using valid_topology_ids(5) [OF valid] by (auto simp: incomplete_selection_def)
    moreover have "wt_FirmwareMode ?t = FirmwareUEFI" using none(1) firmware_reported [OF valid] by blast
    ultimately show ?thesis
      using none(2) selected by (auto simp: consistent_drafts_def add_if_def toSet_def incomplete_selection_def split: if_splits)
  qed
  with reported show ?thesis by blast
qed

lemma ineligible_topologies_are_reported_witness:
  "\<exists>fs. Analyze rev ex_blocked = Inr fs \<and> (\<exists>f \<in> set fs. FindingCodeOf f = CodeInsufficientEvidenceForRepairPlan)"
proof -
  obtain fs where fs: "Analyze rev ex_blocked = Inr fs" using Analyze_succeeds [OF ranges_examples(2)] ex_inputs by blast
  have "\<not> me_Eligible (wt_MutationEligibility (in_Topology ex_blocked))" by (simp add: ex_blocked_def)
  then show ?thesis using ineligible_topologies_are_reported [OF ranges_examples(2) fs] fs by blast
qed

text \<open>
  The healthy baseline is not conditional on the other drafts, although the comment above it says so: on
  this input the same analysis reports that the boot topology is consistent and that no Windows
  installation was found.
\<close>

theorem consistent_although_windows_is_missing:
  "\<exists>fs. Analyze (\<lambda>xs. xs) ex_input = Inr fs \<and>
     {CodeBootTopologyConsistent, CodeWindowsInstallationMissing} \<subseteq> FindingCodeOf ` set fs"
proof -
  obtain fs where fs: "Analyze (\<lambda>xs. xs) ex_input = Inr fs" using ex_results(1) by blast
  show ?thesis using Analyze_codes [OF ranges_examples(1) fs] ex_codes fs by blast
qed

end
