(* ===== verification/EvidenceView.thy ===== *)
theory EvidenceView
  imports DocCodec
begin

text \<open>
  Typed views of evidence (\<^verbatim>\<open>internal/recovery/evidenceview\<close>): the facts of a bundle that came from a
  diagnostic report are decoded strictly (\<^verbatim>\<open>importer/legacyreport/facts.go\<close>), and each kind of entity
  has an accessor for the members of its payload the program looks at. Payloads are Go values of type
  \<^verbatim>\<open>any\<close>, decoded with \<^verbatim>\<open>UseNumber\<close>: a number is its text.
\<close>

section \<open>Values of type any\<close>

type_synonym payload_members = "(string \<times> jtext) list"

text \<open>A Go map on its way out: sorted keys, the last value stored under each.\<close>

definition json_object :: "(string \<times> json) list \<Rightarrow> json" where
  "json_object ms = JObj (map (\<lambda>k. (k, the (map_of (rev ms) k))) (sort (remdups (map fst ms))))"

fun any_json :: "jval \<Rightarrow> json"
and any_elems :: "jtext list \<Rightarrow> json list"
and any_members :: "payload_members \<Rightarrow> (string \<times> json) list" where
  "any_json VNull = JNull"
| "any_json (VBool b) = JBool b"
| "any_json (VNum s) = JRaw (Some s)"
| "any_json (VStr s) = JStr s"
| "any_json (VArr ts) = JArr (any_elems ts)"
| "any_json (VObj ms) = json_object (any_members ms)"
| "any_elems [] = []"
| "any_elems ((_, v) # ts) = any_json v # any_elems ts"
| "any_members [] = []"
| "any_members ((k, _, v) # ms) = (k, any_json v) # any_members ms"

definition dec_any :: "jval decoder" where
  "dec_any x t = Inr (snd t)"

text \<open>\<^verbatim>\<open>map[string]any\<close>, decoded into a nil map; of a repeated key the last member counts.\<close>

definition dec_object :: "payload_members option decoder" where
  "dec_object x t = (case snd t of VNull \<Rightarrow> Inr None | VObj ms \<Rightarrow> Inr (Some ms) | _ \<Rightarrow> Inl json_type_error)"

definition member :: "payload_members \<Rightarrow> string \<Rightarrow> jval option" where
  "member ms k = map_option snd (map_of (rev ms) k)"

definition string_member :: "payload_members \<Rightarrow> string \<Rightarrow> string option" where
  "string_member ms k = (case member ms k of Some (VStr s) \<Rightarrow> Some s | _ \<Rightarrow> None)"

definition string_or_empty :: "payload_members \<Rightarrow> string \<Rightarrow> string" where
  "string_or_empty ms k = (case string_member ms k of Some s \<Rightarrow> s | None \<Rightarrow> [])"

text \<open>\<^verbatim>\<open>json.Number.Int64\<close>; no other kind of number comes out of a decoder with \<^verbatim>\<open>UseNumber\<close>.\<close>

definition asInt64 :: "jval option \<Rightarrow> int option" where
  "asInt64 v = (case v of
     Some (VNum s) \<Rightarrow> (case parse_int s of None \<Rightarrow> None
                       | Some i \<Rightarrow> if - (2 ^ 63) \<le> i \<and> i \<le> 2 ^ 63 - 1 then Some i else None)
   | _ \<Rightarrow> None)"

section \<open>The facts envelope\<close>

text \<open>
  One record for the two Go structs: the payload of the unexported one is a value, that of the
  exported one its bytes.
\<close>

record 'p facts_envelope =
  fe_SchemaName :: string
  fe_SchemaVersion :: string
  fe_SourceSchemaName :: string
  fe_SourceSchemaVersion :: string
  fe_SourceReportID :: string
  fe_RawSourceSHA256 :: string
  fe_NormalizedReportSHA256 :: string
  fe_SourceCollector :: string
  fe_SourceCollectorVersion :: string
  fe_SourcePath :: string
  fe_EntityKind :: string
  fe_Payload :: 'p
  fe_RelatedTargetIDs :: "string slice"
  fe_Limitations :: "string slice"

type_synonym factsEnvelope = "jval facts_envelope"
type_synonym FactsEnvelope = "string facts_envelope"

definition FactsSchemaID :: string where
  "FactsSchemaID = ''https://effexorwinpe.local/contracts/recovery/facts/legacy-diagnostic-report-fragment-1.0.0/legacy-diagnostic-report-fragment.schema.json''"

definition zero_factsEnvelope :: factsEnvelope where
  "zero_factsEnvelope =
     \<lparr>fe_SchemaName = [], fe_SchemaVersion = [], fe_SourceSchemaName = [], fe_SourceSchemaVersion = [],
      fe_SourceReportID = [], fe_RawSourceSHA256 = [], fe_NormalizedReportSHA256 = [], fe_SourceCollector = [],
      fe_SourceCollectorVersion = [], fe_SourcePath = [], fe_EntityKind = [], fe_Payload = VNull,
      fe_RelatedTargetIDs = None, fe_Limitations = None\<rparr>"

definition factsEnvelope_fields :: "factsEnvelope field list" where
  "factsEnvelope_fields =
     [field_of ''schema_name'' fe_SchemaName fe_SchemaName_update dec_string,
      field_of ''schema_version'' fe_SchemaVersion fe_SchemaVersion_update dec_string,
      field_of ''source_schema_name'' fe_SourceSchemaName fe_SourceSchemaName_update dec_string,
      field_of ''source_schema_version'' fe_SourceSchemaVersion fe_SourceSchemaVersion_update dec_string,
      field_of ''source_report_id'' fe_SourceReportID fe_SourceReportID_update dec_string,
      field_of ''raw_source_sha256'' fe_RawSourceSHA256 fe_RawSourceSHA256_update dec_string,
      field_of ''normalized_report_sha256'' fe_NormalizedReportSHA256 fe_NormalizedReportSHA256_update dec_string,
      field_of ''source_collector'' fe_SourceCollector fe_SourceCollector_update dec_string,
      field_of ''source_collector_version'' fe_SourceCollectorVersion fe_SourceCollectorVersion_update dec_string,
      field_of ''source_path'' fe_SourcePath fe_SourcePath_update dec_string,
      field_of ''entity_kind'' fe_EntityKind fe_EntityKind_update dec_string,
      field_of ''payload'' fe_Payload fe_Payload_update dec_any,
      field_of ''related_target_ids'' fe_RelatedTargetIDs fe_RelatedTargetIDs_update dec_strings,
      field_of ''limitations'' fe_Limitations fe_Limitations_update dec_strings]"

text \<open>What follows the document is decoded into \<^verbatim>\<open>struct{}\<close>; only the end of the input is accepted.\<close>

definition requireJSONEOF :: "string \<Rightarrow> go_err" where
  "requireJSONEOF rest =
     (let u = skip_space rest in
      if u = [] then None
      else (case parse_value max_nesting u of
              None \<Rightarrow> Some json_syntax
            | Some (v, r) \<Rightarrow> (case dec_struct [] () (upto_rest u r, v) of
                               Inl e \<Rightarrow> Some e | Inr _ \<Rightarrow> Some (Errorf ''trailing JSON data'' []))))"

definition decode_facts_error :: "go_error \<Rightarrow> go_error" where
  "decode_facts_error e = Errorf ''decode facts: %w'' [GWrap e]"

definition decodeFactsStrict :: "string \<Rightarrow> factsEnvelope result" where
  "decodeFactsStrict raw =
     (let s = skip_space raw in
      case parse_value max_nesting s of
        None \<Rightarrow> Inl (decode_facts_error json_syntax)
      | Some (v, r) \<Rightarrow>
          (case dec_struct factsEnvelope_fields zero_factsEnvelope (upto_rest s r, v) of
             Inl e \<Rightarrow> Inl (decode_facts_error e)
           | Inr env \<Rightarrow>
               check_then (wrap_err decode_facts_error (requireJSONEOF r))
              (check_then (err_if (fe_Payload env = VNull) (Errorf ''payload must not be null'' [])) (Inr env))))"

definition DecodeFactsEnvelopeStrict :: "string \<Rightarrow> FactsEnvelope result" where
  "DecodeFactsEnvelopeStrict raw =
     bindE (decodeFactsStrict raw) (\<lambda>env.
     bindE (marshal (any_json (fe_Payload env))) (\<lambda>payload.
       Inr \<lparr>fe_SchemaName = fe_SchemaName env, fe_SchemaVersion = fe_SchemaVersion env,
            fe_SourceSchemaName = fe_SourceSchemaName env, fe_SourceSchemaVersion = fe_SourceSchemaVersion env,
            fe_SourceReportID = fe_SourceReportID env, fe_RawSourceSHA256 = fe_RawSourceSHA256 env,
            fe_NormalizedReportSHA256 = fe_NormalizedReportSHA256 env,
            fe_SourceCollector = fe_SourceCollector env, fe_SourceCollectorVersion = fe_SourceCollectorVersion env,
            fe_SourcePath = fe_SourcePath env, fe_EntityKind = fe_EntityKind env, fe_Payload = payload,
            fe_RelatedTargetIDs = fe_RelatedTargetIDs env, fe_Limitations = fe_Limitations env\<rparr>))"

section \<open>Views\<close>

definition ErrUnsupportedSchema :: go_error where
  "ErrUnsupportedSchema = Sentinel ''evidenceview: unsupported facts schema''"

definition ErrMalformedEvidence :: go_error where
  "ErrMalformedEvidence = Sentinel ''evidenceview: malformed evidence''"

definition malformed :: "go_error \<Rightarrow> go_error" where
  "malformed e = Errorf ''%w: %v'' [GWrap ErrMalformedEvidence, GVal e]"

text \<open>The lists of ids and limitations are only ranged over, so nil and empty are one.\<close>

record View =
  vw_Bundle :: EvidenceBundle
  vw_FactsSchema :: string
  vw_EntityKind :: string
  vw_RelatedTargetIDs :: "string list"
  vw_Limitations :: "string list"
  vw_Envelope :: FactsEnvelope

definition isLegacyFactsSchema :: "string \<Rightarrow> bool" where
  "isLegacyFactsSchema schema \<longleftrightarrow>
     schema = FactsSchemaID \<or> str_contains schema ''legacy-diagnostic-report-fragment''"

fun appendUnique :: "string list \<Rightarrow> string list \<Rightarrow> string list" where
  "appendUnique dst [] = dst"
| "appendUnique dst (v # vs) = appendUnique (if v = [] \<or> v \<in> set dst then dst else dst @ [v]) vs"

text \<open>
  The bytes of a nil \<^verbatim>\<open>RawMessage\<close> are the empty input. The view that comes with
  \<open>ErrUnsupportedSchema\<close> is dropped by every caller.
\<close>

definition DecodeBundle :: "EvidenceBundle \<Rightarrow> View result" where
  "DecodeBundle b =
     (if \<not> isLegacyFactsSchema (ev_FactsSchema b)
      then Inl (Errorf ''%w: %q'' [GWrap ErrUnsupportedSchema, GStr (ev_FactsSchema b)])
      else (case DecodeFactsEnvelopeStrict (elems (ev_Facts b)) of
              Inl e \<Rightarrow> Inl (malformed e)
            | Inr env \<Rightarrow> Inr
                \<lparr>vw_Bundle = b, vw_FactsSchema = ev_FactsSchema b, vw_EntityKind = fe_EntityKind env,
                 vw_RelatedTargetIDs = elems (fe_RelatedTargetIDs env),
                 vw_Limitations = appendUnique (elems (fe_Limitations env)) (elems (ev_Limitations b)),
                 vw_Envelope = env\<rparr>))"

definition decodePayload :: "string \<Rightarrow> payload_members result" where
  "decodePayload raw = (case decode_document dec_object None raw of
     Inl e \<Rightarrow> Inl (malformed e) | Inr m \<Rightarrow> Inr (elems m))"

text \<open>The checks every accessor starts with.\<close>

definition payload_of :: "string \<Rightarrow> View \<Rightarrow> payload_members result" where
  "payload_of kind v =
     check_then (err_if (vw_EntityKind v \<noteq> kind)
        (Errorf (''%w: entity_kind %q is not '' @ kind) [GWrap ErrMalformedEvidence, GStr (vw_EntityKind v)]))
       (decodePayload (fe_Payload (vw_Envelope v)))"

record FirmwarePayload =
  fw_BootFirmwareMode :: string
  fw_HardwareFirmwareMode :: string
  fw_Raw :: string

definition View_Firmware :: "View \<Rightarrow> FirmwarePayload result" where
  "View_Firmware v = bindE (payload_of ''firmware_environment'' v) (\<lambda>p. Inr
     \<lparr>fw_BootFirmwareMode = string_or_empty p ''boot_firmware_mode'',
      fw_HardwareFirmwareMode =
        (case member p ''hardware'' of Some (VObj hw) \<Rightarrow> string_or_empty hw ''firmware_mode'' | _ \<Rightarrow> []),
      fw_Raw = fe_Payload (vw_Envelope v)\<rparr>)"

record DiskPayload =
  dk_DiskNumber :: "int option"
  dk_PartitionStyle :: string
  dk_Raw :: string

definition View_Disk :: "View \<Rightarrow> DiskPayload result" where
  "View_Disk v = bindE (payload_of ''disk'' v) (\<lambda>p. Inr
     \<lparr>dk_DiskNumber =
        (case asInt64 (member p ''number'') of Some n \<Rightarrow> Some n | None \<Rightarrow> asInt64 (member p ''disk_number'')),
      dk_PartitionStyle = string_or_empty p ''partition_style'',
      dk_Raw = fe_Payload (vw_Envelope v)\<rparr>)"

record PartitionPayload =
  pt_DiskNumber :: "int option"
  pt_DriveLetter :: string
  pt_GPTType :: string
  pt_Type :: string
  pt_Raw :: string

definition View_Partition :: "View \<Rightarrow> PartitionPayload result" where
  "View_Partition v = bindE (payload_of ''partition'' v) (\<lambda>p. Inr
     \<lparr>pt_DiskNumber = asInt64 (member p ''disk_number''),
      pt_DriveLetter = string_or_empty p ''drive_letter'',
      pt_GPTType = string_or_empty p ''gpt_type'',
      pt_Type = (let t = string_or_empty p ''type'' in if t = [] then string_or_empty p ''partition_type'' else t),
      pt_Raw = fe_Payload (vw_Envelope v)\<rparr>)"

record WindowsInstallationPayload =
  wi_RootPath :: string
  wi_Version :: string
  wi_Raw :: string

definition version_text :: "jval option \<Rightarrow> string" where
  "version_text ver = (case ver of
     Some (VStr s) \<Rightarrow> s
   | Some (VObj ms) \<Rightarrow>
       (case List.find (\<lambda>k. string_or_empty ms k \<noteq> [])
               [''product_name'', ''display_version'', ''raw_product_name'', ''build''] of
          Some k \<Rightarrow> string_or_empty ms k | None \<Rightarrow> [])
   | _ \<Rightarrow> [])"

definition View_WindowsInstallation :: "View \<Rightarrow> WindowsInstallationPayload result" where
  "View_WindowsInstallation v = bindE (payload_of ''windows_installation'' v) (\<lambda>p. Inr
     \<lparr>wi_RootPath = (case string_member p ''root'' of Some s \<Rightarrow> s | None \<Rightarrow> string_or_empty p ''root_path''),
      wi_Version = version_text (member p ''version''),
      wi_Raw = fe_Payload (vw_Envelope v)\<rparr>)"

record BootStorePayload =
  bs_Kind :: string
  bs_Path :: string
  bs_Raw :: string

definition View_BootStore :: "View \<Rightarrow> BootStorePayload result" where
  "View_BootStore v = bindE (payload_of ''boot_store'' v) (\<lambda>p. Inr
     \<lparr>bs_Kind = string_or_empty p ''kind'', bs_Path = string_or_empty p ''path'',
      bs_Raw = fe_Payload (vw_Envelope v)\<rparr>)"

record BitLockerPayload =
  bl_ProtectionStatus :: string
  bl_LockStatus :: string
  bl_MountPoint :: string
  bl_Raw :: string

definition View_BitLocker :: "View \<Rightarrow> BitLockerPayload result" where
  "View_BitLocker v = bindE (payload_of ''bitlocker_volume'' v) (\<lambda>p. Inr
     \<lparr>bl_ProtectionStatus = string_or_empty p ''protection_status'',
      bl_LockStatus = string_or_empty p ''lock_status'', bl_MountPoint = string_or_empty p ''mount_point'',
      bl_Raw = fe_Payload (vw_Envelope v)\<rparr>)"

fun health_records :: "jtext list \<Rightarrow> payload_members list result" where
  "health_records [] = Inr []"
| "health_records ((_, v) # ts) =
     (case v of
        VObj ms \<Rightarrow> bindE (health_records ts) (\<lambda>rs. Inr (ms # rs))
      | _ \<Rightarrow> Inl (Errorf ''%w: drive_health entry is not an object'' [GWrap ErrMalformedEvidence]))"

definition View_DriveHealthRecords :: "View \<Rightarrow> payload_members list result" where
  "View_DriveHealthRecords v =
     check_then (err_if (vw_EntityKind v \<noteq> ''firmware_environment'')
        (Errorf ''%w: drive health is on firmware_environment facts'' [GWrap ErrMalformedEvidence]))
       (bindE (decodePayload (fe_Payload (vw_Envelope v))) (\<lambda>p.
          case member p ''drive_health'' of
            None \<Rightarrow> Inr []
          | Some VNull \<Rightarrow> Inr []
          | Some (VArr ts) \<Rightarrow> health_records ts
          | Some _ \<Rightarrow> Inl (Errorf ''%w: drive_health is not an array'' [GWrap ErrMalformedEvidence])))"

text \<open>
  \<^verbatim>\<open>strings.Contains(err.Error(), t)\<close>, for a text that is not spread over several parts of the
  message. The text of a JSON syntax or type error holds nothing of the document but a character or a number.
\<close>

fun error_mentions :: "string \<Rightarrow> go_error \<Rightarrow> bool"
and arg_mentions :: "string \<Rightarrow> go_arg \<Rightarrow> bool"
and args_mention :: "string \<Rightarrow> go_arg list \<Rightarrow> bool" where
  "error_mentions t (Sentinel s) = str_contains s t"
| "error_mentions t (Errorf f as) = (str_contains f t \<or> args_mention t as)"
| "error_mentions t (ErrStruct n fs) = False"
| "arg_mentions t (GStr s) = str_contains s t"
| "arg_mentions t (GNat n) = False"
| "arg_mentions t (GStrs ss) = list_ex (\<lambda>s. str_contains s t) ss"
| "arg_mentions t (GVal e) = error_mentions t e"
| "arg_mentions t (GWrap e) = error_mentions t e"
| "args_mention t [] = False"
| "args_mention t (a # as) = (arg_mentions t a \<or> args_mention t as)"

definition isUnsupportedEvidence :: "go_error \<Rightarrow> bool" where
  "isUnsupportedEvidence e = error_mentions ''unsupported facts schema'' e"

end
