(* ===== verification/GoText.thy ===== *)
theory GoText
  imports GoJsonDecode
begin

text \<open>
  Text in the Go standard library beyond the prelude: \<^verbatim>\<open>strings.ToLower\<close>, \<^verbatim>\<open>strings.ToUpper\<close> and
  \<^verbatim>\<open>strings.EqualFold\<close>, trimming, and \<^verbatim>\<open>fmt.Sscan\<close> into an \<^verbatim>\<open>int64\<close>.
\<close>

section \<open>Letters\<close>

text \<open>
  Outside ASCII only the runes whose other case is an ASCII letter are mapped (U+0130 and the Kelvin
  sign to lower case, dotless i and long s to upper case): the program compares the results with
  ASCII texts and searches ASCII texts in them.
\<close>

definition ascii_lower :: "char \<Rightarrow> char" where
  "ascii_lower c = (let n = (of_char c :: nat) in if 65 \<le> n \<and> n \<le> 90 then char_of (n + 32) else c)"

fun ToLower :: "string \<Rightarrow> string" where
  "ToLower [] = []"
| "ToLower (c # s) =
     (if c = CHR 0xC4 \<and> starts (CHR 0xB0) s then CHR ''i'' # ToLower (tl s)
      else if c = CHR 0xE2 \<and> take 2 s = [CHR 0x84, CHR 0xAA] then CHR ''k'' # ToLower (drop 2 s)
      else ascii_lower c # ToLower s)"

fun ToUpper :: "string \<Rightarrow> string" where
  "ToUpper [] = []"
| "ToUpper (c # s) =
     (if c = CHR 0xC4 \<and> starts (CHR 0xB1) s then CHR ''I'' # ToUpper (tl s)
      else if c = CHR 0xC5 \<and> starts (CHR 0xBF) s then CHR ''S'' # ToUpper (tl s)
      else ascii_upper c # ToUpper s)"

definition EqualFold :: "string \<Rightarrow> string \<Rightarrow> bool" where
  "EqualFold a b \<longleftrightarrow> fold_name a = fold_name b"

definition TrimPrefix :: "string \<Rightarrow> string \<Rightarrow> string" where
  "TrimPrefix s p = (if has_prefix p s then drop (length p) s else s)"

definition TrimSuffix :: "string \<Rightarrow> string \<Rightarrow> string" where
  "TrimSuffix s p = (if has_suffix p s then take (length s - length p) s else s)"

section \<open>fmt.Sscan\<close>

text \<open>
  \<^verbatim>\<open>strconv.ParseInt(tok, 0, 64)\<close>: an optional sign, a base prefix, digits with underscores between
  them. \<open>underscores_ok\<close> is the scan of \<^verbatim>\<open>underscoreOK\<close>, which remembers what it saw last.
\<close>

definition hex_letter :: "char \<Rightarrow> bool" where
  "hex_letter c \<longleftrightarrow> c \<in> set ''abcdefABCDEF''"

fun underscores_ok :: "bool \<Rightarrow> char \<Rightarrow> string \<Rightarrow> bool" where
  "underscores_ok hex i [] = (i \<noteq> CHR ''_'')"
| "underscores_ok hex i (c # s) =
     (if digit c \<or> hex \<and> hex_letter c then underscores_ok hex (CHR ''0'') s
      else if c = CHR ''_'' then i = CHR ''0'' \<and> underscores_ok hex (CHR ''_'') s
      else i \<noteq> CHR ''_'' \<and> underscores_ok hex (CHR ''!'') s)"

definition prefix_letter :: "string \<Rightarrow> char option" where
  "prefix_letter s =
     (case s of a # b # _ \<Rightarrow>
        let l = ascii_lower b in
        if a = CHR ''0'' \<and> l \<in> {CHR ''b'', CHR ''o'', CHR ''x''} then Some l else None
      | _ \<Rightarrow> None)"

definition underscoreOK :: "string \<Rightarrow> bool" where
  "underscoreOK s =
     (case prefix_letter s of
        Some l \<Rightarrow> underscores_ok (l = CHR ''x'') (CHR ''0'') (drop 2 s)
      | None \<Rightarrow> underscores_ok False (CHR ''^'') s)"

definition digit_value :: "char \<Rightarrow> int option" where
  "digit_value c =
     (let n = (of_char c :: int); l = (of_char (ascii_lower c) :: int) in
      if digit c then Some (n - 48) else if 97 \<le> l \<and> l \<le> 122 then Some (l - 87) else None)"

fun based_digits :: "int \<Rightarrow> int \<Rightarrow> string \<Rightarrow> int option" where
  "based_digits base n [] = Some n"
| "based_digits base n (c # s) =
     (if c = CHR ''_'' then based_digits base n s
      else (case digit_value c of None \<Rightarrow> None
            | Some d \<Rightarrow> if d < base then based_digits base (base * n + d) s else None))"

definition base_of :: "string \<Rightarrow> int \<times> string" where
  "base_of s =
     (if starts (CHR ''0'') s
      then (case prefix_letter s of
              Some l \<Rightarrow> if 3 \<le> length s
                        then (if l = CHR ''b'' then 2 else if l = CHR ''o'' then 8 else 16, drop 2 s)
                        else (8, tl s)
            | None \<Rightarrow> (8, tl s))
      else (10, s))"

definition ParseUint0 :: "string \<Rightarrow> int option" where
  "ParseUint0 s =
     (if s = [] then None
      else (case base_of s of (base, ds) \<Rightarrow>
        (case based_digits base 0 ds of None \<Rightarrow> None
         | Some n \<Rightarrow> if CHR ''_'' \<in> set ds \<and> \<not> underscoreOK s then None
                     else if n < 2 ^ 64 then Some n else None)))"

text \<open>
  \<^verbatim>\<open>scanInt\<close> with the verb \<^verbatim>\<open>v\<close>: spaces, a sign, then the longest run of the digits the prefix allows.
  What follows the number is left in the input and does not matter.
\<close>

definition scan_digits :: "string \<Rightarrow> string option" where
  "scan_digits s =
     (case prefix_letter s of
        Some l \<Rightarrow>
          Some (take 2 s @ takeWhile (\<lambda>c. c = CHR ''_'' \<or>
             (if l = CHR ''b'' then c \<in> set ''01'' else if l = CHR ''o'' then c \<in> set ''01234567''
              else digit c \<or> hex_letter c)) (drop 2 s))
      | None \<Rightarrow>
          if starts (CHR ''0'') s
          then Some (CHR ''0'' # takeWhile (\<lambda>c. c \<in> set ''01234567_'') (tl s))
          else (case takeWhile (\<lambda>c. digit c \<or> c = CHR ''_'') s of [] \<Rightarrow> None | tok \<Rightarrow> Some tok))"

definition Sscan_int64 :: "string \<Rightarrow> int option" where
  "Sscan_int64 text =
     (let s = strip_any space_runes text;
          neg = starts (CHR ''-'') s;
          s = (if neg \<or> starts (CHR ''+'') s then tl s else s) in
      case scan_digits s of
        None \<Rightarrow> None
      | Some tok \<Rightarrow>
          (case ParseUint0 tok of
             None \<Rightarrow> None
           | Some n \<Rightarrow> if neg then (if n \<le> 2 ^ 63 then Some (- n) else None)
                       else if n < 2 ^ 63 then Some n else None))"

end
