(* ===== verification/TopologyCodec.thy ===== *)
theory TopologyCodec
  imports DocCodecProofs
begin

text \<open>
  JSON of the boot topology (\<^verbatim>\<open>domain/windows_boot_topology.go\<close>). It travels as the facts of a bundle and
  is read back with \<^verbatim>\<open>json.Unmarshal\<close>, which ignores unknown members; the decoders below do, and the
  locale \<open>json_codec\<close> gives for each struct that reading restores what was written.
\<close>

section \<open>Structs with unknown members\<close>

definition dec_open_struct :: "'r field list \<Rightarrow> 'r decoder" where
  "dec_open_struct fs x t = (case snd t of VNull \<Rightarrow> Inr x
     | VObj ms \<Rightarrow> dec_members fs x (filter (\<lambda>(k, _). field_for fs k \<noteq> None) ms)
     | _ \<Rightarrow> Inl json_type_error)"

text \<open>\<^verbatim>\<open>json.Unmarshal\<close>: the whole input is checked to be one document first.\<close>

definition json_unmarshal :: "'a decoder \<Rightarrow> 'a \<Rightarrow> string \<Rightarrow> 'a result" where
  "json_unmarshal d z raw =
     (let s = skip_space raw in
      case parse_value max_nesting s of
        None \<Rightarrow> Inl json_syntax
      | Some (v, r) \<Rightarrow> if skip_space r = [] then d z (upto_rest s r, v) else Inl json_syntax)"

section \<open>Encoders and decoders\<close>

definition TopologyCandidate_json :: "TopologyCandidate \<Rightarrow> json" where
  "TopologyCandidate_json x = JObj
     [(''candidate_id'', JStr (tc_CandidateID x)), (''role'', JStr (tc_Role x)),
      (''target_id'', JStr (tc_TargetID x)), (''confidence'', JStr (tc_Confidence x)),
      (''evidence_refs'', json_strs (tc_EvidenceRefs x)),
      (''rationale_codes'', json_strs (tc_RationaleCodes x)),
      (''limitations'', json_strs (tc_Limitations x))]"

definition zero_TopologyCandidate :: TopologyCandidate where
  "zero_TopologyCandidate =
     \<lparr>tc_CandidateID = [], tc_Role = [], tc_TargetID = [], tc_Confidence = [], tc_EvidenceRefs = None,
      tc_RationaleCodes = None, tc_Limitations = None\<rparr>"

definition TopologyCandidate_fields :: "TopologyCandidate field list" where
  "TopologyCandidate_fields =
     [field_of ''candidate_id'' tc_CandidateID tc_CandidateID_update dec_string,
      field_of ''role'' tc_Role tc_Role_update dec_string,
      field_of ''target_id'' tc_TargetID tc_TargetID_update dec_string,
      field_of ''confidence'' tc_Confidence tc_Confidence_update dec_string,
      field_of ''evidence_refs'' tc_EvidenceRefs tc_EvidenceRefs_update dec_strings,
      field_of ''rationale_codes'' tc_RationaleCodes tc_RationaleCodes_update dec_strings,
      field_of ''limitations'' tc_Limitations tc_Limitations_update dec_strings]"

abbreviation dec_TopologyCandidate :: "TopologyCandidate decoder" where
  "dec_TopologyCandidate \<equiv> dec_open_struct TopologyCandidate_fields"

definition TopologyRelation_json :: "TopologyRelation \<Rightarrow> json" where
  "TopologyRelation_json x = JObj
     [(''relation_id'', JStr (tr_RelationID x)), (''relation_type'', JStr (tr_RelationType x)),
      (''from_target_id'', JStr (tr_FromTargetID x)), (''to_target_id'', JStr (tr_ToTargetID x)),
      (''confidence'', JStr (tr_Confidence x)), (''evidence_refs'', json_strs (tr_EvidenceRefs x)),
      (''rationale_codes'', json_strs (tr_RationaleCodes x)),
      (''limitations'', json_strs (tr_Limitations x))]"

definition zero_TopologyRelation :: TopologyRelation where
  "zero_TopologyRelation =
     \<lparr>tr_RelationID = [], tr_RelationType = [], tr_FromTargetID = [], tr_ToTargetID = [],
      tr_Confidence = [], tr_EvidenceRefs = None, tr_RationaleCodes = None, tr_Limitations = None\<rparr>"

definition TopologyRelation_fields :: "TopologyRelation field list" where
  "TopologyRelation_fields =
     [field_of ''relation_id'' tr_RelationID tr_RelationID_update dec_string,
      field_of ''relation_type'' tr_RelationType tr_RelationType_update dec_string,
      field_of ''from_target_id'' tr_FromTargetID tr_FromTargetID_update dec_string,
      field_of ''to_target_id'' tr_ToTargetID tr_ToTargetID_update dec_string,
      field_of ''confidence'' tr_Confidence tr_Confidence_update dec_string,
      field_of ''evidence_refs'' tr_EvidenceRefs tr_EvidenceRefs_update dec_strings,
      field_of ''rationale_codes'' tr_RationaleCodes tr_RationaleCodes_update dec_strings,
      field_of ''limitations'' tr_Limitations tr_Limitations_update dec_strings]"

abbreviation dec_TopologyRelation :: "TopologyRelation decoder" where
  "dec_TopologyRelation \<equiv> dec_open_struct TopologyRelation_fields"

definition TopologySelection_json :: "TopologySelection \<Rightarrow> json" where
  "TopologySelection_json x = JObj
     ([(''source'', JStr (ts_Source x))]
      @ omit_empty ''windows_target_id'' (ts_WindowsTargetID x)
      @ omit_empty ''windows_partition_target_id'' (ts_WindowsPartitionTargetID x)
      @ omit_empty ''system_disk_target_id'' (ts_SystemDiskTargetID x)
      @ omit_empty ''esp_target_id'' (ts_ESPTargetID x)
      @ omit_empty ''bcd_target_id'' (ts_BCDTargetID x))"

definition zero_TopologySelection :: TopologySelection where
  "zero_TopologySelection =
     \<lparr>ts_Source = [], ts_WindowsTargetID = [], ts_WindowsPartitionTargetID = [],
      ts_SystemDiskTargetID = [], ts_ESPTargetID = [], ts_BCDTargetID = []\<rparr>"

definition TopologySelection_fields :: "TopologySelection field list" where
  "TopologySelection_fields =
     [field_of ''source'' ts_Source ts_Source_update dec_string,
      field_of ''windows_target_id'' ts_WindowsTargetID ts_WindowsTargetID_update dec_string,
      field_of ''windows_partition_target_id'' ts_WindowsPartitionTargetID ts_WindowsPartitionTargetID_update dec_string,
      field_of ''system_disk_target_id'' ts_SystemDiskTargetID ts_SystemDiskTargetID_update dec_string,
      field_of ''esp_target_id'' ts_ESPTargetID ts_ESPTargetID_update dec_string,
      field_of ''bcd_target_id'' ts_BCDTargetID ts_BCDTargetID_update dec_string]"

abbreviation dec_TopologySelection :: "TopologySelection decoder" where
  "dec_TopologySelection \<equiv> dec_open_struct TopologySelection_fields"

definition TopologyAmbiguity_json :: "TopologyAmbiguity \<Rightarrow> json" where
  "TopologyAmbiguity_json x = JObj
     [(''code'', JStr (ta_Code x)), (''message'', JStr (ta_Message x)),
      (''target_ids'', json_strs (ta_TargetIDs x)), (''evidence_refs'', json_strs (ta_EvidenceRefs x))]"

definition zero_TopologyAmbiguity :: TopologyAmbiguity where
  "zero_TopologyAmbiguity =
     \<lparr>ta_Code = [], ta_Message = [], ta_TargetIDs = None, ta_EvidenceRefs = None\<rparr>"

definition TopologyAmbiguity_fields :: "TopologyAmbiguity field list" where
  "TopologyAmbiguity_fields =
     [field_of ''code'' ta_Code ta_Code_update dec_string,
      field_of ''message'' ta_Message ta_Message_update dec_string,
      field_of ''target_ids'' ta_TargetIDs ta_TargetIDs_update dec_strings,
      field_of ''evidence_refs'' ta_EvidenceRefs ta_EvidenceRefs_update dec_strings]"

abbreviation dec_TopologyAmbiguity :: "TopologyAmbiguity decoder" where
  "dec_TopologyAmbiguity \<equiv> dec_open_struct TopologyAmbiguity_fields"

definition MutationEligibility_json :: "MutationEligibility \<Rightarrow> json" where
  "MutationEligibility_json x = JObj
     [(''eligible'', JBool (me_Eligible x)), (''basis'', JStr (me_Basis x)),
      (''blockers'', json_strs (me_Blockers x))]"

definition zero_MutationEligibility :: MutationEligibility where
  "zero_MutationEligibility =
     \<lparr>me_Eligible = False, me_Basis = [], me_Blockers = None\<rparr>"

definition MutationEligibility_fields :: "MutationEligibility field list" where
  "MutationEligibility_fields =
     [field_of ''eligible'' me_Eligible me_Eligible_update dec_bool,
      field_of ''basis'' me_Basis me_Basis_update dec_string,
      field_of ''blockers'' me_Blockers me_Blockers_update dec_strings]"

abbreviation dec_MutationEligibility :: "MutationEligibility decoder" where
  "dec_MutationEligibility \<equiv> dec_open_struct MutationEligibility_fields"

definition WindowsBootTopology_json :: "WindowsBootTopology \<Rightarrow> json" where
  "WindowsBootTopology_json x = JObj
     [(''schema_name'', JStr (wt_SchemaName x)), (''schema_version'', JStr (wt_SchemaVersion x)),
      (''topology_id'', JStr (wt_TopologyID x)), (''case_id'', JStr (wt_CaseID x)),
      (''resolver_id'', JStr (wt_ResolverID x)), (''resolver_version'', JStr (wt_ResolverVersion x)),
      (''source_commit_id'', JStr (wt_SourceCommitID x)), (''generated_at'', JStr (wt_GeneratedAt x)),
      (''firmware_mode'', JStr (wt_FirmwareMode x)),
      (''candidates'', json_docs TopologyCandidate_json (wt_Candidates x)),
      (''relations'', json_docs TopologyRelation_json (wt_Relations x)),
      (''selection'', TopologySelection_json (wt_Selection x)),
      (''ambiguities'', json_docs TopologyAmbiguity_json (wt_Ambiguities x)),
      (''limitations'', json_strs (wt_Limitations x)),
      (''mutation_eligibility'', MutationEligibility_json (wt_MutationEligibility x))]"

definition zero_WindowsBootTopology :: WindowsBootTopology where
  "zero_WindowsBootTopology =
     \<lparr>wt_SchemaName = [], wt_SchemaVersion = [], wt_TopologyID = [], wt_CaseID = [], wt_ResolverID = [],
      wt_ResolverVersion = [], wt_SourceCommitID = [], wt_GeneratedAt = [], wt_FirmwareMode = [],
      wt_Candidates = None, wt_Relations = None, wt_Selection = zero_TopologySelection,
      wt_Ambiguities = None, wt_Limitations = None, wt_MutationEligibility = zero_MutationEligibility\<rparr>"

definition WindowsBootTopology_fields :: "WindowsBootTopology field list" where
  "WindowsBootTopology_fields =
     [field_of ''schema_name'' wt_SchemaName wt_SchemaName_update dec_string,
      field_of ''schema_version'' wt_SchemaVersion wt_SchemaVersion_update dec_string,
      field_of ''topology_id'' wt_TopologyID wt_TopologyID_update dec_string,
      field_of ''case_id'' wt_CaseID wt_CaseID_update dec_string,
      field_of ''resolver_id'' wt_ResolverID wt_ResolverID_update dec_string,
      field_of ''resolver_version'' wt_ResolverVersion wt_ResolverVersion_update dec_string,
      field_of ''source_commit_id'' wt_SourceCommitID wt_SourceCommitID_update dec_string,
      field_of ''generated_at'' wt_GeneratedAt wt_GeneratedAt_update dec_string,
      field_of ''firmware_mode'' wt_FirmwareMode wt_FirmwareMode_update dec_string,
      field_of ''candidates'' wt_Candidates wt_Candidates_update (dec_slice dec_TopologyCandidate zero_TopologyCandidate),
      field_of ''relations'' wt_Relations wt_Relations_update (dec_slice dec_TopologyRelation zero_TopologyRelation),
      field_of ''selection'' wt_Selection wt_Selection_update dec_TopologySelection,
      field_of ''ambiguities'' wt_Ambiguities wt_Ambiguities_update (dec_slice dec_TopologyAmbiguity zero_TopologyAmbiguity),
      field_of ''limitations'' wt_Limitations wt_Limitations_update dec_strings,
      field_of ''mutation_eligibility'' wt_MutationEligibility wt_MutationEligibility_update dec_MutationEligibility]"

abbreviation dec_WindowsBootTopology :: "WindowsBootTopology decoder" where
  "dec_WindowsBootTopology \<equiv> dec_open_struct WindowsBootTopology_fields"

section \<open>Reading back what was written\<close>

lemma open_struct_obj:
  assumes "\<forall>m \<in> set ms. field_for fs (fst m) \<noteq> None"
  shows "dec_open_struct fs r (t, value_of (JObj ms)) = dec_members fs r (members ms)"
proof -
  have "filter (\<lambda>(k, _). field_for fs k \<noteq> None) (members ms) = members ms"
    using assms by (intro filter_True) (auto simp: members_def)
  then show ?thesis by (simp add: dec_open_struct_def value_of_obj del: value_of.simps)
qed

lemma omit_known: "m \<in> set (omit_empty k v) \<Longrightarrow> fst m = k"
  by (auto simp: omit_empty_def split: if_splits)

lemmas open_codec_simps = open_struct_obj dec_members_append field_for_def field_of_def set_field_def

interpretation candidate_codec: json_codec TopologyCandidate_json dec_TopologyCandidate zero_TopologyCandidate "\<lambda>_. True"
proof
  fix x :: TopologyCandidate
  show "dec_TopologyCandidate zero_TopologyCandidate (text_of (TopologyCandidate_json x), value_of (TopologyCandidate_json x)) = Inr x"
    by (cases x) (simp add: open_codec_simps TopologyCandidate_json_def TopologyCandidate_fields_def zero_TopologyCandidate_def
        del: value_of.simps)
qed

interpretation relation_codec: json_codec TopologyRelation_json dec_TopologyRelation zero_TopologyRelation "\<lambda>_. True"
proof
  fix x :: TopologyRelation
  show "dec_TopologyRelation zero_TopologyRelation (text_of (TopologyRelation_json x), value_of (TopologyRelation_json x)) = Inr x"
    by (cases x) (simp add: open_codec_simps TopologyRelation_json_def TopologyRelation_fields_def zero_TopologyRelation_def
        del: value_of.simps)
qed

interpretation selection_codec: json_codec TopologySelection_json dec_TopologySelection zero_TopologySelection "\<lambda>_. True"
proof
  fix x :: TopologySelection
  have known: "\<forall>m \<in> set (omit_empty k v). field_for TopologySelection_fields (fst m) \<noteq> None"
    if "field_for TopologySelection_fields k \<noteq> None" for k v
    using that by (auto simp: omit_known)
  show "dec_TopologySelection zero_TopologySelection (text_of (TopologySelection_json x), value_of (TopologySelection_json x)) = Inr x"
    unfolding TopologySelection_json_def
    by (subst open_struct_obj)
       ((auto dest!: omit_known simp: TopologySelection_fields_def field_for_def field_of_def)[1],
        cases x, simp add: dec_members_append field_for_def field_of_def set_field_def
          TopologySelection_fields_def zero_TopologySelection_def del: value_of.simps)
qed

interpretation ambiguity_codec: json_codec TopologyAmbiguity_json dec_TopologyAmbiguity zero_TopologyAmbiguity "\<lambda>_. True"
proof
  fix x :: TopologyAmbiguity
  show "dec_TopologyAmbiguity zero_TopologyAmbiguity (text_of (TopologyAmbiguity_json x), value_of (TopologyAmbiguity_json x)) = Inr x"
    by (cases x) (simp add: open_codec_simps TopologyAmbiguity_json_def TopologyAmbiguity_fields_def zero_TopologyAmbiguity_def
        del: value_of.simps)
qed

interpretation eligibility_codec: json_codec MutationEligibility_json dec_MutationEligibility zero_MutationEligibility "\<lambda>_. True"
proof
  fix x :: MutationEligibility
  show "dec_MutationEligibility zero_MutationEligibility (text_of (MutationEligibility_json x), value_of (MutationEligibility_json x)) = Inr x"
    by (cases x) (simp add: open_codec_simps MutationEligibility_json_def MutationEligibility_fields_def zero_MutationEligibility_def
        del: value_of.simps)
qed

interpretation topology_codec: json_codec WindowsBootTopology_json dec_WindowsBootTopology zero_WindowsBootTopology "\<lambda>_. True"
proof
  fix x :: WindowsBootTopology
  show "dec_WindowsBootTopology zero_WindowsBootTopology (text_of (WindowsBootTopology_json x), value_of (WindowsBootTopology_json x)) = Inr x"
    by (cases x) (simp add: open_codec_simps WindowsBootTopology_json_def WindowsBootTopology_fields_def zero_WindowsBootTopology_def candidate_codec.slice_back relation_codec.slice_back ambiguity_codec.slice_back selection_codec.restores eligibility_codec.restores
        del: value_of.simps)
qed

end
