(* ===== verification/TargetResolver.thy ===== *)
theory TargetResolver
  imports EvidenceView GoText GoHash GoTime CaseSnapshot TopologyCodec "HOL-Library.AList"
begin

text \<open>
  The target resolver (\<^verbatim>\<open>internal/recovery/targetresolver\<close>): from the evidence of a case to the boot
  topology, its selection and whether a repair could be based on it. Each of the functions
  \<^verbatim>\<open>resolveX\<close> is a loop that appends to four slices; the model has the body of the loop as a
  function of one target and concatenates what it appends. The order in which Go ranges over the map
  of views is the parameter \<open>ord\<close>, and \<open>wall\<close> is the clock that is read when the request has no time.
\<close>

section \<open>The index of a snapshot\<close>

definition resolverID :: string where "resolverID = ''effexor-recovery-target-resolver''"
definition resolverVersion :: string where "resolverVersion = ''1.0.0''"
definition espGPTTypeGUID :: string where "espGPTTypeGUID = ''c12a7328-f81f-11d2-ba4b-00a0c93ec93b''"

record TechnicianSelection =
  sel_WindowsTargetID :: string
  sel_WindowsPartitionTargetID :: string
  sel_SystemDiskTargetID :: string
  sel_ESPTargetID :: string
  sel_BCDTargetID :: string

text \<open>A map from ids keeps the last element put under an id; \<open>ix_byType\<close> is sorted by id.\<close>

record index =
  ix_targets :: "string \<Rightarrow> Target option"
  ix_bundlesByTarget :: "string \<Rightarrow> EvidenceBundle list"
  ix_views :: "(string \<times> View) list"
  ix_firmwareTarget :: "Target option"
  ix_byType :: "string \<Rightarrow> Target list"

fun decode_views :: "(EvidenceBundle \<Rightarrow> go_error \<Rightarrow> go_error) \<Rightarrow> (string \<times> View) list \<Rightarrow> EvidenceBundle list \<Rightarrow>
    (string \<times> View) list result" where
  "decode_views f vs [] = Inr vs"
| "decode_views f vs (b # bs) =
     (case DecodeBundle b of
        Inl e \<Rightarrow> if isUnsupportedEvidence e then decode_views f vs bs else Inl (f b e)
      | Inr v \<Rightarrow> decode_views f (AList.update (ev_EvidenceID b) v vs) bs)"

definition targets_of_type :: "Target list \<Rightarrow> string \<Rightarrow> Target list" where
  "targets_of_type ts typ = sort_key tg_TargetID (filter (\<lambda>t. tg_TargetType t = typ) ts)"

definition buildIndex :: "Snapshot \<Rightarrow> index result" where
  "buildIndex s =
     bindE (decode_views (\<lambda>_ e. e) [] (snap_EvidenceBundles s)) (\<lambda>views. Inr
       \<lparr>ix_targets = map_of (rev (map (\<lambda>t. (tg_TargetID t, t)) (snap_Targets s))),
        ix_bundlesByTarget = (\<lambda>i. filter (\<lambda>b. ev_TargetID b = i) (snap_EvidenceBundles s)),
        ix_views = views,
        ix_firmwareTarget = List.find (\<lambda>t. tg_TargetType t = ''firmware'') (snap_Targets s),
        ix_byType = targets_of_type (snap_Targets s)\<rparr>)"

definition uniqueSorted :: "string list \<Rightarrow> string list" where
  "uniqueSorted vs = sort (remdups (filter (\<lambda>v. v \<noteq> []) vs))"

definition shortHash :: "string \<Rightarrow> string" where
  "shortHash part = take 12 (sha256Hex part)"

definition evidenceIDsForTarget :: "index \<Rightarrow> string \<Rightarrow> string list" where
  "evidenceIDsForTarget ix i = map ev_EvidenceID (ix_bundlesByTarget ix i)"

definition allEvidenceIDs :: "index \<Rightarrow> string list" where
  "allEvidenceIDs ix = uniqueSorted (map fst (ix_views ix))"

text \<open>The views of the bundles of a target, in the order of the bundles.\<close>

definition views_of :: "index \<Rightarrow> string \<Rightarrow> View list" where
  "views_of ix i = List.map_filter (\<lambda>b. map_of (ix_views ix) (ev_EvidenceID b)) (ix_bundlesByTarget ix i)"

definition targetIDs :: "Target list \<Rightarrow> string list" where
  "targetIDs ts = uniqueSorted (map tg_TargetID ts)"

definition normalizeGUID :: "string \<Rightarrow> string" where
  "normalizeGUID v = ToLower (TrimSuffix (TrimPrefix (trim_space v) ''{'') ''}'')"

definition parseLocatorInt :: "(string \<times> string) slice \<Rightarrow> string \<Rightarrow> int option" where
  "parseLocatorInt loc key =
     (case map_of (elems loc) key of None \<Rightarrow> None | Some s \<Rightarrow> Sscan_int64 s)"

definition driveLetterFromLocators :: "(string \<times> string) slice \<Rightarrow> string" where
  "driveLetterFromLocators loc = (case map_of (elems loc) ''drive_letter'' of None \<Rightarrow> [] | Some s \<Rightarrow> s)"

definition relatedPartitions :: "index \<Rightarrow> string \<Rightarrow> string list" where
  "relatedPartitions ix i = uniqueSorted (concat (map (\<lambda>v.
     filter (\<lambda>r. case ix_targets ix r of None \<Rightarrow> False | Some t \<Rightarrow> tg_TargetType t = ''partition'') (vw_RelatedTargetIDs v))
     (views_of ix i)))"

definition disks_numbered :: "index \<Rightarrow> View \<Rightarrow> string list" where
  "disks_numbered ix v =
     (case View_Partition v of
        Inl _ \<Rightarrow> []
      | Inr part \<Rightarrow>
          (case pt_DiskNumber part of
             None \<Rightarrow> []
           | Some n \<Rightarrow> map tg_TargetID (filter (\<lambda>d. parseLocatorInt (tg_RuntimeLocators d) ''disk_number'' = Some n)
                         (ix_byType ix ''disk''))))"

definition relatedDisks :: "index \<Rightarrow> string \<Rightarrow> string list" where
  "relatedDisks ix i = uniqueSorted (concat (map (\<lambda>v.
     filter (\<lambda>r. case ix_targets ix r of None \<Rightarrow> False | Some t \<Rightarrow> tg_TargetType t = ''disk'') (vw_RelatedTargetIDs v)
     @ disks_numbered ix v) (views_of ix i)))"

text \<open>A target that is not in the map is the zero value, without locators.\<close>

definition locators_of :: "index \<Rightarrow> string \<Rightarrow> (string \<times> string) slice" where
  "locators_of ix i = (case ix_targets ix i of None \<Rightarrow> None | Some t \<Rightarrow> tg_RuntimeLocators t)"

definition letterOnlyRelation :: "index \<Rightarrow> string \<Rightarrow> string \<Rightarrow> bool" where
  "letterOnlyRelation ix fromID toID =
     (let fl = driveLetterFromLocators (locators_of ix fromID);
          tl = driveLetterFromLocators (locators_of ix toID) in
      fl \<noteq> [] \<and> EqualFold fl tl)"

definition diskIsGPT :: "index \<Rightarrow> string \<Rightarrow> bool" where
  "diskIsGPT ix i \<longleftrightarrow>
     list_ex (\<lambda>v. case View_Disk v of Inl _ \<Rightarrow> False | Inr d \<Rightarrow> EqualFold (dk_PartitionStyle d) ''GPT'') (views_of ix i) \<or>
     (case map_of (elems (locators_of ix i)) ''partition_style'' of None \<Rightarrow> False | Some s \<Rightarrow> EqualFold s ''GPT'')"

section \<open>Firmware\<close>

definition firmware_modes :: "index \<Rightarrow> string list" where
  "firmware_modes ix = uniqueSorted (concat (map (\<lambda>t. concat (map (\<lambda>v.
     case View_Firmware v of
       Inl _ \<Rightarrow> []
     | Inr fw \<Rightarrow> map ToLower (filter (\<lambda>m. m \<noteq> []) [fw_BootFirmwareMode fw, fw_HardwareFirmwareMode fw]))
     (views_of ix (tg_TargetID t)))) (ix_byType ix ''firmware'')))"

definition ambiguity :: "string \<Rightarrow> string \<Rightarrow> string list \<Rightarrow> string list \<Rightarrow> TopologyAmbiguity" where
  "ambiguity code message targets refs =
     \<lparr>ta_Code = code, ta_Message = message, ta_TargetIDs = Some targets, ta_EvidenceRefs = Some refs\<rparr>"

definition resolveFirmware :: "index \<Rightarrow> string \<times> TopologyAmbiguity list \<times> string list" where
  "resolveFirmware ix =
     (case firmware_modes ix of
        [] \<Rightarrow> (FirmwareUnknown, [], [''firmware_mode_absent''])
      | [m] \<Rightarrow>
          if m = ''uefi'' then (FirmwareUEFI, [], [])
          else if m = ''bios'' \<or> m = ''legacy'' then (FirmwareBIOS, [], [])
          else (FirmwareUnknown, [], [''firmware_mode_unrecognized''])
      | _ \<Rightarrow> (FirmwareConflicting,
              [ambiguity ''firmware_conflicting'' ''conflicting firmware mode evidence''
                 (targetIDs (ix_byType ix ''firmware'')) (allEvidenceIDs ix)],
              [''firmware_mode_conflicting'']))"

definition firmwareConfidence :: "string \<Rightarrow> string" where
  "firmwareConfidence mode =
     (if mode = FirmwareUEFI \<or> mode = FirmwareBIOS then ConfidenceProven
      else if mode = FirmwareConflicting then ConfidenceAmbiguous else ConfidenceUnknown)"

definition firmwareBlockers :: "string \<Rightarrow> string list" where
  "firmwareBlockers mode =
     (if mode = FirmwareUnknown then [''firmware_unknown'']
      else if mode = FirmwareConflicting then [''firmware_conflicting'']
      else if mode = FirmwareBIOS then [''firmware_not_uefi'', ''unsupported_layout''] else [])"

section \<open>Windows, the EFI system partition and the boot store\<close>

record resolution =
  rs_cands :: "TopologyCandidate list"
  rs_rels :: "TopologyRelation list"
  rs_amb :: "TopologyAmbiguity list"
  rs_lims :: "string list"

definition candidate :: "string \<Rightarrow> string \<Rightarrow> string \<Rightarrow> string \<Rightarrow> string list \<Rightarrow> string list \<Rightarrow> TopologyCandidate" where
  "candidate prefix role target conf refs codes =
     \<lparr>tc_CandidateID = prefix @ shortHash target, tc_Role = role, tc_TargetID = target, tc_Confidence = conf,
      tc_EvidenceRefs = Some (uniqueSorted refs), tc_RationaleCodes = Some codes, tc_Limitations = Some []\<rparr>"

definition relation :: "string \<Rightarrow> string \<Rightarrow> string \<Rightarrow> string \<Rightarrow> string \<Rightarrow> string \<Rightarrow> string list \<Rightarrow> string \<Rightarrow> TopologyRelation" where
  "relation prefix hashed typ from_id to_id conf refs code =
     \<lparr>tr_RelationID = prefix @ shortHash hashed, tr_RelationType = typ, tr_FromTargetID = from_id,
      tr_ToTargetID = to_id, tr_Confidence = conf, tr_EvidenceRefs = Some (uniqueSorted refs),
      tr_RationaleCodes = Some [code], tr_Limitations = Some []\<rparr>"

text \<open>The disk of the one partition that hosts an installation.\<close>

definition resolve_disk :: "index \<Rightarrow> string \<Rightarrow> string list \<Rightarrow> resolution" where
  "resolve_disk ix part refs =
     (case relatedDisks ix part of
        [] \<Rightarrow> \<lparr>rs_cands = [], rs_rels = [], rs_amb = [], rs_lims = []\<rparr>
      | [disk] \<Rightarrow>
          \<lparr>rs_cands = [candidate ''cand.system_disk.'' RoleSystemDisk disk ConfidenceStrongInference
                         (evidenceIDsForTarget ix disk) [''system_disk_linked'']],
           rs_rels = [relation ''rel.contains.'' (disk @ part) RelationContains disk part ConfidenceStrongInference
                        (evidenceIDsForTarget ix part) ''partition_disk_related''],
           rs_amb = [], rs_lims = []\<rparr>
      | disks \<Rightarrow>
          \<lparr>rs_cands = [], rs_rels = [],
           rs_amb = [ambiguity ''system_disk_unresolved'' ''multiple disks related to windows partition'' disks refs],
           rs_lims = []\<rparr>)"

definition resolve_installation :: "index \<Rightarrow> Target \<Rightarrow> resolution" where
  "resolve_installation ix t =
     (let i = tg_TargetID t; refs = evidenceIDsForTarget ix i;
          windows = candidate ''cand.windows.'' RoleWindowsInstallation i ConfidenceStrongInference refs
                      [''windows_installation_present''];
          letter = driveLetterFromLocators (tg_RuntimeLocators t);
          lims = (if letter \<noteq> [] then [''drive_letter_runtime_only''] else []) in
      case relatedPartitions ix i of
        [] \<Rightarrow>
          \<lparr>rs_cands = [windows], rs_rels = [],
           rs_amb = (if letter \<noteq> [] then [ambiguity ''windows_partition_unresolved''
                       ''windows root drive letter has no matching partition'' [i] refs] else []),
           rs_lims = lims\<rparr>
      | [part] \<Rightarrow>
          (let only = letterOnlyRelation ix i part;
               conf = (if only then ConfidenceRuntimeOnly else ConfidenceStrongInference);
               code = (if only then ''hosts_windows_drive_letter'' else ''hosts_windows_related'');
               disk = resolve_disk ix part refs in
           \<lparr>rs_cands = [windows, candidate ''cand.windows_partition.'' RoleWindowsPartition part conf
                         (evidenceIDsForTarget ix part) [''windows_partition_linked'']] @ rs_cands disk,
            rs_rels = [relation ''rel.hosts_windows.'' (i @ part) RelationHostsWindows part i conf refs code] @ rs_rels disk,
            rs_amb = rs_amb disk, rs_lims = lims\<rparr>)
      | parts \<Rightarrow>
          \<lparr>rs_cands = [windows], rs_rels = [],
           rs_amb = [ambiguity ''windows_partition_unresolved'' ''multiple partitions related to windows installation''
                       (i # parts) refs],
           rs_lims = lims\<rparr>)"

definition all_resolutions :: "(Target \<Rightarrow> resolution) \<Rightarrow> Target list \<Rightarrow> resolution" where
  "all_resolutions f ts =
     \<lparr>rs_cands = concat (map (rs_cands \<circ> f) ts), rs_rels = concat (map (rs_rels \<circ> f) ts),
      rs_amb = concat (map (rs_amb \<circ> f) ts), rs_lims = uniqueSorted (concat (map (rs_lims \<circ> f) ts))\<rparr>"

definition resolveWindows :: "index \<Rightarrow> resolution" where
  "resolveWindows ix = all_resolutions (resolve_installation ix) (ix_byType ix ''windows_installation'')"

definition partition_payloads :: "index \<Rightarrow> string \<Rightarrow> PartitionPayload list" where
  "partition_payloads ix i =
     List.map_filter (\<lambda>v. case View_Partition v of Inl _ \<Rightarrow> None | Inr p \<Rightarrow> Some p) (views_of ix i)"

text \<open>
  The GUID matched is not empty, so the slice of payloads that match decides \<^verbatim>\<open>gpt != ""\<close>.
\<close>

definition resolve_partition :: "index \<Rightarrow> Target \<Rightarrow> resolution" where
  "resolve_partition ix t =
     (let i = tg_TargetID t; refs = evidenceIDsForTarget ix i; ps = partition_payloads ix i;
          gpt = list_ex (\<lambda>p. normalizeGUID (pt_GPTType p) = espGPTTypeGUID) ps;
          weak = list_ex (\<lambda>p. str_contains (ToUpper (pt_Type p)) ''EFI'' \<or> str_contains (ToUpper (pt_Type p)) ''SYSTEM'') ps;
          conf = (if gpt then ConfidenceProven else ConfidenceAmbiguous);
          code = (if gpt then ''esp_gpt_type_guid'' else ''esp_weak_type_field'') in
      if gpt \<or> weak
      then \<lparr>rs_cands = [candidate ''cand.esp.'' RoleEFISystemPartition i conf refs [code]],
            rs_rels = map (\<lambda>disk. relation ''rel.hosts_esp.'' (disk @ i) RelationHostsESP disk i conf refs ''esp_on_disk'')
                        (relatedDisks ix i),
            rs_amb = [], rs_lims = (if gpt then [] else [''esp_weak_type_only''])\<rparr>
      else \<lparr>rs_cands = [], rs_rels = [], rs_amb = [], rs_lims = []\<rparr>)"

definition resolveESP :: "index \<Rightarrow> resolution" where
  "resolveESP ix =
     (let r = all_resolutions (resolve_partition ix) (ix_byType ix ''partition'') in
      if 1 < length (rs_cands r)
      then r\<lparr>rs_amb := [ambiguity ''esp_ambiguous'' ''multiple EFI system partition candidates''
                          (map tc_TargetID (rs_cands r)) (allEvidenceIDs ix)]\<rparr>
      else r)"

definition resolve_store :: "index \<Rightarrow> Target \<Rightarrow> resolution" where
  "resolve_store ix t =
     (let i = tg_TargetID t; refs = evidenceIDsForTarget ix i;
          bcd = candidate ''cand.bcd.'' RoleBCDStore i ConfidenceStrongInference refs [''bcd_store_present''] in
      case relatedPartitions ix i of
        [] \<Rightarrow> \<lparr>rs_cands = [bcd], rs_rels = [],
               rs_amb = [ambiguity ''bcd_missing'' ''bcd store has no related partition'' [i] refs], rs_lims = []\<rparr>
      | [part] \<Rightarrow>
          (let only = letterOnlyRelation ix i part in
           \<lparr>rs_cands = [bcd],
            rs_rels = [relation ''rel.contains_bcd.'' (part @ i) RelationContainsBCDStore part i
                         (if only then ConfidenceRuntimeOnly else ConfidenceStrongInference) refs ''bcd_partition_linked''],
            rs_amb = [], rs_lims = (if only then [''bcd_drive_letter_runtime_only''] else [])\<rparr>)
      | parts \<Rightarrow> \<lparr>rs_cands = [bcd], rs_rels = [],
               rs_amb = [ambiguity ''bcd_ambiguous'' ''bcd store related to multiple partitions'' (i # parts) refs],
               rs_lims = []\<rparr>)"

definition resolveBCD :: "index \<Rightarrow> resolution" where
  "resolveBCD ix = all_resolutions (resolve_store ix) (ix_byType ix ''boot_store'')"

section \<open>BitLocker and storage health\<close>

type_synonym view_order = "(string \<times> View) list \<Rightarrow> (string \<times> View) list"

definition bitlocker_ambiguity :: "string \<Rightarrow> string \<Rightarrow> View \<Rightarrow> TopologyAmbiguity" where
  "bitlocker_ambiguity code message v =
     ambiguity code message [ev_TargetID (vw_Bundle v)] [ev_EvidenceID (vw_Bundle v)]"

text \<open>The blocker of one view and its ambiguity; none when it is unlocked or no BitLocker volume.\<close>

definition bitlocker_finding :: "View \<Rightarrow> (string \<times> TopologyAmbiguity) list" where
  "bitlocker_finding v =
     (if vw_EntityKind v \<noteq> ''bitlocker_volume'' then []
      else (case View_BitLocker v of
              Inl _ \<Rightarrow> [(''bitlocker_status_unknown'', bitlocker_ambiguity ''bitlocker_status_unknown''
                          ''bitlocker volume status could not be decoded'' v)]
            | Inr bl \<Rightarrow>
                (let status = ToLower (trim_space (bl_LockStatus bl));
                     protection = ToLower (trim_space (bl_ProtectionStatus bl));
                     is = (\<lambda>s. status = s \<or> protection = s) in
                 if is ''locked'' \<or> is ''inaccessible''
                 then [(''bitlocker_inaccessible'', bitlocker_ambiguity ''bitlocker_inaccessible''
                          ''bitlocker volume is locked or inaccessible'' v)]
                 else if is ''unlocked'' then []
                 else [(''bitlocker_status_unknown'', bitlocker_ambiguity ''bitlocker_status_unknown''
                          ''bitlocker volume status is empty or unrecognized'' v)])))"

definition bitlocker_limitations :: "index \<Rightarrow> string list" where
  "bitlocker_limitations ix = concat (map (\<lambda>t. map (\<lambda>_. ''bitlocker_inventory_unavailable'')
     (filter (\<lambda>l. str_contains l ''bitlocker'' \<and> str_contains l ''unavailable'') (elems (tg_Limitations t))))
     (ix_byType ix ''firmware''))"

definition resolveBitLocker :: "view_order \<Rightarrow> index \<Rightarrow> TopologyAmbiguity list \<times> string list \<times> string list" where
  "resolveBitLocker ord ix =
     (let fs = concat (map (bitlocker_finding \<circ> snd) (ord (ix_views ix))) in
      (map snd fs, uniqueSorted (bitlocker_limitations ix), uniqueSorted (map fst fs)))"

datatype driveHealthClass = driveHealthHealthy | driveHealthUnknown | driveHealthUnsafe

definition isRecognizedHealthyStatus :: "string \<Rightarrow> bool" where
  "isRecognizedHealthyStatus v \<longleftrightarrow> v \<in> {''healthy'', ''good'', ''ok'', ''passed'', ''pass''}"

definition classifyDriveHealth :: "payload_members \<Rightarrow> driveHealthClass" where
  "classifyDriveHealth rec =
     (let hs = ToLower (trim_space (string_or_empty rec ''health_status''));
          os = ToLower (trim_space (string_or_empty rec ''operational_status''));
          joined = trim_space (hs @ '' '' @ os) in
      if joined = [] \<or> hs = ''unknown'' \<or> os = ''unknown'' then driveHealthUnknown
      else if str_contains joined ''fail'' \<or> str_contains joined ''unhealthy'' \<or> str_contains joined ''critical''
      then driveHealthUnsafe
      else if isRecognizedHealthyStatus hs \<or> isRecognizedHealthyStatus os then driveHealthHealthy
      else driveHealthUnknown)"

definition health_classes :: "view_order \<Rightarrow> index \<Rightarrow> driveHealthClass list" where
  "health_classes ord ix = concat (map (\<lambda>(_, v).
     if vw_EntityKind v \<noteq> ''firmware_environment'' then []
     else (case View_DriveHealthRecords v of Inl _ \<Rightarrow> [] | Inr rs \<Rightarrow> map classifyDriveHealth rs))
     (ord (ix_views ix)))"

definition resolveHealth :: "view_order \<Rightarrow> index \<Rightarrow> TopologyAmbiguity list \<times> string list \<times> string list" where
  "resolveHealth ord ix =
     (let cs = health_classes ord ix;
          unsafe = driveHealthUnsafe \<in> set cs; unknown = driveHealthUnknown \<in> set cs;
          disks = targetIDs (ix_byType ix ''disk'') in
      if cs = [] \<or> (unknown \<and> \<not> unsafe)
      then (if unknown then [ambiguity ''storage_health_unknown'' ''storage health status is empty or unrecognized''
                               disks (allEvidenceIDs ix)] else [],
            [''storage_health_unknown''], [''storage_health_unknown''])
      else if unsafe
      then ([ambiguity ''storage_health_unsafe'' ''storage health reports unsafe status'' disks (allEvidenceIDs ix)],
            [], [''storage_health_unsafe''])
      else ([], [], []))"

section \<open>The selection\<close>

definition filterRole :: "TopologyCandidate list \<Rightarrow> string \<Rightarrow> TopologyCandidate list" where
  "filterRole cs role = filter (\<lambda>c. tc_Role c = role) cs"

definition countRole :: "TopologyCandidate list \<Rightarrow> string \<Rightarrow> nat" where
  "countRole cs role = length (filterRole cs role)"

text \<open>The target of the first candidate with a role; the zero value has no target.\<close>

definition firstRole :: "TopologyCandidate list \<Rightarrow> string \<Rightarrow> string" where
  "firstRole cs role = (case filterRole cs role of [] \<Rightarrow> [] | c # _ \<Rightarrow> tc_TargetID c)"

definition hasRelation :: "TopologyRelation list \<Rightarrow> string \<Rightarrow> string \<Rightarrow> string \<Rightarrow> bool" where
  "hasRelation rels typ from_id to_id \<longleftrightarrow> list_ex (\<lambda>r. tr_RelationType r = typ \<and> tr_FromTargetID r = from_id \<and>
     tr_ToTargetID r = to_id \<and> \<not> (tr_Confidence r = ConfidenceAmbiguous \<or> tr_Confidence r = ConfidenceUnknown)) rels"

definition hasAmbiguousConfidence :: "TopologyRelation list \<Rightarrow> bool" where
  "hasAmbiguousConfidence rels \<longleftrightarrow> list_ex (\<lambda>r. tr_Confidence r = ConfidenceAmbiguous) rels"

definition hasRuntimeOnlySelected :: "TopologyRelation list \<Rightarrow> TopologySelection \<Rightarrow> bool" where
  "hasRuntimeOnlySelected rels s \<longleftrightarrow> ts_Source s \<noteq> SelectionNone \<and>
     list_ex (\<lambda>r. tr_Confidence r = ConfidenceRuntimeOnly \<and>
       (tr_FromTargetID r \<in> set (selected_ids s) \<or> tr_ToTargetID r \<in> set (selected_ids s))) rels"

text \<open>The message of the first missing connection.\<close>

definition connection_problem :: "TopologyRelation list \<Rightarrow> TopologySelection \<Rightarrow> string option" where
  "connection_problem rels s =
     (let win = ts_WindowsTargetID s; part = ts_WindowsPartitionTargetID s; disk = ts_SystemDiskTargetID s;
          esp = ts_ESPTargetID s; bcd = ts_BCDTargetID s in
      if win \<noteq> [] \<and> part \<noteq> [] \<and> \<not> hasRelation rels RelationHostsWindows part win
      then Some ''windows installation is not connected to selected partition''
      else if part \<noteq> [] \<and> disk \<noteq> [] \<and> \<not> hasRelation rels RelationContains disk part
      then Some ''windows partition is not connected to selected system disk''
      else if esp \<noteq> [] \<and> disk \<noteq> [] \<and> \<not> hasRelation rels RelationHostsESP disk esp
      then Some ''ESP is not connected to selected system disk''
      else if bcd \<noteq> []
      then (if esp \<noteq> []
            then (if hasRelation rels RelationContainsBCDStore esp bcd then None
                  else Some ''BCD store is not connected to selected ESP'')
            else if part \<noteq> []
            then (if hasRelation rels RelationContainsBCDStore part bcd then None
                  else Some ''BCD store is not connected to selected windows partition'')
            else Some ''BCD selection requires ESP or windows partition'')
      else None)"

definition requireConnectedTopology :: "TopologyRelation list \<Rightarrow> TopologySelection \<Rightarrow> go_err" where
  "requireConnectedTopology rels s = map_option (\<lambda>m. Errorf m []) (connection_problem rels s)"

definition selection_target :: "index \<Rightarrow> string \<Rightarrow> string \<Rightarrow> go_err" where
  "selection_target ix i wantType =
     (case ix_targets ix i of
        None \<Rightarrow> Some (Errorf ''selection target %q not found'' [GStr i])
      | Some t \<Rightarrow> err_if (wantType \<noteq> [] \<and> tg_TargetType t \<noteq> wantType)
          (Errorf ''selection target %q has type %q want %q'' [GStr i, GStr (tg_TargetType t), GStr wantType]))"

definition validateTechnicianSelection :: "index \<Rightarrow> TopologyRelation list \<Rightarrow> TechnicianSelection \<Rightarrow> TopologySelection result" where
  "validateTechnicianSelection ix rels sel =
     check_then (first_err
       [err_if (sel_WindowsTargetID sel = [] \<or> sel_WindowsPartitionTargetID sel = [] \<or>
                sel_SystemDiskTargetID sel = [] \<or> sel_ESPTargetID sel = [])
          (Errorf ''technician selection is incomplete: windows, windows partition, system disk, and ESP are required'' []),
        selection_target ix (sel_WindowsTargetID sel) ''windows_installation'',
        selection_target ix (sel_WindowsPartitionTargetID sel) ''partition'',
        selection_target ix (sel_SystemDiskTargetID sel) ''disk'',
        selection_target ix (sel_ESPTargetID sel) ''partition'',
        (if sel_BCDTargetID sel \<noteq> [] then selection_target ix (sel_BCDTargetID sel) ''boot_store'' else None),
        err_if (\<not> diskIsGPT ix (sel_SystemDiskTargetID sel)) (Errorf ''cannot select ESP on non-GPT disk'' [])])
      (let out = \<lparr>ts_Source = SelectionTechnician, ts_WindowsTargetID = sel_WindowsTargetID sel,
                  ts_WindowsPartitionTargetID = sel_WindowsPartitionTargetID sel,
                  ts_SystemDiskTargetID = sel_SystemDiskTargetID sel, ts_ESPTargetID = sel_ESPTargetID sel,
                  ts_BCDTargetID = sel_BCDTargetID sel\<rparr> in
       check_then (requireConnectedTopology rels out) (Inr out))"

definition no_selection :: TopologySelection where
  "no_selection =
     \<lparr>ts_Source = SelectionNone, ts_WindowsTargetID = [], ts_WindowsPartitionTargetID = [],
      ts_SystemDiskTargetID = [], ts_ESPTargetID = [], ts_BCDTargetID = []\<rparr>"

text \<open>The selection the resolver makes on its own, with the blockers and ambiguities that come with it.\<close>

type_synonym selected = "TopologySelection \<times> string list \<times> TopologyAmbiguity list"

definition bcd_choice :: "TopologyCandidate list \<Rightarrow> string option" where
  "bcd_choice bcd = (case filterRole bcd RoleBCDStore of [] \<Rightarrow> Some [] | [c] \<Rightarrow> Some (tc_TargetID c) | _ \<Rightarrow> None)"

definition connected_selection :: "TopologyRelation list \<Rightarrow> TopologySelection \<Rightarrow> selected" where
  "connected_selection rels s =
     (case connection_problem rels s of
        None \<Rightarrow> (s, [], [])
      | Some m \<Rightarrow>
          (no_selection, [''unsupported_layout''],
           [ambiguity ''unsupported_layout'' m
              (uniqueSorted [ts_WindowsTargetID s, ts_WindowsPartitionTargetID s, ts_SystemDiskTargetID s,
                             ts_ESPTargetID s, ts_BCDTargetID s]) []]))"

definition automatic_selection ::
    "index \<Rightarrow> string \<Rightarrow> TopologyCandidate list \<Rightarrow> TopologyCandidate list \<Rightarrow> TopologyCandidate list \<Rightarrow>
     TopologyRelation list \<Rightarrow> selected" where
  "automatic_selection ix firmware windows esp bcd rels =
     (if firmware \<noteq> FirmwareUEFI then (no_selection, [''technician_selection_required''], [])
      else if countRole windows RoleWindowsInstallation \<noteq> 1 then (no_selection, [], [])
      else
        (let win = firstRole windows RoleWindowsInstallation; part = firstRole windows RoleWindowsPartition;
             disk = firstRole windows RoleSystemDisk in
         if part = [] \<or> disk = [] then (no_selection, [''windows_partition_unresolved''], [])
         else if \<not> diskIsGPT ix disk then (no_selection, [''disk_not_gpt''], [])
         else if length (filterRole esp RoleEFISystemPartition) \<noteq> 1 then (no_selection, [], [])
         else (case bcd_choice bcd of
                 None \<Rightarrow> (no_selection, [''bcd_ambiguous''], [])
               | Some bcdID \<Rightarrow>
                   if hasAmbiguousConfidence rels then (no_selection, [''evidence_incomplete''], [])
                   else connected_selection rels
                     \<lparr>ts_Source = SelectionAutomatic, ts_WindowsTargetID = win, ts_WindowsPartitionTargetID = part,
                      ts_SystemDiskTargetID = disk, ts_ESPTargetID = firstRole esp RoleEFISystemPartition,
                      ts_BCDTargetID = bcdID\<rparr>)))"

definition applySelection ::
    "index \<Rightarrow> string \<Rightarrow> TopologyCandidate list \<Rightarrow> TopologyCandidate list \<Rightarrow> TopologyCandidate list \<Rightarrow>
     TopologyRelation list \<Rightarrow> TechnicianSelection option \<Rightarrow> selected result" where
  "applySelection ix firmware windows esp bcd rels sel =
     (case sel of
        Some s \<Rightarrow> bindE (validateTechnicianSelection ix rels s) (\<lambda>out. Inr (out, [], []))
      | None \<Rightarrow> Inr (automatic_selection ix firmware windows esp bcd rels))"

section \<open>Resolve\<close>

record ResolveRequest =
  rq_Snapshot :: Snapshot
  rq_CommitID :: string
  rq_Selection :: "TechnicianSelection option"
  rq_Now :: instant

record ResolveResult =
  rr_Topology :: WindowsBootTopology
  rr_Evidence :: EvidenceBundle

text \<open>The errors of these two calls of \<^verbatim>\<open>json.Marshal\<close> are dropped.\<close>

definition marshalled :: "json \<Rightarrow> string" where
  "marshalled j = (case marshal j of Inl _ \<Rightarrow> [] | Inr s \<Rightarrow> s)"

definition topologyIDFor :: "WindowsBootTopology \<Rightarrow> string" where
  "topologyIDFor topo =
     ''topology-'' @ hex_encode (take 12 (sha256_sum
       (marshalled (WindowsBootTopology_json (topo\<lparr>wt_TopologyID := [], wt_GeneratedAt := []\<rparr>)))))"

definition evidenceIDFor :: "string \<Rightarrow> string \<Rightarrow> TopologySelection \<Rightarrow> string list \<Rightarrow> string \<Rightarrow> string" where
  "evidenceIDFor caseID commitID sel inputEvidence facts =
     ''evidence-'' @ hex_encode (take 12 (sha256_sum (marshalled (JObj
       [(''CaseID'', JStr caseID), (''CommitID'', JStr commitID), (''Selection'', TopologySelection_json sel),
        (''InputEvidence'', json_strs (Some (uniqueSorted inputEvidence))),
        (''FactsSHA'', JStr (sha256Hex facts))]))))"

text \<open>What the evidence says, before a selection is made.\<close>

record resolved_parts =
  rp_firmware :: string
  rp_cands :: "TopologyCandidate list"
  rp_windows :: resolution
  rp_esp :: resolution
  rp_bcd :: resolution
  rp_amb :: "TopologyAmbiguity list"
  rp_lims :: "string list"
  rp_blockers :: "string list"

definition firmware_candidate :: "index \<Rightarrow> Target \<Rightarrow> string \<Rightarrow> TopologyCandidate" where
  "firmware_candidate ix t mode =
     candidate ''cand.firmware.'' RoleFirmware (tg_TargetID t) (firmwareConfidence mode)
       (evidenceIDsForTarget ix (tg_TargetID t)) [''firmware_mode_observed'']"

definition resolve_parts :: "view_order \<Rightarrow> index \<Rightarrow> Target \<Rightarrow> resolved_parts" where
  "resolve_parts ord ix fw =
     (let (mode, fwAmb, fwLim) = resolveFirmware ix; win = resolveWindows ix; esp = resolveESP ix; bcd = resolveBCD ix;
          (bitAmb, bitLim, bitBlock) = resolveBitLocker ord ix;
          (healthAmb, healthLim, healthBlock) = resolveHealth ord ix in
      \<lparr>rp_firmware = mode,
       rp_cands = [firmware_candidate ix fw mode] @ rs_cands win @ rs_cands esp @ rs_cands bcd,
       rp_windows = win, rp_esp = esp, rp_bcd = bcd,
       rp_amb = fwAmb @ rs_amb win @ rs_amb esp @ rs_amb bcd @ bitAmb @ healthAmb,
       rp_lims = fwLim @ rs_lims win @ rs_lims esp @ rs_lims bcd @ bitLim @ healthLim,
       rp_blockers = bitBlock @ healthBlock\<rparr>)"

definition rp_rels :: "resolved_parts \<Rightarrow> TopologyRelation list" where
  "rp_rels p = rs_rels (rp_windows p) @ rs_rels (rp_esp p) @ rs_rels (rp_bcd p)"

definition layout_blockers :: "resolved_parts \<Rightarrow> TechnicianSelection option \<Rightarrow> TopologySelection \<Rightarrow> string list" where
  "layout_blockers p sel chosen =
     firmwareBlockers (rp_firmware p)
     @ (if rs_cands (rp_windows p) = [] then [''windows_missing''] else [])
     @ (if countRole (rs_cands (rp_windows p)) RoleWindowsInstallation > 1 \<and> sel = None then [''windows_ambiguous''] else [])
     @ (if rs_cands (rp_esp p) = [] then [''esp_missing''] else [])
     @ (if length (rs_cands (rp_esp p)) > 1 \<and> (case sel of None \<Rightarrow> True | Some s \<Rightarrow> sel_ESPTargetID s = [])
        then [''esp_ambiguous''] else [])
     @ (if hasRuntimeOnlySelected (rp_rels p) chosen then [''relation_runtime_only''] else [])"

definition ambiguity_key :: "TopologyAmbiguity \<Rightarrow> string" where
  "ambiguity_key a = ta_Code a @ join '','' (elems (ta_TargetIDs a))"

definition zero_time :: instant where
  "zero_time = \<lparr>unix_secs = - (epoch_days - 366) * 86400, nanos = 0\<rparr>"

definition build_topology :: "instant \<Rightarrow> ResolveRequest \<Rightarrow> resolved_parts \<Rightarrow> selected \<Rightarrow> WindowsBootTopology" where
  "build_topology wall req p selected =
     (let (chosen, selBlock, selAmb) = selected;
          blockers = uniqueSorted (rp_blockers p @ selBlock @ layout_blockers p (rq_Selection req) chosen);
          eligible = (blockers = [] \<and> ts_Source chosen \<noteq> SelectionNone);
          selection = (if \<not> eligible \<and> ts_Source chosen = SelectionAutomatic then no_selection else chosen);
          now = (if rq_Now req = zero_time then wall else rq_Now req);
          topo = \<lparr>wt_SchemaName = SchemaWindowsBootTopology, wt_SchemaVersion = SchemaVersion, wt_TopologyID = [],
                  wt_CaseID = cm_CaseID (snap_Case (rq_Snapshot req)), wt_ResolverID = resolverID,
                  wt_ResolverVersion = resolverVersion, wt_SourceCommitID = rq_CommitID req,
                  wt_GeneratedAt = format_rfc3339 now, wt_FirmwareMode = rp_firmware p,
                  wt_Candidates = Some (sort_key tc_CandidateID (rp_cands p)),
                  wt_Relations = Some (sort_key tr_RelationID (rp_rels p)), wt_Selection = selection,
                  wt_Ambiguities = Some (sort_key ambiguity_key (rp_amb p @ selAmb)),
                  wt_Limitations = Some (uniqueSorted (rp_lims p)),
                  wt_MutationEligibility = \<lparr>me_Eligible = eligible,
                    me_Basis = MutationEligibilityDiagnosticEvidenceOnly, me_Blockers = Some blockers\<rparr>\<rparr> in
      topo\<lparr>wt_TopologyID := topologyIDFor topo\<rparr>)"

definition topology_evidence :: "ResolveRequest \<Rightarrow> index \<Rightarrow> Target \<Rightarrow> WindowsBootTopology \<Rightarrow> EvidenceBundle result" where
  "topology_evidence req ix fw topo =
     bindE (marshal (WindowsBootTopology_json (topo\<lparr>wt_GeneratedAt := []\<rparr>))) (\<lambda>identityFacts.
     bindE (marshal (WindowsBootTopology_json topo)) (\<lambda>facts.
       (let caseID = cm_CaseID (snap_Case (rq_Snapshot req)) in Inr
         \<lparr>ev_SchemaName = SchemaEvidenceBundle, ev_SchemaVersion = SchemaVersion,
          ev_EvidenceID = evidenceIDFor caseID (rq_CommitID req) (wt_Selection topo) (allEvidenceIDs ix) identityFacts,
          ev_CaseID = caseID, ev_TargetID = tg_TargetID fw, ev_Collector = resolverID,
          ev_CollectorVersion = resolverVersion, ev_CapturedAt = wt_GeneratedAt topo, ev_SourceStatus = ''ok'',
          ev_FactsSchema = SchemaWindowsBootTopology, ev_Facts = Some facts, ev_Artifacts = Some [],
          ev_Limitations = wt_Limitations topo\<rparr>)))"

text \<open>\<open>ctx\<close> is what \<^verbatim>\<open>ctx.Err()\<close> returns.\<close>

definition Resolve :: "bool \<Rightarrow> view_order \<Rightarrow> instant \<Rightarrow> go_err \<Rightarrow> ResolveRequest \<Rightarrow> ResolveResult result" where
  "Resolve win ord wall ctx req =
     check_then ctx (
     check_then (err_if (rq_CommitID req = []) (Errorf ''commit_id is required'' []))
    (check_then (wrap_err (\<lambda>x. Errorf ''snapshot: %w'' [GWrap x]) (Snapshot_Validate win (rq_Snapshot req)))
    (bindE (buildIndex (rq_Snapshot req)) (\<lambda>ix.
     case ix_firmwareTarget ix of
       None \<Rightarrow> Inl (Errorf ''firmware target is required for topology evidence'' [])
     | Some fw \<Rightarrow>
         (let p = resolve_parts ord ix fw in
          bindE (applySelection ix (rp_firmware p) (rs_cands (rp_windows p)) (rs_cands (rp_esp p)) (rs_cands (rp_bcd p))
                   (rp_rels p) (rq_Selection req)) (\<lambda>selected.
          (let topo = build_topology wall req p selected in
           check_then (wrap_err (\<lambda>x. Errorf ''topology: %w'' [GWrap x]) (WindowsBootTopology_Validate topo))
          (bindE (topology_evidence req ix fw topo) (\<lambda>ev.
           check_then (wrap_err (\<lambda>x. Errorf ''evidence: %w'' [GWrap x]) (EvidenceBundle_Validate ev))
             (Inr \<lparr>rr_Topology = topo, rr_Evidence = ev\<rparr>))))))))))"

end
