(* ===== verification/TargetResolverProofs.thy ===== *)
theory TargetResolverProofs
  imports TargetResolver IntegrityProofs
begin

text \<open>
  What the parts of the resolver give: the views of a valid snapshot, the blockers that are left out,
  the selections that are made, and the references of what is built.
\<close>

section \<open>Sorted sets of ids\<close>

lemma set_uniqueSorted [simp]: "set (uniqueSorted vs) = set vs - {[]}"
  by (auto simp: uniqueSorted_def)

lemma distinct_uniqueSorted [simp]: "distinct (uniqueSorted vs)"
  by (simp add: uniqueSorted_def)

lemma uniqueSorted_cong: "set xs = set ys \<Longrightarrow> uniqueSorted xs = uniqueSorted ys"
  unfolding uniqueSorted_def by (rule sorted_distinct_set_unique) simp_all

lemma uniqueSorted_empty: "uniqueSorted vs = [] \<longleftrightarrow> (\<forall>v \<in> set vs. v = [])"
proof -
  have "uniqueSorted vs = [] \<longleftrightarrow> set (uniqueSorted vs) = {}" by (simp only: set_empty)
  then show ?thesis by auto
qed

lemma uniqueSorted_Nil [simp]: "uniqueSorted [] = []"
  by (simp add: uniqueSorted_def)

section \<open>The index\<close>

lemma views_update:
  "decode_views f vs bs = Inr ws \<Longrightarrow> distinct (map ev_EvidenceID bs) \<Longrightarrow> distinct (map fst vs) \<Longrightarrow>
    \<forall>b \<in> set bs. ev_EvidenceID b \<notin> fst ` set vs \<Longrightarrow>
    ws = vs @ List.map_filter (\<lambda>b. case DecodeBundle b of Inl _ \<Rightarrow> None | Inr v \<Rightarrow> Some (ev_EvidenceID b, v)) bs"
proof (induction bs arbitrary: vs)
  case Nil
  then show ?case by (simp add: List.map_filter_simps)
next
  case (Cons b bs)
  show ?case
  proof (cases "DecodeBundle b")
    case (Inl e)
    then show ?thesis using Cons by (auto simp: List.map_filter_simps split: if_splits)
  next
    case (Inr v)
    have new: "AList.update (ev_EvidenceID b) v vs = vs @ [(ev_EvidenceID b, v)]"
    proof -
      have "ev_EvidenceID b \<notin> fst ` set vs" using Cons.prems(4) by simp
      then show ?thesis by (induction vs) auto
    qed
    have "decode_views f (vs @ [(ev_EvidenceID b, v)]) bs = Inr ws" using Cons.prems(1) Inr new by simp
    moreover have "distinct (map ev_EvidenceID bs)" "distinct (map fst (vs @ [(ev_EvidenceID b, v)]))"
      "\<forall>c \<in> set bs. ev_EvidenceID c \<notin> fst ` set (vs @ [(ev_EvidenceID b, v)])"
      using Cons.prems(2,3,4) by (auto simp: image_iff)
    ultimately show ?thesis
      using Cons.IH [of "vs @ [(ev_EvidenceID b, v)]"] Inr by (simp add: List.map_filter_simps)
  qed
qed

lemma views_distinct: "decode_views f vs bs = Inr ws \<Longrightarrow> distinct (map fst vs) \<Longrightarrow> distinct (map fst ws)"
  by (induction bs arbitrary: vs) (auto simp: distinct_update split: sum.splits if_splits)

text \<open>In a valid snapshot the views are those of its bundles, and no two targets share an id.\<close>

definition decoded_views :: "Snapshot \<Rightarrow> (string \<times> View) list" where
  "decoded_views s = List.map_filter (\<lambda>b. case DecodeBundle b of Inl _ \<Rightarrow> None | Inr v \<Rightarrow> Some (ev_EvidenceID b, v))
     (snap_EvidenceBundles s)"

lemma index_of:
  assumes "Snapshot_Validate win s = None" "buildIndex s = Inr ix"
  shows "ix_views ix = decoded_views s" "distinct (map fst (ix_views ix))"
    "ix_bundlesByTarget ix i = filter (\<lambda>b. ev_TargetID b = i) (snap_EvidenceBundles s)"
    "ix_targets ix i = Some t \<longleftrightarrow> t \<in> set (snap_Targets s) \<and> tg_TargetID t = i"
    "set (ix_byType ix typ) = {t \<in> set (snap_Targets s). tg_TargetType t = typ}"
    "distinct (ix_byType ix typ)"
    "ix_firmwareTarget ix = Some fw \<Longrightarrow> fw \<in> set (snap_Targets s)"
proof -
  obtain views where v: "decode_views (\<lambda>_ e. e) [] (snap_EvidenceBundles s) = Inr views"
    and ix: "ix = \<lparr>ix_targets = map_of (rev (map (\<lambda>t. (tg_TargetID t, t)) (snap_Targets s))),
        ix_bundlesByTarget = (\<lambda>i. filter (\<lambda>b. ev_TargetID b = i) (snap_EvidenceBundles s)),
        ix_views = views, ix_firmwareTarget = List.find (\<lambda>t. tg_TargetType t = ''firmware'') (snap_Targets s),
        ix_byType = targets_of_type (snap_Targets s)\<rparr>"
    using assms(2) by (cases "decode_views (\<lambda>_ e. e) [] (snap_EvidenceBundles s)") (auto simp: buildIndex_def)
  have "distinct (map ev_EvidenceID (snap_EvidenceBundles s))" using valid_evidence [OF assms(1)] by blast
  from views_update [OF v this] have "views = decoded_views s" unfolding decoded_views_def by simp
  moreover have "distinct (map fst views)" using views_distinct [OF v] by simp
  ultimately show "ix_views ix = decoded_views s" "distinct (map fst (ix_views ix))" by (simp_all add: ix)
  show "ix_bundlesByTarget ix i = filter (\<lambda>b. ev_TargetID b = i) (snap_EvidenceBundles s)" by (simp add: ix)
  have d: "distinct (map tg_TargetID (snap_Targets s))" by (rule valid_ids(4) [OF assms(1)])
  then have m: "distinct (map fst (rev (map (\<lambda>t. (tg_TargetID t, t)) (snap_Targets s))))"
    by (simp add: rev_map [symmetric] comp_def)
  show "ix_targets ix i = Some t \<longleftrightarrow> t \<in> set (snap_Targets s) \<and> tg_TargetID t = i"
    using map_of_eq_Some_iff [OF m, of i t] by (auto simp: ix)
  show "set (ix_byType ix typ) = {t \<in> set (snap_Targets s). tg_TargetType t = typ}" "distinct (ix_byType ix typ)"
    using d by (auto simp: ix targets_of_type_def distinct_map)
  show "fw \<in> set (snap_Targets s)" if "ix_firmwareTarget ix = Some fw"
    using that by (auto simp: ix find_Some_iff)
qed

lemma decoded_view:
  "v \<in> snd ` set (decoded_views s) \<longleftrightarrow> (\<exists>b \<in> set (snap_EvidenceBundles s). DecodeBundle b = Inr v)"
  by (force simp: decoded_views_def List.map_filter_def split: sum.splits)

lemma decoded_ids: "set (map fst (decoded_views s)) \<subseteq> ev_EvidenceID ` set (snap_EvidenceBundles s)"
  by (auto simp: decoded_views_def List.map_filter_def split: sum.splits)

lemma view_bundle: "DecodeBundle b = Inr v \<Longrightarrow> vw_Bundle v = b"
  by (auto simp: DecodeBundle_def split: if_splits sum.splits)

section \<open>Firmware, BitLocker and health\<close>

lemma firmware_mode_known: "fst (resolveFirmware ix) \<in> {FirmwareUEFI, FirmwareBIOS, FirmwareUnknown, FirmwareConflicting}"
  by (auto simp: resolveFirmware_def split: list.splits)

lemma firmware_uefi: "firmwareBlockers (fst (resolveFirmware ix)) = [] \<Longrightarrow> fst (resolveFirmware ix) = FirmwareUEFI"
  using firmware_mode_known [of ix] by (auto simp: firmwareBlockers_def split: if_splits)

text \<open>What the source calls a known safe state of a volume.\<close>

definition volume_unlocked :: "View \<Rightarrow> bool" where
  "volume_unlocked v \<longleftrightarrow> (\<exists>bl. View_BitLocker v = Inr bl \<and>
     (let states = {ToLower (trim_space (bl_LockStatus bl)), ToLower (trim_space (bl_ProtectionStatus bl))} in
      ''unlocked'' \<in> states \<and> ''locked'' \<notin> states \<and> ''inaccessible'' \<notin> states))"

lemma bitlocker_finding_None:
  "bitlocker_finding v = [] \<longleftrightarrow> vw_EntityKind v = ''bitlocker_volume'' \<longrightarrow> volume_unlocked v"
  by (cases "View_BitLocker v") (auto simp: bitlocker_finding_def volume_unlocked_def Let_def)

lemma bitlocker_code: "f \<in> set (bitlocker_finding v) \<Longrightarrow> fst f \<noteq> []"
  by (auto simp: bitlocker_finding_def Let_def split: if_splits sum.splits)

text \<open>The order in which the views are visited.\<close>

definition reorders :: "view_order \<Rightarrow> bool" where
  "reorders ord \<longleftrightarrow> (\<forall>vs. mset (ord vs) = mset vs)"

lemma reorders_set: "reorders ord \<Longrightarrow> set (ord vs) = set vs"
  unfolding reorders_def by (metis mset_eq_setD)

lemma bitlocker_clear:
  assumes "reorders ord" "\<forall>x \<in> set (snd (snd (resolveBitLocker ord ix))). x = []"
    and "v \<in> snd ` set (ix_views ix)" "vw_EntityKind v = ''bitlocker_volume''"
  shows "volume_unlocked v"
proof -
  have "bitlocker_finding v = []"
  proof (rule ccontr)
    assume "bitlocker_finding v \<noteq> []"
    then obtain f where f: "f \<in> set (bitlocker_finding v)" by (cases "bitlocker_finding v") auto
    then have "fst f \<in> set (snd (snd (resolveBitLocker ord ix)))"
      using assms(3) bitlocker_code [OF f] by (force simp: resolveBitLocker_def Let_def reorders_set [OF assms(1)])
    then show False using assms(2) bitlocker_code [OF f] by blast
  qed
  then show ?thesis using assms(4) by (simp add: bitlocker_finding_None)
qed

definition health_of_view :: "View \<Rightarrow> driveHealthClass list" where
  "health_of_view v =
     (if vw_EntityKind v \<noteq> ''firmware_environment'' then []
      else (case View_DriveHealthRecords v of Inl _ \<Rightarrow> [] | Inr rs \<Rightarrow> map classifyDriveHealth rs))"

lemma health_classes_eq: "health_classes ord ix = concat (map (health_of_view \<circ> snd) (ord (ix_views ix)))"
  unfolding health_classes_def by (intro arg_cong [where f = concat] map_cong refl) (simp add: health_of_view_def case_prod_beta)

lemma health_clear:
  assumes "reorders ord" "\<forall>x \<in> set (snd (snd (resolveHealth ord ix))). x = []"
  shows "\<forall>v \<in> snd ` set (ix_views ix). \<forall>c \<in> set (health_of_view v). c = driveHealthHealthy"
    and "\<exists>v \<in> snd ` set (ix_views ix). health_of_view v \<noteq> []"
proof -
  define cs where "cs = health_classes ord ix"
  have cs: "cs \<noteq> []" "driveHealthUnknown \<notin> set cs" "driveHealthUnsafe \<notin> set cs"
    using assms(2) by (auto simp: resolveHealth_def Let_def cs_def split: if_splits)
  have all: "set cs = (\<Union>v \<in> snd ` set (ix_views ix). set (health_of_view v))"
    by (simp add: cs_def health_classes_eq reorders_set [OF assms(1)])
  have "c = driveHealthHealthy" if "c \<in> set cs" for c
    using cs that by (cases c) auto
  then show "\<forall>v \<in> snd ` set (ix_views ix). \<forall>c \<in> set (health_of_view v). c = driveHealthHealthy"
    unfolding all by blast
  have "set cs \<noteq> {}" using cs by simp
  then show "\<exists>v \<in> snd ` set (ix_views ix). health_of_view v \<noteq> []" unfolding all by force
qed

section \<open>Selections\<close>

text \<open>A selection every part of which is there and connected.\<close>

definition connected :: "TopologyRelation list \<Rightarrow> TopologySelection \<Rightarrow> bool" where
  "connected rels s \<longleftrightarrow>
     ts_WindowsTargetID s \<noteq> [] \<and> ts_WindowsPartitionTargetID s \<noteq> [] \<and> ts_SystemDiskTargetID s \<noteq> [] \<and> ts_ESPTargetID s \<noteq> [] \<and>
     hasRelation rels RelationHostsWindows (ts_WindowsPartitionTargetID s) (ts_WindowsTargetID s) \<and>
     hasRelation rels RelationContains (ts_SystemDiskTargetID s) (ts_WindowsPartitionTargetID s) \<and>
     hasRelation rels RelationHostsESP (ts_SystemDiskTargetID s) (ts_ESPTargetID s) \<and>
     (ts_BCDTargetID s \<noteq> [] \<longrightarrow> hasRelation rels RelationContainsBCDStore (ts_ESPTargetID s) (ts_BCDTargetID s))"

lemma connection_problem_None:
  assumes "connection_problem rels s = None"
    "ts_WindowsTargetID s \<noteq> []" "ts_WindowsPartitionTargetID s \<noteq> []" "ts_SystemDiskTargetID s \<noteq> []" "ts_ESPTargetID s \<noteq> []"
  shows "connected rels s"
  using assms unfolding connection_problem_def connected_def Let_def by (simp split: if_splits)

lemma technician_connected:
  assumes "validateTechnicianSelection ix rels sel = Inr s"
  shows "connected rels s" "diskIsGPT ix (ts_SystemDiskTargetID s)" "ts_Source s = SelectionTechnician"
  using assms connection_problem_None [of rels s]
  by (auto simp: validateTechnicianSelection_def requireConnectedTopology_def Let_def)

lemma sources [simp]: "SelectionNone \<noteq> SelectionAutomatic" "SelectionAutomatic \<noteq> SelectionNone"
  "SelectionTechnician \<noteq> SelectionNone" "SelectionTechnician \<noteq> SelectionAutomatic"
  by (simp_all add: SelectionNone_def SelectionAutomatic_def SelectionTechnician_def)

lemma no_selection_source [simp]: "ts_Source no_selection = SelectionNone"
  by (simp add: no_selection_def)

lemma firstRole_member: "filterRole cs role \<noteq> [] \<Longrightarrow> \<exists>c \<in> set cs. tc_Role c = role \<and> firstRole cs role = tc_TargetID c"
proof -
  assume "filterRole cs role \<noteq> []"
  then obtain c rest where c: "filterRole cs role = c # rest" by (cases "filterRole cs role") auto
  then have "c \<in> set (filterRole cs role)" by simp
  then show ?thesis using c by (intro bexI [of _ c]) (simp_all add: filterRole_def firstRole_def)
qed

lemma automatic_connected:
  assumes "automatic_selection ix fw windows esp bcd rels = (s, bs, as)" "ts_Source s \<noteq> SelectionNone"
    and "\<forall>c \<in> set windows \<union> set esp. tc_TargetID c \<noteq> []"
  shows "connected rels s" "diskIsGPT ix (ts_SystemDiskTargetID s)"
proof -
  let ?win = "firstRole windows RoleWindowsInstallation" and ?part = "firstRole windows RoleWindowsPartition"
  and ?disk = "firstRole windows RoleSystemDisk" and ?esp = "firstRole esp RoleEFISystemPartition"
  have c: "countRole windows RoleWindowsInstallation = 1" and pd: "?part \<noteq> []" "?disk \<noteq> []"
    and g: "diskIsGPT ix ?disk" and e: "length (filterRole esp RoleEFISystemPartition) = 1"
    using assms(1,2) by (auto simp: automatic_selection_def Let_def split: if_splits)
  obtain bcdID where b: "bcd_choice bcd = Some bcdID"
    using assms(1,2) c pd g e by (cases "bcd_choice bcd") (auto simp: automatic_selection_def Let_def split: if_splits)
  let ?s = "\<lparr>ts_Source = SelectionAutomatic, ts_WindowsTargetID = ?win, ts_WindowsPartitionTargetID = ?part,
      ts_SystemDiskTargetID = ?disk, ts_ESPTargetID = ?esp, ts_BCDTargetID = bcdID\<rparr>"
  have "connected_selection rels ?s = (s, bs, as)"
    using assms(1,2) c pd g e b by (auto simp: automatic_selection_def Let_def split: if_splits)
  with assms(2) have s: "s = ?s" "connection_problem rels ?s = None"
    by (auto simp: connected_selection_def split: option.splits)
  have ne: "?win \<noteq> []" "?esp \<noteq> []"
  proof -
    have "filterRole windows RoleWindowsInstallation \<noteq> []" "filterRole esp RoleEFISystemPartition \<noteq> []"
      using c e by (auto simp: countRole_def)
    then show "?win \<noteq> []" "?esp \<noteq> []" using firstRole_member assms(3) by fastforce+
  qed
  show "connected rels s" "diskIsGPT ix (ts_SystemDiskTargetID s)"
    using connection_problem_None [OF s(2)] ne pd g by (simp_all add: s(1))
qed

section \<open>What is built\<close>

text \<open>A successful run of \<^verbatim>\<open>Resolve\<close>, taken apart.\<close>

lemma Resolve_cases:
  assumes "Resolve win ord wall ctx req = Inr r"
  obtains ix fw p selected where
    "Snapshot_Validate win (rq_Snapshot req) = None" "buildIndex (rq_Snapshot req) = Inr ix"
    "ix_firmwareTarget ix = Some fw" "p = resolve_parts ord ix fw"
    "applySelection ix (rp_firmware p) (rs_cands (rp_windows p)) (rs_cands (rp_esp p)) (rs_cands (rp_bcd p))
       (rp_rels p) (rq_Selection req) = Inr selected"
    "rr_Topology r = build_topology wall req p selected"
    "WindowsBootTopology_Validate (rr_Topology r) = None"
    "topology_evidence req ix fw (rr_Topology r) = Inr (rr_Evidence r)" "EvidenceBundle_Validate (rr_Evidence r) = None"
  using assms unfolding Resolve_def by (auto simp: Let_def split: option.splits)

lemma parts_fields:
  "rp_firmware (resolve_parts ord ix fw) = fst (resolveFirmware ix)"
  "rp_windows (resolve_parts ord ix fw) = resolveWindows ix"
  "rp_esp (resolve_parts ord ix fw) = resolveESP ix" "rp_bcd (resolve_parts ord ix fw) = resolveBCD ix"
  "rp_cands (resolve_parts ord ix fw) = firmware_candidate ix fw (fst (resolveFirmware ix)) #
     rs_cands (resolveWindows ix) @ rs_cands (resolveESP ix) @ rs_cands (resolveBCD ix)"
  "rp_blockers (resolve_parts ord ix fw) = snd (snd (resolveBitLocker ord ix)) @ snd (snd (resolveHealth ord ix))"
  "rp_lims (resolve_parts ord ix fw) = snd (snd (resolveFirmware ix)) @ rs_lims (resolveWindows ix) @ rs_lims (resolveESP ix)
     @ rs_lims (resolveBCD ix) @ fst (snd (resolveBitLocker ord ix)) @ fst (snd (resolveHealth ord ix))"
  "rp_amb (resolve_parts ord ix fw) = fst (snd (resolveFirmware ix)) @ rs_amb (resolveWindows ix) @ rs_amb (resolveESP ix)
     @ rs_amb (resolveBCD ix) @ fst (resolveBitLocker ord ix) @ fst (resolveHealth ord ix)"
  by (simp_all add: resolve_parts_def split_beta Let_def)

lemma rels_eq: "rp_rels (resolve_parts ord ix fw) = rs_rels (resolveWindows ix) @ rs_rels (resolveESP ix) @ rs_rels (resolveBCD ix)"
  by (simp add: rp_rels_def parts_fields)

lemma topology_fields:
  fixes wall req p selected
  defines "t \<equiv> build_topology wall req p selected" and "chosen \<equiv> fst selected"
  defines "blockers \<equiv> uniqueSorted (rp_blockers p @ fst (snd selected) @ layout_blockers p (rq_Selection req) chosen)"
  defines "eligible \<equiv> blockers = [] \<and> ts_Source chosen \<noteq> SelectionNone"
  shows "wt_Candidates t = Some (sort_key tc_CandidateID (rp_cands p))"
    "wt_Relations t = Some (sort_key tr_RelationID (rp_rels p))"
    "wt_FirmwareMode t = rp_firmware p"
    "wt_Ambiguities t = Some (sort_key ambiguity_key (rp_amb p @ snd (snd selected)))"
    "wt_Limitations t = Some (uniqueSorted (rp_lims p))"
    "wt_MutationEligibility t = \<lparr>me_Eligible = eligible, me_Basis = MutationEligibilityDiagnosticEvidenceOnly, me_Blockers = Some blockers\<rparr>"
    "wt_Selection t = (if \<not> eligible \<and> ts_Source chosen = SelectionAutomatic then no_selection else chosen)"
    "wt_CaseID t = cm_CaseID (snap_Case (rq_Snapshot req))" "wt_SourceCommitID t = rq_CommitID req"
  by (simp_all add: assms build_topology_def Let_def split_beta) (metis sources(1))

lemma hasRelation_cong: "set xs = set ys \<Longrightarrow> hasRelation xs = hasRelation ys"
  by (intro ext) (simp add: hasRelation_def list_ex_iff)

lemma connected_cong: "set xs = set ys \<Longrightarrow> connected xs s = connected ys s"
  using hasRelation_cong [of xs ys] by (simp add: connected_def)

lemma hasRuntimeOnlySelected_cong: "set xs = set ys \<Longrightarrow> hasRuntimeOnlySelected xs s = hasRuntimeOnlySelected ys s"
  by (simp add: hasRuntimeOnlySelected_def list_ex_iff)

lemma layout_blockers_None:
  assumes "\<forall>b \<in> set (layout_blockers p sel chosen). b = []"
  shows "firmwareBlockers (rp_firmware p) = []" "\<not> hasRuntimeOnlySelected (rp_rels p) chosen"
proof -
  note all = assms [unfolded layout_blockers_def set_append ball_Un]
  from all have "\<forall>b \<in> set (firmwareBlockers (rp_firmware p)). b = []" by (elim conjE)
  moreover have "\<forall>b \<in> set (firmwareBlockers (rp_firmware p)). b \<noteq> []" by (auto simp: firmwareBlockers_def)
  ultimately show "firmwareBlockers (rp_firmware p) = []" by (cases "firmwareBlockers (rp_firmware p)") auto
  from all have "\<forall>b \<in> set (if hasRuntimeOnlySelected (rp_rels p) chosen then [''relation_runtime_only''] else []). b = []"
    by (elim conjE)
  then show "\<not> hasRuntimeOnlySelected (rp_rels p) chosen" by (simp split: if_split_asm)
qed

text \<open>A selection that is made is connected, on a GPT disk.\<close>

lemma selection_connected:
  assumes "applySelection ix fw windows esp bcd rels sel = Inr selected" "ts_Source (fst selected) \<noteq> SelectionNone"
    and "\<forall>c \<in> set windows \<union> set esp. tc_TargetID c \<noteq> []"
  shows "connected rels (fst selected)" "diskIsGPT ix (ts_SystemDiskTargetID (fst selected))"
proof -
  have "connected rels (fst selected) \<and> diskIsGPT ix (ts_SystemDiskTargetID (fst selected))"
  proof (cases sel)
    case None
    then have "automatic_selection ix fw windows esp bcd rels = (fst selected, fst (snd selected), snd (snd selected))"
      using assms(1) by (simp add: applySelection_def)
    from automatic_connected [OF this assms(2,3)] show ?thesis by blast
  next
    case (Some s)
    then show ?thesis
      using assms(1) technician_connected by (auto simp: applySelection_def)
  qed
  then show "connected rels (fst selected)" "diskIsGPT ix (ts_SystemDiskTargetID (fst selected))" by blast+
qed

section \<open>References\<close>

definition known_candidate :: "Snapshot \<Rightarrow> TopologyCandidate \<Rightarrow> bool" where
  "known_candidate s c \<longleftrightarrow> tc_TargetID c \<in> tg_TargetID ` set (snap_Targets s) \<and>
     set (elems (tc_EvidenceRefs c)) \<subseteq> ev_EvidenceID ` set (snap_EvidenceBundles s)"

definition known_relation :: "Snapshot \<Rightarrow> TopologyRelation \<Rightarrow> bool" where
  "known_relation s r \<longleftrightarrow> {tr_FromTargetID r, tr_ToTargetID r} \<subseteq> tg_TargetID ` set (snap_Targets s) \<and>
     set (elems (tr_EvidenceRefs r)) \<subseteq> ev_EvidenceID ` set (snap_EvidenceBundles s)"

definition known_ambiguity :: "Snapshot \<Rightarrow> TopologyAmbiguity \<Rightarrow> bool" where
  "known_ambiguity s a \<longleftrightarrow> set (elems (ta_TargetIDs a)) \<subseteq> tg_TargetID ` set (snap_Targets s) \<and>
     set (elems (ta_EvidenceRefs a)) \<subseteq> ev_EvidenceID ` set (snap_EvidenceBundles s)"

lemma known_built:
  "known_candidate s (candidate pre role t conf refs codes) \<longleftrightarrow> t \<in> tg_TargetID ` set (snap_Targets s) \<and>
     set refs - {[]} \<subseteq> ev_EvidenceID ` set (snap_EvidenceBundles s)"
  "known_relation s (relation pre h typ f t conf refs code) \<longleftrightarrow> {f, t} \<subseteq> tg_TargetID ` set (snap_Targets s) \<and>
     set refs - {[]} \<subseteq> ev_EvidenceID ` set (snap_EvidenceBundles s)"
  "known_ambiguity s (ambiguity code m ts refs) \<longleftrightarrow> set ts \<subseteq> tg_TargetID ` set (snap_Targets s) \<and>
     set refs \<subseteq> ev_EvidenceID ` set (snap_EvidenceBundles s)"
  by (simp_all add: known_candidate_def known_relation_def known_ambiguity_def candidate_def relation_def ambiguity_def)

definition known_resolution :: "Snapshot \<Rightarrow> resolution \<Rightarrow> bool" where
  "known_resolution s r \<longleftrightarrow> (\<forall>c \<in> set (rs_cands r). known_candidate s c) \<and> (\<forall>q \<in> set (rs_rels r). known_relation s q) \<and>
     (\<forall>a \<in> set (rs_amb r). known_ambiguity s a)"

lemma known_all: "\<forall>t \<in> set ts. known_resolution s (f t) \<Longrightarrow> known_resolution s (all_resolutions f ts)"
  by (auto simp: known_resolution_def all_resolutions_def)

lemma index_ids:
  assumes "Snapshot_Validate win s = None" "buildIndex s = Inr ix"
  shows "set (evidenceIDsForTarget ix i) \<subseteq> ev_EvidenceID ` set (snap_EvidenceBundles s)"
    "set (allEvidenceIDs ix) \<subseteq> ev_EvidenceID ` set (snap_EvidenceBundles s)"
    "set (relatedPartitions ix i) \<subseteq> tg_TargetID ` set (snap_Targets s)"
    "set (relatedDisks ix i) \<subseteq> tg_TargetID ` set (snap_Targets s)"
    "set (targetIDs (ix_byType ix typ)) \<subseteq> tg_TargetID ` set (snap_Targets s)"
    "t \<in> set (ix_byType ix typ) \<Longrightarrow> tg_TargetID t \<in> tg_TargetID ` set (snap_Targets s)"
proof -
  note ix = index_of [OF assms]
  show "set (evidenceIDsForTarget ix i) \<subseteq> ev_EvidenceID ` set (snap_EvidenceBundles s)"
    by (auto simp: evidenceIDsForTarget_def ix(3))
  show "set (allEvidenceIDs ix) \<subseteq> ev_EvidenceID ` set (snap_EvidenceBundles s)"
    using decoded_ids [of s] by (auto simp: allEvidenceIDs_def ix(1))
  show "set (relatedPartitions ix i) \<subseteq> tg_TargetID ` set (snap_Targets s)"
    by (auto simp: relatedPartitions_def ix(4) split: option.splits)
  have "set (disks_numbered ix v) \<subseteq> tg_TargetID ` set (snap_Targets s)" for v
    by (auto simp: disks_numbered_def ix(5) split: sum.splits option.splits)
  then show "set (relatedDisks ix i) \<subseteq> tg_TargetID ` set (snap_Targets s)"
    by (fastforce simp: relatedDisks_def ix(4) split: option.splits)
  show "set (targetIDs (ix_byType ix typ)) \<subseteq> tg_TargetID ` set (snap_Targets s)"
    by (auto simp: targetIDs_def ix(5))
  show "tg_TargetID t \<in> tg_TargetID ` set (snap_Targets s)" if "t \<in> set (ix_byType ix typ)"
    using that by (simp add: ix(5))
qed

lemma known_parts:
  assumes "Snapshot_Validate win s = None" "buildIndex s = Inr ix"
  shows "known_resolution s (resolveWindows ix)" "known_resolution s (resolveESP ix)" "known_resolution s (resolveBCD ix)"
proof -
  note ids = index_ids [OF assms]
  have parts: "x \<in> tg_TargetID ` set (snap_Targets s)" if "relatedPartitions ix i = xs" "x \<in> set xs" for i xs x
    using ids(3) [of i] that by blast
  have disks: "x \<in> tg_TargetID ` set (snap_Targets s)" if "relatedDisks ix i = xs" "x \<in> set xs" for i xs x
    using ids(4) [of i] that by blast
  have disk: "known_resolution s (resolve_disk ix p refs)"
    if "p \<in> tg_TargetID ` set (snap_Targets s)" "set refs \<subseteq> ev_EvidenceID ` set (snap_EvidenceBundles s)" for p refs
    using that ids(1) disks [of p "relatedDisks ix p", OF refl]
    by (auto simp: resolve_disk_def known_resolution_def known_built split: list.splits)
  have "known_resolution s (resolve_installation ix t)" if "t \<in> set (ix_byType ix ty)" for t ty
  proof (cases "relatedPartitions ix (tg_TargetID t)")
    case Nil
    then show ?thesis using ids(1) ids(6) [OF that]
      by (auto simp: resolve_installation_def known_resolution_def known_built Let_def)
  next
    case (Cons p ps)
    have p: "\<forall>x \<in> set (p # ps). x \<in> tg_TargetID ` set (snap_Targets s)" using parts [OF Cons] by blast
    show ?thesis
    proof (cases ps)
      case Nil
      then show ?thesis
        using Cons ids(1) ids(6) [OF that] p disk [of p "evidenceIDsForTarget ix (tg_TargetID t)"]
        by (auto simp: resolve_installation_def known_resolution_def known_built Let_def)
    next
      case (Cons q qs)
      then show ?thesis
        using \<open>relatedPartitions ix (tg_TargetID t) = p # ps\<close> ids(1) ids(6) [OF that] p
        by (auto simp: resolve_installation_def known_resolution_def known_built Let_def)
    qed
  qed
  then show "known_resolution s (resolveWindows ix)" unfolding resolveWindows_def by (blast intro: known_all)
  have "known_resolution s (resolve_partition ix t)" if "t \<in> set (ix_byType ix ty)" for t ty
    using ids(1) [of "tg_TargetID t"] ids(6) [OF that] disks [of "tg_TargetID t", OF refl]
    by (auto simp: resolve_partition_def known_resolution_def known_built Let_def)
  then have k: "known_resolution s (all_resolutions (resolve_partition ix) (ix_byType ix ''partition''))"
    by (blast intro: known_all)
  then show "known_resolution s (resolveESP ix)"
    using ids(2) by (auto simp: resolveESP_def Let_def known_resolution_def known_built known_candidate_def)
  have "known_resolution s (resolve_store ix t)" if "t \<in> set (ix_byType ix ty)" for t ty
    using ids(1) [of "tg_TargetID t"] ids(6) [OF that] parts [of "tg_TargetID t", OF refl]
    by (auto simp: resolve_store_def known_resolution_def known_built Let_def split: list.splits)
  then show "known_resolution s (resolveBCD ix)" unfolding resolveBCD_def by (blast intro: known_all)
qed

end
