(* ===== verification/GoJsonValid.thy ===== *)
theory GoJsonValid
  imports GoJsonRoundTrip
begin

text \<open>
  What \<^verbatim>\<open>json.Marshal\<close> writes, \<^verbatim>\<open>json.Valid\<close> accepts: the scanner, started before a value inside any
  brackets, ends behind it, for documents without raw messages.
\<close>

fun raw_free :: "json \<Rightarrow> bool" where
  "raw_free (JRaw r) = False"
| "raw_free (JArr js) = (\<forall>j \<in> set js. raw_free j)"
| "raw_free (JObj fs) = (\<forall>f \<in> set fs. raw_free (snd f))"
| "raw_free _ = True"

lemma json_run_append [simp]: "json_run st (xs @ ys) = json_run (json_run st xs) ys"
  by (simp add: json_run_def)

lemma json_run_Cons: "json_run st (c # s) = json_run (json_step st c) s"
  by (simp add: json_run_def)

lemma json_run_Nil [simp]: "json_run st [] = st"
  by (simp add: json_run_def)

section \<open>Strings\<close>

lemma in_string_step: "c \<noteq> CHR 0x22 \<Longrightarrow> c \<noteq> CHR 0x5C \<Longrightarrow> 32 \<le> (of_char c :: nat) \<Longrightarrow> json_step (InString, ps) c = (InString, ps)"
  by simp

lemma high_run: "\<forall>c \<in> set s. 128 \<le> (of_char c :: nat) \<Longrightarrow> json_run (InString, ps) s = (InString, ps)"
proof (induction s)
  case (Cons c s)
  have "c \<noteq> CHR 0x22" "c \<noteq> CHR 0x5C" using Cons.prems by auto
  then show ?case using Cons by (simp add: json_run_Cons)
qed simp

lemma utf8_high: "utf8_size (c # s) \<noteq> 0 \<Longrightarrow> \<forall>x \<in> set (take (utf8_size (c # s)) (c # s)). 128 \<le> (of_char x :: nat)"
proof -
  assume n: "utf8_size (c # s) \<noteq> 0"
  obtain b r where s: "s = b # r" using n by (cases s) (auto simp: utf8_size_def)
  define k where "k = utf8_size (c # s)"
  have k: "2 \<le> k" "0xC2 \<le> (of_char c :: nat)" "128 \<le> (of_char b :: nat)" "list_all (cont_byte 0x80 0xBF) (take (k - 2) r)"
    using n unfolding k_def s utf8_size_def Let_def list.case
    by (auto simp: cont_byte_def split: if_split_asm)
  have "take k (c # s) = c # b # take (k - 2) r" using k(1) by (cases k; cases "k - 1") (auto simp: s)
  then show ?thesis using k(2-4) by (auto simp: k_def [symmetric] list_all_iff cont_byte_def)
qed

lemma hex_step: "c \<in> set any_hex \<Longrightarrow> json_step (InStringEscU n, ps) c = (if n \<le> 1 then InString else InStringEscU (n - 1), ps)"
  by simp

lemma hex_digit_any: "n < 16 \<Longrightarrow> hex_digit n \<in> set any_hex"
proof -
  assume "n < 16"
  then have "hex_digit n \<in> set lower_hex" unfolding hex_digit_def by (intro nth_mem) (simp add: lower_hex_def)
  moreover have "set lower_hex \<subseteq> set any_hex" by (simp add: lower_hex_def any_hex_def)
  ultimately show ?thesis by blast
qed

lemma esc_u_run:
  assumes "a \<in> set any_hex" "b \<in> set any_hex" "c \<in> set any_hex" "d \<in> set any_hex"
  shows "json_run (InString, ps) [CHR 0x5C, CHR ''u'', a, b, c, d] = (InString, ps)"
  using assms by (simp add: json_run_Cons)

lemma esc_ascii_run:
  assumes "(of_char c :: nat) < 128"
  shows "json_run (InString, ps) (esc_ascii c) = (InString, ps)"
proof -
  have "json_run (InString, ps) (esc_u00 c) = (InString, ps)"
    using esc_u_run [of "CHR ''0''" "CHR ''0''" "hex_digit (of_char c div 16)" "hex_digit (of_char c mod 16)" ps]
      hex_digit_any [of "of_char c div 16"] hex_digit_any [of "of_char c mod 16"] assms
    by (simp add: esc_u00_def any_hex_def)
  then show ?thesis
    by (auto simp: esc_ascii_def json_run_Cons)
qed

lemma escape_run: "json_run (InString, ps) (json_escape s) = (InString, ps)"
proof (induction s rule: json_escape.induct)
  case 1
  then show ?case by simp
next
  case (2 c s)
  show ?case
  proof (cases "(of_char c :: nat) < 128")
    case True
    then show ?thesis using 2(1) by (simp add: json_escape.simps(2) esc_ascii_run)
  next
    case False
    have u: "json_run (InString, ps) (CHR 0x5C # ''ufffd'') = (InString, ps)"
      "json_run (InString, ps) (CHR 0x5C # ''u2028'') = (InString, ps)"
      "json_run (InString, ps) (CHR 0x5C # ''u2029'') = (InString, ps)"
      by (simp_all add: json_run_Cons any_hex_def)
    show ?thesis
    proof (cases "utf8_size (c # s) = 0")
      case True
      have "json_escape (c # s) = (CHR 0x5C # ''ufffd'') @ json_escape s"
        using False True by (simp add: json_escape.simps(2) Let_def)
      then show ?thesis using 2(2) [OF False refl refl True] u(1) by (simp only: json_run_append)
    next
      case n: False
      let ?r = "take (utf8_size (c # s)) (c # s)"
      have "json_escape (c # s) = (if ?r = line_sep then CHR 0x5C # ''u2028'' else if ?r = para_sep then CHR 0x5C # ''u2029'' else ?r)
          @ json_escape (drop (utf8_size (c # s) - 1) s)"
        using False n by (simp add: json_escape.simps(2) Let_def)
      then show ?thesis
        using 2(3) [OF False refl refl n] u(2,3) high_run [OF utf8_high [OF n], of ps]
        by (simp only: json_run_append if_split_asm split: if_split) simp
    qed
  qed
qed

lemma quote_run: "json_run (BeginValue, ps) (json_quote s) = (EndValue, ps)"
  "json_run (BeginString, ps) (json_quote s) = (EndValue, ps)"
  "json_run (BeginStringOrEmpty, ps) (json_quote s) = (EndValue, ps)"
  by (simp_all add: json_quote_def json_run_Cons scan_begin_value_def scan_begin_string_def json_space_def escape_run)

section \<open>Values\<close>

text \<open>Behind a value the scanner treats the bytes that may follow as the end of the value.\<close>

definition settled :: "json_scan \<Rightarrow> json_ctx list \<Rightarrow> bool" where
  "settled st ps \<longleftrightarrow> snd st = ps \<and> (fst st = ScanError \<longrightarrow> False) \<and>
     (\<forall>c \<in> {CHR '','', CHR '']'', CHR ''}'', CHR 0x20}. json_step st c = scan_end_value ps c)"

lemma settled_end [simp]: "settled (EndValue, ps) ps" "settled (EndTop, []) []"
  by (auto simp: settled_def json_space_def)

lemma settled_pop: "settled (scan_pop ps) ps"
  by (cases ps) (auto simp: scan_pop_def settled_def json_space_def)

lemma settled_number: "settled (NumZero, ps) ps" "settled (NumDigits, ps) ps"
  by (simp_all add: settled_def json_exp_def digits10_def)

lemma digit_member: "digit c \<Longrightarrow> c \<in> set digits10"
proof -
  assume "digit c"
  then have "48 \<le> (of_char c :: nat)" "(of_char c :: nat) \<le> 57" by (simp_all add: digit_def)
  then have "(of_char c :: nat) \<in> {48, 49, 50, 51, 52, 53, 54, 55, 56, 57}"
    unfolding insert_iff empty_iff by presburger
  then have "char_of (of_char c :: nat) \<in> char_of ` {48 :: nat, 49, 50, 51, 52, 53, 54, 55, 56, 57}" by (rule imageI)
  moreover have "char_of ` {48 :: nat, 49, 50, 51, 52, 53, 54, 55, 56, 57} = set digits10" by code_simp
  ultimately show ?thesis unfolding char_of_char by blast
qed

lemma digits_run: "list_all digit s \<Longrightarrow> json_run (NumDigits, ps) s = (NumDigits, ps)"
proof (induction s)
  case (Cons c s)
  have "c \<in> set digits10" using Cons.prems by (simp add: digit_member)
  then show ?case using Cons by (simp add: json_run_Cons)
qed simp

lemma nat_run: "\<exists>m \<in> {NumZero, NumDigits}. \<forall>st \<in> {(BeginValue, ps), (NumNeg, ps)}. json_run st (show_nat n) = (m, ps)"
proof (cases "n = 0")
  case True
  then show ?thesis by (simp add: show_nat.simps json_run_Cons scan_begin_value_def json_space_def char_of_def bit_0)
next
  case False
  then obtain c s where s: "show_nat n = c # s" "digit c" "list_all digit s" "c \<noteq> CHR ''0''"
    using show_nat_digits [of n] by (cases "show_nat n") auto
  then have "c \<in> set digits10" by (simp add: digit_member)
  moreover have "\<not> json_space c" "c \<notin> {CHR ''{'', CHR ''['', CHR 0x22, CHR ''-'', CHR ''t'', CHR ''f'', CHR ''n''}"
    using s(2) by (auto simp: digit_def json_space_def)
  ultimately show ?thesis
    using s by (simp add: json_run_Cons scan_begin_value_def digits_run)
qed

lemma int_run: "settled (json_run (BeginValue, ps) (show_int i)) ps"
proof -
  obtain m where m: "m \<in> {NumZero, NumDigits}"
    "\<forall>st \<in> {(BeginValue, ps), (NumNeg, ps)}. json_run st (show_nat (nat \<bar>i\<bar>)) = (m, ps)"
    using nat_run by blast
  then have "json_run (BeginValue, ps) (show_int i) = (m, ps)"
    by (cases "i < 0") (simp_all add: show_int_def json_run_Cons scan_begin_value_def json_space_def)
  then show ?thesis using m(1) settled_number by auto
qed

lemma settled_step:
  "settled st ps \<Longrightarrow> json_step st CHR '','' = scan_end_value ps CHR '',''"
  "settled st ps \<Longrightarrow> json_step st CHR '']'' = scan_end_value ps CHR '']''"
  "settled st ps \<Longrightarrow> json_step st CHR ''}'' = scan_end_value ps CHR ''}''"
  by (simp_all add: settled_def)

abbreviation scans :: "nat \<Rightarrow> json \<Rightarrow> bool" where
  "scans d j \<equiv> \<forall>s ps. marshal j = Inr s \<longrightarrow> length ps + d \<le> max_nesting \<longrightarrow>
     value_start s \<and> settled (json_run (BeginValue, ps) s) ps"

lemma start_or_empty: "value_start s \<Longrightarrow> json_run (BeginValueOrEmpty, ps) s = json_run (BeginValue, ps) s"
  by (cases s) (auto simp: value_start_def json_run_Cons)

lemma elems_run:
  assumes "\<forall>j \<in> set js. scans d j" "js \<noteq> []" "marshal_list js = Inr ss" "length ps + d < max_nesting"
  shows "json_run (BeginValue, ArrayValue # ps) (join '','' ss @ '']'') = scan_pop ps \<and> value_start (join '','' ss)"
  using assms
proof (induction js arbitrary: ss)
  case (Cons j js)
  from Cons.prems obtain t ts where t: "marshal j = Inr t" and ts: "marshal_list js = Inr ts" "ss = t # ts"
    by auto
  have "scans d j" using Cons.prems(1) by simp
  from this [rule_format, OF t, of "ArrayValue # ps"]
  have st: "value_start t" "settled (json_run (BeginValue, ArrayValue # ps) t) (ArrayValue # ps)"
    using Cons.prems(4) by simp_all
  show ?case
  proof (cases "js = []")
    case True
    with ts have "ss = [t]" by simp
    then show ?thesis using st by (simp add: json_run_Cons settled_step json_space_def)
  next
    case False
    then have ne: "ts \<noteq> []" using ts by (cases js) auto
    have "json_run (BeginValue, ArrayValue # ps) (join '','' ts @ '']'') = scan_pop ps"
      using Cons.IH [OF _ False ts(1)] Cons.prems by auto
    moreover have "value_start (t @ x)" for x using st(1) by (cases t) (auto simp: value_start_def)
    ultimately show ?thesis using st ne ts(2) by (simp add: join_Cons json_run_Cons settled_step json_space_def)
  qed
qed simp

lemma members_run:
  assumes "\<forall>f \<in> set fs. scans d (snd f)" "fs \<noteq> []" "marshal_fields fs = Inr ss" "length ps + d < max_nesting"
    and "m \<in> {BeginString, BeginStringOrEmpty}"
  shows "json_run (m, ObjectKey # ps) (join '','' ss @ ''}'') = scan_pop ps"
  using assms
proof (induction fs arbitrary: ss m)
  case (Cons f fs)
  obtain k j where f: "f = (k, j)" by (cases f)
  from Cons.prems obtain t ts where t: "marshal j = Inr t" and ts: "marshal_fields fs = Inr ts"
      "ss = (json_quote k @ CHR '':'' # t) # ts"
    by (auto simp: f)
  have "scans d j" using Cons.prems(1) by (simp add: f)
  from this [rule_format, OF t, of "ObjectValue # ps"]
  have st: "value_start t" "settled (json_run (BeginValue, ObjectValue # ps) t) (ObjectValue # ps)"
    using Cons.prems(4) by simp_all
  have key: "json_run (m, ObjectKey # ps) (json_quote k @ CHR '':'' # x) = json_run (BeginValue, ObjectValue # ps) x" for x
    using Cons.prems(5) quote_run(2,3) [of "ObjectKey # ps" k] by (auto simp: json_run_Cons json_space_def)
  show ?case
  proof (cases "fs = []")
    case True
    with ts have "ss = [json_quote k @ CHR '':'' # t]" by simp
    then show ?thesis using st key [of "t @ ''}''"] by (simp add: json_run_Cons settled_step json_space_def)
  next
    case False
    then have ne: "ts \<noteq> []" using ts by (cases fs) auto
    have "json_run (BeginString, ObjectKey # ps) (join '','' ts @ ''}'') = scan_pop ps"
      using Cons.IH [OF _ False ts(1)] Cons.prems by auto
    then show ?thesis
      using st ne ts(2) key [of "t @ CHR '','' # join '','' ts @ ''}''"]
      by (simp add: join_Cons json_run_Cons settled_step json_space_def)
  qed
qed simp

theorem marshal_scans: "json_fits d j \<Longrightarrow> raw_free j \<Longrightarrow> scans d j"
proof (induction d j rule: json_fits.induct)
  case (1 d)
  then show ?case by (simp add: value_start_def json_run_Cons scan_begin_value_def json_space_def)
next
  case (2 d b)
  then show ?case by (simp add: value_start_def json_run_Cons scan_begin_value_def json_space_def)
next
  case (3 d i)
  then show ?case using digit_start(1) [OF show_int_start(2,1)] int_run by simp
next
  case (4 d s)
  then show ?case by (simp add: quote_run) (simp add: json_quote_def value_start_def json_space_def)
next
  case (5 d js)
  then obtain e where d: "d = Suc e" by (cases d) auto
  have all: "\<forall>j \<in> set js. scans e j" using 5 by (simp add: d)
  show ?case
  proof (intro allI impI)
    fix s and ps :: "json_ctx list"
    assume s: "marshal (JArr js) = Inr s" and l: "length ps + d \<le> max_nesting"
    then obtain ss where ss: "marshal_list js = Inr ss" "s = ''['' @ join '','' ss @ '']''" by auto
    have open_run: "json_run (BeginValue, ps) (CHR ''['' # x) = json_run (BeginValueOrEmpty, ArrayValue # ps) x" for x
      using l by (simp add: d json_run_Cons scan_begin_value_def json_space_def scan_push_def)
    have "json_run (BeginValue, ps) s = scan_pop ps"
    proof (cases "js = []")
      case True
      then show ?thesis using ss open_run [of "'']''"] by (simp add: json_run_Cons json_space_def)
    next
      case False
      have run: "json_run (BeginValue, ArrayValue # ps) (join '','' ss @ '']'') = scan_pop ps" "value_start (join '','' ss)"
        using elems_run [OF all False ss(1), of ps] l by (simp_all add: d)
      then have "value_start (join '','' ss @ '']'')" by (cases "join '','' ss") (auto simp: value_start_def)
      then show ?thesis using ss open_run run start_or_empty by simp
    qed
    then show "value_start s \<and> settled (json_run (BeginValue, ps) s) ps"
      using ss(2) settled_pop by (simp add: value_start_def json_space_def)
  qed
next
  case (6 d fs)
  then obtain e where d: "d = Suc e" by (cases d) auto
  have all: "\<forall>f \<in> set fs. scans e (snd f)" using 6 by (simp add: d)
  show ?case
  proof (intro allI impI)
    fix s and ps :: "json_ctx list"
    assume s: "marshal (JObj fs) = Inr s" and l: "length ps + d \<le> max_nesting"
    then obtain ss where ss: "marshal_fields fs = Inr ss" "s = ''{'' @ join '','' ss @ ''}''" by auto
    have open_run: "json_run (BeginValue, ps) (CHR ''{'' # x) = json_run (BeginStringOrEmpty, ObjectKey # ps) x" for x
      using l by (simp add: d json_run_Cons scan_begin_value_def json_space_def scan_push_def)
    have "json_run (BeginValue, ps) s = scan_pop ps"
    proof (cases "fs = []")
      case True
      then show ?thesis using ss open_run [of "''}''"] by (simp add: json_run_Cons json_space_def)
    next
      case False
      then show ?thesis using members_run [OF all False ss(1)] l open_run ss(2) by (simp add: d)
    qed
    then show "value_start s \<and> settled (json_run (BeginValue, ps) s) ps"
      using ss(2) settled_pop by (simp add: value_start_def json_space_def)
  qed
qed simp

corollary marshal_valid:
  assumes "json_fits max_nesting j" "raw_free j" "marshal j = Inr s"
  shows "json_valid s" "s \<noteq> []"
proof -
  have st: "settled (json_run (BeginValue, []) s) []" "value_start s"
    using marshal_scans [OF assms(1,2)] assms(3) by auto
  obtain m where m: "json_run (BeginValue, []) s = (m, [])" "m \<noteq> ScanError"
    using st(1) by (cases "json_run (BeginValue, []) s") (auto simp: settled_def)
  have "json_step (m, []) CHR 0x20 = scan_end_value [] CHR 0x20" using st(1) m(1) by (simp add: settled_def)
  then show "json_valid s" using m by (simp add: json_valid_def json_space_def)
  show "s \<noteq> []" using st(2) by (simp add: value_start_def)
qed

end
