(* ===== verification/ResolverValidity.thy ===== *)
theory ResolverValidity
  imports TargetResolverProofs GoJsonValid AsciiText
begin

text \<open>
  Everything \<^verbatim>\<open>Resolve\<close> builds from a valid snapshot passes the validation of its own document, with
  one exception: nothing keeps two candidates or two relations from having the same identifier.
\<close>

section \<open>The identifiers of the snapshot\<close>

lemma snapshot_ids:
  assumes "Snapshot_Validate win s = None"
  shows "t \<in> set (snap_Targets s) \<Longrightarrow> reTargetID (tg_TargetID t)"
    "b \<in> set (snap_EvidenceBundles s) \<Longrightarrow> reEvidenceID (ev_EvidenceID b)"
    "b \<in> set (snap_EvidenceBundles s) \<Longrightarrow> reTargetID (ev_TargetID b)"
    "reCaseID (cm_CaseID (snap_Case s))" "distinct (map ev_EvidenceID (snap_EvidenceBundles s))"
proof -
  have "Target_Validate t = None" if "t \<in> set (snap_Targets s)" for t
    using valid_case(5) [OF assms] that by (simp add: check_target_set_def Let_def)
  then show "reTargetID (tg_TargetID t)" if "t \<in> set (snap_Targets s)"
    using that by (auto simp: Target_Validate_def)
  obtain refs where "\<forall>e \<in> set (snap_EvidenceBundles s). ValidateEvidenceRefs refs e = None"
    using valid_document_refs [OF assms] by metis
  then have "EvidenceBundle_Validate b = None" if "b \<in> set (snap_EvidenceBundles s)" for b
    using that by (auto simp: ValidateEvidenceRefs_def)
  then show "reEvidenceID (ev_EvidenceID b)" "reTargetID (ev_TargetID b)" if "b \<in> set (snap_EvidenceBundles s)"
    using that by (auto simp: EvidenceBundle_Validate_def)
  show "reCaseID (cm_CaseID (snap_Case s))"
    using valid_case(1) [OF assms] by (simp add: CaseManifest_Validate_def)
  show "distinct (map ev_EvidenceID (snap_EvidenceBundles s))" using valid_evidence [OF assms] by blast
qed

lemma id_nonempty [simp]: "\<not> reTargetID []" "\<not> reEvidenceID []"
  by (simp_all add: re_defs re_run_def has_prefix_def)

text \<open>The parts of an index that are written into documents.\<close>

lemma index_refs:
  assumes "Snapshot_Validate win s = None" "buildIndex s = Inr ix"
  shows "\<forall>e \<in> set (evidenceIDsForTarget ix i). reEvidenceID e" "distinct (evidenceIDsForTarget ix i)"
    "\<forall>e \<in> set (allEvidenceIDs ix). reEvidenceID e" "distinct (allEvidenceIDs ix)"
    "\<forall>t \<in> set (relatedPartitions ix i). reTargetID t" "distinct (relatedPartitions ix i)"
    "\<forall>t \<in> set (relatedDisks ix i). reTargetID t" "distinct (relatedDisks ix i)"
    "\<forall>t \<in> set (targetIDs (ix_byType ix k)). reTargetID t" "distinct (targetIDs (ix_byType ix k))"
    "t \<in> set (ix_byType ix k) \<Longrightarrow> reTargetID (tg_TargetID t)"
    "t \<in> set (ix_byType ix k) \<Longrightarrow> k \<noteq> ''partition'' \<Longrightarrow> tg_TargetID t \<notin> set (relatedPartitions ix i)"
proof -
  note ids = index_ids [OF assms] and ok = snapshot_ids [OF assms(1)] and ix = index_of [OF assms]
  show "\<forall>e \<in> set (evidenceIDsForTarget ix i). reEvidenceID e" "\<forall>e \<in> set (allEvidenceIDs ix). reEvidenceID e"
    using ids(1,2) ok(2) by blast+
  show "distinct (evidenceIDsForTarget ix i)"
    using ok(5) by (simp add: evidenceIDsForTarget_def ix(3) distinct_map_filter)
  show "\<forall>t \<in> set (relatedPartitions ix i). reTargetID t" "\<forall>t \<in> set (relatedDisks ix i). reTargetID t"
    "\<forall>t \<in> set (targetIDs (ix_byType ix k)). reTargetID t"
    using ids(3,4,5) ok(1) by blast+
  show "distinct (allEvidenceIDs ix)" "distinct (relatedPartitions ix i)" "distinct (relatedDisks ix i)"
    "distinct (targetIDs (ix_byType ix k))"
    by (simp_all add: allEvidenceIDs_def relatedPartitions_def relatedDisks_def targetIDs_def)
  show "reTargetID (tg_TargetID t)" if "t \<in> set (ix_byType ix k)"
    using ok(1) that by (simp add: ix(5))
  show "tg_TargetID t \<notin> set (relatedPartitions ix i)" if "t \<in> set (ix_byType ix k)" "k \<noteq> ''partition''"
  proof
    assume "tg_TargetID t \<in> set (relatedPartitions ix i)"
    then obtain u where "ix_targets ix (tg_TargetID t) = Some u" "tg_TargetType u = ''partition''"
      by (auto simp: relatedPartitions_def split: option.splits)
    moreover have "ix_targets ix (tg_TargetID t) = Some t" using that(1) by (simp add: ix(4) ix(5))
    ultimately show False using that by (simp add: ix(5))
  qed
qed

section \<open>Documents built from them\<close>

definition producer_prefix :: "string \<Rightarrow> bool" where
  "producer_prefix p \<longleftrightarrow> p \<noteq> [] \<and> hd p \<in> set lower_az \<and> length p \<le> 60 \<and>
     list_all (\<lambda>c. c \<in> set (lower_az @ digits10 @ ''_.-'')) p"

lemma producer_hash: "producer_prefix p \<Longrightarrow> reProducerID (p @ shortHash x)"
proof -
  assume p: "producer_prefix p"
  have h: "length (shortHash x) = 12" "\<forall>c \<in> set (shortHash x). c \<in> set (lower_az @ digits10 @ ''_.-'')"
  proof -
    have "set lower_hex \<subseteq> set (lower_az @ digits10 @ ''_.-'')" by (simp add: lower_hex_def lower_az_def digits10_def)
    then show "\<forall>c \<in> set (shortHash x). c \<in> set (lower_az @ digits10 @ ''_.-'')"
      unfolding shortHash_def using sha256Hex_lower [of _ x] in_set_takeD [of _ 12 "sha256Hex x"] by blast
  qed (simp add: shortHash_def)
  obtain c q where c: "p = c # q" using p by (cases p) (auto simp: producer_prefix_def)
  show ?thesis
    using p h by (simp add: c producer_prefix_def reProducerID_def re_head_run_def re_run_empty_prefix list_all_iff ball_Un)
qed

lemma enum_ok: "plain_enum vs \<Longrightarrow> v \<in> set vs \<Longrightarrow> requireEnum f v vs = None"
  by (simp add: requireEnum_None plain_not_blank)

lemma topology_enums: "plain_enum topologyRoles" "plain_enum topologyConfidences" "plain_enum topologyRelationTypes"
  "plain_enum mutationBlockers" "plain_enum selectionSources" "plain_enum firmwareModes"
  by code_simp+

lemma candidate_valid:
  assumes "producer_prefix pre" "role \<in> set topologyRoles" "conf \<in> set topologyConfidences" "reTargetID t"
    "\<forall>e \<in> set refs. reEvidenceID e" "reReasonCode code"
  shows "TopologyCandidate_Validate (candidate pre role t conf refs [code]) = None"
  using assms by (simp add: TopologyCandidate_Validate_def candidate_def producer_hash enum_ok topology_enums requireUniqueIDList_None)

lemma relation_valid:
  assumes "producer_prefix pre" "k \<in> set topologyRelationTypes" "conf \<in> set topologyConfidences" "reTargetID f" "reTargetID t"
    "\<forall>e \<in> set refs. reEvidenceID e" "reReasonCode code"
  shows "TopologyRelation_Validate (relation pre h k f t conf refs code) = None"
  using assms by (simp add: TopologyRelation_Validate_def relation_def producer_hash enum_ok topology_enums requireUniqueIDList_None)

lemma ambiguity_valid:
  assumes "reReasonCode code" "\<not> blank m" "\<forall>t \<in> set ts. reTargetID t" "distinct ts" "\<forall>e \<in> set refs. reEvidenceID e" "distinct refs"
  shows "TopologyAmbiguity_Validate (ambiguity code m ts refs) = None"
  using assms by (simp add: TopologyAmbiguity_Validate_def ambiguity_def requireUniqueIDList_None)

text \<open>The constants the resolver writes.\<close>

lemma resolver_prefixes [simp]:
  "producer_prefix ''cand.firmware.''" "producer_prefix ''cand.windows.''" "producer_prefix ''cand.windows_partition.''"
  "producer_prefix ''cand.system_disk.''" "producer_prefix ''cand.esp.''" "producer_prefix ''cand.bcd.''"
  "producer_prefix ''rel.hosts_windows.''" "producer_prefix ''rel.contains.''" "producer_prefix ''rel.hosts_esp.''"
  "producer_prefix ''rel.contains_bcd.''"
  by code_simp+

lemma resolver_codes [simp]:
  "reReasonCode ''firmware_mode_observed''" "reReasonCode ''windows_installation_present''"
  "reReasonCode ''hosts_windows_related''" "reReasonCode ''hosts_windows_drive_letter''"
  "reReasonCode ''windows_partition_linked''" "reReasonCode ''partition_disk_related''"
  "reReasonCode ''system_disk_linked''" "reReasonCode ''esp_gpt_type_guid''" "reReasonCode ''esp_weak_type_field''"
  "reReasonCode ''esp_on_disk''" "reReasonCode ''bcd_store_present''" "reReasonCode ''bcd_partition_linked''"
  "reReasonCode ''firmware_conflicting''" "reReasonCode ''system_disk_unresolved''"
  "reReasonCode ''windows_partition_unresolved''" "reReasonCode ''esp_ambiguous''" "reReasonCode ''bcd_missing''"
  "reReasonCode ''bcd_ambiguous''" "reReasonCode ''bitlocker_status_unknown''" "reReasonCode ''bitlocker_inaccessible''"
  "reReasonCode ''storage_health_unknown''" "reReasonCode ''storage_health_unsafe''" "reReasonCode ''unsupported_layout''"
  by code_simp+

lemma resolver_enums [simp]:
  "RoleFirmware \<in> set topologyRoles" "RoleWindowsInstallation \<in> set topologyRoles" "RoleWindowsPartition \<in> set topologyRoles"
  "RoleSystemDisk \<in> set topologyRoles" "RoleEFISystemPartition \<in> set topologyRoles" "RoleBCDStore \<in> set topologyRoles"
  "ConfidenceProven \<in> set topologyConfidences" "ConfidenceStrongInference \<in> set topologyConfidences"
  "ConfidenceRuntimeOnly \<in> set topologyConfidences" "ConfidenceAmbiguous \<in> set topologyConfidences"
  "ConfidenceUnknown \<in> set topologyConfidences"
  "RelationHostsWindows \<in> set topologyRelationTypes" "RelationContains \<in> set topologyRelationTypes"
  "RelationHostsESP \<in> set topologyRelationTypes" "RelationContainsBCDStore \<in> set topologyRelationTypes"
  by (simp_all add: topologyRoles_def topologyConfidences_def topologyRelationTypes_def)

definition starts_plain :: "string \<Rightarrow> bool" where
  "starts_plain s \<longleftrightarrow> s \<noteq> [] \<and> \<not> space_edge (hd s) \<and> \<not> space_edge (last s)"

lemma starts_plain_not_blank: "starts_plain s \<Longrightarrow> \<not> blank s"
  unfolding starts_plain_def by (intro not_blankI) auto

lemma resolver_messages [simp]:
  "\<not> blank ''conflicting firmware mode evidence''" "\<not> blank ''multiple disks related to windows partition''"
  "\<not> blank ''windows root drive letter has no matching partition''"
  "\<not> blank ''multiple partitions related to windows installation''"
  "\<not> blank ''multiple EFI system partition candidates''" "\<not> blank ''bcd store has no related partition''"
  "\<not> blank ''bcd store related to multiple partitions''" "\<not> blank ''bitlocker volume status could not be decoded''"
  "\<not> blank ''bitlocker volume is locked or inaccessible''" "\<not> blank ''bitlocker volume status is empty or unrecognized''"
  "\<not> blank ''storage health status is empty or unrecognized''" "\<not> blank ''storage health reports unsafe status''"
  by (rule starts_plain_not_blank, code_simp)+

definition valid_resolution :: "resolution \<Rightarrow> bool" where
  "valid_resolution r \<longleftrightarrow> (\<forall>c \<in> set (rs_cands r). TopologyCandidate_Validate c = None) \<and>
     (\<forall>q \<in> set (rs_rels r). TopologyRelation_Validate q = None) \<and>
     (\<forall>a \<in> set (rs_amb r). TopologyAmbiguity_Validate a = None)"

lemma valid_all: "\<forall>t \<in> set ts. valid_resolution (f t) \<Longrightarrow> valid_resolution (all_resolutions f ts)"
  by (auto simp: valid_resolution_def all_resolutions_def)

lemma valid_resolutionI:
  assumes "\<And>c. c \<in> set cs \<Longrightarrow> TopologyCandidate_Validate c = None" "\<And>q. q \<in> set rs \<Longrightarrow> TopologyRelation_Validate q = None"
    "\<And>a. a \<in> set as \<Longrightarrow> TopologyAmbiguity_Validate a = None"
  shows "valid_resolution \<lparr>rs_cands = cs, rs_rels = rs, rs_amb = as, rs_lims = ls\<rparr>"
  using assms by (simp add: valid_resolution_def)

lemmas built_valid = candidate_valid relation_valid ambiguity_valid

lemma valid_disk:
  assumes "Snapshot_Validate win s = None" "buildIndex s = Inr ix" "reTargetID p" "\<forall>e \<in> set refs. reEvidenceID e" "distinct refs"
  shows "valid_resolution (resolve_disk ix p refs)"
proof -
  note ix = index_refs [OF assms(1,2)]
  have "\<forall>d \<in> set (relatedDisks ix p). reTargetID d" by (rule ix(7))
  then show ?thesis
    using ix(1) ix(8) [of p] assms(3-5)
    by (auto simp: resolve_disk_def valid_resolution_def built_valid split: list.splits)
qed

lemma related_cases:
  assumes "Snapshot_Validate win s = None" "buildIndex s = Inr ix" "t \<in> set (ix_byType ix k)" "k \<noteq> ''partition''"
  obtains "relatedPartitions ix (tg_TargetID t) = []"
  | p where "relatedPartitions ix (tg_TargetID t) = [p]" "reTargetID p"
  | p q ps where "relatedPartitions ix (tg_TargetID t) = p # q # ps"
      "\<forall>x \<in> set (tg_TargetID t # p # q # ps). reTargetID x" "distinct (tg_TargetID t # p # q # ps)"
proof -
  note ix = index_refs [OF assms(1,2)]
  have *: "\<forall>x \<in> set (relatedPartitions ix (tg_TargetID t)). reTargetID x" "distinct (relatedPartitions ix (tg_TargetID t))"
    "tg_TargetID t \<notin> set (relatedPartitions ix (tg_TargetID t))" "reTargetID (tg_TargetID t)"
    using ix(5,6) ix(11,12) [OF assms(3)] assms(4) by blast+
  show ?thesis
  proof (cases "relatedPartitions ix (tg_TargetID t)")
    case Nil
    then show ?thesis by (rule that(1))
  next
    case (Cons p ps)
    then show ?thesis using * that(2) that(3) by (cases ps) simp_all
  qed
qed

lemma valid_installation:
  assumes "Snapshot_Validate win s = None" "buildIndex s = Inr ix" "t \<in> set (ix_byType ix ''windows_installation'')"
  shows "valid_resolution (resolve_installation ix t)"
proof -
  note ix = index_refs [OF assms(1,2)]
  let ?refs = "evidenceIDsForTarget ix (tg_TargetID t)"
  have refs: "\<forall>e \<in> set ?refs. reEvidenceID e" "distinct ?refs" and t: "reTargetID (tg_TargetID t)"
    using ix(1,2) ix(11) [OF assms(3)] by blast+
  show ?thesis
  proof (rule related_cases [OF assms])
    show "''windows_installation'' \<noteq> ''partition''" by simp
  next
    assume "relatedPartitions ix (tg_TargetID t) = []"
    then show ?thesis
      using refs t by (auto simp: resolve_installation_def Let_def built_valid intro!: valid_resolutionI split: if_splits)
  next
    fix p assume p: "relatedPartitions ix (tg_TargetID t) = [p]" "reTargetID p"
    have "valid_resolution (resolve_disk ix p ?refs)" using valid_disk [OF assms(1,2) p(2) refs] .
    then show ?thesis
      using p refs t ix(1) [of p]
      by (auto simp: resolve_installation_def Let_def built_valid valid_resolution_def split: if_splits)
  next
    fix p q ps
    assume "relatedPartitions ix (tg_TargetID t) = p # q # ps" "\<forall>x \<in> set (tg_TargetID t # p # q # ps). reTargetID x"
      "distinct (tg_TargetID t # p # q # ps)"
    then show ?thesis
      using refs t by (auto simp: resolve_installation_def Let_def built_valid valid_resolution_def)
  qed
qed

lemma valid_store:
  assumes "Snapshot_Validate win s = None" "buildIndex s = Inr ix" "t \<in> set (ix_byType ix ''boot_store'')"
  shows "valid_resolution (resolve_store ix t)"
proof -
  note ix = index_refs [OF assms(1,2)]
  let ?refs = "evidenceIDsForTarget ix (tg_TargetID t)"
  have refs: "\<forall>e \<in> set ?refs. reEvidenceID e" "distinct ?refs" and t: "reTargetID (tg_TargetID t)"
    using ix(1,2) ix(11) [OF assms(3)] by blast+
  show ?thesis
    by (rule related_cases [OF assms])
       (use refs t in \<open>auto simp: resolve_store_def Let_def built_valid valid_resolution_def\<close>)
qed

lemma valid_partition:
  assumes "Snapshot_Validate win s = None" "buildIndex s = Inr ix" "t \<in> set (ix_byType ix ''partition'')"
  shows "valid_resolution (resolve_partition ix t)"
proof -
  note ix = index_refs [OF assms(1,2)]
  have "\<forall>e \<in> set (evidenceIDsForTarget ix (tg_TargetID t)). reEvidenceID e" "reTargetID (tg_TargetID t)"
    "\<forall>d \<in> set (relatedDisks ix (tg_TargetID t)). reTargetID d"
    using ix(1,7) ix(11) [OF assms(3)] by blast+
  then show ?thesis
    by (auto simp: resolve_partition_def Let_def built_valid valid_resolution_def)
qed

lemma valid_parts:
  assumes "Snapshot_Validate win s = None" "buildIndex s = Inr ix"
  shows "valid_resolution (resolveWindows ix)" "valid_resolution (resolveESP ix)" "valid_resolution (resolveBCD ix)"
proof -
  show "valid_resolution (resolveWindows ix)" "valid_resolution (resolveBCD ix)"
    unfolding resolveWindows_def resolveBCD_def using valid_installation [OF assms] valid_store [OF assms]
    by (simp_all add: valid_all)
  let ?ps = "ix_byType ix ''partition''"
  have all: "valid_resolution (all_resolutions (resolve_partition ix) ?ps)"
    using valid_partition [OF assms] by (simp add: valid_all)
  have targets: "map tc_TargetID (concat (map (rs_cands \<circ> resolve_partition ix) ts))
      = map tg_TargetID (filter (\<lambda>t. rs_cands (resolve_partition ix t) \<noteq> []) ts)" for ts
    by (induction ts) (auto simp: resolve_partition_def Let_def candidate_def)
  have "distinct (map tg_TargetID ?ps)"
    using index_of(5,6) [OF assms, of "''partition''"] valid_ids(4) [OF assms(1)]
    by (auto simp: distinct_map intro: inj_on_subset)
  then have "distinct (map tc_TargetID (rs_cands (all_resolutions (resolve_partition ix) ?ps)))"
    by (simp add: all_resolutions_def targets distinct_map_filter)
  moreover have "\<forall>i \<in> set (map tc_TargetID (rs_cands (all_resolutions (resolve_partition ix) ?ps))). reTargetID i"
    using index_refs(11) [OF assms] by (auto simp: all_resolutions_def targets)
  ultimately have "TopologyAmbiguity_Validate (ambiguity ''esp_ambiguous'' ''multiple EFI system partition candidates''
      (map tc_TargetID (rs_cands (all_resolutions (resolve_partition ix) ?ps))) (allEvidenceIDs ix)) = None"
    using index_refs(3,4) [OF assms] by (intro ambiguity_valid) simp_all
  with all show "valid_resolution (resolveESP ix)"
    by (simp add: resolveESP_def Let_def valid_resolution_def)
qed

lemma valid_firmware:
  assumes "Snapshot_Validate win s = None" "buildIndex s = Inr ix"
  shows "\<forall>a \<in> set (fst (snd (resolveFirmware ix))). TopologyAmbiguity_Validate a = None"
    "fst (resolveFirmware ix) \<in> set firmwareModes"
  using index_refs(3,4,9,10) [OF assms]
  by (auto simp: resolveFirmware_def ambiguity_valid firmwareModes_def split: list.splits)

lemma valid_bitlocker:
  assumes "Snapshot_Validate win s = None" "buildIndex s = Inr ix" "reorders ord"
  shows "\<forall>a \<in> set (fst (resolveBitLocker ord ix)). TopologyAmbiguity_Validate a = None"
proof -
  have "TopologyAmbiguity_Validate (snd f) = None"
    if "v \<in> snd ` set (ix_views ix)" "f \<in> set (bitlocker_finding v)" for v f
  proof -
    have "vw_Bundle v \<in> set (snap_EvidenceBundles s)"
      using that(1) by (auto simp: index_of(1) [OF assms(1,2)] decoded_view view_bundle)
    then have "reTargetID (ev_TargetID (vw_Bundle v))" "reEvidenceID (ev_EvidenceID (vw_Bundle v))"
      using snapshot_ids [OF assms(1)] by blast+
    then show ?thesis
      using that(2) by (auto simp: bitlocker_finding_def bitlocker_ambiguity_def ambiguity_valid Let_def split: if_splits sum.splits)
  qed
  then show ?thesis
    by (force simp: resolveBitLocker_def Let_def reorders_set [OF assms(3)])
qed

lemma valid_health:
  assumes "Snapshot_Validate win s = None" "buildIndex s = Inr ix"
  shows "\<forall>a \<in> set (fst (resolveHealth ord ix)). TopologyAmbiguity_Validate a = None"
  using index_refs(3,4,9,10) [OF assms] by (auto simp: resolveHealth_def Let_def ambiguity_valid)

text \<open>The candidates of one role, and what a selection is made of.\<close>

definition valid_targets :: "TopologySelection \<Rightarrow> bool" where
  "valid_targets s \<longleftrightarrow> (\<forall>i \<in> set (selected_ids s). i = [] \<or> reTargetID i)"

lemma no_selection_ids [simp]: "set (selected_ids no_selection) = {[]}"
  by (simp add: no_selection_def selected_ids_def)

lemma firstRole_valid: "\<forall>c \<in> set cs. reTargetID (tc_TargetID c) \<Longrightarrow> firstRole cs role = [] \<or> reTargetID (firstRole cs role)"
  using firstRole_member [of cs role] by (cases "filterRole cs role") (auto simp: firstRole_def)

lemma connection_messages [simp]:
  "\<not> blank ''windows installation is not connected to selected partition''"
  "\<not> blank ''windows partition is not connected to selected system disk''"
  "\<not> blank ''ESP is not connected to selected system disk''" "\<not> blank ''BCD store is not connected to selected ESP''"
  "\<not> blank ''BCD store is not connected to selected windows partition''"
  "\<not> blank ''BCD selection requires ESP or windows partition''"
  by (rule starts_plain_not_blank, code_simp)+

lemma connection_message: "connection_problem rels s = Some m \<Longrightarrow> \<not> blank m"
  by (auto simp: connection_problem_def Let_def split: if_splits)

lemma valid_connected_selection:
  assumes "valid_targets s" "ts_Source s \<in> set selectionSources"
  shows "\<forall>a \<in> set (snd (snd (connected_selection rels s))). TopologyAmbiguity_Validate a = None"
    "valid_targets (fst (connected_selection rels s))" "ts_Source (fst (connected_selection rels s)) \<in> set selectionSources"
proof -
  have ok: "\<forall>i \<in> set (uniqueSorted (selected_ids s)). reTargetID i" using assms(1) by (auto simp: valid_targets_def)
  show "\<forall>a \<in> set (snd (snd (connected_selection rels s))). TopologyAmbiguity_Validate a = None"
  proof (cases "connection_problem rels s")
    case (Some m)
    have "TopologyAmbiguity_Validate (ambiguity ''unsupported_layout'' m (uniqueSorted (selected_ids s)) []) = None"
      using ok connection_message [OF Some] by (intro ambiguity_valid) simp_all
    then show ?thesis using Some by (simp add: connected_selection_def selected_ids_def)
  qed (simp add: connected_selection_def)
  show "valid_targets (fst (connected_selection rels s))" "ts_Source (fst (connected_selection rels s)) \<in> set selectionSources"
    using assms by (auto simp: connected_selection_def valid_targets_def selectionSources_def split: option.splits)
qed

lemma valid_automatic:
  assumes "\<forall>c \<in> set windows \<union> set esp \<union> set bcd. reTargetID (tc_TargetID c)"
  shows "valid_targets (fst (automatic_selection ix fw windows esp bcd rels))"
    "ts_Source (fst (automatic_selection ix fw windows esp bcd rels)) \<in> set selectionSources"
    "\<forall>a \<in> set (snd (snd (automatic_selection ix fw windows esp bcd rels))). TopologyAmbiguity_Validate a = None"
proof -
  have none: "valid_targets no_selection" "SelectionNone \<in> set selectionSources"
    by (simp_all add: valid_targets_def selectionSources_def)
  have bcd: "bcdID = [] \<or> reTargetID bcdID" if "bcd_choice bcd = Some bcdID" for bcdID
  proof -
    have "set (filterRole bcd RoleBCDStore) \<subseteq> set bcd" by (auto simp: filterRole_def)
    then show ?thesis using that assms by (auto simp: bcd_choice_def split: list.splits)
  qed
  define s where "s b = \<lparr>ts_Source = SelectionAutomatic, ts_WindowsTargetID = firstRole windows RoleWindowsInstallation,
     ts_WindowsPartitionTargetID = firstRole windows RoleWindowsPartition,
     ts_SystemDiskTargetID = firstRole windows RoleSystemDisk,
     ts_ESPTargetID = firstRole esp RoleEFISystemPartition, ts_BCDTargetID = b\<rparr>" for b
  have s: "valid_targets (s b)" "ts_Source (s b) \<in> set selectionSources" if "bcd_choice bcd = Some b" for b
    using bcd [OF that] firstRole_valid [of windows] firstRole_valid [of esp] assms
    by (auto simp: valid_targets_def selected_ids_def s_def selectionSources_def)
  show "valid_targets (fst (automatic_selection ix fw windows esp bcd rels))"
    "ts_Source (fst (automatic_selection ix fw windows esp bcd rels)) \<in> set selectionSources"
    "\<forall>a \<in> set (snd (snd (automatic_selection ix fw windows esp bcd rels))). TopologyAmbiguity_Validate a = None"
    using none valid_connected_selection [OF s]
    by (simp_all add: automatic_selection_def Let_def s_def [symmetric] split: option.split)
qed

lemma valid_technician:
  assumes "Snapshot_Validate win snap = None" "buildIndex snap = Inr ix" "validateTechnicianSelection ix rels sel = Inr s"
  shows "valid_targets s" "ts_Source s \<in> set selectionSources"
proof -
  have "reTargetID i" if "selection_target ix i k = None" for i k
    using that index_of(4) [OF assms(1,2)] snapshot_ids(1) [OF assms(1)]
    by (auto simp: selection_target_def split: option.splits)
  then show "valid_targets s" "ts_Source s \<in> set selectionSources"
    using assms(3)
    by (auto simp: validateTechnicianSelection_def Let_def valid_targets_def selected_ids_def selectionSources_def split: if_splits)
qed

section \<open>The texts that are written\<close>

definition plain_texts :: "TopologyAmbiguity list \<Rightarrow> string list \<Rightarrow> bool" where
  "plain_texts as lims \<longleftrightarrow> (\<forall>a \<in> set as. ascii (ta_Message a)) \<and> (\<forall>l \<in> set lims. ascii l \<and> l \<noteq> [])"

lemma plain_texts_simps [simp]:
  "plain_texts [] []" "plain_texts (a # as) ls \<longleftrightarrow> ascii (ta_Message a) \<and> plain_texts as ls"
  "plain_texts as (l # ls) \<longleftrightarrow> ascii l \<and> l \<noteq> [] \<and> plain_texts as ls"
  "plain_texts (as @ bs) ls \<longleftrightarrow> plain_texts as ls \<and> plain_texts bs ls"
  "plain_texts as (ls @ ks) \<longleftrightarrow> plain_texts as ls \<and> plain_texts as ks"
  by (auto simp: plain_texts_def)

lemma ambiguity_message [simp]: "ta_Message (ambiguity code m ts refs) = m"
  by (simp add: ambiguity_def)

lemma plain_all:
  "(\<And>t. plain_texts (rs_amb (f t)) (rs_lims (f t))) \<Longrightarrow> plain_texts (rs_amb (all_resolutions f ts)) (rs_lims (all_resolutions f ts))"
  by (fastforce simp: plain_texts_def all_resolutions_def)

lemma plain_parts:
  "plain_texts (fst (snd (resolveFirmware ix))) (snd (snd (resolveFirmware ix)))"
  "plain_texts (rs_amb (resolveWindows ix)) (rs_lims (resolveWindows ix))"
  "plain_texts (rs_amb (resolveESP ix)) (rs_lims (resolveESP ix))"
  "plain_texts (rs_amb (resolveBCD ix)) (rs_lims (resolveBCD ix))"
  "plain_texts (fst (resolveBitLocker ord ix)) (fst (snd (resolveBitLocker ord ix)))"
  "plain_texts (fst (resolveHealth ord ix)) (fst (snd (resolveHealth ord ix)))"
proof -
  show "plain_texts (fst (snd (resolveFirmware ix))) (snd (snd (resolveFirmware ix)))"
    by (simp add: resolveFirmware_def split: list.split)
  have "plain_texts (rs_amb (resolve_disk ix p refs)) []" for p refs
    by (simp add: resolve_disk_def split: list.split)
  then have "plain_texts (rs_amb (resolve_installation ix t)) (rs_lims (resolve_installation ix t))" for t
    by (simp add: resolve_installation_def Let_def plain_texts_def split: list.split)
  then show "plain_texts (rs_amb (resolveWindows ix)) (rs_lims (resolveWindows ix))"
    unfolding resolveWindows_def by (rule plain_all)
  have "plain_texts (rs_amb (resolve_partition ix t)) (rs_lims (resolve_partition ix t))" for t
    by (simp add: resolve_partition_def Let_def)
  then have "plain_texts (rs_amb (all_resolutions (resolve_partition ix) ts)) (rs_lims (all_resolutions (resolve_partition ix) ts))" for ts
    by (rule plain_all)
  then show "plain_texts (rs_amb (resolveESP ix)) (rs_lims (resolveESP ix))"
    by (simp add: resolveESP_def Let_def plain_texts_def)
  have "plain_texts (rs_amb (resolve_store ix t)) (rs_lims (resolve_store ix t))" for t
    by (simp add: resolve_store_def Let_def plain_texts_def split: list.split)
  then show "plain_texts (rs_amb (resolveBCD ix)) (rs_lims (resolveBCD ix))"
    unfolding resolveBCD_def by (rule plain_all)
  have "\<forall>f \<in> set (bitlocker_finding v). ascii (ta_Message (snd f))" for v
    by (simp add: bitlocker_finding_def bitlocker_ambiguity_def Let_def split: sum.split)
  then show "plain_texts (fst (resolveBitLocker ord ix)) (fst (snd (resolveBitLocker ord ix)))"
    by (auto simp: resolveBitLocker_def Let_def plain_texts_def bitlocker_limitations_def)
  show "plain_texts (fst (resolveHealth ord ix)) (fst (snd (resolveHealth ord ix)))"
    by (simp add: resolveHealth_def Let_def)
qed

text \<open>The blockers of a run.\<close>

lemma known_blockers:
  "set (snd (snd (resolveBitLocker ord ix))) \<subseteq> set mutationBlockers"
  "set (snd (snd (resolveHealth ord ix))) \<subseteq> set mutationBlockers"
  "set (fst (snd (automatic_selection ix fw windows esp bcd rels))) \<subseteq> set mutationBlockers"
  "set (layout_blockers p sel chosen) \<subseteq> set mutationBlockers"
proof -
  have "fst f \<in> set mutationBlockers" if "f \<in> set (bitlocker_finding v)" for f v
    using that by (auto simp: bitlocker_finding_def mutationBlockers_def Let_def split: if_splits sum.splits)
  then show "set (snd (snd (resolveBitLocker ord ix))) \<subseteq> set mutationBlockers"
    by (auto simp: resolveBitLocker_def Let_def)
  show "set (snd (snd (resolveHealth ord ix))) \<subseteq> set mutationBlockers"
    by (simp add: resolveHealth_def Let_def mutationBlockers_def)
  show "set (fst (snd (automatic_selection ix fw windows esp bcd rels))) \<subseteq> set mutationBlockers"
    by (simp add: automatic_selection_def connected_selection_def Let_def mutationBlockers_def split: option.split)
  show "set (layout_blockers p sel chosen) \<subseteq> set mutationBlockers"
    by (auto simp: layout_blockers_def firmwareBlockers_def mutationBlockers_def)
qed

end
