(* ===== verification/ResolverRuns.thy ===== *)
theory ResolverRuns
  imports ResolverValidity
begin

text \<open>When a run of \<^verbatim>\<open>Resolve\<close> on a valid snapshot returns, and what its evidence is.\<close>

section \<open>The topology passes its validation\<close>

text \<open>The time a run stamps, and the years RFC 3339 can hold.\<close>

definition run_time :: "instant \<Rightarrow> ResolveRequest \<Rightarrow> instant" where
  "run_time wall req = (if rq_Now req = zero_time then wall else rq_Now req)"

definition writable_time :: "instant \<Rightarrow> bool" where
  "writable_time t \<longleftrightarrow> 0 \<le> year_of t \<and> year_of t \<le> 9999"

lemma digit_char_id: "0 \<le> n \<Longrightarrow> n \<le> 9 \<Longrightarrow> digit_char n \<in> set id_chars"
proof -
  assume "0 \<le> n" "n \<le> 9"
  then have "digit_char n \<in> set digits10" unfolding digit_char_def by (intro nth_mem) (simp add: digits10_def)
  then show ?thesis using id_classes(5) by blast
qed

lemma format_ok: "writable_time t \<Longrightarrow> rfc3339_ok (format_rfc3339 t)"
proof -
  assume t: "writable_time t"
  then have p: "parse_rfc3339 (format_rfc3339 t) \<noteq> None" by (simp add: writable_time_def parse_format)
  obtain y m d where c: "civil_of_days (unix_secs t div 86400 + epoch_days) = (y, m, d)" by (metis prod_cases3)
  have y: "0 \<le> y" "y \<le> 9999" using t by (simp_all add: writable_time_def year_of_def c)
  then have "hd (show_year y) = digit_char (y div 1000)" "show_year y \<noteq> []" by (simp_all add: show_year_def Let_def)
  moreover have "digit_char (y div 1000) \<in> set id_chars" using y div_bounds [of 1000 y] by (intro digit_char_id) auto
  ultimately have "hd (format_rfc3339 t) \<in> set id_chars" "last (format_rfc3339 t) \<in> set id_chars" "format_rfc3339 t \<noteq> []"
    using id_classes(4) by (auto simp: format_rfc3339_def c Let_def upper_az_def)
  then have "\<not> blank (format_rfc3339 t)" by (intro not_blankI id_chars_edge)
  then show ?thesis using p by (simp add: rfc3339_ok_def)
qed

lemma resolver_constants [simp]: "reProducerID resolverID" "reSemver resolverVersion" "\<not> blank resolverID" "\<not> blank resolverVersion"
  "ascii resolverID" "ascii resolverVersion" "ascii SchemaWindowsBootTopology" "ascii SchemaVersion"
  by code_simp+

lemma topology_id_ok: "reTopologyID (topologyIDFor t)"
  using re_id24_digest [of "''topology-''"]
  by (simp add: topologyIDFor_def reTopologyID_def sha256Hex_def [symmetric] hex_encode_take)

text \<open>What a run has in hand before it builds the topology.\<close>

definition resolver_run :: "bool \<Rightarrow> view_order \<Rightarrow> instant \<Rightarrow> ResolveRequest \<Rightarrow> index \<Rightarrow> Target \<Rightarrow> selected \<Rightarrow> bool" where
  "resolver_run win ord wall req ix fw selected \<longleftrightarrow>
     Snapshot_Validate win (rq_Snapshot req) = None \<and> reCommitID (rq_CommitID req) \<and> writable_time (run_time wall req) \<and>
     reorders ord \<and> buildIndex (rq_Snapshot req) = Inr ix \<and> ix_firmwareTarget ix = Some fw \<and>
     (let p = resolve_parts ord ix fw in
      applySelection ix (rp_firmware p) (rs_cands (rp_windows p)) (rs_cands (rp_esp p)) (rs_cands (rp_bcd p))
        (rp_rels p) (rq_Selection req) = Inr selected)"

lemma run_selection:
  assumes "resolver_run win ord wall req ix fw selected"
  shows "valid_targets (fst selected)" "ts_Source (fst selected) \<in> set selectionSources"
    "ts_Source (fst selected) = SelectionNone \<Longrightarrow> fst selected = no_selection"
    "\<forall>a \<in> set (snd (snd selected)). TopologyAmbiguity_Validate a = None \<and> ascii (ta_Message a)"
    "set (fst (snd selected)) \<subseteq> set mutationBlockers"
proof -
  note run = assms [unfolded resolver_run_def Let_def parts_fields rels_eq]
  have valid: "Snapshot_Validate win (rq_Snapshot req) = None" "buildIndex (rq_Snapshot req) = Inr ix" using run by blast+
  let ?w = "rs_cands (resolveWindows ix)" and ?e = "rs_cands (resolveESP ix)" and ?b = "rs_cands (resolveBCD ix)"
  and ?r = "rs_rels (resolveWindows ix) @ rs_rels (resolveESP ix) @ rs_rels (resolveBCD ix)"
  have sel: "applySelection ix (fst (resolveFirmware ix)) ?w ?e ?b ?r (rq_Selection req) = Inr selected"
    using run by blast
  have ids: "\<forall>c \<in> set ?w \<union> set ?e \<union> set ?b. reTargetID (tc_TargetID c)"
    using valid_parts [OF valid] by (auto simp: valid_resolution_def TopologyCandidate_Validate_def)
  have "valid_targets (fst selected) \<and> ts_Source (fst selected) \<in> set selectionSources \<and>
      (ts_Source (fst selected) = SelectionNone \<longrightarrow> fst selected = no_selection) \<and>
      (\<forall>a \<in> set (snd (snd selected)). TopologyAmbiguity_Validate a = None \<and> ascii (ta_Message a)) \<and>
      set (fst (snd selected)) \<subseteq> set mutationBlockers"
  proof (cases "rq_Selection req")
    case None
    define s where "s = automatic_selection ix (fst (resolveFirmware ix)) ?w ?e ?b ?r"
    have s: "selected = s" using sel None by (simp add: applySelection_def s_def)
    have "ascii m" if "connection_problem rels q = Some m" for rels q m
      using that by (auto simp: connection_problem_def Let_def split: if_splits)
    then have a: "\<forall>a \<in> set (snd (snd s)). ascii (ta_Message a)"
      by (auto simp: s_def automatic_selection_def connected_selection_def Let_def split: option.split)
    have n: "ts_Source (fst s) = SelectionNone \<longrightarrow> fst s = no_selection"
      by (auto simp: s_def automatic_selection_def connected_selection_def Let_def split: option.split)
    show ?thesis
      using a n valid_automatic [OF ids, of ix "fst (resolveFirmware ix)" ?r] known_blockers(3) unfolding s s_def by blast
  next
    case (Some q)
    then obtain out where "validateTechnicianSelection ix ?r q = Inr out" "selected = (out, [], [])"
      using sel by (auto simp: applySelection_def)
    then show ?thesis
      using valid_technician [OF valid] technician_connected(3) by fastforce
  qed
  then show "valid_targets (fst selected)" "ts_Source (fst selected) \<in> set selectionSources"
    "ts_Source (fst selected) = SelectionNone \<Longrightarrow> fst selected = no_selection"
    "\<forall>a \<in> set (snd (snd selected)). TopologyAmbiguity_Validate a = None \<and> ascii (ta_Message a)"
    "set (fst (snd selected)) \<subseteq> set mutationBlockers" by blast+
qed

lemma run_documents:
  assumes "resolver_run win ord wall req ix fw selected"
  defines "p \<equiv> resolve_parts ord ix fw"
  shows "\<forall>c \<in> set (rp_cands p). TopologyCandidate_Validate c = None" "\<forall>r \<in> set (rp_rels p). TopologyRelation_Validate r = None"
    "\<forall>a \<in> set (rp_amb p). TopologyAmbiguity_Validate a = None \<and> ascii (ta_Message a)" "\<forall>l \<in> set (rp_lims p). l \<noteq> [] \<and> ascii l"
    "rp_firmware p \<in> set firmwareModes" "set (rp_blockers p) \<subseteq> set mutationBlockers" "reTargetID (tg_TargetID fw)"
proof -
  note run = assms(1) [unfolded resolver_run_def Let_def]
  have valid: "Snapshot_Validate win (rq_Snapshot req) = None" "buildIndex (rq_Snapshot req) = Inr ix" "reorders ord"
    using run by blast+
  note parts = valid_parts [OF valid(1,2)] and texts = plain_parts [where ix = ix]
  have fw: "fw \<in> set (snap_Targets (rq_Snapshot req))" using run index_of(7) [OF valid(1,2)] by blast
  show t: "reTargetID (tg_TargetID fw)" using snapshot_ids(1) [OF valid(1) fw] .
  have "firmwareConfidence m \<in> set topologyConfidences" for m by (simp add: firmwareConfidence_def)
  then have "TopologyCandidate_Validate (firmware_candidate ix fw (fst (resolveFirmware ix))) = None"
    unfolding firmware_candidate_def using t index_refs(1) [OF valid(1,2)] by (intro candidate_valid) simp_all
  then show "\<forall>c \<in> set (rp_cands p). TopologyCandidate_Validate c = None"
    using parts by (auto simp: p_def parts_fields valid_resolution_def)
  show "\<forall>r \<in> set (rp_rels p). TopologyRelation_Validate r = None"
    using parts by (auto simp: p_def rels_eq valid_resolution_def)
  have "\<forall>a \<in> set (rp_amb p). TopologyAmbiguity_Validate a = None"
    using parts valid_firmware(1) [OF valid(1,2)] valid_bitlocker [OF valid] valid_health [OF valid(1,2)]
    unfolding p_def parts_fields valid_resolution_def set_append by blast
  moreover have "\<forall>a \<in> set (rp_amb p). ascii (ta_Message a)" "\<forall>l \<in> set (rp_lims p). l \<noteq> [] \<and> ascii l"
    using texts by (simp_all add: p_def parts_fields plain_texts_def ball_Un)
  ultimately show "\<forall>a \<in> set (rp_amb p). TopologyAmbiguity_Validate a = None \<and> ascii (ta_Message a)"
    "\<forall>l \<in> set (rp_lims p). l \<noteq> [] \<and> ascii l" by blast+
  show "rp_firmware p \<in> set firmwareModes" using valid_firmware(2) [OF valid(1,2)] by (simp add: p_def parts_fields)
  show "set (rp_blockers p) \<subseteq> set mutationBlockers" using known_blockers by (simp add: p_def parts_fields)
qed

lemma topology_constants:
  fixes wall req p selected
  defines "t \<equiv> build_topology wall req p selected"
  shows "wt_SchemaName t = SchemaWindowsBootTopology" "wt_SchemaVersion t = SchemaVersion" "wt_ResolverID t = resolverID"
    "wt_ResolverVersion t = resolverVersion" "wt_GeneratedAt t = format_rfc3339 (run_time wall req)" "reTopologyID (wt_TopologyID t)"
  using topology_id_ok by (simp_all add: t_def build_topology_def Let_def split_beta run_time_def)

lemma selection_valid:
  assumes "valid_targets s" "ts_Source s \<in> set selectionSources" "ts_Source s = SelectionNone \<Longrightarrow> s = no_selection"
  shows "TopologySelection_Validate s = None"
proof -
  have "\<not> (ts_Source s = SelectionNone \<and> (\<exists>d \<in> set (selected_ids s). d \<noteq> []))" using assms(3) no_selection_ids by force
  then show ?thesis
    using assms(1,2) by (auto simp: TopologySelection_Validate_def enum_ok topology_enums valid_targets_def)
qed

text \<open>Only two candidates or two relations of one name can spoil it.\<close>

lemma topology_valid_iff:
  assumes run: "resolver_run win ord wall req ix fw selected"
  defines "p \<equiv> resolve_parts ord ix fw"
  shows "WindowsBootTopology_Validate (build_topology wall req p selected) = None \<longleftrightarrow>
    distinct (map tc_CandidateID (rp_cands p)) \<and> distinct (map tr_RelationID (rp_rels p))"
proof -
  let ?t = "build_topology wall req p selected"
  note docs = run_documents [OF run, folded p_def] and sel = run_selection [OF run]
  have case_id: "reCaseID (wt_CaseID ?t)" "reCommitID (wt_SourceCommitID ?t)" "rfc3339_ok (wt_GeneratedAt ?t)"
    using run snapshot_ids(4) format_ok by (auto simp: resolver_run_def Let_def topology_fields topology_constants)
  have sorted: "distinct (map f (sort_key f xs)) = distinct (map f xs)" for f :: "'b \<Rightarrow> string" and xs
    by (rule mset_eq_imp_distinct_iff) simp
  have selection: "TopologySelection_Validate (wt_Selection ?t) = None"
    using sel(1-3) by (auto simp: topology_fields valid_targets_def selectionSources_def intro!: selection_valid)
  have eligibility: "MutationEligibility_Validate (wt_MutationEligibility ?t) = None"
    using docs(6) sel(5) known_blockers(4) by (fastforce simp: topology_fields MutationEligibility_Validate_iff)
  have all: "\<forall>c \<in> set (sort_key tc_CandidateID (rp_cands p)). TopologyCandidate_Validate c = None"
    "\<forall>r \<in> set (sort_key tr_RelationID (rp_rels p)). TopologyRelation_Validate r = None"
    "\<forall>a \<in> set (sort_key ambiguity_key (rp_amb p @ snd (snd selected))). TopologyAmbiguity_Validate a = None"
    "\<forall>l \<in> set (uniqueSorted (rp_lims p)). l \<noteq> []"
    using docs(1,2,3) sel(4) by (simp_all add: ball_Un)
  have mode: "requireEnum ''firmware_mode'' (rp_firmware p) firmwareModes = None"
    using docs(5) by (simp add: enum_ok topology_enums)
  have version: "requireMatch ''resolver_version'' resolverVersion reSemver = None" by (simp add: requireMatch_None)
  show ?thesis
    unfolding WindowsBootTopology_Validate_def topology_constants(1-5) topology_fields(1-5)
    using all mode version case_id topology_constants selection eligibility
    by (simp add: sorted topology_constants topology_fields(8,9))
qed

section \<open>The evidence passes its validation\<close>

definition bare :: "resolution \<Rightarrow> bool" where
  "bare r \<longleftrightarrow> (\<forall>c \<in> set (rs_cands r). tc_Limitations c = Some []) \<and> (\<forall>q \<in> set (rs_rels r). tr_Limitations q = Some [])"

lemma bare_built [simp]: "tc_Limitations (candidate pre role t conf refs codes) = Some []"
  "tr_Limitations (relation pre' h k f t' conf' refs' code) = Some []"
  by (simp_all add: candidate_def relation_def)

lemma bare_all: "(\<And>t. bare (f t)) \<Longrightarrow> bare (all_resolutions f ts)"
  by (fastforce simp: bare_def all_resolutions_def)

lemma bare_parts: "bare (resolveWindows ix)" "bare (resolveESP ix)" "bare (resolveBCD ix)"
proof -
  have "bare (resolve_disk ix p refs)" for p refs by (simp add: bare_def resolve_disk_def split: list.split)
  then have "bare (resolve_installation ix t)" for t
    by (simp add: bare_def resolve_installation_def Let_def ball_Un split: list.split)
  moreover have "bare (resolve_partition ix t)" "bare (resolve_store ix t)" for t
    by (simp_all add: bare_def resolve_partition_def resolve_store_def Let_def split: list.split)
  ultimately have b: "bare (all_resolutions (resolve_installation ix) ts)" "bare (all_resolutions (resolve_partition ix) ts)"
    "bare (all_resolutions (resolve_store ix) ts)" for ts
    by (blast intro: bare_all)+
  show "bare (resolveWindows ix)" "bare (resolveBCD ix)" using b by (simp_all add: resolveWindows_def resolveBCD_def)
  show "bare (resolveESP ix)" using b(2) by (simp add: resolveESP_def Let_def bare_def)
qed

lemma strs_fit: "1 \<le> d \<Longrightarrow> (\<And>s. s \<in> set xs \<Longrightarrow> ascii s) \<Longrightarrow> json_fits d (json_strs (Some xs))"
  by (simp add: json_strs_def ascii_valid)

lemma ascii_enum:
  "s \<in> set topologyRoles \<Longrightarrow> ascii s" "s \<in> set topologyConfidences \<Longrightarrow> ascii s" "s \<in> set topologyRelationTypes \<Longrightarrow> ascii s"
  "s \<in> set mutationBlockers \<Longrightarrow> ascii s" "s \<in> set selectionSources \<Longrightarrow> ascii s" "s \<in> set firmwareModes \<Longrightarrow> ascii s"
proof -
  have chars: "ascii id_chars" by (simp add: id_chars_def lower_az_def upper_az_def digits10_def)
  have "ascii s" if "plain_enum vs" "s \<in> set vs" for vs
    using that chars unfolding plain_enum_def list_all_iff ascii_def by blast
  then show "s \<in> set topologyRoles \<Longrightarrow> ascii s" "s \<in> set topologyConfidences \<Longrightarrow> ascii s" "s \<in> set topologyRelationTypes \<Longrightarrow> ascii s"
    "s \<in> set mutationBlockers \<Longrightarrow> ascii s" "s \<in> set selectionSources \<Longrightarrow> ascii s" "s \<in> set firmwareModes \<Longrightarrow> ascii s"
    using topology_enums by blast+
qed

lemma ids_fit: "requireUniqueIDList f ss re = None \<Longrightarrow> (\<And>s. re s \<Longrightarrow> ascii s) \<Longrightarrow> 1 \<le> d \<Longrightarrow> json_fits d (json_strs ss)"
  by (auto simp: requireUniqueIDList_None requireMatch_None intro!: strs_fit)

lemma key_fits: "ascii k \<Longrightarrow> utf8_valid k" by (rule ascii_valid)

lemma candidate_fits:
  assumes "TopologyCandidate_Validate c = None" "tc_Limitations c = Some []" "2 \<le> d"
  shows "json_fits d (TopologyCandidate_json c)"
  using assms
  by (auto simp: TopologyCandidate_json_def TopologyCandidate_Validate_def requireEnum_None ascii_valid ascii_ids ascii_enum
      intro!: strs_fit ids_fit)

lemma relation_fits:
  assumes "TopologyRelation_Validate r = None" "tr_Limitations r = Some []" "2 \<le> d"
  shows "json_fits d (TopologyRelation_json r)"
  using assms
  by (auto simp: TopologyRelation_json_def TopologyRelation_Validate_def requireEnum_None ascii_valid ascii_ids ascii_enum
      intro!: strs_fit ids_fit)

lemma ambiguity_fits:
  assumes "TopologyAmbiguity_Validate a = None" "ascii (ta_Message a)" "2 \<le> d"
  shows "json_fits d (TopologyAmbiguity_json a)"
  using assms
  by (auto simp: TopologyAmbiguity_json_def TopologyAmbiguity_Validate_def ascii_valid ascii_ids intro!: ids_fit)

lemma omit_fits: "ascii k \<Longrightarrow> v = [] \<or> ascii v \<Longrightarrow> \<forall>f \<in> set (omit_empty k v). utf8_valid (fst f) \<and> json_fits d (snd f)"
  by (auto simp: omit_empty_def ascii_valid split: if_splits)

lemma selection_fits:
  assumes "valid_targets s" "ts_Source s \<in> set selectionSources" "1 \<le> d"
  shows "json_fits d (TopologySelection_json s)"
proof -
  have "i = [] \<or> ascii i" if "i \<in> set (selected_ids s)" for i
    using assms(1) that ascii_ids(1) by (auto simp: valid_targets_def)
  then have ids: "\<forall>f \<in> set (omit_empty k v). utf8_valid (fst f) \<and> json_fits (d - 1) (snd f)"
    if "v \<in> set (selected_ids s)" "ascii k" for k v
    using that by (intro omit_fits)
  have source: "utf8_valid (ts_Source s)" using assms(2) by (intro ascii_valid ascii_enum(5))
  have all: "\<forall>f \<in> set (omit_empty ''windows_target_id'' (ts_WindowsTargetID s)
      @ omit_empty ''windows_partition_target_id'' (ts_WindowsPartitionTargetID s)
      @ omit_empty ''system_disk_target_id'' (ts_SystemDiskTargetID s) @ omit_empty ''esp_target_id'' (ts_ESPTargetID s)
      @ omit_empty ''bcd_target_id'' (ts_BCDTargetID s)). utf8_valid (fst f) \<and> json_fits (d - 1) (snd f)"
    unfolding set_append ball_Un by (intro conjI ids; (simp add: selected_ids_def | code_simp))
  obtain e where "d = Suc e" using assms(3) by (cases d) auto
  then show ?thesis
    using all source by (simp add: TopologySelection_json_def ascii_valid)
qed

lemma docs_fit:
  assumes "\<forall>x \<in> set xs. json_fits d (enc x)"
  shows "json_fits (Suc d) (json_docs enc (Some xs))"
  using assms by (simp add: json_docs_def)

lemma run_fits:
  assumes run: "resolver_run win ord wall req ix fw selected"
  defines "t \<equiv> build_topology wall req (resolve_parts ord ix fw) selected"
  shows "json_fits max_nesting (WindowsBootTopology_json t)" "raw_free (WindowsBootTopology_json x)"
proof -
  define p where "p = resolve_parts ord ix fw"
  note docs = run_documents [OF run, folded p_def] and sel = run_selection [OF run]
  have t: "t = build_topology wall req p selected" by (simp add: t_def p_def)
  obtain e where m: "max_nesting = Suc (Suc e)" "2 \<le> e" by (simp add: max_nesting_def)
  have c: "\<forall>c \<in> set (rp_cands p). json_fits e (TopologyCandidate_json c)"
    using docs(1) bare_parts [of ix] m(2)
    by (auto simp: p_def parts_fields bare_def firmware_candidate_def intro!: candidate_fits)
  have r: "\<forall>r \<in> set (rp_rels p). json_fits e (TopologyRelation_json r)"
    using docs(2) bare_parts [of ix] m(2) by (auto simp: p_def rels_eq bare_def intro!: relation_fits)
  have a: "\<forall>a \<in> set (rp_amb p) \<union> set (snd (snd selected)). json_fits e (TopologyAmbiguity_json a)"
    using docs(3) sel(4) m(2) by (auto intro!: ambiguity_fits)
  have s: "json_fits (Suc e) (TopologySelection_json (wt_Selection t))"
    using sel(1,2) m(2) unfolding t topology_fields
    by (auto simp: valid_targets_def selectionSources_def intro!: selection_fits)
  have "\<forall>b \<in> set (uniqueSorted (rp_blockers p @ fst (snd selected) @ layout_blockers p (rq_Selection req) (fst selected))). ascii b"
    using docs(6) sel(5) known_blockers(4) [of p "rq_Selection req" "fst selected"] ascii_enum(4) by auto
  then have g: "json_fits (Suc e) (MutationEligibility_json (wt_MutationEligibility t))"
    using m(2) unfolding t topology_fields
    by (auto simp: MutationEligibility_json_def MutationEligibilityDiagnosticEvidenceOnly_def ascii_valid intro!: strs_fit)
  have l: "json_fits (Suc e) (json_strs (Some (uniqueSorted (rp_lims p))))"
    using docs(4) by (auto intro!: strs_fit)
  have "reCaseID (cm_CaseID (snap_Case (rq_Snapshot req)))" "reCommitID (rq_CommitID req)" "writable_time (run_time wall req)"
    using run snapshot_ids(4) by (auto simp: resolver_run_def)
  then have i: "utf8_valid (cm_CaseID (snap_Case (rq_Snapshot req)))" "utf8_valid (rq_CommitID req)"
    "utf8_valid (wt_TopologyID t)" "utf8_valid (format_rfc3339 (run_time wall req))" "utf8_valid (rp_firmware p)"
    using topology_constants(6) [of wall req p selected] ascii_enum(6) [OF docs(5)] ascii_ids
    by (auto simp: writable_time_def t intro!: ascii_valid ascii_time)
  show "json_fits max_nesting (WindowsBootTopology_json t)"
    using c r a s g l i unfolding m(1)
    by (simp add: WindowsBootTopology_json_def docs_fit t topology_fields(1-5,8,9) topology_constants(1-5) ascii_valid ball_Un)
  show "raw_free (WindowsBootTopology_json x)"
    by (auto simp: WindowsBootTopology_json_def TopologyCandidate_json_def TopologyRelation_json_def TopologySelection_json_def
        TopologyAmbiguity_json_def MutationEligibility_json_def json_docs_def json_strs_def omit_empty_def split: option.splits)
qed

lemma topology_marshals: "\<exists>s. marshal (WindowsBootTopology_json x) = Inr s"
  by (intro marshal_total)
     (auto simp: WindowsBootTopology_json_def TopologyCandidate_json_def TopologyRelation_json_def TopologySelection_json_def
        TopologyAmbiguity_json_def MutationEligibility_json_def json_docs_def omit_empty_def split: option.splits)

lemma run_evidence:
  assumes run: "resolver_run win ord wall req ix fw selected"
  defines "t \<equiv> build_topology wall req (resolve_parts ord ix fw) selected"
  obtains ev where "topology_evidence req ix fw t = Inr ev" "EvidenceBundle_Validate ev = None"
    "ev_Facts ev = Some (text_of (WindowsBootTopology_json t))"
    "decode_document dec_WindowsBootTopology zero_WindowsBootTopology (elems (ev_Facts ev)) = Inr t"
    "ev_CaseID ev = cm_CaseID (snap_Case (rq_Snapshot req))" "ev_TargetID ev = tg_TargetID fw"
    "ev_FactsSchema ev = SchemaWindowsBootTopology"
proof -
  let ?facts = "text_of (WindowsBootTopology_json t)"
  obtain identity where i: "marshal (WindowsBootTopology_json (t\<lparr>wt_GeneratedAt := []\<rparr>)) = Inr identity"
    using topology_marshals by blast
  have fits: "json_fits max_nesting (WindowsBootTopology_json t)" unfolding t_def by (rule run_fits(1) [OF run])
  have facts: "marshal (WindowsBootTopology_json t) = Inr ?facts"
    "decode_document dec_WindowsBootTopology zero_WindowsBootTopology ?facts = Inr t"
    using topology_codec.document_back [OF _ fits] by simp_all
  note facts_text = marshal_valid [OF fits run_fits(2) [OF run] facts(1)]
  have ids: "reCaseID (cm_CaseID (snap_Case (rq_Snapshot req)))" "rfc3339_ok (format_rfc3339 (run_time wall req))"
    using run snapshot_ids(4) format_ok by (auto simp: resolver_run_def)
  have fw: "reTargetID (tg_TargetID fw)" by (rule run_documents(7) [OF run])
  have time: "wt_GeneratedAt t = format_rfc3339 (run_time wall req)" unfolding t_def by (rule topology_constants(5))
  have lims: "wt_Limitations t = Some (uniqueSorted (rp_lims (resolve_parts ord ix fw)))" unfolding t_def by (rule topology_fields(5))
  have status: "requireEnum ''source_status'' ''ok'' sourceStatuses = None" by code_simp
  have id: "reEvidenceID (evidenceIDFor c m s i f)" for c m s i f
    using re_id24_digest [of "''evidence-''"]
    by (simp add: evidenceIDFor_def reEvidenceID_def sha256Hex_def [symmetric] hex_encode_take)
  define ev where "ev = \<lparr>ev_SchemaName = SchemaEvidenceBundle, ev_SchemaVersion = SchemaVersion,
      ev_EvidenceID = evidenceIDFor (cm_CaseID (snap_Case (rq_Snapshot req))) (rq_CommitID req) (wt_Selection t)
        (allEvidenceIDs ix) identity,
      ev_CaseID = cm_CaseID (snap_Case (rq_Snapshot req)), ev_TargetID = tg_TargetID fw, ev_Collector = resolverID,
      ev_CollectorVersion = resolverVersion, ev_CapturedAt = wt_GeneratedAt t, ev_SourceStatus = ''ok'',
      ev_FactsSchema = SchemaWindowsBootTopology, ev_Facts = Some ?facts, ev_Artifacts = Some [],
      ev_Limitations = wt_Limitations t\<rparr>"
  show ?thesis
  proof (rule that)
    show "topology_evidence req ix fw t = Inr ev" by (simp add: topology_evidence_def i facts(1) ev_def Let_def)
    show "EvidenceBundle_Validate ev = None"
      using ids fw id facts_text by (simp add: EvidenceBundle_Validate_def ev_def time lims status)
  qed (simp_all add: ev_def facts(2))
qed

text \<open>A run that has come this far only waits for the validation of its topology.\<close>

lemma resolver_run_topology:
  assumes run: "resolver_run win ord wall req ix fw selected"
  defines "t \<equiv> build_topology wall req (resolve_parts ord ix fw) selected"
  obtains ev where "Resolve win ord wall None req =
    (case WindowsBootTopology_Validate t of None \<Rightarrow> Inr \<lparr>rr_Topology = t, rr_Evidence = ev\<rparr>
     | Some e \<Rightarrow> Inl (Errorf ''topology: %w'' [GWrap e]))"
proof -
  obtain ev where ev: "topology_evidence req ix fw t = Inr ev" "EvidenceBundle_Validate ev = None"
    using run_evidence [OF run, folded t_def] by blast
  have "Snapshot_Validate win (rq_Snapshot req) = None \<and> rq_CommitID req \<noteq> [] \<and> buildIndex (rq_Snapshot req) = Inr ix \<and>
      ix_firmwareTarget ix = Some fw"
    using run by (auto simp: resolver_run_def Let_def re_defs re_run_def has_prefix_def)
  moreover have "applySelection ix (rp_firmware p) (rs_cands (rp_windows p)) (rs_cands (rp_esp p)) (rs_cands (rp_bcd p))
        (rp_rels p) (rq_Selection req) = Inr selected" if "p = resolve_parts ord ix fw" for p
    using run that by (simp add: resolver_run_def Let_def)
  ultimately have "Resolve win ord wall None req =
    (case WindowsBootTopology_Validate t of None \<Rightarrow> Inr \<lparr>rr_Topology = t, rr_Evidence = ev\<rparr>
     | Some e \<Rightarrow> Inl (Errorf ''topology: %w'' [GWrap e]))"
    using ev by (simp add: Resolve_def Let_def t_def check_then_def err_if_def wrap_err_def split: option.split)
  then show ?thesis by (rule that)
qed

text \<open>It returns its result unless two candidates or two relations share a name.\<close>

theorem resolver_run_returns:
  assumes run: "resolver_run win ord wall req ix fw selected"
  defines "p \<equiv> resolve_parts ord ix fw"
  shows "(\<exists>r. Resolve win ord wall None req = Inr r) \<longleftrightarrow>
    distinct (map tc_CandidateID (rp_cands p)) \<and> distinct (map tr_RelationID (rp_rels p))"
proof -
  obtain ev where "Resolve win ord wall None req =
    (case WindowsBootTopology_Validate (build_topology wall req p selected) of
       None \<Rightarrow> Inr \<lparr>rr_Topology = build_topology wall req p selected, rr_Evidence = ev\<rparr>
     | Some e \<Rightarrow> Inl (Errorf ''topology: %w'' [GWrap e]))"
    by (rule resolver_run_topology [OF run, folded p_def])
  then show ?thesis
    using topology_valid_iff [OF run, folded p_def]
    by (cases "WindowsBootTopology_Validate (build_topology wall req p selected)") simp_all
qed

end
