(* ===== verification/ResolverExample.thy ===== *)
theory ResolverExample
  imports ResolverRuns ExampleCase
begin

text \<open>
  The case of the resolver's own tests: a UEFI machine with one GPT disk, its Windows and EFI system
  partitions, one or two installations and a boot store.
\<close>

section \<open>The documents\<close>

definition boot_target :: "string \<Rightarrow> string \<Rightarrow> Target" where
  "boot_target i ty = ex_target\<lparr>tg_TargetID := i, tg_TargetType := ty\<rparr>"

definition boot_json :: "string \<Rightarrow> (string \<times> json) list \<Rightarrow> string list \<Rightarrow> json" where
  "boot_json kind payload related = JObj
     [(''schema_name'', JStr ''legacy-diagnostic-report-fragment''), (''schema_version'', JStr ''1.0.0''),
      (''source_path'', JStr kind), (''entity_kind'', JStr kind), (''payload'', JObj payload),
      (''related_target_ids'', json_strs (Some related)), (''limitations'', JArr [])]"

definition boot_facts :: "string \<Rightarrow> (string \<times> json) list \<Rightarrow> string list \<Rightarrow> string" where
  "boot_facts kind payload related = marshalled (boot_json kind payload related)"

definition boot_evidence :: "char \<Rightarrow> string \<Rightarrow> string \<Rightarrow> EvidenceBundle" where
  "boot_evidence c i facts = ex_evidence\<lparr>ev_EvidenceID := ex_id ''evidence-'' c, ev_TargetID := i,
     ev_FactsSchema := FactsSchemaID, ev_Facts := Some facts\<rparr>"

definition boot_fw :: string where "boot_fw = ''target-firmware-01''"
definition boot_disk :: string where "boot_disk = ''target-disk-nvme0n1''"
definition boot_part :: string where "boot_part = ''target-part-windows-01''"
definition boot_part2 :: string where "boot_part2 = ''target-part-windows-02''"
definition boot_esp :: string where "boot_esp = ''target-part-esp-01''"
definition boot_win :: string where "boot_win = ''target-windows-install-01''"
definition boot_win2 :: string where "boot_win2 = ''target-windows-install-02''"
definition boot_bcd :: string where "boot_bcd = ''target-bcd-store-01''"

definition boot_targets :: "Target list" where
  "boot_targets = [boot_target boot_fw ''firmware'', boot_target boot_disk ''disk'', boot_target boot_part ''partition'',
     boot_target boot_esp ''partition'', boot_target boot_win ''windows_installation'', boot_target boot_bcd ''boot_store'']"

definition fw_bundle :: EvidenceBundle where
  "fw_bundle = boot_evidence CHR ''b'' boot_fw (boot_facts ''firmware_environment''
    [(''boot_firmware_mode'', JStr ''UEFI''),
     (''drive_health'', JArr [JObj [(''health_status'', JStr ''Healthy''), (''operational_status'', JStr ''OK'')]])] [])"

definition disk_bundle :: EvidenceBundle where
  "disk_bundle = boot_evidence CHR ''c'' boot_disk (boot_facts ''disk''
    [(''number'', JInt 0), (''partition_style'', JStr ''GPT'')] [])"

definition part_bundle :: EvidenceBundle where
  "part_bundle = boot_evidence CHR ''d'' boot_part (boot_facts ''partition''
    [(''disk_number'', JInt 0), (''type'', JStr ''Basic'')] [boot_disk])"

definition esp_bundle :: EvidenceBundle where
  "esp_bundle = boot_evidence CHR ''e'' boot_esp (boot_facts ''partition''
    [(''disk_number'', JInt 0), (''gpt_type'', JStr ''{C12A7328-F81F-11D2-BA4B-00A0C93EC93B}'')] [boot_disk])"

definition win_bundle :: EvidenceBundle where
  "win_bundle = boot_evidence CHR ''f'' boot_win (boot_facts ''windows_installation''
    [(''root'', JStr ''C:'')] [boot_part])"

definition bcd_bundle :: EvidenceBundle where
  "bcd_bundle = boot_evidence CHR ''1'' boot_bcd (boot_facts ''boot_store''
    [(''kind'', JStr ''system'')] [boot_esp])"

definition part2_bundle :: EvidenceBundle where
  "part2_bundle = boot_evidence CHR ''2'' boot_part2 (boot_facts ''partition''
    [(''disk_number'', JInt 0), (''type'', JStr ''Basic'')] [boot_disk])"

definition win2_bundle :: EvidenceBundle where
  "win2_bundle = boot_evidence CHR ''3'' boot_win2 (boot_facts ''windows_installation''
    [(''root'', JStr ''D:'')] [boot_part2])"

definition boot_bundles :: "EvidenceBundle list" where
  "boot_bundles = [fw_bundle, disk_bundle, part_bundle, esp_bundle, win_bundle, bcd_bundle]"

definition boot_case :: "Target list \<Rightarrow> EvidenceBundle list \<Rightarrow> Snapshot" where
  "boot_case ts es = SnapshotFromImporterResult
     \<lparr>ir_Case = ex_manifest\<lparr>cm_TargetIDs := Some (map tg_TargetID ts)\<rparr>, ir_Targets = ts, ir_EvidenceBundles = es\<rparr>"

text \<open>A second installation, on a partition of the same disk.\<close>

definition dual_targets :: "Target list" where
  "dual_targets = [boot_target boot_part2 ''partition'', boot_target boot_win2 ''windows_installation'']"

definition dual_bundles :: "EvidenceBundle list" where "dual_bundles = [part2_bundle, win2_bundle]"

lemmas bundle_defs = fw_bundle_def disk_bundle_def part_bundle_def esp_bundle_def win_bundle_def bcd_bundle_def
  part2_bundle_def win2_bundle_def

definition one_windows :: Snapshot where "one_windows = boot_case boot_targets boot_bundles"
definition two_windows :: Snapshot where "two_windows = boot_case (boot_targets @ dual_targets) (boot_bundles @ dual_bundles)"

section \<open>They are valid\<close>

lemma boot_ids [simp]:
  "reTargetID boot_fw" "reTargetID boot_disk" "reTargetID boot_part" "reTargetID boot_part2" "reTargetID boot_esp"
  "reTargetID boot_win" "reTargetID boot_win2" "reTargetID boot_bcd"
  by code_simp+

lemma boot_distinct:
  "distinct [boot_fw, boot_disk, boot_part, boot_esp, boot_win, boot_bcd, boot_part2, boot_win2, ex_case_id]"
  by code_simp

lemma boot_evidence_ids [simp]: "c \<in> set lower_hex \<Longrightarrow> reEvidenceID (ex_id ''evidence-'' c)"
  by (simp add: reEvidenceID_def hex_id)

lemma boot_target_ok [simp]: "reTargetID i \<Longrightarrow> ty \<in> set targetTypes \<Longrightarrow> \<not> blank ty \<Longrightarrow> Target_Validate (boot_target i ty) = None"
  using ex_docs(1) by (simp add: Target_Validate_def boot_target_def requireEnum_None ex_target_def)

lemma boot_facts_ok:
  assumes "json_fits (max_nesting - 1) (JObj payload)" "raw_free (JObj payload)" "\<forall>s \<in> set (kind # related). ascii s"
  shows "json_valid (boot_facts kind payload related)" "boot_facts kind payload related \<noteq> []"
proof -
  have fits: "json_fits max_nesting (boot_json kind payload related)" "raw_free (boot_json kind payload related)"
    using assms by (auto simp: boot_json_def max_nesting_def json_strs_def ascii_valid)
  then obtain s where "marshal (boot_json kind payload related) = Inr s" using decode_marshal(1) by blast
  then show "json_valid (boot_facts kind payload related)" "boot_facts kind payload related \<noteq> []"
    using marshal_valid [OF fits] by (simp_all add: boot_facts_def marshalled_def)
qed

lemma boot_bundle_ok:
  assumes "json_fits (max_nesting - 1) (JObj payload)" "raw_free (JObj payload)" "\<forall>s \<in> set (kind # related). ascii s"
    "c \<in> set lower_hex" "reTargetID i"
  shows "EvidenceBundle_Validate (boot_evidence c i (boot_facts kind payload related)) = None"
  using ex_docs(2) boot_facts_ok [OF assms(1,2,3)] assms(4,5)
  by (simp add: EvidenceBundle_Validate_def boot_evidence_def ex_evidence_def)

lemma boot_texts [simp]: "ascii boot_disk" "ascii boot_part" "ascii boot_part2" "ascii boot_esp"
  "\<forall>ty \<in> set [''firmware'', ''disk'', ''partition'', ''windows_installation'', ''boot_store'']. ty \<in> set targetTypes \<and> \<not> blank ty"
  by code_simp+

lemma boot_bundles_ok: "\<forall>e \<in> set (boot_bundles @ dual_bundles). EvidenceBundle_Validate e = None"
  by (auto simp: boot_bundles_def dual_bundles_def bundle_defs max_nesting_def lower_hex_def ascii_valid intro!: boot_bundle_ok)

lemma boot_case_valid:
  assumes "\<forall>t \<in> set ts. Target_Validate t = None" "\<forall>e \<in> set es. EvidenceBundle_Validate e = None" "ts \<noteq> []" "es \<noteq> []"
    "distinct (map tg_TargetID ts)" "distinct (map ev_EvidenceID es)"
    "\<forall>e \<in> set es. ev_CaseID e = ex_case_id \<and> ev_TargetID e \<in> tg_TargetID ` set ts \<and> ev_Artifacts e = Some []"
  shows "Snapshot_Validate False (boot_case ts es) = None"
proof -
  have m: "CaseManifest_Validate (ex_manifest\<lparr>cm_TargetIDs := Some (map tg_TargetID ts)\<rparr>) = None"
    using ex_docs(4) assms(1) by (auto simp: CaseManifest_Validate_def Target_Validate_def)
  have e: "check_evidence False ex_case_id n seen [] es = Inr []" if "set seen \<inter> ev_EvidenceID ` set es = {}" for n seen
    using assms(6,7) that
    by (induction es arbitrary: n seen) (auto)
  show ?thesis
    using assms m e
    by (simp add: boot_case_def SnapshotFromImporterResult_def snapshot_parts)
qed

lemma boot_targets_ok: "\<forall>t \<in> set (boot_targets @ dual_targets). Target_Validate t = None"
  by (simp add: boot_targets_def dual_targets_def boot_target_ok)

lemma boot_target_fields [simp]: "tg_TargetID (boot_target i ty) = i" "tg_TargetType (boot_target i ty) = ty"
  "tg_RuntimeLocators (boot_target i ty) = Some []"
  by (simp_all add: boot_target_def ex_target_def)

lemma boot_evidence_fields [simp]: "ev_EvidenceID (boot_evidence c i f) = ex_id ''evidence-'' c" "ev_TargetID (boot_evidence c i f) = i"
  "ev_CaseID (boot_evidence c i f) = ex_case_id" "ev_Artifacts (boot_evidence c i f) = Some []"
  by (simp_all add: boot_evidence_def ex_evidence_def)

lemma ex_id_inj [simp]: "ex_id p c = ex_id p d \<longleftrightarrow> c = d"
  by (simp add: ex_id_def)

lemma one_windows_valid: "Snapshot_Validate False one_windows = None"
  unfolding one_windows_def using boot_targets_ok boot_bundles_ok boot_distinct
  by (intro boot_case_valid) (simp_all add: boot_targets_def boot_bundles_def bundle_defs)

lemma two_windows_valid: "Snapshot_Validate False two_windows = None"
  unfolding two_windows_def using boot_targets_ok boot_bundles_ok boot_distinct
  by (intro boot_case_valid) (simp_all add: boot_targets_def boot_bundles_def dual_targets_def dual_bundles_def bundle_defs)

section \<open>What the resolver reads from them\<close>

section \<open>Their views\<close>

text \<open>What is parsed with a bound on the nesting is parsed with any larger one.\<close>

lemma parse_deeper:
  shows "parse_value d s = Some x \<Longrightarrow> parse_value (d + k) s = Some x"
    and "parse_members d s = Some ms \<Longrightarrow> parse_members (d + k) s = Some ms"
    and "parse_elems d s = Some es \<Longrightarrow> parse_elems (d + k) s = Some es"
proof (induction d s and d s and d s arbitrary: x and ms and es rule: parse_value_parse_members_parse_elems.induct)
  case (1 d s)
  have d: "d \<noteq> 0 \<Longrightarrow> d + k - 1 = d - 1 + k" by simp
  show ?case
    using 1 d by (auto simp: parse_value.simps [of d s] parse_value.simps [of "d + k" s] Let_def split: if_split_asm)
next
  case (2 d s)
  from "2.prems" obtain key t v r where kt: "member_key s = Some (key, t)" and v: "parse_value d t = Some (v, r)"
    and l: "length r < length s"
    by (auto simp: parse_members.simps [of d s] Let_def split: option.splits if_split_asm)
  have v': "parse_value (d + k) t = Some (v, r)" using "2.IH"(1) [OF kt refl v] .
  show ?case
    using "2.prems" "2.IH"(2) [OF kt refl v refl refl refl l] kt v v' l
    by (auto simp: parse_members.simps [of d s] parse_members.simps [of "d + k" s] Let_def split: if_split_asm)
next
  case (3 d s)
  from "3.prems" obtain v r where v: "parse_value d s = Some (v, r)" and l: "length r < length s"
    by (auto simp: parse_elems.simps [of d s] Let_def split: option.splits if_split_asm)
  show ?case
    using "3.prems" "3.IH"(2) [OF v refl refl refl l] v "3.IH"(1) [OF v] l
    by (auto simp: parse_elems.simps [of d s] parse_elems.simps [of "d + k" s] Let_def split: if_split_asm)
qed

lemma parse_at_limit: "parse_value d s = Some x \<Longrightarrow> d \<le> max_nesting \<Longrightarrow> parse_value max_nesting s = Some x"
  using parse_deeper(1) [of d s x "max_nesting - d"] by simp

text \<open>A bundle whose facts can be computed with little nesting.\<close>

definition shallow_facts :: "string \<Rightarrow> (factsEnvelope \<Rightarrow> bool) \<Rightarrow> (payload_members \<Rightarrow> bool) \<Rightarrow> bool" where
  "shallow_facts raw P Q \<longleftrightarrow>
     (case parse_value 20 (skip_space raw) of None \<Rightarrow> False
      | Some (v, r) \<Rightarrow> skip_space r = [] \<and>
         (case dec_struct factsEnvelope_fields zero_factsEnvelope (upto_rest (skip_space raw) r, v) of Inl _ \<Rightarrow> False
          | Inr env \<Rightarrow> fe_Payload env \<noteq> VNull \<and> P env \<and>
             (case marshal (any_json (fe_Payload env)) of Inl _ \<Rightarrow> False
              | Inr payload \<Rightarrow>
                 (case parse_value 20 (skip_space payload) of None \<Rightarrow> False
                  | Some (w, q) \<Rightarrow> skip_space q = [] \<and> (case w of VObj ms \<Rightarrow> Q ms | _ \<Rightarrow> False)))))"

lemma shallow_facts_cases:
  assumes "shallow_facts raw P Q"
  obtains v r env payload ms q where
    "parse_value 20 (skip_space raw) = Some (v, r)" "skip_space r = []"
    "dec_struct factsEnvelope_fields zero_factsEnvelope (upto_rest (skip_space raw) r, v) = Inr env"
    "fe_Payload env \<noteq> VNull" "P env" "marshal (any_json (fe_Payload env)) = Inr payload"
    "parse_value 20 (skip_space payload) = Some (VObj ms, q)" "skip_space q = []" "Q ms"
proof -
  obtain v r where v: "parse_value 20 (skip_space raw) = Some (v, r)"
    using assms by (cases "parse_value 20 (skip_space raw)") (auto simp: shallow_facts_def)
  then obtain env where env: "dec_struct factsEnvelope_fields zero_factsEnvelope (upto_rest (skip_space raw) r, v) = Inr env"
    using assms unfolding shallow_facts_def
    by (cases "dec_struct factsEnvelope_fields zero_factsEnvelope (upto_rest (skip_space raw) r, v)")
      (simp_all only: option.case prod.case sum.case simp_thms)
  obtain payload where m: "marshal (any_json (fe_Payload env)) = Inr payload"
    using assms v env unfolding shallow_facts_def
    by (cases "marshal (any_json (fe_Payload env))") (simp_all only: option.case prod.case sum.case simp_thms)
  obtain w q where q: "parse_value 20 (skip_space payload) = Some (w, q)"
    using assms v env m unfolding shallow_facts_def
    by (cases "parse_value 20 (skip_space payload)") (simp_all only: option.case prod.case sum.case simp_thms split_paired_all)
  have all: "skip_space r = [] \<and> fe_Payload env \<noteq> VNull \<and> P env \<and> skip_space q = [] \<and> (case w of VObj ms \<Rightarrow> Q ms | _ \<Rightarrow> False)"
    using assms v env m q unfolding shallow_facts_def by (simp only: option.case prod.case sum.case simp_thms)
  then obtain ms where "w = VObj ms" by (cases w) simp_all
  then show ?thesis using that v env m q all by simp
qed

lemma shallow_view:
  assumes "shallow_facts raw P Q" "isLegacyFactsSchema (ev_FactsSchema b)" "elems (ev_Facts b) = raw"
  obtains v env ms where "DecodeBundle b = Inr v" "P env" "vw_EntityKind v = fe_EntityKind env"
    "vw_RelatedTargetIDs v = elems (fe_RelatedTargetIDs env)" "decodePayload (fe_Payload (vw_Envelope v)) = Inr ms" "Q ms"
proof -
  have limit: "20 \<le> max_nesting" by (simp add: max_nesting_def)
  obtain val r env payload ms q where
    p: "parse_value 20 (skip_space raw) = Some (val, r)" "skip_space r = []"
    and e: "dec_struct factsEnvelope_fields zero_factsEnvelope (upto_rest (skip_space raw) r, val) = Inr env"
      "fe_Payload env \<noteq> VNull" "P env"
    and m: "marshal (any_json (fe_Payload env)) = Inr payload"
    and q: "parse_value 20 (skip_space payload) = Some (VObj ms, q)" "skip_space q = []" "Q ms"
    by (rule shallow_facts_cases [OF assms(1)])
  have env: "decodeFactsStrict raw = Inr env"
    using e(1,2) parse_at_limit [OF p(1) limit] p(2) by (simp add: decodeFactsStrict_def Let_def requireJSONEOF_def)
  have payload: "decodePayload payload = Inr ms"
    using parse_at_limit [OF q(1) limit] q(2) by (simp add: decodePayload_def decode_document_def Let_def dec_object_def)
  obtain fe where fe: "DecodeFactsEnvelopeStrict raw = Inr fe" "fe_EntityKind fe = fe_EntityKind env"
    "fe_RelatedTargetIDs fe = fe_RelatedTargetIDs env" "fe_Payload fe = payload"
    by (simp only: DecodeFactsEnvelopeStrict_def env m bindE.simps) simp
  obtain v where "DecodeBundle b = Inr v" "vw_EntityKind v = fe_EntityKind env"
    "vw_RelatedTargetIDs v = elems (fe_RelatedTargetIDs env)" "fe_Payload (vw_Envelope v) = payload"
    using assms(2,3) fe by (simp add: DecodeBundle_def)
  then show ?thesis using that e(3) payload q(3) by blast
qed

definition boot_view :: "EvidenceBundle \<Rightarrow> View" where
  "boot_view b = projr (DecodeBundle b)"

lemma boot_decoded:
  fixes c i
  assumes "shallow_facts (boot_facts kind payload related) (\<lambda>env. fe_EntityKind env = kind \<and> fe_RelatedTargetIDs env = Some related) Q"
  defines "b \<equiv> boot_evidence c i (boot_facts kind payload related)"
  shows "DecodeBundle b = Inr (boot_view b)" "vw_EntityKind (boot_view b) = kind" "vw_RelatedTargetIDs (boot_view b) = related"
    "\<exists>ms. decodePayload (fe_Payload (vw_Envelope (boot_view b))) = Inr ms \<and> Q ms"
proof -
  have b: "isLegacyFactsSchema (ev_FactsSchema b)" "elems (ev_Facts b) = boot_facts kind payload related"
    by (simp_all add: b_def boot_evidence_def isLegacyFactsSchema_def)
  obtain v ms and env :: factsEnvelope where "DecodeBundle b = Inr v" "fe_EntityKind env = kind \<and> fe_RelatedTargetIDs env = Some related"
    "vw_EntityKind v = fe_EntityKind env" "vw_RelatedTargetIDs v = elems (fe_RelatedTargetIDs env)"
    "decodePayload (fe_Payload (vw_Envelope v)) = Inr ms" "Q ms"
    by (rule shallow_view [OF assms(1) b])
  then show "DecodeBundle b = Inr (boot_view b)" "vw_EntityKind (boot_view b) = kind" "vw_RelatedTargetIDs (boot_view b) = related"
    "\<exists>ms. decodePayload (fe_Payload (vw_Envelope (boot_view b))) = Inr ms \<and> Q ms"
    by (simp_all add: boot_view_def)
qed

lemma fw_shallow:
  "shallow_facts (boot_facts ''firmware_environment''
     [(''boot_firmware_mode'', JStr ''UEFI''),
      (''drive_health'', JArr [JObj [(''health_status'', JStr ''Healthy''), (''operational_status'', JStr ''OK'')]])] [])
     (\<lambda>env. fe_EntityKind env = ''firmware_environment'' \<and> fe_RelatedTargetIDs env = Some [])
     (\<lambda>ms. string_or_empty ms ''boot_firmware_mode'' = ''UEFI'' \<and> member ms ''hardware'' = None \<and>
       (case member ms ''drive_health'' of Some (VArr ts) \<Rightarrow>
          (case health_records ts of Inr rs \<Rightarrow> map classifyDriveHealth rs = [driveHealthHealthy] | Inl _ \<Rightarrow> False)
        | _ \<Rightarrow> False))"
  by code_simp

lemma disk_shallow:
  "shallow_facts (boot_facts ''disk'' [(''number'', JInt 0), (''partition_style'', JStr ''GPT'')] [])
     (\<lambda>env. fe_EntityKind env = ''disk'' \<and> fe_RelatedTargetIDs env = Some [])
     (\<lambda>ms. string_or_empty ms ''partition_style'' = ''GPT'')"
  by code_simp

lemma part_shallow:
  "shallow_facts (boot_facts ''partition'' [(''disk_number'', JInt 0), (''type'', JStr ''Basic'')] [boot_disk])
     (\<lambda>env. fe_EntityKind env = ''partition'' \<and> fe_RelatedTargetIDs env = Some [boot_disk])
     (\<lambda>ms. string_or_empty ms ''gpt_type'' = [] \<and> string_or_empty ms ''type'' = ''Basic'')"
  by code_simp

lemma esp_shallow:
  "shallow_facts (boot_facts ''partition''
      [(''disk_number'', JInt 0), (''gpt_type'', JStr ''{C12A7328-F81F-11D2-BA4B-00A0C93EC93B}'')] [boot_disk])
     (\<lambda>env. fe_EntityKind env = ''partition'' \<and> fe_RelatedTargetIDs env = Some [boot_disk])
     (\<lambda>ms. normalizeGUID (string_or_empty ms ''gpt_type'') = espGPTTypeGUID)"
  by code_simp

lemma other_shallow:
  "shallow_facts (boot_facts ''windows_installation'' [(''root'', JStr ''C:'')] [boot_part])
     (\<lambda>env. fe_EntityKind env = ''windows_installation'' \<and> fe_RelatedTargetIDs env = Some [boot_part]) (\<lambda>_. True)"
  "shallow_facts (boot_facts ''boot_store'' [(''kind'', JStr ''system'')] [boot_esp])
     (\<lambda>env. fe_EntityKind env = ''boot_store'' \<and> fe_RelatedTargetIDs env = Some [boot_esp]) (\<lambda>_. True)"
  "shallow_facts (boot_facts ''windows_installation'' [(''root'', JStr ''D:'')] [boot_part2])
     (\<lambda>env. fe_EntityKind env = ''windows_installation'' \<and> fe_RelatedTargetIDs env = Some [boot_part2]) (\<lambda>_. True)"
  by code_simp+

lemmas bundle_views =
  boot_decoded [OF fw_shallow, of "CHR ''b''" boot_fw, folded fw_bundle_def]
  boot_decoded [OF disk_shallow, of "CHR ''c''" boot_disk, folded disk_bundle_def]
  boot_decoded [OF part_shallow, of "CHR ''d''" boot_part, folded part_bundle_def]
  boot_decoded [OF esp_shallow, of "CHR ''e''" boot_esp, folded esp_bundle_def]
  boot_decoded [OF other_shallow(1), of "CHR ''f''" boot_win, folded win_bundle_def]
  boot_decoded [OF other_shallow(2), of "CHR ''1''" boot_bcd, folded bcd_bundle_def]
  boot_decoded [OF part_shallow, of "CHR ''2''" boot_part2, folded part2_bundle_def]
  boot_decoded [OF other_shallow(3), of "CHR ''3''" boot_win2, folded win2_bundle_def]

lemma boot_view_kinds [simp]:
  "vw_EntityKind (boot_view fw_bundle) = ''firmware_environment''" "vw_EntityKind (boot_view disk_bundle) = ''disk''"
  "vw_EntityKind (boot_view part_bundle) = ''partition''" "vw_EntityKind (boot_view esp_bundle) = ''partition''"
  "vw_EntityKind (boot_view win_bundle) = ''windows_installation''" "vw_EntityKind (boot_view bcd_bundle) = ''boot_store''"
  "vw_EntityKind (boot_view part2_bundle) = ''partition''" "vw_EntityKind (boot_view win2_bundle) = ''windows_installation''"
  by (rule bundle_views)+

lemma boot_view_related [simp]:
  "vw_RelatedTargetIDs (boot_view fw_bundle) = []" "vw_RelatedTargetIDs (boot_view disk_bundle) = []"
  "vw_RelatedTargetIDs (boot_view part_bundle) = [boot_disk]" "vw_RelatedTargetIDs (boot_view esp_bundle) = [boot_disk]"
  "vw_RelatedTargetIDs (boot_view win_bundle) = [boot_part]" "vw_RelatedTargetIDs (boot_view bcd_bundle) = [boot_esp]"
  "vw_RelatedTargetIDs (boot_view part2_bundle) = [boot_disk]" "vw_RelatedTargetIDs (boot_view win2_bundle) = [boot_part2]"
  by (rule bundle_views)+

lemma fw_view:
  obtains fw where "View_Firmware (boot_view fw_bundle) = Inr fw" "fw_BootFirmwareMode fw = ''UEFI''" "fw_HardwareFirmwareMode fw = []"
    and "health_of_view (boot_view fw_bundle) = [driveHealthHealthy]"
proof -
  obtain ms where ms: "decodePayload (fe_Payload (vw_Envelope (boot_view fw_bundle))) = Inr ms"
    "string_or_empty ms ''boot_firmware_mode'' = ''UEFI''" "member ms ''hardware'' = None"
    "case member ms ''drive_health'' of Some (VArr ts) \<Rightarrow>
       (case health_records ts of Inr rs \<Rightarrow> map classifyDriveHealth rs = [driveHealthHealthy] | Inl _ \<Rightarrow> False) | _ \<Rightarrow> False"
    using bundle_views(4) by blast
  obtain ts rs where "member ms ''drive_health'' = Some (VArr ts)" "health_records ts = Inr rs" "map classifyDriveHealth rs = [driveHealthHealthy]"
    using ms(4) by (auto split: option.split_asm jval.split_asm sum.split_asm)
  then have "health_of_view (boot_view fw_bundle) = [driveHealthHealthy]"
    using ms(1) by (simp add: health_of_view_def View_DriveHealthRecords_def check_then_def err_if_def)
  moreover have "\<exists>fw. View_Firmware (boot_view fw_bundle) = Inr fw \<and> fw_BootFirmwareMode fw = ''UEFI'' \<and> fw_HardwareFirmwareMode fw = []"
    using ms(1,2,3) by (simp add: View_Firmware_def payload_of_def)
  ultimately show ?thesis using that by blast
qed

lemma disk_view: "\<exists>d. View_Disk (boot_view disk_bundle) = Inr d \<and> dk_PartitionStyle d = ''GPT''"
  using bundle_views(8) by (auto simp: View_Disk_def payload_of_def)

lemma partition_view:
  assumes "decodePayload (fe_Payload (vw_Envelope v)) = Inr ms" "vw_EntityKind v = ''partition''"
  shows "\<exists>p. View_Partition v = Inr p \<and> pt_GPTType p = string_or_empty ms ''gpt_type'' \<and>
    (string_or_empty ms ''type'' \<noteq> [] \<longrightarrow> pt_Type p = string_or_empty ms ''type'')"
  using assms by (simp add: View_Partition_def payload_of_def check_then_def err_if_def Let_def)

lemma part_views:
  "\<exists>p. View_Partition (boot_view part_bundle) = Inr p \<and> pt_GPTType p = [] \<and> pt_Type p = ''Basic''"
  "\<exists>p. View_Partition (boot_view part2_bundle) = Inr p \<and> pt_GPTType p = [] \<and> pt_Type p = ''Basic''"
  "\<exists>p. View_Partition (boot_view esp_bundle) = Inr p \<and> normalizeGUID (pt_GPTType p) = espGPTTypeGUID"
  using bundle_views(12) bundle_views(28) bundle_views(16) partition_view by fastforce+

section \<open>Their index\<close>

definition boot_index :: "Target list \<Rightarrow> EvidenceBundle list \<Rightarrow> index" where
  "boot_index ts es =
     \<lparr>ix_targets = map_of (rev (map (\<lambda>t. (tg_TargetID t, t)) ts)),
      ix_bundlesByTarget = (\<lambda>i. filter (\<lambda>b. ev_TargetID b = i) es),
      ix_views = map (\<lambda>b. (ev_EvidenceID b, boot_view b)) es,
      ix_firmwareTarget = List.find (\<lambda>t. tg_TargetType t = ''firmware'') ts,
      ix_byType = targets_of_type ts\<rparr>"

lemma boot_buildIndex:
  assumes "\<forall>b \<in> set es. DecodeBundle b = Inr (boot_view b)" "distinct (map ev_EvidenceID es)"
  shows "buildIndex (boot_case ts es) = Inr (boot_index ts es)"
proof -
  have "decode_views (\<lambda>_ e. e) vs es = Inr (vs @ map (\<lambda>b. (ev_EvidenceID b, boot_view b)) es)"
    if "\<forall>b \<in> set es. ev_EvidenceID b \<notin> fst ` set vs" for vs
    using assms that
  proof (induction es arbitrary: vs)
    case (Cons b es)
    have "AList.update (ev_EvidenceID b) (boot_view b) vs = vs @ [(ev_EvidenceID b, boot_view b)]"
    proof -
      have "ev_EvidenceID b \<notin> fst ` set vs" using Cons.prems(3) by simp
      then show ?thesis by (induction vs) auto
    qed
    moreover have "\<forall>d \<in> set es. ev_EvidenceID d \<notin> fst ` set (vs @ [(ev_EvidenceID b, boot_view b)])"
      using Cons.prems(2,3) by (auto simp: image_iff)
    ultimately show ?case
      using Cons.prems(1,2) Cons.IH [of "vs @ [(ev_EvidenceID b, boot_view b)]"] by simp
  qed simp
  from this [of "[]"] show ?thesis
    by (simp add: buildIndex_def boot_index_def boot_case_def SnapshotFromImporterResult_def)
qed

end
