(* ===== verification/ResolverExampleRuns.thy ===== *)
theory ResolverExampleRuns
  imports ResolverExample
begin

text \<open>What the resolver makes of the example: everything but the hashes in the identifiers is computed.\<close>

lemma bundle_fields [simp]:
  "ev_EvidenceID fw_bundle = ex_id ''evidence-'' CHR ''b''" "ev_TargetID fw_bundle = boot_fw"
  "ev_EvidenceID disk_bundle = ex_id ''evidence-'' CHR ''c''" "ev_TargetID disk_bundle = boot_disk"
  "ev_EvidenceID part_bundle = ex_id ''evidence-'' CHR ''d''" "ev_TargetID part_bundle = boot_part"
  "ev_EvidenceID esp_bundle = ex_id ''evidence-'' CHR ''e''" "ev_TargetID esp_bundle = boot_esp"
  "ev_EvidenceID win_bundle = ex_id ''evidence-'' CHR ''f''" "ev_TargetID win_bundle = boot_win"
  "ev_EvidenceID bcd_bundle = ex_id ''evidence-'' CHR ''1''" "ev_TargetID bcd_bundle = boot_bcd"
  "ev_EvidenceID part2_bundle = ex_id ''evidence-'' CHR ''2''" "ev_TargetID part2_bundle = boot_part2"
  "ev_EvidenceID win2_bundle = ex_id ''evidence-'' CHR ''3''" "ev_TargetID win2_bundle = boot_win2"
  by (simp_all add: bundle_defs)

lemma boot_neqs [simp]:
  "boot_fw \<noteq> boot_disk" "boot_fw \<noteq> boot_part" "boot_fw \<noteq> boot_esp" "boot_fw \<noteq> boot_win" "boot_fw \<noteq> boot_bcd"
  "boot_fw \<noteq> boot_part2" "boot_fw \<noteq> boot_win2" "boot_disk \<noteq> boot_part" "boot_disk \<noteq> boot_esp" "boot_disk \<noteq> boot_win"
  "boot_disk \<noteq> boot_bcd" "boot_disk \<noteq> boot_part2" "boot_disk \<noteq> boot_win2" "boot_part \<noteq> boot_esp" "boot_part \<noteq> boot_win"
  "boot_part \<noteq> boot_bcd" "boot_part \<noteq> boot_part2" "boot_part \<noteq> boot_win2" "boot_esp \<noteq> boot_win" "boot_esp \<noteq> boot_bcd"
  "boot_esp \<noteq> boot_part2" "boot_esp \<noteq> boot_win2" "boot_win \<noteq> boot_bcd" "boot_win \<noteq> boot_part2" "boot_win \<noteq> boot_win2"
  "boot_bcd \<noteq> boot_part2" "boot_bcd \<noteq> boot_win2" "boot_part2 \<noteq> boot_win2"
  using boot_distinct by simp_all

lemmas boot_neqs_sym [simp] = boot_neqs [symmetric]

lemma boot_nonempty [simp]:
  "boot_fw \<noteq> []" "boot_disk \<noteq> []" "boot_part \<noteq> []" "boot_esp \<noteq> []" "boot_win \<noteq> []" "boot_bcd \<noteq> []" "boot_part2 \<noteq> []"
  "boot_win2 \<noteq> []"
  using boot_ids by fastforce+

definition one_index :: index where "one_index = boot_index boot_targets boot_bundles"
definition two_index :: index where "two_index = boot_index (boot_targets @ dual_targets) (boot_bundles @ dual_bundles)"

lemma boot_indexes:
  "buildIndex one_windows = Inr one_index" "buildIndex two_windows = Inr two_index"
  unfolding one_windows_def two_windows_def one_index_def two_index_def
  by (intro boot_buildIndex; simp add: boot_bundles_def dual_bundles_def bundle_views)+

lemmas index_defs = one_index_def two_index_def boot_index_def boot_targets_def dual_targets_def boot_bundles_def dual_bundles_def

lemma singleton_set [simp]: "v \<noteq> [] \<Longrightarrow> uniqueSorted [v] = [v]"
  by (simp add: uniqueSorted_def)

lemma boot_related:
  "relatedPartitions one_index boot_win = [boot_part]" "relatedPartitions one_index boot_bcd = [boot_esp]"
  "relatedDisks one_index boot_part = [boot_disk]" "relatedDisks one_index boot_esp = [boot_disk]"
  "relatedPartitions two_index boot_win = [boot_part]" "relatedPartitions two_index boot_win2 = [boot_part2]"
  "relatedDisks two_index boot_part = [boot_disk]" "relatedDisks two_index boot_part2 = [boot_disk]"
proof -
  have "disks_numbered one_index v = []" "disks_numbered two_index v = []" for v
    by (auto simp: disks_numbered_def index_defs targets_of_type_def parseLocatorInt_def split: sum.split option.split)
  then show
    "relatedPartitions one_index boot_win = [boot_part]" "relatedPartitions one_index boot_bcd = [boot_esp]"
    "relatedDisks one_index boot_part = [boot_disk]" "relatedDisks one_index boot_esp = [boot_disk]"
    "relatedPartitions two_index boot_win = [boot_part]" "relatedPartitions two_index boot_win2 = [boot_part2]"
    "relatedDisks two_index boot_part = [boot_disk]" "relatedDisks two_index boot_part2 = [boot_disk]"
    by (simp_all add: relatedPartitions_def relatedDisks_def views_of_def index_defs map_filter_simps)
qed

lemma boot_types:
  "ix_byType one_index ''firmware'' = [boot_target boot_fw ''firmware'']"
  "ix_byType one_index ''disk'' = [boot_target boot_disk ''disk'']"
  "ix_byType one_index ''partition'' = [boot_target boot_esp ''partition'', boot_target boot_part ''partition'']"
  "ix_byType one_index ''windows_installation'' = [boot_target boot_win ''windows_installation'']"
  "ix_byType one_index ''boot_store'' = [boot_target boot_bcd ''boot_store'']"
proof -
  have "\<not> boot_part \<le> boot_esp" by code_simp
  then show "ix_byType one_index ''partition'' = [boot_target boot_esp ''partition'', boot_target boot_part ''partition'']"
    by (simp add: index_defs targets_of_type_def)
qed (simp_all add: index_defs targets_of_type_def)

lemma boot_firmware: "resolveFirmware one_index = (FirmwareUEFI, [], [])" "ix_firmwareTarget one_index = Some (boot_target boot_fw ''firmware'')"
proof -
  obtain fw where fw: "View_Firmware (boot_view fw_bundle) = Inr fw" "fw_BootFirmwareMode fw = ''UEFI''" "fw_HardwareFirmwareMode fw = []"
    by (rule fw_view)
  have "views_of one_index boot_fw = [boot_view fw_bundle]" by (simp add: views_of_def index_defs map_filter_simps)
  moreover have "ToLower ''UEFI'' = ''uefi''" by code_simp
  ultimately have "firmware_modes one_index = [''uefi'']"
    using fw unfolding firmware_modes_def boot_types by (simp del: ToLower.simps)
  then show "resolveFirmware one_index = (FirmwareUEFI, [], [])" by (simp add: resolveFirmware_def)
qed (simp add: index_defs)

lemma boot_disk_gpt: "diskIsGPT one_index boot_disk"
proof -
  have "EqualFold ''GPT'' ''GPT''" by code_simp
  then show ?thesis
    using disk_view by (auto simp: diskIsGPT_def views_of_def index_defs map_filter_simps)
qed

lemma boot_health:
  "resolveBitLocker (\<lambda>vs. vs) one_index = ([], [], [])" "resolveHealth (\<lambda>vs. vs) one_index = ([], [], [])"
proof -
  obtain fw where "health_of_view (boot_view fw_bundle) = [driveHealthHealthy]" by (rule fw_view)
  then have "health_classes (\<lambda>vs. vs) one_index = [driveHealthHealthy]"
    by (simp add: health_classes_eq index_defs) (simp add: health_of_view_def)
  then show "resolveHealth (\<lambda>vs. vs) one_index = ([], [], [])" by (simp add: resolveHealth_def Let_def)
  show "resolveBitLocker (\<lambda>vs. vs) one_index = ([], [], [])"
    unfolding resolveBitLocker_def Let_def bitlocker_limitations_def boot_types
    by (simp add: index_defs bitlocker_finding_def boot_target_def ex_target_def)
qed

section \<open>The run on one installation\<close>

abbreviation boot_refs :: "string \<Rightarrow> string list" where
  "boot_refs \<equiv> evidenceIDsForTarget one_index"

lemma boot_letters: "driveLetterFromLocators (tg_RuntimeLocators (boot_target i ty)) = []" "\<not> letterOnlyRelation one_index i j"
proof -
  show "driveLetterFromLocators (tg_RuntimeLocators (boot_target i ty)) = []" by (simp add: driveLetterFromLocators_def)
  have "driveLetterFromLocators (locators_of one_index i) = []"
    by (simp add: locators_of_def index_defs driveLetterFromLocators_def)
  then show "\<not> letterOnlyRelation one_index i j" by (simp add: letterOnlyRelation_def)
qed

lemma one_resolutions:
  "resolveWindows one_index = \<lparr>rs_cands =
     [candidate ''cand.windows.'' RoleWindowsInstallation boot_win ConfidenceStrongInference (boot_refs boot_win)
        [''windows_installation_present''],
      candidate ''cand.windows_partition.'' RoleWindowsPartition boot_part ConfidenceStrongInference (boot_refs boot_part)
        [''windows_partition_linked''],
      candidate ''cand.system_disk.'' RoleSystemDisk boot_disk ConfidenceStrongInference (boot_refs boot_disk)
        [''system_disk_linked'']],
     rs_rels =
     [relation ''rel.hosts_windows.'' (boot_win @ boot_part) RelationHostsWindows boot_part boot_win ConfidenceStrongInference
        (boot_refs boot_win) ''hosts_windows_related'',
      relation ''rel.contains.'' (boot_disk @ boot_part) RelationContains boot_disk boot_part ConfidenceStrongInference
        (boot_refs boot_part) ''partition_disk_related''], rs_amb = [], rs_lims = []\<rparr>"
  "resolveBCD one_index = \<lparr>rs_cands =
     [candidate ''cand.bcd.'' RoleBCDStore boot_bcd ConfidenceStrongInference (boot_refs boot_bcd) [''bcd_store_present'']],
     rs_rels = [relation ''rel.contains_bcd.'' (boot_esp @ boot_bcd) RelationContainsBCDStore boot_esp boot_bcd
        ConfidenceStrongInference (boot_refs boot_bcd) ''bcd_partition_linked''], rs_amb = [], rs_lims = []\<rparr>"
  by (simp_all add: resolveWindows_def resolveBCD_def boot_types all_resolutions_def resolve_installation_def resolve_store_def
      resolve_disk_def boot_related boot_letters Let_def del: boot_target_fields(3))

lemma one_esp:
  "resolveESP one_index = \<lparr>rs_cands =
     [candidate ''cand.esp.'' RoleEFISystemPartition boot_esp ConfidenceProven (boot_refs boot_esp) [''esp_gpt_type_guid'']],
     rs_rels = [relation ''rel.hosts_esp.'' (boot_disk @ boot_esp) RelationHostsESP boot_disk boot_esp
        ConfidenceProven (boot_refs boot_esp) ''esp_on_disk''], rs_amb = [], rs_lims = []\<rparr>"
proof -
  obtain p q where p: "View_Partition (boot_view part_bundle) = Inr p" "pt_GPTType p = []" "pt_Type p = ''Basic''"
    and q: "View_Partition (boot_view esp_bundle) = Inr q" "normalizeGUID (pt_GPTType q) = espGPTTypeGUID"
    using part_views by blast
  have "partition_payloads one_index boot_part = [p]" "partition_payloads one_index boot_esp = [q]"
    using p(1) q(1) by (simp_all add: partition_payloads_def views_of_def index_defs map_filter_simps)
  moreover have "normalizeGUID [] \<noteq> espGPTTypeGUID" "\<not> str_contains (ToUpper ''Basic'') ''EFI''" "\<not> str_contains (ToUpper ''Basic'') ''SYSTEM''"
    by code_simp+
  ultimately have
    "resolve_partition one_index (boot_target boot_part ''partition'') = \<lparr>rs_cands = [], rs_rels = [], rs_amb = [], rs_lims = []\<rparr>"
    "resolve_partition one_index (boot_target boot_esp ''partition'') = \<lparr>rs_cands =
       [candidate ''cand.esp.'' RoleEFISystemPartition boot_esp ConfidenceProven (boot_refs boot_esp) [''esp_gpt_type_guid'']],
       rs_rels = [relation ''rel.hosts_esp.'' (boot_disk @ boot_esp) RelationHostsESP boot_disk boot_esp
          ConfidenceProven (boot_refs boot_esp) ''esp_on_disk''], rs_amb = [], rs_lims = []\<rparr>"
    using p q by (simp_all add: resolve_partition_def boot_related Let_def del: ToUpper.simps)
  then show ?thesis by (simp add: resolveESP_def boot_types all_resolutions_def Let_def)
qed

end
