(* ===== verification/ResolverProperties.thy ===== *)
theory ResolverProperties
  imports ResolverExampleRuns
begin

text \<open>What \<^verbatim>\<open>targetresolver.Resolve\<close> promises about the topology it returns.\<close>

lemma no_blockers:
  assumes "me_Eligible (wt_MutationEligibility (build_topology wall req p selected))"
  shows "\<forall>b \<in> set (rp_blockers p). b = []" "\<forall>b \<in> set (layout_blockers p (rq_Selection req) (fst selected)). b = []"
    "ts_Source (fst selected) \<noteq> SelectionNone" "wt_Selection (build_topology wall req p selected) = fst selected"
  using assms by (simp_all add: topology_fields uniqueSorted_empty ball_Un)

section \<open>The examples\<close>

definition boot_request :: "Snapshot \<Rightarrow> ResolveRequest" where
  "boot_request s = \<lparr>rq_Snapshot = s, rq_CommitID = ex_commit_id, rq_Selection = None,
     rq_Now = \<lparr>unix_secs = 1785326400, nanos = 0\<rparr>\<rparr>"

lemma some_orders: "reorders (\<lambda>vs. vs)" "reorders rev" by (simp_all add: reorders_def)

lemma boot_time: "writable_time (run_time w (boot_request s))"
proof -
  have "0 \<le> year_of \<lparr>unix_secs = 1785326400, nanos = 0\<rparr>" "year_of \<lparr>unix_secs = 1785326400, nanos = 0\<rparr> \<le> 9999"
    "\<lparr>unix_secs = 1785326400, nanos = 0\<rparr> \<noteq> zero_time" by code_simp+
  then show ?thesis by (simp add: writable_time_def run_time_def boot_request_def)
qed

lemma boot_runs:
  assumes "reorders ord"
  shows "\<exists>selected. resolver_run False ord w (boot_request one_windows) one_index (boot_target boot_fw ''firmware'') selected"
    and "\<exists>selected. resolver_run False ord w (boot_request two_windows) two_index (boot_target boot_fw ''firmware'') selected"
proof -
  have fw: "ix_firmwareTarget two_index = Some (boot_target boot_fw ''firmware'')" by (simp add: index_defs)
  have c: "reCommitID ex_commit_id" by simp
  show "\<exists>selected. resolver_run False ord w (boot_request one_windows) one_index (boot_target boot_fw ''firmware'') selected"
    "\<exists>selected. resolver_run False ord w (boot_request two_windows) two_index (boot_target boot_fw ''firmware'') selected"
    using assms boot_time [of w] boot_indexes one_windows_valid two_windows_valid fw boot_firmware(2) c
    by (simp_all add: resolver_run_def Let_def boot_request_def applySelection_def del: split_paired_Ex)
qed

lemma boot_names:
  "distinct (map tc_CandidateID (rp_cands (resolve_parts ord one_index (boot_target boot_fw ''firmware''))))"
  "distinct (map tr_RelationID (rp_rels (resolve_parts ord one_index (boot_target boot_fw ''firmware''))))"
  by (simp_all add: parts_fields rels_eq one_resolutions one_esp firmware_candidate_def candidate_def relation_def)

lemma one_windows_returns: "reorders ord \<Longrightarrow> \<exists>r. Resolve False ord w None (boot_request one_windows) = Inr r"
  using boot_runs(1) [of ord w] resolver_run_returns boot_names by blast

lemmas topology_names = RoleFirmware_def RoleWindowsInstallation_def RoleWindowsPartition_def RoleSystemDisk_def
  RoleEFISystemPartition_def RoleBCDStore_def RelationHostsWindows_def RelationContains_def RelationHostsESP_def
  RelationContainsBCDStore_def ConfidenceProven_def ConfidenceStrongInference_def ConfidenceRuntimeOnly_def
  ConfidenceAmbiguous_def ConfidenceUnknown_def

definition one_selection :: TopologySelection where
  "one_selection = \<lparr>ts_Source = SelectionAutomatic, ts_WindowsTargetID = boot_win, ts_WindowsPartitionTargetID = boot_part,
     ts_SystemDiskTargetID = boot_disk, ts_ESPTargetID = boot_esp, ts_BCDTargetID = boot_bcd\<rparr>"

abbreviation one_parts :: resolved_parts where
  "one_parts \<equiv> resolve_parts (\<lambda>vs. vs) one_index (boot_target boot_fw ''firmware'')"

lemma one_selected:
  "applySelection one_index (rp_firmware one_parts) (rs_cands (rp_windows one_parts)) (rs_cands (rp_esp one_parts))
     (rs_cands (rp_bcd one_parts)) (rp_rels one_parts) None = Inr (one_selection, [], [])"
proof -
  have rels: "connection_problem (rp_rels one_parts) one_selection = None" "\<not> hasAmbiguousConfidence (rp_rels one_parts)"
    by (simp_all add: rels_eq one_resolutions one_esp connection_problem_def one_selection_def Let_def hasRelation_def
        hasAmbiguousConfidence_def relation_def topology_names)
  have roles: "countRole (rs_cands (resolveWindows one_index)) RoleWindowsInstallation = 1"
    "firstRole (rs_cands (resolveWindows one_index)) RoleWindowsInstallation = boot_win"
    "firstRole (rs_cands (resolveWindows one_index)) RoleWindowsPartition = boot_part"
    "firstRole (rs_cands (resolveWindows one_index)) RoleSystemDisk = boot_disk"
    "length (filterRole (rs_cands (resolveESP one_index)) RoleEFISystemPartition) = 1"
    "firstRole (rs_cands (resolveESP one_index)) RoleEFISystemPartition = boot_esp"
    "bcd_choice (rs_cands (resolveBCD one_index)) = Some boot_bcd"
    by (simp_all add: one_resolutions one_esp countRole_def firstRole_def filterRole_def bcd_choice_def candidate_def topology_names)
  have "automatic_selection one_index FirmwareUEFI (rs_cands (resolveWindows one_index)) (rs_cands (resolveESP one_index))
      (rs_cands (resolveBCD one_index)) (rp_rels one_parts) = connected_selection (rp_rels one_parts) one_selection"
    unfolding automatic_selection_def roles Let_def using rels(2) boot_disk_gpt by (simp add: one_selection_def)
  then show ?thesis
    using rels(1) by (simp add: applySelection_def parts_fields boot_firmware connected_selection_def)
qed

lemma one_windows_resolves:
  obtains r where "Resolve False (\<lambda>vs. vs) w None (boot_request one_windows) = Inr r"
    "me_Eligible (wt_MutationEligibility (rr_Topology r))" "wt_Selection (rr_Topology r) = one_selection"
proof -
  obtain selected where run: "resolver_run False (\<lambda>vs. vs) w (boot_request one_windows) one_index (boot_target boot_fw ''firmware'') selected"
    using boot_runs(1) [OF some_orders(1)] by blast
  then have s: "selected = (one_selection, [], [])"
    using one_selected by (simp add: resolver_run_def Let_def boot_request_def)
  obtain r where r: "Resolve False (\<lambda>vs. vs) w None (boot_request one_windows) = Inr r"
    using one_windows_returns [OF some_orders(1)] by blast
  obtain ev where "Resolve False (\<lambda>vs. vs) w None (boot_request one_windows) =
    (case WindowsBootTopology_Validate (build_topology w (boot_request one_windows) one_parts selected) of
       None \<Rightarrow> Inr \<lparr>rr_Topology = build_topology w (boot_request one_windows) one_parts selected, rr_Evidence = ev\<rparr>
     | Some e \<Rightarrow> Inl (Errorf ''topology: %w'' [GWrap e]))"
    by (rule resolver_run_topology [OF run])
  then have t: "rr_Topology r = build_topology w (boot_request one_windows) one_parts selected"
    using r by (auto split: option.split_asm)
  have "rp_blockers one_parts = []" by (simp add: parts_fields boot_health)
  moreover have "layout_blockers one_parts None one_selection = []"
    by (simp add: layout_blockers_def parts_fields rels_eq boot_firmware one_resolutions one_esp firmwareBlockers_def countRole_def
        filterRole_def candidate_def relation_def hasRuntimeOnlySelected_def topology_names
        FirmwareUEFI_def FirmwareUnknown_def FirmwareConflicting_def FirmwareBIOS_def)
  ultimately have "me_Eligible (wt_MutationEligibility (rr_Topology r))"
    by (simp add: t s topology_fields boot_request_def) (simp add: one_selection_def)
  moreover from this have "wt_Selection (rr_Topology r) = one_selection" using no_blockers(4) by (simp add: t s)
  ultimately show ?thesis using that r by blast
qed

section \<open>Eligibility\<close>

lemma candidate_targets:
  assumes "Snapshot_Validate win s = None" "buildIndex s = Inr ix"
  shows "\<forall>c \<in> set (rs_cands (resolveWindows ix)) \<union> set (rs_cands (resolveESP ix)). tc_TargetID c \<noteq> []"
  using valid_parts [OF assms] by (auto simp: valid_resolution_def TopologyCandidate_Validate_def)

text \<open>The views of the bundles of a snapshot.\<close>

definition view_in :: "View \<Rightarrow> Snapshot \<Rightarrow> bool" where
  "view_in v s \<longleftrightarrow> (\<exists>b \<in> set (snap_EvidenceBundles s). DecodeBundle b = Inr v)"

lemma view_in_index:
  assumes "Snapshot_Validate win s = None" "buildIndex s = Inr ix"
  shows "view_in v s \<longleftrightarrow> v \<in> snd ` set (ix_views ix)"
  by (simp add: view_in_def index_of(1) [OF assms] decoded_view)

text \<open>C30.
  A topology is called eligible for a repair only on a UEFI machine, with a Windows installation, its
  partition, its disk and an EFI system partition selected that are connected by relations of the
  topology, none of which rests on a drive letter; the disk is GPT, every BitLocker volume of the case
  is unlocked, and there are records of drive health, all healthy.\<close>

theorem eligible_topology_is_safe:
  assumes "Resolve win ord wall ctx req = Inr r" "reorders ord" "me_Eligible (wt_MutationEligibility (rr_Topology r))"
  shows "wt_FirmwareMode (rr_Topology r) = FirmwareUEFI \<and>
    connected (elems (wt_Relations (rr_Topology r))) (wt_Selection (rr_Topology r)) \<and>
    \<not> hasRuntimeOnlySelected (elems (wt_Relations (rr_Topology r))) (wt_Selection (rr_Topology r)) \<and>
    (\<exists>ix. buildIndex (rq_Snapshot req) = Inr ix \<and> diskIsGPT ix (ts_SystemDiskTargetID (wt_Selection (rr_Topology r)))) \<and>
    (\<forall>v. view_in v (rq_Snapshot req) \<longrightarrow> vw_EntityKind v = ''bitlocker_volume'' \<longrightarrow> volume_unlocked v) \<and>
    (\<forall>v. view_in v (rq_Snapshot req) \<longrightarrow> (\<forall>c \<in> set (health_of_view v). c = driveHealthHealthy)) \<and>
    (\<exists>v. view_in v (rq_Snapshot req) \<and> health_of_view v \<noteq> [])"
proof -
  obtain ix fw p selected where valid: "Snapshot_Validate win (rq_Snapshot req) = None" "buildIndex (rq_Snapshot req) = Inr ix"
    and p: "p = resolve_parts ord ix fw"
    and sel: "applySelection ix (rp_firmware p) (rs_cands (rp_windows p)) (rs_cands (rp_esp p)) (rs_cands (rp_bcd p))
       (rp_rels p) (rq_Selection req) = Inr selected"
    and t: "rr_Topology r = build_topology wall req p selected"
    by (rule Resolve_cases [OF assms(1)])
  note none = no_blockers [OF assms(3) [unfolded t]] and views = view_in_index [OF valid]
  note layout = layout_blockers_None [OF none(2)]
  have firmware: "rp_firmware p = FirmwareUEFI" using layout(1) unfolding p parts_fields by (rule firmware_uefi)
  have same: "set (elems (wt_Relations (rr_Topology r))) = set (rp_rels p)" by (simp add: t topology_fields)
  have chosen: "connected (rp_rels p) (fst selected)" "diskIsGPT ix (ts_SystemDiskTargetID (fst selected))"
    using selection_connected [OF sel none(3)] candidate_targets [OF valid] by (simp_all add: p parts_fields)
  have "\<forall>x \<in> set (snd (snd (resolveBitLocker ord ix))). x = []" "\<forall>x \<in> set (snd (snd (resolveHealth ord ix))). x = []"
    using none(1) by (simp_all add: p parts_fields ball_Un)
  note clear = bitlocker_clear [OF assms(2) this(1)] health_clear [OF assms(2) this(2)]
  show ?thesis
  proof (intro conjI)
    show "wt_FirmwareMode (rr_Topology r) = FirmwareUEFI" using firmware by (simp add: t topology_fields)
    show "connected (elems (wt_Relations (rr_Topology r))) (wt_Selection (rr_Topology r))"
      using chosen(1) connected_cong [OF same] none(4) by (simp add: t)
    show "\<not> hasRuntimeOnlySelected (elems (wt_Relations (rr_Topology r))) (wt_Selection (rr_Topology r))"
      using layout(2) hasRuntimeOnlySelected_cong [OF same] none(4) by (simp add: t)
    show "\<exists>ix. buildIndex (rq_Snapshot req) = Inr ix \<and> diskIsGPT ix (ts_SystemDiskTargetID (wt_Selection (rr_Topology r)))"
      using valid(2) chosen(2) none(4) by (simp add: t)
  qed (use clear views in blast)+
qed

theorem eligible_topology_is_safe_witness:
  "\<exists>r. Resolve False (\<lambda>vs. vs) zero_time None (boot_request one_windows) = Inr r \<and>
     me_Eligible (wt_MutationEligibility (rr_Topology r)) \<and> connected (elems (wt_Relations (rr_Topology r))) one_selection \<and>
     (\<exists>v. view_in v one_windows \<and> health_of_view v \<noteq> [])"
proof -
  obtain r where r: "Resolve False (\<lambda>vs. vs) zero_time None (boot_request one_windows) = Inr r"
    "me_Eligible (wt_MutationEligibility (rr_Topology r))" "wt_Selection (rr_Topology r) = one_selection"
    by (rule one_windows_resolves)
  then show ?thesis
    using eligible_topology_is_safe [OF r(1) some_orders(1) r(2)] by (simp add: boot_request_def)
qed

section \<open>References\<close>

lemma known_texts:
  assumes "Snapshot_Validate win s = None" "buildIndex s = Inr ix"
  shows "\<forall>a \<in> set (fst (snd (resolveFirmware ix))). known_ambiguity s a"
    "\<forall>a \<in> set (fst (resolveHealth ord ix)). known_ambiguity s a"
    "reorders ord \<Longrightarrow> \<forall>a \<in> set (fst (resolveBitLocker ord ix)). known_ambiguity s a"
proof -
  note ids = index_ids [OF assms]
  show "\<forall>a \<in> set (fst (snd (resolveFirmware ix))). known_ambiguity s a"
    using ids(2) ids(5) [of "''firmware''"] by (simp add: resolveFirmware_def known_built split: list.split)
  show "\<forall>a \<in> set (fst (resolveHealth ord ix)). known_ambiguity s a"
    using ids(2) ids(5) [of "''disk''"] by (simp add: resolveHealth_def Let_def known_built)
  obtain refs where refs: "cr_TargetIDs refs = tg_TargetID ` set (snap_Targets s)"
    "\<forall>e \<in> set (snap_EvidenceBundles s). ValidateEvidenceRefs refs e = None"
    using valid_document_refs [OF assms(1)] by metis
  have "known_ambiguity s (snd f)" if "v \<in> snd ` set (ix_views ix)" "f \<in> set (bitlocker_finding v)" for v f
  proof -
    have b: "vw_Bundle v \<in> set (snap_EvidenceBundles s)"
      using that(1) by (auto simp: index_of(1) [OF assms] decoded_view view_bundle)
    then have "ev_TargetID (vw_Bundle v) \<in> tg_TargetID ` set (snap_Targets s)"
      using refs by (auto simp: ValidateEvidenceRefs_def requireRef_None)
    then show ?thesis
      using b that(2) by (auto simp: bitlocker_finding_def bitlocker_ambiguity_def known_built Let_def split: if_splits sum.splits)
  qed
  then show "reorders ord \<Longrightarrow> \<forall>a \<in> set (fst (resolveBitLocker ord ix)). known_ambiguity s a"
    by (force simp: resolveBitLocker_def Let_def reorders_set)
qed

text \<open>The ambiguity of a selection names candidates.\<close>

lemma selection_targets:
  assumes "automatic_selection ix fw windows esp bcd rels = selected" "a \<in> set (snd (snd selected))"
  shows "set (elems (ta_TargetIDs a)) \<subseteq> tc_TargetID ` (set windows \<union> set esp \<union> set bcd)" "elems (ta_EvidenceRefs a) = []"
proof -
  let ?ids = "tc_TargetID ` (set windows \<union> set esp \<union> set bcd)"
  have role: "firstRole cs r \<in> tc_TargetID ` set cs \<union> {[]}" for cs r
    using firstRole_member [of cs r] by (cases "filterRole cs r") (auto simp: firstRole_def)
  have store: "b \<in> tc_TargetID ` set bcd \<union> {[]}" if "bcd_choice bcd = Some b" for b
  proof -
    have "set (filterRole bcd RoleBCDStore) \<subseteq> set bcd" by (auto simp: filterRole_def)
    then show ?thesis using that by (auto simp: bcd_choice_def split: list.splits)
  qed
  obtain m b where b: "bcd_choice bcd = Some b"
    and a: "a = ambiguity ''unsupported_layout'' m (uniqueSorted [firstRole windows RoleWindowsInstallation,
      firstRole windows RoleWindowsPartition, firstRole windows RoleSystemDisk, firstRole esp RoleEFISystemPartition, b]) []"
    using assms by (auto simp: automatic_selection_def connected_selection_def Let_def split: if_splits option.splits)
  show "set (elems (ta_TargetIDs a)) \<subseteq> ?ids"
    using role [of windows RoleWindowsInstallation] role [of windows RoleWindowsPartition] role [of windows RoleSystemDisk]
      role [of esp RoleEFISystemPartition] store [OF b]
    by (auto simp: a ambiguity_def)
  show "elems (ta_EvidenceRefs a) = []" by (simp add: a ambiguity_def)
qed

lemma known_selection:
  assumes "Snapshot_Validate win s = None" "buildIndex s = Inr ix"
    and "applySelection ix fw (rs_cands (resolveWindows ix)) (rs_cands (resolveESP ix)) (rs_cands (resolveBCD ix)) rels sel = Inr selected"
    and "a \<in> set (snd (snd selected))"
  shows "known_ambiguity s a"
proof (cases sel)
  case None
  let ?cs = "set (rs_cands (resolveWindows ix)) \<union> set (rs_cands (resolveESP ix)) \<union> set (rs_cands (resolveBCD ix))"
  have "tc_TargetID ` ?cs \<subseteq> tg_TargetID ` set (snap_Targets s)"
    using known_parts [OF assms(1,2)] unfolding known_resolution_def known_candidate_def by blast
  moreover have "set (elems (ta_TargetIDs a)) \<subseteq> tc_TargetID ` ?cs" "elems (ta_EvidenceRefs a) = []"
    using selection_targets [OF _ assms(4)] assms(3) None by (simp_all add: applySelection_def)
  ultimately show ?thesis by (auto simp: known_ambiguity_def)
next
  case (Some q)
  then show ?thesis using assms(3,4) by (auto simp: applySelection_def)
qed

lemma known_topology:
  assumes "Snapshot_Validate win s = None" "buildIndex s = Inr ix" "ix_firmwareTarget ix = Some fw" "reorders ord"
  defines "p \<equiv> resolve_parts ord ix fw"
  shows "\<forall>c \<in> set (rp_cands p). known_candidate s c" "\<forall>q \<in> set (rp_rels p). known_relation s q"
    "\<forall>a \<in> set (rp_amb p). known_ambiguity s a"
proof -
  note parts = known_parts [OF assms(1,2)] and texts = known_texts [OF assms(1,2)]
  have "tg_TargetID fw \<in> tg_TargetID ` set (snap_Targets s)" using index_of(7) [OF assms(1,2,3)] by blast
  then have "known_candidate s (firmware_candidate ix fw m)" for m
    using index_ids(1) [OF assms(1,2)] by (auto simp: firmware_candidate_def known_built)
  then show "\<forall>c \<in> set (rp_cands p). known_candidate s c" "\<forall>q \<in> set (rp_rels p). known_relation s q"
    using parts by (auto simp: p_def parts_fields rels_eq known_resolution_def)
  show "\<forall>a \<in> set (rp_amb p). known_ambiguity s a"
    using parts texts(1,2) texts(3) [OF assms(4)] unfolding p_def parts_fields known_resolution_def set_append by blast
qed

text \<open>C34.
  Everything the topology names is of the case: the targets and the evidence of its candidates,
  relations and ambiguities, its case and the commit it was asked for, and its evidence belongs to
  that case and to a target of it.\<close>

theorem topology_refers_to_the_case:
  assumes "Resolve win ord wall ctx req = Inr r" "reorders ord"
  shows "(\<forall>c \<in> set (elems (wt_Candidates (rr_Topology r))). known_candidate (rq_Snapshot req) c) \<and>
    (\<forall>q \<in> set (elems (wt_Relations (rr_Topology r))). known_relation (rq_Snapshot req) q) \<and>
    (\<forall>a \<in> set (elems (wt_Ambiguities (rr_Topology r))). known_ambiguity (rq_Snapshot req) a) \<and>
    wt_CaseID (rr_Topology r) = cm_CaseID (snap_Case (rq_Snapshot req)) \<and> wt_SourceCommitID (rr_Topology r) = rq_CommitID req \<and>
    ev_CaseID (rr_Evidence r) = cm_CaseID (snap_Case (rq_Snapshot req)) \<and>
    ev_TargetID (rr_Evidence r) \<in> tg_TargetID ` set (snap_Targets (rq_Snapshot req))"
proof -
  obtain ix fw p selected where valid: "Snapshot_Validate win (rq_Snapshot req) = None" "buildIndex (rq_Snapshot req) = Inr ix"
    and fw: "ix_firmwareTarget ix = Some fw" and p: "p = resolve_parts ord ix fw"
    and sel: "applySelection ix (rp_firmware p) (rs_cands (rp_windows p)) (rs_cands (rp_esp p)) (rs_cands (rp_bcd p))
       (rp_rels p) (rq_Selection req) = Inr selected"
    and t: "rr_Topology r = build_topology wall req p selected"
    and ev: "topology_evidence req ix fw (rr_Topology r) = Inr (rr_Evidence r)"
    by (rule Resolve_cases [OF assms(1)])
  note known = known_topology [OF valid fw assms(2), folded p]
  have "\<forall>a \<in> set (snd (snd selected)). known_ambiguity (rq_Snapshot req) a"
    using known_selection [OF valid sel [unfolded p parts_fields]] by blast
  moreover have "ev_CaseID (rr_Evidence r) = cm_CaseID (snap_Case (rq_Snapshot req))" "ev_TargetID (rr_Evidence r) = tg_TargetID fw"
    using ev by (auto simp: topology_evidence_def Let_def dest!: sym [where t = "rr_Evidence r"])
  moreover have "fw \<in> set (snap_Targets (rq_Snapshot req))" by (rule index_of(7) [OF valid fw])
  ultimately show ?thesis using known by (auto simp: t topology_fields)
qed

theorem topology_refers_to_the_case_witness:
  "\<exists>r. Resolve False rev zero_time None (boot_request one_windows) = Inr r \<and>
     (\<forall>q \<in> set (elems (wt_Relations (rr_Topology r))). known_relation one_windows q) \<and>
     ev_TargetID (rr_Evidence r) \<in> tg_TargetID ` set (snap_Targets one_windows)"
proof -
  obtain r where r: "Resolve False rev zero_time None (boot_request one_windows) = Inr r"
    using one_windows_returns [OF some_orders(2)] by blast
  then show ?thesis
    using topology_refers_to_the_case [OF r some_orders(2)] by (simp add: boot_request_def)
qed

section \<open>Reading it back\<close>

text \<open>C33.
  The facts of the evidence are valid JSON and decode to the topology; its document passes the
  validation, and the evidence is an EvidenceBundle of that schema.\<close>

theorem topology_is_read_back:
  assumes "Resolve win ord wall ctx req = Inr r" "reorders ord" "reCommitID (rq_CommitID req)" "writable_time (run_time wall req)"
  shows "decode_document dec_WindowsBootTopology zero_WindowsBootTopology (elems (ev_Facts (rr_Evidence r))) = Inr (rr_Topology r) \<and>
    WindowsBootTopology_Validate (rr_Topology r) = None \<and> EvidenceBundle_Validate (rr_Evidence r) = None \<and>
    ev_FactsSchema (rr_Evidence r) = SchemaWindowsBootTopology"
proof -
  obtain ix fw p selected where valid: "Snapshot_Validate win (rq_Snapshot req) = None" "buildIndex (rq_Snapshot req) = Inr ix"
    and fw: "ix_firmwareTarget ix = Some fw" and p: "p = resolve_parts ord ix fw"
    and sel: "applySelection ix (rp_firmware p) (rs_cands (rp_windows p)) (rs_cands (rp_esp p)) (rs_cands (rp_bcd p))
       (rp_rels p) (rq_Selection req) = Inr selected"
    and t: "rr_Topology r = build_topology wall req p selected" "WindowsBootTopology_Validate (rr_Topology r) = None"
    and ev: "topology_evidence req ix fw (rr_Topology r) = Inr (rr_Evidence r)" "EvidenceBundle_Validate (rr_Evidence r) = None"
    by (rule Resolve_cases [OF assms(1)])
  have run: "resolver_run win ord wall req ix fw selected"
    using assms(2-4) valid fw sel by (simp add: resolver_run_def p Let_def)
  show ?thesis using run_evidence [OF run] ev t p by (metis sum.inject(2))
qed

theorem topology_is_read_back_witness:
  "\<exists>r. Resolve False rev zero_time None (boot_request one_windows) = Inr r \<and>
     decode_document dec_WindowsBootTopology zero_WindowsBootTopology (elems (ev_Facts (rr_Evidence r))) = Inr (rr_Topology r)"
proof -
  obtain r where r: "Resolve False rev zero_time None (boot_request one_windows) = Inr r"
    using one_windows_returns [OF some_orders(2)] by blast
  have "reCommitID (rq_CommitID (boot_request one_windows))" by (simp add: boot_request_def)
  then show ?thesis using r topology_is_read_back [OF r some_orders(2) _ boot_time] by blast
qed

section \<open>The order of the views and the clock\<close>

lemma order_of_views:
  assumes "reorders o1" "reorders o2"
  shows "mset (fst (resolveBitLocker o2 ix)) = mset (fst (resolveBitLocker o1 ix))"
    "snd (resolveBitLocker o2 ix) = snd (resolveBitLocker o1 ix)" "resolveHealth o2 ix = resolveHealth o1 ix"
proof -
  have m: "mset (concat (map f (o2 vs))) = mset (concat (map f (o1 vs)))" for f :: "string \<times> View \<Rightarrow> 'b list" and vs
  proof -
    have "mset (concat (map f xs)) = sum_mset (image_mset (mset \<circ> f) (mset xs))" for xs by (induction xs) auto
    then show ?thesis using assms by (simp only: reorders_def)
  qed
  have b: "mset (concat (map (bitlocker_finding \<circ> snd) (o2 (ix_views ix)))) = mset (concat (map (bitlocker_finding \<circ> snd) (o1 (ix_views ix))))"
    by (rule m)
  then show "mset (fst (resolveBitLocker o2 ix)) = mset (fst (resolveBitLocker o1 ix))"
    by (simp add: resolveBitLocker_def Let_def)
  have "set (map fst (concat (map (bitlocker_finding \<circ> snd) (o2 (ix_views ix)))))
      = set (map fst (concat (map (bitlocker_finding \<circ> snd) (o1 (ix_views ix)))))"
    using mset_eq_setD [OF b] by (simp only: set_map)
  from uniqueSorted_cong [OF this] show "snd (resolveBitLocker o2 ix) = snd (resolveBitLocker o1 ix)"
    by (simp only: resolveBitLocker_def Let_def snd_conv)
  have "mset (health_classes o2 ix) = mset (health_classes o1 ix)" unfolding health_classes_def by (rule m)
  then have "set (health_classes o2 ix) = set (health_classes o1 ix)" "health_classes o2 ix = [] \<longleftrightarrow> health_classes o1 ix = []"
    by (metis mset_eq_setD, metis mset_zero_iff)
  then show "resolveHealth o2 ix = resolveHealth o1 ix" by (simp add: resolveHealth_def Let_def)
qed

lemma parts_order:
  assumes "reorders o1" "reorders o2"
  obtains amb where "resolve_parts o2 ix fw = (resolve_parts o1 ix fw)\<lparr>rp_amb := amb\<rparr>"
    "mset amb = mset (rp_amb (resolve_parts o1 ix fw))"
proof
  note eq = order_of_views [OF assms, of ix]
  show "resolve_parts o2 ix fw = (resolve_parts o1 ix fw)\<lparr>rp_amb := rp_amb (resolve_parts o2 ix fw)\<rparr>"
    using eq(2,3) by (simp add: resolve_parts_def split_beta Let_def)
  show "mset (rp_amb (resolve_parts o2 ix fw)) = mset (rp_amb (resolve_parts o1 ix fw))"
    using eq by (simp add: parts_fields)
qed

lemma sorted_ambiguities:
  assumes "mset xs = mset ys" "distinct (map ambiguity_key (sort_key ambiguity_key ys))"
  shows "sort_key ambiguity_key xs = sort_key ambiguity_key ys"
proof -
  have "mset (map ambiguity_key (sort_key ambiguity_key ys)) = mset (map ambiguity_key ys)" by simp
  then have "distinct (map ambiguity_key ys)" using assms(2) mset_eq_imp_distinct_iff by blast
  then show ?thesis by (rule sort_key_permuted [OF assms(1)])
qed

text \<open>C35.
  The order in which Go ranges over the map of views is seen in the order of the ambiguities only, and
  in what is computed from it: firmware mode, candidates, relations, selection, limitations and
  eligibility are the same under any two orders, and so are the ambiguities as a multiset. The list of
  the ambiguities is the same when no two of them share their code and targets, or under one order; and
  whenever it is the same, so are both identifiers and the documents without their time stamp, and with
  an equal time stamp the whole results. Where two ambiguities share code and targets, the facts and the
  identifiers follow their order. Of the clock the documents show nothing but the time stamp.\<close>

theorem order_and_clock_are_irrelevant:
  assumes "Resolve win o1 w1 ctx req = Inr r1" "Resolve win o2 w2 ctx req = Inr r2" "reorders o1" "reorders o2"
  defines "t1 \<equiv> rr_Topology r1" and "t2 \<equiv> rr_Topology r2"
  shows "wt_FirmwareMode t2 = wt_FirmwareMode t1 \<and> wt_Candidates t2 = wt_Candidates t1 \<and> wt_Relations t2 = wt_Relations t1 \<and>
    wt_Selection t2 = wt_Selection t1 \<and> wt_Limitations t2 = wt_Limitations t1 \<and>
    wt_MutationEligibility t2 = wt_MutationEligibility t1 \<and>
    mset (elems (wt_Ambiguities t2)) = mset (elems (wt_Ambiguities t1)) \<and>
    (o1 = o2 \<or> distinct (map ambiguity_key (elems (wt_Ambiguities t1))) \<longrightarrow> wt_Ambiguities t2 = wt_Ambiguities t1) \<and>
    (wt_Ambiguities t2 = wt_Ambiguities t1 \<longrightarrow> t2\<lparr>wt_GeneratedAt := []\<rparr> = t1\<lparr>wt_GeneratedAt := []\<rparr> \<and>
       ev_EvidenceID (rr_Evidence r2) = ev_EvidenceID (rr_Evidence r1) \<and>
       (wt_GeneratedAt t2 = wt_GeneratedAt t1 \<longrightarrow> r2 = r1))"
proof -
  obtain ix fw p1 sel1 where ix: "buildIndex (rq_Snapshot req) = Inr ix" "ix_firmwareTarget ix = Some fw"
    and p1: "p1 = resolve_parts o1 ix fw"
    and s1: "applySelection ix (rp_firmware p1) (rs_cands (rp_windows p1)) (rs_cands (rp_esp p1)) (rs_cands (rp_bcd p1))
       (rp_rels p1) (rq_Selection req) = Inr sel1"
    and t1: "rr_Topology r1 = build_topology w1 req p1 sel1"
    and e1: "topology_evidence req ix fw (rr_Topology r1) = Inr (rr_Evidence r1)"
    by (rule Resolve_cases [OF assms(1)])
  obtain jx gw p2 sel2 where jx: "buildIndex (rq_Snapshot req) = Inr jx" "ix_firmwareTarget jx = Some gw"
    and p2: "p2 = resolve_parts o2 jx gw"
    and s2: "applySelection jx (rp_firmware p2) (rs_cands (rp_windows p2)) (rs_cands (rp_esp p2)) (rs_cands (rp_bcd p2))
       (rp_rels p2) (rq_Selection req) = Inr sel2"
    and t2: "rr_Topology r2 = build_topology w2 req p2 sel2"
    and e2: "topology_evidence req jx gw (rr_Topology r2) = Inr (rr_Evidence r2)"
    by (rule Resolve_cases [OF assms(2)])
  have same: "jx = ix" "gw = fw" using ix jx by simp_all
  obtain amb where amb: "p2 = p1\<lparr>rp_amb := amb\<rparr>" "mset amb = mset (rp_amb p1)"
    using parts_order [OF assms(3,4), of ix fw] unfolding p1 p2 same by blast
  then have sel: "sel2 = sel1" using s1 s2 by (simp add: same rp_rels_def)
  have layout: "layout_blockers (p1\<lparr>rp_amb := a\<rparr>) q c = layout_blockers p1 q c" "rp_rels (p1\<lparr>rp_amb := a\<rparr>) = rp_rels p1" for a q c
    by (simp_all add: layout_blockers_def rp_rels_def)
  have lists: "wt_Ambiguities t2 = wt_Ambiguities t1" if "o1 = o2 \<or> distinct (map ambiguity_key (elems (wt_Ambiguities t1)))"
  proof (cases "o1 = o2")
    case True
    then show ?thesis using sel by (simp add: t1_def t2_def t1 t2 topology_fields p1 p2 same)
  next
    case False
    then show ?thesis
      using that sorted_ambiguities [of "rp_amb p2 @ snd (snd sel2)" "rp_amb p1 @ snd (snd sel1)"] amb sel
      by (simp add: t1_def t2_def t1 t2 topology_fields)
  qed
  have docs: "t2\<lparr>wt_GeneratedAt := []\<rparr> = t1\<lparr>wt_GeneratedAt := []\<rparr>" if "wt_Ambiguities t2 = wt_Ambiguities t1"
    using that unfolding t1_def t2_def t1 t2 topology_fields unfolding sel build_topology_def
    by (simp add: Let_def split_beta topologyIDFor_def layout amb(1))
  have ids: "ev_EvidenceID (rr_Evidence r2) = ev_EvidenceID (rr_Evidence r1)" if "wt_Ambiguities t2 = wt_Ambiguities t1"
  proof -
    have "rr_Topology r2\<lparr>wt_GeneratedAt := []\<rparr> = rr_Topology r1\<lparr>wt_GeneratedAt := []\<rparr>" using docs [OF that] by (simp add: t1_def t2_def)
    moreover from this have "wt_Selection (rr_Topology r2) = wt_Selection (rr_Topology r1)"
      by (cases "rr_Topology r2", cases "rr_Topology r1") simp
    ultimately show ?thesis
      using e1 e2 by (auto simp: topology_evidence_def Let_def same dest!: sym [where t = "rr_Evidence r1"] sym [where t = "rr_Evidence r2"])
  qed
  have "r2 = r1" if "wt_Ambiguities t2 = wt_Ambiguities t1" "wt_GeneratedAt t2 = wt_GeneratedAt t1"
  proof -
    have "t2 = t1" using docs [OF that(1)] that(2) by (cases t2, cases t1) simp
    then show ?thesis using e1 e2 by (cases r1, cases r2) (simp add: t1_def t2_def same)
  qed
  moreover have "wt_FirmwareMode t2 = wt_FirmwareMode t1 \<and> wt_Candidates t2 = wt_Candidates t1 \<and> wt_Relations t2 = wt_Relations t1 \<and>
    wt_Selection t2 = wt_Selection t1 \<and> wt_Limitations t2 = wt_Limitations t1 \<and>
    wt_MutationEligibility t2 = wt_MutationEligibility t1 \<and>
    mset (elems (wt_Ambiguities t2)) = mset (elems (wt_Ambiguities t1))"
    unfolding t1_def t2_def t1 t2 topology_fields sel amb(1) layout by (simp add: amb(2))
  ultimately show ?thesis using lists docs ids by blast
qed

theorem order_and_clock_are_irrelevant_witness:
  "\<exists>r1 r2. Resolve False (\<lambda>vs. vs) zero_time None (boot_request one_windows) = Inr r1 \<and>
     Resolve False rev \<lparr>unix_secs = 0, nanos = 0\<rparr> None (boot_request one_windows) = Inr r2 \<and>
     wt_Candidates (rr_Topology r2) = wt_Candidates (rr_Topology r1) \<and>
     wt_MutationEligibility (rr_Topology r2) = wt_MutationEligibility (rr_Topology r1)"
proof -
  obtain r1 r2 where r: "Resolve False (\<lambda>vs. vs) zero_time None (boot_request one_windows) = Inr r1"
    "Resolve False rev \<lparr>unix_secs = 0, nanos = 0\<rparr> None (boot_request one_windows) = Inr r2"
    using one_windows_returns some_orders by blast
  then show ?thesis using order_and_clock_are_irrelevant [OF r some_orders] by blast
qed

section \<open>Two installations on one disk\<close>

lemma concat_disjoint:
  "distinct (map f (concat (map g ts))) \<Longrightarrow> t \<in> set ts \<Longrightarrow> u \<in> set ts \<Longrightarrow> t \<noteq> u \<Longrightarrow> f ` set (g t) \<inter> f ` set (g u) = {}"
proof (induction ts)
  case (Cons x xs)
  have "f ` set (g x) \<inter> f ` set (g y) = {}" if "y \<in> set xs" for y
    using Cons.prems(1) that by (auto simp: distinct_append)
  moreover have "distinct (map f (concat (map g xs)))" using Cons.prems(1) by simp
  ultimately show ?case using Cons.IH Cons.prems(2-4) by (metis Int_commute set_ConsD)
qed simp

text \<open>C32.
  Two Windows installations whose single partitions lie on the same single disk are never reported as
  ambiguous: the disk becomes a candidate twice under one name, so that the validation of the topology
  refuses every such case.\<close>

theorem two_installations_on_one_disk_are_refused:
  assumes "resolver_run win ord wall req ix fw selected"
    and "t \<in> set (ix_byType ix ''windows_installation'')" "u \<in> set (ix_byType ix ''windows_installation'')" "t \<noteq> u"
    and "relatedPartitions ix (tg_TargetID t) = [p]" "relatedPartitions ix (tg_TargetID u) = [q]"
    and "relatedDisks ix p = [d]" "relatedDisks ix q = [d]"
  shows "\<exists>e. Resolve win ord wall None req = Inl (Errorf ''topology: %w'' [GWrap e])"
proof -
  have disk: "''cand.system_disk.'' @ shortHash d \<in> tc_CandidateID ` set (rs_cands (resolve_installation ix x))"
    if "x \<in> {t, u}" for x
    using that assms(5-8) by (auto simp: resolve_installation_def resolve_disk_def candidate_def Let_def)
  have "\<not> distinct (map tc_CandidateID (rs_cands (resolveWindows ix)))"
    using concat_disjoint [OF _ assms(2,3,4), of tc_CandidateID "rs_cands \<circ> resolve_installation ix"] disk [of t] disk [of u]
    by (auto simp: resolveWindows_def all_resolutions_def)
  then have "\<not> distinct (map tc_CandidateID (rp_cands (resolve_parts ord ix fw)))" by (auto simp: parts_fields)
  then have bad: "WindowsBootTopology_Validate (build_topology wall req (resolve_parts ord ix fw) selected) \<noteq> None"
    using topology_valid_iff [OF assms(1)] by blast
  show ?thesis using resolver_run_topology [OF assms(1)] bad by force
qed

theorem two_installations_on_one_disk_are_refused_witness:
  "Snapshot_Validate False two_windows = None \<and>
   (\<exists>e. Resolve False (\<lambda>vs. vs) zero_time None (boot_request two_windows) = Inl (Errorf ''topology: %w'' [GWrap e]))"
proof -
  obtain selected where run: "resolver_run False (\<lambda>vs. vs) zero_time (boot_request two_windows) two_index
      (boot_target boot_fw ''firmware'') selected"
    using boot_runs(2) [OF some_orders(1)] by blast
  have "boot_target boot_win ''windows_installation'' \<in> set (ix_byType two_index ''windows_installation'')"
    "boot_target boot_win2 ''windows_installation'' \<in> set (ix_byType two_index ''windows_installation'')"
    "boot_target boot_win ''windows_installation'' \<noteq> boot_target boot_win2 ''windows_installation''"
    by (simp_all add: index_defs targets_of_type_def) (metis boot_target_fields(1) boot_neqs(25))
  from two_installations_on_one_disk_are_refused [OF run this] show ?thesis
    using boot_related two_windows_valid by simp
qed

section \<open>Times that can be read are times that can be written\<close>

lemma show_int_digits_long:
  "0 \<le> n \<Longrightarrow> 10 ^ j \<le> n \<Longrightarrow> j < k \<Longrightarrow> j < length (show_int_digits k n) \<and> list_all is_digit (show_int_digits k n)"
proof (induction k arbitrary: n j)
  case (Suc k)
  have digit: "is_digit (digit_char m)" if "0 \<le> m" "m \<le> 9" for m
    using that unfolding is_digit_def digit_char_def by (intro nth_mem) (simp add: digits10_def)
  show ?case
  proof (cases "n < 10")
    case True
    have "j = 0"
    proof (rule ccontr)
      assume "j \<noteq> 0"
      then have "(10::int) ^ 1 \<le> 10 ^ j" by (intro power_increasing) auto
      then show False using Suc.prems(2) True by simp
    qed
    then show ?thesis using True digit [of n] Suc.prems(1) by simp
  next
    case False
    have "(10::int) ^ (j - 1) \<le> n div 10"
    proof (cases j)
      case 0
      then show ?thesis using False by simp
    next
      case (Suc i)
      then have "10 * 10 ^ i \<le> n" using Suc.prems(2) by simp
      then show ?thesis using Suc by simp
    qed
    then have "j - 1 < k \<Longrightarrow> j - 1 < length (show_int_digits k (n div 10)) \<and> list_all is_digit (show_int_digits k (n div 10))"
      using Suc.IH [of "n div 10" "j - 1"] Suc.prems(1) by simp
    moreover have "j = 0 \<or> j - 1 < k" using Suc.prems(3) by auto
    moreover have "list_all is_digit (show_int_digits k (n div 10))" if "k = 0" using that by simp
    ultimately show ?thesis
      using False digit [of "n mod 10"] Suc.prems Suc.IH [of "n div 10" 0]
      by (cases "k = 0") (auto)
  qed
qed simp

lemma readable_writable:
  assumes "rfc3339_ok (format_rfc3339 t)"
  shows "writable_time t"
proof -
  obtain y m d where c: "civil_of_days (unix_secs t div 86400 + epoch_days) = (y, m, d)" by (metis prod_cases3)
  then have y: "year_of t = y" by (simp add: year_of_def)
  obtain rest where f: "format_rfc3339 t = show_year y @ CHR ''-'' # rest" by (simp add: format_rfc3339_def c Let_def)
  have "parse_date (format_rfc3339 t) \<noteq> None" using assms by (cases "parse_date (format_rfc3339 t)") (simp_all add: rfc3339_ok_def parse_rfc3339_def)
  then obtain r where year: "4 \<le> length (format_rfc3339 t)" "list_all is_digit (take 4 (format_rfc3339 t))"
    and dash: "drop 4 (format_rfc3339 t) = CHR ''-'' # r"
    by (cases "drop 4 (format_rfc3339 t)") (auto simp: parse_date_def parse_year_def split: if_splits)
  have "\<not> y < 0"
  proof
    assume "y < 0"
    then have "format_rfc3339 t ! 0 = CHR ''-''" by (simp add: f show_year_def Let_def)
    moreover have "is_digit (format_rfc3339 t ! 0)"
      using year by (cases "format_rfc3339 t") (auto simp: take_Cons')
    ultimately show False by (simp add: is_digit_def digits10_def)
  qed
  moreover have "y < 10000"
  proof (rule ccontr)
    assume "\<not> y < 10000"
    then have big: "10 ^ 4 \<le> y" by simp
    then have s: "show_year y = show_int_digits (nat y) y" by (simp add: show_year_def Let_def)
    have "4 < length (show_year y) \<and> list_all is_digit (show_year y)"
      unfolding s using big by (intro show_int_digits_long) auto
    then have "is_digit (format_rfc3339 t ! 4)" by (simp add: f nth_append list_all_length)
    moreover have "format_rfc3339 t ! 4 = CHR ''-''" using dash year(1) by (metis nth_drop nth_Cons_0 add_0_right)
    ultimately show False by (simp add: is_digit_def digits10_def)
  qed
  ultimately show ?thesis by (simp add: writable_time_def y)
qed

section \<open>What a run shows of its request\<close>

lemma resolved_evidence:
  assumes "Resolve win ord wall ctx req = Inr r" "reorders ord"
  shows "decode_document dec_WindowsBootTopology zero_WindowsBootTopology (elems (ev_Facts (rr_Evidence r))) = Inr (rr_Topology r)"
    "ev_FactsSchema (rr_Evidence r) = SchemaWindowsBootTopology" "WindowsBootTopology_Validate (rr_Topology r) = None"
    "Snapshot_Validate win (rq_Snapshot req) = None" "reCommitID (rq_CommitID req)" "writable_time (run_time wall req)"
proof -
  obtain ix fw p selected where valid: "Snapshot_Validate win (rq_Snapshot req) = None" "buildIndex (rq_Snapshot req) = Inr ix"
    and fw: "ix_firmwareTarget ix = Some fw" and p: "p = resolve_parts ord ix fw"
    and sel: "applySelection ix (rp_firmware p) (rs_cands (rp_windows p)) (rs_cands (rp_esp p)) (rs_cands (rp_bcd p))
       (rp_rels p) (rq_Selection req) = Inr selected"
    and t: "rr_Topology r = build_topology wall req p selected" "WindowsBootTopology_Validate (rr_Topology r) = None"
    and ev: "TargetResolver.topology_evidence req ix fw (rr_Topology r) = Inr (rr_Evidence r)" "EvidenceBundle_Validate (rr_Evidence r) = None"
    by (rule Resolve_cases [OF assms(1)])
  have "reCommitID (wt_SourceCommitID (rr_Topology r))" "rfc3339_ok (wt_GeneratedAt (rr_Topology r))"
    using t(2) by (auto simp: WindowsBootTopology_Validate_def)
  then have stamps: "reCommitID (rq_CommitID req)" "writable_time (run_time wall req)"
    using readable_writable by (simp_all add: t(1) topology_constants topology_fields)
  then have run: "resolver_run win ord wall req ix fw selected"
    using assms(2) valid fw sel by (simp add: resolver_run_def p Let_def)
  show "decode_document dec_WindowsBootTopology zero_WindowsBootTopology (elems (ev_Facts (rr_Evidence r))) = Inr (rr_Topology r)"
    "ev_FactsSchema (rr_Evidence r) = SchemaWindowsBootTopology"
    using run_evidence [OF run] ev t p by (metis sum.inject(2))+
  show "WindowsBootTopology_Validate (rr_Topology r) = None" "Snapshot_Validate win (rq_Snapshot req) = None"
    "reCommitID (rq_CommitID req)" "writable_time (run_time wall req)"
    by (fact t(2) valid(1) stamps)+
qed

section \<open>Returning\<close>

text \<open>C31.
  A resolver that is not cancelled returns a topology exactly if the snapshot is valid, the commit id has the
  form of the repository, the time can be written, the evidence decodes, there is a firmware target,
  the selection of the technician, where there is one, is accepted, and no two candidates and no two
  relations share a name: neither the documents it builds nor the evidence it writes can fail otherwise.\<close>

theorem resolution_returns:
  assumes "reorders ord"
  shows "(\<exists>r. Resolve win ord wall None req = Inr r) \<longleftrightarrow>
    Snapshot_Validate win (rq_Snapshot req) = None \<and> reCommitID (rq_CommitID req) \<and> writable_time (run_time wall req) \<and>
    (\<exists>ix fw. buildIndex (rq_Snapshot req) = Inr ix \<and> ix_firmwareTarget ix = Some fw \<and>
      (\<forall>q. rq_Selection req = Some q \<longrightarrow>
        (\<exists>s. validateTechnicianSelection ix (rp_rels (resolve_parts ord ix fw)) q = Inr s)) \<and>
      distinct (map tc_CandidateID (rp_cands (resolve_parts ord ix fw))) \<and>
      distinct (map tr_RelationID (rp_rels (resolve_parts ord ix fw))))"
    (is "_ \<longleftrightarrow> ?pre \<and> ?run")
proof -
  have returns: "(\<exists>r. Resolve win ord wall None req = Inr r) \<longleftrightarrow>
      distinct (map tc_CandidateID (rp_cands (resolve_parts ord ix fw))) \<and>
      distinct (map tr_RelationID (rp_rels (resolve_parts ord ix fw)))"
    if "Snapshot_Validate win (rq_Snapshot req) = None" "reCommitID (rq_CommitID req)" "writable_time (run_time wall req)"
      and "buildIndex (rq_Snapshot req) = Inr ix" "ix_firmwareTarget ix = Some fw"
      and "\<forall>q. rq_Selection req = Some q \<longrightarrow>
        (\<exists>s. validateTechnicianSelection ix (rp_rels (resolve_parts ord ix fw)) q = Inr s)" for ix fw
  proof -
    have "\<exists>selected. resolver_run win ord wall req ix fw selected"
      using assms that by (cases "rq_Selection req") (auto simp: resolver_run_def Let_def applySelection_def simp del: split_paired_Ex)
    then show ?thesis using resolver_run_returns by blast
  qed
  show ?thesis
  proof
    assume "\<exists>r. Resolve win ord wall None req = Inr r"
    then obtain r where r: "Resolve win ord wall None req = Inr r" by blast
    obtain ix fw p selected where ix: "buildIndex (rq_Snapshot req) = Inr ix" "ix_firmwareTarget ix = Some fw"
      and p: "p = resolve_parts ord ix fw"
      and a: "applySelection ix (rp_firmware p) (rs_cands (rp_windows p)) (rs_cands (rp_esp p)) (rs_cands (rp_bcd p))
        (rp_rels p) (rq_Selection req) = Inr selected"
      by (rule Resolve_cases [OF r])
    have "\<forall>q. rq_Selection req = Some q \<longrightarrow> (\<exists>s. validateTechnicianSelection ix (rp_rels (resolve_parts ord ix fw)) q = Inr s)"
      using a by (auto simp: applySelection_def p)
    then show "?pre \<and> ?run"
      using returns [OF resolved_evidence(4-6) [OF r assms] ix] resolved_evidence(4-6) [OF r assms] ix r by blast
  qed (use returns in blast)
qed

theorem resolution_returns_witness:
  "\<exists>r. Resolve False rev zero_time None (boot_request one_windows) = Inr r"
proof -
  have "\<forall>q. rq_Selection (boot_request one_windows) \<noteq> Some q" by (simp add: boot_request_def)
  moreover have "rq_Snapshot (boot_request one_windows) = one_windows" "reCommitID (rq_CommitID (boot_request one_windows))"
    by (simp_all add: boot_request_def)
  ultimately show ?thesis
    using resolution_returns [OF some_orders(2), of False zero_time "boot_request one_windows"]
      one_windows_valid boot_time boot_indexes(1) boot_firmware(2) boot_names [of rev] by metis
qed

end
