(* ===== verification/Acquisitions.thy ===== *)
theory Acquisitions
  imports Consultations TargetResolver
begin

text \<open>
  Acquired evidence (\<^verbatim>\<open>internal/recovery/coordinator/acquire.go\<close>): the command
  \<^verbatim>\<open>ResolveWindowsBootTopology\<close> runs the target resolver on the head of a case and appends the
  topology it returns, with a record of where it came from. The parameters \<open>ord\<close> and \<open>wall\<close> are
  those of \<open>Resolve\<close>: the order of a Go map and the wall clock.
\<close>

section \<open>Requests\<close>

record ResolveWindowsBootTopologyRequest =
  wr_CaseID :: string
  wr_ExpectedCommitID :: string
  wr_RequestID :: string
  wr_Selection :: "TechnicianSelection option"
  wr_Actor :: string

record ResolveWindowsBootTopologyResult =
  wv_CaseView :: CaseView
  wv_Acquisition :: EvidenceAcquisitionRecord
  wv_Topology :: WindowsBootTopology
  wv_Evidence :: EvidenceBundle
  wv_Idempotent :: bool

definition requireAcquisitionAllowed :: "Snapshot \<Rightarrow> string \<Rightarrow> go_err" where
  "requireAcquisitionAllowed s caseID =
     (let state = currentState s in
      err_if (state \<notin> {WorkflowEvidenceCollected, WorkflowAnalyzed})
        (TransitionError caseID state WorkflowEvidenceCollected ''acquisition_not_allowed''
          (GVal (Errorf ''read/topology acquisition requires workflow state evidence_collected or analyzed (got %s)''
             [GStr state]))))"

definition requireAcquisitionActor :: "string \<Rightarrow> string result" where
  "requireAcquisitionActor actor =
     (let actor = defaultActor actor ActorSystem in
      if actor \<in> {ActorSystem, ActorTechnician} then Inr actor
      else Inl (Errorf ''%w: actor_type %q'' [GWrap ErrActorNotAllowed, GStr actor]))"

definition validateAcquisitionRequestID :: "string \<Rightarrow> go_err" where
  "validateAcquisitionRequestID i = first_err
     [err_if (i = []) (bad_argument ''request_id is required'' []),
      err_if (\<not> request_id_matches ''acqreq-'' i)
        (bad_argument ''request_id must match acqreq-<24 lowercase hex>'' [])]"

text \<open>The members of \<^verbatim>\<open>TechnicianSelection\<close> have no tags; a nil pointer is \<^verbatim>\<open>null\<close>.\<close>

definition TechnicianSelection_json :: "TechnicianSelection \<Rightarrow> json" where
  "TechnicianSelection_json s = JObj
     [(''WindowsTargetID'', JStr (sel_WindowsTargetID s)),
      (''WindowsPartitionTargetID'', JStr (sel_WindowsPartitionTargetID s)),
      (''SystemDiskTargetID'', JStr (sel_SystemDiskTargetID s)), (''ESPTargetID'', JStr (sel_ESPTargetID s)),
      (''BCDTargetID'', JStr (sel_BCDTargetID s))]"

definition canonicalTopologyAcquisitionRequest :: "string \<Rightarrow> TechnicianSelection option \<Rightarrow> string result" where
  "canonicalTopologyAcquisitionRequest caseID selection = marshal (JObj
     [(''kind'', JStr ''windows_boot_topology''), (''case_id'', JStr caseID),
      (''selection'', case selection of None \<Rightarrow> JNull | Some s \<Rightarrow> TechnicianSelection_json s)])"

definition mustJSON :: "json \<Rightarrow> string" where
  "mustJSON j = (case marshal j of Inl _ \<Rightarrow> ''{}'' | Inr s \<Rightarrow> s)"

section \<open>What a case has acquired\<close>

definition findAcquisition :: "Snapshot \<Rightarrow> string \<Rightarrow> EvidenceAcquisitionRecord option" where
  "findAcquisition s requestID = List.find (\<lambda>q. acq_RequestID q = requestID) (snap_EvidenceAcquisitions s)"

definition evidenceByID :: "Snapshot \<Rightarrow> string slice \<Rightarrow> EvidenceBundle option" where
  "evidenceByID s ids = List.find (\<lambda>e. ev_EvidenceID e \<in> set (elems ids)) (snap_EvidenceBundles s)"

definition target_ids_of :: "Target list \<Rightarrow> string list" where
  "target_ids_of ts = sort (map tg_TargetID ts)"

definition inputEvidenceIDs :: "Snapshot \<Rightarrow> string list" where
  "inputEvidenceIDs s = sort (map ev_EvidenceID (snap_EvidenceBundles s))"

definition appendAcquisition :: "bool \<Rightarrow> Snapshot \<Rightarrow> Target list \<Rightarrow> EvidenceBundle list \<Rightarrow>
    EvidenceAcquisitionRecord \<Rightarrow> Snapshot result" where
  "appendAcquisition win s addedTargets addedEvidence acq =
     bindE (mergeTargetsAppendOnly (snap_Targets s) addedTargets) (\<lambda>targets.
     bindE (mergeEvidenceAppendOnly (snap_EvidenceBundles s) addedEvidence) (\<lambda>evidence.
     check_then (each (\<lambda>_ q. first_err
         [err_if (acq_AcquisitionID q = acq_AcquisitionID acq) (bad_argument ''acquisition_id already exists'' []),
          err_if (acq_RequestID q = acq_RequestID acq) (bad_argument ''request_id already exists'' [])])
         (snap_EvidenceAcquisitions s))
      (let next = s\<lparr>snap_Case := (snap_Case s)\<lparr>cm_TargetIDs := Some (target_ids_of targets)\<rparr>,
                    snap_Targets := targets, snap_EvidenceBundles := evidence,
                    snap_EvidenceAcquisitions := snap_EvidenceAcquisitions s @ [acq]\<rparr> in
       check_then (wrap_err bad_value (Snapshot_Validate win next)) (Inr next))))"

section \<open>Acquiring a topology\<close>

text \<open>The answer to a request the case has already served: \<open>None\<close> when it has not.\<close>

definition topology_replay :: "Snapshot \<Rightarrow> CommitInfo \<Rightarrow> ResolveWindowsBootTopologyRequest \<Rightarrow> string \<Rightarrow>
    ResolveWindowsBootTopologyResult result option" where
  "topology_replay s info req canonical =
     (case findAcquisition s (wr_RequestID req) of
        None \<Rightarrow> None
      | Some existing \<Rightarrow> Some
         (if acq_ParametersSHA256 existing \<noteq> sha256Hex canonical
          then Inl (AcquisitionConflictError (wr_CaseID req) (wr_RequestID req))
          else case evidenceByID s (acq_AddedEvidenceIDs existing) of
             None \<Rightarrow> Inl (Errorf ''%w: acquisition evidence missing'' [GWrap ErrMissingDocument])
           | Some ev \<Rightarrow>
               (case json_unmarshal dec_WindowsBootTopology zero_WindowsBootTopology (elems (ev_Facts ev)) of
                  Inl e \<Rightarrow> Inl (bad_argument ''decode stored topology: %v'' [GVal e])
                | Inr topo \<Rightarrow> Inr \<lparr>wv_CaseView = viewFrom s info, wv_Acquisition = existing, wv_Topology = topo,
                                   wv_Evidence = ev, wv_Idempotent = True\<rparr>)))"

definition topology_acquisition :: "ResolveWindowsBootTopologyRequest \<Rightarrow> string \<Rightarrow> string \<Rightarrow> Snapshot \<Rightarrow> CommitInfo \<Rightarrow>
    string \<Rightarrow> ResolveResult \<Rightarrow> EvidenceAcquisitionRecord" where
  "topology_acquisition req actor canonical s info acqID resolved =
     \<lparr>acq_SchemaName = SchemaEvidenceAcquisitionRecord, acq_SchemaVersion = SchemaVersion,
      acq_AcquisitionID = acqID, acq_CaseID = wr_CaseID req, acq_RequestID = wr_RequestID req,
      acq_SourceCommitID = ci_CommitID info,
      acq_ProducerType = (if wr_Selection req = None then ProducerTargetResolver else ProducerTechnicianSelection),
      acq_ProducerID = ''effexor-recovery-target-resolver'', acq_ProducerVersion = ''1.0.0'',
      acq_ActorType = actor, acq_AcquiredAt = wt_GeneratedAt (rr_Topology resolved),
      acq_TargetIDs = Some [ev_TargetID (rr_Evidence resolved)], acq_InputEvidenceIDs = Some (inputEvidenceIDs s),
      acq_AddedTargetIDs = Some [], acq_AddedEvidenceIDs = Some [ev_EvidenceID (rr_Evidence resolved)],
      acq_ParametersSHA256 = sha256Hex canonical,
      acq_ResultSHA256 = sha256Hex (mustJSON (WindowsBootTopology_json (rr_Topology resolved))),
      acq_Limitations = Some (elems (wt_Limitations (rr_Topology resolved)))\<rparr>"

text \<open>The resolver is run at the time of the coordinator's clock; it asks the context again.\<close>

definition resolve_act :: "'w deps \<Rightarrow> view_order \<Rightarrow> instant \<Rightarrow> Snapshot \<Rightarrow> CommitInfo \<Rightarrow>
    ResolveWindowsBootTopologyRequest \<Rightarrow> ('w, ResolveResult) act" where
  "resolve_act d ord wall snap info req =
     andThen (read_act (d_Now d)) (\<lambda>clock.
     (let nowRaw = monotonicNow clock snap in
     (case parse_rfc3339 nowRaw of
        None \<Rightarrow> fail_with (bad_argument ''acquired_at: %v'' [GVal (time_parse_error nowRaw)])
      | Some now \<Rightarrow> (\<lambda>w.
          on_error (lift_result (Resolve (d_win d) ord wall (d_CtxErr d w)
              \<lparr>rq_Snapshot = snap, rq_CommitID = ci_CommitID info, rq_Selection = wr_Selection req, rq_Now = now\<rparr>))
            (\<lambda>e. fail_with (bad_value e)) w))))"

definition ResolveWindowsBootTopology :: "'w deps \<Rightarrow> view_order \<Rightarrow> instant \<Rightarrow> ResolveWindowsBootTopologyRequest \<Rightarrow>
    ('w, ResolveWindowsBootTopologyResult) act" where
  "ResolveWindowsBootTopology d ord wall req =
     andThen (ctx_ok d) (\<lambda>_.
     andThen (lift_result (requireAcquisitionActor (wr_Actor req))) (\<lambda>actor.
     andThen (check_act (validateAcquisitionRequestID (wr_RequestID req))) (\<lambda>_.
     andThen (lift_result (canonicalTopologyAcquisitionRequest (wr_CaseID req) (wr_Selection req))) (\<lambda>canonical.
     andThen (loadLatestVerified d (wr_CaseID req)) (\<lambda>(snap, info).
     andThen (check_act (requireAcquisitionAllowed snap (wr_CaseID req))) (\<lambda>_.
     (case topology_replay snap info req canonical of
        Some r \<Rightarrow> lift_result r
      | None \<Rightarrow>
          andThen (expected_head (wr_CaseID req) (wr_ExpectedCommitID req) info) (\<lambda>_.
          andThen (resolve_act d ord wall snap info req) (\<lambda>resolved.
          andThen (d_NewID d ''acq'') (\<lambda>acqID.
          (let acq = topology_acquisition req actor canonical snap info acqID resolved in
          andThen (lift_result (appendAcquisition (d_win d) snap [] [rr_Evidence resolved] acq)) (\<lambda>next.
          andThen (commitSnapshot d next (ci_CommitID info)) (\<lambda>view.
            ret \<lparr>wv_CaseView = view, wv_Acquisition = acq, wv_Topology = rr_Topology resolved,
                 wv_Evidence = rr_Evidence resolved, wv_Idempotent = False\<rparr>)))))))))))))"

end
