(* ===== verification/BootDoctorCommit.thy ===== *)
theory BootDoctorCommit
  imports Acquisitions BootDoctor
begin

text \<open>
  Boot Doctor's analysis of a case (\<^verbatim>\<open>internal/recovery/coordinator/bootdoctor.go\<close>): the command
  \<^verbatim>\<open>CommitBootDoctorAnalysis\<close> picks the topology evidence of the case, runs the analyzer on it and
  commits the findings with \<^verbatim>\<open>CommitAnalysis\<close>. The parameter \<open>ord\<close> is that of \<open>Analyze\<close>.
\<close>

section \<open>Requests\<close>

record CommitBootDoctorAnalysisRequest =
  br_CaseID :: string
  br_ExpectedCommitID :: string
  br_RequestID :: string
  br_TopologyEvidenceID :: string
  br_Actor :: string
  br_ReasonCode :: string
  br_CommandID :: string

record CommitBootDoctorAnalysisResult =
  bv_CaseView :: CaseView
  bv_Findings :: "Finding list"
  bv_Topology :: WindowsBootTopology
  bv_Idempotent :: bool

definition validateBootDoctorRequestID :: "string \<Rightarrow> go_err" where
  "validateBootDoctorRequestID i = validateAcquisitionRequestID i"

definition canonicalBootDoctorRequest :: "string \<Rightarrow> string \<Rightarrow> string \<Rightarrow> string \<Rightarrow> Finding list \<Rightarrow> string result" where
  "canonicalBootDoctorRequest caseID requestID topoEvidenceID topologyID findings = marshal (JObj
     [(''case_id'', JStr caseID), (''request_id'', JStr requestID), (''topology_evidence_id'', JStr topoEvidenceID),
      (''topology_id'', JStr topologyID), (''finding_ids'', json_strs (Some (sort (map fnd_FindingID findings)))),
      (''analyzer'', JStr ''effexor-recovery-boot-doctor/1.0.0'')])"

definition firstNonEmpty :: "string list \<Rightarrow> string" where
  "firstNonEmpty vs = (case List.find (\<lambda>v. v \<noteq> []) vs of None \<Rightarrow> [] | Some v \<Rightarrow> v)"

section \<open>The topology of a case\<close>

text \<open>
  \<^verbatim>\<open>sort.Slice\<close> is not stable, but the ids of a case are distinct, so any sort gives the same list.
\<close>

definition selectTopologyEvidence :: "Snapshot \<Rightarrow> string \<Rightarrow> (EvidenceBundle \<times> WindowsBootTopology) result" where
  "selectTopologyEvidence s wantID =
     (let found = filter (\<lambda>e. ev_FactsSchema e = SchemaWindowsBootTopology \<and> (wantID \<noteq> [] \<longrightarrow> ev_EvidenceID e = wantID))
            (snap_EvidenceBundles s) in
      check_then (first_err
        [err_if (wantID \<noteq> [] \<and> found = [])
           (Errorf ''%w: topology evidence %q not found'' [GWrap ErrMissingDocument, GStr wantID]),
         err_if (found = []) (Errorf ''%w: no windows-boot-topology evidence in case'' [GWrap ErrMissingDocument])])
        (let chosen = last (sort_key ev_EvidenceID found) in
         (case json_unmarshal dec_WindowsBootTopology zero_WindowsBootTopology (elems (ev_Facts chosen)) of
            Inl e \<Rightarrow> Inl (bad_argument ''decode topology evidence: %v'' [GVal e])
          | Inr topo \<Rightarrow>
              check_then (wrap_err (\<lambda>x. bad_argument ''topology evidence invalid: %v'' [GVal x]) (WindowsBootTopology_Validate topo))
                (Inr (chosen, topo)))))"

text \<open>\<^verbatim>\<open>evidenceIDs\<close> and \<^verbatim>\<open>snapshotTargetIDs\<close> keep the order of the snapshot.\<close>

definition snapshotEvidenceIDs :: "Snapshot \<Rightarrow> string list" where
  "snapshotEvidenceIDs s = map ev_EvidenceID (snap_EvidenceBundles s)"

definition snapshotTargetIDs :: "Snapshot \<Rightarrow> string list" where
  "snapshotTargetIDs s = map tg_TargetID (snap_Targets s)"

definition analysis_input :: "string \<Rightarrow> Snapshot \<Rightarrow> EvidenceBundle \<Rightarrow> WindowsBootTopology \<Rightarrow> Input" where
  "analysis_input caseID s ev topo =
     \<lparr>in_CaseID = caseID, in_Topology = topo, in_TopologyEvidenceID = ev_EvidenceID ev, in_Targets = snap_Targets s,
      in_KnownEvidenceIDs = snapshotEvidenceIDs s, in_KnownTargetIDs = snapshotTargetIDs s\<rparr>"

section \<open>Replays\<close>

definition findingsSubsetEqual :: "Finding list \<Rightarrow> Finding list \<Rightarrow> bool" where
  "findingsSubsetEqual existing expected = list_all (\<lambda>f.
     (case List.find (\<lambda>p. fnd_FindingID p = fnd_FindingID f) (rev existing) of
        None \<Rightarrow> False
      | Some prev \<Rightarrow> (case findingsCanonicallyEqual prev f of Inl _ \<Rightarrow> False | Inr eq \<Rightarrow> eq))) expected"

text \<open>The hash of the canonical request is computed and not compared, so it has no part here.\<close>

definition findBootDoctorReplay :: "Snapshot \<Rightarrow> CommitInfo \<Rightarrow> string \<Rightarrow> Finding list \<Rightarrow> WindowsBootTopology \<Rightarrow>
    CommitBootDoctorAnalysisResult result option" where
  "findBootDoctorReplay s info requestID expected topo =
     (case List.find (\<lambda>e. we_EventType e = EventAnalysisCommitted \<and> we_CommandID e = requestID) (snap_CoordinatorEvents s) of
        None \<Rightarrow> None
      | Some _ \<Rightarrow> Some
          (if \<not> findingsSubsetEqual (snap_Findings s) expected
           then Inl (AcquisitionConflictError (cm_CaseID (snap_Case s)) requestID)
           else Inr \<lparr>bv_CaseView = viewFrom s info, bv_Findings = expected, bv_Topology = topo, bv_Idempotent = True\<rparr>))"

section \<open>The command\<close>

definition analysis_request :: "CommitBootDoctorAnalysisRequest \<Rightarrow> string \<Rightarrow> Finding list \<Rightarrow> CommitAnalysisRequest" where
  "analysis_request req actor findings =
     \<lparr>ar_CaseID = br_CaseID req, ar_ExpectedCommitID = br_ExpectedCommitID req, ar_Findings = findings, ar_Actor = actor,
      ar_ReasonCode = defaultReason (br_ReasonCode req) ''boot_doctor_analysis_committed'',
      ar_CommandID = firstNonEmpty [br_CommandID req, br_RequestID req]\<rparr>"

definition CommitBootDoctorAnalysis :: "'w deps \<Rightarrow> ((string \<times> draft) list \<Rightarrow> (string \<times> draft) list) \<Rightarrow>
    CommitBootDoctorAnalysisRequest \<Rightarrow> ('w, CommitBootDoctorAnalysisResult) act" where
  "CommitBootDoctorAnalysis d ord req =
     andThen (ctx_ok d) (\<lambda>_.
     (let actor = defaultActor (br_Actor req) ActorDeterministicAnalyzer in
     andThen (check_act (err_if (actor = ActorLLMAdvisor)
        (Errorf ''%w: llm_advisor cannot commit Boot Doctor analysis'' [GWrap ErrActorNotAllowed]))) (\<lambda>_.
     andThen (check_act (validateBootDoctorRequestID (br_RequestID req))) (\<lambda>_.
     andThen (loadLatestVerified d (br_CaseID req)) (\<lambda>(snap, info).
     andThen (lift_result (selectTopologyEvidence snap (br_TopologyEvidenceID req))) (\<lambda>(topoEv, topo).
     andThen (on_error (lift_result (Analyze ord (analysis_input (br_CaseID req) snap topoEv topo)))
                (\<lambda>e. fail_with (bad_value e))) (\<lambda>findings.
     andThen (check_act (err_if (findings = []) (bad_argument ''Boot Doctor produced no findings'' []))) (\<lambda>_.
     andThen (lift_result (canonicalBootDoctorRequest (br_CaseID req) (br_RequestID req) (ev_EvidenceID topoEv)
                (wt_TopologyID topo) findings)) (\<lambda>_.
     (case findBootDoctorReplay snap info (br_RequestID req) findings topo of
        Some r \<Rightarrow> lift_result r
      | None \<Rightarrow>
          andThen (expected_head (br_CaseID req) (br_ExpectedCommitID req) info) (\<lambda>_.
          andThen (CommitAnalysis_cmd d (analysis_request req actor findings)) (\<lambda>view.
            ret \<lparr>bv_CaseView = view, bv_Findings = findings, bv_Topology = topo, bv_Idempotent = False\<rparr>))))))))))))"

end
