(* ===== verification/AcquisitionProofs.thy ===== *)
theory AcquisitionProofs
  imports BootDoctorCommit ResolverProperties ConsultationProperties BootDoctorProperties
begin

text \<open>What acquiring evidence does to a case, and what Boot Doctor reads from it afterwards.\<close>

section \<open>Appending one bundle\<close>

lemma merge_one_bundle:
  assumes "mergeEvidenceAppendOnly es [e] = Inr fs"
  shows "fs = es @ [e] \<and> ev_EvidenceID e \<notin> ev_EvidenceID ` set es \<or> fs = es \<and> ev_EvidenceID e \<in> ev_EvidenceID ` set es"
proof (cases "List.find (\<lambda>y. ev_EvidenceID y = ev_EvidenceID e) (rev es)")
  case None
  then have "ev_EvidenceID e \<notin> ev_EvidenceID ` set es" by (simp add: find_key_None)
  then show ?thesis using assms None by (simp add: mergeEvidenceAppendOnly_def)
next
  case (Some p)
  then have "ev_EvidenceID e \<in> ev_EvidenceID ` set es" using find_key_mem [OF Some] by auto
  then show ?thesis using assms Some by (auto simp: mergeEvidenceAppendOnly_def split: if_splits)
qed

lemma appendAcquisition_Inr:
  "appendAcquisition win s [] es acq = Inr new \<longleftrightarrow>
     (\<exists>evidence. mergeEvidenceAppendOnly (snap_EvidenceBundles s) es = Inr evidence \<and>
        acq_AcquisitionID acq \<notin> acq_AcquisitionID ` set (snap_EvidenceAcquisitions s) \<and>
        acq_RequestID acq \<notin> acq_RequestID ` set (snap_EvidenceAcquisitions s) \<and>
        new = s\<lparr>snap_Case := (snap_Case s)\<lparr>cm_TargetIDs := Some (target_ids_of (snap_Targets s))\<rparr>,
                snap_EvidenceBundles := evidence, snap_EvidenceAcquisitions := snap_EvidenceAcquisitions s @ [acq]\<rparr> \<and>
        Snapshot_Validate win new = None)"
  unfolding appendAcquisition_def Let_def mergeTargetsAppendOnly_def by (auto simp: image_iff) metis+

text \<open>The event a case was created or adopted by references what no acquisition added.\<close>

lemma creating_event:
  assumes "Snapshot_Validate win s = None" "snap_WorkflowState s \<noteq> None"
  obtains e where "e \<in> set (snap_CoordinatorEvents s)" "we_EventType e \<in> {EventCaseCreated, EventLegacyCaseAdopted}"
proof -
  obtain w where w: "snap_WorkflowState s = Some w" using assms(2) by blast
  obtain ordered p where run: "event_run ordered p" "mset ordered = mset (snap_CoordinatorEvents s)"
    using valid_run [OF assms(1) w] by metis
  have "ordered \<noteq> []" "we_EventType (ordered ! 0) \<in> {EventCaseCreated, EventLegacyCaseAdopted}"
    using event_run_fresh [OF run(1), of 0] event_run_nonempty [OF run(1)] by auto
  then show ?thesis using that [of "ordered ! 0"] run(2) by (metis length_greater_0_conv nth_mem set_mset_mset)
qed

lemma creating_event_refs:
  assumes "Snapshot_Validate win s = None" "e \<in> set (snap_CoordinatorEvents s)"
    and "we_EventType e \<in> {EventCaseCreated, EventLegacyCaseAdopted}"
  shows "set (elems (we_ReferencedDocumentIDs e)) - {[]} =
    {cm_CaseID (snap_Case s), DocumentIDCaseWorkflowState} \<union>
    (tg_TargetID ` set (snap_Targets s) - set (added_target_ids s)) \<union>
    (ev_EvidenceID ` set (snap_EvidenceBundles s) - set (added_evidence_ids s)) - {[]}"
proof -
  have "set (elems (we_ReferencedDocumentIDs e)) - {[]} = set (createOrAdoptReferenceSet s) - {[]}"
    using valid_event(4) [OF assms(1,2)] assms(3)
    by (auto simp: validateCoordinatorEventReferenceSemantics_def Let_def exact_refs_def requireExactRefSet_None
          split: if_splits)
  then show ?thesis
    by (auto simp: createOrAdoptReferenceSet_def initialTargetIDs_def initialEvidenceIDs_def)
qed

lemma evidence_id_apart:
  assumes "reEvidenceID i"
  shows "\<not> reTargetID i" "\<not> reCaseID i" "i \<noteq> DocumentIDCaseWorkflowState" "i \<noteq> []"
  using assms
  by (cases i; auto simp: reEvidenceID_def reTargetID_def reCaseID_def re_run_def has_prefix_def DocumentIDCaseWorkflowState_def)+

text \<open>What an acquisition adds was not in the case before.\<close>

lemma acquired_is_new:
  assumes old: "Snapshot_Validate win s = None" "snap_WorkflowState s \<noteq> None" and new: "Snapshot_Validate win new = None"
    and eq: "new = s\<lparr>snap_Case := (snap_Case s)\<lparr>cm_TargetIDs := x\<rparr>, snap_EvidenceBundles := snap_EvidenceBundles s,
         snap_EvidenceAcquisitions := snap_EvidenceAcquisitions s @ [acq]\<rparr>"
    and i: "i \<in> set (elems (acq_AddedEvidenceIDs acq))" "i \<in> ev_EvidenceID ` set (snap_EvidenceBundles s)"
  shows False
proof -
  obtain e where e: "e \<in> set (snap_CoordinatorEvents s)" "we_EventType e \<in> {EventCaseCreated, EventLegacyCaseAdopted}"
    using creating_event [OF old] .
  have parts: "snap_WorkflowState new = snap_WorkflowState s" "snap_CoordinatorEvents new = snap_CoordinatorEvents s"
    "snap_Targets new = snap_Targets s" "snap_EvidenceBundles new = snap_EvidenceBundles s"
    "cm_CaseID (snap_Case new) = cm_CaseID (snap_Case s)"
    and added: "added_evidence_ids new = added_evidence_ids s @ elems (acq_AddedEvidenceIDs acq)"
    "set (added_target_ids s) \<subseteq> set (added_target_ids new)"
    by (simp_all add: eq added_evidence_ids_def added_target_ids_def)
  obtain w where w: "snap_WorkflowState new = Some w" using old(2) parts(1) by fastforce
  have "distinct (added_evidence_ids new)" using origin_None(2) [OF valid_workflow(5) [OF new w]] .
  then have unclaimed: "i \<notin> set (added_evidence_ids s)" using i(1) by (auto simp: added)
  have id: "reEvidenceID i" using i(2) snapshot_ids(2) [OF old(1)] by auto
  note apart = evidence_id_apart [OF id]
  have targets: "i \<notin> tg_TargetID ` set (snap_Targets s)" "i \<noteq> cm_CaseID (snap_Case s)"
    using apart snapshot_ids(1,4) [OF old(1)] by auto
  have "i \<in> set (elems (we_ReferencedDocumentIDs e)) - {[]}"
    using i(2) unclaimed apart unfolding creating_event_refs [OF old(1) e] by simp
  moreover have "i \<notin> set (elems (we_ReferencedDocumentIDs e)) - {[]}"
    using creating_event_refs [OF new, of e] e i(1) targets apart by (simp add: parts added)
  ultimately show False by contradiction
qed

section \<open>What the resolver hands over\<close>

lemma unmarshal_decoded: "decode_document d z s = Inr x \<Longrightarrow> json_unmarshal d z s = Inr x"
  by (auto simp: decode_document_def json_unmarshal_def Let_def split: option.splits if_splits)

section \<open>The steps of the command\<close>

lemma acquisition_allowed [simp]:
  "requireAcquisitionAllowed s c = None \<longleftrightarrow> currentState s \<in> {WorkflowEvidenceCollected, WorkflowAnalyzed}"
  by (auto simp: requireAcquisitionAllowed_def Let_def)

lemma resolve_act_Inr:
  "resolve_act d ord wall snap info req w = (Inr r, w') \<longleftrightarrow>
     (\<exists>clock now. d_Now d w = (clock, w') \<and> parse_rfc3339 (monotonicNow clock snap) = Some now \<and>
        Resolve (d_win d) ord wall (d_CtxErr d w')
          \<lparr>rq_Snapshot = snap, rq_CommitID = ci_CommitID info, rq_Selection = wr_Selection req, rq_Now = now\<rparr> = Inr r)"
proof (cases "d_Now d w")
  case (Pair clock v)
  show ?thesis
  proof (cases "parse_rfc3339 (monotonicNow clock snap)")
    case None
    then show ?thesis using Pair by (simp add: resolve_act_def andThen_def read_act_def Let_def)
  next
    case (Some now)
    then show ?thesis
      using Pair
      by (cases "Resolve (d_win d) ord wall (d_CtxErr d v)
          \<lparr>rq_Snapshot = snap, rq_CommitID = ci_CommitID info, rq_Selection = wr_Selection req, rq_Now = now\<rparr>")
         (auto simp: resolve_act_def andThen_def read_act_def Let_def on_error_def lift_result_def)
  qed
qed

text \<open>A run that commits: what was loaded, resolved, appended and published.\<close>

definition acquisition_run :: "'w deps \<Rightarrow> view_order \<Rightarrow> instant \<Rightarrow> ResolveWindowsBootTopologyRequest \<Rightarrow> 'w \<Rightarrow>
    Snapshot \<Rightarrow> CommitInfo \<Rightarrow> Snapshot \<Rightarrow> ResolveWindowsBootTopologyResult \<Rightarrow> 'w \<Rightarrow> bool" where
  "acquisition_run d ord wall req w1 old info new r w' \<longleftrightarrow>
     wr_ExpectedCommitID req = ci_CommitID info \<and> wr_ExpectedCommitID req \<noteq> [] \<and>
     findAcquisition old (wr_RequestID req) = None \<and>
     (\<exists>actor canonical resolved acqID w2 w3.
        requireAcquisitionActor (wr_Actor req) = Inr actor \<and>
        canonicalTopologyAcquisitionRequest (wr_CaseID req) (wr_Selection req) = Inr canonical \<and>
        resolve_act d ord wall old info req w1 = (Inr resolved, w2) \<and> d_NewID d ''acq'' w2 = (Inr acqID, w3) \<and>
        wv_Acquisition r = topology_acquisition req actor canonical old info acqID resolved \<and>
        wv_Topology r = rr_Topology resolved \<and> wv_Evidence r = rr_Evidence resolved \<and>
        appendAcquisition (d_win d) old [] [wv_Evidence r] (wv_Acquisition r) = Inr new \<and>
        commitSnapshot d new (ci_CommitID info) w3 = (Inr (wv_CaseView r), w'))"

lemma acquisition_cases:
  assumes "ResolveWindowsBootTopology d ord wall req w = (Inr r, w')"
  obtains old info w1 where "d_CtxErr d w = None" "validateAcquisitionRequestID (wr_RequestID req) = None"
    "loadLatestVerified d (wr_CaseID req) w = (Inr (old, info), w1)"
    "currentState old \<in> {WorkflowEvidenceCollected, WorkflowAnalyzed}"
    "(wv_Idempotent r \<and> w' = w1 \<and> (\<exists>canonical. canonicalTopologyAcquisitionRequest (wr_CaseID req) (wr_Selection req) = Inr canonical \<and>
        topology_replay old info req canonical = Some (Inr r))) \<or>
     (\<not> wv_Idempotent r \<and> (\<exists>new. acquisition_run d ord wall req w1 old info new r w'))"
proof -
  obtain actor canonical old info w1 where pre: "d_CtxErr d w = None" "requireAcquisitionActor (wr_Actor req) = Inr actor"
      "validateAcquisitionRequestID (wr_RequestID req) = None"
      "canonicalTopologyAcquisitionRequest (wr_CaseID req) (wr_Selection req) = Inr canonical"
      "loadLatestVerified d (wr_CaseID req) w = (Inr (old, info), w1)"
      "currentState old = WorkflowEvidenceCollected \<or> currentState old = WorkflowAnalyzed"
    and rest: "(case topology_replay old info req canonical of
        Some r \<Rightarrow> lift_result r
      | None \<Rightarrow>
          andThen (expected_head (wr_CaseID req) (wr_ExpectedCommitID req) info) (\<lambda>_.
          andThen (resolve_act d ord wall old info req) (\<lambda>resolved.
          andThen (d_NewID d ''acq'') (\<lambda>acqID.
          (let acq = topology_acquisition req actor canonical old info acqID resolved in
          andThen (lift_result (appendAcquisition (d_win d) old [] [rr_Evidence resolved] acq)) (\<lambda>next.
          andThen (commitSnapshot d next (ci_CommitID info)) (\<lambda>view.
            ret \<lparr>wv_CaseView = view, wv_Acquisition = acq, wv_Topology = rr_Topology resolved,
                 wv_Evidence = rr_Evidence resolved, wv_Idempotent = False\<rparr>))))))) w1 = (Inr r, w')"
    using assms unfolding ResolveWindowsBootTopology_def by (auto simp: andThen_Inr)
  have state: "currentState old \<in> {WorkflowEvidenceCollected, WorkflowAnalyzed}" using pre(6) by simp
  show ?thesis
  proof (cases "topology_replay old info req canonical")
    case (Some x)
    then have x: "x = Inr r" "w' = w1" using rest by auto
    then have "wv_Idempotent r"
      using Some by (auto simp: topology_replay_def split: option.splits if_splits sum.splits)
    then show ?thesis using that [OF pre(1,3,5) state] pre(4) Some x by blast
  next
    case None
    then have fresh: "findAcquisition old (wr_RequestID req) = None"
      by (auto simp: topology_replay_def split: option.splits)
    obtain resolved w2 acqID w3 new where run: "wr_ExpectedCommitID req = ci_CommitID info" "wr_ExpectedCommitID req \<noteq> []"
        "resolve_act d ord wall old info req w1 = (Inr resolved, w2)" "d_NewID d ''acq'' w2 = (Inr acqID, w3)"
        "appendAcquisition (d_win d) old [] [rr_Evidence resolved] (topology_acquisition req actor canonical old info acqID resolved) = Inr new"
        "commitSnapshot d new (ci_CommitID info) w3 = (Inr (wv_CaseView r), w')"
      and r: "r = \<lparr>wv_CaseView = wv_CaseView r, wv_Acquisition = topology_acquisition req actor canonical old info acqID resolved,
        wv_Topology = rr_Topology resolved, wv_Evidence = rr_Evidence resolved, wv_Idempotent = False\<rparr>"
      using rest None by (auto simp: andThen_Inr Let_def)
    have parts: "wv_Acquisition r = topology_acquisition req actor canonical old info acqID resolved"
        "wv_Topology r = rr_Topology resolved" "wv_Evidence r = rr_Evidence resolved" "\<not> wv_Idempotent r"
      by (subst r, simp)+
    then have "acquisition_run d ord wall req w1 old info new r w'"
      unfolding acquisition_run_def using run fresh pre(2,4) by metis
    then show ?thesis using that [OF pre(1,3,5) state] parts(4) by blast
  qed
qed

text \<open>What such a run leaves in the case.\<close>

lemma run_appends:
  assumes "acquisition_run d ord wall req w1 old info new r w'" "reorders ord" "snap_WorkflowState old \<noteq> None"
  shows "new = old\<lparr>snap_Case := (snap_Case old)\<lparr>cm_TargetIDs := Some (target_ids_of (snap_Targets old))\<rparr>,
      snap_EvidenceBundles := snap_EvidenceBundles old @ [wv_Evidence r],
      snap_EvidenceAcquisitions := snap_EvidenceAcquisitions old @ [wv_Acquisition r]\<rparr>"
    and "ev_EvidenceID (wv_Evidence r) \<notin> ev_EvidenceID ` set (snap_EvidenceBundles old)"
    and "acq_RequestID (wv_Acquisition r) \<notin> acq_RequestID ` set (snap_EvidenceAcquisitions old)"
    and "Snapshot_Validate (d_win d) old = None" "Snapshot_Validate (d_win d) new = None"
    and "published d (ci_CommitID info) (wv_CaseView r) w'" "cv_Snapshot (wv_CaseView r) = new"
proof -
  obtain actor canonical resolved acqID w2 w3 where run: "resolve_act d ord wall old info req w1 = (Inr resolved, w2)"
    and acq: "wv_Acquisition r = topology_acquisition req actor canonical old info acqID resolved"
    and ev: "wv_Evidence r = rr_Evidence resolved"
    and app: "appendAcquisition (d_win d) old [] [wv_Evidence r] (wv_Acquisition r) = Inr new"
    and com: "commitSnapshot d new (ci_CommitID info) w3 = (Inr (wv_CaseView r), w')"
    using assms(1) unfolding acquisition_run_def by blast
  show valid: "Snapshot_Validate (d_win d) old = None"
    using run resolved_evidence(4) [OF _ assms(2)] by (fastforce simp: resolve_act_Inr)
  obtain evidence where merge: "mergeEvidenceAppendOnly (snap_EvidenceBundles old) [wv_Evidence r] = Inr evidence"
    and request: "acq_RequestID (wv_Acquisition r) \<notin> acq_RequestID ` set (snap_EvidenceAcquisitions old)"
    and new: "new = old\<lparr>snap_Case := (snap_Case old)\<lparr>cm_TargetIDs := Some (target_ids_of (snap_Targets old))\<rparr>,
      snap_EvidenceBundles := evidence, snap_EvidenceAcquisitions := snap_EvidenceAcquisitions old @ [wv_Acquisition r]\<rparr>"
    and ok: "Snapshot_Validate (d_win d) new = None"
    using app unfolding appendAcquisition_Inr by blast
  have "ev_EvidenceID (wv_Evidence r) \<in> set (elems (acq_AddedEvidenceIDs (wv_Acquisition r)))"
    by (simp add: acq topology_acquisition_def ev)
  then have "evidence \<noteq> snap_EvidenceBundles old \<or> ev_EvidenceID (wv_Evidence r) \<notin> ev_EvidenceID ` set (snap_EvidenceBundles old)"
    using acquired_is_new [OF valid assms(3) ok] new by blast
  then show "new = old\<lparr>snap_Case := (snap_Case old)\<lparr>cm_TargetIDs := Some (target_ids_of (snap_Targets old))\<rparr>,
      snap_EvidenceBundles := snap_EvidenceBundles old @ [wv_Evidence r],
      snap_EvidenceAcquisitions := snap_EvidenceAcquisitions old @ [wv_Acquisition r]\<rparr>"
    and "ev_EvidenceID (wv_Evidence r) \<notin> ev_EvidenceID ` set (snap_EvidenceBundles old)"
    using merge_one_bundle [OF merge] new by blast+
  show "published d (ci_CommitID info) (wv_CaseView r) w'" "cv_Snapshot (wv_CaseView r) = new"
    using com ok by (auto simp: commitSnapshot_Inr published_def viewFrom_def)
qed (use assms(1) in \<open>auto simp: acquisition_run_def appendAcquisition_Inr\<close>)

section \<open>Boot Doctor on a case\<close>

text \<open>
  A committed analysis is one of the case's own topology evidence: it is either answered from the
  findings the case has, or committed by the command for analyses on the expected head.
\<close>

theorem boot_doctor_commits:
  assumes "CommitBootDoctorAnalysis d ord req w = (Inr r, w')"
  obtains old info w1 ev where "loadLatestVerified d (br_CaseID req) w = (Inr (old, info), w1)"
    and "ev \<in> set (snap_EvidenceBundles old)" "ev_FactsSchema ev = SchemaWindowsBootTopology"
    and "br_TopologyEvidenceID req \<noteq> [] \<Longrightarrow> ev_EvidenceID ev = br_TopologyEvidenceID req"
    and "Analyze ord (analysis_input (br_CaseID req) old ev (bv_Topology r)) = Inr (bv_Findings r)" "bv_Findings r \<noteq> []"
    and "bv_Idempotent r \<and> w' = w1 \<and> cv_Snapshot (bv_CaseView r) = old \<and>
        fnd_FindingID ` set (bv_Findings r) \<subseteq> fnd_FindingID ` set (snap_Findings old) \<or>
      \<not> bv_Idempotent r \<and> br_ExpectedCommitID req = ci_CommitID info \<and>
        CommitAnalysis_cmd d (analysis_request req (defaultActor (br_Actor req) ActorDeterministicAnalyzer) (bv_Findings r)) w1
          = (Inr (bv_CaseView r), w')"
proof -
  obtain old info w1 ev topo fs where load: "loadLatestVerified d (br_CaseID req) w = (Inr (old, info), w1)"
    and sel: "selectTopologyEvidence old (br_TopologyEvidenceID req) = Inr (ev, topo)"
    and run: "Analyze ord (analysis_input (br_CaseID req) old ev topo) = Inr fs" "fs \<noteq> []"
    and rest: "(case findBootDoctorReplay old info (br_RequestID req) fs topo of
        Some r \<Rightarrow> lift_result r
      | None \<Rightarrow>
          andThen (expected_head (br_CaseID req) (br_ExpectedCommitID req) info) (\<lambda>_.
          andThen (CommitAnalysis_cmd d (analysis_request req (defaultActor (br_Actor req) ActorDeterministicAnalyzer) fs)) (\<lambda>view.
            ret \<lparr>bv_CaseView = view, bv_Findings = fs, bv_Topology = topo, bv_Idempotent = False\<rparr>))) w1 = (Inr r, w')"
    using assms unfolding CommitBootDoctorAnalysis_def Let_def by (auto simp: andThen_Inr)
  define found where "found = filter (\<lambda>e. ev_FactsSchema e = SchemaWindowsBootTopology \<and>
      (br_TopologyEvidenceID req \<noteq> [] \<longrightarrow> ev_EvidenceID e = br_TopologyEvidenceID req)) (snap_EvidenceBundles old)"
  note picked = sel [unfolded selectTopologyEvidence_def Let_def, folded found_def]
  have "found \<noteq> []" using picked by (cases "found = []") (simp_all add: err_if_def first_err.simps split: if_splits)
  moreover from this have "ev = last (sort_key ev_EvidenceID found)"
    using picked by (cases "json_unmarshal dec_WindowsBootTopology zero_WindowsBootTopology (elems (ev_Facts (last (sort_key ev_EvidenceID found))))")
      simp_all
  ultimately have "ev \<in> set found" by (metis last_in_set set_sort set_empty)
  then have ev: "ev \<in> set (snap_EvidenceBundles old)" "ev_FactsSchema ev = SchemaWindowsBootTopology"
    "br_TopologyEvidenceID req \<noteq> [] \<Longrightarrow> ev_EvidenceID ev = br_TopologyEvidenceID req"
    by (simp_all add: found_def)
  have known: "fnd_FindingID ` set fs \<subseteq> fnd_FindingID ` set (snap_Findings old)" if "findingsSubsetEqual (snap_Findings old) fs"
    using that by (auto simp: findingsSubsetEqual_def list_all_iff split: option.splits dest!: bspec dest: find_key_mem)
  show ?thesis
  proof (cases "findBootDoctorReplay old info (br_RequestID req) fs topo")
    case (Some x)
    then have "x = Inr r" "w' = w1" using rest by auto
    then show ?thesis
      using that [OF load, of ev] ev run Some known by (auto simp: findBootDoctorReplay_def viewFrom_def split: option.splits if_splits)
  next
    case None
    then show ?thesis using that [OF load, of ev] ev run rest by (auto simp: andThen_Inr)
  qed
qed

end
