(* ===== verification/Spec2Isabelle.thy ===== *)
theory Spec2Isabelle
  imports CommitProperties SnapshotRoundTrip RecoverProperties CaseProperties CommandProperties IntegrityProperties CoordProperties
    ConsultationProperties BootDoctorProperties ResolverProperties AcquisitionProofs
begin

text \<open>
  Effexor WinDoctor: the recovery core.

  The program keeps repair cases. A case is a set of documents (\<^verbatim>\<open>internal/recovery/domain\<close>): the case
  manifest, targets, evidence, findings, repair plans, the workflow state, the audit log of
  coordinator events, evidence acquisitions and the consultations of a language model. The case
  store (\<^verbatim>\<open>internal/recovery/casestore\<close>) keeps every revision of a case as an immutable snapshot
  directory and a chain of commit files; the coordinator (\<^verbatim>\<open>internal/recovery/coordinator\<close>) is the only
  writer: each of its commands loads the head of the chain, checks the revision its caller expected,
  makes one step of the lifecycle and commits the new snapshot under that revision. The target resolver
  (\<^verbatim>\<open>internal/recovery/targetresolver\<close>) reads the evidence of a snapshot, through the typed views of
  \<^verbatim>\<open>internal/recovery/evidenceview\<close>, and builds a Windows boot topology with its own evidence; the boot
  doctor (\<^verbatim>\<open>internal/recovery/bootdoctor\<close>) turns a topology into findings. Everything below is about this
  core, translated from the Go sources with their error texts.

  \<^bold>\<open>Libraries of Go.\<close>
  \<open>Prelude\<close>: \<^verbatim>\<open>error\<close> values with wrapping, the chains of checks that return the first error, the loops
  over indices, \<^verbatim>\<open>strings\<close>, the few patterns of \<^verbatim>\<open>regexp\<close>. A nil slice is \<open>None\<close>, an empty one \<open>Some []\<close>;
  a Go string is the list of its bytes. \<open>GoTime\<close>: RFC 3339 parsing and formatting with the civil
  calendar. \<open>GoJson\<close>: \<^verbatim>\<open>json.Marshal\<close> with its escapes. \<open>GoJsonDecode\<close>: the decoder with
  \<^verbatim>\<open>DisallowUnknownFields\<close>, case-insensitive members, the 10000 levels of nesting of the standard
  library. The texts of JSON errors are abstracted to a few constants; the one place that looks into a text
  (\<^verbatim>\<open>errorsIsUnsupported\<close>) searches words that none of them has.
  \<open>GoHash\<close>: SHA-256 and hexadecimal text, computed. \<open>GoText\<close>: case mapping, prefixes and \<^verbatim>\<open>Sscan\<close> of an
  integer; of the letters outside ASCII only those whose other case is in ASCII are mapped, which decides
  every comparison with the constants of the program. \<open>GoJsonRoundTrip\<close>: decoding undoes encoding;
  \<open>GoJsonValid\<close>: what is encoded is accepted by \<^verbatim>\<open>json.Valid\<close>; \<open>AsciiText\<close>: identifiers and times are ASCII.
  The parser functions recurse through a guard that a rest is shorter than its input, which makes them
  total; \<open>parse_members_step\<close> and \<open>parse_elems_step\<close> show that the guard is always true, so the
  model is the recursion without it.

  \<^bold>\<open>The documents (domain).\<close>
  \<open>DomainBase\<close> has the field checks of \<^verbatim>\<open>validate_helpers.go\<close>; \<open>DomainDocs\<close>, \<open>DomainWorkflow\<close> and
  \<open>DomainAdvisory\<close> one record and one \<open>X_Validate\<close> per struct; \<open>CrossRefs\<close> the reference sets of
  \<^verbatim>\<open>crossrefs.go\<close>; \<open>DocCodec\<close> the encoder and the strict decoder of each struct (\<^verbatim>\<open>decode.go\<close>).
  \<open>DocCodecProofs\<close> proves for each struct, behind the locale \<open>json_codec\<close>, that what is written is
  read back. \<open>DomainWorkflow\<close> also has the specification of the lifecycle as a step relation on an abstract
  phase, with invariants by its inversion rules, and shows that the transition tables of the code are that relation.

  \<^bold>\<open>The case store.\<close>
  \<open>CaseSnapshot\<close> is \<^verbatim>\<open>Snapshot.Validate\<close> and everything it calls in \<^verbatim>\<open>snapshot.go\<close>, the parent expectation
  and the provenance of acquisitions. \<open>CaseManifests\<close> is what is written and checked before a file is
  touched: canonical documents, the snapshot manifest, the commit record, the chain made of commit
  files, the snapshot assembled from documents (\<^verbatim>\<open>commit.go\<close>, \<^verbatim>\<open>load.go\<close>, \<^verbatim>\<open>snapshot.go\<close>).
  \<open>CaseFiles\<close> is the file system: a finite tree of directories, files and links, the calls of \<^verbatim>\<open>os\<close>
  the store makes, and a schedule of faults. \<open>CaseStore\<close> is the store over it: paths, exclusive writes
  by temporary file and rename, the lock of a case, staging, artifacts, publication, \<^verbatim>\<open>Commit\<close>,
  \<^verbatim>\<open>LoadLatest\<close>. An operation is a function of the world (tree, schedule of faults, clock, random
  bytes, cancellation) to a result and the world; every call consumes one entry of the schedule, which
  lets it succeed, fail without effect, or, for a write, leave a prefix of the bytes. A crash is a schedule in
  which every later call fails. The theorems hold for every schedule. What a sync makes durable
  is not modelled: a rename is atomic and keeps its effect.
  \<open>CaseFilesProofs\<close> has the frame calculus (\<open>bounded V G a\<close>: the action \<open>a\<close> changes at will the paths
  in \<open>V\<close> and only adds new entries at paths in \<open>G\<close>), \<open>CaseStoreProofs\<close> the bounds of each step of a
  commit, \<open>CommitProofs\<close> and \<open>CommitChain\<close> the moment the commit file appears and the chain it
  leads to, \<open>CommitProperties\<close> the promises of a commit, \<open>SnapshotStorage\<close> and \<open>SnapshotRoundTrip\<close>
  that the stored documents of a snapshot are read back as that snapshot.
  \<open>CaseRecover\<close> is \<^verbatim>\<open>verify.go\<close> and \<^verbatim>\<open>recover.go\<close> over the same tree: \<^verbatim>\<open>Verify\<close> and \<^verbatim>\<open>InspectRecovery\<close> with
  their reports and \<^verbatim>\<open>CleanupStaging\<close>; the order in which \<^verbatim>\<open>InspectRecovery\<close> ranges over a map is a
  parameter, and the partial report that \<^verbatim>\<open>CleanupStaging\<close> returns beside an error is left out.
  \<open>RecoverProperties\<close>: a clean-up removes only left-overs, a case called ok loads; \<open>PublishedCase\<close> is the tree of a
  case with one commit it is applied to.
  \<open>EventLog\<close>, \<open>SnapshotProofs\<close> and \<open>IntegrityProofs\<close> take \<^verbatim>\<open>Snapshot.Validate\<close> apart: the audit log is
  a run of the lifecycle, references resolve, paths stay inside, one origin per document; \<open>CaseProperties\<close> and
  \<open>IntegrityProperties\<close> state it.

  \<^bold>\<open>The coordinator.\<close>
  \<open>CoordErrors\<close> (\<^verbatim>\<open>errors.go\<close> and \<^verbatim>\<open>errors.Is\<close>), \<open>CoordState\<close> (the monotonic clock, transitions, audit
  references, append-only merges behind the locale \<open>append_only_merge\<close>), \<open>Coordinator\<close> (the commands
  on a world of parameters: store, importer, clock, identifiers) and \<open>Consultations\<close>. \<open>CoordProofs\<close>
  and \<open>CommandProofs\<close> prove once, in the locales of a transition and of a command, what each command
  instantiates; \<open>CommandProperties\<close>, \<open>CoordProperties\<close> and \<open>ConsultationProperties\<close> state it.
  \<open>Acquisitions\<close> and \<open>BootDoctorCommit\<close> are the commands of \<^verbatim>\<open>acquire.go\<close> and \<^verbatim>\<open>bootdoctor.go\<close> that run the
  resolver and the boot doctor on the head of a case; \<open>AcquisitionProofs\<close>: the first appends one piece of
  evidence with the record of its origin, or answers a request it has served, the second commits the findings of
  one of the case's topologies through the command for analyses, or answers from the findings the case has.
  \<open>ExampleCase\<close> and \<open>Examples\<close> hold one concrete case at each point of its life and a store in memory.

  \<^bold>\<open>The boot doctor.\<close>
  \<open>BootDoctorCatalog\<close> (tables), \<open>BootDoctor\<close> (the rules that draft findings, suppression, identities,
  \<^verbatim>\<open>Analyze\<close>); the order in which Go ranges over its map is a parameter. \<open>BootDoctorProofs\<close> and
  \<open>BootDoctorProperties\<close>: validity, suppression, completeness for ineligible topologies, independence of the order.

  \<^bold>\<open>The target resolver.\<close>
  \<open>EvidenceView\<close> has the strict decoding of a facts envelope (\<^verbatim>\<open>facts.go\<close> and \<^verbatim>\<open>facts_export.go\<close> of the legacy
  importer) and \<^verbatim>\<open>view.go\<close>: \<open>DecodeBundle\<close> and one accessor for each kind of entity. \<open>TopologyCodec\<close> is the
  JSON of the topology structs, read back through the locale \<open>json_codec\<close>. \<open>TargetResolver\<close> is
  \<^verbatim>\<open>resolver.go\<close>: the index of a snapshot, the candidates and relations of each role, BitLocker and health,
  the selection of a technician and the automatic one, blockers and eligibility, the identifiers, and
  \<open>Resolve\<close>. Its parameters are the order of a range over the map of views, the clock, and what \<^verbatim>\<open>ctx.Err()\<close> returns.
  \<open>TargetResolverProofs\<close> shows what the parts give and where their references lead, \<open>ResolverValidity\<close> that
  what is built passes the validation of its own document, \<open>ResolverRuns\<close> that a run then returns, with evidence that
  decodes to its topology, unless the selection of a technician is refused or two candidates or relations share a name. \<open>ResolverProperties\<close> states it
  and what eligibility means, on the machine of \<open>ResolverExample\<close> and \<open>ResolverExampleRuns\<close>.

  \<^bold>\<open>Choices and bounds.\<close>
  Workflow revisions and commit sequences are 64-bit words. Sizes that Go keeps in \<^verbatim>\<open>int64\<close> are integers;
  the decoder refuses what does not fit. Names of temporary files and of staging areas are tried 8
  times, as in \<^verbatim>\<open>atomic.go\<close> and \<^verbatim>\<open>commit.go\<close>; these are the bounds of the code, not of the model.
  \<^verbatim>\<open>sort.Slice\<close> is a stable sort here: where the program uses it, keys are distinct or
  equal elements are refused, except for the ambiguities of a topology, of which two may share code and
  targets; Go may then keep either order, of which the model takes one. Path checks are those of the Unix build; \<open>rejectTraversal\<close> takes the build as an argument.

  \<^bold>\<open>Not modelled.\<close>
  The Windows build of the platform calls of the store; the read operations and the command of the coordinator
  that runs them; the legacy importer beyond the decoding of its facts; the agent runtime and
  gateway (they call devices, tools or network services, or prepare data for them; where the core calls them they
  are parameters); shell, collector, session and command packages (user interface and platform tools). The
  manifest of the development lists each with its reason.
\<close>

end
